(* ===== verification/Oms_Prelude.thy ===== *)
theory Oms_Prelude
  imports Complex_Main "HOL-Library.Char_ord" "HOL-Library.List_Lexorder" "HOL-Library.Product_Lexorder"
begin

text \<open>
  What every component shares: the exceptions of \<open>app/core/exceptions.py\<close> as values, the
  sequencing of operations that may raise, loops over a list, the text functions the services
  call (\<open>strip\<close>, \<open>lower\<close>), integer ceiling division, and the row tables the repositories
  read and write.

  An operation that may raise has type \<open>'a result\<close>. \<open>Inl e\<close> is the exception \<open>e\<close>;
  no state comes with it, because the request's session is closed without a commit and the
  database is left as it was at the last commit.
\<close>

named_theorems oms_defs \<open>definitions of operations, for unfolding one level\<close>
named_theorems oms_frame \<open>fields an operation leaves alone\<close>

section \<open>Exceptions as values\<close>

text \<open>
  One constructor per exception class the modelled code raises. The string is the fixed part
  of the message; values interpolated into an f-string are left out. \<open>IntegrityError\<close> is
  SQLAlchemy's exception for a violated constraint, \<open>MultipleResultsFound\<close> its
  exception for a lookup of at most one row that finds more, \<open>DataError\<close> the driver's
  refusal of a value of the wrong type, \<open>ZeroDivisionError\<close> and
  \<open>KeyError\<close> are Python's own.
\<close>

datatype oms_error =
    NotFoundError string
  | ValidationError string
  | ConflictError string
  | AuthenticationError string
  | AuthorizationError string
  | IntegrationError string
  | WebhookVerificationError string
  | RateLimitError string
  | IntegrityError string
  | MultipleResultsFound
  | DataError string
  | ZeroDivisionError
  | KeyError string

fun status_code :: "oms_error \<Rightarrow> int" where
  "status_code (NotFoundError _) = 404"
| "status_code (ValidationError _) = 422"
| "status_code (ConflictError _) = 409"
| "status_code (AuthenticationError _) = 401"
| "status_code (AuthorizationError _) = 403"
| "status_code (IntegrationError _) = 502"
| "status_code (WebhookVerificationError _) = 401"
| "status_code (RateLimitError _) = 429"
| "status_code _ = 500"

type_synonym 'a result = "oms_error + 'a"

definition bindR :: "'a result \<Rightarrow> ('a \<Rightarrow> 'b result) \<Rightarrow> 'b result" where
  "bindR m f = (case m of Inl e \<Rightarrow> Inl e | Inr x \<Rightarrow> f x)"

text \<open>\<open>if not c: raise e\<close>.\<close>

definition require :: "bool \<Rightarrow> oms_error \<Rightarrow> unit result" where
  "require c e = (if c then Inr () else Inl e)"

text \<open>\<open>x = await repo.get(...); if x is None: raise e\<close>.\<close>

definition require_some :: "'a option \<Rightarrow> oms_error \<Rightarrow> 'a result" where
  "require_some x e = (case x of None \<Rightarrow> Inl e | Some v \<Rightarrow> Inr v)"

lemma bindR_simps [simp]:
  "bindR (Inl e) f = Inl e"
  "bindR (Inr x) f = f x"
  by (simp_all add: bindR_def)

lemma bindR_Inr_iff: "bindR m f = Inr y \<longleftrightarrow> (\<exists>x. m = Inr x \<and> f x = Inr y)"
  by (cases m) (auto simp: bindR_def)

lemma bindR_Inl_iff:
  "bindR m f = Inl e \<longleftrightarrow> m = Inl e \<or> (\<exists>x. m = Inr x \<and> f x = Inl e)"
  by (cases m) (auto simp: bindR_def)

lemma bindR_assoc: "bindR (bindR m f) g = bindR m (\<lambda>x. bindR (f x) g)"
  by (cases m) auto

lemma require_simps [simp]:
  "require True e = Inr ()"
  "require False e = Inl e"
  by (simp_all add: require_def)

lemma require_Inr_iff [simp]: "require c e = Inr u \<longleftrightarrow> c"
  by (simp add: require_def)

lemma require_Inl_iff [simp]: "require c e = Inl e' \<longleftrightarrow> \<not> c \<and> e' = e"
  by (auto simp: require_def)

lemma require_some_simps [simp]:
  "require_some None e = Inl e"
  "require_some (Some v) e = Inr v"
  by (simp_all add: require_some_def)

lemma require_some_Inr_iff [simp]: "require_some x e = Inr v \<longleftrightarrow> x = Some v"
  by (cases x) auto

lemma require_some_Inl_iff [simp]: "require_some x e = Inl e' \<longleftrightarrow> x = None \<and> e' = e"
  by (cases x) auto

section \<open>Loops\<close>

text \<open>\<open>for x in xs: body\<close>, where the body may change the state or raise.\<close>

fun for_each :: "('a \<Rightarrow> 's \<Rightarrow> 's result) \<Rightarrow> 'a list \<Rightarrow> 's \<Rightarrow> 's result" where
  "for_each body [] s = Inr s"
| "for_each body (x # xs) s = bindR (body x s) (for_each body xs)"

lemma for_each_append:
  "for_each body (xs @ ys) s = bindR (for_each body xs s) (for_each body ys)"
  by (induction xs arbitrary: s) (auto simp: bindR_def split: sum.splits)

text \<open>The loop rule: an invariant each iteration keeps holds after the loop.\<close>

lemma for_each_invariant:
  assumes "for_each body xs s = Inr s'" and "I s"
    and "\<And>x t t'. x \<in> set xs \<Longrightarrow> I t \<Longrightarrow> body x t = Inr t' \<Longrightarrow> I t'"
  shows "I s'"
  using assms
proof (induction xs arbitrary: s)
  case Nil
  then show ?case by simp
next
  case (Cons x xs)
  then obtain t where t: "body x s = Inr t" "for_each body xs t = Inr s'"
    by (auto simp: bindR_Inr_iff)
  have "I t" using Cons.prems(2) t(1) by (rule Cons.prems(3) [rotated]) simp
  with t(2) show ?case using Cons.prems(3) by (rule Cons.IH) simp_all
qed

text \<open>A relation between the state before and after that is reflexive and transitive.\<close>

lemma for_each_relation:
  assumes "for_each body xs s = Inr s'"
    and refl: "\<And>t. R t t" and trans: "\<And>t u v. R t u \<Longrightarrow> R u v \<Longrightarrow> R t v"
    and step: "\<And>x t t'. x \<in> set xs \<Longrightarrow> body x t = Inr t' \<Longrightarrow> R t t'"
  shows "R s s'"
  using assms(1) step
proof (induction xs arbitrary: s)
  case Nil
  then show ?case by (simp add: refl)
next
  case (Cons x xs)
  then obtain t where t: "body x s = Inr t" "for_each body xs t = Inr s'"
    by (auto simp: bindR_Inr_iff)
  have "R s t" using t(1) by (rule Cons.prems(2) [rotated]) simp
  moreover have "R t s'" using t(2) Cons.prems(2) by (rule Cons.IH) simp_all
  ultimately show ?case by (rule trans)
qed

lemma for_each_fixpoint:
  "(\<And>x. x \<in> set xs \<Longrightarrow> body x s = Inr s) \<Longrightarrow> for_each body xs s = Inr s"
  by (induction xs) auto

section \<open>Text\<close>

text \<open>
  A \<open>char\<close> stands for the code point below 256 of the same number. \<open>is_space\<close> is
  \<open>str.isspace\<close> on that range, \<open>lower_char\<close> is \<open>str.lower\<close> on the ASCII letters.
\<close>

definition is_space :: "char \<Rightarrow> bool" where
  "is_space c \<longleftrightarrow>
     (let n = (of_char c :: nat)
      in (9 \<le> n \<and> n \<le> 13) \<or> (28 \<le> n \<and> n \<le> 32) \<or> n = 133 \<or> n = 160)"

definition strip :: "string \<Rightarrow> string" where
  "strip s = rev (dropWhile is_space (rev (dropWhile is_space s)))"

definition lower_char :: "char \<Rightarrow> char" where
  "lower_char c =
     (let n = (of_char c :: nat) in if 65 \<le> n \<and> n \<le> 90 then char_of (n + 32) else c)"

definition lower :: "string \<Rightarrow> string" where
  "lower s = map lower_char s"

lemma strip_Nil [simp]: "strip [] = []"
  by (simp add: strip_def)

text \<open>\<open>if not reason or not reason.strip()\<close>: the text has nothing but white space.\<close>

lemma dropWhile_rev_Nil: "dropWhile P (rev xs) = [] \<longleftrightarrow> (\<forall>x\<in>set xs. P x)"
  by simp

lemma strip_eq_Nil_iff: "strip s = [] \<longleftrightarrow> (\<forall>c\<in>set s. is_space c)"
proof -
  have "strip s = [] \<longleftrightarrow> (\<forall>c\<in>set (dropWhile is_space s). is_space c)"
    by (simp add: strip_def)
  also have "\<dots> \<longleftrightarrow> (\<forall>c\<in>set s. is_space c)"
    by (induction s) auto
  finally show ?thesis .
qed

lemma dropWhile_idem_hd: "xs \<noteq> [] \<Longrightarrow> \<not> P (hd xs) \<Longrightarrow> dropWhile P xs = xs"
  by (cases xs) auto

lemma strip_idem [simp]: "strip (strip s) = strip s"
proof -
  define a where "a = dropWhile is_space s"
  define b where "b = rev (dropWhile is_space (rev a))"
  have s: "strip s = b" by (simp add: strip_def a_def b_def)
  have "dropWhile is_space b = b"
  proof (cases "b = []")
    case False
    then have ne: "dropWhile is_space (rev a) \<noteq> []" by (simp add: b_def)
    then have "a \<noteq> []" by auto
    then have hd_a: "\<not> is_space (hd a)" unfolding a_def by (rule hd_dropWhile)
    have "rev a = takeWhile is_space (rev a) @ dropWhile is_space (rev a)" by simp
    then have "a = b @ rev (takeWhile is_space (rev a))"
      unfolding b_def by (metis rev_append rev_rev_ident)
    with False have "hd a = hd b" by (metis hd_append2)
    with hd_a False show ?thesis by (simp add: dropWhile_idem_hd)
  qed simp
  moreover have "dropWhile is_space (rev b) = rev b"
    by (simp add: b_def)
  ultimately show ?thesis unfolding s by (simp add: strip_def)
qed

text \<open>\<open>x.strip() if x and x.strip() else None\<close>, the cleaning of optional text fields.\<close>

definition clean_text :: "string option \<Rightarrow> string option" where
  "clean_text r = (case r of None \<Rightarrow> None | Some t \<Rightarrow> if strip t = [] then None else Some (strip t))"

lemma clean_text_idem [simp]: "clean_text (clean_text r) = clean_text r"
  by (auto simp: clean_text_def split: option.splits)

text \<open>\<open>str(n)\<close> for an integer, as f-strings render it.\<close>

fun show_nat :: "nat \<Rightarrow> string" where
  "show_nat n = (if n < 10 then [char_of (48 + n)] else show_nat (n div 10) @ [char_of (48 + n mod 10)])"

declare show_nat.simps [simp del]

definition show_int :: "int \<Rightarrow> string" where
  "show_int i = (if i < 0 then ''-'' @ show_nat (nat (- i)) else show_nat (nat i))"

section \<open>Row tables\<close>

text \<open>
  A database table is the list of its rows in the order they were written. A query that
  filters is \<open>filter\<close>, a lookup by key is the first row with that key, and
  \<open>set_where\<close> writes the rows that match.
\<close>

definition row_by :: "('r \<Rightarrow> 'k) \<Rightarrow> 'r list \<Rightarrow> 'k \<Rightarrow> 'r option" where
  "row_by key rows k = find (\<lambda>r. key r = k) rows"

definition set_where :: "('r \<Rightarrow> bool) \<Rightarrow> ('r \<Rightarrow> 'r) \<Rightarrow> 'r list \<Rightarrow> 'r list" where
  "set_where p f rows = map (\<lambda>r. if p r then f r else r) rows"

lemma row_by_simps [simp]:
  "row_by key [] k = None"
  "row_by key (r # rs) k = (if key r = k then Some r else row_by key rs k)"
  by (simp_all add: row_by_def)

lemma row_by_SomeD: "row_by key rows k = Some r \<Longrightarrow> r \<in> set rows \<and> key r = k"
  by (induction rows) (auto split: if_splits)

lemma row_by_key [dest]: "row_by key rows k = Some r \<Longrightarrow> key r = k"
  using row_by_SomeD [of key rows k r] by blast

lemma row_by_None_iff: "row_by key rows k = None \<longleftrightarrow> k \<notin> key ` set rows"
  by (induction rows) auto

lemma row_by_distinct:
  "distinct (map key rows) \<Longrightarrow> r \<in> set rows \<Longrightarrow> row_by key rows (key r) = Some r"
  by (induction rows) force+

lemma row_by_append:
  "row_by key (xs @ ys) k = (case row_by key xs k of None \<Rightarrow> row_by key ys k | Some r \<Rightarrow> Some r)"
  by (induction xs) auto

lemma set_where_keys:
  "(\<And>r. key (f r) = key r) \<Longrightarrow> map key (set_where p f rows) = map key rows"
  by (simp add: set_where_def)

lemma row_by_set_where:
  assumes "\<And>r. key (f r) = key r"
  shows "row_by key (set_where (\<lambda>r. key r = k) f rows) k' =
    (if k' = k then map_option f (row_by key rows k) else row_by key rows k')"
  using assms by (induction rows) (auto simp: set_where_def)

section \<open>Integers\<close>

text \<open>
  \<open>_ceil_div\<close> of \<open>inventory_service.py\<close>: Python's \<open>//\<close> rounds towards minus infinity,
  as \<open>div\<close> does; a zero divisor raises.
\<close>

definition ceil_div :: "int \<Rightarrow> int \<Rightarrow> int result" where
  "ceil_div numerator denominator =
     (if denominator = 0 then Inl ZeroDivisionError
      else Inr (- ((- numerator) div denominator)))"

lemma ceil_div_pos:
  "0 < d \<Longrightarrow> ceil_div n d = Inr (- ((- n) div d))"
  by (simp add: ceil_div_def)

lemma ceil_div_bounds:
  assumes "0 < d" and "ceil_div n d = Inr c"
  shows "n \<le> c * d" and "(c - 1) * d < n"
proof -
  have c: "c = - ((- n) div d)" using assms by (simp add: ceil_div_def)
  have eq: "- n = ((- n) div d) * d + (- n) mod d" by simp
  have "0 \<le> (- n) mod d" "(- n) mod d < d" using assms(1) by auto
  moreover have "c * d = - (((- n) div d) * d)" "(c - 1) * d = - (((- n) div d) * d) - d"
    by (simp_all add: c algebra_simps)
  ultimately show "n \<le> c * d" "(c - 1) * d < n"
    using eq by linarith+
qed

lemma ceil_div_ceiling:
  assumes "0 < d"
  shows "ceil_div n d = Inr \<lceil>rat_of_int n / rat_of_int d\<rceil>"
proof -
  have "\<lceil>rat_of_int n / rat_of_int d\<rceil> = - \<lfloor>rat_of_int (- n) / rat_of_int d\<rfloor>"
    by (simp add: ceiling_def)
  also have "\<dots> = - ((- n) div d)"
    by (simp only: floor_divide_of_int_eq)
  finally show ?thesis using assms by (simp add: ceil_div_def)
qed

lemma ceil_div_one [simp]: "ceil_div n 1 = Inr n"
  by (simp add: ceil_div_def)

lemma ceil_div_nonneg: "0 < d \<Longrightarrow> 0 \<le> n \<Longrightarrow> ceil_div n d = Inr c \<Longrightarrow> 0 \<le> c"
  using ceil_div_bounds [of d n c] by (smt (verit) mult_less_0_iff)

lemma sum_list_split:
  fixes f :: "'a \<Rightarrow> int"
  shows "sum_list (map f xs) = sum_list (map f (filter P xs)) + sum_list (map f (filter (\<lambda>x. \<not> P x) xs))"
  by (induction xs) auto

end
