(* ===== verification/Oms_Store.thy ===== *)
theory Oms_Store
  imports Oms_Prelude
begin

text \<open>
  The part of the database every service shares (\<open>app/repositories/base.py\<close>,
  \<open>app/services/audit_service.py\<close>), and the interface of a running-balance ledger, which
  four tables of the system implement.

  \<open>base_db\<close> is extended by each component with its own tables, so an operation is written
  for every extension of the tables it uses. \<open>next_id\<close> is the source of fresh primary keys
  (\<open>uuid4\<close>), \<open>clock\<close> the time of the running transaction in microseconds; \<open>tick\<close> is
  a reading of the Python clock, later than the one before.
\<close>

type_synonym uuid = nat

datatype jval = JNull | JInt int | JStr string | JBool bool | JId uuid | JNum rat | JList "jval list"

record audit_row =
  au_id :: uuid
  au_user :: "uuid option"
  au_action :: string
  au_entity_type :: string
  au_entity :: uuid
  au_previous :: "(string \<times> jval) list"
  au_new :: "(string \<times> jval) list"
  au_metadata :: "(string \<times> jval) list"
  au_at :: int

record base_db =
  clock :: int
  next_id :: uuid
  audit_log :: "audit_row list"

definition tick :: "'a base_db_scheme \<Rightarrow> 'a base_db_scheme" where
  "tick s = s\<lparr>clock := clock s + 1\<rparr>"

definition fresh :: "'a base_db_scheme \<Rightarrow> 'a base_db_scheme" where
  "fresh s = s\<lparr>next_id := Suc (next_id s)\<rparr>"

text \<open>\<open>AuditService.record\<close>: append one row.\<close>

definition audit_record ::
  "uuid option \<Rightarrow> string \<Rightarrow> string \<Rightarrow> uuid \<Rightarrow> (string \<times> jval) list \<Rightarrow> (string \<times> jval) list
   \<Rightarrow> (string \<times> jval) list \<Rightarrow> 'a base_db_scheme \<Rightarrow> 'a base_db_scheme" where
  "audit_record user action entity_type entity previous new metadata s =
     fresh (s\<lparr>audit_log := audit_log s @
       [\<lparr>au_id = next_id s, au_user = user, au_action = action, au_entity_type = entity_type,
         au_entity = entity, au_previous = previous, au_new = new, au_metadata = metadata,
         au_at = clock s\<rparr>]\<rparr>)"

lemma tick_simps [simp]:
  "clock (tick s) = clock s + 1"
  "next_id (tick s) = next_id s"
  "audit_log (tick s) = audit_log s"
  by (simp_all add: tick_def)

lemma fresh_simps [simp]:
  "clock (fresh s) = clock s"
  "next_id (fresh s) = Suc (next_id s)"
  "audit_log (fresh s) = audit_log s"
  by (simp_all add: fresh_def)

lemma audit_record_simps [simp]:
  "clock (audit_record u a t e p n m s) = clock s"
  "next_id (audit_record u a t e p n m s) = Suc (next_id s)"
  "audit_log (audit_record u a t e p n m s) = audit_log s @
     [\<lparr>au_id = next_id s, au_user = u, au_action = a, au_entity_type = t, au_entity = e,
       au_previous = p, au_new = n, au_metadata = m, au_at = clock s\<rparr>]"
  by (simp_all add: audit_record_def)

section \<open>Running-balance ledgers\<close>

text \<open>
  A ledger row is a pair (\<open>quantity_delta\<close>, \<open>quantity_after\<close>). \<open>chain b rows\<close>: starting
  from balance \<open>b\<close>, every row's \<open>quantity_after\<close> is the balance before it plus its delta.
\<close>

type_synonym ledger_row = "int \<times> int"

fun chain :: "int \<Rightarrow> ledger_row list \<Rightarrow> bool" where
  "chain b [] \<longleftrightarrow> True"
| "chain b ((d, a) # rows) \<longleftrightarrow> a = b + d \<and> chain a rows"

definition deltas :: "ledger_row list \<Rightarrow> int" where
  "deltas rows = sum_list (map fst rows)"

lemma deltas_simps [simp]:
  "deltas [] = 0"
  "deltas (r # rows) = fst r + deltas rows"
  "deltas (xs @ ys) = deltas xs + deltas ys"
  by (simp_all add: deltas_def)

lemma chain_append:
  "chain b (xs @ ys) \<longleftrightarrow> chain b xs \<and> chain (b + deltas xs) ys"
  by (induction b xs rule: chain.induct) (auto simp: add.assoc)

lemma chain_last: "chain b rows \<Longrightarrow> rows \<noteq> [] \<Longrightarrow> snd (last rows) = b + deltas rows"
  by (induction b rows rule: chain.induct) (auto simp: add.assoc)

locale running_ledger =
  fixes balance :: "'s \<Rightarrow> 'k \<Rightarrow> int"
    and rows :: "'s \<Rightarrow> 'k \<Rightarrow> ledger_row list"
    and can :: "'s \<Rightarrow> 'k \<Rightarrow> bool"
    and post :: "'k \<Rightarrow> int \<Rightarrow> 's \<Rightarrow> 's"
  assumes can_post: "can s k \<Longrightarrow> can s k' \<Longrightarrow> can (post k d s) k'"
    and balance_post: "can s k \<Longrightarrow>
      balance (post k d s) k' = balance s k' + (if k' = k then d else 0)"
    and rows_post: "can s k \<Longrightarrow>
      rows (post k d s) k' = rows s k' @ (if k' = k then [(d, balance s k + d)] else [])"
begin

text \<open>The balance before the first recorded row.\<close>

definition initial :: "'s \<Rightarrow> 'k \<Rightarrow> int" where
  "initial s k = balance s k - deltas (rows s k)"

text \<open>The ledger explains the balance: every row continues from the one before.\<close>

definition reconciled :: "'s \<Rightarrow> 'k \<Rightarrow> bool" where
  "reconciled s k \<longleftrightarrow> chain (initial s k) (rows s k)"

lemma initial_post: "can s k \<Longrightarrow> initial (post k d s) k' = initial s k'"
  by (simp add: initial_def balance_post rows_post)

lemma reconciled_post: "can s k \<Longrightarrow> reconciled s k' \<Longrightarrow> reconciled (post k d s) k'"
  by (auto simp: reconciled_def balance_post rows_post chain_append initial_def)

lemma reconciled_last:
  "reconciled s k \<Longrightarrow> rows s k \<noteq> [] \<Longrightarrow> snd (last (rows s k)) = balance s k"
  by (auto simp: reconciled_def initial_def dest: chain_last)

lemma reconciled_balance: "balance s k = initial s k + deltas (rows s k)"
  by (simp add: initial_def)

text \<open>Posting a batch: each balance moves by the sum of its own deltas, in any order.\<close>

fun post_all :: "('k \<times> int) list \<Rightarrow> 's \<Rightarrow> 's" where
  "post_all [] s = s"
| "post_all ((k, d) # ps) s = post_all ps (post k d s)"

lemma can_post_all: "\<forall>p\<in>set ps. can s (fst p) \<Longrightarrow> can s k' \<Longrightarrow> can (post_all ps s) k'"
  by (induction ps s rule: post_all.induct) (auto simp: can_post)

lemma balance_post_all:
  "\<forall>p\<in>set ps. can s (fst p) \<Longrightarrow>
    balance (post_all ps s) k' = balance s k' + sum_list (map snd (filter (\<lambda>p. fst p = k') ps))"
  by (induction ps s rule: post_all.induct) (auto simp: can_post balance_post)

lemma cancel_post:
  "can s k \<Longrightarrow> balance (post k (- d) (post k d s)) k' = balance s k'"
  by (simp add: balance_post can_post)

end

section \<open>Ledgers dated by hand\<close>

text \<open>
  The manual ledgers carry a business date that the user may choose. An entry is
  (\<open>stock_date\<close>, (\<open>quantity_delta\<close>, \<open>quantity_after\<close>)), in the order written; the balance as
  of a date is \<open>quantity_after\<close> of the latest row by date, then by time written. \<open>latest\<close>
  reads it, \<open>append\<close> adds a row that continues from it. The ledger is a running sum as long
  as no entry is dated before an earlier one.
\<close>

definition entries_upto :: "int \<Rightarrow> (int \<times> 'r) list \<Rightarrow> (int \<times> 'r) list" where
  "entries_upto d es = filter (\<lambda>e. fst e \<le> d) es"

definition balance_of :: "(int \<times> ledger_row) list \<Rightarrow> int" where
  "balance_of es = (if es = [] then 0 else snd (snd (last es)))"

locale dated_ledger =
  fixes entries :: "'s \<Rightarrow> 'k \<Rightarrow> (int \<times> ledger_row) list"
    and latest :: "'s \<Rightarrow> 'k \<Rightarrow> int \<Rightarrow> int"
    and ready :: "'s \<Rightarrow> bool"
    and appended :: "'k \<Rightarrow> int \<Rightarrow> int \<Rightarrow> 's \<Rightarrow> 's \<Rightarrow> bool"
  assumes latest_in_order:
      "ready s \<Longrightarrow> sorted (map fst (entries s k)) \<Longrightarrow> latest s k d = balance_of (entries_upto d (entries s k))"
    and entries_append: "ready s \<Longrightarrow> appended k d x s s' \<Longrightarrow> entries s' k' =
      entries s k' @ (if k' = k then [(d, (x, latest s k d + x))] else [])"
    and ready_append: "ready s \<Longrightarrow> appended k d x s s' \<Longrightarrow> ready s'"
begin

text \<open>Dated in the order written, and every row continues from the one before.\<close>

definition faithful :: "'s \<Rightarrow> 'k \<Rightarrow> bool" where
  "faithful s k \<longleftrightarrow> sorted (map fst (entries s k)) \<and> chain 0 (map snd (entries s k))"

definition running_sum :: "'s \<Rightarrow> 'k \<Rightarrow> int \<Rightarrow> int" where
  "running_sum s k d = deltas (map snd (entries_upto d (entries s k)))"

lemma balance_of_chain: "chain 0 (map snd es) \<Longrightarrow> balance_of es = deltas (map snd es)"
  using chain_last [of 0 "map snd es"] by (cases es) (auto simp: balance_of_def last_map split: list.split)

lemma entries_upto_sorted:
  assumes "sorted (map fst es)"
  shows "\<exists>rest. es = entries_upto d es @ rest"
  using assms
proof (induction es)
  case (Cons e es)
  show ?case
  proof (cases "fst e \<le> d")
    case True
    with Cons show ?thesis by (auto simp: entries_upto_def)
  next
    case False
    then have "entries_upto d (e # es) = []"
      using Cons.prems by (auto simp: entries_upto_def filter_empty_conv)
    then show ?thesis by simp
  qed
qed (simp add: entries_upto_def)

lemma entries_upto_chain:
  assumes "faithful s k"
  shows "chain 0 (map snd (entries_upto d (entries s k)))"
proof -
  obtain rest where "entries s k = entries_upto d (entries s k) @ rest"
    using assms entries_upto_sorted [of "entries s k" d] by (auto simp: faithful_def)
  with assms show ?thesis by (metis chain_append faithful_def map_append)
qed

text \<open>The balance as of a date is the sum of what was entered up to it.\<close>

lemma latest_running_sum:
  assumes "ready s" and "faithful s k"
  shows "latest s k d = running_sum s k d"
  using latest_in_order [of s k d] assms balance_of_chain [OF entries_upto_chain [OF assms(2)]]
  by (simp add: faithful_def running_sum_def)

lemma entries_upto_all: "\<forall>e\<in>set es. fst e \<le> d \<Longrightarrow> entries_upto d es = es"
  by (simp add: entries_upto_def)

lemma faithful_append:
  assumes "ready s" and "appended k d x s s'" and "faithful s k'"
    and "k' = k \<Longrightarrow> \<forall>e\<in>set (entries s k). fst e \<le> d"
  shows "faithful s' k'"
proof (cases "k' = k")
  case True
  have "latest s k d = deltas (map snd (entries s k))"
    using latest_running_sum [of s k d] assms True by (simp add: running_sum_def entries_upto_all)
  with assms True show ?thesis
    by (auto simp: faithful_def entries_append [OF assms(1,2)] sorted_append chain_append)
qed (use assms in \<open>simp add: faithful_def entries_append [OF assms(1,2)]\<close>)

lemma latest_append:
  assumes "ready s" and "appended k d x s s'" and "faithful s k" and "\<forall>e\<in>set (entries s k). fst e \<le> d"
  shows "latest s' k d = latest s k d + x"
  using assms latest_running_sum [of s k d] latest_running_sum [of s' k d]
    faithful_append [of s k d x s' k] ready_append [OF assms(1,2)]
  by (simp add: running_sum_def entries_append [OF assms(1,2)] entries_upto_def)

text \<open>A day's closing balance is its opening balance plus what was entered on it.\<close>

lemma closing_opening:
  assumes "ready s" and "faithful s k"
  shows "latest s k d = latest s k (d - 1) + sum_list [fst (snd e). e \<leftarrow> entries s k, fst e = d]"
proof -
  have "deltas (map snd (entries_upto d es)) = deltas (map snd (entries_upto (d - 1) es)) + sum_list [fst (snd e). e \<leftarrow> es, fst e = d]"
    for es by (induction es) (auto simp: entries_upto_def deltas_def)
  then show ?thesis using assms by (simp add: latest_running_sum running_sum_def)
qed

text \<open>A row and its exact negative cancel.\<close>

lemma append_cancel:
  assumes "ready s" and "appended k d x s s1" and "appended k d (- x) s1 s2"
    and "faithful s k" and "\<forall>e\<in>set (entries s k). fst e \<le> d"
  shows "latest s2 k d = latest s k d"
proof -
  have "\<forall>e\<in>set (entries s1 k). fst e \<le> d" using assms by (auto simp: entries_append [OF assms(1,2)])
  moreover have "ready s1" "faithful s1 k"
    using ready_append [OF assms(1,2)] faithful_append [OF assms(1,2,4)] assms(5) by blast+
  ultimately show ?thesis using assms latest_append [of s k d x s1] latest_append [of s1 k d "- x" s2] by simp
qed

end

end
