(* ===== verification/Stock.thy ===== *)
theory Stock
  imports Oms_Store "HOL-Library.Multiset"
begin

text \<open>
  The OMS stock ledger: \<open>app/services/inventory_service.py\<close> with the repositories of
  \<open>app/repositories/inventory.py\<close> and \<open>app/repositories/product.py\<close>. A variant's
  \<open>available_quantity\<close> is moved by dispatch, RTO restock and manual additions only, each
  move writing one \<open>InventoryMovement\<close> row; a catalog variant's total is the sum of its
  members' stock and of its own adjustment ledger.

  \<open>unseen_moves\<close> holds the keys of movement rows that concurrent transactions committed
  after the running transaction took its snapshot: its queries do not return them, the unique
  constraint of \<open>inventory_movements\<close> rejects a second row with such a key.
\<close>

section \<open>Tables\<close>

datatype movement_type = DISPATCH | RTO_RESTOCK | MANUAL_ADJUSTMENT | INITIAL_STOCK

datatype stock_status = IN_STOCK | LOW_STOCK | OUT_OF_STOCK

record product =
  p_id :: uuid
  p_title :: string
  p_title_override :: "string option"

record catalog_variant =
  cv_id :: uuid
  cv_product :: uuid
  cv_name :: string
  cv_display_order :: int
  cv_is_active :: bool

record product_variant =
  pv_id :: uuid
  pv_product :: uuid
  pv_sku :: string
  pv_title :: "string option"
  pv_title_override :: "string option"
  pv_available :: int
  pv_packets_per_box :: int
  pv_pack_size :: int
  pv_catalog_variant :: "uuid option"
  pv_source :: string
  pv_external :: "string option"

record inventory_movement =
  im_id :: uuid
  im_variant :: uuid
  im_type :: movement_type
  im_delta :: int
  im_after :: int
  im_order :: "uuid option"
  im_shipment :: "uuid option"
  im_rto :: "uuid option"
  im_actor :: "uuid option"
  im_reason :: "string option"
  im_created :: int

record stock_adjustment =
  sa_id :: uuid
  sa_catalog_variant :: "uuid option"
  sa_product :: "uuid option"
  sa_movement :: "uuid option"
  sa_delta :: int
  sa_after :: int
  sa_reason :: string
  sa_actor :: "uuid option"
  sa_created :: int

record order_item =
  oi_id :: uuid
  oi_order :: uuid
  oi_variant :: "uuid option"
  oi_sku :: string
  oi_product_name :: string
  oi_quantity :: int
  oi_unit_price :: rat
  oi_discount :: rat
  oi_tax :: rat
  oi_total :: rat
  oi_source :: string
  oi_external :: "string option"

type_synonym move_key = "uuid \<times> uuid \<times> movement_type"

record stock_db = base_db +
  products :: "product list"
  catalog_variants :: "catalog_variant list"
  product_variants :: "product_variant list"
  inventory_movements :: "inventory_movement list"
  stock_adjustments :: "stock_adjustment list"
  order_items :: "order_item list"
  unseen_moves :: "move_key list"

section \<open>Repositories\<close>

definition product_by :: "'a stock_db_scheme \<Rightarrow> uuid \<Rightarrow> product option" where
  "product_by s = row_by p_id (products s)"

definition variant_by :: "'a stock_db_scheme \<Rightarrow> uuid \<Rightarrow> product_variant option" where
  "variant_by s = row_by pv_id (product_variants s)"

definition variant_by_sku :: "'a stock_db_scheme \<Rightarrow> string \<Rightarrow> product_variant option" where
  "variant_by_sku s = row_by pv_sku (product_variants s)"

definition catalog_variant_by :: "'a stock_db_scheme \<Rightarrow> uuid \<Rightarrow> catalog_variant option" where
  "catalog_variant_by s = row_by cv_id (catalog_variants s)"

definition variants_for_product :: "'a stock_db_scheme \<Rightarrow> uuid \<Rightarrow> product_variant list" where
  "variants_for_product s p = filter (\<lambda>v. pv_product v = p) (product_variants s)"

definition variants_for_catalog :: "'a stock_db_scheme \<Rightarrow> uuid \<Rightarrow> product_variant list" where
  "variants_for_catalog s c = filter (\<lambda>v. pv_catalog_variant v = Some c) (product_variants s)"

definition catalog_for_product :: "'a stock_db_scheme \<Rightarrow> uuid \<Rightarrow> catalog_variant list" where
  "catalog_for_product s p =
     sort_key (\<lambda>c. (cv_display_order c, cv_name c)) (filter (\<lambda>c. cv_product c = p) (catalog_variants s))"

definition items_for_order :: "'a stock_db_scheme \<Rightarrow> uuid \<Rightarrow> order_item list" where
  "items_for_order s ord = filter (\<lambda>i. oi_order i = ord) (order_items s)"

text \<open>\<open>BaseRepository.update\<close> on one variant's row.\<close>

definition variant_update ::
  "uuid \<Rightarrow> (product_variant \<Rightarrow> product_variant) \<Rightarrow> 'a stock_db_scheme \<Rightarrow> 'a stock_db_scheme" where
  "variant_update vid f s =
     s\<lparr>product_variants := set_where (\<lambda>v. pv_id v = vid) f (product_variants s)\<rparr>"

definition movements_for ::
  "'a stock_db_scheme \<Rightarrow> uuid \<Rightarrow> uuid \<Rightarrow> movement_type \<Rightarrow> inventory_movement list" where
  "movements_for s ord vid t =
     filter (\<lambda>m. im_order m = Some ord \<and> im_variant m = vid \<and> im_type m = t) (inventory_movements s)"

definition get_for_order ::
  "'a stock_db_scheme \<Rightarrow> uuid \<Rightarrow> uuid \<Rightarrow> movement_type \<Rightarrow> inventory_movement option" where
  "get_for_order s ord vid t =
     (case sort_key (\<lambda>m. (im_created m, im_id m)) (movements_for s ord vid t) of
        [] \<Rightarrow> None | m # _ \<Rightarrow> Some m)"

definition exists_for_order ::
  "'a stock_db_scheme \<Rightarrow> uuid \<Rightarrow> uuid \<Rightarrow> movement_type \<Rightarrow> bool" where
  "exists_for_order s ord vid t \<longleftrightarrow> get_for_order s ord vid t \<noteq> None"

text \<open>
  \<open>InventoryMovementRepository.create\<close> under the constraint
  \<open>uq_inventory_movements_variant_order_type\<close>: two rows never share a variant, an order and
  a type; a row without an order is never restricted.
\<close>

definition move_keys :: "'a stock_db_scheme \<Rightarrow> move_key list" where
  "move_keys s = [(im_variant m, the (im_order m), im_type m). m \<leftarrow> inventory_movements s, im_order m \<noteq> None]"

definition movement_create ::
  "uuid \<Rightarrow> movement_type \<Rightarrow> int \<Rightarrow> int \<Rightarrow> uuid option \<Rightarrow> uuid option \<Rightarrow> uuid option \<Rightarrow> uuid option
   \<Rightarrow> string \<Rightarrow> 'a stock_db_scheme \<Rightarrow> (inventory_movement \<times> 'a stock_db_scheme) result" where
  "movement_create vid t delta after ord shipment rto actor reason s =
     (let row = \<lparr>im_id = next_id s, im_variant = vid, im_type = t, im_delta = delta,
                 im_after = after, im_order = ord, im_shipment = shipment, im_rto = rto,
                 im_actor = actor, im_reason = Some reason, im_created = clock s\<rparr>
      in if (case ord of None \<Rightarrow> False
             | Some ord \<Rightarrow> (vid, ord, t) \<in> set (move_keys s) \<union> set (unseen_moves s))
         then Inl (IntegrityError ''uq_inventory_movements_variant_order_type'')
         else Inr (row, fresh (s\<lparr>inventory_movements := inventory_movements s @ [row]\<rparr>)))"

text \<open>\<open>CatalogVariantStockAdjustmentRepository\<close>.\<close>

definition sum_for_catalog_variant :: "'a stock_db_scheme \<Rightarrow> uuid \<Rightarrow> int" where
  "sum_for_catalog_variant s c =
     sum_list (map sa_delta (filter (\<lambda>a. sa_catalog_variant a = Some c) (stock_adjustments s)))"

text \<open>The rows of \<open>sum_by_product\<close>'s join, before they are grouped: one per adjustment of one
  of the product's catalog variants.\<close>

definition sum_by_product :: "'a stock_db_scheme \<Rightarrow> uuid \<Rightarrow> (uuid \<times> int) list" where
  "sum_by_product s p =
     [(cv_id c, sum_for_catalog_variant s (cv_id c)).
        c \<leftarrow> catalog_variants s, cv_product c = p,
        \<exists>a\<in>set (stock_adjustments s). sa_catalog_variant a = Some (cv_id c)]"

definition sum_product_level :: "'a stock_db_scheme \<Rightarrow> uuid \<Rightarrow> int" where
  "sum_product_level s p =
     sum_list (map sa_delta (filter (\<lambda>a. sa_product a = Some p) (stock_adjustments s)))"

definition adjustment_for_movement :: "'a stock_db_scheme \<Rightarrow> uuid \<Rightarrow> stock_adjustment option" where
  "adjustment_for_movement s m = find (\<lambda>a. sa_movement a = Some m) (stock_adjustments s)"

text \<open>
  \<open>create\<close> under the table's unique constraint on the linked marketplace movement and its
  check that exactly one of the two scopes is set.
\<close>

definition adjustment_create ::
  "uuid option \<Rightarrow> uuid option \<Rightarrow> uuid option \<Rightarrow> int \<Rightarrow> int \<Rightarrow> string \<Rightarrow> uuid option
   \<Rightarrow> 'a stock_db_scheme \<Rightarrow> (stock_adjustment \<times> 'a stock_db_scheme) result" where
  "adjustment_create cv p mv delta after reason actor s =
     (let row = \<lparr>sa_id = next_id s, sa_catalog_variant = cv, sa_product = p, sa_movement = mv,
                 sa_delta = delta, sa_after = after, sa_reason = reason, sa_actor = actor,
                 sa_created = clock s\<rparr>
      in if mv \<noteq> None \<and> (\<exists>a\<in>set (stock_adjustments s). sa_movement a = mv)
         then Inl (IntegrityError ''uq_cv_stock_adjustments_product_marketplace_movement_id'')
         else if (cv = None) = (p = None)
         then Inl (IntegrityError ''ck_cv_stock_adjustments_exactly_one_scope'')
         else Inr (row, fresh (s\<lparr>stock_adjustments := stock_adjustments s @ [row]\<rparr>)))"

section \<open>Reads\<close>

definition compute_stock_status :: "int \<Rightarrow> int \<Rightarrow> stock_status" where
  "compute_stock_status available_boxes threshold =
     (if available_boxes \<le> 0 then OUT_OF_STOCK
      else if available_boxes \<le> threshold then LOW_STOCK
      else IN_STOCK)"

definition list_variants_for_product ::
  "uuid \<Rightarrow> 'a stock_db_scheme \<Rightarrow> (product \<times> product_variant list) result" where
  "list_variants_for_product p s =
     bindR (require_some (product_by s p) (NotFoundError ''Product not found.'')) (\<lambda>product.
     Inr (product, variants_for_product s p))"

definition get_variant_stock :: "uuid \<Rightarrow> 'a stock_db_scheme \<Rightarrow> product_variant result" where
  "get_variant_stock vid s =
     require_some (variant_by s vid) (NotFoundError ''Product variant not found.'')"

definition resolve_variant ::
  "'a stock_db_scheme \<Rightarrow> uuid option \<Rightarrow> string \<Rightarrow> product_variant option" where
  "resolve_variant s product_variant_id sku =
     (case product_variant_id of
        None \<Rightarrow> variant_by_sku s sku
      | Some vid \<Rightarrow> (case variant_by s vid of Some v \<Rightarrow> Some v | None \<Rightarrow> variant_by_sku s sku))"

abbreviation line_variant :: "'a stock_db_scheme \<Rightarrow> order_item \<Rightarrow> product_variant option" where
  "line_variant s item \<equiv> resolve_variant s (oi_variant item) (oi_sku item)"

record shortage =
  sh_sku :: string
  sh_product_name :: string
  sh_available :: int
  sh_required :: int
  sh_required_packets :: int

text \<open>One iteration of \<open>check_stock_available\<close>: the shortages found so far, with this line's.\<close>

definition check_line ::
  "'a stock_db_scheme \<Rightarrow> order_item \<Rightarrow> shortage list \<Rightarrow> shortage list result" where
  "check_line s item shortages =
     (if oi_quantity item \<le> 0 then Inr shortages
      else case line_variant s item of
        None \<Rightarrow> Inr shortages
      | Some v \<Rightarrow>
          bindR (ceil_div (oi_quantity item * pv_pack_size v) (pv_packets_per_box v)) (\<lambda>required_boxes.
          Inr (if pv_available v < required_boxes
               then shortages @ [\<lparr>sh_sku = oi_sku item, sh_product_name = oi_product_name item,
                                  sh_available = pv_available v, sh_required = required_boxes,
                                  sh_required_packets = oi_quantity item\<rparr>]
               else shortages)))"

definition check_stock_available :: "uuid \<Rightarrow> 'a stock_db_scheme \<Rightarrow> shortage list result" where
  "check_stock_available ord s = for_each (check_line s) (items_for_order s ord) []"

subsection \<open>OMS-visible variants\<close>

record oms_variant_group =
  og_catalog_variant :: "uuid option"
  og_name :: string
  og_display_order :: int
  og_is_active :: bool
  og_variants :: "product_variant list"

text \<open>A dictionary of buckets in insertion order; \<open>setdefault(k, []).append(v)\<close> and \<open>pop(k, [])\<close>.\<close>

type_synonym buckets = "(uuid option \<times> product_variant list) list"

fun add_member :: "uuid option \<Rightarrow> product_variant \<Rightarrow> buckets \<Rightarrow> buckets" where
  "add_member k v [] = [(k, [v])]"
| "add_member k v ((k', vs) # rest) =
     (if k' = k then (k', vs @ [v]) # rest else (k', vs) # add_member k v rest)"

definition pop_members :: "uuid option \<Rightarrow> buckets \<Rightarrow> product_variant list \<times> buckets" where
  "pop_members k m =
     (case map_of m k of None \<Rightarrow> ([], m) | Some vs \<Rightarrow> (vs, filter (\<lambda>(k', _). k' \<noteq> k) m))"

fun catalog_groups :: "catalog_variant list \<Rightarrow> buckets \<Rightarrow> oms_variant_group list \<times> buckets" where
  "catalog_groups [] m = ([], m)"
| "catalog_groups (cv # cvs) m =
     (let (vs, m') = pop_members (Some (cv_id cv)) m; (gs, m'') = catalog_groups cvs m'
      in (\<lparr>og_catalog_variant = Some (cv_id cv), og_name = cv_name cv,
           og_display_order = cv_display_order cv, og_is_active = cv_is_active cv,
           og_variants = vs\<rparr> # gs, m''))"

definition or_text :: "string option \<Rightarrow> string \<Rightarrow> string" where
  "or_text t d = (case t of None \<Rightarrow> d | Some x \<Rightarrow> if x = [] then d else x)"

definition variant_label :: "product_variant \<Rightarrow> string" where
  "variant_label v = or_text (pv_title_override v) (or_text (pv_title v) (pv_sku v))"

definition leftover_groups :: "product_variant list \<Rightarrow> oms_variant_group list" where
  "leftover_groups leftover =
     map (\<lambda>(offset, v). \<lparr>og_catalog_variant = None, og_name = variant_label v,
            og_display_order = 10000 + int offset, og_is_active = True, og_variants = [v]\<rparr>)
       (enumerate 0 leftover)"

definition get_oms_variants_for_product ::
  "uuid \<Rightarrow> 'a stock_db_scheme \<Rightarrow> (product \<times> oms_variant_group list) result" where
  "get_oms_variants_for_product p s =
     bindR (require_some (product_by s p) (NotFoundError ''Product not found.'')) (\<lambda>product.
     let variants = variants_for_product s p;
         catalog = catalog_for_product s p;
         members = foldl (\<lambda>m v. add_member (pv_catalog_variant v) v m) [] variants;
         (groups, members') = catalog_groups catalog members;
         leftover = sort_key (\<lambda>v. lower (variant_label v)) (concat (map snd members'))
     in Inr (product, sort_key (\<lambda>g. (og_display_order g, lower (og_name g)))
               (groups @ leftover_groups leftover)))"

section \<open>Automatic movements\<close>

text \<open>
  One line of \<open>apply_dispatch\<close>. The update and the insert run in a SAVEPOINT: on
  \<open>IntegrityError\<close> both are rolled back and the loop goes on with the state before them.
\<close>

definition dispatch_line ::
  "uuid \<Rightarrow> uuid \<Rightarrow> order_item \<Rightarrow> 'a stock_db_scheme \<Rightarrow> 'a stock_db_scheme result" where
  "dispatch_line ord shipment item s =
     (if oi_quantity item \<le> 0 then Inr s
      else case line_variant s item of
        None \<Rightarrow> Inr s
      | Some v \<Rightarrow>
         (if exists_for_order s ord (pv_id v) DISPATCH then Inr s
          else bindR (ceil_div (oi_quantity item * pv_pack_size v) (pv_packets_per_box v)) (\<lambda>boxes.
            let new_quantity = pv_available v - boxes in
            case movement_create (pv_id v) DISPATCH (- boxes) new_quantity (Some ord) (Some shipment)
                   None None ''Shiprocket dispatch''
                   (variant_update (pv_id v) (\<lambda>r. r\<lparr>pv_available := new_quantity\<rparr>) s) of
              Inr (_, s') \<Rightarrow> Inr s'
            | Inl (IntegrityError _) \<Rightarrow> Inr s
            | Inl e \<Rightarrow> Inl e)))"

definition apply_dispatch ::
  "uuid \<Rightarrow> uuid \<Rightarrow> 'a stock_db_scheme \<Rightarrow> 'a stock_db_scheme result" where
  "apply_dispatch ord shipment s = for_each (dispatch_line ord shipment) (items_for_order s ord) s"

text \<open>The boxes a restock gives back: what the dispatch row took, else a fresh conversion.\<close>

definition restock_boxes ::
  "'a stock_db_scheme \<Rightarrow> uuid \<Rightarrow> product_variant \<Rightarrow> order_item \<Rightarrow> int result" where
  "restock_boxes s ord v item =
     (case get_for_order s ord (pv_id v) DISPATCH of
        Some m \<Rightarrow> Inr \<bar>im_delta m\<bar>
      | None \<Rightarrow> ceil_div (oi_quantity item * pv_pack_size v) (pv_packets_per_box v))"

definition restock_line ::
  "uuid \<Rightarrow> uuid \<Rightarrow> order_item \<Rightarrow> 'a stock_db_scheme \<Rightarrow> 'a stock_db_scheme result" where
  "restock_line ord rto item s =
     (if oi_quantity item \<le> 0 then Inr s
      else case line_variant s item of
        None \<Rightarrow> Inr s
      | Some v \<Rightarrow>
         (if exists_for_order s ord (pv_id v) RTO_RESTOCK then Inr s
          else bindR (restock_boxes s ord v item) (\<lambda>boxes.
            let new_quantity = pv_available v + boxes in
            case movement_create (pv_id v) RTO_RESTOCK boxes new_quantity (Some ord) None
                   (Some rto) None ''Shiprocket RTO received''
                   (variant_update (pv_id v) (\<lambda>r. r\<lparr>pv_available := new_quantity\<rparr>) s) of
              Inr (_, s') \<Rightarrow> Inr s'
            | Inl (IntegrityError _) \<Rightarrow> Inr s
            | Inl e \<Rightarrow> Inl e)))"

definition apply_rto_restock ::
  "uuid \<Rightarrow> uuid \<Rightarrow> 'a stock_db_scheme \<Rightarrow> 'a stock_db_scheme result" where
  "apply_rto_restock ord rto s = for_each (restock_line ord rto) (items_for_order s ord) s"

section \<open>Staff-initiated writes\<close>

definition add_stock ::
  "uuid \<Rightarrow> int \<Rightarrow> string \<Rightarrow> uuid option \<Rightarrow> 'a stock_db_scheme
   \<Rightarrow> (inventory_movement \<times> 'a stock_db_scheme) result" where
  "add_stock vid quantity_to_add reason actor s =
     bindR (require (0 < quantity_to_add) (ValidationError ''Quantity to add must be a positive number.'')) (\<lambda>_.
     bindR (require (strip reason \<noteq> []) (ValidationError ''A reason is required for a manual stock adjustment.'')) (\<lambda>_.
     bindR (require_some (variant_by s vid) (NotFoundError ''Product variant not found.'')) (\<lambda>v.
     let previous_quantity = pv_available v; new_quantity = previous_quantity + quantity_to_add;
         s1 = variant_update vid (\<lambda>r. r\<lparr>pv_available := new_quantity\<rparr>) s
     in bindR (movement_create vid MANUAL_ADJUSTMENT quantity_to_add new_quantity None None None
                 actor (strip reason) s1) (\<lambda>(movement, s2).
        Inr (movement,
             audit_record actor ''inventory.manual_adjustment'' ''product_variant'' vid
               [(''available_quantity'', JInt previous_quantity)]
               [(''available_quantity'', JInt new_quantity)]
               [(''reason'', JStr (strip reason))] s2)))))"

definition add_product_stock ::
  "uuid \<Rightarrow> int \<Rightarrow> string \<Rightarrow> uuid option \<Rightarrow> 'a stock_db_scheme
   \<Rightarrow> (inventory_movement \<times> 'a stock_db_scheme) result" where
  "add_product_stock p quantity_to_add reason actor s =
     bindR (require_some (product_by s p) (NotFoundError ''Product not found.'')) (\<lambda>_.
     (case variants_for_product s p of
        [] \<Rightarrow> Inl (NotFoundError ''This product has no variants.'')
      | [v] \<Rightarrow> add_stock (pv_id v) quantity_to_add reason actor s
      | _ \<Rightarrow> Inl (ValidationError ''This product has multiple variants; add stock to each variant individually rather than a single product-level total.'')))"

definition sum_available :: "product_variant list \<Rightarrow> int" where
  "sum_available vs = sum_list (map pv_available vs)"

definition get_catalog_variant_total :: "uuid \<Rightarrow> 'a stock_db_scheme \<Rightarrow> int" where
  "get_catalog_variant_total c s =
     sum_available (variants_for_catalog s c) + sum_for_catalog_variant s c"

definition add_catalog_variant_stock ::
  "uuid \<Rightarrow> int \<Rightarrow> string \<Rightarrow> uuid option \<Rightarrow> 'a stock_db_scheme
   \<Rightarrow> (stock_adjustment \<times> 'a stock_db_scheme) result" where
  "add_catalog_variant_stock c quantity_to_add reason actor s =
     bindR (require (0 < quantity_to_add) (ValidationError ''Quantity to add must be a positive number.'')) (\<lambda>_.
     bindR (require (strip reason \<noteq> []) (ValidationError ''A reason is required for a manual stock adjustment.'')) (\<lambda>_.
     bindR (require_some (catalog_variant_by s c) (NotFoundError ''Catalog variant not found.'')) (\<lambda>cv.
     let previous_total = get_catalog_variant_total c s; new_total = previous_total + quantity_to_add
     in bindR (adjustment_create (Some (cv_id cv)) None None quantity_to_add new_total
                 (strip reason) actor s) (\<lambda>(adjustment, s1).
        Inr (adjustment,
             audit_record actor ''inventory.catalog_variant_total_adjustment'' ''catalog_variant''
               (cv_id cv) [(''available_boxes'', JInt previous_total)]
               [(''available_boxes'', JInt new_total)] [(''reason'', JStr (strip reason))] s1)))))"

definition get_product_total :: "uuid \<Rightarrow> 'a stock_db_scheme \<Rightarrow> int" where
  "get_product_total p s =
     sum_available (variants_for_product s p) + sum_list (map snd (sum_by_product s p))
     + sum_product_level s p"

text \<open>
  \<open>apply_marketplace_stock_effect\<close>: which scope the effect lands on, then the row. It is
  part of the marketplace operations' transaction and does not commit on its own.
\<close>

definition effect_scope ::
  "uuid \<Rightarrow> uuid option \<Rightarrow> bool \<Rightarrow> 'a stock_db_scheme \<Rightarrow> uuid option result" where
  "effect_scope p cv product_level s =
     (if product_level then Inr None
      else case cv of
        Some c \<Rightarrow> Inr (Some c)
      | None \<Rightarrow>
          bindR (get_oms_variants_for_product p s) (\<lambda>(_, groups).
          Inr (case groups of [g] \<Rightarrow> og_catalog_variant g | _ \<Rightarrow> None)))"

definition apply_marketplace_stock_effect ::
  "uuid \<Rightarrow> int \<Rightarrow> string \<Rightarrow> uuid option \<Rightarrow> uuid \<Rightarrow> uuid option \<Rightarrow> bool \<Rightarrow> 'a stock_db_scheme
   \<Rightarrow> (stock_adjustment \<times> 'a stock_db_scheme) result" where
  "apply_marketplace_stock_effect p quantity_delta reason actor movement_id cv product_level s =
     bindR (effect_scope p cv product_level s) (\<lambda>cv_id.
     let previous_total = (case cv_id of Some c \<Rightarrow> get_catalog_variant_total c s
                                       | None \<Rightarrow> get_product_total p s);
         new_total = previous_total + quantity_delta
     in bindR (adjustment_create cv_id (if cv_id \<noteq> None then None else Some p) (Some movement_id)
                 quantity_delta new_total (take 255 reason) actor s) (\<lambda>(adjustment, s1).
        Inr (adjustment,
             audit_record actor ''inventory.marketplace_stock_effect''
               (if cv_id \<noteq> None then ''catalog_variant'' else ''product'')
               (case cv_id of Some c \<Rightarrow> c | None \<Rightarrow> p)
               [(''available_boxes'', JInt previous_total)] [(''available_boxes'', JInt new_total)]
               [(''product_marketplace_movement_id'', JId movement_id), (''reason'', JStr reason)] s1)))"

text \<open>
  The setters share one shape: read the row, return it when nothing would change, otherwise
  write the field and one audit row.
\<close>

definition update_packets_per_box ::
  "uuid \<Rightarrow> int \<Rightarrow> uuid option \<Rightarrow> 'a stock_db_scheme \<Rightarrow> 'a stock_db_scheme result" where
  "update_packets_per_box vid packets_per_box actor s =
     bindR (require (0 < packets_per_box) (ValidationError ''Packets per box must be a positive integer.'')) (\<lambda>_.
     bindR (require_some (variant_by s vid) (NotFoundError ''Product variant not found.'')) (\<lambda>v.
     let previous = pv_packets_per_box v
     in if previous = packets_per_box then Inr s
        else Inr (audit_record actor ''inventory.packets_per_box_updated'' ''product_variant'' vid
                    [(''packets_per_box'', JInt previous)] [(''packets_per_box'', JInt packets_per_box)] []
                    (variant_update vid (\<lambda>r. r\<lparr>pv_packets_per_box := packets_per_box\<rparr>) s))))"

definition update_pack_size ::
  "uuid \<Rightarrow> int \<Rightarrow> uuid option \<Rightarrow> 'a stock_db_scheme \<Rightarrow> 'a stock_db_scheme result" where
  "update_pack_size vid pack_size actor s =
     bindR (require (0 < pack_size) (ValidationError ''Pack size must be a positive integer.'')) (\<lambda>_.
     bindR (require_some (variant_by s vid) (NotFoundError ''Product variant not found.'')) (\<lambda>v.
     let previous = pv_pack_size v
     in if previous = pack_size then Inr s
        else Inr (audit_record actor ''inventory.pack_size_updated'' ''product_variant'' vid
                    [(''pack_size'', JInt previous)] [(''pack_size'', JInt pack_size)] []
                    (variant_update vid (\<lambda>r. r\<lparr>pv_pack_size := pack_size\<rparr>) s))))"

definition jtext :: "string option \<Rightarrow> jval" where
  "jtext t = (case t of None \<Rightarrow> JNull | Some x \<Rightarrow> JStr x)"

definition set_product_display_name ::
  "uuid \<Rightarrow> string option \<Rightarrow> uuid option \<Rightarrow> 'a stock_db_scheme \<Rightarrow> 'a stock_db_scheme result" where
  "set_product_display_name p name actor s =
     bindR (require_some (product_by s p) (NotFoundError ''Product not found.'')) (\<lambda>product.
     let normalized = clean_text name; previous = p_title_override product
     in if previous = normalized then Inr s
        else Inr (audit_record actor ''inventory.product_name_override_updated'' ''product'' p
                    [(''title_override'', jtext previous)] [(''title_override'', jtext normalized)] []
                    (s\<lparr>products := set_where (\<lambda>r. p_id r = p)
                         (\<lambda>r. r\<lparr>p_title_override := normalized\<rparr>) (products s)\<rparr>)))"

definition set_variant_display_name ::
  "uuid \<Rightarrow> string option \<Rightarrow> uuid option \<Rightarrow> 'a stock_db_scheme \<Rightarrow> 'a stock_db_scheme result" where
  "set_variant_display_name vid name actor s =
     bindR (require_some (variant_by s vid) (NotFoundError ''Product variant not found.'')) (\<lambda>v.
     let normalized = clean_text name; previous = pv_title_override v
     in if previous = normalized then Inr s
        else Inr (audit_record actor ''inventory.variant_name_override_updated'' ''product_variant'' vid
                    [(''title_override'', jtext previous)] [(''title_override'', jtext normalized)] []
                    (variant_update vid (\<lambda>r. r\<lparr>pv_title_override := normalized\<rparr>) s)))"

definition set_catalog_variant_name ::
  "uuid \<Rightarrow> string \<Rightarrow> uuid option \<Rightarrow> 'a stock_db_scheme \<Rightarrow> 'a stock_db_scheme result" where
  "set_catalog_variant_name c name actor s =
     bindR (require_some (catalog_variant_by s c) (NotFoundError ''Catalog variant not found.'')) (\<lambda>cv.
     bindR (require (strip name \<noteq> []) (ValidationError ''Name cannot be empty.'')) (\<lambda>_.
     let previous = cv_name cv
     in if previous = strip name then Inr s
        else Inr (audit_record actor ''inventory.catalog_variant_name_updated'' ''catalog_variant'' c
                    [(''name'', JStr previous)] [(''name'', JStr (strip name))] []
                    (s\<lparr>catalog_variants := set_where (\<lambda>r. cv_id r = c)
                         (\<lambda>r. r\<lparr>cv_name := strip name\<rparr>) (catalog_variants s)\<rparr>))))"

section \<open>The stock ledger as a running balance\<close>

definition available :: "'a stock_db_scheme \<Rightarrow> uuid \<Rightarrow> int" where
  "available s vid = (case variant_by s vid of None \<Rightarrow> 0 | Some v \<Rightarrow> pv_available v)"

definition stock_rows :: "'a stock_db_scheme \<Rightarrow> uuid \<Rightarrow> ledger_row list" where
  "stock_rows s vid =
     map (\<lambda>m. (im_delta m, im_after m)) (filter (\<lambda>m. im_variant m = vid) (inventory_movements s))"

definition has_variant :: "'a stock_db_scheme \<Rightarrow> uuid \<Rightarrow> bool" where
  "has_variant s vid \<longleftrightarrow> variant_by s vid \<noteq> None"

text \<open>The two writes every move makes, on the variant's own current stock.\<close>

definition stock_move ::
  "movement_type \<Rightarrow> uuid option \<Rightarrow> uuid option \<Rightarrow> uuid option \<Rightarrow> uuid option \<Rightarrow> string
   \<Rightarrow> uuid \<Rightarrow> int \<Rightarrow> 'a stock_db_scheme \<Rightarrow> 'a stock_db_scheme" where
  "stock_move t ord ship rto actor reason vid d s =
     (let n = available s vid + d; s1 = variant_update vid (\<lambda>r. r\<lparr>pv_available := n\<rparr>) s
      in fresh (s1\<lparr>inventory_movements := inventory_movements s1 @
           [\<lparr>im_id = next_id s, im_variant = vid, im_type = t, im_delta = d, im_after = n,
             im_order = ord, im_shipment = ship, im_rto = rto, im_actor = actor,
             im_reason = Some reason, im_created = clock s\<rparr>]\<rparr>))"

definition taken :: "'a stock_db_scheme \<Rightarrow> move_key set" where
  "taken s = set (move_keys s) \<union> set (unseen_moves s)"

text \<open>Primary keys and the unique \<open>sku\<close> column; the per-variant factors are positive.\<close>

definition variants_wf :: "'a stock_db_scheme \<Rightarrow> bool" where
  "variants_wf s \<longleftrightarrow> distinct (map pv_id (product_variants s)) \<and> distinct (map pv_sku (product_variants s))
     \<and> (\<forall>v\<in>set (product_variants s). 0 < pv_packets_per_box v \<and> 0 < pv_pack_size v)"

lemma fresh_stock [simp]:
  "products (fresh s) = products s" "catalog_variants (fresh s) = catalog_variants s"
  "product_variants (fresh s) = product_variants s"
  "inventory_movements (fresh s) = inventory_movements s"
  "stock_adjustments (fresh s) = stock_adjustments s" "order_items (fresh s) = order_items s"
  "unseen_moves (fresh s) = unseen_moves s"
  by (simp_all add: fresh_def)

lemma audit_record_stock [simp]:
  "products (audit_record u a e i p n m s) = products s"
  "catalog_variants (audit_record u a e i p n m s) = catalog_variants s"
  "product_variants (audit_record u a e i p n m s) = product_variants s"
  "inventory_movements (audit_record u a e i p n m s) = inventory_movements s"
  "stock_adjustments (audit_record u a e i p n m s) = stock_adjustments s"
  "order_items (audit_record u a e i p n m s) = order_items s"
  "unseen_moves (audit_record u a e i p n m s) = unseen_moves s"
  by (simp_all add: audit_record_def)

lemma variant_update_simps [simp]:
  "products (variant_update vid f s) = products s"
  "catalog_variants (variant_update vid f s) = catalog_variants s"
  "inventory_movements (variant_update vid f s) = inventory_movements s"
  "stock_adjustments (variant_update vid f s) = stock_adjustments s"
  "order_items (variant_update vid f s) = order_items s"
  "unseen_moves (variant_update vid f s) = unseen_moves s"
  "clock (variant_update vid f s) = clock s"
  "next_id (variant_update vid f s) = next_id s"
  by (simp_all add: variant_update_def)

lemma variant_by_update [simp]:
  "(\<And>r. pv_id (f r) = pv_id r) \<Longrightarrow> variant_by (variant_update vid f s) k =
     (if k = vid then map_option f (variant_by s vid) else variant_by s k)"
  by (simp add: variant_by_def variant_update_def row_by_set_where)

lemma variant_by_cong: "product_variants s = product_variants t \<Longrightarrow> variant_by s = variant_by t"
  by (simp add: variant_by_def)

lemma variant_by_append_movements [simp]:
  "variant_by (s\<lparr>inventory_movements := ms\<rparr>) = variant_by s"
  "variant_by (fresh s) = variant_by s"
  "variant_by (audit_record u a e i p n m s) = variant_by s"
  by (auto simp: variant_by_def)

lemma movements_update_simps [simp]:
  "order_items (s\<lparr>inventory_movements := ms\<rparr>) = order_items s"
  "unseen_moves (s\<lparr>inventory_movements := ms\<rparr>) = unseen_moves s"
  by simp_all

lemma stock_move_simps [simp]:
  "order_items (stock_move t ord ship rto a m vid d s) = order_items s"
  "unseen_moves (stock_move t ord ship rto a m vid d s) = unseen_moves s"
  "products (stock_move t ord ship rto a m vid d s) = products s"
  "catalog_variants (stock_move t ord ship rto a m vid d s) = catalog_variants s"
  "stock_adjustments (stock_move t ord ship rto a m vid d s) = stock_adjustments s"
  by (simp_all add: stock_move_def Let_def)

lemma variant_by_stock_move:
  "variant_by (stock_move t ord ship rto a m vid d s) k =
     map_option (\<lambda>v. if k = vid then v\<lparr>pv_available := pv_available v + d\<rparr> else v) (variant_by s k)"
  by (cases "variant_by s k") (auto simp: stock_move_def Let_def available_def)

interpretation stock: running_ledger available stock_rows has_variant
  "stock_move t ord ship rto actor reason" for t ord ship rto actor reason
  by unfold_locales
    (auto simp: has_variant_def available_def variant_by_stock_move stock_rows_def stock_move_def
      Let_def split: option.splits)

lemma move_keys_stock_move:
  "move_keys (stock_move t ord ship rto a m vid d s) =
     move_keys s @ (case ord of None \<Rightarrow> [] | Some x \<Rightarrow> [(vid, x, t)])"
  by (auto simp: move_keys_def stock_move_def Let_def split: option.splits)

lemma exists_for_order_iff: "exists_for_order s ord vid t \<longleftrightarrow> (vid, ord, t) \<in> set (move_keys s)"
proof -
  have "exists_for_order s ord vid t \<longleftrightarrow> movements_for s ord vid t \<noteq> []"
    by (auto simp: exists_for_order_def get_for_order_def split: list.splits)
      (metis length_0_conv length_sort list.size(3))
  also have "\<dots> \<longleftrightarrow> (vid, ord, t) \<in> set (move_keys s)"
    by (auto simp: movements_for_def move_keys_def filter_empty_conv)
  finally show ?thesis .
qed

subsection \<open>Variants up to their stock\<close>

text \<open>Two states sell the same lines when their variant rows differ in \<open>available_quantity\<close> only.\<close>

definition no_stock :: "product_variant \<Rightarrow> product_variant" where
  "no_stock v = v\<lparr>pv_available := 0\<rparr>"

definition same_catalog :: "'a stock_db_scheme \<Rightarrow> 'a stock_db_scheme \<Rightarrow> bool" where
  "same_catalog s t \<longleftrightarrow> map no_stock (product_variants s) = map no_stock (product_variants t)"

lemma no_stock_simps [simp]:
  "pv_id (no_stock v) = pv_id v" "pv_sku (no_stock v) = pv_sku v"
  "pv_pack_size (no_stock v) = pv_pack_size v"
  "pv_packets_per_box (no_stock v) = pv_packets_per_box v"
  "no_stock (v\<lparr>pv_available := n\<rparr>) = no_stock v"
  by (simp_all add: no_stock_def)

lemma no_stock_eqD:
  assumes "no_stock v = no_stock w"
  shows "pv_id v = pv_id w" "pv_sku v = pv_sku w" "pv_pack_size v = pv_pack_size w"
    "pv_packets_per_box v = pv_packets_per_box w" "w = v\<lparr>pv_available := pv_available w\<rparr>"
proof -
  show "pv_id v = pv_id w" "pv_sku v = pv_sku w" "pv_pack_size v = pv_pack_size w"
    "pv_packets_per_box v = pv_packets_per_box w"
    using assms by (metis no_stock_simps)+
  show "w = v\<lparr>pv_available := pv_available w\<rparr>"
    using assms by (cases v; cases w) (simp add: no_stock_def)
qed

lemma same_catalog_refl [simp]: "same_catalog s s"
  and same_catalog_trans: "same_catalog s t \<Longrightarrow> same_catalog t u \<Longrightarrow> same_catalog s u"
  and same_catalog_sym: "same_catalog s t \<Longrightarrow> same_catalog t s"
  by (simp_all add: same_catalog_def)

lemma row_by_no_stock:
  assumes "\<And>v. key (no_stock v) = key v"
  shows "map_option no_stock (row_by key rows k) = row_by key (map no_stock rows) k"
  using assms by (induction rows) auto

lemma resolve_same_catalog:
  assumes "same_catalog s t"
  shows "map_option no_stock (resolve_variant s a b) = map_option no_stock (resolve_variant t a b)"
proof -
  have "map_option no_stock (variant_by s k) = map_option no_stock (variant_by t k)"
    "map_option no_stock (variant_by_sku s q) = map_option no_stock (variant_by_sku t q)" for k q
    using assms by (simp_all add: variant_by_def variant_by_sku_def row_by_no_stock same_catalog_def)
  then show ?thesis
    by (cases a) (auto simp: resolve_variant_def split: option.splits
      , (metis map_option_is_None option.distinct(1) option.map_sel option.sel option.simps(9))+)
qed

lemma same_catalog_stock_move [simp]: "same_catalog s (stock_move t ord ship rto a m vid d s)"
  by (simp add: same_catalog_def stock_move_def Let_def variant_update_def set_where_def comp_def
      if_distrib cong: if_cong)

lemma variants_wf_same_catalog: "same_catalog s t \<Longrightarrow> variants_wf s \<Longrightarrow> variants_wf t"
proof -
  assume eq: "same_catalog s t" and wf: "variants_wf s"
  have keys: "map key (product_variants s) = map key (product_variants t)"
    if "\<And>v. key (no_stock v) = key v" for key :: "product_variant \<Rightarrow> 'k"
    using arg_cong [OF eq [unfolded same_catalog_def], of "map key"] that by (simp add: comp_def)
  have "\<forall>v\<in>set (map no_stock (product_variants s)). 0 < pv_packets_per_box v \<and> 0 < pv_pack_size v"
    using wf by (simp add: variants_wf_def)
  then have "\<forall>v\<in>set (map no_stock (product_variants t)). 0 < pv_packets_per_box v \<and> 0 < pv_pack_size v"
    using eq by (simp only: same_catalog_def)
  then show "variants_wf t"
    using wf keys [of pv_id] keys [of pv_sku] by (simp add: variants_wf_def)
qed

lemma variants_wf_stock_move: "variants_wf s \<Longrightarrow> variants_wf (stock_move t ord ship rto a m vid d s)"
  using variants_wf_same_catalog same_catalog_stock_move by blast

lemma resolve_in_table:
  assumes "resolve_variant s a b = Some v"
  shows "v \<in> set (product_variants s)"
  using assms row_by_SomeD [of pv_id "product_variants s"] row_by_SomeD [of pv_sku "product_variants s" b]
  by (fastforce simp: resolve_variant_def variant_by_def variant_by_sku_def split: option.splits)

lemma resolve_by_id:
  assumes "variants_wf s" and "resolve_variant s a b = Some v"
  shows "variant_by s (pv_id v) = Some v" "available s (pv_id v) = pv_available v" "has_variant s (pv_id v)"
proof -
  show "variant_by s (pv_id v) = Some v"
    using assms by (auto simp: variants_wf_def variant_by_def intro: row_by_distinct dest: resolve_in_table)
  then show "available s (pv_id v) = pv_available v" "has_variant s (pv_id v)"
    by (auto simp: available_def has_variant_def)
qed

lemma movement_create_move:
  assumes "n = available s vid + d"
  shows "movement_create vid t d n (Some ord) ship rto a m (variant_update vid (\<lambda>r. r\<lparr>pv_available := n\<rparr>) s) =
    (if (vid, ord, t) \<in> taken s
     then Inl (IntegrityError ''uq_inventory_movements_variant_order_type'')
     else Inr (\<lparr>im_id = next_id s, im_variant = vid, im_type = t, im_delta = d, im_after = n,
             im_order = Some ord, im_shipment = ship, im_rto = rto, im_actor = a,
             im_reason = Some m, im_created = clock s\<rparr>, stock_move t (Some ord) ship rto a m vid d s))"
  using assms by (auto simp: movement_create_def taken_def stock_move_def Let_def move_keys_def)

section \<open>Order-scoped moves\<close>

text \<open>
  Dispatch and restock share one contract: for each line of an order that resolves to a
  variant, move that variant's stock once per (order, variant, type). \<open>line\<close> is the loop
  body, \<open>amount\<close> the signed number of boxes it moves, which the move itself must not
  change. What follows from the contract is proved here once.
\<close>

definition hits :: "'a stock_db_scheme \<Rightarrow> uuid \<Rightarrow> order_item \<Rightarrow> bool" where
  "hits s vid item \<longleftrightarrow> 0 < oi_quantity item \<and> map_option pv_id (line_variant s item) = Some vid"

text \<open>The line that counts for a variant: the first one that resolves to it.\<close>

definition first_line :: "'a stock_db_scheme \<Rightarrow> order_item list \<Rightarrow> uuid \<Rightarrow> order_item option" where
  "first_line s items vid = find (hits s vid) items"

lemma hits_same_catalog: "same_catalog s t \<Longrightarrow> hits s vid item = hits t vid item"
proof -
  assume "same_catalog s t"
  from resolve_same_catalog [OF this, of "oi_variant item" "oi_sku item"]
  have "map_option (pv_id \<circ> no_stock) (line_variant s item) = map_option (pv_id \<circ> no_stock) (line_variant t item)"
    by (metis option.map_comp)
  then show ?thesis by (simp add: hits_def comp_def)
qed

locale order_moves =
  fixes line :: "order_item \<Rightarrow> 'a stock_db_scheme \<Rightarrow> 'a stock_db_scheme result"
    and amount :: "'a stock_db_scheme \<Rightarrow> product_variant \<Rightarrow> order_item \<Rightarrow> int result"
    and t :: movement_type and ord :: uuid
    and ship :: "uuid option" and rto :: "uuid option" and reason :: string
  assumes line_eq: "line item s =
     (if oi_quantity item \<le> 0 then Inr s
      else case line_variant s item of
        None \<Rightarrow> Inr s
      | Some v \<Rightarrow>
         (if exists_for_order s ord (pv_id v) t then Inr s
          else bindR (amount s v item) (\<lambda>d.
            let n = pv_available v + d in
            case movement_create (pv_id v) t d n (Some ord) ship rto None reason
                   (variant_update (pv_id v) (\<lambda>r. r\<lparr>pv_available := n\<rparr>) s) of
              Inr (_, s') \<Rightarrow> Inr s'
            | Inl (IntegrityError _) \<Rightarrow> Inr s
            | Inl e \<Rightarrow> Inl e)))"
    and amount_stable: "no_stock v = no_stock w \<Longrightarrow>
      amount (stock_move t (Some ord) ship rto None reason vid d s) v item = amount s w item"
begin

abbreviation move :: "uuid \<Rightarrow> int \<Rightarrow> 'a stock_db_scheme \<Rightarrow> 'a stock_db_scheme" where
  "move \<equiv> stock_move t (Some ord) ship rto None reason"

abbreviation settled :: "'a stock_db_scheme \<Rightarrow> uuid \<Rightarrow> bool" where
  "settled s vid \<equiv> (vid, ord, t) \<in> taken s"

lemma amount_no_stock: "no_stock v = no_stock w \<Longrightarrow> amount s v item = amount s w item"
  using amount_stable by metis

text \<open>The loop body in one line: skip, or one move.\<close>

lemma line_cases:
  assumes wf: "variants_wf s" and "line item s = Inr s'"
  shows "s' = s \<and> (\<forall>vid. hits s vid item \<longrightarrow> settled s vid) \<or>
    (\<exists>v d. line_variant s item = Some v \<and> hits s (pv_id v) item \<and> \<not> settled s (pv_id v)
       \<and> amount s v item = Inr d \<and> s' = move (pv_id v) d s)"
proof (cases "0 < oi_quantity item \<and> line_variant s item \<noteq> None")
  case False
  with assms(2) show ?thesis by (auto simp: line_eq hits_def split: if_splits)
next
  case True
  then obtain v where q: "0 < oi_quantity item" and v: "line_variant s item = Some v" by auto
  then have hit: "hits s vid item \<longleftrightarrow> vid = pv_id v" for vid by (auto simp: hits_def)
  have avail: "available s (pv_id v) = pv_available v" using wf v by (rule resolve_by_id)
  show ?thesis
  proof (cases "exists_for_order s ord (pv_id v) t")
    case True
    then show ?thesis
      using assms(2) q v hit by (auto simp: line_eq exists_for_order_iff taken_def)
  next
    case False
    with assms(2) q v obtain d where d: "amount s v item = Inr d"
      by (auto simp: line_eq bindR_Inr_iff)
    have "movement_create (pv_id v) t d (pv_available v + d) (Some ord) ship rto None reason
        (variant_update (pv_id v) (\<lambda>r. r\<lparr>pv_available := pv_available v + d\<rparr>) s) =
      (if settled s (pv_id v) then Inl (IntegrityError ''uq_inventory_movements_variant_order_type'')
       else Inr (\<lparr>im_id = next_id s, im_variant = pv_id v, im_type = t, im_delta = d,
             im_after = pv_available v + d,
             im_order = Some ord, im_shipment = ship, im_rto = rto, im_actor = None,
             im_reason = Some reason, im_created = clock s\<rparr>, move (pv_id v) d s))"
      by (rule movement_create_move) (simp add: avail)
    with False assms(2) q v d hit show ?thesis
      by (auto simp: line_eq Let_def split: if_splits)
  qed
qed

lemma move_frame:
  "settled (move vid d s) k \<longleftrightarrow> k = vid \<or> settled s k"
  by (auto simp: taken_def move_keys_stock_move)

lemma hits_move [simp]: "hits (move vid d s) = hits s"
  using hits_same_catalog same_catalog_stock_move by blast

text \<open>How much the pass over \<open>items\<close> moves a variant.\<close>

definition moved :: "'a stock_db_scheme \<Rightarrow> order_item list \<Rightarrow> uuid \<Rightarrow> int" where
  "moved s items vid =
     (if settled s vid then 0
      else case first_line s items vid of
        None \<Rightarrow> 0
      | Some item \<Rightarrow> (case line_variant s item of
            None \<Rightarrow> 0
          | Some v \<Rightarrow> (case amount s v item of Inl _ \<Rightarrow> 0 | Inr d \<Rightarrow> d)))"

lemma moved_move:
  assumes "variants_wf s" and "k \<noteq> vid"
  shows "moved (move vid d s) items k = moved s items k"
proof -
  have "(case line_variant (move vid d s) item of None \<Rightarrow> 0
      | Some v \<Rightarrow> (case amount (move vid d s) v item of Inl _ \<Rightarrow> 0 | Inr d \<Rightarrow> d)) =
    (case line_variant s item of None \<Rightarrow> 0
      | Some v \<Rightarrow> (case amount s v item of Inl _ \<Rightarrow> 0 | Inr d \<Rightarrow> d))" for item
    using resolve_same_catalog [OF same_catalog_stock_move, of s "oi_variant item" "oi_sku item"
        t "Some ord" ship rto None reason vid d]
    by (auto split: option.splits simp: amount_stable) (metis amount_no_stock)+
  with assms(2) show ?thesis
    by (simp add: moved_def first_line_def move_frame split: option.split)
qed

end

context order_moves
begin

text \<open>The relation one pass establishes between the states before and after.\<close>

definition pass :: "'a stock_db_scheme \<Rightarrow> 'a stock_db_scheme \<Rightarrow> bool" where
  "pass s s' \<longleftrightarrow> same_catalog s s' \<and> order_items s' = order_items s \<and> unseen_moves s' = unseen_moves s
     \<and> stock_adjustments s' = stock_adjustments s \<and> catalog_variants s' = catalog_variants s
     \<and> (\<forall>vid. settled s vid \<longrightarrow> settled s' vid)
     \<and> (\<forall>vid. chain (available s vid - deltas (stock_rows s vid)) (stock_rows s vid) \<longrightarrow>
          chain (available s' vid - deltas (stock_rows s' vid)) (stock_rows s' vid))
     \<and> (\<forall>vid. available s' vid - deltas (stock_rows s' vid) = available s vid - deltas (stock_rows s vid))
     \<and> (distinct (move_keys s) \<longrightarrow> distinct (move_keys s'))
     \<and> (\<forall>k x t'. t' \<noteq> t \<longrightarrow> ((k, x, t') \<in> taken s' \<longleftrightarrow> (k, x, t') \<in> taken s))"

lemma pass_refl: "pass s s"
  by (simp add: pass_def)

lemma pass_trans: "pass s u \<Longrightarrow> pass u w \<Longrightarrow> pass s w"
  by (auto simp: pass_def intro: same_catalog_trans)

lemma pass_move:
  assumes "has_variant s vid" and "\<not> settled s vid"
  shows "pass s (move vid d s)"
proof -
  have "chain (available s k - deltas (stock_rows s k)) (stock_rows s k) \<Longrightarrow>
      chain (available (move vid d s) k - deltas (stock_rows (move vid d s) k)) (stock_rows (move vid d s) k)" for k
    using stock.reconciled_post [OF assms(1)] by (simp add: stock.reconciled_def stock.initial_def)
  moreover have "available (move vid d s) k - deltas (stock_rows (move vid d s) k) =
      available s k - deltas (stock_rows s k)" for k
    using stock.initial_post [OF assms(1)] by (simp add: stock.initial_def)
  ultimately show ?thesis
    using assms(2) by (auto simp: pass_def move_frame move_keys_stock_move taken_def)
qed

lemma line_pass: "variants_wf s \<Longrightarrow> line item s = Inr s' \<Longrightarrow> pass s s'"
  using line_cases [of s item s'] by (auto simp: pass_refl intro!: pass_move resolve_by_id)

lemma pass_wf: "pass s s' \<Longrightarrow> variants_wf s \<Longrightarrow> variants_wf s'"
  using variants_wf_same_catalog unfolding pass_def by blast

lemma run_pass:
  assumes "variants_wf s" and "for_each line items s = Inr s'"
  shows "pass s s'"
proof -
  have "variants_wf s \<longrightarrow> pass s s' \<and> variants_wf s'"
    using assms(2)
  proof (rule for_each_relation)
    show "variants_wf t \<longrightarrow> pass t t \<and> variants_wf t" for t by (simp add: pass_refl)
  next
    fix t u v :: "'a stock_db_scheme"
    assume "variants_wf t \<longrightarrow> pass t u \<and> variants_wf u" "variants_wf u \<longrightarrow> pass u v \<and> variants_wf v"
    then show "variants_wf t \<longrightarrow> pass t v \<and> variants_wf v" using pass_trans by blast
  next
    fix x t t'
    assume "line x t = Inr t'"
    then show "variants_wf t \<longrightarrow> pass t t' \<and> variants_wf t'" using line_pass pass_wf by blast
  qed
  with assms(1) show ?thesis by blast
qed

text \<open>The exact effect on every variant's stock.\<close>

lemma run_effect:
  assumes "variants_wf s" and "for_each line items s = Inr s'"
  shows "available s' vid = available s vid + moved s items vid"
  using assms
proof (induction items arbitrary: s)
  case Nil
  then show ?case by (simp add: moved_def first_line_def)
next
  case (Cons item items)
  then obtain u where u: "line item s = Inr u" and rest: "for_each line items u = Inr s'"
    by (auto simp: bindR_Inr_iff)
  have wf_u: "variants_wf u" using Cons.prems(1) u line_pass pass_wf by blast
  have IH: "available s' vid = available u vid + moved u items vid"
    using wf_u rest by (rule Cons.IH)
  from line_cases [OF Cons.prems(1) u] show ?case
  proof (elim disjE exE conjE)
    assume "u = s" and "\<forall>k. hits s k item \<longrightarrow> settled s k"
    then show ?thesis using IH by (simp add: moved_def first_line_def)
  next
    fix v d
    assume v: "line_variant s item = Some v" "hits s (pv_id v) item" "\<not> settled s (pv_id v)"
      "amount s v item = Inr d" and u_eq: "u = move (pv_id v) d s"
    have hv: "has_variant s (pv_id v)" using Cons.prems(1) v(1) by (rule resolve_by_id)
    show ?thesis
    proof (cases "vid = pv_id v")
      case True
      then show ?thesis
        using IH v u_eq stock.balance_post [OF hv]
        by (simp add: moved_def first_line_def move_frame)
    next
      case False
      then have "\<not> hits s vid item" using v(1,2) by (simp add: hits_def)
      then show ?thesis
        using IH u_eq False stock.balance_post [OF hv] moved_move [OF Cons.prems(1)]
        by (simp add: moved_def first_line_def)
    qed
  qed
qed

lemma moved_skip: "\<not> hits s vid item \<Longrightarrow> moved s (item # items) vid = moved s items vid"
  by (simp add: moved_def first_line_def)

text \<open>The rows a pass adds for the order: one per variant it moved, with that amount.\<close>

lemma movements_for_move:
  "map im_delta (movements_for (move vid d s) ord k t) =
     map im_delta (movements_for s ord k t) @ (if k = vid then [d] else [])"
  by (simp add: movements_for_def stock_move_def Let_def)

lemma run_rows:
  assumes "variants_wf s" and "for_each line items s = Inr s'"
  shows "map im_delta (movements_for s' ord vid t) = map im_delta (movements_for s ord vid t) @
    (if settled s vid \<or> first_line s items vid = None then [] else [moved s items vid])"
  using assms
proof (induction items arbitrary: s)
  case Nil
  then show ?case by (simp add: first_line_def)
next
  case (Cons item items)
  then obtain u where u: "line item s = Inr u" and rest: "for_each line items u = Inr s'"
    by (auto simp: bindR_Inr_iff)
  have wf_u: "variants_wf u" using Cons.prems(1) u line_pass pass_wf by blast
  note IH = Cons.IH [OF wf_u rest]
  from line_cases [OF Cons.prems(1) u] show ?case
  proof (elim disjE exE conjE)
    assume "u = s" and "\<forall>k. hits s k item \<longrightarrow> settled s k"
    then show ?thesis using IH by (auto simp: moved_def first_line_def)
  next
    fix v d
    assume v: "line_variant s item = Some v" "hits s (pv_id v) item" "\<not> settled s (pv_id v)"
      "amount s v item = Inr d" and u_eq: "u = move (pv_id v) d s"
    show ?thesis
    proof (cases "vid = pv_id v")
      case True
      then show ?thesis
        using IH v u_eq by (simp add: moved_def first_line_def move_frame movements_for_move)
    next
      case False
      then have "\<not> hits s vid item" using v(1,2) by (simp add: hits_def)
      then show ?thesis
        using IH u_eq False moved_move [OF Cons.prems(1) False]
        by (simp add: first_line_def movements_for_move move_frame moved_skip)
    qed
  qed
qed

text \<open>After a pass every line it hit is settled, so a second pass changes nothing.\<close>

lemma run_settles:
  assumes "variants_wf s" and "for_each line items s = Inr s'" and "item \<in> set items" and "hits s vid item"
  shows "settled s' vid"
  using assms
proof (induction items arbitrary: s)
  case Nil
  then show ?case by simp
next
  case (Cons x items)
  then obtain u where u: "line x s = Inr u" and rest: "for_each line items u = Inr s'"
    by (auto simp: bindR_Inr_iff)
  have ps: "pass s u" using Cons.prems(1) u by (rule line_pass)
  have wf_u: "variants_wf u" using ps Cons.prems(1) by (rule pass_wf)
  show ?case
  proof (cases "item = x")
    case True
    have "settled u vid"
      using line_cases [OF Cons.prems(1) u] Cons.prems(4) True
      by (auto simp: move_frame hits_def)
    then show ?thesis using run_pass [OF wf_u rest] by (simp add: pass_def)
  next
    case False
    moreover have "hits u vid item"
      using hits_same_catalog [of s u] ps Cons.prems(4) by (simp add: pass_def)
    ultimately show ?thesis using Cons.IH [OF wf_u rest] Cons.prems(3) by simp
  qed
qed

lemma settled_line:
  assumes "variants_wf s" and "\<And>vid. hits s vid item \<Longrightarrow> settled s vid"
    and "\<And>v. line_variant s item = Some v \<Longrightarrow> \<exists>d. amount s v item = Inr d"
  shows "line item s = Inr s"
proof (cases "line item s")
  case (Inr s')
  from line_cases [OF assms(1) this] assms(2) Inr show ?thesis by auto
next
  case (Inl e)
  then obtain v where q: "0 < oi_quantity item" and v: "line_variant s item = Some v"
    and ne: "\<not> exists_for_order s ord (pv_id v) t"
    by (auto simp: line_eq split: if_splits option.splits)
  from v q have "settled s (pv_id v)" by (intro assms(2)) (simp add: hits_def)
  moreover obtain d where d: "amount s v item = Inr d" using assms(3) v by blast
  ultimately show ?thesis
    using Inl q v ne movement_create_move [of "pv_available v + d" s "pv_id v" d t ord ship rto None reason]
      resolve_by_id [OF assms(1) v] by (simp add: line_eq Let_def)
qed

end

section \<open>Dispatch and restock implement the contract\<close>

definition dispatch_amount :: "'a stock_db_scheme \<Rightarrow> product_variant \<Rightarrow> order_item \<Rightarrow> int result" where
  "dispatch_amount s v item =
     bindR (ceil_div (oi_quantity item * pv_pack_size v) (pv_packets_per_box v)) (\<lambda>boxes. Inr (- boxes))"

lemma dispatch_amount_no_stock:
  "no_stock v = no_stock w \<Longrightarrow> dispatch_amount s v item = dispatch_amount s' w item"
  by (frule no_stock_eqD(3), drule no_stock_eqD(4)) (simp add: dispatch_amount_def)

interpretation dispatch: order_moves "dispatch_line ord shipment" dispatch_amount DISPATCH ord
  "Some shipment" None "''Shiprocket dispatch''" for ord shipment
proof unfold_locales
  show "dispatch_line ord shipment item s =
     (if oi_quantity item \<le> 0 then Inr s
      else case line_variant s item of
        None \<Rightarrow> Inr s
      | Some v \<Rightarrow>
         (if exists_for_order s ord (pv_id v) DISPATCH then Inr s
          else bindR (dispatch_amount s v item) (\<lambda>d.
            let n = pv_available v + d in
            case movement_create (pv_id v) DISPATCH d n (Some ord) (Some shipment) None None
                   ''Shiprocket dispatch'' (variant_update (pv_id v) (\<lambda>r. r\<lparr>pv_available := n\<rparr>) s) of
              Inr (_, s') \<Rightarrow> Inr s'
            | Inl (IntegrityError _) \<Rightarrow> Inr s
            | Inl e \<Rightarrow> Inl e)))" for item and s :: "'a stock_db_scheme"
    by (simp add: dispatch_line_def dispatch_amount_def bindR_assoc split: option.split)
qed (rule dispatch_amount_no_stock)

lemma movements_for_stock_move:
  "t \<noteq> t' \<Longrightarrow> movements_for (stock_move t x ship rto a m vid d s) ord k t' = movements_for s ord k t'"
  by (simp add: movements_for_def stock_move_def Let_def)

interpretation restock: order_moves "restock_line ord rto" "\<lambda>s. restock_boxes s ord" RTO_RESTOCK ord
  None "Some rto" "''Shiprocket RTO received''" for ord rto
proof unfold_locales
  show "restock_line ord rto item s =
     (if oi_quantity item \<le> 0 then Inr s
      else case line_variant s item of
        None \<Rightarrow> Inr s
      | Some v \<Rightarrow>
         (if exists_for_order s ord (pv_id v) RTO_RESTOCK then Inr s
          else bindR (restock_boxes s ord v item) (\<lambda>d.
            let n = pv_available v + d in
            case movement_create (pv_id v) RTO_RESTOCK d n (Some ord) None (Some rto) None
                   ''Shiprocket RTO received'' (variant_update (pv_id v) (\<lambda>r. r\<lparr>pv_available := n\<rparr>) s) of
              Inr (_, s') \<Rightarrow> Inr s'
            | Inl (IntegrityError _) \<Rightarrow> Inr s
            | Inl e \<Rightarrow> Inl e)))" for item and s :: "'a stock_db_scheme"
    by (simp add: restock_line_def split: option.split)
next
  fix v w :: product_variant and vid d item and s :: "'a stock_db_scheme"
  assume "no_stock v = no_stock w"
  note eq = no_stock_eqD(1,3,4) [OF this]
  show "restock_boxes (stock_move RTO_RESTOCK (Some ord) None (Some rto) None
      ''Shiprocket RTO received'' vid d s) ord v item = restock_boxes s ord w item"
    by (simp add: restock_boxes_def get_for_order_def movements_for_stock_move eq split: option.split)
qed

text \<open>What a dispatch takes from a variant, as a closed formula.\<close>

definition line_boxes :: "product_variant \<Rightarrow> order_item \<Rightarrow> int" where
  "line_boxes v item =
     \<lceil>rat_of_int (oi_quantity item * pv_pack_size v) / rat_of_int (pv_packets_per_box v)\<rceil>"

definition first_line_boxes :: "'a stock_db_scheme \<Rightarrow> uuid \<Rightarrow> uuid \<Rightarrow> int" where
  "first_line_boxes s ord vid =
     (case first_line s (items_for_order s ord) vid of
        None \<Rightarrow> 0
      | Some item \<Rightarrow> (case line_variant s item of None \<Rightarrow> 0 | Some v \<Rightarrow> line_boxes v item))"

lemma ceil_div_line:
  assumes "variants_wf s" and "line_variant s item = Some v"
  shows "ceil_div (oi_quantity item * pv_pack_size v) (pv_packets_per_box v) = Inr (line_boxes v item)"
  using assms resolve_in_table [OF assms(2)] by (simp add: variants_wf_def line_boxes_def ceil_div_ceiling)

lemma dispatch_moved:
  assumes "variants_wf s"
  shows "dispatch.moved ord s (items_for_order s ord) vid =
    (if (vid, ord, DISPATCH) \<in> taken s then 0 else - first_line_boxes s ord vid)"
  using assms
  by (auto simp: dispatch.moved_def first_line_boxes_def dispatch_amount_def ceil_div_line
      split: option.splits)

lemma dispatch_effect:
  assumes "variants_wf s" and "apply_dispatch ord ship s = Inr s'"
  shows "available s' vid = available s vid -
    (if (vid, ord, DISPATCH) \<in> taken s then 0 else first_line_boxes s ord vid)"
  using dispatch.run_effect [OF assms(1) assms(2) [unfolded apply_dispatch_def]]
  by (simp add: dispatch_moved assms(1))

lemma line_boxes_nonneg:
  assumes "0 < oi_quantity item" "0 < pv_pack_size v" "0 < pv_packets_per_box v"
  shows "0 \<le> line_boxes v item"
proof -
  have "0 \<le> oi_quantity item * pv_pack_size v" using assms by simp
  from ceil_div_nonneg [OF assms(3) this ceil_div_ceiling [OF assms(3)]]
  show ?thesis by (simp only: line_boxes_def)
qed

lemma first_line_hits: "first_line s items vid = Some item \<Longrightarrow> item \<in> set items \<and> hits s vid item"
  by (auto simp: first_line_def find_Some_iff)

lemma first_line_boxes_nonneg:
  assumes "variants_wf s"
  shows "0 \<le> first_line_boxes s ord vid"
proof (cases "first_line s (items_for_order s ord) vid")
  case (Some item)
  then obtain v where v: "line_variant s item = Some v" and q: "0 < oi_quantity item"
    using first_line_hits [OF Some] by (auto simp: hits_def)
  from v have "v \<in> set (product_variants s)" by (rule resolve_in_table)
  with assms q have "0 \<le> line_boxes v item" by (intro line_boxes_nonneg) (auto simp: variants_wf_def)
  with Some v show ?thesis by (simp add: first_line_boxes_def)
qed (simp add: first_line_boxes_def)

lemma dispatch_pass:
  assumes "variants_wf s" and "apply_dispatch ord ship s = Inr s'"
  shows "dispatch.pass ord s s'"
  using dispatch.run_pass [OF assms(1) assms(2) [unfolded apply_dispatch_def]] .

lemma restock_pass:
  assumes "variants_wf s" and "apply_rto_restock ord rto s = Inr s'"
  shows "restock.pass ord s s'"
  using restock.run_pass [OF assms(1) assms(2) [unfolded apply_rto_restock_def]] .

lemmas pass_facts = dispatch.pass_def restock.pass_def

lemma get_for_order_single:
  assumes "map im_delta (movements_for s ord vid t) = [d]"
  shows "\<exists>m. get_for_order s ord vid t = Some m \<and> im_delta m = d"
  using assms by (cases "movements_for s ord vid t") (auto simp: get_for_order_def)

lemma get_for_order_none: "movements_for s ord vid t = [] \<Longrightarrow> get_for_order s ord vid t = None"
  by (simp add: get_for_order_def)

lemma movements_for_empty: "(vid, ord, t) \<notin> set (move_keys s) \<Longrightarrow> movements_for s ord vid t = []"
  using exists_for_order_iff [of s ord vid t]
  by (auto simp: exists_for_order_def get_for_order_def split: list.splits)
    (metis length_0_conv length_sort list.size(3))

lemma items_for_order_cong: "order_items s = order_items t \<Longrightarrow> items_for_order s ord = items_for_order t ord"
  by (simp add: items_for_order_def)

text \<open>
  A second state that differs from the one after the dispatch in the variants' conversion
  factors only: same ids and stock, same ledger, same lines.
\<close>

definition refactored :: "'a stock_db_scheme \<Rightarrow> 'a stock_db_scheme \<Rightarrow> bool" where
  "refactored s t \<longleftrightarrow> (\<forall>item. map_option pv_id (line_variant s item) = map_option pv_id (line_variant t item))
     \<and> available s = available t \<and> inventory_movements s = inventory_movements t
     \<and> unseen_moves s = unseen_moves t \<and> order_items s = order_items t"

lemma restock_after_dispatch:
  assumes wf: "variants_wf s" and new: "\<And>t. (vid, ord, t) \<notin> taken s"
    and disp: "apply_dispatch ord ship s = Inr s1"
    and refac: "refactored s1 s2" and wf2: "variants_wf s2"
    and rest: "apply_rto_restock ord rto s2 = Inr s3"
  shows "available s3 vid = available s vid"
proof -
  let ?items = "items_for_order s ord"
  have pass: "dispatch.pass ord s s1" using wf disp by (rule dispatch_pass)
  have items: "items_for_order s2 ord = ?items"
    using pass refac by (intro items_for_order_cong) (simp add: pass_facts refactored_def)
  have line2: "first_line s2 ?items vid = first_line s ?items vid"
  proof -
    have "hits s2 vid item = hits s vid item" for item
      using refac hits_same_catalog [of s s1 vid item] pass
      by (simp add: pass_facts refactored_def hits_def)
    then have "hits s2 vid = hits s vid" by (rule ext)
    then show ?thesis by (simp add: first_line_def)
  qed
  have rows: "map im_delta (movements_for s2 ord vid DISPATCH) =
      (if first_line s ?items vid = None then [] else [- first_line_boxes s ord vid])"
    using dispatch.run_rows [OF wf disp [unfolded apply_dispatch_def], of vid] new [of DISPATCH]
      dispatch_moved [OF wf, of ord vid] movements_for_empty [of vid ord DISPATCH s] refac
    by (simp add: refactored_def movements_for_def taken_def)
  have "(vid, ord, RTO_RESTOCK) \<notin> taken s1"
    using pass new [of RTO_RESTOCK] by (simp add: pass_facts)
  then have free: "(vid, ord, RTO_RESTOCK) \<notin> taken s2"
    using refac by (simp add: refactored_def taken_def move_keys_def)
  have "restock.moved ord s2 ?items vid = first_line_boxes s ord vid"
  proof (cases "first_line s ?items vid")
    case None
    then show ?thesis by (simp add: restock.moved_def line2 first_line_boxes_def)
  next
    case (Some item)
    then obtain m where m: "get_for_order s2 ord vid DISPATCH = Some m"
        "im_delta m = - first_line_boxes s ord vid"
      using get_for_order_single [of s2 ord vid DISPATCH] rows by auto
    from Some line2 have "hits s2 vid item" using first_line_hits by metis
    then obtain w where "line_variant s2 item = Some w" "pv_id w = vid"
      by (auto simp: hits_def)
    with m Some free line2 first_line_boxes_nonneg [OF wf, of ord vid] show ?thesis
      by (simp add: restock.moved_def restock_boxes_def)
  qed
  moreover have "available s3 vid = available s2 vid + restock.moved ord s2 ?items vid"
    using restock.run_effect [OF wf2 rest [unfolded apply_rto_restock_def]] items by simp
  moreover have "available s2 vid = available s vid - first_line_boxes s ord vid"
    using dispatch_effect [OF wf disp, of vid] new refac by (simp add: refactored_def)
  ultimately show ?thesis by simp
qed

lemma row_by_id_set_where:
  assumes "\<And>r. key (f r) = key r" and "\<And>r. pv_id (f r) = pv_id r"
  shows "map_option pv_id (row_by key (set_where p f rows) x) = map_option pv_id (row_by key rows x)"
  using assms by (induction rows) (auto simp: set_where_def)

lemma resolve_variant_update:
  assumes f: "\<And>r. pv_id (f r) = pv_id r" "\<And>r. pv_sku (f r) = pv_sku r"
  shows "map_option pv_id (resolve_variant (variant_update vid f s) a b) = map_option pv_id (resolve_variant s a b)"
proof -
  let ?t = "variant_update vid f s"
  have id: "map_option pv_id (variant_by ?t x) = map_option pv_id (variant_by s x)" for x
    unfolding variant_by_def variant_update_def by (simp add: row_by_id_set_where f)
  have sku: "map_option pv_id (variant_by_sku ?t y) = map_option pv_id (variant_by_sku s y)" for y
    unfolding variant_by_sku_def variant_update_def by (simp add: row_by_id_set_where f)
  show ?thesis
  proof (cases a)
    case None
    then show ?thesis by (simp add: resolve_variant_def sku)
  next
    case (Some x)
    then show ?thesis using id [of x] sku [of b]
      by (cases "variant_by ?t x"; cases "variant_by s x") (simp_all add: resolve_variant_def)
  qed
qed

lemma resolve_audit_record [simp]:
  "resolve_variant (audit_record u a t e p n m s) = resolve_variant s"
proof (intro ext)
  have "variant_by_sku (audit_record u a t e p n m s) = variant_by_sku s"
    by (rule ext) (simp add: variant_by_sku_def)
  then show "resolve_variant (audit_record u a t e p n m s) x y = resolve_variant s x y" for x y
    by (simp add: resolve_variant_def split: option.split)
qed

lemma dispatch_again:
  assumes wf: "variants_wf s" and disp: "apply_dispatch ord ship s = Inr s'"
  shows "apply_dispatch ord ship' s' = Inr s'"
  unfolding apply_dispatch_def
proof (rule for_each_fixpoint)
  fix item
  assume "item \<in> set (items_for_order s' ord)"
  moreover have pass: "dispatch.pass ord s s'" using wf disp by (rule dispatch_pass)
  ultimately have item: "item \<in> set (items_for_order s ord)"
    using items_for_order_cong [of s s'] by (simp add: pass_facts)
  have wf': "variants_wf s'" using pass wf by (rule dispatch.pass_wf)
  show "dispatch_line ord ship' item s' = Inr s'"
  proof (rule dispatch.settled_line [OF wf'])
    fix vid
    assume "hits s' vid item"
    then have "hits s vid item"
      using hits_same_catalog [of s s'] pass by (simp add: pass_facts)
    then show "(vid, ord, DISPATCH) \<in> taken s'"
      using dispatch.run_settles [OF wf disp [unfolded apply_dispatch_def] item] by simp
  next
    fix v
    assume "line_variant s' item = Some v"
    then show "\<exists>d. dispatch_amount s' v item = Inr d"
      by (simp add: dispatch_amount_def ceil_div_line [OF wf'])
  qed
qed

text \<open>Under well-formed factors neither loop raises.\<close>

lemma dispatch_line_total:
  assumes "variants_wf s"
  shows "\<exists>s'. dispatch_line ord ship item s = Inr s'"
  using assms by (auto simp: dispatch_line_def Let_def movement_create_def ceil_div_line split: option.split)

lemma apply_dispatch_total:
  assumes "variants_wf s"
  shows "\<exists>s'. apply_dispatch ord ship s = Inr s'"
proof -
  have "\<exists>s'. for_each (dispatch_line ord ship) items s = Inr s'" for items
    using assms
  proof (induction items arbitrary: s)
    case (Cons item items)
    obtain u where u: "dispatch_line ord ship item s = Inr u"
      using dispatch_line_total Cons.prems by blast
    then have "variants_wf u"
      using dispatch.line_pass dispatch.pass_wf Cons.prems by blast
    with u Cons.IH show ?case by simp
  qed simp
  then show ?thesis by (simp add: apply_dispatch_def)
qed

lemma apply_rto_restock_total:
  assumes "variants_wf s"
  shows "\<exists>s'. apply_rto_restock ord rto s = Inr s'"
proof -
  have step: "\<exists>u. restock_line ord rto item s = Inr u" if "variants_wf s"
    for item and s :: "'a stock_db_scheme"
    using that by (auto simp: restock_line_def restock_boxes_def Let_def movement_create_def
        ceil_div_line split: option.split)
  have "\<exists>s'. for_each (restock_line ord rto) items s = Inr s'" for items
    using assms
  proof (induction items arbitrary: s)
    case (Cons item items)
    obtain u where u: "restock_line ord rto item s = Inr u"
      using step Cons.prems by blast
    then have "variants_wf u"
      using restock.line_pass restock.pass_wf Cons.prems by blast
    with u Cons.IH show ?case by simp
  qed simp
  then show ?thesis by (simp add: apply_rto_restock_def)
qed

lemma has_variant_same_catalog:
  assumes "same_catalog s t" and "has_variant s vid"
  shows "has_variant t vid"
proof -
  have "pv_id ` set (product_variants s) = pv_id ` set (product_variants t)"
    using arg_cong [OF assms(1) [unfolded same_catalog_def], of "\<lambda>vs. pv_id ` set vs"]
    by (simp add: image_image)
  then show ?thesis
    using assms(2) by (metis has_variant_def variant_by_def row_by_None_iff)
qed

section \<open>Stock checks and manual additions\<close>

text \<open>The pre-flight check, line by line.\<close>

definition line_shortage :: "'a stock_db_scheme \<Rightarrow> order_item \<Rightarrow> shortage list" where
  "line_shortage s item =
     (if oi_quantity item \<le> 0 then []
      else case line_variant s item of
        None \<Rightarrow> []
      | Some v \<Rightarrow> if pv_available v < line_boxes v item
          then [\<lparr>sh_sku = oi_sku item, sh_product_name = oi_product_name item,
                 sh_available = pv_available v, sh_required = line_boxes v item,
                 sh_required_packets = oi_quantity item\<rparr>]
          else [])"

lemma check_stock_eq:
  assumes "variants_wf s"
  shows "check_stock_available ord s = Inr (concat (map (line_shortage s) (items_for_order s ord)))"
proof -
  have "for_each (check_line s) items acc = Inr (acc @ concat (map (line_shortage s) items))" for items acc
    using assms
    by (induction items arbitrary: acc)
      (auto simp: check_line_def line_shortage_def ceil_div_line split: option.split)
  then show ?thesis by (simp add: check_stock_available_def)
qed

lemma no_shortage_line:
  assumes "variants_wf s" and "check_stock_available ord s = Inr []"
  shows "first_line_boxes s ord vid \<le> max 0 (available s vid)"
proof (cases "first_line s (items_for_order s ord) vid")
  case (Some item)
  then have item: "item \<in> set (items_for_order s ord)" "hits s vid item"
    using first_line_hits [OF Some] by auto
  then obtain v where v: "line_variant s item = Some v" "pv_id v = vid" "0 < oi_quantity item"
    by (auto simp: hits_def)
  from assms item have "line_shortage s item = []" by (simp add: check_stock_eq)
  with v have "line_boxes v item \<le> pv_available v"
    by (auto simp: line_shortage_def split: if_splits)
  moreover have "available s vid = pv_available v" using assms(1) v(1) v(2) resolve_by_id by blast
  ultimately show ?thesis using Some v by (simp add: first_line_boxes_def)
qed (simp add: first_line_boxes_def)

lemma movement_create_manual:
  assumes "n = available s vid + d"
  shows "movement_create vid MANUAL_ADJUSTMENT d n None None None a m
      (variant_update vid (\<lambda>r. r\<lparr>pv_available := n\<rparr>) s) =
    Inr (\<lparr>im_id = next_id s, im_variant = vid, im_type = MANUAL_ADJUSTMENT, im_delta = d, im_after = n,
          im_order = None, im_shipment = None, im_rto = None, im_actor = a,
          im_reason = Some m, im_created = clock s\<rparr>,
         stock_move MANUAL_ADJUSTMENT None None None a m vid d s)"
  using assms by (simp add: movement_create_def stock_move_def Let_def)

lemma add_stock_Inr_iff:
  "add_stock vid q reason actor s = Inr (m, s') \<longleftrightarrow>
     0 < q \<and> strip reason \<noteq> [] \<and> has_variant s vid \<and>
     m = \<lparr>im_id = next_id s, im_variant = vid, im_type = MANUAL_ADJUSTMENT, im_delta = q,
          im_after = available s vid + q, im_order = None, im_shipment = None, im_rto = None,
          im_actor = actor, im_reason = Some (strip reason), im_created = clock s\<rparr> \<and>
     s' = audit_record actor ''inventory.manual_adjustment'' ''product_variant'' vid
            [(''available_quantity'', JInt (available s vid))]
            [(''available_quantity'', JInt (available s vid + q))]
            [(''reason'', JStr (strip reason))]
            (stock_move MANUAL_ADJUSTMENT None None None actor (strip reason) vid q s)"
  by (auto simp: add_stock_def bindR_Inr_iff Let_def has_variant_def available_def
      movement_create_manual split: option.splits)

section \<open>The ledger invariant\<close>

definition unexplained :: "'a stock_db_scheme \<Rightarrow> uuid \<Rightarrow> int" where
  "unexplained s vid = available s vid - deltas (stock_rows s vid)"

definition stock_ok :: "'a stock_db_scheme \<Rightarrow> bool" where
  "stock_ok s \<longleftrightarrow> variants_wf s \<and> distinct (move_keys s) \<and>
     (\<forall>vid. chain (unexplained s vid) (stock_rows s vid))"

text \<open>
  One step of the stock component: an operation that returns, a change of the keys concurrent
  transactions have committed, or new order lines.
\<close>

inductive stock_step :: "'a stock_db_scheme \<Rightarrow> 'a stock_db_scheme \<Rightarrow> bool" where
  dispatch: "apply_dispatch ord ship s = Inr s' \<Longrightarrow> stock_step s s'"
| restock: "apply_rto_restock ord rto s = Inr s' \<Longrightarrow> stock_step s s'"
| add: "add_stock vid q reason actor s = Inr (m, s') \<Longrightarrow> stock_step s s'"
| add_product: "add_product_stock p q reason actor s = Inr (m, s') \<Longrightarrow> stock_step s s'"
| add_catalog: "add_catalog_variant_stock c q reason actor s = Inr (a, s') \<Longrightarrow> stock_step s s'"
| effect: "apply_marketplace_stock_effect p d reason actor mid cv level s = Inr (a, s') \<Longrightarrow> stock_step s s'"
| packets: "update_packets_per_box vid n actor s = Inr s' \<Longrightarrow> stock_step s s'"
| pack: "update_pack_size vid n actor s = Inr s' \<Longrightarrow> stock_step s s'"
| product_name: "set_product_display_name p name actor s = Inr s' \<Longrightarrow> stock_step s s'"
| variant_name: "set_variant_display_name vid name actor s = Inr s' \<Longrightarrow> stock_step s s'"
| catalog_name: "set_catalog_variant_name c nm actor s = Inr s' \<Longrightarrow> stock_step s s'"
| others: "stock_step s (s\<lparr>unseen_moves := u\<rparr>)"
| orders: "stock_step s (s\<lparr>order_items := lines\<rparr>)"

text \<open>What most steps keep: ids, SKUs, stock and the ledger; and positive factors.\<close>

definition stock_frame :: "'a stock_db_scheme \<Rightarrow> 'a stock_db_scheme \<Rightarrow> bool" where
  "stock_frame s s' \<longleftrightarrow> map pv_id (product_variants s') = map pv_id (product_variants s)
     \<and> map pv_sku (product_variants s') = map pv_sku (product_variants s)
     \<and> available s' = available s \<and> inventory_movements s' = inventory_movements s
     \<and> (variants_wf s \<longrightarrow> variants_wf s')"

lemma stock_frameI:
  assumes "product_variants s' = product_variants s" "inventory_movements s' = inventory_movements s"
  shows "stock_frame s s'"
  using assms by (auto simp: stock_frame_def available_def variant_by_def variants_wf_def)

lemma stock_frame_variant_update:
  assumes f: "\<And>r. pv_id (f r) = pv_id r" "\<And>r. pv_sku (f r) = pv_sku r" "\<And>r. pv_available (f r) = pv_available r"
    and pos: "\<And>r. 0 < pv_packets_per_box r \<and> 0 < pv_pack_size r \<Longrightarrow>
      0 < pv_packets_per_box (f r) \<and> 0 < pv_pack_size (f r)"
  shows "stock_frame s (variant_update vid f s)"
proof -
  have ids: "map pv_id (product_variants (variant_update vid f s)) = map pv_id (product_variants s)"
    and skus: "map pv_sku (product_variants (variant_update vid f s)) = map pv_sku (product_variants s)"
    by (auto simp: variant_update_def set_where_def f)
  have "available (variant_update vid f s) = available s"
    using f by (auto simp: available_def split: option.splits)
  moreover have "variants_wf (variant_update vid f s)" if wf: "variants_wf s"
  proof -
    have "0 < pv_packets_per_box v \<and> 0 < pv_pack_size v"
      if v: "v \<in> set (product_variants (variant_update vid f s))" for v
    proof -
      from v obtain r where "r \<in> set (product_variants s)" "v = (if pv_id r = vid then f r else r)"
        by (auto simp: variant_update_def set_where_def)
      moreover from this wf have "0 < pv_packets_per_box r \<and> 0 < pv_pack_size r"
        unfolding variants_wf_def by blast
      ultimately show ?thesis using pos [of r] by simp
    qed
    with wf ids skus show ?thesis by (simp add: variants_wf_def)
  qed
  ultimately show ?thesis using ids skus unfolding stock_frame_def by simp
qed

lemma audit_record_available [simp]:
  "available (audit_record u a t e p n m s) = available s"
  "variants_wf (audit_record u a t e p n m s) = variants_wf s"
  by (auto simp: available_def variants_wf_def)

lemma stock_frame_audit: "stock_frame s s' \<Longrightarrow> stock_frame s (audit_record u a t e p n m s')"
  by (simp add: stock_frame_def)

lemma stock_frame_ok:
  assumes "stock_frame s s'" and "stock_ok s"
  shows "stock_ok s' \<and> unexplained s' = unexplained s"
  using assms by (auto simp: stock_frame_def stock_ok_def unexplained_def stock_rows_def move_keys_def)

lemma setter_frame:
  "update_packets_per_box vid n actor s = Inr s' \<Longrightarrow> stock_frame s s'"
  "update_pack_size vid n actor s = Inr s' \<Longrightarrow> stock_frame s s'"
  "set_product_display_name p name actor s = Inr s' \<Longrightarrow> stock_frame s s'"
  "set_variant_display_name vid name actor s = Inr s' \<Longrightarrow> stock_frame s s'"
  "set_catalog_variant_name c nm actor s = Inr s' \<Longrightarrow> stock_frame s s'"
  by (auto simp: update_packets_per_box_def update_pack_size_def set_product_display_name_def
      set_variant_display_name_def set_catalog_variant_name_def bindR_Inr_iff Let_def
      split: if_splits intro!: stock_frame_audit stock_frame_variant_update intro: stock_frameI)

lemma update_packets_per_box_total:
  assumes "0 < n" and "has_variant s vid"
  shows "\<exists>s'. update_packets_per_box vid n actor s = Inr s'"
  using assms by (cases "variant_by s vid")
    (auto simp: update_packets_per_box_def has_variant_def Let_def)

lemma packets_refactored:
  assumes "update_packets_per_box vid n actor s = Inr s'" and "stock_frame s s'"
  shows "refactored s s'"
  using assms
  by (auto simp: update_packets_per_box_def bindR_Inr_iff Let_def refactored_def stock_frame_def
      resolve_variant_update split: if_splits)

lemma adjustment_frame:
  "add_catalog_variant_stock c q reason actor s = Inr (a, s') \<Longrightarrow> stock_frame s s'"
  "apply_marketplace_stock_effect p d reason actor mid cv level s = Inr (a, s') \<Longrightarrow> stock_frame s s'"
  by (auto simp: add_catalog_variant_stock_def apply_marketplace_stock_effect_def adjustment_create_def
      bindR_Inr_iff Let_def split: if_splits intro!: stock_frame_audit intro: stock_frameI)

lemma add_stock_ok:
  assumes "add_stock vid q reason actor s = Inr (m, s')" and "stock_ok s"
  shows "stock_ok s' \<and> unexplained s' = unexplained s"
proof -
  let ?t = "stock_move MANUAL_ADJUSTMENT None None None actor (strip reason) vid q s"
  from assms(1) have hv: "has_variant s vid" by (simp add: add_stock_Inr_iff)
  have "chain (unexplained ?t k) (stock_rows ?t k)" "unexplained ?t k = unexplained s k" for k
    using stock.reconciled_post [OF hv] stock.initial_post [OF hv] assms(2)
    by (simp_all add: stock.reconciled_def stock.initial_def unexplained_def stock_ok_def)
  then have "stock_ok ?t" "unexplained ?t = unexplained s"
    using assms(2) by (auto simp: stock_ok_def variants_wf_stock_move move_keys_stock_move)
  moreover have "stock_frame ?t s'"
    using assms(1) by (auto simp: add_stock_Inr_iff intro!: stock_frame_audit stock_frameI)
  ultimately show ?thesis using stock_frame_ok by metis
qed

lemma pass_ok:
  "dispatch.pass ord s s' \<Longrightarrow> variants_wf s' \<Longrightarrow> stock_ok s \<Longrightarrow> stock_ok s' \<and> unexplained s' = unexplained s"
  "restock.pass ord s s' \<Longrightarrow> variants_wf s' \<Longrightarrow> stock_ok s \<Longrightarrow> stock_ok s' \<and> unexplained s' = unexplained s"
  by (auto simp: pass_facts stock_ok_def unexplained_def)

lemma stock_step_ok:
  assumes "stock_step s s'" and ok: "stock_ok s"
  shows "stock_ok s' \<and> unexplained s' = unexplained s"
  using assms(1)
proof cases
  case (dispatch ord ship)
  moreover have "variants_wf s" using ok by (simp add: stock_ok_def)
  ultimately show ?thesis using ok dispatch_pass dispatch.pass_wf pass_ok(1) by metis
next
  case (restock ord rto)
  moreover have "variants_wf s" using ok by (simp add: stock_ok_def)
  ultimately show ?thesis using ok restock_pass restock.pass_wf pass_ok(2) by metis
next
  case add
  then show ?thesis using ok add_stock_ok by blast
next
  case (add_product p q reason actor m)
  then obtain v :: product_variant where "add_stock (pv_id v) q reason actor s = Inr (m, s')"
    by (auto simp: add_product_stock_def bindR_Inr_iff split: list.splits)
  then show ?thesis using ok by (rule add_stock_ok)
next
  case others
  show ?thesis unfolding others by (rule stock_frame_ok [OF stock_frameI ok]) simp_all
next
  case orders
  show ?thesis unfolding orders by (rule stock_frame_ok [OF stock_frameI ok]) simp_all
qed (rule stock_frame_ok [OF _ ok], erule setter_frame adjustment_frame)+

lemma stock_steps_ok:
  assumes "stock_step\<^sup>*\<^sup>* s s'" and "stock_ok s"
  shows "stock_ok s' \<and> unexplained s' = unexplained s"
  using assms by (induction rule: rtranclp_induct) (auto dest: stock_step_ok)

section \<open>OMS-visible variants partition a product's variants\<close>

definition bucket_content :: "buckets \<Rightarrow> product_variant multiset" where
  "bucket_content m = mset (concat (map snd m))"

definition buckets_ok :: "buckets \<Rightarrow> bool" where
  "buckets_ok m \<longleftrightarrow> distinct (map fst m) \<and> (\<forall>(k, vs)\<in>set m. \<forall>v\<in>set vs. pv_catalog_variant v = k)"

lemma keys_add_member: "fst ` set (add_member k v m) = insert k (fst ` set m)"
  by (induction k v m rule: add_member.induct) auto

lemma buckets_ok_add:
  "pv_catalog_variant v = k \<Longrightarrow> buckets_ok m \<Longrightarrow>
    buckets_ok (add_member k v m) \<and> bucket_content (add_member k v m) = add_mset v (bucket_content m)"
proof (induction k v m rule: add_member.induct)
  case (2 k v k' vs rest)
  then show ?case
    using keys_add_member [of k v rest] by (auto simp: buckets_ok_def bucket_content_def)
qed (simp add: buckets_ok_def bucket_content_def)

lemma buckets_of_variants:
  assumes "buckets_ok m"
  shows "buckets_ok (foldl (\<lambda>m v. add_member (pv_catalog_variant v) v m) m vs)"
    and "bucket_content (foldl (\<lambda>m v. add_member (pv_catalog_variant v) v m) m vs) = mset vs + bucket_content m"
  using assms by (induction vs arbitrary: m) (auto simp: buckets_ok_add)

lemma map_of_filter_content:
  "distinct (map fst m) \<Longrightarrow> map_of m k = Some vs \<Longrightarrow>
    bucket_content m = mset vs + bucket_content (filter (\<lambda>(k', _). k' \<noteq> k) m)"
proof (induction m)
  case (Cons p m)
  obtain k' ws where p: "p = (k', ws)" by force
  show ?case
  proof (cases "k' = k")
    case True
    then have "filter (\<lambda>(k', _). k' \<noteq> k) m = m"
      using Cons.prems p by (intro filter_True) (force simp: image_iff)
    then show ?thesis using Cons.prems p True by (simp add: bucket_content_def)
  next
    case False
    then show ?thesis using Cons p by (simp add: bucket_content_def)
  qed
qed simp

lemma pop_members_content:
  assumes "pop_members k m = (vs, m')" and "buckets_ok m"
  shows "buckets_ok m'" "bucket_content m = mset vs + bucket_content m'" "\<forall>v\<in>set vs. pv_catalog_variant v = k"
  using assms map_of_filter_content [of m k]
  by (auto simp: pop_members_def buckets_ok_def distinct_map_filter split: option.splits
      dest: map_of_SomeD) fastforce

lemma catalog_groups_content:
  assumes "catalog_groups cvs m = (gs, m')" and "buckets_ok m"
  shows "buckets_ok m' \<and> bucket_content m = mset (concat (map og_variants gs)) + bucket_content m'
    \<and> map og_catalog_variant gs = map (Some \<circ> cv_id) cvs
    \<and> (\<forall>g\<in>set gs. \<forall>v\<in>set (og_variants g). pv_catalog_variant v = og_catalog_variant g)"
  using assms
proof (induction cvs m arbitrary: gs m' rule: catalog_groups.induct)
  case (2 cv cvs m)
  obtain vs m1 where pop: "pop_members (Some (cv_id cv)) m = (vs, m1)" by force
  obtain gs1 where rest: "catalog_groups cvs m1 = (gs1, m')" and
    gs: "gs = \<lparr>og_catalog_variant = Some (cv_id cv), og_name = cv_name cv,
           og_display_order = cv_display_order cv, og_is_active = cv_is_active cv,
           og_variants = vs\<rparr> # gs1"
    using 2(2) pop by (auto split: prod.splits)
  note p = pop_members_content [OF pop 2(3)]
  from 2(1) [OF pop [symmetric] refl rest p(1)] p gs show ?case by simp
qed simp

lemma leftover_groups_content:
  "concat (map og_variants (leftover_groups vs)) = vs"
  "\<forall>g\<in>set (leftover_groups vs). og_catalog_variant g = None"
proof -
  have "map og_variants (leftover_groups vs) = map (\<lambda>v. [v]) vs"
    by (simp add: leftover_groups_def comp_def split_def) (metis (no_types, lifting) map_map map_snd_enumerate comp_apply map_eq_conv)
  then show "concat (map og_variants (leftover_groups vs)) = vs" by simp
qed (auto simp: leftover_groups_def)

lemma mset_concat_sort_key: "mset (concat (map f (sort_key k xs))) = mset (concat (map f xs))"
  by (metis mset_concat mset_map mset_sort sum_mset_sum_list)

lemma get_oms_variants_facts:
  assumes "get_oms_variants_for_product p s = Inr (pr, gs)"
  shows "mset (concat (map og_variants gs)) = mset (variants_for_product s p)"
    and "sorted (map (\<lambda>g. (og_display_order g, lower (og_name g))) gs)"
    and "g \<in> set gs \<Longrightarrow> og_catalog_variant g = Some c \<Longrightarrow>
      c \<in> cv_id ` set (catalog_for_product s p) \<and> (\<forall>v\<in>set (og_variants g). pv_catalog_variant v = Some c)"
proof -
  let ?members = "foldl (\<lambda>m v. add_member (pv_catalog_variant v) v m) [] (variants_for_product s p)"
  obtain groups rest where cg: "catalog_groups (catalog_for_product s p) ?members = (groups, rest)" by force
  let ?left = "sort_key (\<lambda>v. lower (variant_label v)) (concat (map snd rest))"
  have gs: "gs = sort_key (\<lambda>g. (og_display_order g, lower (og_name g))) (groups @ leftover_groups ?left)"
    using assms cg by (simp add: get_oms_variants_for_product_def bindR_Inr_iff Let_def)
  have "buckets_ok []" by (simp add: buckets_ok_def)
  from buckets_of_variants [OF this, of "variants_for_product s p"]
  have ok: "buckets_ok ?members" "bucket_content ?members = mset (variants_for_product s p)"
    by (simp_all add: bucket_content_def)
  note c = catalog_groups_content [OF cg ok(1)]
  have "mset (concat (map og_variants gs)) = mset (concat (map og_variants groups)) + mset ?left"
    unfolding gs mset_concat_sort_key by (simp add: leftover_groups_content)
  then show "mset (concat (map og_variants gs)) = mset (variants_for_product s p)"
    using c ok(2) by (simp add: bucket_content_def)
  show "sorted (map (\<lambda>g. (og_display_order g, lower (og_name g))) gs)"
    unfolding gs by simp
  assume g: "g \<in> set gs" "og_catalog_variant g = Some c"
  then have gg: "g \<in> set groups" using leftover_groups_content(2) [of ?left] unfolding gs by auto
  have "Some c \<in> set (map og_catalog_variant groups)" using gg g(2) by (metis image_eqI list.set_map)
  then have "c \<in> cv_id ` set (catalog_for_product s p)" using c by auto
  then show "c \<in> cv_id ` set (catalog_for_product s p) \<and> (\<forall>v\<in>set (og_variants g). pv_catalog_variant v = Some c)"
    using c gg g(2) by auto
qed


section \<open>Totals\<close>

lemma sum_by_product_eq:
  "sum_list (map snd (sum_by_product s p)) =
     (\<Sum>c\<leftarrow>filter (\<lambda>c. cv_product c = p) (catalog_variants s). sum_for_catalog_variant s (cv_id c))"
proof -
  have none: "sum_for_catalog_variant s c = 0"
    if "\<not> (\<exists>a\<in>set (stock_adjustments s). sa_catalog_variant a = Some c)" for c
    using that by (simp add: sum_for_catalog_variant_def filter_empty_conv)
  have "sum_list (map snd [(cv_id c, sum_for_catalog_variant s (cv_id c)).
        c \<leftarrow> cs, cv_product c = p,
        \<exists>a\<in>set (stock_adjustments s). sa_catalog_variant a = Some (cv_id c)]) =
     (\<Sum>c\<leftarrow>filter (\<lambda>c. cv_product c = p) cs. sum_for_catalog_variant s (cv_id c))" for cs
    using none by (induction cs) auto
  then show ?thesis by (simp add: sum_by_product_def)
qed

text \<open>A new adjustment row of \<open>d\<close> moves exactly the totals of its own scope.\<close>

lemma sum_point:
  fixes d :: int
  shows "distinct (map key xs) \<Longrightarrow> x \<in> set xs \<Longrightarrow> k = key x \<Longrightarrow>
    (\<Sum>y\<leftarrow>xs. f y + (if key y = k then d else 0)) = (\<Sum>y\<leftarrow>xs. f y) + d"
proof (induction xs)
  case (Cons y ys)
  show ?case
  proof (cases "key y = k")
    case True
    then have "\<forall>z\<in>set ys. key z \<noteq> k" using Cons.prems by (auto simp: image_iff)
    then have "(\<Sum>z\<leftarrow>ys. f z + (if key z = k then d else 0)) = (\<Sum>z\<leftarrow>ys. f z)"
      by (induction ys) auto
    with True show ?thesis by simp
  next
    case False
    with Cons show ?thesis by auto
  qed
qed simp

definition adjusts :: "'a stock_db_scheme \<Rightarrow> uuid \<Rightarrow> stock_adjustment \<Rightarrow> bool" where
  "adjusts s p row \<longleftrightarrow> sa_catalog_variant row = None \<and> sa_product row = Some p
     \<or> (\<exists>c\<in>set (catalog_variants s). sa_catalog_variant row = Some (cv_id c) \<and> cv_product c = p \<and> sa_product row = None)"

lemma product_total_adjust:
  assumes adj: "stock_adjustments s' = stock_adjustments s @ [row]"
    and same: "product_variants s' = product_variants s" "catalog_variants s' = catalog_variants s"
    and ids: "distinct (map cv_id (catalog_variants s))"
    and scope: "adjusts s p row"
  shows "get_product_total p s' = get_product_total p s + sa_delta row"
proof -
  let ?cs = "filter (\<lambda>c. cv_product c = p) (catalog_variants s)"
  have vs: "variants_for_product s' p = variants_for_product s p"
    using same by (simp add: variants_for_product_def)
  have level: "sum_product_level s' p = sum_product_level s p + (if sa_product row = Some p then sa_delta row else 0)"
    using adj by (simp add: sum_product_level_def)
  have cv: "sum_for_catalog_variant s' c = sum_for_catalog_variant s c +
      (if sa_catalog_variant row = Some c then sa_delta row else 0)" for c
    using adj by (simp add: sum_for_catalog_variant_def)
  have by_product: "sum_list (map snd (sum_by_product s' p)) =
      (\<Sum>c\<leftarrow>?cs. sum_for_catalog_variant s (cv_id c) +
        (if sa_catalog_variant row = Some (cv_id c) then sa_delta row else 0))"
    by (simp add: sum_by_product_eq same cv)
  from scope show ?thesis
    unfolding adjusts_def
  proof
    assume "sa_catalog_variant row = None \<and> sa_product row = Some p"
    then show ?thesis by (simp add: get_product_total_def vs level sum_by_product_eq same cv)
  next
    assume "\<exists>c\<in>set (catalog_variants s). sa_catalog_variant row = Some (cv_id c) \<and> cv_product c = p \<and> sa_product row = None"
    then obtain c where c: "c \<in> set ?cs" "sa_catalog_variant row = Some (cv_id c)" "sa_product row = None"
      by auto
    have "distinct (map cv_id ?cs)" using ids by (rule distinct_map_filter)
    from sum_point [OF this c(1) refl, of "\<lambda>c. sum_for_catalog_variant s (cv_id c)" "sa_delta row"]
    have "sum_list (map snd (sum_by_product s' p)) = sum_list (map snd (sum_by_product s p)) + sa_delta row"
      unfolding by_product sum_by_product_eq [of s] c(2) by (simp add: eq_commute [of "cv_id c"])
    then show ?thesis using c(3) by (simp add: get_product_total_def vs level)
  qed
qed

lemma product_total_other:
  assumes adj: "stock_adjustments s' = stock_adjustments s @ [row]"
    and same: "product_variants s' = product_variants s" "catalog_variants s' = catalog_variants s"
    and ids: "distinct (map cv_id (catalog_variants s))"
    and scope: "adjusts s p row" and "q \<noteq> p"
  shows "get_product_total q s' = get_product_total q s"
proof -
  have "sum_for_catalog_variant s' (cv_id c) = sum_for_catalog_variant s (cv_id c)"
    if "c \<in> set (catalog_variants s)" "cv_product c = q" for c
  proof -
    have "sa_catalog_variant row \<noteq> Some (cv_id c)"
      using scope that ids \<open>q \<noteq> p\<close> by (auto simp: adjusts_def distinct_map dest: inj_onD)
    then show ?thesis using adj by (simp add: sum_for_catalog_variant_def)
  qed
  then have "(\<Sum>c\<leftarrow>filter (\<lambda>c. cv_product c = q) (catalog_variants s). sum_for_catalog_variant s' (cv_id c))
      = (\<Sum>c\<leftarrow>filter (\<lambda>c. cv_product c = q) (catalog_variants s). sum_for_catalog_variant s (cv_id c))"
    by (auto intro!: arg_cong [where f = sum_list] map_cong)
  moreover have "sum_product_level s' q = sum_product_level s q"
    using adj scope \<open>q \<noteq> p\<close> by (auto simp: sum_product_level_def adjusts_def)
  ultimately show ?thesis
    by (simp add: get_product_total_def sum_by_product_eq same variants_for_product_def)
qed

lemma effect_scope_in_product:
  assumes "effect_scope p cv level s = Inr (Some c)"
    and "\<And>c. cv = Some c \<Longrightarrow> \<exists>r\<in>set (catalog_variants s). cv_id r = c \<and> cv_product r = p"
  shows "\<exists>r\<in>set (catalog_variants s). cv_id r = c \<and> cv_product r = p"
proof (cases "\<exists>c. cv = Some c")
  case True
  then show ?thesis using assms by (auto simp: effect_scope_def split: if_splits)
next
  case False
  then obtain pr gs where gs: "get_oms_variants_for_product p s = Inr (pr, gs)"
      "(case gs of [g] \<Rightarrow> og_catalog_variant g | _ \<Rightarrow> None) = Some c"
    using assms(1) by (auto simp: effect_scope_def bindR_Inr_iff split: if_splits)
  then obtain g where "gs = [g]" "og_catalog_variant g = Some c"
    by (cases gs rule: remdups_adj.cases) auto
  with gs(1) have "c \<in> cv_id ` set (catalog_for_product s p)"
    using get_oms_variants_facts(3) by fastforce
  then show ?thesis by (auto simp: catalog_for_product_def)
qed

lemma marketplace_effect_Inr:
  assumes "apply_marketplace_stock_effect p d reason actor mid cv level s = Inr (a, s')"
  shows "\<exists>scope. effect_scope p cv level s = Inr scope \<and> sa_catalog_variant a = scope
      \<and> sa_product a = (if scope \<noteq> None then None else Some p) \<and> sa_movement a = Some mid \<and> sa_delta a = d
      \<and> stock_adjustments s' = stock_adjustments s @ [a]
      \<and> product_variants s' = product_variants s \<and> catalog_variants s' = catalog_variants s
      \<and> inventory_movements s' = inventory_movements s \<and> products s' = products s
      \<and> (\<forall>b\<in>set (stock_adjustments s). sa_movement b \<noteq> Some mid)"
  using assms
  by (auto simp: apply_marketplace_stock_effect_def adjustment_create_def bindR_Inr_iff Let_def split: if_splits)

lemma marketplace_effect_adjusts:
  assumes "apply_marketplace_stock_effect p d reason actor mid cv level s = Inr (a, s')"
    and own: "\<And>c. cv = Some c \<Longrightarrow> \<exists>r\<in>set (catalog_variants s). cv_id r = c \<and> cv_product r = p"
  shows "adjusts s p a"
proof -
  obtain scope where e: "effect_scope p cv level s = Inr scope" "sa_catalog_variant a = scope"
      "sa_product a = (if scope \<noteq> None then None else Some p)"
    using marketplace_effect_Inr [OF assms(1)] by blast
  then show ?thesis
    using effect_scope_in_product [of p cv level s] own by (cases scope) (fastforce simp: adjusts_def)+
qed

end
