(* ===== verification/Stock_Props.thy ===== *)
theory Stock_Props
  imports Stock
begin

text \<open>
  Properties of the stock ledger, each with a witness on \<open>demo_shop\<close>: one product with two
  variants (a 120-pack counted as two boxes, a single pack), and order 7 with three lines, two
  of them of the same SKU.
\<close>

definition demo_shop :: stock_db where
  "demo_shop = \<lparr>clock = 0, next_id = 100, audit_log = [],
     products = [\<lparr>p_id = 1, p_title = ''Masala'', p_title_override = None\<rparr>],
     catalog_variants = [\<lparr>cv_id = 5, cv_product = 1, cv_name = ''Gold'', cv_display_order = 1, cv_is_active = True\<rparr>],
     product_variants =
       [\<lparr>pv_id = 2, pv_product = 1, pv_sku = ''A'', pv_title = Some ''120 Pack'', pv_title_override = None,
         pv_available = 10, pv_packets_per_box = 1, pv_pack_size = 2, pv_catalog_variant = Some 5,
         pv_source = ''shopify'', pv_external = None\<rparr>,
        \<lparr>pv_id = 3, pv_product = 1, pv_sku = ''B'', pv_title = None, pv_title_override = None,
         pv_available = 4, pv_packets_per_box = 3, pv_pack_size = 1, pv_catalog_variant = None,
         pv_source = ''shopify'', pv_external = None\<rparr>],
     inventory_movements = [], stock_adjustments = [],
     order_items =
       [\<lparr>oi_id = 20, oi_order = 7, oi_variant = Some 2, oi_sku = ''A'', oi_product_name = ''Masala'', oi_quantity = 3,
          oi_unit_price = 100, oi_discount = 0, oi_tax = 0, oi_total = 100, oi_source = ''manual'', oi_external = None\<rparr>,
        \<lparr>oi_id = 21, oi_order = 7, oi_variant = None, oi_sku = ''B'', oi_product_name = ''Masala'', oi_quantity = 4,
          oi_unit_price = 100, oi_discount = 0, oi_tax = 0, oi_total = 100, oi_source = ''manual'', oi_external = None\<rparr>,
        \<lparr>oi_id = 22, oi_order = 7, oi_variant = None, oi_sku = ''A'', oi_product_name = ''Masala'', oi_quantity = 1,
          oi_unit_price = 100, oi_discount = 0, oi_tax = 0, oi_total = 100, oi_source = ''manual'', oi_external = None\<rparr>],
     unseen_moves = []\<rparr>"

lemma demo_shop_wf [simp]: "variants_wf demo_shop"
  by (simp add: variants_wf_def demo_shop_def)

lemma demo_shop_ok [simp]: "stock_ok demo_shop"
  by (simp add: stock_ok_def) (simp add: demo_shop_def move_keys_def stock_rows_def)

lemmas demo_eval = demo_shop_def items_for_order_def resolve_variant_def variant_by_def
  variant_by_sku_def available_def

lemma demo_ceiling [simp]: "\<lceil>4 / 3 :: rat\<rceil> = 2"
  by (rule ceiling_unique) simp_all

section \<open>Properties\<close>

text \<open>
  C1: however the stock operations follow one another, and whatever concurrent transactions have
  committed meanwhile, the movement ledger explains every variant's stock: each row's
  \<open>quantity_after\<close> is the balance before it plus its delta, the part of the stock no row
  explains never changes, and no order moves a variant twice by the same type.
\<close>

theorem ledger_explains_stock:
  assumes "stock_step\<^sup>*\<^sup>* s s'" and "stock_ok s"
  shows "chain (unexplained s' vid) (stock_rows s' vid)
    \<and> available s' vid = unexplained s vid + deltas (stock_rows s' vid)
    \<and> distinct (move_keys s')"
proof -
  have "stock_ok s' \<and> unexplained s' = unexplained s"
    using assms by (rule stock_steps_ok)
  moreover from this have "available s' vid = unexplained s vid + deltas (stock_rows s' vid)"
    by (metis add.commute diff_add_cancel unexplained_def)
  ultimately show ?thesis unfolding stock_ok_def by metis
qed

theorem ledger_explains_stock_witness:
  "\<exists>s'. apply_dispatch 7 1 demo_shop = Inr s'
     \<and> available s' 2 = unexplained demo_shop 2 + deltas (stock_rows s' 2)"
proof -
  obtain s' where d: "apply_dispatch 7 1 demo_shop = Inr s'"
    using apply_dispatch_total [OF demo_shop_wf] by blast
  then have "stock_step\<^sup>*\<^sup>* demo_shop s'" by (blast intro: stock_step.dispatch)
  from ledger_explains_stock [OF this demo_shop_ok] d show ?thesis by blast
qed

text \<open>
  A dispatch takes from each variant exactly the box count of the first line of the order that
  resolves to it, the ceiling of quantity times \<open>pack_size\<close> over \<open>packets_per_box\<close>, and
  nothing if the order already dispatched that variant here or in a concurrent transaction. A
  second line of the same variant takes nothing.
\<close>

theorem dispatch_takes_first_line:
  assumes "variants_wf s" and "apply_dispatch ord ship s = Inr s'"
  shows "available s' vid = available s vid -
    (if (vid, ord, DISPATCH) \<in> taken s then 0 else first_line_boxes s ord vid)"
  using assms by (rule dispatch_effect)

theorem dispatch_takes_first_line_witness:
  "\<exists>s'. apply_dispatch 7 1 demo_shop = Inr s' \<and> available s' 2 = 4 \<and> available s' 3 = 2"
proof -
  obtain s' where d: "apply_dispatch 7 1 demo_shop = Inr s'"
    using apply_dispatch_total [OF demo_shop_wf] by blast
  have "available s' 2 = 4" "available s' 3 = 2"
    unfolding dispatch_takes_first_line [OF demo_shop_wf d]
    by (simp_all add: demo_eval first_line_boxes_def first_line_def hits_def line_boxes_def taken_def
        move_keys_def ceiling_divide_eq_div)
  with d show ?thesis by blast
qed

text \<open>
  Dispatching an order again, for any shipment, changes nothing at all: tracking may advance
  through several statuses or be scanned again.
\<close>

theorem dispatch_idempotent:
  assumes "variants_wf s" and "apply_dispatch ord ship s = Inr s'"
  shows "apply_dispatch ord ship' s' = Inr s'"
  using assms by (rule dispatch_again)

theorem dispatch_idempotent_witness:
  "\<exists>s'. apply_dispatch 7 1 demo_shop = Inr s' \<and> apply_dispatch 7 2 s' = Inr s'"
  using apply_dispatch_total [OF demo_shop_wf] dispatch_idempotent [OF demo_shop_wf] by blast

text \<open>
  C3: an RTO restock gives back exactly the boxes the dispatch took, even if a variant's
  \<open>packets_per_box\<close> was changed in between.
\<close>

theorem rto_gives_back_dispatch:
  assumes "variants_wf s" and "\<And>t. (vid, ord, t) \<notin> taken s"
    and "apply_dispatch ord ship s = Inr s1"
    and "update_packets_per_box k n actor s1 = Inr s2"
    and "apply_rto_restock ord rto s2 = Inr s3"
  shows "available s3 vid = available s vid"
  using assms(1,2,3) _ _ assms(5)
proof (rule restock_after_dispatch)
  have wf1: "variants_wf s1"
    using dispatch_pass [OF assms(1,3)] assms(1) by (rule dispatch.pass_wf)
  have frame: "stock_frame s1 s2" using assms(4) by (rule setter_frame)
  then show "variants_wf s2" using wf1 by (simp add: stock_frame_def)
  show "refactored s1 s2"
    using assms(4) frame by (rule packets_refactored)
qed

theorem rto_gives_back_dispatch_witness:
  "\<exists>s1 s2 s3. apply_dispatch 7 1 demo_shop = Inr s1 \<and> update_packets_per_box 3 9 None s1 = Inr s2
     \<and> apply_rto_restock 7 4 s2 = Inr s3 \<and> available s3 3 = available demo_shop 3"
proof -
  obtain s1 where d: "apply_dispatch 7 1 demo_shop = Inr s1"
    using apply_dispatch_total [OF demo_shop_wf] by blast
  have pass: "dispatch.pass 7 demo_shop s1" using demo_shop_wf d by (rule dispatch_pass)
  have "has_variant demo_shop 3" by (simp add: has_variant_def demo_eval)
  then have "has_variant s1 3"
    using pass has_variant_same_catalog unfolding dispatch.pass_def by blast
  then obtain s2 where u: "update_packets_per_box 3 9 None s1 = Inr s2"
    using update_packets_per_box_total [of 9 s1 3 None] by auto
  have "variants_wf s2"
    using setter_frame(1) [OF u] dispatch.pass_wf [OF pass demo_shop_wf] by (simp add: stock_frame_def)
  then obtain s3 where r: "apply_rto_restock 7 4 s2 = Inr s3"
    using apply_rto_restock_total by blast
  have free: "(3, 7, t) \<notin> taken demo_shop" for t
    by (simp add: taken_def move_keys_def demo_shop_def)
  from rto_gives_back_dispatch [OF demo_shop_wf free d u r] d u r show ?thesis by blast
qed

text \<open>
  The pre-flight check protects the dispatch. When it finds no shortage for an order, the
  dispatch of that order drives no variant below zero that was not below zero before.
\<close>

theorem no_shortage_dispatch_safe:
  assumes "variants_wf s" and "check_stock_available ord s = Inr []"
    and "apply_dispatch ord ship s = Inr s'" and "0 \<le> available s vid"
  shows "0 \<le> available s' vid"
  using dispatch_effect [OF assms(1,3), of vid] no_shortage_line [OF assms(1,2), of vid] assms(4)
  by auto

theorem no_shortage_dispatch_safe_witness:
  "check_stock_available 7 demo_shop = Inr [] \<and>
   (\<exists>s'. apply_dispatch 7 1 demo_shop = Inr s' \<and> 0 \<le> available s' 2)"
proof -
  have c: "check_stock_available 7 demo_shop = Inr []"
    by (simp add: check_stock_available_def check_line_def demo_eval ceil_div_def)
  obtain s' where d: "apply_dispatch 7 1 demo_shop = Inr s'"
    using apply_dispatch_total [OF demo_shop_wf] by blast
  have "0 \<le> available demo_shop 2" by (simp add: demo_eval)
  from no_shortage_dispatch_safe [OF demo_shop_wf c d this] c d show ?thesis by blast
qed

text \<open>
  The OMS-visible variants of a product partition its underlying variants: none is dropped,
  doubled or invented. The groups come in order of display order and lower-case name, and a
  catalog variant's group holds only variants mapped to it.
\<close>

theorem oms_variants_partition:
  assumes "get_oms_variants_for_product p s = Inr (pr, gs)"
  shows "mset (concat (map og_variants gs)) = mset (variants_for_product s p)
    \<and> sorted (map (\<lambda>g. (og_display_order g, lower (og_name g))) gs)
    \<and> (\<forall>g\<in>set gs. \<forall>c. og_catalog_variant g = Some c \<longrightarrow>
         (\<forall>v\<in>set (og_variants g). pv_catalog_variant v = Some c))"
  using get_oms_variants_facts [OF assms] by blast

theorem oms_variants_partition_witness:
  "\<exists>pr gs. get_oms_variants_for_product 1 demo_shop = Inr (pr, gs)
     \<and> mset (concat (map og_variants gs)) = mset (product_variants demo_shop)"
proof -
  obtain pr gs where g: "get_oms_variants_for_product 1 demo_shop = Inr (pr, gs)"
    by (simp add: get_oms_variants_for_product_def product_by_def demo_shop_def Let_def split_def)
  have "variants_for_product demo_shop 1 = product_variants demo_shop"
    by (simp add: variants_for_product_def demo_shop_def)
  with oms_variants_partition [OF g] g show ?thesis by metis
qed

text \<open>
  Adding stock by hand succeeds exactly for a positive quantity, a reason that is not blank
  and an existing variant; then it adds that quantity to that variant, writes one movement row
  with the resulting balance and one audit row, and touches no other variant.
\<close>

theorem add_stock_exact:
  "((\<exists>m s'. add_stock vid q reason actor s = Inr (m, s')) \<longleftrightarrow>
      0 < q \<and> strip reason \<noteq> [] \<and> has_variant s vid)
   \<and> (\<forall>m s' k. add_stock vid q reason actor s = Inr (m, s') \<longrightarrow>
        available s' k = available s k + (if k = vid then q else 0)
        \<and> inventory_movements s' = inventory_movements s @ [m]
        \<and> im_delta m = q \<and> im_after m = available s vid + q \<and> im_reason m = Some (strip reason)
        \<and> length (audit_log s') = Suc (length (audit_log s)))"
proof (intro conjI allI impI)
  show "(\<exists>m s'. add_stock vid q reason actor s = Inr (m, s')) \<longleftrightarrow>
     0 < q \<and> strip reason \<noteq> [] \<and> has_variant s vid"
    by (simp add: add_stock_Inr_iff)
next
  fix m :: inventory_movement and s' :: "'a stock_db_scheme" and k
  assume "add_stock vid q reason actor s = Inr (m, s')"
  note post = this [unfolded add_stock_Inr_iff]
  show "available s' k = available s k + (if k = vid then q else 0)"
    using post stock.balance_post [of s vid] by auto
  show "inventory_movements s' = inventory_movements s @ [m]" "im_delta m = q"
    "im_after m = available s vid + q" "im_reason m = Some (strip reason)"
    "length (audit_log s') = Suc (length (audit_log s))"
    using post by (auto simp: stock_move_def Let_def variant_update_def fresh_def)
qed

theorem add_stock_exact_witness:
  "\<exists>m s'. add_stock 2 5 ''stock take'' None demo_shop = Inr (m, s')
     \<and> available s' 2 = available demo_shop 2 + 5 \<and> available s' 3 = available demo_shop 3"
proof -
  have "has_variant demo_shop 2" "strip ''stock take'' \<noteq> []"
    by (simp_all add: has_variant_def demo_eval strip_eq_Nil_iff is_space_def Let_def)
  then obtain m s' where "add_stock 2 5 ''stock take'' None demo_shop = Inr (m, s')"
    using add_stock_exact [of 2 5 "''stock take''" None demo_shop] by auto
  then show ?thesis
    using add_stock_exact [of 2 5 "''stock take''" None demo_shop] by fastforce
qed

end
