(* ===== verification/Ist_Calendar.thy ===== *)
theory Ist_Calendar
  imports Oms_Prelude
begin

text \<open>
  The business calendar (\<open>app/core/timezone.py\<close>). A UTC instant is the number of
  microseconds since 0001-01-01T00:00Z, a calendar date the number of days since 0001-01-01, as
  Python's \<open>datetime\<close> and \<open>date\<close> count them; India Standard Time is a fixed offset.
\<close>

type_synonym instant = int
type_synonym date = int

definition day_us :: int where
  "day_us = 86400000000"

definition ist_offset :: int where
  "ist_offset = 19800000000"

definition to_ist :: "instant \<Rightarrow> instant" where
  "to_ist t = t + ist_offset"

definition date_of :: "instant \<Rightarrow> date" where
  "date_of t = t div day_us"

text \<open>\<open>replace(hour=0, minute=0, second=0, microsecond=0)\<close>.\<close>

definition at_midnight :: "instant \<Rightarrow> instant" where
  "at_midnight t = t - t mod day_us"

definition ist_day_bounds :: "instant \<Rightarrow> instant \<times> instant" where
  "ist_day_bounds now =
     (let ist_now = to_ist now; ist_midnight = at_midnight ist_now;
          start_of_today_utc = ist_midnight - ist_offset;
          start_of_tomorrow_utc = start_of_today_utc + day_us
      in (start_of_today_utc, start_of_tomorrow_utc))"

text \<open>\<open>ist_today()\<close> at the time \<open>now\<close>.\<close>

definition ist_today :: "instant \<Rightarrow> date" where
  "ist_today now = date_of (to_ist now)"

definition ist_day_bounds_for_date :: "date \<Rightarrow> instant \<times> instant" where
  "ist_day_bounds_for_date day = ist_day_bounds (day * day_us + day_us div 2)"

lemma day_us_pos: "0 < day_us"
  by (simp add: day_us_def)

lemma at_midnight_eq: "at_midnight t = date_of t * day_us"
  by (simp add: at_midnight_def date_of_def minus_mod_eq_div_mult)

lemma ist_day_bounds_eq:
  "ist_day_bounds now = (ist_today now * day_us - ist_offset, (ist_today now + 1) * day_us - ist_offset)"
  by (simp add: ist_day_bounds_def ist_today_def at_midnight_eq Let_def algebra_simps)

lemma date_of_iff: "date_of t = d \<longleftrightarrow> d * day_us \<le> t \<and> t < (d + 1) * day_us"
proof
  assume "date_of t = d"
  then show "d * day_us \<le> t \<and> t < (d + 1) * day_us"
    unfolding date_of_def using div_mult_mod_eq [of t day_us] pos_mod_bound [OF day_us_pos, of t]
      pos_mod_sign [OF day_us_pos, of t] by (auto simp: algebra_simps)
next
  assume "d * day_us \<le> t \<and> t < (d + 1) * day_us"
  then show "date_of t = d"
    unfolding date_of_def
    by (intro int_div_pos_eq [of _ _ _ "t - d * day_us"]) (auto simp: algebra_simps)
qed

lemma ist_today_of_noon: "ist_today (day * day_us + day_us div 2) = day"
  unfolding ist_today_def date_of_iff by (simp add: to_ist_def day_us_def ist_offset_def)

section \<open>Months\<close>

text \<open>\<open>date.year\<close>, \<open>date.month\<close> and \<open>date.day\<close>, and the way back (\<open>toordinal\<close>).\<close>

definition leap :: "int \<Rightarrow> bool" where
  "leap y \<longleftrightarrow> y mod 4 = 0 \<and> (y mod 100 \<noteq> 0 \<or> y mod 400 = 0)"

definition days_before_year :: "int \<Rightarrow> int" where
  "days_before_year y = (let p = y - 1 in 365 * p + p div 4 - p div 100 + p div 400)"

definition feb :: "int \<Rightarrow> int" where
  "feb y = (if leap y then 1 else 0)"

definition days_before_month :: "int \<Rightarrow> int \<Rightarrow> int" where
  "days_before_month y m =
     (if m \<le> 1 then 0 else if m = 2 then 31
      else if m = 3 then 59 + feb y else if m = 4 then 90 + feb y else if m = 5 then 120 + feb y
      else if m = 6 then 151 + feb y else if m = 7 then 181 + feb y else if m = 8 then 212 + feb y
      else if m = 9 then 243 + feb y else if m = 10 then 273 + feb y else if m = 11 then 304 + feb y
      else if m = 12 then 334 + feb y else 365 + feb y)"

definition from_ymd :: "int \<times> int \<times> int \<Rightarrow> date" where
  "from_ymd = (\<lambda>(y, m, d). days_before_year y + days_before_month y m + d - 1)"

definition year_of :: "date \<Rightarrow> int" where
  "year_of n =
     (let n400 = n div 146097; n' = n mod 146097;
          n100 = n' div 36524; n'' = n' mod 36524;
          n4 = n'' div 1461; n''' = n'' mod 1461;
          n1 = n''' div 365;
          year = n400 * 400 + n100 * 100 + n4 * 4 + n1 + 1
      in if n1 = 4 \<or> n100 = 4 then year - 1 else year)"

definition month_in :: "int \<Rightarrow> int \<Rightarrow> int" where
  "month_in y r =
     (if r < 31 then 1 else if r < 59 + feb y then 2 else if r < 90 + feb y then 3
      else if r < 120 + feb y then 4 else if r < 151 + feb y then 5 else if r < 181 + feb y then 6
      else if r < 212 + feb y then 7 else if r < 243 + feb y then 8 else if r < 273 + feb y then 9
      else if r < 304 + feb y then 10 else if r < 334 + feb y then 11 else 12)"

definition to_ymd :: "date \<Rightarrow> int \<times> int \<times> int" where
  "to_ymd n = (let y = year_of n; r = n - days_before_year y; m = month_in y r
               in (y, m, r - days_before_month y m + 1))"

text \<open>\<open>today.replace(day=1)\<close>, and the first day of the month after it.\<close>

definition month_start :: "date \<Rightarrow> date" where
  "month_start day = (let (y, m, _) = to_ymd day in from_ymd (y, m, 1))"

definition next_month_start :: "date \<Rightarrow> date" where
  "next_month_start day =
     (let (y, m, _) = to_ymd day
      in if m = 12 then from_ymd (y + 1, 1, 1) else from_ymd (y, m + 1, 1))"

section \<open>Facts\<close>

lemma days_before_year_decomp:
  assumes "0 \<le> a" "a \<le> 3" "0 \<le> b" "b \<le> 24" "0 \<le> c" "c \<le> (3::int)"
  shows "days_before_year (q * 400 + a * 100 + b * 4 + c + 1) = 146097 * q + 36524 * a + 1461 * b + 365 * c"
proof -
  let ?p = "q * 400 + a * 100 + b * 4 + c"
  have "?p div 400 = q"
    using assms by (intro int_div_pos_eq [of _ _ _ "a * 100 + b * 4 + c"]) auto
  moreover have "?p div 100 = 4 * q + a"
    using assms by (intro int_div_pos_eq [of _ _ _ "b * 4 + c"]) auto
  moreover have "?p div 4 = 100 * q + 25 * a + b"
    using assms by (intro int_div_pos_eq [of _ _ _ c]) auto
  ultimately show ?thesis by (simp add: days_before_year_def Let_def)
qed

lemma div_pred:
  assumes "0 < (k::int)"
  shows "y div k = (y - 1) div k + (if y mod k = 0 then 1 else 0)"
proof (cases "y mod k = 0")
  case True
  then have "(y - 1) div k = y div k - 1"
    using assms div_mult_mod_eq [of y k]
    by (intro int_div_pos_eq [of _ _ _ "k - 1"]) (auto simp: algebra_simps)
  with True show ?thesis by simp
next
  case False
  then have "(y - 1) div k = y div k"
    using assms div_mult_mod_eq [of y k] pos_mod_bound [OF assms, of y] pos_mod_sign [OF assms, of y]
    by (intro int_div_pos_eq [of _ _ _ "y mod k - 1"]) (auto simp: algebra_simps)
  with False show ?thesis by simp
qed

lemma year_len: "days_before_year (y + 1) = days_before_year y + 365 + feb y"
proof -
  have "y mod 400 = 0 \<Longrightarrow> y mod 100 = 0"
    using mod_mod_cancel [of 100 400 y] by simp
  moreover have "y mod 100 = 0 \<Longrightarrow> y mod 4 = 0"
    using mod_mod_cancel [of 4 100 y] by simp
  ultimately have feb: "feb y = (if y mod 4 = 0 then 1 else 0) - (if y mod 100 = 0 then 1 else 0)
      + (if y mod 400 = 0 then 1 else 0)"
    unfolding feb_def leap_def
    by (cases "y mod 4 = 0"; cases "y mod 100 = 0"; cases "y mod 400 = 0")
      (simp_all only: simp_thms if_True if_False diff_0_right add_0 add_0_right diff_self)
  have "365 * y + (a + i) - (b + j) + (c + k) = 365 * (y - 1) + a - b + c + 365 + (i - j + k)"
    for a b c i j k :: int by simp
  then show ?thesis
    unfolding feb days_before_year_def Let_def add_diff_cancel_right'
      div_pred [of 4 y, OF zero_less_numeral] div_pred [of 100 y, OF zero_less_numeral]
      div_pred [of 400 y, OF zero_less_numeral] .
qed

lemma leap_decomp:
  assumes "0 \<le> a" "a \<le> 3" "0 \<le> b" "b \<le> 24" "b \<le> 23 \<or> a = (3::int)"
  shows "feb (q * 400 + a * 100 + b * 4 + 3 + 1) = 1"
proof -
  let ?y = "q * 400 + a * 100 + b * 4 + 3 + 1"
  have "?y = 4 * (q * 100 + a * 25 + b + 1)" by simp
  then have "?y mod 4 = 0" by (metis mod_mult_self1_is_0)
  moreover have "?y mod 100 \<noteq> 0 \<or> ?y mod 400 = 0"
  proof (cases "b \<le> 23")
    case True
    have "?y mod 100 = (b * 4 + 4 + 100 * (4 * q + a)) mod 100" by (simp add: algebra_simps)
    also have "\<dots> = (b * 4 + 4) mod 100" by (rule mod_mult_self2)
    also have "\<dots> = b * 4 + 4" using assms True by simp
    finally show ?thesis using assms by simp
  next
    case False
    then have "?y = 400 * (q + 1)" using assms by simp
    then have "?y mod 400 = 0" by (metis mod_mult_self1_is_0)
    then show ?thesis by simp
  qed
  ultimately show ?thesis by (simp add: feb_def leap_def)
qed

lemma year_of_bounds: "days_before_year (year_of n) \<le> n \<and> n < days_before_year (year_of n + 1)"
proof -
  define q where "q = n div 146097"
  define n' where "n' = n mod 146097"
  define a where "a = n' div 36524"
  define n'' where "n'' = n' mod 36524"
  define b where "b = n'' div 1461"
  define n3 where "n3 = n'' mod 1461"
  define c where "c = n3 div 365"
  define r where "r = n3 mod 365"
  have n: "n = 146097 * q + n'" "n' = 36524 * a + n''" "n'' = 1461 * b + n3" "n3 = 365 * c + r"
    by (simp_all add: q_def n'_def a_def n''_def b_def n3_def c_def r_def)
  have bd: "0 \<le> n'" "n' < 146097" "0 \<le> n''" "n'' < 36524" "0 \<le> n3" "n3 < 1461" "0 \<le> r" "r < 365"
    by (simp_all add: n'_def n''_def n3_def r_def)
  have ab: "0 \<le> a" "a \<le> 4" "0 \<le> b" "b \<le> 24" "0 \<le> c" "c \<le> 4" using n bd by linarith+
  have yr: "year_of n = (if c = 4 \<or> a = 4 then q * 400 + a * 100 + b * 4 + c else q * 400 + a * 100 + b * 4 + c + 1)"
    by (simp add: year_of_def Let_def q_def n'_def a_def n''_def b_def n3_def c_def)
  consider (four) "a = 4" | (leap) "a \<le> 3" "c = 4" | (reg) "a \<le> 3" "c \<le> 3" using ab by linarith
  then show ?thesis
  proof cases
    case four
    then have z: "n'' = 0" using n bd by linarith
    then have z': "b = 0" "c = 0" using n bd ab by linarith+
    have "year_of n = q * 400 + 3 * 100 + 24 * 4 + 3 + 1" using yr four z' by simp
    then have "days_before_year (year_of n) = 146097 * q + 36524 * 3 + 1461 * 24 + 365 * 3"
      "feb (year_of n) = 1"
      using days_before_year_decomp [of 3 24 3 q] leap_decomp [of 3 24 q] by simp_all
    then show ?thesis using n four z z' bd year_len [of "year_of n"] by linarith
  next
    case leap
    then have r: "r = 0" using n bd by linarith
    have b: "b \<le> 23 \<or> a = 3" using n bd leap by linarith
    have y: "year_of n = q * 400 + a * 100 + b * 4 + 3 + 1" using yr leap by simp
    have "feb (year_of n) = 1" using b ab leap(1) unfolding y by (intro leap_decomp) auto
    moreover have "days_before_year (year_of n) = 146097 * q + 36524 * a + 1461 * b + 365 * 3"
      unfolding y using ab leap by (intro days_before_year_decomp) auto
    ultimately show ?thesis using n leap r year_len [of "year_of n"] by linarith
  next
    case reg
    then have "year_of n = q * 400 + a * 100 + b * 4 + c + 1" using yr by auto
    moreover from this have "days_before_year (year_of n) = 146097 * q + 36524 * a + 1461 * b + 365 * c"
      using ab reg by (simp add: days_before_year_decomp)
    moreover have "0 \<le> feb (year_of n)" by (simp add: feb_def)
    ultimately show ?thesis using n bd year_len [of "year_of n"] by linarith
  qed
qed

text \<open>The year of a day is the only one whose days contain it.\<close>

lemma days_before_year_mono: "y \<le> y' \<Longrightarrow> days_before_year y \<le> days_before_year y'"
proof (induction "nat (y' - y)" arbitrary: y')
  case (Suc k)
  then have "days_before_year y \<le> days_before_year (y' - 1)" by (intro Suc.hyps(1)) auto
  also have "\<dots> \<le> days_before_year y'" using year_len [of "y' - 1"] by (simp add: feb_def)
  finally show ?case .
qed simp

lemma year_of_unique:
  assumes "days_before_year y \<le> n" "n < days_before_year (y + 1)"
  shows "year_of n = y"
proof -
  have "\<not> year_of n < y" "\<not> y < year_of n"
    using days_before_year_mono [of "year_of n + 1" y] days_before_year_mono [of "y + 1" "year_of n"]
      year_of_bounds [of n] assms by auto
  then show ?thesis by simp
qed

lemma month_in_range: "1 \<le> month_in y r \<and> month_in y r \<le> 12"
  by (simp add: month_in_def)

lemma month_in_iff:
  assumes "0 \<le> r" "r < 365 + feb y" "1 \<le> m" "m \<le> 12"
  shows "month_in y r = m \<longleftrightarrow> days_before_month y m \<le> r \<and> r < days_before_month y (m + 1)"
proof -
  have "m = 1 \<or> m = 2 \<or> m = 3 \<or> m = 4 \<or> m = 5 \<or> m = 6 \<or> m = 7 \<or> m = 8 \<or> m = 9 \<or> m = 10 \<or> m = 11 \<or> m = 12"
    using assms(3,4) by presburger
  then show ?thesis
    using assms(1,2) by (elim disjE) (simp_all add: month_in_def days_before_month_def feb_def)
qed

text \<open>The month of a day: the days from its first to the first of the next month.\<close>

abbreviation year_month :: "date \<Rightarrow> int \<times> int" where
  "year_month day \<equiv> (fst (to_ymd day), fst (snd (to_ymd day)))"

lemma year_month_iff:
  assumes "1 \<le> m" "m \<le> 12"
  shows "year_month n = (y, m) \<longleftrightarrow>
    days_before_year y + days_before_month y m \<le> n \<and> n < days_before_year y + days_before_month y (m + 1)"
proof -
  have m: "0 \<le> days_before_month y m" "days_before_month y (m + 1) \<le> 365 + feb y"
    by (auto simp: days_before_month_def feb_def)
  show ?thesis
  proof (cases "year_of n = y")
    case True
    then have "0 \<le> n - days_before_year y" "n - days_before_year y < 365 + feb y"
      using year_of_bounds [of n] year_len [of y] by auto
    then show ?thesis
      using month_in_iff [of "n - days_before_year y" y m] assms True by (auto simp: to_ymd_def Let_def)
  next
    case False
    then have "\<not> (days_before_year y \<le> n \<and> n < days_before_year (y + 1))"
      using year_of_unique by blast
    then show ?thesis using False m year_len [of y] by (auto simp: to_ymd_def Let_def)
  qed
qed

lemma month_window:
  "month_start day \<le> n \<and> n < next_month_start day \<longleftrightarrow> year_month n = year_month day"
proof -
  obtain y m d where ymd: "to_ymd day = (y, m, d)" by (cases "to_ymd day") auto
  then have m: "1 \<le> m" "m \<le> 12" using month_in_range by (auto simp: to_ymd_def Let_def)
  have start: "month_start day = days_before_year y + days_before_month y m"
    by (simp add: month_start_def ymd from_ymd_def)
  have nxt: "next_month_start day = days_before_year y + days_before_month y (m + 1)"
    using m by (auto simp: next_month_start_def ymd from_ymd_def year_len days_before_month_def)
  show ?thesis
    using year_month_iff [OF m, of n y] by (simp add: start nxt ymd)
qed

text \<open>An IST day holds exactly the instants between its bounds.\<close>

lemma in_ist_day:
  "fst (ist_day_bounds now) \<le> t \<and> t < snd (ist_day_bounds now) \<longleftrightarrow> ist_today t = ist_today now"
  unfolding ist_day_bounds_eq ist_today_def date_of_iff by (auto simp: to_ist_def)

lemma in_ist_day_for_date:
  "fst (ist_day_bounds_for_date day) \<le> t \<and> t < snd (ist_day_bounds_for_date day) \<longleftrightarrow> ist_today t = day"
  unfolding ist_day_bounds_for_date_def in_ist_day ist_today_of_noon ..

end
