(* ===== verification/Marketplace.thy ===== *)
theory Marketplace
  imports Stock Ist_Calendar
begin

text \<open>
  The manual marketplace ledgers: \<open>app/services/platform_inventory_service.py\<close> with
  \<open>app/repositories/platform_inventory.py\<close>. One ledger is kept per variant and platform
  (\<open>PlatformStockMovement\<close>), one per product, OMS-visible variant and platform
  (\<open>ProductMarketplaceMovement\<close>); the second moves the OMS stock total in the same
  transaction and is corrected by appending reversals and replacements.

  \<open>unseen_reversals\<close> and \<open>unseen_replacements\<close> hold the links that concurrent
  transactions committed after the running transaction's snapshot: queries do not return them,
  the unique constraints reject a second row with such a link.
\<close>

section \<open>Tables\<close>

datatype platform_movement_type = STOCK_ADDED | STOCK_DEDUCTED

datatype marketplace_movement_type = MARKET_STOCK_ADDED | SALE | RTO | REVERSAL

record platform_movement =
  pm_id :: uuid
  pm_variant :: uuid
  pm_platform :: string
  pm_type :: platform_movement_type
  pm_delta :: int
  pm_after :: int
  pm_date :: date
  pm_actor :: "uuid option"
  pm_reason :: "string option"
  pm_created :: instant

record marketplace_movement =
  mm_id :: uuid
  mm_product :: uuid
  mm_catalog_variant :: "uuid option"
  mm_reverses :: "uuid option"
  mm_replaces :: "uuid option"
  mm_platform :: string
  mm_type :: marketplace_movement_type
  mm_packets :: int
  mm_delta :: int
  mm_after :: int
  mm_date :: date
  mm_actor :: "uuid option"
  mm_reason :: "string option"
  mm_created :: instant

record market_db = stock_db +
  platform_movements :: "platform_movement list"
  marketplace_movements :: "marketplace_movement list"
  unseen_reversals :: "uuid list"
  unseen_replacements :: "uuid list"

fun platform_type_value :: "platform_movement_type \<Rightarrow> string" where
  "platform_type_value STOCK_ADDED = ''stock_added''"
| "platform_type_value STOCK_DEDUCTED = ''stock_deducted''"

fun market_type_value :: "marketplace_movement_type \<Rightarrow> string" where
  "market_type_value MARKET_STOCK_ADDED = ''stock_added''"
| "market_type_value SALE = ''sale''"
| "market_type_value RTO = ''rto''"
| "market_type_value REVERSAL = ''reversal''"

definition platforms :: "string list" where
  "platforms = [''amazon'', ''flipkart'', ''blinkit'', ''meesho'', ''manual_other'']"

definition platform_label :: "string \<Rightarrow> string" where
  "platform_label platform =
     (case map_of [(''amazon'', ''Amazon''), (''flipkart'', ''Flipkart''), (''blinkit'', ''Blinkit''),
                   (''meesho'', ''Meesho''), (''manual_other'', ''Manual / Other'')] platform of
        Some l \<Rightarrow> l | None \<Rightarrow> platform)"

section \<open>Repositories\<close>

text \<open>\<open>ORDER BY key DESC LIMIT 1\<close>.\<close>

definition latest_by :: "('r \<Rightarrow> 'k::linorder) \<Rightarrow> 'r list \<Rightarrow> 'r option" where
  "latest_by key rows = (if rows = [] then None else Some (last (sort_key key rows)))"

text \<open>The two totals of a list of deltas, by sign.\<close>

definition sum_by_sign :: "int list \<Rightarrow> int \<times> int" where
  "sum_by_sign ds = foldl (\<lambda>(added, deducted) d.
     if 0 \<le> d then (added + d, deducted) else (added, deducted + (- d))) (0, 0) ds"

definition platform_latest_as_of ::
  "'a market_db_scheme \<Rightarrow> uuid \<Rightarrow> string \<Rightarrow> date \<Rightarrow> platform_movement option" where
  "platform_latest_as_of s vid platform as_of =
     latest_by (\<lambda>m. (pm_date m, pm_created m, pm_id m))
       (filter (\<lambda>m. pm_variant m = vid \<and> pm_platform m = platform \<and> pm_date m \<le> as_of)
          (platform_movements s))"

definition platform_sum_for_date ::
  "'a market_db_scheme \<Rightarrow> uuid \<Rightarrow> string \<Rightarrow> date \<Rightarrow> int \<times> int" where
  "platform_sum_for_date s vid platform day =
     sum_by_sign (map pm_delta (filter (\<lambda>m. pm_variant m = vid \<and> pm_platform m = platform \<and> pm_date m = day)
       (platform_movements s)))"

type_synonym scope = "uuid \<times> uuid option \<times> string"

definition in_scope :: "scope \<Rightarrow> marketplace_movement \<Rightarrow> bool" where
  "in_scope k m \<longleftrightarrow> k = (mm_product m, mm_catalog_variant m, mm_platform m)"

definition market_latest_as_of ::
  "'a market_db_scheme \<Rightarrow> scope \<Rightarrow> date \<Rightarrow> marketplace_movement option" where
  "market_latest_as_of s k as_of =
     latest_by (\<lambda>m. (mm_date m, mm_created m, mm_id m))
       (filter (\<lambda>m. in_scope k m \<and> mm_date m \<le> as_of) (marketplace_movements s))"

definition market_sum_for_date :: "'a market_db_scheme \<Rightarrow> scope \<Rightarrow> date \<Rightarrow> int \<times> int" where
  "market_sum_for_date s k day =
     sum_by_sign (map mm_delta (filter (\<lambda>m. in_scope k m \<and> mm_date m = day) (marketplace_movements s)))"

definition reversed_ids :: "'a market_db_scheme \<Rightarrow> uuid list \<Rightarrow> uuid set" where
  "reversed_ids s ids = set [the (mm_reverses m). m \<leftarrow> marketplace_movements s,
     mm_reverses m \<noteq> None \<and> the (mm_reverses m) \<in> set ids]"

definition replaced_ids :: "'a market_db_scheme \<Rightarrow> uuid list \<Rightarrow> uuid set" where
  "replaced_ids s ids = set [the (mm_replaces m). m \<leftarrow> marketplace_movements s,
     mm_replaces m \<noteq> None \<and> the (mm_replaces m) \<in> set ids]"

definition packets_by_id :: "'a market_db_scheme \<Rightarrow> uuid list \<Rightarrow> uuid \<Rightarrow> int option" where
  "packets_by_id s ids =
     map_of [(mm_id m, mm_packets m). m \<leftarrow> marketplace_movements s, mm_id m \<in> set ids]"

definition movement_by :: "'a market_db_scheme \<Rightarrow> uuid \<Rightarrow> marketplace_movement option" where
  "movement_by s = row_by mm_id (marketplace_movements s)"

text \<open>
  \<open>sum_sold_packets\<close>: the sales of one scope of the product, on every platform, dated in the
  half-open window, that no row reverses.
\<close>

definition sum_sold_packets ::
  "'a market_db_scheme \<Rightarrow> uuid \<Rightarrow> uuid option \<Rightarrow> date \<Rightarrow> date \<Rightarrow> int" where
  "sum_sold_packets s p cv date_from date_to_exclusive =
     sum_list (map mm_packets (filter (\<lambda>m. mm_product m = p \<and> mm_catalog_variant m = cv \<and> mm_type m = SALE
         \<and> date_from \<le> mm_date m \<and> mm_date m < date_to_exclusive
         \<and> \<not> (\<exists>r\<in>set (marketplace_movements s). mm_reverses r = Some (mm_id m)))
       (marketplace_movements s)))"

text \<open>\<open>create\<close> under the two unique constraints; a null link is never restricted.\<close>

definition market_create ::
  "marketplace_movement \<Rightarrow> 'a market_db_scheme \<Rightarrow> (marketplace_movement \<times> 'a market_db_scheme) result" where
  "market_create row s =
     (if (case mm_reverses row of None \<Rightarrow> False
          | Some i \<Rightarrow> (\<exists>m\<in>set (marketplace_movements s). mm_reverses m = Some i) \<or> i \<in> set (unseen_reversals s))
      then Inl (IntegrityError ''uq_product_marketplace_movements_reverses'')
      else if (case mm_replaces row of None \<Rightarrow> False
          | Some i \<Rightarrow> (\<exists>m\<in>set (marketplace_movements s). mm_replaces m = Some i) \<or> i \<in> set (unseen_replacements s))
      then Inl (IntegrityError ''uq_product_marketplace_movements_replaces'')
      else Inr (row, fresh (s\<lparr>marketplace_movements := marketplace_movements s @ [row]\<rparr>)))"

section \<open>The per-variant ledger\<close>

definition record_movement ::
  "uuid \<Rightarrow> string \<Rightarrow> platform_movement_type \<Rightarrow> int \<Rightarrow> string option \<Rightarrow> date option \<Rightarrow> uuid option
   \<Rightarrow> 'a market_db_scheme \<Rightarrow> (platform_movement \<times> 'a market_db_scheme) result" where
  "record_movement vid platform movement_type quantity reason stock_date actor s =
     bindR (require (0 < quantity) (ValidationError ''Quantity must be a positive number.'')) (\<lambda>_.
     bindR (require (platform \<in> set platforms) (ValidationError ''Unknown platform'')) (\<lambda>_.
     bindR (require_some (variant_by s vid) (NotFoundError ''Product variant not found.'')) (\<lambda>_.
     let resolved_date = (case stock_date of Some d \<Rightarrow> d | None \<Rightarrow> ist_today (clock s));
         previous_quantity = (case platform_latest_as_of s vid platform resolved_date of
                                Some m \<Rightarrow> pm_after m | None \<Rightarrow> 0);
         delta = (case movement_type of STOCK_ADDED \<Rightarrow> quantity | STOCK_DEDUCTED \<Rightarrow> - quantity)
     in bindR (require (movement_type = STOCK_ADDED \<or> \<not> previous_quantity + delta < 0)
                 (ValidationError ''Cannot deduct boxes'')) (\<lambda>_.
        let new_quantity = previous_quantity + delta;
            cleaned_reason = clean_text reason;
            row = \<lparr>pm_id = next_id s, pm_variant = vid, pm_platform = platform, pm_type = movement_type,
                   pm_delta = delta, pm_after = new_quantity, pm_date = resolved_date,
                   pm_actor = actor, pm_reason = cleaned_reason, pm_created = clock s\<rparr>;
            s1 = fresh (s\<lparr>platform_movements := platform_movements s @ [row]\<rparr>)
        in Inr (row,
             audit_record actor ''inventory.platform_stock_movement'' ''product_variant'' vid
               [(''platform'', JStr platform), (''quantity'', JInt previous_quantity)]
               [(''platform'', JStr platform), (''quantity'', JInt new_quantity)]
               [(''movement_type'', JStr (platform_type_value movement_type)),
                (''stock_date'', JInt resolved_date), (''reason'', jtext cleaned_reason)] s1)))))"

section \<open>The per-scope ledger\<close>

text \<open>\<open>{f(v) for v in variants}\<close> as the list of its distinct elements.\<close>

definition product_conversion_factor :: "product_variant list \<Rightarrow> (int \<times> int) result" where
  "product_conversion_factor variants =
     bindR (require (variants \<noteq> []) (ValidationError ''This product has no variants to record marketplace stock against.'')) (\<lambda>_.
     let pack_sizes = remdups (map pv_pack_size variants);
         packets_per_box_values = remdups (map pv_packets_per_box variants)
     in bindR (require (\<not> (1 < length pack_sizes \<or> 1 < length packets_per_box_values))
                 (ValidationError ''SKUs use different pack sizes'')) (\<lambda>_.
        Inr (hd pack_sizes, hd packets_per_box_values)))"

definition resolve_marketplace_scope ::
  "uuid \<Rightarrow> uuid option \<Rightarrow> 'a market_db_scheme \<Rightarrow> (uuid option \<times> product_variant list) result" where
  "resolve_marketplace_scope p catalog_variant s =
     bindR (list_variants_for_product p s) (\<lambda>(_, variants).
     let cvs = catalog_for_product s p
     in if 2 \<le> length cvs then
          (case catalog_variant of
             None \<Rightarrow> Inl (ValidationError ''This product's marketplace stock is tracked per variant'')
           | Some c \<Rightarrow>
               bindR (require (c \<in> cv_id ` set cvs)
                        (ValidationError ''That variant does not belong to this product.'')) (\<lambda>_.
               Inr (Some c, filter (\<lambda>v. pv_catalog_variant v = Some c) variants)))
        else
          bindR (require (catalog_variant = None)
                   (ValidationError ''This product's marketplace stock is not tracked per variant'')) (\<lambda>_.
          Inr (None, variants)))"

definition latest_balance :: "'a market_db_scheme \<Rightarrow> scope \<Rightarrow> date \<Rightarrow> int" where
  "latest_balance s k as_of = (case market_latest_as_of s k as_of of Some m \<Rightarrow> mm_after m | None \<Rightarrow> 0)"

text \<open>\<open>created_at\<close> is a new reading of the clock, not the transaction's time.\<close>

definition append_movement ::
  "scope \<Rightarrow> marketplace_movement_type \<Rightarrow> int \<Rightarrow> int \<Rightarrow> int \<Rightarrow> date \<Rightarrow> string option \<Rightarrow> uuid option
   \<Rightarrow> uuid option \<Rightarrow> uuid option \<Rightarrow> 'a market_db_scheme
   \<Rightarrow> (marketplace_movement \<times> 'a market_db_scheme) result" where
  "append_movement k movement_type quantity_packets delta previous_quantity stock_date reason actor
     reverses replaces s =
     (let (p, cv, platform) = k; new_quantity = previous_quantity + delta; s0 = tick s
      in bindR (market_create
           \<lparr>mm_id = next_id s0, mm_product = p, mm_catalog_variant = cv, mm_reverses = reverses,
            mm_replaces = replaces, mm_platform = platform, mm_type = movement_type,
            mm_packets = quantity_packets, mm_delta = delta, mm_after = new_quantity,
            mm_date = stock_date, mm_actor = actor, mm_reason = reason, mm_created = clock s0\<rparr> s0)
         (\<lambda>(movement, s1).
         Inr (movement,
           audit_record actor ''inventory.product_marketplace_movement'' ''product'' p
             [(''platform'', JStr platform), (''outers'', JInt previous_quantity)]
             [(''platform'', JStr platform), (''outers'', JInt new_quantity)]
             [(''movement_type'', JStr (market_type_value movement_type)),
              (''quantity_packets'', JInt quantity_packets), (''stock_date'', JInt stock_date),
              (''reason'', jtext reason),
              (''catalog_variant_id'', case cv of Some c \<Rightarrow> JId c | None \<Rightarrow> JNull),
              (''reverses_movement_id'', case reverses of Some i \<Rightarrow> JId i | None \<Rightarrow> JNull),
              (''replaces_movement_id'', case replaces of Some i \<Rightarrow> JId i | None \<Rightarrow> JNull)] s1)))"

definition movement_label :: "string \<Rightarrow> marketplace_movement_type \<Rightarrow> string" where
  "movement_label platform movement_type =
     platform_label platform @ '' '' @ (if movement_type = SALE then ''sale'' else ''RTO'')"

definition signed_outers :: "marketplace_movement_type \<Rightarrow> int \<Rightarrow> int" where
  "signed_outers movement_type outers = (if movement_type = SALE then - outers else outers)"

definition record_product_movement ::
  "uuid \<Rightarrow> string \<Rightarrow> marketplace_movement_type \<Rightarrow> int \<Rightarrow> string option \<Rightarrow> date option \<Rightarrow> uuid option
   \<Rightarrow> uuid option \<Rightarrow> 'a market_db_scheme \<Rightarrow> (marketplace_movement \<times> 'a market_db_scheme) result" where
  "record_product_movement p platform movement_type quantity_packets reason stock_date actor catalog_variant s =
     bindR (require (movement_type \<in> {SALE, RTO}) (ValidationError ''Only a Sale or an RTO can be recorded for a marketplace.'')) (\<lambda>_.
     bindR (require (0 < quantity_packets) (ValidationError ''Quantity must be a positive number.'')) (\<lambda>_.
     bindR (require (platform \<in> set platforms) (ValidationError ''Unknown platform'')) (\<lambda>_.
     bindR (resolve_marketplace_scope p catalog_variant s) (\<lambda>(scope_cv, scope_variants).
     bindR (product_conversion_factor scope_variants) (\<lambda>(pack_size, packets_per_box).
     bindR (ceil_div (quantity_packets * pack_size) packets_per_box) (\<lambda>outers.
     let resolved_date = (case stock_date of Some d \<Rightarrow> d | None \<Rightarrow> ist_today (clock s));
         k = (p, scope_cv, platform);
         previous_quantity = latest_balance s k resolved_date;
         delta = signed_outers movement_type outers;
         cleaned_reason = clean_text reason
     in bindR (append_movement k movement_type quantity_packets delta previous_quantity resolved_date
                 cleaned_reason actor None None s) (\<lambda>(movement, s1).
        let oms_reason = movement_label platform movement_type @ '': '' @ show_int quantity_packets @ '' packets'';
            oms_reason' = (case cleaned_reason of Some r \<Rightarrow> oms_reason @ '' - '' @ r | None \<Rightarrow> oms_reason)
        in bindR (apply_marketplace_stock_effect p delta oms_reason' actor (mm_id movement) scope_cv False s1)
             (\<lambda>(_, s2). Inr (movement, s2)))))))))"

section \<open>Corrections\<close>

definition load_correctable :: "uuid \<Rightarrow> 'a market_db_scheme \<Rightarrow> marketplace_movement result" where
  "load_correctable movement_id s =
     bindR (require_some (movement_by s movement_id) (NotFoundError ''Marketplace movement not found.'')) (\<lambda>original.
     bindR (require (mm_platform original \<in> set platforms)
              (ValidationError ''Shopify's stock is automatic and synced; it cannot be edited or undone here.'')) (\<lambda>_.
     bindR (require (mm_type original \<in> {SALE, RTO})
              (ValidationError ''Only a manually recorded Sale or RTO can be edited or undone (a reversal cannot).'')) (\<lambda>_.
     bindR (require (reversed_ids s [mm_id original] = {})
              (ValidationError ''This movement has already been undone or edited.'')) (\<lambda>_.
     Inr original))))"

definition scope_of :: "marketplace_movement \<Rightarrow> scope" where
  "scope_of m = (mm_product m, mm_catalog_variant m, mm_platform m)"

definition append_reversal ::
  "marketplace_movement \<Rightarrow> string \<Rightarrow> uuid option \<Rightarrow> date \<Rightarrow> int \<Rightarrow> 'a market_db_scheme
   \<Rightarrow> (marketplace_movement \<times> 'a market_db_scheme) result" where
  "append_reversal original reason actor stock_date previous_quantity s =
     bindR (append_movement (scope_of original) REVERSAL (mm_packets original) (- mm_delta original)
              previous_quantity stock_date (Some reason) actor (Some (mm_id original)) None s) (\<lambda>(reversal, s1).
     (case adjustment_for_movement s1 (mm_id original) of
        None \<Rightarrow> Inr (reversal, s1)
      | Some effect \<Rightarrow>
          let label = movement_label (mm_platform original) (mm_type original)
          in bindR (apply_marketplace_stock_effect (mm_product original) (- sa_delta effect)
                      (label @ '' reversed: '' @ show_int (mm_packets original) @ '' packets - '' @ reason)
                      actor (mm_id reversal) (sa_catalog_variant effect) (sa_catalog_variant effect = None) s1)
               (\<lambda>(_, s2). Inr (reversal, s2))))"

text \<open>\<open>except IntegrityError\<close>: the link is taken by a concurrent correction.\<close>

definition already_corrected :: "'b result \<Rightarrow> 'b result" where
  "already_corrected r =
     (case r of Inl (IntegrityError _) \<Rightarrow> Inl (ValidationError ''This movement has already been undone or edited.'')
      | _ \<Rightarrow> r)"

definition undo_movement ::
  "uuid \<Rightarrow> string option \<Rightarrow> uuid option \<Rightarrow> 'a market_db_scheme
   \<Rightarrow> (marketplace_movement \<times> 'a market_db_scheme) result" where
  "undo_movement movement_id reason actor s =
     (let cleaned = strip (or_text reason '''')
      in bindR (require (cleaned \<noteq> []) (ValidationError ''A reason is required.'')) (\<lambda>_.
         bindR (load_correctable movement_id s) (\<lambda>original.
         let today = ist_today (clock s);
             previous = latest_balance s (scope_of original) today
         in already_corrected (append_reversal original cleaned actor today previous s))))"

definition edit_movement ::
  "uuid \<Rightarrow> int \<Rightarrow> string option \<Rightarrow> uuid option \<Rightarrow> 'a market_db_scheme
   \<Rightarrow> (marketplace_movement \<times> 'a market_db_scheme) result" where
  "edit_movement movement_id quantity_packets reason actor s =
     (let cleaned = strip (or_text reason '''')
      in bindR (require (cleaned \<noteq> []) (ValidationError ''A reason is required.'')) (\<lambda>_.
         bindR (require (0 < quantity_packets) (ValidationError ''Quantity must be a positive number.'')) (\<lambda>_.
         bindR (load_correctable movement_id s) (\<lambda>original.
         bindR (require (quantity_packets \<noteq> mm_packets original)
                  (ValidationError ''The new quantity must be different from the current one.'')) (\<lambda>_.
         bindR (list_variants_for_product (mm_product original) s) (\<lambda>(_, variants).
         let scope_variants = (if mm_catalog_variant original \<noteq> None
                then filter (\<lambda>v. pv_catalog_variant v = mm_catalog_variant original) variants else variants)
         in bindR (product_conversion_factor scope_variants) (\<lambda>(pack_size, packets_per_box).
            bindR (ceil_div (quantity_packets * pack_size) packets_per_box) (\<lambda>outers.
            let delta = signed_outers (mm_type original) outers;
                today = ist_today (clock s);
                previous = latest_balance s (scope_of original) today
            in already_corrected (
                 bindR (append_reversal original cleaned actor today previous s) (\<lambda>(reversal, s1).
                 bindR (append_movement (scope_of original) (mm_type original) quantity_packets delta
                          (previous + mm_delta reversal) today (Some cleaned) actor None
                          (Some (mm_id original)) s1) (\<lambda>(replacement, s2).
                 let label = movement_label (mm_platform original) (mm_type original)
                 in bindR (apply_marketplace_stock_effect (mm_product original) delta
                             (label @ '' (edited '' @ show_int (mm_packets original) @ '' -> ''
                               @ show_int quantity_packets @ ''): '' @ show_int quantity_packets
                               @ '' packets - '' @ cleaned)
                             actor (mm_id replacement) (mm_catalog_variant original) False s2)
                      (\<lambda>(_, s3). Inr (replacement, s3)))))))))))))"

section \<open>Reads\<close>

datatype movement_status = Active | Undone | Edited | Is_Reversal

record described_movement =
  dm_movement :: marketplace_movement
  dm_status :: movement_status
  dm_can_edit :: bool
  dm_can_undo :: bool
  dm_edited_from :: "int option"

definition describe_movements ::
  "marketplace_movement list \<Rightarrow> 'a market_db_scheme \<Rightarrow> described_movement list" where
  "describe_movements movements s =
     (let ids = map mm_id movements;
          reversed_set = reversed_ids s ids;
          replaced_set = replaced_ids s ids;
          replaced_origins = map the (filter (\<lambda>r. r \<noteq> None) (map mm_replaces movements));
          original_packets = packets_by_id s replaced_origins
      in map (\<lambda>m.
           let status = (if mm_type m = REVERSAL then Is_Reversal
                         else if mm_id m \<in> reversed_set
                         then (if mm_id m \<in> replaced_set then Edited else Undone) else Active);
               correctable = (status = Active \<and> mm_type m \<in> {SALE, RTO})
           in \<lparr>dm_movement = m, dm_status = status, dm_can_edit = correctable, dm_can_undo = correctable,
               dm_edited_from = (case mm_replaces m of Some i \<Rightarrow> original_packets i | None \<Rightarrow> None)\<rparr>)
         movements)"

record stock_summary_row =
  sr_platform :: string
  sr_label :: string
  sr_automatic :: bool
  sr_opening :: "int option"
  sr_added :: int
  sr_deducted :: int
  sr_current :: "int option"
  sr_last_updated :: "instant option"

definition manual_platform_row ::
  "'a market_db_scheme \<Rightarrow> uuid \<Rightarrow> uuid option \<Rightarrow> date \<Rightarrow> string \<Rightarrow> stock_summary_row" where
  "manual_platform_row s p cv stock_date platform =
     (let k = (p, cv, platform); opening_date = stock_date - 1;
          closing_row = market_latest_as_of s k stock_date;
          opening_row = market_latest_as_of s k opening_date;
          (added, deducted) = market_sum_for_date s k stock_date
      in \<lparr>sr_platform = platform, sr_label = platform_label platform, sr_automatic = False,
          sr_opening = Some (case opening_row of Some m \<Rightarrow> mm_after m | None \<Rightarrow> 0),
          sr_added = added, sr_deducted = deducted,
          sr_current = Some (case closing_row of Some m \<Rightarrow> mm_after m | None \<Rightarrow> 0),
          sr_last_updated = map_option mm_created closing_row\<rparr>)"

definition manual_platform_rows ::
  "'a market_db_scheme \<Rightarrow> uuid \<Rightarrow> uuid option \<Rightarrow> date \<Rightarrow> stock_summary_row list" where
  "manual_platform_rows s p cv stock_date = map (manual_platform_row s p cv stock_date) platforms"

definition sold_this_month :: "'a market_db_scheme \<Rightarrow> uuid \<Rightarrow> uuid option \<Rightarrow> int" where
  "sold_this_month s p cv =
     sum_sold_packets s p cv (month_start (ist_today (clock s))) (next_month_start (ist_today (clock s)))"

section \<open>Shopify's row, read from the stock ledger\<close>

text \<open>\<open>InventoryMovementRepository\<close>: totals by sign in a window of time, and the latest row before
  an instant (by \<open>created_at\<close>; of rows stamped alike the later written).\<close>

definition movement_totals_by_sign ::
  "'a stock_db_scheme \<Rightarrow> uuid list \<Rightarrow> instant \<Rightarrow> instant \<Rightarrow> uuid \<Rightarrow> (int \<times> int) option" where
  "movement_totals_by_sign s vids created_from created_to vid =
     (let rows = filter (\<lambda>m. im_variant m = vid \<and> vid \<in> set vids \<and> created_from \<le> im_created m
                   \<and> im_created m < created_to) (inventory_movements s);
          added = filter (\<lambda>d. 0 < d) (map im_delta rows);
          deducted = filter (\<lambda>d. d < 0) (map im_delta rows)
      in if added = [] \<and> deducted = [] then None else Some (sum_list added, - sum_list deducted))"

definition movement_latest_as_of ::
  "'a stock_db_scheme \<Rightarrow> uuid list \<Rightarrow> instant \<Rightarrow> uuid \<Rightarrow> inventory_movement option" where
  "movement_latest_as_of s vids created_to vid =
     latest_by im_created (filter (\<lambda>m. im_variant m = vid \<and> vid \<in> set vids \<and> im_created m < created_to)
       (inventory_movements s))"

definition last_movement_at :: "'a stock_db_scheme \<Rightarrow> uuid list \<Rightarrow> instant \<Rightarrow> uuid \<Rightarrow> instant option" where
  "last_movement_at s vids created_to vid = map_option im_created (movement_latest_as_of s vids created_to vid)"

text \<open>A sum that is unknown as soon as one summand is.\<close>

definition plus_known :: "int option \<Rightarrow> int option \<Rightarrow> int option" where
  "plus_known a b = (case (a, b) of (Some x, Some y) \<Rightarrow> Some (x + y) | _ \<Rightarrow> None)"

definition later :: "instant option \<Rightarrow> instant option \<Rightarrow> instant option" where
  "later best new = (case new of None \<Rightarrow> best
     | Some t \<Rightarrow> (case best of None \<Rightarrow> Some t | Some b \<Rightarrow> if b < t then Some t else Some b))"

definition shopify_row :: "'a stock_db_scheme \<Rightarrow> uuid list \<Rightarrow> date \<Rightarrow> product_variant list \<Rightarrow> stock_summary_row" where
  "shopify_row s vids stock_date scope_variants =
     (let is_today = (stock_date = ist_today (clock s));
          (day_start, day_end) = ist_day_bounds_for_date stock_date;
          totals = (\<lambda>v. case movement_totals_by_sign s vids day_start day_end (pv_id v) of
                         Some t \<Rightarrow> t | None \<Rightarrow> (0, 0));
          opening_of = (\<lambda>v. map_option im_after (movement_latest_as_of s vids day_start (pv_id v)));
          current_of = (\<lambda>v. if is_today then Some (pv_available v)
                           else map_option im_after (movement_latest_as_of s vids day_end (pv_id v)))
      in \<lparr>sr_platform = ''shopify'', sr_label = ''Shopify'', sr_automatic = True,
          sr_opening = foldl (\<lambda>acc v. plus_known acc (opening_of v)) (Some 0) scope_variants,
          sr_added = foldl (\<lambda>acc v. acc + fst (totals v)) 0 scope_variants,
          sr_deducted = foldl (\<lambda>acc v. acc + snd (totals v)) 0 scope_variants,
          sr_current = foldl (\<lambda>acc v. plus_known acc (current_of v)) (Some 0) scope_variants,
          sr_last_updated =
            foldl (\<lambda>acc v. later acc (last_movement_at s vids day_end (pv_id v))) None scope_variants\<rparr>)"

record stock_section =
  ss_catalog_variant :: uuid
  ss_name :: string
  ss_display_order :: int
  ss_platforms :: "stock_summary_row list"
  ss_sold :: int

record product_stock =
  ps_product :: uuid
  ps_title :: string
  ps_date :: date
  ps_per_variant :: bool
  ps_platforms :: "stock_summary_row list"
  ps_variants :: "stock_section list"
  ps_sold :: int

definition get_product_platform_stock ::
  "uuid \<Rightarrow> date \<Rightarrow> 'a market_db_scheme \<Rightarrow> product_stock result" where
  "get_product_platform_stock p stock_date s =
     bindR (list_variants_for_product p s) (\<lambda>(product, variants).
     let cvs = catalog_for_product s p;
         vids = map pv_id variants;
         title = or_text (p_title_override product) (p_title product)
     in Inr (if 2 \<le> length cvs then
          \<lparr>ps_product = p_id product, ps_title = title, ps_date = stock_date, ps_per_variant = True,
           ps_platforms = [],
           ps_variants = map (\<lambda>cv.
             \<lparr>ss_catalog_variant = cv_id cv, ss_name = cv_name cv, ss_display_order = cv_display_order cv,
              ss_platforms = shopify_row s vids stock_date
                  (filter (\<lambda>v. pv_catalog_variant v = Some (cv_id cv)) variants)
                # manual_platform_rows s p (Some (cv_id cv)) stock_date,
              ss_sold = sold_this_month s p (Some (cv_id cv))\<rparr>) cvs,
           ps_sold = 0\<rparr>
        else
          \<lparr>ps_product = p_id product, ps_title = title, ps_date = stock_date, ps_per_variant = False,
           ps_platforms = shopify_row s vids stock_date variants # manual_platform_rows s p None stock_date,
           ps_variants = [], ps_sold = sold_this_month s p None\<rparr>))"

section \<open>Histories\<close>

definition platform_rows_between ::
  "'a market_db_scheme \<Rightarrow> uuid \<Rightarrow> string option \<Rightarrow> date option \<Rightarrow> date option \<Rightarrow> platform_movement list" where
  "platform_rows_between s vid platform date_from date_to =
     rev (sort_key pm_created (filter (\<lambda>m. pm_variant m = vid
         \<and> (case platform of Some pf \<Rightarrow> pf = [] \<or> pm_platform m = pf | None \<Rightarrow> True)
         \<and> (case date_from of Some d \<Rightarrow> d \<le> pm_date m | None \<Rightarrow> True)
         \<and> (case date_to of Some d \<Rightarrow> pm_date m \<le> d | None \<Rightarrow> True)) (platform_movements s)))"

datatype history_row = Platform_Row platform_movement | Shopify_Row inventory_movement

fun row_time :: "history_row \<Rightarrow> instant" where
  "row_time (Platform_Row m) = pm_created m"
| "row_time (Shopify_Row m) = im_created m"

text \<open>The date shown: the business date, or the IST date a stock movement was made on.\<close>

fun row_date :: "history_row \<Rightarrow> date" where
  "row_date (Platform_Row m) = pm_date m"
| "row_date (Shopify_Row m) = date_of (to_ist (im_created m))"

definition shopify_rows_between ::
  "'a stock_db_scheme \<Rightarrow> uuid \<Rightarrow> date option \<Rightarrow> date option \<Rightarrow> inventory_movement list" where
  "shopify_rows_between s vid date_from date_to =
     filter (\<lambda>m. im_variant m = vid
         \<and> (case date_from of Some d \<Rightarrow> fst (ist_day_bounds_for_date d) \<le> im_created m | None \<Rightarrow> True)
         \<and> (case date_to of Some d \<Rightarrow> im_created m \<le> snd (ist_day_bounds_for_date d) | None \<Rightarrow> True))
       (inventory_movements s)"

text \<open>
  \<open>get_movement_history\<close>: both ledgers merged, newest first, one page of the rows and their
  number. \<open>sort(reverse=True)\<close> is stable: equal times keep their order.
\<close>

definition get_movement_history ::
  "uuid \<Rightarrow> string option \<Rightarrow> date option \<Rightarrow> date option \<Rightarrow> nat \<Rightarrow> nat \<Rightarrow> 'a market_db_scheme
   \<Rightarrow> (history_row list \<times> nat) result" where
  "get_movement_history vid platform date_from date_to offset page_size s =
     bindR (require_some (variant_by s vid) (NotFoundError ''Product variant not found.'')) (\<lambda>_.
     let rows = map Platform_Row (platform_rows_between s vid platform date_from date_to)
           @ (if platform = None \<or> platform = Some ''shopify''
              then map Shopify_Row (shopify_rows_between s vid date_from date_to) else []);
         sorted = sort_key (\<lambda>r. - row_time r) rows
     in Inr (take page_size (drop offset sorted), length rows))"

end
