(* ===== verification/Marketplace_Facts.thy ===== *)
theory Marketplace_Facts
  imports Marketplace
begin

text \<open>
  The marketplace ledgers as dated ledgers, what one append does, the links between a movement,
  its reversal and its replacement, and the invariant of the corrections.
\<close>

section \<open>Frames\<close>

lemma market_frames [simp]:
  "platform_movements (fresh s) = platform_movements s"
  "marketplace_movements (fresh s) = marketplace_movements s"
  "unseen_reversals (fresh s) = unseen_reversals s"
  "unseen_replacements (fresh s) = unseen_replacements s"
  "platform_movements (tick s) = platform_movements s"
  "marketplace_movements (tick s) = marketplace_movements s"
  "unseen_reversals (tick s) = unseen_reversals s"
  "unseen_replacements (tick s) = unseen_replacements s"
  "platform_movements (audit_record u a e i p n m s) = platform_movements s"
  "marketplace_movements (audit_record u a e i p n m s) = marketplace_movements s"
  "unseen_reversals (audit_record u a e i p n m s) = unseen_reversals s"
  "unseen_replacements (audit_record u a e i p n m s) = unseen_replacements s"
  by (simp_all add: fresh_def tick_def audit_record_def)

lemma tick_stock [simp]:
  "products (tick s) = products s" "catalog_variants (tick s) = catalog_variants s"
  "product_variants (tick s) = product_variants s"
  "inventory_movements (tick s) = inventory_movements s"
  "stock_adjustments (tick s) = stock_adjustments s" "order_items (tick s) = order_items s"
  "unseen_moves (tick s) = unseen_moves s"
  by (simp_all add: tick_def)

section \<open>The latest row\<close>

lemma latest_by_sorted:
  "sorted (map key rows) \<Longrightarrow> latest_by key rows = (if rows = [] then None else Some (last rows))"
  by (simp add: latest_by_def sort_key_id_if_sorted)

text \<open>A row added with the largest key is the latest.\<close>

lemma latest_by_append:
  assumes "\<forall>x\<in>set rows. key x \<le> key row"
  shows "latest_by key (rows @ [row]) = Some row"
proof -
  have "sort_key key (rows @ [row]) = sort_key key rows @ [row]"
  proof (rule properties_for_sort_key)
    show "filter (\<lambda>x. key k = key x) (sort_key key rows @ [row]) = filter (\<lambda>x. key k = key x) (rows @ [row])" for k
      using sort_key_stable [of key "key k" rows] by (simp add: eq_commute)
    show "sorted (map key (sort_key key rows @ [row]))"
      using assms by (simp add: sorted_append)
  qed simp
  then show ?thesis by (simp add: latest_by_def)
qed

text \<open>Rows in date order and written at increasing times are in the order of the query.\<close>

lemma sorted_stamps:
  fixes day stamp :: "'r \<Rightarrow> int" and key :: "'r \<Rightarrow> nat"
  assumes "sorted (map day rows)" and "sorted_wrt (<) (map stamp rows)"
  shows "sorted (map (\<lambda>m. (day m, stamp m, key m)) rows)"
  using assms by (induction rows) (auto simp: less_eq_prod_def)

lemma sorted_wrt_filter_map: "sorted_wrt P (map f xs) \<Longrightarrow> sorted_wrt P (map f (filter Q xs))"
  by (induction xs) auto

text \<open>The balance read from the latest row as of a date, for any table of dated rows.\<close>

lemma latest_balance_of:
  fixes day stamp :: "'r \<Rightarrow> int" and key :: "'r \<Rightarrow> nat" and delta after :: "'r \<Rightarrow> int"
  assumes "sorted (map day rows)" and "sorted_wrt (<) (map stamp rows)"
  shows "(case latest_by (\<lambda>m. (day m, stamp m, key m)) (filter (\<lambda>m. day m \<le> d) rows) of
            Some m \<Rightarrow> after m | None \<Rightarrow> 0) =
    balance_of (entries_upto d (map (\<lambda>m. (day m, (delta m, after m))) rows))"
proof -
  let ?rows = "filter (\<lambda>m. day m \<le> d) rows"
  have "sorted (map (\<lambda>m. (day m, stamp m, key m)) ?rows)"
    using assms by (intro sorted_stamps sorted_wrt_filter_map)
  moreover have "entries_upto d (map (\<lambda>m. (day m, (delta m, after m))) rows) =
      map (\<lambda>m. (day m, (delta m, after m))) ?rows"
    by (simp add: entries_upto_def filter_map o_def)
  ultimately show ?thesis
    by (cases ?rows rule: rev_cases) (simp_all add: latest_by_sorted balance_of_def)
qed

section \<open>The per-scope ledger\<close>

definition scope_entries :: "'a market_db_scheme \<Rightarrow> scope \<Rightarrow> (int \<times> ledger_row) list" where
  "scope_entries s k =
     map (\<lambda>m. (mm_date m, (mm_delta m, mm_after m))) (filter (in_scope k) (marketplace_movements s))"

text \<open>Rows are stamped with increasing readings of a clock that never runs back.\<close>

definition market_stamped :: "'a market_db_scheme \<Rightarrow> bool" where
  "market_stamped s \<longleftrightarrow> sorted_wrt (<) (map mm_created (marketplace_movements s))
     \<and> (\<forall>m\<in>set (marketplace_movements s). mm_created m \<le> clock s)"

definition market_appended :: "scope \<Rightarrow> date \<Rightarrow> int \<Rightarrow> 'a market_db_scheme \<Rightarrow> 'a market_db_scheme \<Rightarrow> bool" where
  "market_appended k d x s s' \<longleftrightarrow> (\<exists>row. marketplace_movements s' = marketplace_movements s @ [row]
     \<and> scope_of row = k \<and> mm_date row = d \<and> mm_delta row = x \<and> mm_after row = latest_balance s k d + x
     \<and> clock s < mm_created row \<and> mm_created row \<le> clock s')"

lemma in_scope_iff: "in_scope k m \<longleftrightarrow> scope_of m = k"
  by (auto simp: in_scope_def scope_of_def)

lemma latest_balance_in_order:
  assumes "market_stamped s" and "sorted (map fst (scope_entries s k))"
  shows "latest_balance s k d = balance_of (entries_upto d (scope_entries s k))"
proof -
  have "filter (\<lambda>m. in_scope k m \<and> mm_date m \<le> d) ms =
      filter (\<lambda>m. mm_date m \<le> d) (filter (in_scope k) ms)" for ms
    by (auto intro: filter_cong)
  moreover have "sorted (map mm_date (filter (in_scope k) (marketplace_movements s)))"
    using assms(2) by (simp add: scope_entries_def o_def)
  moreover have "sorted_wrt (<) (map mm_created (filter (in_scope k) (marketplace_movements s)))"
    using assms(1) by (auto simp: market_stamped_def intro: sorted_wrt_filter_map)
  ultimately show ?thesis
    unfolding latest_balance_def market_latest_as_of_def scope_entries_def
    by (simp only: latest_balance_of [where delta = mm_delta])
qed

interpretation scope_ledger: dated_ledger scope_entries latest_balance market_stamped market_appended
proof
  show "latest_balance s k d = balance_of (entries_upto d (scope_entries s k))"
    if "market_stamped s" "sorted (map fst (scope_entries s k))"
    for s :: "'a market_db_scheme" and k d
    using that by (rule latest_balance_in_order)
  show "scope_entries s' k' = scope_entries s k' @
      (if k' = k then [(d, (x, latest_balance s k d + x))] else [])"
    if "market_stamped s" "market_appended k d x s s'" for s s' :: "'a market_db_scheme" and k k' d x
    using that by (auto simp: scope_entries_def market_appended_def in_scope_iff)
  show "market_stamped s'" if "market_stamped s" "market_appended k d x s s'"
    for s s' :: "'a market_db_scheme" and k d x
    using that by (fastforce simp: market_stamped_def market_appended_def sorted_wrt_append)
qed

text \<open>A row written as of a date is the latest as of it, in whatever order the others are dated.\<close>

lemma latest_balance_append:
  assumes "market_stamped s" and "market_appended k d x s s'"
  shows "latest_balance s' k d = latest_balance s k d + x"
proof -
  obtain row where row: "marketplace_movements s' = marketplace_movements s @ [row]" "scope_of row = k" "mm_date row = d"
      "mm_after row = latest_balance s k d + x" "clock s < mm_created row"
    using assms(2) by (auto simp: market_appended_def)
  have "\<forall>m\<in>set (marketplace_movements s). mm_created m < mm_created row"
    using assms(1) row(5) by (auto simp: market_stamped_def intro: le_less_trans)
  then have "market_latest_as_of s' k d = Some row"
    using row by (auto simp: market_latest_as_of_def in_scope_iff less_eq_prod_def intro!: latest_by_append)
  with row(4) show ?thesis by (simp add: latest_balance_def)
qed

section \<open>The per-variant ledger\<close>

definition sku_entries :: "'a market_db_scheme \<Rightarrow> uuid \<times> string \<Rightarrow> (int \<times> ledger_row) list" where
  "sku_entries s k = map (\<lambda>m. (pm_date m, (pm_delta m, pm_after m)))
     (filter (\<lambda>m. (pm_variant m, pm_platform m) = k) (platform_movements s))"

definition sku_balance :: "'a market_db_scheme \<Rightarrow> uuid \<times> string \<Rightarrow> date \<Rightarrow> int" where
  "sku_balance s k d = (case platform_latest_as_of s (fst k) (snd k) d of Some m \<Rightarrow> pm_after m | None \<Rightarrow> 0)"

text \<open>Every committed row is stamped before the running transaction.\<close>

definition platform_stamped :: "'a market_db_scheme \<Rightarrow> bool" where
  "platform_stamped s \<longleftrightarrow> sorted_wrt (<) (map pm_created (platform_movements s))
     \<and> (\<forall>m\<in>set (platform_movements s). pm_created m < clock s)"

definition platform_appended ::
  "uuid \<times> string \<Rightarrow> date \<Rightarrow> int \<Rightarrow> 'a market_db_scheme \<Rightarrow> 'a market_db_scheme \<Rightarrow> bool" where
  "platform_appended k d x s s' \<longleftrightarrow> (\<exists>row. platform_movements s' = platform_movements s @ [row]
     \<and> (pm_variant row, pm_platform row) = k \<and> pm_date row = d \<and> pm_delta row = x
     \<and> pm_after row = sku_balance s k d + x \<and> pm_created row = clock s \<and> clock s < clock s')"

interpretation sku_ledger: dated_ledger sku_entries sku_balance platform_stamped platform_appended
proof
  show "sku_balance s k d = balance_of (entries_upto d (sku_entries s k))"
    if st: "platform_stamped s" "sorted (map fst (sku_entries s k))"
    for s :: "'a market_db_scheme" and k d
  proof -
    have split: "filter (\<lambda>m. pm_variant m = fst k \<and> pm_platform m = snd k \<and> pm_date m \<le> d) (platform_movements s) =
        filter (\<lambda>m. pm_date m \<le> d) (filter (\<lambda>m. (pm_variant m, pm_platform m) = k) (platform_movements s))"
      by (auto intro: filter_cong)
    have "sorted (map pm_date (filter (\<lambda>m. (pm_variant m, pm_platform m) = k) (platform_movements s)))"
      using st(2) by (simp add: sku_entries_def o_def)
    moreover have "sorted_wrt (<) (map pm_created (filter (\<lambda>m. (pm_variant m, pm_platform m) = k) (platform_movements s)))"
      using st(1) by (auto simp: platform_stamped_def intro: sorted_wrt_filter_map)
    ultimately show ?thesis
      unfolding sku_balance_def platform_latest_as_of_def sku_entries_def split
      by (rule latest_balance_of)
  qed
  show "sku_entries s' k' = sku_entries s k' @ (if k' = k then [(d, (x, sku_balance s k d + x))] else [])"
    if "platform_stamped s" "platform_appended k d x s s'" for s s' :: "'a market_db_scheme" and k k' d x
    using that by (auto simp: sku_entries_def platform_appended_def)
  show "platform_stamped s'" if "platform_stamped s" "platform_appended k d x s s'"
    for s s' :: "'a market_db_scheme" and k d x
    using that by (fastforce simp: platform_stamped_def platform_appended_def sorted_wrt_append)
qed

definition platform_delta :: "platform_movement_type \<Rightarrow> int \<Rightarrow> int" where
  "platform_delta t q = (case t of STOCK_ADDED \<Rightarrow> q | STOCK_DEDUCTED \<Rightarrow> - q)"

definition date_or_today :: "date option \<Rightarrow> instant \<Rightarrow> date" where
  "date_or_today d now = (case d of Some d \<Rightarrow> d | None \<Rightarrow> ist_today now)"

text \<open>A recorded movement, with the commit that ends its transaction.\<close>

lemma record_movement_Inr:
  assumes "record_movement vid platform t q reason d actor s = Inr (m, s')"
  shows "0 < q \<and> pm_date m = date_or_today d (clock s) \<and> pm_delta m = platform_delta t q
    \<and> (t = STOCK_DEDUCTED \<longrightarrow> 0 \<le> pm_after m) \<and> pm_after m = sku_balance s (vid, platform) (pm_date m) + pm_delta m
    \<and> platform_appended (vid, platform) (pm_date m) (pm_delta m) s (tick s')"
  using assms
  by (cases t) (auto simp: record_movement_def bindR_Inr_iff Let_def platform_appended_def sku_balance_def
      platform_delta_def date_or_today_def)

section \<open>One appended row\<close>

lemma market_create_Inr_iff:
  "market_create row s = Inr (m, s') \<longleftrightarrow>
     m = row \<and> s' = fresh (s\<lparr>marketplace_movements := marketplace_movements s @ [row]\<rparr>)
     \<and> (\<forall>i. mm_reverses row = Some i \<longrightarrow>
          (\<forall>r\<in>set (marketplace_movements s). mm_reverses r \<noteq> Some i) \<and> i \<notin> set (unseen_reversals s))
     \<and> (\<forall>i. mm_replaces row = Some i \<longrightarrow>
          (\<forall>r\<in>set (marketplace_movements s). mm_replaces r \<noteq> Some i) \<and> i \<notin> set (unseen_replacements s))"
  by (auto simp: market_create_def split: option.splits)

text \<open>The stock tables and the links other transactions hold are left alone.\<close>

definition market_frame :: "'a market_db_scheme \<Rightarrow> 'a market_db_scheme \<Rightarrow> bool" where
  "market_frame s s' \<longleftrightarrow> products s' = products s \<and> catalog_variants s' = catalog_variants s
     \<and> product_variants s' = product_variants s \<and> inventory_movements s' = inventory_movements s
     \<and> platform_movements s' = platform_movements s
     \<and> unseen_reversals s' = unseen_reversals s \<and> unseen_replacements s' = unseen_replacements s
     \<and> clock s \<le> clock s' \<and> next_id s \<le> next_id s'"

lemma market_frame_trans: "market_frame s t \<Longrightarrow> market_frame t u \<Longrightarrow> market_frame s u"
  by (auto simp: market_frame_def)

lemma append_movement_Inr:
  assumes "append_movement k t q x prev d r a rv rp s = Inr (m, s')"
  shows "m = \<lparr>mm_id = next_id s, mm_product = fst k, mm_catalog_variant = fst (snd k), mm_reverses = rv,
              mm_replaces = rp, mm_platform = snd (snd k), mm_type = t, mm_packets = q, mm_delta = x,
              mm_after = prev + x, mm_date = d, mm_actor = a, mm_reason = r, mm_created = clock s + 1\<rparr>
    \<and> marketplace_movements s' = marketplace_movements s @ [m]
    \<and> stock_adjustments s' = stock_adjustments s \<and> market_frame s s'
    \<and> clock s' = clock s + 1 \<and> next_id s < next_id s'
    \<and> (\<forall>i. rv = Some i \<longrightarrow> (\<forall>r\<in>set (marketplace_movements s). mm_reverses r \<noteq> Some i) \<and> i \<notin> set (unseen_reversals s))
    \<and> (\<forall>i. rp = Some i \<longrightarrow> (\<forall>r\<in>set (marketplace_movements s). mm_replaces r \<noteq> Some i) \<and> i \<notin> set (unseen_replacements s))"
  using assms
  by (cases k) (auto simp: append_movement_def bindR_Inr_iff Let_def market_create_Inr_iff market_frame_def)

lemma append_movement_total:
  assumes "\<And>i. rv = Some i \<Longrightarrow> (\<forall>r\<in>set (marketplace_movements s). mm_reverses r \<noteq> Some i) \<and> i \<notin> set (unseen_reversals s)"
    and "\<And>i. rp = Some i \<Longrightarrow> (\<forall>r\<in>set (marketplace_movements s). mm_replaces r \<noteq> Some i) \<and> i \<notin> set (unseen_replacements s)"
  shows "\<exists>m s'. append_movement k t q x prev d r a rv rp s = Inr (m, s')"
  using assms
  by (cases k) (auto simp: append_movement_def Let_def market_create_def split: option.splits)

text \<open>The stock effect leaves the marketplace tables alone.\<close>

lemma effect_market_frame:
  assumes "apply_marketplace_stock_effect p d reason actor mid cv level s = Inr (a, s')"
  shows "marketplace_movements s' = marketplace_movements s \<and> market_frame s s' \<and> clock s' = clock s"
  using assms
  by (auto simp: apply_marketplace_stock_effect_def adjustment_create_def bindR_Inr_iff Let_def
      market_frame_def split: if_splits)

lemma product_total_cong:
  assumes "product_variants s' = product_variants s" "catalog_variants s' = catalog_variants s"
    and "stock_adjustments s' = stock_adjustments s"
  shows "get_product_total p s' = get_product_total p s"
  using assms by (simp add: get_product_total_def variants_for_product_def sum_by_product_eq
      sum_for_catalog_variant_def sum_product_level_def)

section \<open>Links between a movement, its reversal and its replacement\<close>

definition reversal_targets :: "marketplace_movement list \<Rightarrow> uuid list" where
  "reversal_targets ms = [the (mm_reverses m). m \<leftarrow> ms, mm_reverses m \<noteq> None]"

definition replacement_targets :: "marketplace_movement list \<Rightarrow> uuid list" where
  "replacement_targets ms = [the (mm_replaces m). m \<leftarrow> ms, mm_replaces m \<noteq> None]"

text \<open>A reversal cancels a sale or an RTO of its own scope, by the exact negative.\<close>

definition cancels :: "marketplace_movement \<Rightarrow> marketplace_movement \<Rightarrow> bool" where
  "cancels r m \<longleftrightarrow> mm_reverses r = Some (mm_id m) \<and> mm_type m \<in> {SALE, RTO}
     \<and> scope_of r = scope_of m \<and> mm_delta r = - mm_delta m"

definition links :: "marketplace_movement list \<Rightarrow> bool" where
  "links ms \<longleftrightarrow> distinct (map mm_id ms) \<and> distinct (reversal_targets ms) \<and> distinct (replacement_targets ms)
     \<and> (\<forall>m\<in>set ms. (mm_type m = REVERSAL) = (mm_reverses m \<noteq> None))
     \<and> (\<forall>r\<in>set ms. mm_reverses r \<noteq> None \<longrightarrow> (\<exists>m\<in>set ms. cancels r m))
     \<and> set (replacement_targets ms) \<subseteq> set (reversal_targets ms)"

text \<open>A row counts when it is no reversal and nothing reverses it.\<close>

definition active :: "marketplace_movement list \<Rightarrow> marketplace_movement \<Rightarrow> bool" where
  "active ms m \<longleftrightarrow> mm_reverses m = None \<and> mm_id m \<notin> set (reversal_targets ms)"

lemma reversal_targets_append [simp]:
  "reversal_targets (xs @ ys) = reversal_targets xs @ reversal_targets ys"
  by (simp add: reversal_targets_def)

lemma replacement_targets_append [simp]:
  "replacement_targets (xs @ ys) = replacement_targets xs @ replacement_targets ys"
  by (simp add: replacement_targets_def)

lemma reversal_targets_single [simp]:
  "reversal_targets [m] = (case mm_reverses m of None \<Rightarrow> [] | Some i \<Rightarrow> [i])"
  by (simp add: reversal_targets_def split: option.split)

lemma replacement_targets_single [simp]:
  "replacement_targets [m] = (case mm_replaces m of None \<Rightarrow> [] | Some i \<Rightarrow> [i])"
  by (simp add: replacement_targets_def split: option.split)

lemma in_reversal_targets: "i \<in> set (reversal_targets ms) \<longleftrightarrow> (\<exists>m\<in>set ms. mm_reverses m = Some i)"
  by (force simp: reversal_targets_def)

lemma in_replacement_targets: "i \<in> set (replacement_targets ms) \<longleftrightarrow> (\<exists>m\<in>set ms. mm_replaces m = Some i)"
  by (force simp: replacement_targets_def)

lemma reversed_ids_eq: "reversed_ids s ids = set ids \<inter> set (reversal_targets (marketplace_movements s))"
  by (force simp: reversed_ids_def reversal_targets_def)

lemma replaced_ids_eq: "replaced_ids s ids = set ids \<inter> set (replacement_targets (marketplace_movements s))"
  by (force simp: replaced_ids_def replacement_targets_def)

text \<open>The three rows the operations append.\<close>

lemma links_snoc:
  assumes "links ms" and "mm_id row \<notin> set (map mm_id ms)"
    and "(mm_type row = REVERSAL) = (mm_reverses row \<noteq> None)"
    and "mm_reverses row \<noteq> None \<Longrightarrow> \<exists>m\<in>set ms. cancels row m"
    and "\<And>i. mm_reverses row = Some i \<Longrightarrow> i \<notin> set (reversal_targets ms)"
    and "\<And>i. mm_replaces row = Some i \<Longrightarrow> i \<notin> set (replacement_targets ms) \<and> i \<in> set (reversal_targets ms)"
  shows "links (ms @ [row])"
proof -
  have "distinct (reversal_targets (ms @ [row]))" "distinct (replacement_targets (ms @ [row]))"
    using assms by (auto simp: links_def split: option.splits)
  moreover have "set (replacement_targets (ms @ [row])) \<subseteq> set (reversal_targets (ms @ [row]))"
    using assms by (auto simp: links_def split: option.splits)
  ultimately show ?thesis
    using assms(1-4) unfolding links_def by (simp del: reversal_targets_append replacement_targets_append)
qed

text \<open>
  Reversed rows and reversals cancel: what is left of a scope's deltas are those of its active
  rows.
\<close>

lemma sum_filter_set:
  fixes f :: "'r \<Rightarrow> int"
  assumes "distinct (map key xs)"
  shows "sum_list (map f (filter P xs)) = (\<Sum>m\<in>{m \<in> set xs. P m}. f m)"
  using assms by (simp add: sum_list_distinct_conv_sum_set distinct_map flip: set_filter)

lemma links_original:
  assumes "links ms" and "r \<in> set ms" and "mm_reverses r \<noteq> None"
  shows "\<exists>m. row_by mm_id ms (the (mm_reverses r)) = Some m \<and> m \<in> set ms \<and> cancels r m"
proof -
  obtain m where m: "m \<in> set ms" "cancels r m" using assms by (auto simp: links_def)
  moreover have "row_by mm_id ms (mm_id m) = Some m"
    using assms(1) m(1) by (intro row_by_distinct) (simp_all add: links_def)
  ultimately show ?thesis by (auto simp: cancels_def)
qed

lemma inj_reverses:
  assumes "distinct (reversal_targets ms)"
    and "r \<in> set ms" "r' \<in> set ms" "mm_reverses r = Some i" "mm_reverses r' = Some i"
  shows "r = r'"
  using assms
proof (induction ms)
  case (Cons m ms)
  have "reversal_targets (m # ms) = reversal_targets [m] @ reversal_targets ms"
    by (metis append_Cons append_Nil reversal_targets_append)
  with Cons show ?case
    by (auto simp: in_reversal_targets split: option.splits)
qed simp

lemma active_sum:
  assumes "links ms"
  shows "sum_list (map mm_delta (filter (in_scope k) ms))
    = sum_list (map mm_delta (filter (\<lambda>m. in_scope k m \<and> active ms m) ms))"
proof -
  have ids: "distinct (map mm_id ms)" using assms by (simp add: links_def)
  define orig where "orig r = the (row_by mm_id ms (the (mm_reverses r)))" for r :: marketplace_movement
  define R where "R = {m \<in> set ms. in_scope k m \<and> mm_reverses m \<noteq> None}"
  define D where "D = {m \<in> set ms. in_scope k m \<and> mm_reverses m = None \<and> mm_id m \<in> set (reversal_targets ms)}"
  define A where "A = {m \<in> set ms. in_scope k m \<and> active ms m}"
  have orig: "orig r \<in> set ms \<and> cancels r (orig r)" if "r \<in> R" for r
    using links_original [OF assms, of r] that by (auto simp: orig_def R_def)
  have "inj_on orig R"
  proof (rule inj_onI)
    fix r r' assume "r \<in> R" "r' \<in> R" "orig r = orig r'"
    then have "mm_reverses r = Some (mm_id (orig r))" "mm_reverses r' = Some (mm_id (orig r))"
      using orig by (metis cancels_def)+
    then show "r = r'"
      using inj_reverses [of ms r r'] \<open>r \<in> R\<close> \<open>r' \<in> R\<close> assms by (auto simp: links_def R_def)
  qed
  moreover have "orig ` R = D"
  proof
    show "orig ` R \<subseteq> D"
    proof
      fix m assume "m \<in> orig ` R"
      then obtain r where r: "r \<in> R" "m = orig r" by blast
      with orig have c: "m \<in> set ms" "cancels r m" by blast+
      then have "mm_reverses m = None" using assms by (auto simp: links_def cancels_def)
      then show "m \<in> D"
        using r c by (auto simp: D_def R_def cancels_def in_scope_iff in_reversal_targets)
    qed
    show "D \<subseteq> orig ` R"
    proof
      fix m assume m: "m \<in> D"
      then obtain r where r: "r \<in> set ms" "mm_reverses r = Some (mm_id m)"
        by (auto simp: D_def in_reversal_targets)
      have "orig r = m" using row_by_distinct [OF ids] m r by (simp add: orig_def D_def)
      moreover have "cancels r (orig r)" using links_original [OF assms r(1)] r by (auto simp: orig_def)
      ultimately show "m \<in> orig ` R"
        using m r by (auto simp: R_def D_def cancels_def in_scope_iff image_iff)
    qed
  qed
  ultimately have "(\<Sum>m\<in>D. mm_delta m) = (\<Sum>r\<in>R. mm_delta (orig r))"
    by (metis (no_types, lifting) sum.reindex_cong)
  also have "\<dots> = - (\<Sum>r\<in>R. mm_delta r)"
    using orig by (simp add: cancels_def sum_negf [symmetric])
  finally have cancel: "(\<Sum>m\<in>R. mm_delta m) + (\<Sum>m\<in>D. mm_delta m) = 0" by simp
  have split: "{m \<in> set ms. in_scope k m} = (R \<union> D) \<union> A" "R \<inter> D = {}" "(R \<union> D) \<inter> A = {}"
    by (auto simp: R_def D_def A_def active_def)
  have fin: "finite R" "finite D" "finite A" by (simp_all add: R_def D_def A_def)
  have "(\<Sum>m\<in>{m \<in> set ms. in_scope k m}. mm_delta m) = (\<Sum>m\<in>A. mm_delta m)"
    unfolding split(1) using fin split(2,3) cancel by (simp add: sum.union_disjoint)
  then show ?thesis by (simp add: sum_filter_set [OF ids] A_def)
qed

section \<open>The invariant of both ledgers\<close>

definition owns :: "'a market_db_scheme \<Rightarrow> uuid \<Rightarrow> uuid option \<Rightarrow> bool" where
  "owns s p cv \<longleftrightarrow> (\<forall>c. cv = Some c \<longrightarrow> (\<exists>r\<in>set (catalog_variants s). cv_id r = c \<and> cv_product r = p))"

text \<open>
  The links hold, new ids are unused, a movement's scope lies in its product, and the stock
  effect linked to a movement has the movement's own delta and product.
\<close>

definition market_ok :: "'a market_db_scheme \<Rightarrow> bool" where
  "market_ok s \<longleftrightarrow> links (marketplace_movements s) \<and> distinct (map cv_id (catalog_variants s))
     \<and> (\<forall>m\<in>set (marketplace_movements s). mm_id m < next_id s \<and> owns s (mm_product m) (mm_catalog_variant m))
     \<and> (\<forall>a\<in>set (stock_adjustments s). \<forall>i. sa_movement a = Some i \<longrightarrow>
          (\<exists>m\<in>set (marketplace_movements s). mm_id m = i \<and> sa_delta a = mm_delta m \<and> adjusts s (mm_product m) a))"

definition linked :: "'a market_db_scheme \<Rightarrow> marketplace_movement \<Rightarrow> bool" where
  "linked s m \<longleftrightarrow> adjustment_for_movement s (mm_id m) \<noteq> None"

definition linked_sum :: "'a market_db_scheme \<Rightarrow> uuid \<Rightarrow> int" where
  "linked_sum s p = sum_list (map mm_delta (filter (\<lambda>m. mm_product m = p \<and> linked s m) (marketplace_movements s)))"

lemma market_ok_effect:
  "market_ok s \<Longrightarrow> a \<in> set (stock_adjustments s) \<Longrightarrow> sa_movement a = Some i \<Longrightarrow>
    \<exists>m\<in>set (marketplace_movements s). mm_id m = i \<and> sa_delta a = mm_delta m \<and> adjusts s (mm_product m) a"
  unfolding market_ok_def by blast

text \<open>One row written, with at most one stock effect, linked to it and of the same size.\<close>

definition posted :: "marketplace_movement \<Rightarrow> 'a market_db_scheme \<Rightarrow> 'a market_db_scheme \<Rightarrow> bool" where
  "posted row s s' \<longleftrightarrow> marketplace_movements s' = marketplace_movements s @ [row] \<and> market_frame s s'
     \<and> mm_id row = next_id s \<and> next_id s < next_id s' \<and> clock s < mm_created row \<and> mm_created row \<le> clock s'
     \<and> owns s (mm_product row) (mm_catalog_variant row)
     \<and> (stock_adjustments s' = stock_adjustments s
        \<or> (\<exists>a. stock_adjustments s' = stock_adjustments s @ [a] \<and> sa_movement a = Some (mm_id row)
             \<and> sa_delta a = mm_delta row \<and> adjusts s (mm_product row) a))"

lemma linked_iff: "linked s m \<longleftrightarrow> (\<exists>a\<in>set (stock_adjustments s). sa_movement a = Some (mm_id m))"
  by (auto simp: linked_def adjustment_for_movement_def find_None_iff)

lemma adjusts_cong: "catalog_variants s' = catalog_variants s \<Longrightarrow> adjusts s' p a = adjusts s p a"
  by (simp add: adjusts_def)

lemma owns_cong: "catalog_variants s' = catalog_variants s \<Longrightarrow> owns s' p c = owns s p c"
  by (simp add: owns_def)

lemma posted_ok:
  assumes "posted row s s'" and ok: "market_ok s" and "links (marketplace_movements s')"
  shows "market_ok s'"
proof -
  have rows: "marketplace_movements s' = marketplace_movements s @ [row]"
    and cvs: "catalog_variants s' = catalog_variants s"
    and ids: "mm_id row = next_id s" "next_id s < next_id s'"
    and own: "owns s (mm_product row) (mm_catalog_variant row)"
    using assms(1) by (auto simp: posted_def market_frame_def)
  have "\<exists>m\<in>set (marketplace_movements s'). mm_id m = i \<and> sa_delta a = mm_delta m \<and> adjusts s' (mm_product m) a"
    if a: "a \<in> set (stock_adjustments s')" "sa_movement a = Some i" for a i
  proof (cases "a \<in> set (stock_adjustments s)")
    case True
    with ok a obtain m where "m \<in> set (marketplace_movements s)" "mm_id m = i" "sa_delta a = mm_delta m"
      "adjusts s (mm_product m) a"
      using market_ok_effect by blast
    then show ?thesis using rows adjusts_cong [OF cvs] by auto
  next
    case False
    with a assms(1) have "sa_movement a = Some (mm_id row)" "sa_delta a = mm_delta row"
      "adjusts s (mm_product row) a" by (auto simp: posted_def)
    then show ?thesis using rows a adjusts_cong [OF cvs] by auto
  qed
  moreover have "mm_id m < next_id s' \<and> owns s' (mm_product m) (mm_catalog_variant m)"
    if "m \<in> set (marketplace_movements s')" for m
    using that ok ids own unfolding owns_cong [OF cvs] by (auto simp: rows market_ok_def)
  ultimately show ?thesis
    using assms(3) ok cvs unfolding market_ok_def by auto
qed

text \<open>Each product's total moves by exactly what its linked rows record.\<close>

lemma posted_total:
  assumes "posted row s s'" and ok: "market_ok s"
  shows "get_product_total p s' - linked_sum s' p = get_product_total p s - linked_sum s p"
proof -
  have rows: "marketplace_movements s' = marketplace_movements s @ [row]"
    and same: "product_variants s' = product_variants s" "catalog_variants s' = catalog_variants s"
    and id: "mm_id row = next_id s"
    using assms(1) by (auto simp: posted_def market_frame_def)
  have cvs: "distinct (map cv_id (catalog_variants s))" using ok by (simp add: market_ok_def)
  have old: "\<forall>a\<in>set (stock_adjustments s). sa_movement a \<noteq> Some (mm_id row)"
    "\<forall>m\<in>set (marketplace_movements s). mm_id m \<noteq> mm_id row"
    using ok id by (fastforce simp: market_ok_def)+
  consider (none) "stock_adjustments s' = stock_adjustments s"
    | (one) a where "stock_adjustments s' = stock_adjustments s @ [a]" "sa_movement a = Some (mm_id row)"
        "sa_delta a = mm_delta row" "adjusts s (mm_product row) a"
    using assms(1) by (auto simp: posted_def)
  then show ?thesis
  proof cases
    case none
    then have "linked s' m = linked s m" for m by (simp add: linked_iff)
    moreover have "\<not> linked s row" using old(1) by (auto simp: linked_iff)
    ultimately have "linked_sum s' p = linked_sum s p" by (simp add: linked_sum_def rows)
    then show ?thesis using none product_total_cong [OF same none] by simp
  next
    case one
    then have "linked s' m = (linked s m \<or> mm_id m = mm_id row)" for m by (auto simp: linked_iff)
    then have "filter (\<lambda>m. mm_product m = p \<and> linked s' m) (marketplace_movements s) =
        filter (\<lambda>m. mm_product m = p \<and> linked s m) (marketplace_movements s)" "linked s' row"
      using old(2) by (auto intro: filter_cong)
    then have "linked_sum s' p = linked_sum s p + (if mm_product row = p then mm_delta row else 0)"
      by (simp add: linked_sum_def rows)
    moreover have "get_product_total p s' = get_product_total p s + (if mm_product row = p then mm_delta row else 0)"
      using product_total_adjust [OF one(1) same cvs] product_total_other [OF one(1) same cvs one(4)] one(3,4)
      by auto
    ultimately show ?thesis by simp
  qed
qed

section \<open>The operations\<close>

lemma resolve_scope_owns:
  assumes "resolve_marketplace_scope p cv s = Inr (scope_cv, vs)"
  shows "owns s p scope_cv \<and> scope_cv = cv"
  using assms by (auto simp: resolve_marketplace_scope_def bindR_Inr_iff Let_def owns_def
      catalog_for_product_def split: if_splits option.splits)

lemma append_then_effect_posted:
  assumes a: "append_movement (p, cv, pf) t q x prev d r actor rv rp s = Inr (m, s1)"
    and e: "apply_marketplace_stock_effect p x reason actor (mm_id m) cv' level s1 = Inr (adj, s2)"
    and own: "owns s p cv" "owns s p cv'"
  shows "posted m s s2"
proof -
  note A = append_movement_Inr [OF a]
  note F = effect_market_frame [OF e]
  have cvs: "catalog_variants s1 = catalog_variants s" using A by (simp add: market_frame_def)
  have "adjusts s1 p adj"
    using own(2) owns_cong [OF cvs] by (intro marketplace_effect_adjusts [OF e]) (auto simp: owns_def)
  then have adj: "adjusts s (mm_product m) adj" using A adjusts_cong [OF cvs] by simp
  obtain "stock_adjustments s2 = stock_adjustments s1 @ [adj]" "sa_movement adj = Some (mm_id m)" "sa_delta adj = x"
    using marketplace_effect_Inr [OF e] by blast
  then have "\<exists>a. stock_adjustments s2 = stock_adjustments s @ [a] \<and> sa_movement a = Some (mm_id m)
      \<and> sa_delta a = mm_delta m \<and> adjusts s (mm_product m) a"
    using A adj by (intro exI [of _ adj]) simp
  moreover have "market_frame s s2" using A F market_frame_trans by blast
  moreover have "next_id s1 \<le> next_id s2" "clock s2 = clock s + 1"
    "marketplace_movements s2 = marketplace_movements s @ [m]"
    using A F by (simp_all add: market_frame_def)
  ultimately show ?thesis using A own(1) unfolding posted_def by auto
qed

lemma append_posted:
  assumes "append_movement (p, cv, pf) t q x prev d r actor rv rp s = Inr (m, s1)" and "owns s p cv"
  shows "posted m s s1"
  using append_movement_Inr [OF assms(1)] assms(2) by (auto simp: posted_def)

lemma record_product_movement_Inr:
  assumes "record_product_movement p pf t q r d actor cv s = Inr (m, s')"
  obtains vs pack ppb outers where "t \<in> {SALE, RTO}" "0 < q" "pf \<in> set platforms"
    "resolve_marketplace_scope p cv s = Inr (cv, vs)" "product_conversion_factor vs = Inr (pack, ppb)"
    "ceil_div (q * pack) ppb = Inr outers" "mm_type m = t" "mm_packets m = q" "mm_reverses m = None"
    "mm_replaces m = None" "scope_of m = (p, cv, pf)" "mm_date m = date_or_today d (clock s)"
    "mm_delta m = signed_outers t outers" "mm_after m = latest_balance s (scope_of m) (mm_date m) + mm_delta m"
    "posted m s s'" "linked s' m"
proof -
  from assms obtain cv' vs pack ppb outers s1 reason a where
    g: "t \<in> {SALE, RTO}" "0 < q" "pf \<in> set platforms"
    "resolve_marketplace_scope p cv s = Inr (cv', vs)" "product_conversion_factor vs = Inr (pack, ppb)"
    "ceil_div (q * pack) ppb = Inr outers"
    and ap: "append_movement (p, cv', pf) t q (signed_outers t outers)
      (latest_balance s (p, cv', pf) (date_or_today d (clock s))) (date_or_today d (clock s))
      (clean_text r) actor None None s = Inr (m, s1)"
    and ef: "apply_marketplace_stock_effect p (signed_outers t outers) reason actor (mm_id m) cv' False s1 = Inr (a, s')"
    by (auto simp: record_product_movement_def bindR_Inr_iff Let_def date_or_today_def [symmetric])
  have cv: "cv' = cv" "owns s p cv'" using resolve_scope_owns [OF g(4)] by blast+
  have "posted m s s'" using append_then_effect_posted [OF ap ef cv(2) cv(2)] .
  moreover have "linked s' m" using marketplace_effect_Inr [OF ef] by (auto simp: linked_iff)
  ultimately show ?thesis
    using that g append_movement_Inr [OF ap] cv(1) by (simp add: scope_of_def)
qed

lemma load_correctable_Inr_iff:
  "load_correctable i s = Inr m \<longleftrightarrow> movement_by s i = Some m \<and> mm_platform m \<in> set platforms
     \<and> mm_type m \<in> {SALE, RTO} \<and> mm_id m \<notin> set (reversal_targets (marketplace_movements s))"
  by (auto simp: load_correctable_def bindR_Inr_iff reversed_ids_eq)

lemma already_corrected_Inr [simp]: "already_corrected r = Inr x \<longleftrightarrow> r = Inr x"
  by (auto simp: already_corrected_def split: sum.splits oms_error.splits)

lemma movement_by_in: "movement_by s i = Some m \<Longrightarrow> m \<in> set (marketplace_movements s) \<and> mm_id m = i"
  unfolding movement_by_def by (rule row_by_SomeD)

text \<open>A reversal, with the stock effect it takes back when the original had one.\<close>

lemma append_reversal_Inr:
  assumes r: "append_reversal m reason actor d prev s = Inr (r, s')"
    and ok: "market_ok s" and m: "m \<in> set (marketplace_movements s)" and t: "mm_type m \<in> {SALE, RTO}"
  shows "posted r s s' \<and> cancels r m \<and> mm_type r = REVERSAL \<and> mm_replaces r = None \<and> mm_date r = d
    \<and> mm_after r = prev + mm_delta r \<and> (linked s' r = linked s m)
    \<and> mm_id m \<notin> set (reversal_targets (marketplace_movements s)) \<and> mm_id m \<notin> set (unseen_reversals s)"
proof -
  let ?label = "movement_label (mm_platform m) (mm_type m) @ '' reversed: '' @ show_int (mm_packets m) @ '' packets - '' @ reason"
  from r obtain r0 s1 where
    ap0: "append_movement (scope_of m) REVERSAL (mm_packets m) (- mm_delta m) prev d (Some reason) actor
      (Some (mm_id m)) None s = Inr (r0, s1)"
    and body: "(case adjustment_for_movement s1 (mm_id m) of None \<Rightarrow> Inr (r0, s1)
      | Some e \<Rightarrow> bindR (apply_marketplace_stock_effect (mm_product m) (- sa_delta e) ?label actor (mm_id r0)
          (sa_catalog_variant e) (sa_catalog_variant e = None) s1) (\<lambda>(_, s2). Inr (r0, s2))) = Inr (r, s')"
    unfolding append_reversal_def bindR_Inr_iff Let_def by (simp only: split_paired_Ex case_prod_conv) blast
  have "r0 = r \<and> (adjustment_for_movement s1 (mm_id m) = None \<and> s' = s1
      \<or> (\<exists>e reason a. adjustment_for_movement s1 (mm_id m) = Some e \<and>
           apply_marketplace_stock_effect (mm_product m) (- sa_delta e) reason actor (mm_id r0)
             (sa_catalog_variant e) (sa_catalog_variant e = None) s1 = Inr (a, s')))"
  proof (cases "adjustment_for_movement s1 (mm_id m)")
    case None
    with body show ?thesis by simp
  next
    case (Some e)
    with body obtain a where "r0 = r" "apply_marketplace_stock_effect (mm_product m) (- sa_delta e) ?label actor
        (mm_id r0) (sa_catalog_variant e) (sa_catalog_variant e = None) s1 = Inr (a, s')"
      by (simp only: option.case bindR_Inr_iff split_paired_Ex case_prod_conv) blast
    with Some show ?thesis by blast
  qed
  with ap0 have ap: "append_movement (scope_of m) REVERSAL (mm_packets m) (- mm_delta m) prev d (Some reason) actor
      (Some (mm_id m)) None s = Inr (r, s1)"
    and rest: "adjustment_for_movement s1 (mm_id m) = None \<and> s' = s1
      \<or> (\<exists>e reason a. adjustment_for_movement s1 (mm_id m) = Some e \<and>
           apply_marketplace_stock_effect (mm_product m) (- sa_delta e) reason actor (mm_id r)
             (sa_catalog_variant e) (sa_catalog_variant e = None) s1 = Inr (a, s'))"
    by blast+
  note A = append_movement_Inr [OF ap]
  have r: "cancels r m" "mm_type r = REVERSAL" "mm_replaces r = None" "mm_date r = d" "mm_id r = next_id s"
    "mm_after r = prev + mm_delta r" "mm_delta r = - mm_delta m"
    "mm_id m \<notin> set (reversal_targets (marketplace_movements s))" "mm_id m \<notin> set (unseen_reversals s)"
    using A t by (auto simp: cancels_def scope_of_def in_reversal_targets)
  have own: "owns s (mm_product m) (mm_catalog_variant m)" using ok m by (simp add: market_ok_def)
  have adj: "adjustment_for_movement s1 (mm_id m) = adjustment_for_movement s (mm_id m)"
    using A by (simp add: adjustment_for_movement_def)
  have fresh_id: "\<not> linked s r"
    using ok r(5) market_ok_effect [OF ok] by (fastforce simp: linked_iff market_ok_def)
  from rest have "posted r s s' \<and> (linked s' r = linked s m)"
  proof
    assume none: "adjustment_for_movement s1 (mm_id m) = None \<and> s' = s1"
    then have "posted r s s'"
      using append_posted [OF ap [unfolded scope_of_def] own] by simp
    moreover have "linked s' r = linked s r" using none A by (simp add: linked_iff)
    ultimately show ?thesis using none adj fresh_id by (simp add: linked_def)
  next
    assume "\<exists>e reason a. adjustment_for_movement s1 (mm_id m) = Some e \<and>
           apply_marketplace_stock_effect (mm_product m) (- sa_delta e) reason actor (mm_id r)
             (sa_catalog_variant e) (sa_catalog_variant e = None) s1 = Inr (a, s')"
    then obtain e reason a where e: "adjustment_for_movement s (mm_id m) = Some e"
      and ef: "apply_marketplace_stock_effect (mm_product m) (- sa_delta e) reason actor (mm_id r)
        (sa_catalog_variant e) (sa_catalog_variant e = None) s1 = Inr (a, s')"
      using adj by auto
    have e_in: "e \<in> set (stock_adjustments s)" "sa_movement e = Some (mm_id m)"
      using e by (auto simp: adjustment_for_movement_def find_Some_iff)
    then obtain m' where m': "m' \<in> set (marketplace_movements s)" "mm_id m' = mm_id m"
        "sa_delta e = mm_delta m'" "adjusts s (mm_product m') e"
      using market_ok_effect [OF ok] by blast
    moreover have "m' = m"
      using ok m m' by (auto simp: market_ok_def links_def distinct_map dest: inj_onD)
    ultimately have e_m: "sa_delta e = mm_delta m" "adjusts s (mm_product m) e" by auto
    then have "owns s (mm_product m) (sa_catalog_variant e)"
      using ok by (auto simp: owns_def adjusts_def)
    then have "posted r s s'"
      using append_then_effect_posted [OF ap [unfolded scope_of_def] ef [unfolded e_m(1)] own] by simp
    moreover have "linked s' r" using marketplace_effect_Inr [OF ef] by (auto simp: linked_iff)
    moreover have "linked s m" using e by (simp add: linked_def)
    ultimately show ?thesis by simp
  qed
  with r show ?thesis by blast
qed

lemma posted_links:
  assumes "posted row s s'" and "market_ok s"
    and "(mm_type row = REVERSAL) = (mm_reverses row \<noteq> None)"
    and "mm_reverses row \<noteq> None \<Longrightarrow> \<exists>m\<in>set (marketplace_movements s). cancels row m"
    and "\<And>i. mm_reverses row = Some i \<Longrightarrow> i \<notin> set (reversal_targets (marketplace_movements s))"
    and "\<And>i. mm_replaces row = Some i \<Longrightarrow> i \<notin> set (replacement_targets (marketplace_movements s))
        \<and> i \<in> set (reversal_targets (marketplace_movements s))"
  shows "market_ok s'"
proof (rule posted_ok [OF assms(1,2)])
  have "marketplace_movements s' = marketplace_movements s @ [row]" using assms(1) by (simp add: posted_def)
  moreover have "mm_id row \<notin> set (map mm_id (marketplace_movements s))"
    using assms(1,2) by (fastforce simp: posted_def market_ok_def)
  ultimately show "links (marketplace_movements s')"
    using assms by (auto intro!: links_snoc simp: market_ok_def)
qed

lemma undo_movement_Inr:
  assumes "undo_movement i reason actor s = Inr (r, s')" and ok: "market_ok s"
  obtains m where "load_correctable i s = Inr m" "m \<in> set (marketplace_movements s)" "mm_id m = i"
    "posted r s s'" "cancels r m" "mm_type r = REVERSAL" "mm_replaces r = None"
    "mm_date r = ist_today (clock s)"
    "mm_after r = latest_balance s (scope_of m) (ist_today (clock s)) + mm_delta r"
    "linked s' r = linked s m" "market_ok s'"
proof -
  from assms(1) obtain m where m: "load_correctable i s = Inr m"
    and ar: "append_reversal m (strip (or_text reason '''')) actor (ist_today (clock s))
      (latest_balance s (scope_of m) (ist_today (clock s))) s = Inr (r, s')"
    by (auto simp: undo_movement_def Let_def bindR_Inr_iff)
  have in_m: "m \<in> set (marketplace_movements s)" "mm_id m = i" "mm_type m \<in> {SALE, RTO}"
    using m by (auto simp: load_correctable_Inr_iff dest: movement_by_in)
  note R = append_reversal_Inr [OF ar ok in_m(1,3)]
  then have "market_ok s'"
    using in_m by (intro posted_links [OF _ ok]) (auto simp: cancels_def)
  then show ?thesis using that m in_m R by blast
qed

text \<open>An edit is an undo followed by a row for the new quantity.\<close>

lemma edit_movement_Inr:
  assumes "edit_movement i q reason actor s = Inr (n, s')" and ok: "market_ok s"
  obtains m r s1 vs pack ppb outers where "load_correctable i s = Inr m"
    "undo_movement i reason actor s = Inr (r, s1)"
    "0 < q" "q \<noteq> mm_packets m" "product_conversion_factor vs = Inr (pack, ppb)"
    "ceil_div (q * pack) ppb = Inr outers" "posted n s1 s'" "mm_type n = mm_type m" "mm_packets n = q"
    "mm_reverses n = None" "mm_replaces n = Some i" "scope_of n = scope_of m"
    "mm_date n = ist_today (clock s)" "mm_delta n = signed_outers (mm_type m) outers"
    "mm_after n = latest_balance s (scope_of m) (ist_today (clock s)) + mm_delta r + mm_delta n"
    "linked s' n" "market_ok s1" "market_ok s'"
    "vs = (if mm_catalog_variant m \<noteq> None
           then filter (\<lambda>v. pv_catalog_variant v = mm_catalog_variant m) (variants_for_product s (mm_product m))
           else variants_for_product s (mm_product m))"
proof -
  let ?text = "strip (or_text reason '''')" and ?today = "ist_today (clock s)"
  from assms(1) obtain m vs pack ppb outers r s1 s2 oms_reason a where
    g: "?text \<noteq> []" "0 < q" "load_correctable i s = Inr m" "q \<noteq> mm_packets m"
    "product_conversion_factor vs = Inr (pack, ppb)" "ceil_div (q * pack) ppb = Inr outers"
    and vs: "vs = (if mm_catalog_variant m \<noteq> None
           then filter (\<lambda>v. pv_catalog_variant v = mm_catalog_variant m) (variants_for_product s (mm_product m))
           else variants_for_product s (mm_product m))"
    and ar: "append_reversal m ?text actor ?today (latest_balance s (scope_of m) ?today) s = Inr (r, s1)"
    and ap: "append_movement (scope_of m) (mm_type m) q (signed_outers (mm_type m) outers)
      (latest_balance s (scope_of m) ?today + mm_delta r) ?today (Some ?text) actor None (Some (mm_id m)) s1
      = Inr (n, s2)"
    and ef: "apply_marketplace_stock_effect (mm_product m) (signed_outers (mm_type m) outers) oms_reason
      actor (mm_id n) (mm_catalog_variant m) False s2 = Inr (a, s')"
    unfolding edit_movement_def Let_def bindR_Inr_iff list_variants_for_product_def already_corrected_Inr
      require_Inr_iff require_some_Inr_iff split_paired_Ex case_prod_conv sum.inject prod.inject
    by blast
  have in_m: "m \<in> set (marketplace_movements s)" "mm_id m = i" "mm_type m \<in> {SALE, RTO}"
    using g(3) by (auto simp: load_correctable_Inr_iff dest: movement_by_in)
  have undo: "undo_movement i reason actor s = Inr (r, s1)"
    using g(1,3) ar by (simp add: undo_movement_def Let_def)
  then obtain m' where u: "load_correctable i s = Inr m'" "posted r s s1" "cancels r m'" "market_ok s1"
    using undo_movement_Inr [OF undo ok] by metis
  then have rev: "cancels r m" and ok1: "market_ok s1" and p1: "posted r s s1" using g(3) by auto
  have rows1: "marketplace_movements s1 = marketplace_movements s @ [r]"
    and cvs1: "catalog_variants s1 = catalog_variants s"
    using p1 by (auto simp: posted_def market_frame_def)
  have "owns s1 (mm_product m) (mm_catalog_variant m)"
    using ok in_m(1) owns_cong [OF cvs1] by (simp add: market_ok_def)
  from append_then_effect_posted [OF ap [unfolded scope_of_def] ef this this]
  have p2: "posted n s1 s'" .
  note A = append_movement_Inr [OF ap]
  have n: "mm_reverses n = None" "mm_replaces n = Some i" "mm_type n = mm_type m"
    "i \<notin> set (replacement_targets (marketplace_movements s1))"
    using A in_m(2) by (auto simp: in_replacement_targets)
  have "i \<in> set (reversal_targets (marketplace_movements s1))"
    using rev in_m(2) by (auto simp: rows1 cancels_def)
  then have "market_ok s'"
    using n in_m(3) by (intro posted_links [OF p2 ok1]) auto
  moreover have "linked s' n" using marketplace_effect_Inr [OF ef] by (auto simp: linked_iff)
  ultimately show ?thesis
    using that g undo p2 ok1 A in_m(2) vs by (simp add: scope_of_def)
qed

lemma record_product_ok:
  assumes "record_product_movement p pf t q r d actor cv s = Inr (m, s')" and "market_ok s"
  shows "market_ok s' \<and> posted m s s'"
proof -
  have R: "posted m s s' \<and> mm_reverses m = None \<and> mm_replaces m = None \<and> mm_type m \<in> {SALE, RTO}"
    by (rule record_product_movement_Inr [OF assms(1)]) simp
  have "market_ok s'"
    using R by (intro posted_links [OF _ assms(2), of m]) auto
  with R show ?thesis by blast
qed

text \<open>The conversion is defined exactly when all SKUs in scope agree on both factors.\<close>

lemma length_remdups_le_1: "xs \<noteq> [] \<Longrightarrow> \<not> 1 < length (remdups xs) \<longleftrightarrow> (\<forall>x\<in>set xs. x = hd (remdups xs))"
proof -
  assume ne: "xs \<noteq> []"
  then obtain y ys where r: "remdups xs = y # ys" by (cases "remdups xs") auto
  have s: "set xs = insert y (set ys)" using r by (metis list.simps(15) set_remdups)
  have d: "y \<notin> set ys" using r by (metis distinct.simps(2) distinct_remdups)
  show ?thesis unfolding r using s d by (cases ys) auto
qed

lemma conversion_factor_Inr_iff:
  "product_conversion_factor vs = Inr (pack, ppb) \<longleftrightarrow>
     vs \<noteq> [] \<and> (\<forall>v\<in>set vs. pv_pack_size v = pack \<and> pv_packets_per_box v = ppb)"
proof (cases "vs = []")
  case False
  have h: "hd (remdups (map f vs)) \<in> f ` set vs" for f :: "product_variant \<Rightarrow> int"
    using False by (metis hd_in_set list.set_map map_is_Nil_conv remdups_eq_nil_iff set_remdups)
  have "product_conversion_factor vs = Inr (pack, ppb) \<longleftrightarrow>
      (\<forall>v\<in>set vs. pv_pack_size v = hd (remdups (map pv_pack_size vs))) \<and>
      (\<forall>v\<in>set vs. pv_packets_per_box v = hd (remdups (map pv_packets_per_box vs))) \<and>
      pack = hd (remdups (map pv_pack_size vs)) \<and> ppb = hd (remdups (map pv_packets_per_box vs))"
    using False length_remdups_le_1 [of "map pv_pack_size vs"] length_remdups_le_1 [of "map pv_packets_per_box vs"]
    by (auto simp: product_conversion_factor_def bindR_Inr_iff Let_def)
  also have "\<dots> \<longleftrightarrow> (\<forall>v\<in>set vs. pv_pack_size v = pack \<and> pv_packets_per_box v = ppb)"
    using h [of pv_pack_size] h [of pv_packets_per_box] by auto
  finally show ?thesis using False by simp
qed (simp add: product_conversion_factor_def)

lemma posted_linked_sum:
  assumes "posted row s s'" and ok: "market_ok s" and "linked s' row"
  shows "linked_sum s' p = linked_sum s p + (if mm_product row = p then mm_delta row else 0)"
proof -
  have rows: "marketplace_movements s' = marketplace_movements s @ [row]" and id: "mm_id row = next_id s"
    using assms(1) by (auto simp: posted_def)
  have old: "\<forall>m\<in>set (marketplace_movements s). mm_id m \<noteq> mm_id row"
    using ok id by (fastforce simp: market_ok_def)
  have "linked s' m = linked s m" if "m \<in> set (marketplace_movements s)" for m
    using assms(1) old that by (auto simp: posted_def linked_iff)
  then have "filter (\<lambda>m. mm_product m = p \<and> linked s' m) (marketplace_movements s) =
      filter (\<lambda>m. mm_product m = p \<and> linked s m) (marketplace_movements s)"
    by (auto intro: filter_cong)
  then show ?thesis using assms(3) by (simp add: linked_sum_def rows)
qed

lemma posted_unlinked_sum:
  assumes "posted row s s'" and ok: "market_ok s" and "\<not> linked s' row"
  shows "linked_sum s' p = linked_sum s p"
proof -
  have "stock_adjustments s' = stock_adjustments s"
    using assms(1,3) by (auto simp: posted_def linked_iff)
  then have "linked s' m = linked s m" for m by (simp add: linked_iff)
  then show ?thesis using assms by (simp add: linked_sum_def posted_def)
qed

lemma sum_by_sign_diff: "fst (sum_by_sign ds) - snd (sum_by_sign ds) = sum_list ds"
proof -
  have "fst (foldl (\<lambda>(added, deducted) d. if 0 \<le> d then (added + d, deducted) else (added, deducted + (- d))) (a, b) ds)
      - snd (foldl (\<lambda>(added, deducted) d. if 0 \<le> d then (added + d, deducted) else (added, deducted + (- d))) (a, b) ds)
      = a - b + sum_list ds" for a b :: int
    by (induction ds arbitrary: a b) auto
  from this [of 0 0] show ?thesis by (simp add: sum_by_sign_def)
qed

end
