(* ===== verification/Marketplace_Props.thy ===== *)
theory Marketplace_Props
  imports Marketplace_Facts
begin

text \<open>
  Properties of the marketplace ledgers, with witnesses on \<open>demo_market\<close>: a product tracked per
  OMS-visible variant (Gold, one SKU of pack size 2, three packets to the box, and Red), on
  11 September 2025, 06:00 UTC.
\<close>

definition demo_market :: market_db where
  "demo_market = \<lparr>clock = 63893167200000000, next_id = 100, audit_log = [],
     products = [\<lparr>p_id = 1, p_title = ''Masala'', p_title_override = None\<rparr>],
     catalog_variants =
       [\<lparr>cv_id = 5, cv_product = 1, cv_name = ''Gold'', cv_display_order = 1, cv_is_active = True\<rparr>,
        \<lparr>cv_id = 6, cv_product = 1, cv_name = ''Red'', cv_display_order = 2, cv_is_active = True\<rparr>],
     product_variants =
       [\<lparr>pv_id = 2, pv_product = 1, pv_sku = ''A'', pv_title = None, pv_title_override = None,
         pv_available = 10, pv_packets_per_box = 3, pv_pack_size = 2, pv_catalog_variant = Some 5,
         pv_source = ''shopify'', pv_external = None\<rparr>,
        \<lparr>pv_id = 3, pv_product = 1, pv_sku = ''B'', pv_title = None, pv_title_override = None,
         pv_available = 4, pv_packets_per_box = 1, pv_pack_size = 1, pv_catalog_variant = Some 6,
         pv_source = ''shopify'', pv_external = None\<rparr>],
     inventory_movements = [], stock_adjustments = [], order_items = [], unseen_moves = [],
     platform_movements = [], marketplace_movements = [], unseen_reversals = [], unseen_replacements = []\<rparr>"

lemma demo_market_ok [simp]: "market_ok demo_market"
  by (simp add: market_ok_def demo_market_def links_def reversal_targets_def replacement_targets_def)

lemma demo_market_stamped [simp]: "market_stamped demo_market" "platform_stamped demo_market"
  by (simp_all add: market_stamped_def platform_stamped_def demo_market_def)

lemma demo_market_entries [simp]: "scope_entries demo_market k = []" "sku_entries demo_market j = []"
  by (simp_all add: scope_entries_def sku_entries_def demo_market_def)

lemma demo_sale: "\<not> isl (record_product_movement 1 ''amazon'' SALE 20 None None None (Some 5) demo_market)"
  by code_simp

section \<open>Runs of the marketplace operations\<close>

inductive market_step :: "'a market_db_scheme \<Rightarrow> 'a market_db_scheme \<Rightarrow> bool" where
  record_step: "record_product_movement p pf t q r d actor cv s = Inr (m, s') \<Longrightarrow> market_step s s'"
| undo_step: "undo_movement i reason actor s = Inr (m, s') \<Longrightarrow> market_step s s'"
| edit_step: "edit_movement i q reason actor s = Inr (m, s') \<Longrightarrow> market_step s s'"

lemma market_step_facts:
  assumes "market_step s s'" and ok: "market_ok s"
  shows "market_ok s' \<and> set (reversal_targets (marketplace_movements s)) \<subseteq> set (reversal_targets (marketplace_movements s'))
    \<and> set (marketplace_movements s) \<subseteq> set (marketplace_movements s')
    \<and> get_product_total p s' - linked_sum s' p = get_product_total p s - linked_sum s p"
proof -
  have post: "set (reversal_targets (marketplace_movements t)) \<subseteq> set (reversal_targets (marketplace_movements t'))
      \<and> set (marketplace_movements t) \<subseteq> set (marketplace_movements t')
      \<and> get_product_total p t' - linked_sum t' p = get_product_total p t - linked_sum t p"
    if "posted row t t'" "market_ok t" for row and t t' :: "'a market_db_scheme"
    using that posted_total [OF that] by (auto simp: posted_def)
  from assms(1) show ?thesis
  proof cases
    case record_step
    with ok record_product_ok show ?thesis using post by metis
  next
    case undo_step
    show ?thesis by (rule undo_movement_Inr [OF undo_step ok]) (use post ok in metis)
  next
    case (edit_step i q reason actor m)
    show ?thesis
    proof (rule edit_movement_Inr [OF edit_step ok])
      fix r s1
      assume u: "undo_movement i reason actor s = Inr (r, s1)" and n: "posted m s1 s'" "market_ok s1" "market_ok s'"
      have "posted r s s1" by (rule undo_movement_Inr [OF u ok])
      from post [OF this ok] post [OF n(1,2)] n(3) show ?thesis by auto
    qed
  qed
qed

lemma market_steps_facts:
  assumes "market_step\<^sup>*\<^sup>* s s'" and "market_ok s"
  shows "market_ok s' \<and> set (reversal_targets (marketplace_movements s)) \<subseteq> set (reversal_targets (marketplace_movements s'))
    \<and> set (marketplace_movements s) \<subseteq> set (marketplace_movements s')
    \<and> get_product_total p s' - linked_sum s' p = get_product_total p s - linked_sum s p"
  using assms(1)
proof (induction rule: rtranclp_induct)
  case (step t u)
  then show ?case using market_step_facts [of t u p] by auto
qed (use assms(2) in simp)

section \<open>Properties\<close>

text \<open>
  C2: the two ledgers move together. Over any run of sales, RTOs, undos and edits, the OMS stock
  total of every product moves by exactly what the marketplace rows linked to it record, and in
  every scope the reversed rows and their reversals cancel: the running sum is the sum of the
  active rows.
\<close>

theorem ledgers_move_together:
  assumes "market_step\<^sup>*\<^sup>* s s'" and "market_ok s"
  shows "get_product_total p s' - get_product_total p s = linked_sum s' p - linked_sum s p
    \<and> sum_list (map mm_delta (filter (in_scope k) (marketplace_movements s')))
      = sum_list (map mm_delta (filter (\<lambda>m. in_scope k m \<and> active (marketplace_movements s') m) (marketplace_movements s')))"
proof -
  have "market_ok s' \<and> get_product_total p s' - linked_sum s' p = get_product_total p s - linked_sum s p"
    using market_steps_facts [OF assms, of p] by blast
  then show ?thesis using active_sum [of "marketplace_movements s'" k] by (auto simp: market_ok_def)
qed

lemma demo_sale_exists:
  obtains m s' where "record_product_movement 1 ''amazon'' SALE 20 None None None (Some 5) demo_market = Inr (m, s')"
  using demo_sale by (cases "record_product_movement 1 ''amazon'' SALE 20 None None None (Some 5) demo_market") auto

lemma demo_undo: "\<not> isl (bindR (record_product_movement 1 ''amazon'' SALE 20 None None None (Some 5) demo_market)
    (\<lambda>(m, s). undo_movement (mm_id m) (Some ''typo'') None s))"
  by code_simp

lemma demo_undo_exists:
  obtains m s1 r s2 where "record_product_movement 1 ''amazon'' SALE 20 None None None (Some 5) demo_market = Inr (m, s1)"
    "undo_movement (mm_id m) (Some ''typo'') None s1 = Inr (r, s2)"
proof -
  obtain m s1 where a: "record_product_movement 1 ''amazon'' SALE 20 None None None (Some 5) demo_market = Inr (m, s1)"
    by (rule demo_sale_exists)
  then obtain x where "undo_movement (mm_id m) (Some ''typo'') None s1 = Inr x"
    using demo_undo by (cases "undo_movement (mm_id m) (Some ''typo'') None s1") auto
  then show thesis using that a by (cases x) auto
qed

theorem ledgers_move_together_witness:
  "\<exists>m s1 r s2. record_product_movement 1 ''amazon'' SALE 20 None None None (Some 5) demo_market = Inr (m, s1)
     \<and> undo_movement (mm_id m) (Some ''typo'') None s1 = Inr (r, s2)
     \<and> get_product_total 1 s2 - get_product_total 1 demo_market = linked_sum s2 1 - linked_sum demo_market 1"
proof (rule demo_undo_exists)
  fix m s1 r s2
  assume u: "record_product_movement 1 ''amazon'' SALE 20 None None None (Some 5) demo_market = Inr (m, s1)"
    "undo_movement (mm_id m) (Some ''typo'') None s1 = Inr (r, s2)"
  then have "market_step\<^sup>*\<^sup>* demo_market s2"
    by (meson converse_rtranclp_into_rtranclp market_step.intros r_into_rtranclp)
  from ledgers_move_together [OF this demo_market_ok] u show ?thesis by blast
qed

text \<open>
  A recorded sale or RTO moves the balance of its scope and the product's OMS total by the
  same amount, minus or plus the ceiling of packets times pack size over packets per box, where
  every SKU in scope has those factors.
\<close>

theorem record_product_exact:
  assumes "market_ok s" and "market_stamped s" and "scope_ledger.faithful s k"
    and "record_product_movement p pf t q r d actor cv s = Inr (m, s')" and "k = scope_of m"
    and "\<forall>e\<in>set (scope_entries s k). fst e \<le> mm_date m"
  shows "get_product_total p s' = get_product_total p s + mm_delta m
    \<and> latest_balance s' k (mm_date m) = latest_balance s k (mm_date m) + mm_delta m
    \<and> (\<exists>vs pack ppb outers. resolve_marketplace_scope p cv s = Inr (cv, vs) \<and> vs \<noteq> []
        \<and> (\<forall>v\<in>set vs. pv_pack_size v = pack \<and> pv_packets_per_box v = ppb)
        \<and> ceil_div (q * pack) ppb = Inr outers \<and> mm_delta m = (if t = SALE then - outers else outers))"
proof (rule record_product_movement_Inr [OF assms(4)])
  fix vs pack ppb outers
  assume post: "posted m s s'" and l: "linked s' m" and k: "scope_of m = (p, cv, pf)"
    and d: "mm_delta m = signed_outers t outers" "mm_after m = latest_balance s (scope_of m) (mm_date m) + mm_delta m"
    and c: "resolve_marketplace_scope p cv s = Inr (cv, vs)" "product_conversion_factor vs = Inr (pack, ppb)"
      "ceil_div (q * pack) ppb = Inr outers"
  have "linked_sum s' p = linked_sum s p + mm_delta m"
    using posted_linked_sum [OF post assms(1) l] k by (simp add: scope_of_def)
  then have "get_product_total p s' = get_product_total p s + mm_delta m"
    using posted_total [OF post assms(1), of p] by simp
  moreover have "market_appended k (mm_date m) (mm_delta m) s s'"
    using post d assms(5) by (auto simp: market_appended_def posted_def)
  then have "latest_balance s' k (mm_date m) = latest_balance s k (mm_date m) + mm_delta m"
    using assms scope_ledger.latest_append by blast
  ultimately show ?thesis
    using c d conversion_factor_Inr_iff [of vs pack ppb] by (auto simp: signed_outers_def)
qed

definition demo_run :: "(marketplace_movement \<times> marketplace_movement \<times> market_db \<times> market_db) result" where
  "demo_run = bindR (record_product_movement 1 ''amazon'' SALE 20 None None None (Some 5) demo_market) (\<lambda>(m, s1).
     bindR (undo_movement (mm_id m) (Some ''typo'') None s1) (\<lambda>(r, s2). Inr (m, r, s1, s2)))"

theorem record_product_exact_witness:
  "\<exists>m s'. record_product_movement 1 ''amazon'' SALE 20 None None None (Some 5) demo_market = Inr (m, s')
     \<and> get_product_total 1 s' = get_product_total 1 demo_market + mm_delta m \<and> mm_delta m = - 14"
proof (rule demo_sale_exists)
  fix m s'
  assume r: "record_product_movement 1 ''amazon'' SALE 20 None None None (Some 5) demo_market = Inr (m, s')"
  have e: "case record_product_movement 1 ''amazon'' SALE 20 None None None (Some 5) demo_market of
      Inr (m, _) \<Rightarrow> scope_of m = (1, Some 5, ''amazon'') \<and> mm_delta m = - 14 | Inl _ \<Rightarrow> False"
    by code_simp
  have "scope_ledger.faithful demo_market (scope_of m)" by (simp add: scope_ledger.faithful_def)
  from record_product_exact [OF demo_market_ok demo_market_stamped(1) this r refl] e r
  show ?thesis by (auto simp: scope_of_def)
qed

lemma undo_effect:
  assumes "market_ok s" and "market_stamped s" and "undo_movement i reason actor s = Inr (r, s')"
    and "movement_by s i = Some m"
  shows "marketplace_movements s' = marketplace_movements s @ [r] \<and> mm_reverses r = Some i
    \<and> mm_delta r = - mm_delta m \<and> scope_of r = scope_of m
    \<and> latest_balance s' (scope_of m) (ist_today (clock s)) = latest_balance s (scope_of m) (ist_today (clock s)) - mm_delta m
    \<and> get_product_total (mm_product m) s' =
        get_product_total (mm_product m) s - (if linked s m then mm_delta m else 0)"
proof (rule undo_movement_Inr [OF assms(3,1)])
  fix m'
  assume l: "load_correctable i s = Inr m'" and post: "posted r s s'" and c: "cancels r m'" and i: "mm_id m' = i"
    and d: "mm_date r = ist_today (clock s)" and lk: "linked s' r = linked s m'"
    and a: "mm_after r = latest_balance s (scope_of m') (ist_today (clock s)) + mm_delta r"
  have m: "m' = m" using l assms(4) by (simp add: load_correctable_Inr_iff)
  have r: "mm_delta r = - mm_delta m" "scope_of r = scope_of m" "mm_reverses r = Some i" "mm_product r = mm_product m"
    using c m i by (auto simp: cancels_def scope_of_def)
  have "market_appended (scope_of m) (ist_today (clock s)) (- mm_delta m) s s'"
    using post a d r m by (auto simp: market_appended_def posted_def)
  from latest_balance_append [OF assms(2) this]
  have "latest_balance s' (scope_of m) (ist_today (clock s)) =
      latest_balance s (scope_of m) (ist_today (clock s)) + - mm_delta m" .
  moreover have "linked_sum s' (mm_product m) = linked_sum s (mm_product m) - (if linked s m then mm_delta m else 0)"
  proof (cases "linked s m")
    case True
    then show ?thesis using posted_linked_sum [OF post assms(1)] lk m r by simp
  next
    case False
    then show ?thesis using posted_unlinked_sum [OF post assms(1)] lk m by simp
  qed
  ultimately show ?thesis
    using posted_total [OF post assms(1), of "mm_product m"] post r by (simp add: posted_def)
qed

lemma undone_once:
  assumes "market_ok s" and "undo_movement i reason actor s = Inr (r, s')"
  shows "isl (undo_movement i reason' actor' s')"
proof (rule undo_movement_Inr [OF assms(2,1)])
  fix m
  assume post: "posted r s s'" and c: "cancels r m" and i: "mm_id m = i"
  have "i \<in> set (reversal_targets (marketplace_movements s'))"
    using post c i by (auto simp: posted_def cancels_def)
  then have "load_correctable i s' \<noteq> Inr m'" for m' by (auto simp: load_correctable_Inr_iff dest: movement_by_in)
  then have "isl (load_correctable i s')" by (cases "load_correctable i s'") auto
  then show ?thesis by (auto simp: undo_movement_def Let_def bindR_def isl_def require_def split: sum.split)
qed

lemma record_effect:
  assumes "market_ok s" and "market_stamped s" and "record_product_movement p pf t q reason d actor cv s = Inr (m, s')"
  shows "get_product_total (mm_product m) s' = get_product_total (mm_product m) s + mm_delta m \<and> linked s' m
    \<and> latest_balance s' (scope_of m) (mm_date m) = latest_balance s (scope_of m) (mm_date m) + mm_delta m"
proof (rule record_product_movement_Inr [OF assms(3)])
  fix outers
  assume post: "posted m s s'" and l: "linked s' m"
    and d: "mm_delta m = signed_outers t outers" "mm_after m = latest_balance s (scope_of m) (mm_date m) + mm_delta m"
  have "market_appended (scope_of m) (mm_date m) (mm_delta m) s s'"
    using post d by (auto simp: market_appended_def posted_def)
  from latest_balance_append [OF assms(2) this] show ?thesis
    using posted_linked_sum [OF post assms(1) l] posted_total [OF post assms(1), of "mm_product m"] l by simp
qed

text \<open>
  C4: an undo takes back what the movement recorded, however the rows of its scope are dated. It adds one reversal row with
  the opposite delta and leaves every other row in place; by that delta the balance of the scope as of today moves, and, if
  the movement was linked to a stock effect, the OMS total of the product; a second undo is refused. Undone on the day it is
  dated, directly after it was recorded, a movement leaves balance and total as they were before it.
\<close>

theorem undo_takes_back:
  fixes s :: "'a market_db_scheme"
  assumes "market_ok s" and "market_stamped s" and "undo_movement i reason actor s = Inr (r, s')"
    and "movement_by s i = Some m"
  defines "today \<equiv> ist_today (clock s)"
  shows "marketplace_movements s' = marketplace_movements s @ [r] \<and> mm_reverses r = Some i \<and> mm_delta r = - mm_delta m
    \<and> latest_balance s' (scope_of m) today = latest_balance s (scope_of m) today - mm_delta m
    \<and> get_product_total (mm_product m) s' = get_product_total (mm_product m) s - (if linked s m then mm_delta m else 0)
    \<and> isl (undo_movement i reason' actor' s')
    \<and> (\<forall>(before :: 'a market_db_scheme) p pf t q why d user cv. market_ok before \<longrightarrow> market_stamped before
        \<longrightarrow> record_product_movement p pf t q why d user cv before = Inr (m, s) \<longrightarrow> mm_date m = today
        \<longrightarrow> latest_balance s' (scope_of m) today = latest_balance before (scope_of m) today
          \<and> get_product_total (mm_product m) s' = get_product_total (mm_product m) before)"
proof -
  note undone = undo_effect [OF assms(1-4)]
  have "latest_balance s' (scope_of m) today = latest_balance before (scope_of m) today
      \<and> get_product_total (mm_product m) s' = get_product_total (mm_product m) before"
    if "market_ok before" "market_stamped before" "record_product_movement p pf t q why d user cv before = Inr (m, s)"
      "mm_date m = today" for before :: "'a market_db_scheme" and p pf t q why d user cv
    using record_effect [OF that(1-3)] undone that(4) by (simp add: today_def)
  then show ?thesis using undone undone_once [OF assms(1,3)] unfolding today_def by blast
qed

lemma demo_sale_state:
  assumes "record_product_movement 1 ''amazon'' SALE 20 None None None (Some 5) demo_market = Inr (m, s1)"
  shows "market_ok s1 \<and> market_stamped s1 \<and> scope_ledger.faithful s1 (scope_of m) \<and> movement_by s1 (mm_id m) = Some m
    \<and> (\<forall>e\<in>set (scope_entries s1 (scope_of m)). fst e \<le> ist_today (clock s1)) \<and> linked s1 m
    \<and> mm_product m = 1"
proof -
  have e: "case record_product_movement 1 ''amazon'' SALE 20 None None None (Some 5) demo_market of
      Inr (m, s1) \<Rightarrow> scope_entries s1 (scope_of m) = [(739504, (-14, -14))] \<and> ist_today (clock s1) = 739504
        \<and> map mm_id (marketplace_movements s1) = [mm_id m] \<and> linked s1 m \<and> mm_product m = 1
    | Inl _ \<Rightarrow> False"
    by code_simp
  have p: "market_ok s1" "posted m demo_market s1" using record_product_ok [OF assms demo_market_ok] by auto
  have "market_stamped s1"
    using p(2) by (auto simp: posted_def market_stamped_def demo_market_def)
  moreover have "scope_ledger.faithful s1 (scope_of m)" using e assms by (simp add: scope_ledger.faithful_def)
  moreover have "movement_by s1 (mm_id m) = Some m"
    using p(2) by (simp add: posted_def movement_by_def demo_market_def)
  ultimately show ?thesis using e assms p(1) by simp
qed

theorem undo_takes_back_witness:
  "\<exists>m s1 r s2. record_product_movement 1 ''amazon'' SALE 20 None None None (Some 5) demo_market = Inr (m, s1)
     \<and> undo_movement (mm_id m) (Some ''typo'') None s1 = Inr (r, s2)
     \<and> get_product_total 1 s2 = get_product_total 1 demo_market
     \<and> latest_balance s2 (scope_of m) 739504 = latest_balance demo_market (scope_of m) 739504"
proof (rule demo_undo_exists)
  fix m s1 r s2
  assume u: "record_product_movement 1 ''amazon'' SALE 20 None None None (Some 5) demo_market = Inr (m, s1)"
    "undo_movement (mm_id m) (Some ''typo'') None s1 = Inr (r, s2)"
  have e: "case record_product_movement 1 ''amazon'' SALE 20 None None None (Some 5) demo_market of
      Inr (m, s1) \<Rightarrow> mm_date m = 739504 \<and> ist_today (clock s1) = 739504 | Inl _ \<Rightarrow> False" by code_simp
  note d = demo_sale_state [OF u(1)]
  then have "market_ok s1" "market_stamped s1" "movement_by s1 (mm_id m) = Some m" "mm_product m = 1" by simp_all
  note undone = undo_takes_back [OF this(1,2) u(2) this(3)] this(4)
  have day: "mm_date m = ist_today (clock s1)" "ist_today (clock s1) = 739504" using e u by auto
  have "latest_balance s2 (scope_of m) (ist_today (clock s1)) = latest_balance demo_market (scope_of m) (ist_today (clock s1))
      \<and> get_product_total (mm_product m) s2 = get_product_total (mm_product m) demo_market"
    using undone(1) demo_market_ok demo_market_stamped(1) u(1) day(1) by blast
  then show ?thesis using u undone(2) day(2) by auto
qed

text \<open>
  An edit makes the new quantity the effective one: under the same conditions the balance as
  of today goes from the old delta to the new one, the OMS total follows (an original recorded
  without a stock effect is brought in line), and the new delta is the conversion of the new
  quantity with the factors its own scope has now.
\<close>

theorem edit_is_effective:
  assumes "market_ok s" and "market_stamped s" and "edit_movement i q reason actor s = Inr (n, s')"
    and "movement_by s i = Some m" and "scope_ledger.faithful s (scope_of m)"
    and "\<forall>e\<in>set (scope_entries s (scope_of m)). fst e \<le> ist_today (clock s)"
  shows "latest_balance s' (scope_of m) (ist_today (clock s)) =
      latest_balance s (scope_of m) (ist_today (clock s)) - mm_delta m + mm_delta n
    \<and> get_product_total (mm_product m) s' =
        get_product_total (mm_product m) s - (if linked s m then mm_delta m else 0) + mm_delta n
    \<and> mm_packets n = q \<and> mm_replaces n = Some i \<and> mm_type n = mm_type m
    \<and> (\<exists>v\<in>set (variants_for_product s (mm_product m)). \<exists>outers.
         ceil_div (q * pv_pack_size v) (pv_packets_per_box v) = Inr outers
         \<and> mm_delta n = (if mm_type m = SALE then - outers else outers))"
proof (rule edit_movement_Inr [OF assms(3,1)])
  fix m' r s1 vs pack ppb outers
  let ?k = "scope_of m" and ?today = "ist_today (clock s)"
  assume l: "load_correctable i s = Inr m'" and u: "undo_movement i reason actor s = Inr (r, s1)"
    and post: "posted n s1 s'" and ok1: "market_ok s1" and lk: "linked s' n"
    and n: "mm_type n = mm_type m'" "mm_packets n = q" "mm_replaces n = Some i" "scope_of n = scope_of m'"
      "mm_date n = ist_today (clock s)" "mm_delta n = signed_outers (mm_type m') outers"
      "mm_after n = latest_balance s (scope_of m') (ist_today (clock s)) + mm_delta r + mm_delta n"
    and c: "product_conversion_factor vs = Inr (pack, ppb)" "ceil_div (q * pack) ppb = Inr outers"
    and vs: "vs = (if mm_catalog_variant m' \<noteq> None
           then filter (\<lambda>v. pv_catalog_variant v = mm_catalog_variant m') (variants_for_product s (mm_product m'))
           else variants_for_product s (mm_product m'))"
  have m: "m' = m" using l assms(4) by (simp add: load_correctable_Inr_iff)
  have taken_back: "market_appended ?k ?today (mm_delta r) s s1" "mm_delta r = - mm_delta m"
    by (rule undo_movement_Inr [OF u assms(1)],
        use l m in \<open>auto simp: market_appended_def posted_def cancels_def\<close>)+
  note undone = undo_effect [OF assms(1,2) u assms(4)]
  have st1: "market_stamped s1" "scope_ledger.faithful s1 ?k"
    using scope_ledger.ready_append [OF assms(2) taken_back(1)]
      scope_ledger.faithful_append [OF assms(2) taken_back(1) assms(5)] assms(6) by blast+
  have dates: "\<forall>e\<in>set (scope_entries s1 ?k). fst e \<le> ?today"
    using scope_ledger.entries_append [OF assms(2) taken_back(1)] assms(6) by auto
  have "market_appended ?k ?today (mm_delta n) s1 s'"
    using post n m undone taken_back(2) by (auto simp: market_appended_def posted_def)
  from scope_ledger.latest_append [OF st1(1) this st1(2) dates]
  have "latest_balance s' ?k ?today = latest_balance s ?k ?today - mm_delta m + mm_delta n"
    using undone by simp
  moreover have "get_product_total (mm_product m) s' =
      get_product_total (mm_product m) s - (if linked s m then mm_delta m else 0) + mm_delta n"
    using posted_total [OF post ok1, of "mm_product m"] posted_linked_sum [OF post ok1 lk, of "mm_product m"]
      undone n(4) m by (simp add: scope_of_def)
  moreover have "vs \<noteq> []" and f: "\<forall>v\<in>set vs. pv_pack_size v = pack \<and> pv_packets_per_box v = ppb"
    using c(1) by (auto simp: conversion_factor_Inr_iff)
  then have "hd vs \<in> set vs" by simp
  then have "hd vs \<in> set (variants_for_product s (mm_product m))" "pv_pack_size (hd vs) = pack"
      "pv_packets_per_box (hd vs) = ppb"
    using f vs m by (auto split: if_splits)
  ultimately show ?thesis using n m c(2) by (auto simp: signed_outers_def)
qed

theorem edit_is_effective_witness:
  "\<exists>m s1 n s2. record_product_movement 1 ''amazon'' SALE 20 None None None (Some 5) demo_market = Inr (m, s1)
     \<and> edit_movement (mm_id m) 15 (Some ''miscount'') None s1 = Inr (n, s2)
     \<and> get_product_total 1 s2 = get_product_total 1 s1 - mm_delta m + mm_delta n \<and> mm_packets n = 15"
proof (rule demo_sale_exists)
  fix m s1
  assume r: "record_product_movement 1 ''amazon'' SALE 20 None None None (Some 5) demo_market = Inr (m, s1)"
  note d = demo_sale_state [OF r]
  have "\<not> isl (bindR (record_product_movement 1 ''amazon'' SALE 20 None None None (Some 5) demo_market)
      (\<lambda>(m, s). edit_movement (mm_id m) 15 (Some ''miscount'') None s))"
    by code_simp
  with r obtain x where "edit_movement (mm_id m) 15 (Some ''miscount'') None s1 = Inr x"
    by (cases "edit_movement (mm_id m) 15 (Some ''miscount'') None s1") auto
  then obtain n s2 where e: "edit_movement (mm_id m) 15 (Some ''miscount'') None s1 = Inr (n, s2)"
    by (cases x) auto
  show ?thesis
    using edit_is_effective [OF _ _ e, of m] d r e by fastforce
qed

text \<open>
  A movement is corrected at most once. After an undo or an edit of it, however the ledger
  goes on, every later undo or edit of it is refused with a validation error.
\<close>

theorem corrected_once:
  assumes "market_ok s" and "undo_movement i reason actor s = Inr (r, s1) \<or> edit_movement i q reason actor s = Inr (r, s1)"
    and "market_step\<^sup>*\<^sup>* s1 s2"
  shows "(\<exists>msg. undo_movement i reason' actor' s2 = Inl (ValidationError msg))
    \<and> (\<exists>msg. edit_movement i q' reason' actor' s2 = Inl (ValidationError msg))"
proof -
  obtain t r' m where u: "undo_movement i reason actor s = Inr (r', t)" and t: "t = s1 \<or> (\<exists>n. posted n t s1)"
    and ok1: "market_ok s1" and m: "m \<in> set (marketplace_movements s)" "mm_id m = i"
    using assms(2)
  proof
    assume e: "undo_movement i reason actor s = Inr (r, s1)"
    show thesis by (rule undo_movement_Inr [OF e assms(1)]) (use that e in blast)
  next
    assume e: "edit_movement i q reason actor s = Inr (r, s1)"
    show thesis
    proof (rule edit_movement_Inr [OF e assms(1)])
      fix m r' t
      assume "load_correctable i s = Inr m" "undo_movement i reason actor s = Inr (r', t)" "posted r t s1" "market_ok s1"
      then show thesis using that by (auto simp: load_correctable_Inr_iff dest: movement_by_in)
    qed
  qed
  have "i \<in> set (reversal_targets (marketplace_movements t)) \<and> set (marketplace_movements s) \<subseteq> set (marketplace_movements t)"
    by (rule undo_movement_Inr [OF u assms(1)]) (auto simp: posted_def cancels_def)
  moreover have "set (reversal_targets (marketplace_movements t)) \<subseteq> set (reversal_targets (marketplace_movements s1))
      \<and> set (marketplace_movements t) \<subseteq> set (marketplace_movements s1)"
    using t by (auto simp: posted_def)
  ultimately have "i \<in> set (reversal_targets (marketplace_movements s2))" "m \<in> set (marketplace_movements s2)"
    using m(1) market_steps_facts [OF assms(3) ok1, of 0] by blast+
  then have "movement_by s2 i = Some m" "mm_id m \<in> set (reversal_targets (marketplace_movements s2))"
    using market_steps_facts [OF assms(3) ok1] m(2) row_by_distinct [of mm_id "marketplace_movements s2" m]
    by (auto simp: movement_by_def market_ok_def links_def)
  then have "\<exists>msg. load_correctable i s2 = Inl (ValidationError msg)"
    by (auto simp: load_correctable_def require_def reversed_ids_eq)
  then show ?thesis
    by (auto simp: undo_movement_def edit_movement_def Let_def require_def)
qed

theorem corrected_once_witness:
  "\<exists>m s1 r s2 msg. record_product_movement 1 ''amazon'' SALE 20 None None None (Some 5) demo_market = Inr (m, s1)
     \<and> undo_movement (mm_id m) (Some ''typo'') None s1 = Inr (r, s2)
     \<and> undo_movement (mm_id m) (Some ''again'') None s2 = Inl (ValidationError msg)"
proof (rule demo_undo_exists)
  fix m s1 r s2
  assume u: "record_product_movement 1 ''amazon'' SALE 20 None None None (Some 5) demo_market = Inr (m, s1)"
    "undo_movement (mm_id m) (Some ''typo'') None s1 = Inr (r, s2)"
  have "market_ok s1" using demo_sale_state [OF u(1)] by blast
  from corrected_once [OF this disjI1 [OF u(2)] rtranclp.rtrancl_refl] u show ?thesis by blast
qed

text \<open>
  Two corrections that race are told apart by the unique constraint: when a concurrent
  transaction has already reversed the movement, an undo that still sees it as open ends in the
  validation error of a movement already corrected, not in a second reversal.
\<close>

theorem racing_undo_rejected:
  assumes "load_correctable i s = Inr m" and "i \<in> set (unseen_reversals s)" and "strip (or_text reason '''') \<noteq> []"
  shows "undo_movement i reason actor s =
    Inl (ValidationError ''This movement has already been undone or edited.'')"
proof -
  have id: "mm_id m = i" "mm_id m \<notin> set (reversal_targets (marketplace_movements s))"
    using assms(1) by (auto simp: load_correctable_Inr_iff dest: movement_by_in)
  have "append_movement (scope_of m) t q x prev d r actor (Some (mm_id m)) None s =
      Inl (IntegrityError ''uq_product_marketplace_movements_reverses'')" for t q x prev d r
    using assms(2) id(1) by (cases "scope_of m") (auto simp: append_movement_def Let_def market_create_def)
  then show ?thesis
    using assms(1,3) by (simp add: undo_movement_def Let_def append_reversal_def already_corrected_def)
qed

theorem racing_undo_rejected_witness:
  "\<exists>m s1 i. record_product_movement 1 ''amazon'' SALE 20 None None None (Some 5) demo_market = Inr (m, s1)
     \<and> undo_movement i (Some ''x'') None (s1\<lparr>unseen_reversals := [i]\<rparr>) =
         Inl (ValidationError ''This movement has already been undone or edited.'')"
proof (rule demo_sale_exists)
  fix m s1
  assume r: "record_product_movement 1 ''amazon'' SALE 20 None None None (Some 5) demo_market = Inr (m, s1)"
  let ?t = "s1\<lparr>unseen_reversals := [mm_id m]\<rparr>"
  have "case record_product_movement 1 ''amazon'' SALE 20 None None None (Some 5) demo_market of
      Inr (m, s1) \<Rightarrow> \<not> isl (load_correctable (mm_id m) (s1\<lparr>unseen_reversals := [mm_id m]\<rparr>)) | Inl _ \<Rightarrow> False"
    by code_simp
  with r obtain m' where "load_correctable (mm_id m) ?t = Inr m'"
    by (cases "load_correctable (mm_id m) ?t") auto
  from racing_undo_rejected [OF this, of "Some ''x''" None] r show ?thesis
    by (auto simp: or_text_def strip_eq_Nil_iff is_space_def)
qed

text \<open>
  The history view and the guard agree. For rows of a known marketplace, the flag that offers
  Undo is set exactly when an undo would be accepted, and a row is shown as edited or undone
  exactly when it is reversed.
\<close>

theorem view_agrees_with_guard:
  assumes "market_ok s" and "d \<in> set (describe_movements movements s)"
    and "dm_movement d \<in> set (marketplace_movements s)" and "mm_platform (dm_movement d) \<in> set platforms"
  shows "(dm_can_undo d \<longleftrightarrow> (\<exists>m. load_correctable (mm_id (dm_movement d)) s = Inr m))
    \<and> dm_can_edit d = dm_can_undo d
    \<and> (dm_status d \<in> {Undone, Edited} \<longleftrightarrow> mm_type (dm_movement d) \<noteq> REVERSAL
         \<and> mm_id (dm_movement d) \<in> set (reversal_targets (marketplace_movements s)))"
proof -
  let ?m = "dm_movement d"
  obtain "?m \<in> set movements" and st: "dm_status d = (if mm_type ?m = REVERSAL then Is_Reversal
         else if mm_id ?m \<in> set (reversal_targets (marketplace_movements s))
         then (if mm_id ?m \<in> set (replacement_targets (marketplace_movements s)) then Edited else Undone) else Active)"
    and can: "dm_can_undo d \<longleftrightarrow> dm_status d = Active \<and> mm_type ?m \<in> {SALE, RTO}" "dm_can_edit d = dm_can_undo d"
    using assms(2) by (auto simp: describe_movements_def Let_def reversed_ids_eq replaced_ids_eq)
  have "movement_by s (mm_id ?m) = Some ?m"
    using assms(1,3) by (auto simp: movement_by_def market_ok_def links_def intro: row_by_distinct)
  then have "(\<exists>m. load_correctable (mm_id ?m) s = Inr m) \<longleftrightarrow>
      mm_type ?m \<in> {SALE, RTO} \<and> mm_id ?m \<notin> set (reversal_targets (marketplace_movements s))"
    using assms(4) by (simp add: load_correctable_Inr_iff)
  then show ?thesis using st can by (cases "mm_type ?m") auto
qed

theorem view_agrees_with_guard_witness:
  "\<exists>m s1 d. record_product_movement 1 ''amazon'' SALE 20 None None None (Some 5) demo_market = Inr (m, s1)
     \<and> describe_movements [m] s1 = [d] \<and> dm_can_undo d = (\<exists>m'. load_correctable (mm_id m) s1 = Inr m')"
proof (rule demo_sale_exists)
  fix m s1
  assume r: "record_product_movement 1 ''amazon'' SALE 20 None None None (Some 5) demo_market = Inr (m, s1)"
  obtain d where d: "describe_movements [m] s1 = [d]" "dm_movement d = m"
    by (auto simp: describe_movements_def Let_def)
  have ok: "market_ok s1" "movement_by s1 (mm_id m) = Some m" using demo_sale_state [OF r] by auto
  have pf: "mm_platform m \<in> set platforms"
    by (rule record_product_movement_Inr [OF r]) (simp add: scope_of_def)
  have "m \<in> set (marketplace_movements s1)" using ok(2) by (blast dest: movement_by_in)
  with view_agrees_with_guard [OF ok(1), of d "[m]"] d pf r show ?thesis by auto
qed

text \<open>
  The daily summary adds up. Where the entries of a scope are dated in the order written, every
  marketplace row of every day has closing stock equal to opening stock plus what was added minus
  what was deducted that day, and the closing stock is the sum of all deltas up to the day.
\<close>

theorem daily_summary_adds_up:
  assumes "market_stamped s" and "scope_ledger.faithful s (p, cv, platform)"
    and "row = manual_platform_row s p cv day platform"
  shows "sr_current row = map_option (\<lambda>opening. opening + sr_added row - sr_deducted row) (sr_opening row)
    \<and> sr_current row = Some (scope_ledger.running_sum s (p, cv, platform) day)"
proof -
  let ?k = "(p, cv, platform)"
  have sums: "fst (market_sum_for_date s ?k day) - snd (market_sum_for_date s ?k day) =
      sum_list [fst (snd e). e \<leftarrow> scope_entries s ?k, fst e = day]"
  proof -
    have "sum_list (map mm_delta (filter (\<lambda>m. in_scope ?k m \<and> mm_date m = day) ms)) =
        sum_list [fst (snd e). e \<leftarrow> map (\<lambda>m. (mm_date m, (mm_delta m, mm_after m))) (filter (in_scope ?k) ms), fst e = day]"
      for ms by (induction ms) auto
    then show ?thesis unfolding market_sum_for_date_def sum_by_sign_diff scope_entries_def .
  qed
  have "latest_balance s ?k day = latest_balance s ?k (day - 1) +
      (fst (market_sum_for_date s ?k day) - snd (market_sum_for_date s ?k day))"
    unfolding sums using scope_ledger.closing_opening [OF assms(1,2), of day] .
  moreover have "latest_balance s ?k day = scope_ledger.running_sum s ?k day"
    using scope_ledger.latest_running_sum [OF assms(1,2)] .
  ultimately show ?thesis
    unfolding assms(3) manual_platform_row_def
    by (simp add: Let_def latest_balance_def split_def)
qed

theorem daily_summary_adds_up_witness:
  "\<exists>m s'. record_product_movement 1 ''amazon'' SALE 20 None None None (Some 5) demo_market = Inr (m, s')
     \<and> sr_current (manual_platform_row s' 1 (Some 5) 739504 ''amazon'') =
         Some (scope_ledger.running_sum s' (1, Some 5, ''amazon'') 739504)"
proof (rule demo_sale_exists)
  fix m s'
  assume r: "record_product_movement 1 ''amazon'' SALE 20 None None None (Some 5) demo_market = Inr (m, s')"
  have "scope_of m = (1, Some 5, ''amazon'')"
    by (rule record_product_movement_Inr [OF r]) simp
  then show ?thesis using daily_summary_adds_up [OF _ _ refl] demo_sale_state [OF r] r by metis
qed

text \<open>
  "Sold This Month" counts the packets of the effective sales of the current IST calendar
  month, on every marketplace of one scope: a sale that was undone or edited is left out, its
  replacement counts, an RTO or a reversal never does.
\<close>

theorem sold_this_month_effective:
  assumes "market_ok s"
  shows "sold_this_month s p cv = sum_list (map mm_packets (filter (\<lambda>m. mm_type m = SALE
      \<and> active (marketplace_movements s) m \<and> mm_product m = p \<and> mm_catalog_variant m = cv
      \<and> year_month (mm_date m) = year_month (ist_today (clock s))) (marketplace_movements s)))"
proof -
  have "mm_reverses m = None" if "m \<in> set (marketplace_movements s)" "mm_type m = SALE" for m
    using assms that by (auto simp: market_ok_def links_def)
  then have "filter (\<lambda>m. mm_product m = p \<and> mm_catalog_variant m = cv \<and> mm_type m = SALE
         \<and> month_start (ist_today (clock s)) \<le> mm_date m \<and> mm_date m < next_month_start (ist_today (clock s))
         \<and> \<not> (\<exists>r\<in>set (marketplace_movements s). mm_reverses r = Some (mm_id m))) (marketplace_movements s) =
      filter (\<lambda>m. mm_type m = SALE \<and> active (marketplace_movements s) m \<and> mm_product m = p
         \<and> mm_catalog_variant m = cv
         \<and> year_month (mm_date m) = year_month (ist_today (clock s))) (marketplace_movements s)"
    using month_window [of "ist_today (clock s)"] by (intro filter_cong) (auto simp: active_def in_reversal_targets)
  then show ?thesis by (simp add: sold_this_month_def sum_sold_packets_def)
qed

theorem sold_this_month_effective_witness:
  "\<exists>m s1 r s2. record_product_movement 1 ''amazon'' SALE 20 None None None (Some 5) demo_market = Inr (m, s1)
     \<and> undo_movement (mm_id m) (Some ''typo'') None s1 = Inr (r, s2) \<and> sold_this_month s2 1 (Some 5) = 0"
proof (rule demo_undo_exists)
  fix m s1 r s2
  assume u: "record_product_movement 1 ''amazon'' SALE 20 None None None (Some 5) demo_market = Inr (m, s1)"
    "undo_movement (mm_id m) (Some ''typo'') None s1 = Inr (r, s2)"
  have ok: "market_ok s1" "posted m demo_market s1" using record_product_ok [OF u(1) demo_market_ok] by auto
  have rows: "marketplace_movements s2 = [m, r] \<and> mm_reverses r = Some (mm_id m) \<and> market_ok s2 \<and> mm_type r = REVERSAL"
    by (rule undo_movement_Inr [OF u(2) ok(1)]) (use ok(2) in \<open>auto simp: posted_def cancels_def demo_market_def\<close>)
  then have "\<not> active [m, r] m" by (simp add: active_def reversal_targets_def)
  then have "sold_this_month s2 1 (Some 5) = 0"
    using rows sold_this_month_effective [of s2 1 "Some 5"] by simp
  with u show ?thesis by blast
qed

text \<open>
  A deduction on the per-variant ledger never takes a balance below zero, as long as entries
  are recorded in date order: after it the balance as of its date is the old one moved by the
  quantity, not negative, and the sum of everything entered so far.
\<close>

theorem variant_ledger_never_negative:
  assumes "platform_stamped s" and "sku_ledger.faithful s (vid, platform)"
    and "record_movement vid platform t q reason d actor s = Inr (m, s')"
    and "\<forall>e\<in>set (sku_entries s (vid, platform)). fst e \<le> pm_date m"
    and "t = STOCK_ADDED \<Longrightarrow> 0 \<le> sku_balance s (vid, platform) (pm_date m)"
  shows "0 \<le> sku_balance (tick s') (vid, platform) (pm_date m)
    \<and> sku_balance (tick s') (vid, platform) (pm_date m) =
        sku_balance s (vid, platform) (pm_date m) + (if t = STOCK_ADDED then q else - q)
    \<and> sku_ledger.faithful (tick s') (vid, platform)
    \<and> sku_balance (tick s') (vid, platform) (pm_date m) =
        deltas (map snd (sku_entries (tick s') (vid, platform)))"
proof -
  let ?k = "(vid, platform)"
  note r = record_movement_Inr [OF assms(3)]
  then have app: "platform_appended ?k (pm_date m) (pm_delta m) s (tick s')" by blast
  have bal: "sku_balance (tick s') ?k (pm_date m) = sku_balance s ?k (pm_date m) + pm_delta m"
    using assms(1) app assms(2,4) by (rule sku_ledger.latest_append)
  have f: "sku_ledger.faithful (tick s') ?k"
    using sku_ledger.faithful_append [OF assms(1) app assms(2)] assms(4) by blast
  have st: "platform_stamped (tick s')" using sku_ledger.ready_append [OF assms(1) app] .
  have "\<forall>e\<in>set (sku_entries (tick s') ?k). fst e \<le> pm_date m"
    using assms(4) sku_ledger.entries_append [OF assms(1) app] by auto
  then have "sku_balance (tick s') ?k (pm_date m) = deltas (map snd (sku_entries (tick s') ?k))"
    using sku_ledger.latest_running_sum [OF st f, of "pm_date m"]
    by (simp add: sku_ledger.running_sum_def sku_ledger.entries_upto_all)
  then show ?thesis
    using bal f r assms(5) by (cases t) (auto simp: platform_delta_def)
qed

theorem variant_ledger_never_negative_witness:
  "\<exists>m s'. record_movement 2 ''amazon'' STOCK_ADDED 8 None None None demo_market = Inr (m, s')
     \<and> sku_balance (tick s') (2, ''amazon'') (pm_date m) = deltas (map snd (sku_entries (tick s') (2, ''amazon'')))"
proof -
  have "\<not> isl (record_movement 2 ''amazon'' STOCK_ADDED 8 None None None demo_market)" by code_simp
  then obtain m s' where r: "record_movement 2 ''amazon'' STOCK_ADDED 8 None None None demo_market = Inr (m, s')"
    by (cases "record_movement 2 ''amazon'' STOCK_ADDED 8 None None None demo_market") auto
  have "sku_ledger.faithful demo_market (2, ''amazon'')" by (simp add: sku_ledger.faithful_def)
  moreover have "sku_balance demo_market (2, ''amazon'') (pm_date m) = 0"
    by (simp add: sku_balance_def platform_latest_as_of_def demo_market_def latest_by_def)
  ultimately show ?thesis
    using variant_ledger_never_negative [OF demo_market_stamped(2) _ r] r by simp
qed

text \<open>
  Out of date order the check does not hold. Eight boxes added on day 10 and taken on day 20
  leave none, yet a deduction of eight more dated day 15 is accepted, because the balance as of
  day 15 is still eight: the entries then sum to minus eight.
\<close>

definition backdated_run :: "(market_db \<times> market_db \<times> market_db) result" where
  "backdated_run =
     bindR (record_movement 2 ''amazon'' STOCK_ADDED 8 None (Some 10) None demo_market) (\<lambda>(_, s1).
     bindR (record_movement 2 ''amazon'' STOCK_DEDUCTED 8 None (Some 20) None (tick s1)) (\<lambda>(_, s2).
     bindR (record_movement 2 ''amazon'' STOCK_DEDUCTED 8 None (Some 15) None (tick s2)) (\<lambda>(_, s3).
     Inr (s1, s2, s3))))"

theorem backdated_deduction_overdraws:
  "case backdated_run of
     Inr (s1, s2, s3) \<Rightarrow> sku_balance s2 (2, ''amazon'') 20 = 0
       \<and> deltas (map snd (sku_entries s3 (2, ''amazon''))) = - 8 \<and> sku_balance s3 (2, ''amazon'') 20 = 0
   | Inl _ \<Rightarrow> False"
  by code_simp

section \<open>Shopify's row on the day itself\<close>

definition moves_in_order :: "'a stock_db_scheme \<Rightarrow> bool" where
  "moves_in_order s \<longleftrightarrow> sorted_wrt (<) (map im_created (inventory_movements s))
     \<and> (\<forall>m\<in>set (inventory_movements s). im_created m \<le> clock s)"

lemma split_at_time:
  fixes stamp :: "'r \<Rightarrow> int"
  assumes "sorted_wrt (<) (map stamp rows)"
  shows "rows = filter (\<lambda>m. stamp m < t) rows @ filter (\<lambda>m. t \<le> stamp m) rows"
  using assms
proof (induction rows)
  case (Cons m rows)
  show ?case
  proof (cases "stamp m < t")
    case True
    with Cons show ?thesis by auto
  next
    case False
    then have "filter (\<lambda>m. stamp m < t) rows = []" "filter (\<lambda>m. t \<le> stamp m) rows = rows"
      using Cons.prems by (auto simp: filter_empty_conv filter_id_conv)
    with False show ?thesis by simp
  qed
qed simp

lemma sorted_filter_filter:
  "sorted_wrt (<) (map f rows) \<Longrightarrow> sorted (map f (filter P rows))" for f :: "'r \<Rightarrow> int"
  by (induction rows) auto

lemma sum_signs:
  fixes ds :: "int list"
  shows "sum_list (filter (\<lambda>d. 0 < d) ds) + sum_list (filter (\<lambda>d. d < 0) ds) = sum_list ds"
  by (induction ds) auto

text \<open>One variant: its stock is the balance at the start of the day plus the day's moves.\<close>

lemma variant_day:
  assumes ok: "stock_ok s" and order: "moves_in_order s" and v: "v \<in> set (product_variants s)" "pv_id v \<in> set vids"
    and bounds: "ist_day_bounds_for_date (ist_today (clock s)) = (start, fin)"
    and before: "movement_latest_as_of s vids start (pv_id v) = Some m"
  shows "pv_available v = im_after m + (case movement_totals_by_sign s vids start fin (pv_id v) of
      Some (a, d) \<Rightarrow> a - d | None \<Rightarrow> 0)"
proof -
  let ?vid = "pv_id v"
  define R where "R = filter (\<lambda>m. im_variant m = ?vid) (inventory_movements s)"
  define P where "P = filter (\<lambda>m. im_created m < start) R"
  define W where "W = filter (\<lambda>m. start \<le> im_created m) R"
  have "sorted_wrt (<) (map im_created R)"
    using order unfolding R_def moves_in_order_def by (blast intro: sorted_wrt_filter_map)
  then have R: "R = P @ W" unfolding P_def W_def by (rule split_at_time)
  have "clock s < fin"
    using in_ist_day_for_date [of "ist_today (clock s)" "clock s"] bounds by simp
  then have W: "filter (\<lambda>m. im_variant m = ?vid \<and> ?vid \<in> set vids \<and> start \<le> im_created m \<and> im_created m < fin)
      (inventory_movements s) = W"
    using order v(2) by (auto simp: W_def R_def moves_in_order_def intro!: filter_cong) 
  have P: "filter (\<lambda>m. im_variant m = ?vid \<and> ?vid \<in> set vids \<and> im_created m < start) (inventory_movements s) = P"
    using v(2) by (auto simp: P_def R_def intro!: filter_cong)
  have "sorted (map im_created P)"
    unfolding P_def R_def using order by (auto simp: moves_in_order_def intro!: sorted_filter_filter)
  then have m: "P \<noteq> []" "m = last P"
    using before by (auto simp: movement_latest_as_of_def P latest_by_sorted split: if_splits)
  let ?row = "\<lambda>m. (im_delta m, im_after m)"
  have ch: "chain (unexplained s ?vid) (map ?row P @ map ?row W)"
  proof -
    have "chain (unexplained s ?vid) (stock_rows s ?vid)" using ok by (simp add: stock_ok_def)
    then show ?thesis unfolding stock_rows_def R_def [symmetric] by (subst (asm) R) simp
  qed
  then have "im_after m = unexplained s ?vid + deltas (map ?row P)"
    using chain_last [of "unexplained s ?vid" "map ?row P"] m by (auto simp: chain_append last_map)
  moreover have "available s ?vid = unexplained s ?vid + deltas (map ?row P) + deltas (map ?row W)"
    using R by (simp add: unexplained_def stock_rows_def R_def)
  moreover have "available s ?vid = pv_available v"
    using ok v(1) row_by_distinct [of pv_id "product_variants s" v]
    by (simp add: available_def variant_by_def stock_ok_def variants_wf_def)
  moreover have "(case movement_totals_by_sign s vids start fin ?vid of Some (a, d) \<Rightarrow> a - d | None \<Rightarrow> 0)
      = deltas (map ?row W)"
    using sum_signs [of "map im_delta W"]
    by (auto simp: movement_totals_by_sign_def W Let_def deltas_def o_def)
  ultimately show ?thesis by simp
qed

text \<open>
  On the current day Shopify's row adds up with the stock ledger: where every SKU in scope has
  a move before today, the live stock shown is the opening stock plus what was added minus what
  was deducted today, over any set of SKUs of the product.
\<close>

theorem shopify_today_adds_up:
  assumes "stock_ok s" and "moves_in_order s" and "day = ist_today (clock s)"
    and "\<forall>v\<in>set vs. v \<in> set (product_variants s) \<and> pv_id v \<in> set vids
      \<and> movement_latest_as_of s vids (fst (ist_day_bounds_for_date day)) (pv_id v) \<noteq> None"
    and "row = shopify_row s vids day vs"
  shows "sr_current row = map_option (\<lambda>opening. opening + sr_added row - sr_deducted row) (sr_opening row)
    \<and> sr_current row = Some (sum_available vs) \<and> sr_opening row \<noteq> None"
proof -
  obtain start fin where b: "ist_day_bounds_for_date day = (start, fin)" by fastforce
  define tot where "tot v = (case movement_totals_by_sign s vids start fin (pv_id v) of Some t \<Rightarrow> t | None \<Rightarrow> (0, 0))"
    for v :: product_variant
  define opn where "opn v = map_option im_after (movement_latest_as_of s vids start (pv_id v))"
    for v :: product_variant
  have each: "\<exists>x. opn v = Some x \<and> pv_available v = x + fst (tot v) - snd (tot v)" if v: "v \<in> set vs" for v
  proof -
    obtain m where m: "movement_latest_as_of s vids start (pv_id v) = Some m"
      using assms(4) v b by auto
    then show ?thesis
      using variant_day [OF assms(1,2) _ _ b [unfolded assms(3)] m] assms(4) v
      by (auto simp: opn_def tot_def split: option.splits)
  qed
  have sums: "foldl (\<lambda>acc v. plus_known acc (Some (pv_available v))) (Some (o0 + a0 - d0)) vs =
      map_option (\<lambda>x. x + foldl (\<lambda>acc v. acc + fst (tot v)) a0 vs - foldl (\<lambda>acc v. acc + snd (tot v)) d0 vs)
        (foldl (\<lambda>acc v. plus_known acc (opn v)) (Some o0) vs)
      \<and> foldl (\<lambda>acc v. plus_known acc (opn v)) (Some o0) vs \<noteq> None" for o0 a0 d0
    using each
  proof (induction vs arbitrary: o0 a0 d0)
    case (Cons v vs)
    obtain x where x: "opn v = Some x" "pv_available v = x + fst (tot v) - snd (tot v)"
      using Cons.prems [of v] by auto
    have "plus_known (Some (o0 + a0 - d0)) (Some (pv_available v)) =
          Some ((o0 + x) + (a0 + fst (tot v)) - (d0 + snd (tot v)))"
      and "plus_known (Some o0) (opn v) = Some (o0 + x)"
      using x by (simp_all add: plus_known_def)
    then show ?case
      using Cons.IH [of "o0 + x" "a0 + fst (tot v)" "d0 + snd (tot v)"] Cons.prems by simp
  qed simp
  have live: "foldl (\<lambda>acc v. plus_known acc (Some (pv_available v))) (Some c) vs = Some (c + sum_available vs)" for c
    by (induction vs arbitrary: c) (auto simp: plus_known_def sum_available_def)
  show ?thesis
    using sums [of 0 0 0] live [of 0]
    by (simp add: assms(5) shopify_row_def b Let_def tot_def [symmetric] opn_def [symmetric] assms(3) [symmetric])
qed

definition demo_history :: market_db where
  "demo_history = demo_market\<lparr>inventory_movements :=
     [\<lparr>im_id = 50, im_variant = 2, im_type = MANUAL_ADJUSTMENT, im_delta = 6, im_after = 12, im_order = None,
       im_shipment = None, im_rto = None, im_actor = None, im_reason = None, im_created = 63893000000000000\<rparr>,
      \<lparr>im_id = 51, im_variant = 2, im_type = MANUAL_ADJUSTMENT, im_delta = - 2, im_after = 10, im_order = None,
       im_shipment = None, im_rto = None, im_actor = None, im_reason = None, im_created = 63893160000000000\<rparr>]\<rparr>"

theorem shopify_today_adds_up_witness:
  "sr_current (shopify_row demo_history [2, 3] 739504 [hd (product_variants demo_history)]) = Some 10
    \<and> sr_opening (shopify_row demo_history [2, 3] 739504 [hd (product_variants demo_history)]) = Some 12"
proof -
  let ?v = "hd (product_variants demo_history)" and ?d = "ist_today (clock demo_history)"
  have ok: "stock_ok demo_history"
    by (auto simp: stock_ok_def variants_wf_def move_keys_def stock_rows_def unexplained_def available_def
        variant_by_def demo_history_def demo_market_def)
  have order: "moves_in_order demo_history"
    by (simp add: moves_in_order_def demo_history_def demo_market_def)
  have d: "?d = 739504" by code_simp
  have "movement_latest_as_of demo_history [2, 3] (fst (ist_day_bounds_for_date ?d)) 2 \<noteq> None"
    by code_simp
  moreover have v: "?v \<in> set (product_variants demo_history)" "pv_id ?v = 2" "pv_available ?v = 10"
    by (simp_all add: demo_history_def demo_market_def)
  ultimately have "\<forall>v\<in>set [?v]. v \<in> set (product_variants demo_history) \<and> pv_id v \<in> set [2, 3]
      \<and> movement_latest_as_of demo_history [2, 3] (fst (ist_day_bounds_for_date ?d)) (pv_id v) \<noteq> None"
    by simp
  then have r: "sr_current (shopify_row demo_history [2, 3] ?d [?v]) = Some (sum_available [?v])"
    using shopify_today_adds_up [OF ok order refl _ refl, of "[?v]" "[2, 3]"] by blast
  have "sr_opening (shopify_row demo_history [2, 3] 739504 [?v]) = Some 12" by code_simp
  with r v show ?thesis by (simp add: d sum_available_def)
qed

end
