(* ===== verification/Orders.thy ===== *)
theory Orders
  imports Marketplace
begin

text \<open>
  Orders: \<open>app/services/order_service.py\<close>, with the confirmation tag and address push of
  \<open>app/services/shopify_fulfillment_service.py\<close> and the address check of
  \<open>app/services/address_validation_service.py\<close> that its operations end with.

  Amounts are \<open>Decimal\<close>s with two places, modelled as rationals. The systems outside the OMS are
  a parameter \<open>gateways\<close>: what a call to them returns. An operation that commits before it
  can still fail returns the committed database together with the exception, if any.
\<close>

section \<open>Tables\<close>

datatype order_status = PENDING | CONFIRMED | PROCESSING | PACKED | SHIPPED | DELIVERED | CANCELLED

datatype fulfillment_status = UNFULFILLED | PARTIAL | FULFILLED

datatype payment_type = COD | PREPAID | OTHER_TYPE

datatype payment_status = PAY_PENDING | AUTHORIZED | PAID | PAY_FAILED | REFUNDED | PARTIALLY_REFUNDED

datatype shipment_status = SHP_PENDING | PICKED_UP | IN_TRANSIT | OUT_FOR_DELIVERY | SHP_DELIVERED
  | NDR | RTO_INITIATED | RTO_DELIVERED | SHP_CANCELLED

datatype sync_status = NOT_APPLICABLE | SYNC_PENDING | SYNCED | SYNC_FAILED

datatype address_status = VALID | AMBIGUOUS | JUNK | UNKNOWN

datatype ndr_status = OPEN | CUSTOMER_CONTACTED | REATTEMPT_SCHEDULED | RESOLVED | NDR_RTO_INITIATED

datatype rto_status = INITIATED | RTO_IN_TRANSIT | RECEIVED | RTO_CANCELLED

type_synonym address = "(string \<times> string) list"

record validation =
  av_status :: address_status
  av_score :: int
  av_reason :: "string option"
  av_ref :: "string option"

record order =
  o_id :: uuid
  o_number :: string
  o_shopify :: "string option"
  o_customer :: "uuid option"
  o_datetime :: instant
  o_currency :: string
  o_subtotal :: rat
  o_discount :: rat
  o_tax :: rat
  o_shipping :: rat
  o_total :: rat
  o_payment_type :: payment_type
  o_payment_status :: payment_status
  o_status :: order_status
  o_fulfillment :: fulfillment_status
  o_notes :: "string option"
  o_shipping_address :: "address option"
  o_billing_address :: "address option"
  o_address_sync :: sync_status
  o_address_sync_error :: "string option"
  o_address_synced_at :: "instant option"
  o_validation :: "validation option"
  o_validated_at :: "instant option"
  o_validation_hash :: "string option"
  o_confirmed_by :: "uuid option"
  o_confirmed_at :: "instant option"
  o_confirmation_fulfillment :: "string option"
  o_source :: string
  o_external :: "string option"
  o_updated_at :: "instant option"
  o_tags :: "string list option"

record order_event =
  ev_id :: uuid
  ev_order :: uuid
  ev_type :: string
  ev_status :: "string option"
  ev_description :: "string option"
  ev_source :: string
  ev_actor :: "uuid option"
  ev_at :: instant

record payment =
  pay_id :: uuid
  pay_order :: uuid
  pay_type :: payment_type
  pay_status :: payment_status
  pay_amount :: rat
  pay_currency :: string
  pay_provider :: "string option"
  pay_transaction :: "string option"
  pay_source :: string
  pay_external :: "string option"
  pay_paid_at :: "instant option"
  pay_created :: instant
  pay_metadata :: "(string \<times> string option) list"

record shipment =
  shp_id :: uuid
  shp_order :: uuid
  shp_shiprocket :: "string option"
  shp_awb :: "string option"
  shp_courier :: "uuid option"
  shp_status :: shipment_status
  shp_ndr :: "ndr_status option"
  shp_rto :: "rto_status option"
  shp_location :: "string option"
  shp_last_update :: "instant option"
  shp_expected :: "instant option"
  shp_fulfillment :: "string option"
  shp_sync :: sync_status
  shp_sync_error :: "string option"
  shp_synced_at :: "instant option"
  shp_source :: string
  shp_external :: "string option"

record customer =
  cu_id :: uuid
  cu_source :: string
  cu_external :: "string option"
  cu_phone :: "string option"

record order_db = market_db +
  orders :: "order list"
  order_events :: "order_event list"
  payments :: "payment list"
  shipments :: "shipment list"
  customers :: "customer list"
  user_names :: "(uuid \<times> string) list"

text \<open>
  What lies outside: whether Shopify accepts tags added to or removed from an order, whether it
  accepts an address, what Shiprocket answers to a cancellation, what the validation provider
  returns (nothing when it raises), the address fingerprint, and the configured age of a stale
  validation.
\<close>

record gateways =
  gw_add_tags :: "string \<Rightarrow> string list \<Rightarrow> bool"
  gw_remove_tags :: "string \<Rightarrow> string list \<Rightarrow> bool"
  gw_push_address :: "string \<Rightarrow> address \<Rightarrow> string option"
  gw_cancel_shipment :: "string \<Rightarrow> oms_error option"
  gw_validate :: "address \<Rightarrow> validation option"
  gw_hash :: "address \<Rightarrow> string"
  gw_stale_after :: int

section \<open>Repositories\<close>

definition order_by :: "'a order_db_scheme \<Rightarrow> uuid \<Rightarrow> order option" where
  "order_by s = row_by o_id (orders s)"

definition order_by_number :: "'a order_db_scheme \<Rightarrow> string \<Rightarrow> order option" where
  "order_by_number s = row_by o_number (orders s)"

text \<open>\<open>get_by_source_external_id\<close>, for any table with the two columns.\<close>

definition by_external ::
  "('r \<Rightarrow> string) \<Rightarrow> ('r \<Rightarrow> string option) \<Rightarrow> 'r list \<Rightarrow> string \<Rightarrow> string \<Rightarrow> 'r option" where
  "by_external source external rows src ext = find (\<lambda>r. source r = src \<and> external r = Some ext) rows"

definition order_update :: "uuid \<Rightarrow> (order \<Rightarrow> order) \<Rightarrow> 'a order_db_scheme \<Rightarrow> 'a order_db_scheme" where
  "order_update oid f s = s\<lparr>orders := set_where (\<lambda>r. o_id r = oid) f (orders s)\<rparr>"

definition shipment_by :: "'a order_db_scheme \<Rightarrow> uuid \<Rightarrow> shipment option" where
  "shipment_by s = row_by shp_id (shipments s)"

definition shipments_for_order :: "'a order_db_scheme \<Rightarrow> uuid \<Rightarrow> shipment list" where
  "shipments_for_order s oid = filter (\<lambda>r. shp_order r = oid) (shipments s)"

definition shipment_update ::
  "uuid \<Rightarrow> (shipment \<Rightarrow> shipment) \<Rightarrow> 'a order_db_scheme \<Rightarrow> 'a order_db_scheme" where
  "shipment_update sid f s = s\<lparr>shipments := set_where (\<lambda>r. shp_id r = sid) f (shipments s)\<rparr>"

definition event_create ::
  "uuid \<Rightarrow> string \<Rightarrow> string option \<Rightarrow> string option \<Rightarrow> string \<Rightarrow> uuid option
   \<Rightarrow> 'a order_db_scheme \<Rightarrow> 'a order_db_scheme" where
  "event_create oid event_type status description source actor s =
     fresh (s\<lparr>order_events := order_events s @
       [\<lparr>ev_id = next_id s, ev_order = oid, ev_type = event_type, ev_status = status,
         ev_description = description, ev_source = source, ev_actor = actor, ev_at = clock s\<rparr>]\<rparr>)"

section \<open>Status values and the transition table\<close>

fun order_status_value :: "order_status \<Rightarrow> string" where
  "order_status_value PENDING = ''pending''"
| "order_status_value CONFIRMED = ''confirmed''"
| "order_status_value PROCESSING = ''processing''"
| "order_status_value PACKED = ''packed''"
| "order_status_value SHIPPED = ''shipped''"
| "order_status_value DELIVERED = ''delivered''"
| "order_status_value CANCELLED = ''cancelled''"

fun order_transitions :: "order_status \<Rightarrow> order_status list" where
  "order_transitions PENDING = [CONFIRMED, CANCELLED]"
| "order_transitions CONFIRMED = [PROCESSING, CANCELLED, PENDING]"
| "order_transitions PROCESSING = [PACKED, CANCELLED]"
| "order_transitions PACKED = [SHIPPED, CANCELLED]"
| "order_transitions SHIPPED = [DELIVERED]"
| "order_transitions DELIVERED = []"
| "order_transitions CANCELLED = []"

fun progress_block_message :: "shipment_status \<Rightarrow> string option" where
  "progress_block_message PICKED_UP = Some ''Cannot revert this order because the shipment has already been picked up.''"
| "progress_block_message IN_TRANSIT = Some ''Cannot revert this order because the shipment is already in transit.''"
| "progress_block_message OUT_FOR_DELIVERY = Some ''Cannot revert this order because the shipment is already out for delivery.''"
| "progress_block_message SHP_DELIVERED = Some ''Cannot revert this order because the shipment has already been delivered.''"
| "progress_block_message NDR = Some ''Cannot revert this order because the shipment has an active delivery exception (NDR).''"
| "progress_block_message RTO_INITIATED = Some ''Cannot revert this order because the shipment is already in an RTO (return) flow.''"
| "progress_block_message RTO_DELIVERED = Some ''Cannot revert this order because the shipment is already in an RTO (return) flow.''"
| "progress_block_message _ = None"

section \<open>Pushes to Shopify and the address check\<close>

text \<open>\<open>" ".join(name.replace(",", " ").split())\<close>.\<close>

fun split_words :: "string \<Rightarrow> string \<Rightarrow> string list" where
  "split_words word [] = (if word = [] then [] else [word])"
| "split_words word (c # cs) =
     (if is_space c then (if word = [] then split_words [] cs else word # split_words [] cs)
      else split_words (word @ [c]) cs)"

fun join_words :: "string list \<Rightarrow> string" where
  "join_words [] = []"
| "join_words [w] = w"
| "join_words (w # ws) = w @ '' '' @ join_words ws"

definition telecaller_confirmation_tag :: "string \<Rightarrow> string" where
  "telecaller_confirmation_tag name =
     take 255 (join_words (split_words [] (map (\<lambda>c. if c = CHR '','' then CHR '' '' else c) name))
       @ '' confirmed by OMS'')"

definition confirmation_tags :: "string option \<Rightarrow> string list" where
  "confirmation_tags name = ''OMS Confirmed'' #
     (case name of None \<Rightarrow> [] | Some n \<Rightarrow> if strip n = [] then [] else [telecaller_confirmation_tag n])"

definition confirming_telecaller_name :: "'a order_db_scheme \<Rightarrow> order \<Rightarrow> string option" where
  "confirming_telecaller_name s ord = Option.bind (o_confirmed_by ord) (map_of (user_names s))"

text \<open>\<open>not order.shopify_order_id\<close>: null or empty.\<close>

definition shopify_id :: "order \<Rightarrow> string option" where
  "shopify_id ord = (case o_shopify ord of None \<Rightarrow> None | Some i \<Rightarrow> if i = [] then None else Some i)"

text \<open>
  \<open>sync_confirmation_tag\<close> and \<open>reverse_confirmation_tag\<close>: best effort; a failure is logged only.
\<close>

definition push_tag ::
  "(string \<Rightarrow> string list \<Rightarrow> bool) \<Rightarrow> string \<Rightarrow> uuid \<Rightarrow> uuid option \<Rightarrow> 'a order_db_scheme \<Rightarrow> 'a order_db_scheme" where
  "push_tag accepts action oid actor s =
     (case order_by s oid of
        None \<Rightarrow> s
      | Some ord \<Rightarrow> (case shopify_id ord of
          None \<Rightarrow> s
        | Some i \<Rightarrow>
            let tags = confirmation_tags (confirming_telecaller_name s ord)
            in if accepts i tags
               then audit_record actor action ''order'' oid [] [(''tags'', JList (map JStr tags))] [] s
               else s))"

definition sync_confirmation_tag ::
  "gateways \<Rightarrow> uuid \<Rightarrow> uuid option \<Rightarrow> 'a order_db_scheme \<Rightarrow> 'a order_db_scheme" where
  "sync_confirmation_tag g = push_tag (gw_add_tags g) ''order.shopify_confirmation_tag_synced''"

definition reverse_confirmation_tag ::
  "gateways \<Rightarrow> uuid \<Rightarrow> uuid option \<Rightarrow> 'a order_db_scheme \<Rightarrow> 'a order_db_scheme" where
  "reverse_confirmation_tag g = push_tag (gw_remove_tags g) ''order.shopify_confirmation_tag_removed''"

text \<open>\<open>sync_shipping_address\<close>: the outcome is written on the order, nothing is raised.\<close>

definition sync_shipping_address ::
  "gateways \<Rightarrow> uuid \<Rightarrow> uuid option \<Rightarrow> 'a order_db_scheme \<Rightarrow> 'a order_db_scheme result" where
  "sync_shipping_address g oid actor s =
     bindR (require_some (order_by s oid) (NotFoundError ''Order not found.'')) (\<lambda>ord.
     case shopify_id ord of
       None \<Rightarrow> Inr (if o_address_sync ord \<noteq> NOT_APPLICABLE
                    then order_update oid (\<lambda>r. r\<lparr>o_address_sync := NOT_APPLICABLE\<rparr>) s else s)
     | Some i \<Rightarrow> (case o_shipping_address ord of
         None \<Rightarrow> Inr s
       | Some a \<Rightarrow>
          if a = [] then Inr s
          else (case gw_push_address g i a of
             Some message \<Rightarrow>
               Inr (audit_record actor ''order.shopify_shipping_address_sync_failed'' ''order'' oid []
                 [(''error'', JStr (take 2000 message))] []
                 (order_update oid (\<lambda>r. r\<lparr>o_address_sync := SYNC_FAILED,
                    o_address_sync_error := Some (take 2000 message)\<rparr>) s))
           | None \<Rightarrow>
               Inr (audit_record actor ''order.shopify_shipping_address_synced'' ''order'' oid [] [] []
                 (order_update oid (\<lambda>r. r\<lparr>o_address_sync := SYNCED, o_address_sync_error := None,
                    o_address_synced_at := Some (clock s)\<rparr>) s)))))"

definition has_address :: "order \<Rightarrow> bool" where
  "has_address ord \<longleftrightarrow> o_shipping_address ord \<noteq> None \<and> o_shipping_address ord \<noteq> Some []"

definition validation_stale :: "gateways \<Rightarrow> instant \<Rightarrow> order \<Rightarrow> bool" where
  "validation_stale g now ord =
     (case o_validated_at ord of None \<Rightarrow> True | Some t \<Rightarrow> gw_stale_after g < now - t)"

definition hash_address :: "gateways \<Rightarrow> address option \<Rightarrow> string option" where
  "hash_address g a = (case a of None \<Rightarrow> None | Some x \<Rightarrow> if x = [] then None else Some (gw_hash g x))"

definition needs_validation :: "gateways \<Rightarrow> instant \<Rightarrow> order \<Rightarrow> bool" where
  "needs_validation g now ord \<longleftrightarrow>
     has_address ord \<and> (o_validation ord = None
       \<or> hash_address g (o_shipping_address ord) \<noteq> o_validation_hash ord \<or> validation_stale g now ord)"

definition provider_failure :: validation where
  "provider_failure = \<lparr>av_status = UNKNOWN, av_score = 0,
     av_reason = Some ''Address validation provider raised an unexpected error.'', av_ref = None\<rparr>"

definition validate_order :: "gateways \<Rightarrow> bool \<Rightarrow> uuid \<Rightarrow> 'a order_db_scheme \<Rightarrow> 'a order_db_scheme" where
  "validate_order g force oid s =
     (case order_by s oid of
        None \<Rightarrow> s
      | Some ord \<Rightarrow>
         if \<not> has_address ord \<and> o_validation ord \<noteq> None
         then order_update oid (\<lambda>r. r\<lparr>o_validation := None, o_validated_at := None, o_validation_hash := None\<rparr>) s
         else if \<not> has_address ord then s
         else if \<not> force \<and> \<not> needs_validation g (clock s) ord then s
         else
           let result = (case gw_validate g (the (o_shipping_address ord)) of Some v \<Rightarrow> v | None \<Rightarrow> provider_failure)
           in order_update oid (\<lambda>r. r\<lparr>o_validation := Some result, o_validated_at := Some (clock s),
                o_validation_hash := hash_address g (o_shipping_address r)\<rparr>) s)"

section \<open>Creating and moving orders\<close>

record new_item =
  ni_variant :: "uuid option"
  ni_sku :: string
  ni_name :: string
  ni_quantity :: int
  ni_price :: rat
  ni_discount :: rat
  ni_tax :: rat

definition get_order :: "uuid \<Rightarrow> 'a order_db_scheme \<Rightarrow> order result" where
  "get_order oid s = require_some (order_by s oid) (NotFoundError ''Order not found.'')"

definition item_create :: "uuid \<Rightarrow> new_item \<Rightarrow> 'a order_db_scheme \<Rightarrow> 'a order_db_scheme" where
  "item_create oid item s =
     (let item_total = ni_price item * of_int (ni_quantity item) - ni_discount item + ni_tax item
      in fresh (s\<lparr>order_items := order_items s @
           [\<lparr>oi_id = next_id s, oi_order = oid, oi_variant = ni_variant item, oi_sku = ni_sku item,
             oi_product_name = ni_name item, oi_quantity = ni_quantity item, oi_unit_price = ni_price item,
             oi_discount = ni_discount item, oi_tax = ni_tax item, oi_total = item_total,
             oi_source = [], oi_external = None\<rparr>]\<rparr>))"

definition payment_create ::
  "uuid \<Rightarrow> payment_type \<Rightarrow> payment_status \<Rightarrow> rat \<Rightarrow> string \<Rightarrow> 'a order_db_scheme \<Rightarrow> 'a order_db_scheme" where
  "payment_create oid t status amount currency s =
     fresh (s\<lparr>payments := payments s @
       [\<lparr>pay_id = next_id s, pay_order = oid, pay_type = t, pay_status = status, pay_amount = amount,
         pay_currency = currency, pay_provider = None, pay_transaction = None,
         pay_source = ''manual'', pay_external = None, pay_paid_at = None, pay_created = clock s,
         pay_metadata = []\<rparr>]\<rparr>)"

definition subtotal_of :: "new_item list \<Rightarrow> rat" where
  "subtotal_of items = sum_list (map (\<lambda>i. ni_price i * of_int (ni_quantity i)) items)"

definition total_of :: "new_item list \<Rightarrow> rat \<Rightarrow> rat" where
  "total_of items shipping_charge =
     subtotal_of items - sum_list (map ni_discount items) + sum_list (map ni_tax items) + shipping_charge"

definition create_order ::
  "uuid option \<Rightarrow> string \<Rightarrow> uuid option \<Rightarrow> instant option \<Rightarrow> string \<Rightarrow> payment_type \<Rightarrow> rat
   \<Rightarrow> string option \<Rightarrow> new_item list \<Rightarrow> 'a order_db_scheme \<Rightarrow> (order \<times> 'a order_db_scheme) result" where
  "create_order actor order_number customer_id order_datetime currency ptype shipping_charge notes items s =
     bindR (require (order_by_number s order_number = None) (ConflictError ''Order number already exists.'')) (\<lambda>_.
     let oid = next_id s;
         ord = \<lparr>o_id = oid, o_number = order_number, o_shopify = None, o_customer = customer_id,
           o_datetime = (case order_datetime of Some t \<Rightarrow> t | None \<Rightarrow> clock s), o_currency = currency,
           o_subtotal = subtotal_of items, o_discount = sum_list (map ni_discount items),
           o_tax = sum_list (map ni_tax items), o_shipping = shipping_charge,
           o_total = total_of items shipping_charge, o_payment_type = ptype,
           o_payment_status = PAY_PENDING, o_status = PENDING, o_fulfillment = UNFULFILLED, o_notes = notes,
           o_shipping_address = None, o_billing_address = None, o_address_sync = NOT_APPLICABLE,
           o_address_sync_error = None, o_address_synced_at = None, o_validation = None,
           o_validated_at = None, o_validation_hash = None, o_confirmed_by = None, o_confirmed_at = None,
           o_confirmation_fulfillment = None, o_source = ''manual'', o_external = None, o_updated_at = None, o_tags = None\<rparr>;
         s1 = fresh (s\<lparr>orders := orders s @ [ord]\<rparr>);
         s2 = foldl (\<lambda>t item. item_create oid item t) s1 items;
         s3 = payment_create oid ptype PAY_PENDING (total_of items shipping_charge) currency s2;
         s4 = event_create oid ''order_created'' (Some (order_status_value PENDING)) (Some ''Order created.'')
                ''system'' actor s3
     in Inr (ord, audit_record actor ''order.created'' ''order'' oid []
          [(''order_number'', JStr order_number), (''total_amount'', JNum (total_of items shipping_charge))] [] s4))"

definition transition_status ::
  "uuid \<Rightarrow> order_status \<Rightarrow> uuid option \<Rightarrow> string option \<Rightarrow> 'a order_db_scheme \<Rightarrow> 'a order_db_scheme result" where
  "transition_status oid new_status actor description s =
     bindR (get_order oid s) (\<lambda>ord.
     bindR (require (new_status \<in> set (order_transitions (o_status ord)))
              (ConflictError ''Cannot transition order.'')) (\<lambda>_.
     let s1 = order_update oid (\<lambda>r. r\<lparr>o_status := new_status\<rparr>) s;
         s2 = event_create oid ''status_changed'' (Some (order_status_value new_status))
                (Some (or_text description (''Status changed to '' @ order_status_value new_status @ ''.'')))
                ''system'' actor s1
     in Inr (audit_record actor ''order.status_changed'' ''order'' oid
          [(''status'', JStr (order_status_value (o_status ord)))]
          [(''status'', JStr (order_status_value new_status))] [] s2)))"

definition confirm_order ::
  "gateways \<Rightarrow> uuid \<Rightarrow> uuid \<Rightarrow> 'a order_db_scheme \<Rightarrow> 'a order_db_scheme result" where
  "confirm_order g oid actor s =
     bindR (transition_status oid CONFIRMED (Some actor) (Some ''Confirmed by telecaller.'') s) (\<lambda>s1.
     let s2 = order_update oid (\<lambda>r. r\<lparr>o_confirmed_by := Some actor, o_confirmed_at := Some (clock s)\<rparr>) s1
     in Inr (sync_confirmation_tag g oid (Some actor) s2))"

section \<open>Reverting a confirmation\<close>

text \<open>
  \<open>unconfirm_order\<close> commits once per cancelled shipment before it can still fail, so it returns
  the committed database and the exception, if any.
\<close>

type_synonym 's committed = "'s \<times> oms_error option"

text \<open>The two checks made for every shipment before anything is cancelled.\<close>

fun revert_blocked :: "shipment list \<Rightarrow> oms_error option" where
  "revert_blocked [] = None"
| "revert_blocked (sh # rest) =
     (case progress_block_message (shp_status sh) of
        Some message \<Rightarrow> Some (ConflictError message)
      | None \<Rightarrow>
          if shp_sync sh = SYNCED
          then Some (ConflictError ''Cannot revert this order because a Shopify fulfillment has already been created for its shipment and cannot be safely cancelled.'')
          else revert_blocked rest)"

text \<open>\<open>ShiprocketOperationsService.cancel_shipment\<close>.\<close>

definition cancel_shipment ::
  "gateways \<Rightarrow> uuid \<Rightarrow> uuid option \<Rightarrow> 'a order_db_scheme \<Rightarrow> 'a order_db_scheme result" where
  "cancel_shipment g sid actor s =
     bindR (require_some (shipment_by s sid) (NotFoundError ''Shipment not found.'')) (\<lambda>sh.
     (case shp_shiprocket sh of
        None \<Rightarrow> Inl (ConflictError ''Shipment has no Shiprocket shipment id'')
      | Some ext \<Rightarrow>
         if ext = [] then Inl (ConflictError ''Shipment has no Shiprocket shipment id'')
         else (case gw_cancel_shipment g ext of
           Some e \<Rightarrow> Inl e
         | None \<Rightarrow>
             Inr (audit_record actor ''shipment.cancelled_via_shiprocket'' ''shipment'' sid [] [] []
               (shipment_update sid (\<lambda>r. r\<lparr>shp_status := SHP_CANCELLED\<rparr>) s)))))"

definition cancel_failure :: "oms_error \<Rightarrow> oms_error" where
  "cancel_failure e = (case e of
     IntegrationError _ \<Rightarrow> ConflictError ''Shiprocket cancellation failed. The order was not reverted.''
   | _ \<Rightarrow> e)"

fun cancel_pending ::
  "gateways \<Rightarrow> uuid option \<Rightarrow> shipment list \<Rightarrow> 'a order_db_scheme \<Rightarrow> 'a order_db_scheme committed" where
  "cancel_pending g actor [] s = (s, None)"
| "cancel_pending g actor (sh # rest) s =
     (if shp_status sh \<noteq> SHP_PENDING then cancel_pending g actor rest s
      else if shp_shiprocket sh \<noteq> None \<and> shp_shiprocket sh \<noteq> Some [] then
        (case cancel_shipment g (shp_id sh) actor s of
           Inl e \<Rightarrow> (s, Some (cancel_failure e))
         | Inr s' \<Rightarrow> cancel_pending g actor rest s')
      else cancel_pending g actor rest
        (audit_record actor ''shipment.cancelled_for_unconfirm'' ''shipment'' (shp_id sh) [] [] []
          (shipment_update (shp_id sh) (\<lambda>r. r\<lparr>shp_status := SHP_CANCELLED\<rparr>) s)))"

definition unconfirm_order ::
  "gateways \<Rightarrow> uuid \<Rightarrow> uuid option \<Rightarrow> 'a order_db_scheme \<Rightarrow> 'a order_db_scheme committed" where
  "unconfirm_order g oid actor s =
     (case get_order oid s of
        Inl e \<Rightarrow> (s, Some e)
      | Inr ord \<Rightarrow>
         if o_fulfillment ord = FULFILLED
            \<and> (o_confirmation_fulfillment ord = None \<or> o_confirmation_fulfillment ord = Some [])
         then (s, Some (ConflictError ''Cannot revert this order because Shopify already shows it as fulfilled.''))
         else (case revert_blocked (shipments_for_order s oid) of
           Some e \<Rightarrow> (s, Some e)
         | None \<Rightarrow>
             (case cancel_pending g actor (shipments_for_order s oid) (reverse_confirmation_tag g oid actor s) of
                (s2, Some e) \<Rightarrow> (s2, Some e)
              | (s2, None) \<Rightarrow>
                  (case transition_status oid PENDING actor (Some ''Reverted to pending (unconfirmed).'') s2 of
                     Inl e \<Rightarrow> (s2, Some e)
                   | Inr s3 \<Rightarrow>
                       (order_update oid (\<lambda>r. r\<lparr>o_confirmed_by := None, o_confirmed_at := None\<rparr>) s3, None)))))"

section \<open>Corrections by a telecaller\<close>

definition jaddress :: "address option \<Rightarrow> jval" where
  "jaddress a = (case a of None \<Rightarrow> JNull | Some x \<Rightarrow> JList (map (\<lambda>(k, v). JList [JStr k, JStr v]) x))"

definition update_shipping_address ::
  "gateways \<Rightarrow> uuid \<Rightarrow> uuid \<Rightarrow> address \<Rightarrow> 'a order_db_scheme \<Rightarrow> 'a order_db_scheme result" where
  "update_shipping_address g oid actor address s =
     bindR (get_order oid s) (\<lambda>ord.
     let s1 = order_update oid (\<lambda>r. r\<lparr>o_shipping_address := Some address\<rparr>) s;
         s2 = event_create oid ''address_updated'' None (Some ''Shipping address updated.'') ''user'' (Some actor) s1;
         s3 = audit_record (Some actor) ''order.shipping_address_updated'' ''order'' oid
                [(''shipping_address'', jaddress (o_shipping_address ord))]
                [(''shipping_address'', jaddress (Some address))] [] s2
     in sync_shipping_address g oid (Some actor) (validate_order g False oid s3))"

definition item_by :: "'a stock_db_scheme \<Rightarrow> uuid \<Rightarrow> order_item option" where
  "item_by s = row_by oi_id (order_items s)"

definition item_update :: "uuid \<Rightarrow> (order_item \<Rightarrow> order_item) \<Rightarrow> 'a stock_db_scheme \<Rightarrow> 'a stock_db_scheme" where
  "item_update iid f s = s\<lparr>order_items := set_where (\<lambda>r. oi_id r = iid) f (order_items s)\<rparr>"

definition update_item_variant ::
  "uuid \<Rightarrow> uuid \<Rightarrow> uuid \<Rightarrow> uuid \<Rightarrow> 'a order_db_scheme \<Rightarrow> 'a order_db_scheme result" where
  "update_item_variant oid iid actor new_variant_id s =
     bindR (require_some (item_by s iid) (NotFoundError ''Order item not found.'')) (\<lambda>item.
     bindR (require (oi_order item = oid) (NotFoundError ''Order item not found.'')) (\<lambda>_.
     bindR (require_some (variant_by s new_variant_id) (NotFoundError ''Product variant not found.'')) (\<lambda>new_variant.
     let current_variant = Option.bind (oi_variant item) (variant_by s)
     in bindR (require (case current_variant of None \<Rightarrow> True | Some v \<Rightarrow> pv_product v = pv_product new_variant)
                (ConflictError ''The new variant must belong to the same product.'')) (\<lambda>_.
        let previous = [(''product_variant_id'', case oi_variant item of Some v \<Rightarrow> JId v | None \<Rightarrow> JNull),
                        (''sku'', JStr (oi_sku item)),
                        (''variant_title'', case current_variant of Some v \<Rightarrow> jtext (pv_title v) | None \<Rightarrow> JNull)];
            new = [(''product_variant_id'', JId (pv_id new_variant)), (''sku'', JStr (pv_sku new_variant)),
                   (''variant_title'', jtext (pv_title new_variant))];
            description = ''Flavour/variant changed from ''
              @ or_text (Option.bind current_variant pv_title) (oi_sku item) @ '' to ''
              @ or_text (pv_title new_variant) (pv_sku new_variant) @ ''.'';
            s1 = item_update iid (\<lambda>r. r\<lparr>oi_variant := Some (pv_id new_variant), oi_sku := pv_sku new_variant\<rparr>) s;
            s2 = event_create oid ''item_variant_updated'' None (Some description) ''user'' (Some actor) s1
        in Inr (audit_record (Some actor) ''order.item_variant_updated'' ''order'' oid previous new [] s2)))))"

definition add_event ::
  "uuid \<Rightarrow> uuid option \<Rightarrow> string \<Rightarrow> string option \<Rightarrow> string option \<Rightarrow> 'a order_db_scheme
   \<Rightarrow> 'a order_db_scheme result" where
  "add_event oid actor event_type status description s =
     bindR (get_order oid s) (\<lambda>_.
     Inr (event_create oid event_type status description (if actor \<noteq> None then ''user'' else ''system'') actor s))"

section \<open>Synchronised orders\<close>

record synced_item =
  si_external :: string
  si_variant_external :: "string option"
  si_sku :: string
  si_name :: string
  si_quantity :: int
  si_price :: rat
  si_discount :: rat
  si_tax :: rat
  si_total :: rat

record synced_order =
  so_source :: string
  so_external :: string
  so_number :: string
  so_shopify :: "string option"
  so_customer_external :: "string option"
  so_datetime :: instant
  so_currency :: string
  so_subtotal :: rat
  so_discount :: rat
  so_tax :: rat
  so_shipping :: rat
  so_total :: rat
  so_payment_type :: payment_type
  so_payment_status :: payment_status
  so_fulfillment :: fulfillment_status
  so_cancelled :: bool
  so_shipping_address :: "address option"
  so_billing_address :: "address option"
  so_updated_at :: "instant option"
  so_tags :: "string list option"
  so_items :: "synced_item list"

definition find_customer :: "'a order_db_scheme \<Rightarrow> synced_order \<Rightarrow> uuid option" where
  "find_customer s d = (case so_customer_external d of
     None \<Rightarrow> None
   | Some c \<Rightarrow> if c = [] then None
       else map_option cu_id (by_external cu_source cu_external (customers s) (so_source d) c))"

text \<open>The columns \<open>**data\<close> writes on every sync.\<close>

definition apply_synced :: "synced_order \<Rightarrow> order \<Rightarrow> order" where
  "apply_synced d r = r\<lparr>o_number := so_number d, o_shopify := so_shopify d, o_datetime := so_datetime d,
     o_currency := so_currency d, o_subtotal := so_subtotal d, o_discount := so_discount d, o_tax := so_tax d,
     o_shipping := so_shipping d, o_total := so_total d, o_payment_type := so_payment_type d,
     o_payment_status := so_payment_status d, o_fulfillment := so_fulfillment d,
     o_shipping_address := so_shipping_address d, o_billing_address := so_billing_address d,
     o_updated_at := so_updated_at d, o_tags := so_tags d\<rparr>"

definition initial_status :: "synced_order \<Rightarrow> order_status" where
  "initial_status d = (if so_cancelled d then CANCELLED
     else if so_payment_status d = PAID then CONFIRMED else PENDING)"

definition new_synced :: "uuid \<Rightarrow> uuid option \<Rightarrow> synced_order \<Rightarrow> order" where
  "new_synced oid customer_id d = apply_synced d
     \<lparr>o_id = oid, o_number = so_number d, o_shopify = None, o_customer = customer_id, o_datetime = so_datetime d,
      o_currency = so_currency d, o_subtotal = 0, o_discount = 0, o_tax = 0, o_shipping = 0, o_total = 0,
      o_payment_type = so_payment_type d, o_payment_status = so_payment_status d,
      o_status = initial_status d, o_fulfillment = UNFULFILLED, o_notes = None, o_shipping_address = None,
      o_billing_address = None, o_address_sync = NOT_APPLICABLE, o_address_sync_error = None,
      o_address_synced_at = None, o_validation = None, o_validated_at = None, o_validation_hash = None,
      o_confirmed_by = None, o_confirmed_at = None, o_confirmation_fulfillment = None,
      o_source = so_source d, o_external = Some (so_external d), o_updated_at = None, o_tags = None\<rparr>"

text \<open>The variant a line refers to, and the columns a sync writes on its row.\<close>

definition synced_variant :: "string \<Rightarrow> synced_item \<Rightarrow> 'a stock_db_scheme \<Rightarrow> uuid option" where
  "synced_variant source i s = (case si_variant_external i of None \<Rightarrow> None
     | Some x \<Rightarrow> if x = [] then None
         else map_option pv_id (by_external pv_source pv_external (product_variants s) source x))"

definition write_item :: "uuid \<Rightarrow> uuid option \<Rightarrow> synced_item \<Rightarrow> order_item \<Rightarrow> order_item" where
  "write_item oid v i r = r\<lparr>oi_order := oid, oi_variant := v, oi_sku := si_sku i,
     oi_product_name := si_name i, oi_quantity := si_quantity i, oi_unit_price := si_price i,
     oi_discount := si_discount i, oi_tax := si_tax i, oi_total := si_total i\<rparr>"

text \<open>\<open>upsert_by_external_id\<close> of one line: the row with this external id is rewritten, else added.\<close>

definition item_upsert :: "string \<Rightarrow> uuid \<Rightarrow> synced_item \<Rightarrow> 'a order_db_scheme \<Rightarrow> 'a order_db_scheme" where
  "item_upsert source oid i s =
     (case by_external oi_source oi_external (order_items s) source (si_external i) of
        Some r \<Rightarrow> item_update (oi_id r) (write_item oid (synced_variant source i s) i) s
      | None \<Rightarrow> fresh (s\<lparr>order_items := order_items s @
          [write_item oid (synced_variant source i s) i
            \<lparr>oi_id = next_id s, oi_order = oid, oi_variant = None, oi_sku = [], oi_product_name = [],
             oi_quantity = 0, oi_unit_price = 0, oi_discount = 0, oi_tax = 0, oi_total = 0,
             oi_source = source, oi_external = Some (si_external i)\<rparr>]\<rparr>))"

definition write_payment :: "uuid \<Rightarrow> synced_order \<Rightarrow> payment \<Rightarrow> payment" where
  "write_payment oid d r = r\<lparr>pay_order := oid, pay_type := so_payment_type d,
     pay_status := so_payment_status d, pay_amount := so_total d, pay_currency := so_currency d,
     pay_provider := Some ''shopify'', pay_transaction := Some (so_external d)\<rparr>"

definition payment_upsert :: "uuid \<Rightarrow> synced_order \<Rightarrow> 'a order_db_scheme \<Rightarrow> 'a order_db_scheme" where
  "payment_upsert oid d s =
     (case by_external pay_source pay_external (payments s) (so_source d) (so_external d) of
        Some p \<Rightarrow> s\<lparr>payments := set_where (\<lambda>r. pay_id r = pay_id p) (write_payment oid d) (payments s)\<rparr>
      | None \<Rightarrow> fresh (s\<lparr>payments := payments s @
          [write_payment oid d \<lparr>pay_id = next_id s, pay_order = oid, pay_type = so_payment_type d,
             pay_status = so_payment_status d, pay_amount = 0, pay_currency = so_currency d,
             pay_provider = None, pay_transaction = None, pay_source = so_source d,
             pay_external = Some (so_external d), pay_paid_at = None, pay_created = clock s, pay_metadata = []\<rparr>]\<rparr>))"

text \<open>A delivery strictly older than what is stored; a missing timestamp on either side never is.\<close>

definition stale_delivery :: "synced_order \<Rightarrow> order \<Rightarrow> bool" where
  "stale_delivery d ord = (case (so_updated_at d, o_updated_at ord) of
     (Some new, Some old) \<Rightarrow> new < old | _ \<Rightarrow> False)"

definition sync_existing :: "uuid option \<Rightarrow> synced_order \<Rightarrow> order \<Rightarrow> order" where
  "sync_existing customer_id d r =
     (let r1 = (apply_synced d r)\<lparr>o_customer := (if customer_id = None then o_customer r else customer_id)\<rparr>
      in if so_cancelled d \<and> o_status r1 \<noteq> CANCELLED \<and> CANCELLED \<in> set (order_transitions (o_status r1))
         then r1\<lparr>o_status := CANCELLED\<rparr> else r1)"

text \<open>The rows a sync writes besides the order itself.\<close>

definition sync_rest :: "gateways \<Rightarrow> synced_order \<Rightarrow> uuid \<Rightarrow> bool \<Rightarrow> 'a order_db_scheme \<Rightarrow> 'a order_db_scheme" where
  "sync_rest g d oid created s =
     (let s1 = foldl (\<lambda>t i. item_upsert (so_source d) oid i t) s (so_items d);
          s2 = payment_upsert oid d s1;
          status = map_option (\<lambda>r. order_status_value (o_status r)) (order_by s2 oid);
          s3 = event_create oid (if created then ''order_created'' else ''order_synced'') status
                 (Some (if created then ''Order created from Shopify sync.'' else ''Order re-synced from Shopify.''))
                 ''shopify'' None s2;
          s4 = audit_record None (if created then ''order.created'' else ''order.synced'') ''order'' oid []
                 [(''order_number'', JStr (so_number d)), (''total_amount'', JNum (so_total d))]
                 [(''source_system'', JStr (so_source d)), (''external_id'', JStr (so_external d))] s3
      in validate_order g False oid s4)"

text \<open>The unique columns the row of an order shares with another order's: the database refuses it.\<close>

definition synced_conflict :: "uuid \<Rightarrow> synced_order \<Rightarrow> 'a order_db_scheme \<Rightarrow> bool" where
  "synced_conflict oid d s \<longleftrightarrow> (\<exists>r\<in>set (orders s). o_id r \<noteq> oid
     \<and> (o_number r = so_number d \<or> (so_shopify d \<noteq> None \<and> o_shopify r = so_shopify d)))"

definition upsert_synced_order ::
  "gateways \<Rightarrow> synced_order \<Rightarrow> 'a order_db_scheme \<Rightarrow> ((uuid \<times> bool) \<times> 'a order_db_scheme) result" where
  "upsert_synced_order g d s =
     (let customer_id = find_customer s d
      in case by_external o_source o_external (orders s) (so_source d) (so_external d) of
        Some existing \<Rightarrow>
          if stale_delivery d existing then Inr ((o_id existing, False), s)
          else bindR (require (\<not> synced_conflict (o_id existing) d s) (IntegrityError ''orders'')) (\<lambda>_.
            Inr ((o_id existing, False),
              sync_rest g d (o_id existing) False (order_update (o_id existing) (sync_existing customer_id d) s)))
      | None \<Rightarrow>
          let oid = next_id s
          in bindR (require (\<not> synced_conflict oid d s) (IntegrityError ''orders'')) (\<lambda>_.
            Inr ((oid, True),
              sync_rest g d oid True (fresh (s\<lparr>orders := orders s @ [new_synced oid customer_id d]\<rparr>)))))"

end
