(* ===== verification/Orders_Facts.thy ===== *)
theory Orders_Facts
  imports Orders
begin

text \<open>
  Lemmas on the order operations: which columns and tables each leaves alone, the moves of an
  order's status along the transition table as an instance of the interface of a status machine,
  and the functional behaviour of the operations the properties are about.
\<close>

section \<open>Tables an operation leaves alone\<close>

lemma order_db_frame [simp]:
  "orders (fresh s) = orders s" "order_events (fresh s) = order_events s"
  "payments (fresh s) = payments s" "shipments (fresh s) = shipments s"
  "customers (fresh s) = customers s" "user_names (fresh s) = user_names s"
  "orders (audit_record u a t e p n m s) = orders s"
  "order_events (audit_record u a t e p n m s) = order_events s"
  "payments (audit_record u a t e p n m s) = payments s"
  "shipments (audit_record u a t e p n m s) = shipments s"
  "customers (audit_record u a t e p n m s) = customers s"
  "user_names (audit_record u a t e p n m s) = user_names s"
  by (simp_all add: fresh_def audit_record_def)

lemma stock_tables_frame [simp]:
  "order_items (fresh s) = order_items s" "product_variants (fresh s) = product_variants s"
  "order_items (audit_record u a t e p n m s) = order_items s"
  "product_variants (audit_record u a t e p n m s) = product_variants s"
  by (simp_all add: fresh_def audit_record_def)

lemma order_update_frame [simp]:
  "orders (order_update i f s) = set_where (\<lambda>r. o_id r = i) f (orders s)"
  "order_events (order_update i f s) = order_events s" "payments (order_update i f s) = payments s"
  "shipments (order_update i f s) = shipments s" "customers (order_update i f s) = customers s"
  "user_names (order_update i f s) = user_names s" "order_items (order_update i f s) = order_items s"
  "product_variants (order_update i f s) = product_variants s"
  "clock (order_update i f s) = clock s" "next_id (order_update i f s) = next_id s"
  "audit_log (order_update i f s) = audit_log s"
  by (simp_all add: order_update_def)

lemma shipment_update_frame [simp]:
  "shipments (shipment_update i f s) = set_where (\<lambda>r. shp_id r = i) f (shipments s)"
  "orders (shipment_update i f s) = orders s"
  "order_events (shipment_update i f s) = order_events s" "payments (shipment_update i f s) = payments s"
  "customers (shipment_update i f s) = customers s"
  "user_names (shipment_update i f s) = user_names s" "order_items (shipment_update i f s) = order_items s"
  "product_variants (shipment_update i f s) = product_variants s"
  "clock (shipment_update i f s) = clock s" "next_id (shipment_update i f s) = next_id s"
  by (simp_all add: shipment_update_def)

lemma event_create_frame [simp]:
  "orders (event_create i t st d src a s) = orders s" "payments (event_create i t st d src a s) = payments s"
  "shipments (event_create i t st d src a s) = shipments s"
  "customers (event_create i t st d src a s) = customers s"
  "user_names (event_create i t st d src a s) = user_names s"
  "order_items (event_create i t st d src a s) = order_items s"
  "product_variants (event_create i t st d src a s) = product_variants s"
  "clock (event_create i t st d src a s) = clock s"
  "next_id (event_create i t st d src a s) = Suc (next_id s)"
  "audit_log (event_create i t st d src a s) = audit_log s"
  "order_events (event_create i t st d src a s) = order_events s @
     [\<lparr>ev_id = next_id s, ev_order = i, ev_type = t, ev_status = st, ev_description = d, ev_source = src,
       ev_actor = a, ev_at = clock s\<rparr>]"
  by (simp_all add: event_create_def fresh_def)

lemma item_update_frame [simp]:
  "order_items (item_update i f s) = set_where (\<lambda>r. oi_id r = i) f (order_items s)"
  "orders (item_update i f s) = orders s" "payments (item_update i f s) = payments s"
  "order_events (item_update i f s) = order_events s"
  "shipments (item_update i f s) = shipments s" "customers (item_update i f s) = customers s"
  "user_names (item_update i f s) = user_names s" "product_variants (item_update i f s) = product_variants s"
  "clock (item_update i f s) = clock s" "next_id (item_update i f s) = next_id s"
  by (simp_all add: item_update_def)

text \<open>A lookup by id depends on the orders table only.\<close>

lemma order_by_cong: "orders s' = orders s \<Longrightarrow> order_by s' = order_by s"
  by (simp add: order_by_def fun_eq_iff)

lemma order_by_frame [simp]:
  "order_by (fresh s) = order_by s"
  "order_by (audit_record u a t e p n m s) = order_by s"
  "order_by (event_create i ty st d src ac s) = order_by s"
  "order_by (shipment_update i g s) = order_by s"
  "order_by (item_update i h s) = order_by s"
  by (simp_all cong: order_by_cong add: order_by_def fun_eq_iff)

lemma order_by_update:
  "(\<And>r. o_id (f r) = o_id r) \<Longrightarrow>
   order_by (order_update i f s) j = (if j = i then map_option f (order_by s i) else order_by s j)"
  by (simp add: order_by_def row_by_set_where)

lemma order_by_id [dest]: "order_by s i = Some ord \<Longrightarrow> o_id ord = i"
  by (auto simp: order_by_def)

lemma get_order_Inr [simp]: "get_order i s = Inr ord \<longleftrightarrow> order_by s i = Some ord"
  by (simp add: get_order_def)

lemma get_order_Inl [simp]:
  "get_order i s = Inl e \<longleftrightarrow> order_by s i = None \<and> e = NotFoundError ''Order not found.''"
  by (auto simp: get_order_def)

lemma shipment_by_frame [simp]:
  "shipment_by (fresh s) = shipment_by s"
  "shipment_by (audit_record u a t e p n m s) = shipment_by s"
  "shipment_by (event_create i ty st d src ac s) = shipment_by s"
  "shipment_by (order_update i f s) = shipment_by s"
  by (simp_all add: shipment_by_def fun_eq_iff)

lemma shipment_by_update:
  "(\<And>r. shp_id (f r) = shp_id r) \<Longrightarrow>
   shipment_by (shipment_update i f s) j = (if j = i then map_option f (shipment_by s i) else shipment_by s j)"
  by (simp add: shipment_by_def row_by_set_where)

lemma shipments_for_order_frame [simp]:
  "shipments_for_order (order_update i f s) = shipments_for_order s"
  "shipments_for_order (audit_record u a t e p n m s) = shipments_for_order s"
  "shipments_for_order (event_create i ty st d src ac s) = shipments_for_order s"
  by (simp_all add: shipments_for_order_def fun_eq_iff)

text \<open>The tag pushes write an audit row at most.\<close>

lemma push_tag_frame [simp]:
  "orders (push_tag acc act oid u s) = orders s" "order_by (push_tag acc act oid u s) = order_by s"
  "shipments (push_tag acc act oid u s) = shipments s"
  "payments (push_tag acc act oid u s) = payments s"
  "order_items (push_tag acc act oid u s) = order_items s"
  "order_events (push_tag acc act oid u s) = order_events s"
  "clock (push_tag acc act oid u s) = clock s"
  by (simp_all add: push_tag_def Let_def split: option.splits)

lemma tag_frame [simp]:
  "orders (sync_confirmation_tag g oid u s) = orders s" "order_by (sync_confirmation_tag g oid u s) = order_by s"
  "shipments (sync_confirmation_tag g oid u s) = shipments s"
  "orders (reverse_confirmation_tag g oid u s) = orders s"
  "order_by (reverse_confirmation_tag g oid u s) = order_by s"
  "shipments (reverse_confirmation_tag g oid u s) = shipments s"
  "clock (reverse_confirmation_tag g oid u s) = clock s"
  by (simp_all add: sync_confirmation_tag_def reverse_confirmation_tag_def)

section \<open>What the address check and the address push write\<close>

text \<open>An order without the columns of the last validation, or of the last address push.\<close>

definition unvalidated :: "order \<Rightarrow> order" where
  "unvalidated r = r\<lparr>o_validation := None, o_validated_at := None, o_validation_hash := None\<rparr>"

definition unpushed :: "order \<Rightarrow> order" where
  "unpushed r = r\<lparr>o_address_sync := NOT_APPLICABLE, o_address_sync_error := None, o_address_synced_at := None\<rparr>"

lemma set_where_proj:
  "(\<And>r. h (f r) = h r) \<Longrightarrow> map h (set_where p f rows) = map h rows"
  by (simp add: set_where_def)

lemma order_by_proj:
  assumes "map h (orders s') = map h (orders s)" and "\<And>r. o_id (h r) = o_id r"
  shows "map_option h (order_by s' k) = map_option h (order_by s k)"
proof -
  have "map_option h (row_by o_id rows k) = row_by o_id (map h rows) k" for rows
    by (induction rows) (simp_all add: assms(2))
  then show ?thesis using assms(1) by (simp add: order_by_def)
qed

lemma validate_order_orders: "map unvalidated (orders (validate_order g f oid s)) = map unvalidated (orders s)"
  by (auto simp: validate_order_def Let_def unvalidated_def set_where_proj split: option.splits)

lemma validate_order_frame [simp]:
  "order_events (validate_order g f oid s) = order_events s"
  "payments (validate_order g f oid s) = payments s" "shipments (validate_order g f oid s) = shipments s"
  "customers (validate_order g f oid s) = customers s"
  "order_items (validate_order g f oid s) = order_items s"
  "product_variants (validate_order g f oid s) = product_variants s"
  "clock (validate_order g f oid s) = clock s" "next_id (validate_order g f oid s) = next_id s"
  by (simp_all add: validate_order_def Let_def split: option.splits)

lemma sync_address_orders:
  assumes "sync_shipping_address g oid u s = Inr s'"
  shows "map unpushed (orders s') = map unpushed (orders s)"
proof -
  obtain ord where ord: "order_by s oid = Some ord"
    using assms by (auto simp: sync_shipping_address_def bindR_Inr_iff)
  have upd: "map unpushed (set_where p f rows) = map unpushed rows"
    if "\<And>r. unpushed (f r) = unpushed r" for p f rows using that by (rule set_where_proj)
  consider "shopify_id ord = None"
    | i where "shopify_id ord = Some i" "o_shipping_address ord = None \<or> o_shipping_address ord = Some []"
    | i a where "shopify_id ord = Some i" "o_shipping_address ord = Some a" "a \<noteq> []"
    by (metis option.exhaust)
  then show ?thesis
  proof cases
    case 1
    with assms ord show ?thesis
      by (auto simp: sync_shipping_address_def unpushed_def intro!: upd split: if_split_asm)
  next
    case 2
    with assms ord show ?thesis by (auto simp: sync_shipping_address_def)
  next
    case (3 i a)
    with assms ord show ?thesis
      by (cases "gw_push_address g i a") (auto simp: sync_shipping_address_def unpushed_def intro!: upd)
  qed
qed

lemma sync_address_total:
  "order_by s oid = Some ord \<Longrightarrow> \<exists>s'. sync_shipping_address g oid u s = Inr s'"
  by (auto simp: sync_shipping_address_def split: option.splits)

section \<open>The status of an order as a state machine\<close>

text \<open>
  A table of rows with a status, operations on it, and a transition table. The law asked of the
  operations: each keeps every row and moves its status along the table once at most.
\<close>

locale status_machine =
  fixes status :: "'s \<Rightarrow> uuid \<Rightarrow> 'st option"
    and allowed :: "'st \<Rightarrow> 'st list"
    and step :: "'s \<Rightarrow> 's \<Rightarrow> bool"
  assumes moves: "step s s' \<Longrightarrow> status s k = Some a \<Longrightarrow>
      \<exists>b. status s' k = Some b \<and> (b = a \<or> b \<in> set (allowed a))"
begin

definition reach :: "'st \<Rightarrow> 'st \<Rightarrow> bool" where
  "reach = (\<lambda>a b. b \<in> set (allowed a))\<^sup>*\<^sup>*"

lemma runs_along:
  assumes "step\<^sup>*\<^sup>* s s'" and "status s k = Some a"
  shows "\<exists>b. status s' k = Some b \<and> reach a b"
  using assms
proof (induction rule: rtranclp_induct)
  case base
  then show ?case by (simp add: reach_def)
next
  case (step t u)
  then obtain b where b: "status t k = Some b" "reach a b" by blast
  from moves [OF step.hyps(2) b(1)] obtain c where
    c: "status u k = Some c" "c = b \<or> c \<in> set (allowed b)" by blast
  have "reach a c"
    using b(2) c(2) unfolding reach_def by (metis rtranclp.rtrancl_into_rtrancl)
  with c(1) show ?case by blast
qed

lemma reach_terminal: "reach a b \<Longrightarrow> allowed a = [] \<Longrightarrow> b = a"
  unfolding reach_def by (erule converse_rtranclpE) auto

lemma terminal_is_final:
  "step\<^sup>*\<^sup>* s s' \<Longrightarrow> status s k = Some a \<Longrightarrow> allowed a = [] \<Longrightarrow> status s' k = Some a"
  using runs_along reach_terminal by blast

text \<open>A set of statuses the table never leaves is never left.\<close>

lemma closed_set_is_kept:
  assumes "step\<^sup>*\<^sup>* s s'" and "status s k = Some a" and "a \<in> A"
    and closed: "\<And>x y. x \<in> A \<Longrightarrow> y \<in> set (allowed x) \<Longrightarrow> y \<in> A"
  shows "\<exists>b\<in>A. status s' k = Some b"
proof -
  obtain b where b: "status s' k = Some b" "reach a b" using runs_along [OF assms(1,2)] by blast
  from b(2) assms(3) have "b \<in> A"
    unfolding reach_def by (induction rule: rtranclp_induct) (auto intro: closed)
  with b(1) show ?thesis by blast
qed

end

definition order_status_of :: "'a order_db_scheme \<Rightarrow> uuid \<Rightarrow> order_status option" where
  "order_status_of s k = map_option o_status (order_by s k)"

text \<open>The operations of the order service on a database.\<close>

inductive order_step :: "gateways \<Rightarrow> 'a order_db_scheme \<Rightarrow> 'a order_db_scheme \<Rightarrow> bool" for g where
  create: "create_order actor number cust dt cur pt ship nts items s = Inr (ord, s') \<Longrightarrow> order_step g s s'"
| transition: "transition_status oid st actor' desc s = Inr s' \<Longrightarrow> order_step g s s'"
| confirm: "confirm_order g oid user s = Inr s' \<Longrightarrow> order_step g s s'"
| unconfirm: "unconfirm_order g oid actor s = (s', e) \<Longrightarrow> order_step g s s'"
| address: "update_shipping_address g oid user addr s = Inr s' \<Longrightarrow> order_step g s s'"
| variant: "update_item_variant oid iid user vid s = Inr s' \<Longrightarrow> order_step g s s'"
| event: "add_event oid actor ty stt desc s = Inr s' \<Longrightarrow> order_step g s s'"
| sync: "upsert_synced_order g d s = Inr (x, s') \<Longrightarrow> order_step g s s'"

lemma unvalidated_simps [simp]:
  "o_id (unvalidated r) = o_id r" "o_status (unvalidated r) = o_status r"
  by (simp_all add: unvalidated_def)

lemma unpushed_simps [simp]:
  "o_id (unpushed r) = o_id r" "o_status (unpushed r) = o_status r"
  by (simp_all add: unpushed_def)

lemma order_status_proj:
  assumes "map h (orders s') = map h (orders s)" and "\<And>r. o_id (h r) = o_id r" "\<And>r. o_status (h r) = o_status r"
  shows "order_status_of s' k = order_status_of s k"
proof -
  have "map_option o_status (map_option h (order_by s' k)) = map_option o_status (map_option h (order_by s k))"
    using order_by_proj [OF assms(1,2)] by (rule arg_cong)
  then show ?thesis by (simp add: order_status_of_def option.map_comp o_def assms(3))
qed

lemma order_status_cong: "orders s' = orders s \<Longrightarrow> order_status_of s' k = order_status_of s k"
  by (simp add: order_status_of_def cong: order_by_cong)

lemma order_status_frame [simp]:
  "order_status_of (audit_record u a t e p n m s) = order_status_of s"
  "order_status_of (event_create i ty st d src ac s) = order_status_of s"
  by (simp_all add: fun_eq_iff order_status_of_def)

lemma validate_order_status [simp]: "order_status_of (validate_order g f oid s) k = order_status_of s k"
  by (rule order_status_proj [OF validate_order_orders]) simp_all

lemma sync_address_status:
  "sync_shipping_address g oid u s = Inr s' \<Longrightarrow> order_status_of s' k = order_status_of s k"
  by (rule order_status_proj [OF sync_address_orders]) simp_all

lemma order_update_status:
  "(\<And>r. o_id (f r) = o_id r) \<Longrightarrow> (\<And>r. o_status (f r) = o_status r) \<Longrightarrow>
   order_status_of (order_update i f s) k = order_status_of s k"
  by (auto simp: order_status_of_def order_by_update option.map_comp o_def)

lemma transition_Inr:
  "transition_status oid new actor desc s = Inr s' \<longleftrightarrow>
   (\<exists>ord. order_by s oid = Some ord \<and> new \<in> set (order_transitions (o_status ord)) \<and>
     s' = audit_record actor ''order.status_changed'' ''order'' oid
          [(''status'', JStr (order_status_value (o_status ord)))]
          [(''status'', JStr (order_status_value new))] []
       (event_create oid ''status_changed'' (Some (order_status_value new))
          (Some (or_text desc (''Status changed to '' @ order_status_value new @ ''.'')))
          ''system'' actor (order_update oid (\<lambda>r. r\<lparr>o_status := new\<rparr>) s)))"
  unfolding transition_status_def Let_def bindR_Inr_iff require_Inr_iff get_order_Inr sum.inject
  by blast

lemma transition_order_by:
  "transition_status oid new actor desc s = Inr s' \<Longrightarrow>
   order_by s' k = (if k = oid then map_option (\<lambda>r. r\<lparr>o_status := new\<rparr>) (order_by s oid) else order_by s k)"
  by (auto simp: transition_Inr order_by_update)

lemma cancel_pending_frame:
  "orders (fst (cancel_pending g u shs s)) = orders s"
  "order_items (fst (cancel_pending g u shs s)) = order_items s"
  "payments (fst (cancel_pending g u shs s)) = payments s"
  "clock (fst (cancel_pending g u shs s)) = clock s"
  by (induction g u shs s rule: cancel_pending.induct)
    (auto simp: cancel_shipment_def bindR_Inr_iff split: sum.splits option.splits if_splits)

lemma cancel_pending_order_by [simp]: "order_by (fst (cancel_pending g u shs s)) = order_by s"
  by (rule order_by_cong) (rule cancel_pending_frame)

section \<open>Each operation moves the status along the table\<close>

lemma foldl_frame: "(\<And>t i. h (f t i) = h t) \<Longrightarrow> h (foldl f s xs) = h s"
  by (induction xs arbitrary: s) simp_all

lemma item_create_frame [simp]:
  "orders (item_create oid i s) = orders s" "payments (item_create oid i s) = payments s"
  "shipments (item_create oid i s) = shipments s" "order_events (item_create oid i s) = order_events s"
  "audit_log (item_create oid i s) = audit_log s" "clock (item_create oid i s) = clock s"
  "next_id (item_create oid i s) = Suc (next_id s)"
  "customers (item_create oid i s) = customers s"
  by (simp_all add: item_create_def Let_def fresh_def)

lemma payment_create_frame [simp]:
  "orders (payment_create oid t st a c s) = orders s" "order_items (payment_create oid t st a c s) = order_items s"
  "shipments (payment_create oid t st a c s) = shipments s"
  by (simp_all add: payment_create_def fresh_def)

lemma item_upsert_frame [simp]:
  "orders (item_upsert src oid i s) = orders s" "payments (item_upsert src oid i s) = payments s"
  "shipments (item_upsert src oid i s) = shipments s"
  "product_variants (item_upsert src oid i s) = product_variants s"
  "customers (item_upsert src oid i s) = customers s" "clock (item_upsert src oid i s) = clock s"
  by (simp_all add: item_upsert_def Let_def fresh_def split: option.splits)

lemma payment_upsert_frame [simp]:
  "orders (payment_upsert oid d s) = orders s" "order_items (payment_upsert oid d s) = order_items s"
  "shipments (payment_upsert oid d s) = shipments s"
  "product_variants (payment_upsert oid d s) = product_variants s"
  "customers (payment_upsert oid d s) = customers s" "clock (payment_upsert oid d s) = clock s"
  by (simp_all add: payment_upsert_def Let_def fresh_def split: option.splits)

lemmas items_fold = foldl_frame [where f = "\<lambda>t i. item_upsert src oid i t" for src oid]
lemmas creates_fold = foldl_frame [where f = "\<lambda>t i. item_create oid i t" for oid]

lemma sync_rest_status [simp]: "order_status_of (sync_rest g d oid c s) k = order_status_of s k"
  unfolding sync_rest_def Let_def validate_order_status
  by (rule order_status_cong) (simp add: items_fold [where h = orders])

lemma add_row_order_by:
  "orders s' = orders s @ [r] \<Longrightarrow>
   order_by s' k = (case order_by s k of None \<Rightarrow> (if o_id r = k then Some r else None) | Some x \<Rightarrow> Some x)"
  by (simp add: order_by_def row_by_append split: option.split)

lemma create_order_orders:
  "create_order actor number cust dt cur pt ship nts items s = Inr (ord, s') \<Longrightarrow>
   orders s' = orders s @ [ord] \<and> o_id ord = next_id s \<and> o_number ord = number \<and> o_status ord = PENDING
   \<and> o_total ord = total_of items ship \<and> order_by_number s number = None"
  unfolding create_order_def bindR_Inr_iff require_Inr_iff
  by (auto simp: Let_def creates_fold [where h = orders])

lemma confirm_Inr:
  assumes "confirm_order g oid user s = Inr s'"
  obtains ord s1 where "order_by s oid = Some ord" "CONFIRMED \<in> set (order_transitions (o_status ord))"
    "transition_status oid CONFIRMED (Some user) (Some ''Confirmed by telecaller.'') s = Inr s1"
    "s' = sync_confirmation_tag g oid (Some user)
       (order_update oid (\<lambda>r. r\<lparr>o_confirmed_by := Some user, o_confirmed_at := Some (clock s)\<rparr>) s1)"
  using assms unfolding confirm_order_def bindR_Inr_iff Let_def sum.inject by (auto simp: transition_Inr)

lemma confirm_order_by:
  assumes "confirm_order g oid user s = Inr s'"
  shows "order_by s' k = (if k = oid then map_option (\<lambda>r. r\<lparr>o_status := CONFIRMED, o_confirmed_by := Some user,
      o_confirmed_at := Some (clock s)\<rparr>) (order_by s oid) else order_by s k)"
  using assms
  by (elim confirm_Inr) (auto simp: order_by_update transition_order_by option.map_comp o_def)

text \<open>An unconfirm either leaves the orders table alone or ends with the transition to PENDING.\<close>

lemma unconfirm_cases:
  assumes "unconfirm_order g oid actor s = (s', e)"
  obtains (refused) err where "s' = s" "e = Some err"
  | (stopped) err where "e = Some err" "orders s' = orders s"
      "cancel_pending g actor (shipments_for_order s oid) (reverse_confirmation_tag g oid actor s) = (s', Some err)"
  | (illegal) ord err where "order_by s oid = Some ord" "PENDING \<notin> set (order_transitions (o_status ord))"
      "e = Some err" "orders s' = orders s" "revert_blocked (shipments_for_order s oid) = None"
      "cancel_pending g actor (shipments_for_order s oid) (reverse_confirmation_tag g oid actor s) = (s', None)"
  | (reverted) ord s2 s3 where "order_by s oid = Some ord" "PENDING \<in> set (order_transitions (o_status ord))"
      "e = None" "revert_blocked (shipments_for_order s oid) = None"
      "cancel_pending g actor (shipments_for_order s oid) (reverse_confirmation_tag g oid actor s) = (s2, None)"
      "transition_status oid PENDING actor (Some ''Reverted to pending (unconfirmed).'') s2 = Inr s3"
      "s' = order_update oid (\<lambda>r. r\<lparr>o_confirmed_by := None, o_confirmed_at := None\<rparr>) s3"
      "order_by s2 = order_by s"
proof -
  obtain s2 e2 where cp: "cancel_pending g actor (shipments_for_order s oid)
      (reverse_confirmation_tag g oid actor s) = (s2, e2)" by (rule prod.exhaust)
  have o2: "orders s2 = orders s" "order_by s2 = order_by s"
    using cancel_pending_frame(1) [of g actor "shipments_for_order s oid" "reverse_confirmation_tag g oid actor s"]
      cancel_pending_order_by [of g actor "shipments_for_order s oid" "reverse_confirmation_tag g oid actor s"]
    by (simp_all add: cp)
  show thesis
  proof (cases "s' = s \<and> e \<noteq> None")
    case True
    then show thesis using refused by auto
  next
    case False
    then obtain ord where ord: "order_by s oid = Some ord"
      using assms by (cases "order_by s oid") (auto simp: unconfirm_order_def get_order_def)
    have rb: "revert_blocked (shipments_for_order s oid) = None"
      using assms False ord
      by (cases "revert_blocked (shipments_for_order s oid)")
        (auto simp: unconfirm_order_def get_order_def split: if_split_asm)
    have run: "(case e2 of Some err \<Rightarrow> (s2, Some err)
       | None \<Rightarrow> (case transition_status oid PENDING actor (Some ''Reverted to pending (unconfirmed).'') s2 of
           Inl err \<Rightarrow> (s2, Some err)
         | Inr s3 \<Rightarrow> (order_update oid (\<lambda>r. r\<lparr>o_confirmed_by := None, o_confirmed_at := None\<rparr>) s3, None))) = (s', e)"
      using assms False ord rb
      by (auto simp: unconfirm_order_def get_order_def cp split: if_split_asm option.splits)
    show thesis
    proof (cases e2)
      case (Some err)
      with run cp o2 show thesis by (intro stopped) auto
    next
      case None
      show thesis
      proof (cases "transition_status oid PENDING actor (Some ''Reverted to pending (unconfirmed).'') s2")
        case (Inl err)
        then have "PENDING \<notin> set (order_transitions (o_status ord))"
          using ord o2 by (auto simp: transition_status_def bindR_Inl_iff Let_def)
        with run cp o2 None Inl ord rb show thesis by (intro illegal) auto
      next
        case (Inr s3)
        then have "PENDING \<in> set (order_transitions (o_status ord))"
          using ord o2 by (auto simp: transition_Inr)
        with run cp o2 None Inr ord rb show thesis by (intro reverted [of ord s2 s3]) auto
      qed
    qed
  qed
qed

lemma cancelled_final [simp]: "order_transitions CANCELLED = []" "order_transitions DELIVERED = []"
  by simp_all

lemma upsert_cases:
  assumes "upsert_synced_order g d s = Inr (x, s')"
  obtains (stale) ord where "by_external o_source o_external (orders s) (so_source d) (so_external d) = Some ord"
      "stale_delivery d ord" "s' = s" "x = (o_id ord, False)"
  | (resync) ord where "by_external o_source o_external (orders s) (so_source d) (so_external d) = Some ord"
      "\<not> stale_delivery d ord" "\<not> synced_conflict (o_id ord) d s" "x = (o_id ord, False)"
      "s' = sync_rest g d (o_id ord) False
         (order_update (o_id ord) (sync_existing (find_customer s d) d) s)"
  | (new) "by_external o_source o_external (orders s) (so_source d) (so_external d) = None"
      "\<not> synced_conflict (next_id s) d s" "x = (next_id s, True)"
      "s' = sync_rest g d (next_id s) True
         (fresh (s\<lparr>orders := orders s @ [new_synced (next_id s) (find_customer s d) d]\<rparr>))"
  using assms unfolding upsert_synced_order_def Let_def
  by (auto simp: bindR_Inr_iff split: option.split_asm if_split_asm)

lemma synced_conflict_proj:
  assumes "map (\<lambda>r. (o_id r, o_number r, o_shopify r)) (orders s) = map (\<lambda>r. (o_id r, o_number r, o_shopify r)) (orders s')"
  shows "synced_conflict oid d s = synced_conflict oid d s'"
proof -
  have proj: "synced_conflict oid d u \<longleftrightarrow> (\<exists>(i, n, x)\<in>set (map (\<lambda>r. (o_id r, o_number r, o_shopify r)) (orders u)).
      i \<noteq> oid \<and> (n = so_number d \<or> (so_shopify d \<noteq> None \<and> x = so_shopify d)))" for u :: "'c order_db_scheme"
    by (auto simp: synced_conflict_def)
  show ?thesis unfolding proj assms ..
qed

lemma synced_conflict_unvalidated:
  assumes "map unvalidated (orders s) = map unvalidated (orders s')"
  shows "synced_conflict oid d s = synced_conflict oid d s'"
proof (rule synced_conflict_proj)
  have "(\<lambda>r. (o_id r, o_number r, o_shopify r)) \<circ> unvalidated = (\<lambda>r. (o_id r, o_number r, o_shopify r))"
    by (simp add: fun_eq_iff unvalidated_def)
  then show "map (\<lambda>r. (o_id r, o_number r, o_shopify r)) (orders s) = map (\<lambda>r. (o_id r, o_number r, o_shopify r)) (orders s')"
    using arg_cong [OF assms, of "map (\<lambda>r. (o_id r, o_number r, o_shopify r))"] by simp
qed

lemma sync_existing_id [simp]: "o_id (sync_existing c d r) = o_id r"
  by (simp add: sync_existing_def apply_synced_def Let_def)

lemma sync_existing_status:
  "o_status (sync_existing c d r) =
     (if so_cancelled d \<and> CANCELLED \<in> set (order_transitions (o_status r)) then CANCELLED else o_status r)"
  by (cases "o_status r") (simp_all add: sync_existing_def apply_synced_def Let_def)

text \<open>The whole of a variant correction: one item, one event, one audit row.\<close>

lemma update_item_variant_Inr:
  assumes "update_item_variant oid iid user vid s = Inr s'"
  obtains item v desc prev new where "item_by s iid = Some item" "oi_order item = oid" "variant_by s vid = Some v"
    "\<And>cur. Option.bind (oi_variant item) (variant_by s) = Some cur \<Longrightarrow> pv_product cur = pv_product v"
    "s' = audit_record (Some user) ''order.item_variant_updated'' ''order'' oid prev new []
      (event_create oid ''item_variant_updated'' None (Some desc) ''user'' (Some user)
        (item_update iid (\<lambda>r. r\<lparr>oi_variant := Some (pv_id v), oi_sku := pv_sku v\<rparr>) s))"
proof -
  obtain item v where iv: "item_by s iid = Some item" "oi_order item = oid" "variant_by s vid = Some v"
    "case Option.bind (oi_variant item) (variant_by s) of None \<Rightarrow> True | Some c \<Rightarrow> pv_product c = pv_product v"
    using assms unfolding update_item_variant_def Let_def bindR_Inr_iff require_Inr_iff
      require_some_Inr_iff split_paired_Ex by blast
  have ex: "\<exists>desc prev new. s' = audit_record (Some user) ''order.item_variant_updated'' ''order'' oid prev new []
      (event_create oid ''item_variant_updated'' None (Some desc) ''user'' (Some user)
        (item_update iid (\<lambda>r. r\<lparr>oi_variant := Some (pv_id v), oi_sku := pv_sku v\<rparr>) s))"
    using assms iv unfolding update_item_variant_def Let_def
    by (cases "Option.bind (oi_variant item) (variant_by s)") (simp; blast)+
  from ex iv(4) show thesis by (elim exE) (rule that [OF iv(1-3)], auto split: option.split_asm)
qed

lemma order_step_status:
  fixes s s' :: "'a order_db_scheme"
  assumes "order_step g s s'" and "order_status_of s k = Some a"
  shows "\<exists>b. order_status_of s' k = Some b \<and> (b = a \<or> b \<in> set (order_transitions a))"
  using assms
proof (induction rule: order_step.induct)
  case (create actor number cust dt cur pt ship nts items s ord s')
  then have "orders s' = orders s @ [ord]" by (auto dest: create_order_orders)
  with create(2) show ?case by (auto simp: order_status_of_def add_row_order_by)
next
  case (transition oid st actor' desc s s')
  then show ?case by (auto simp: order_status_of_def transition_Inr order_by_update)
next
  case (confirm oid user s s')
  then obtain ord where "order_by s oid = Some ord" "CONFIRMED \<in> set (order_transitions (o_status ord))"
    by (auto elim: confirm_Inr)
  with confirm show ?case by (auto simp: order_status_of_def confirm_order_by)
next
  case (unconfirm oid actor s s' e)
  from unconfirm(1) show ?case
  proof (cases rule: unconfirm_cases)
    case (reverted ord s2 s3)
    have "order_by s' k = (if k = oid then Some (ord\<lparr>o_status := PENDING, o_confirmed_by := None,
        o_confirmed_at := None\<rparr>) else order_by s k)"
      using reverted by (simp add: order_by_update transition_order_by)
    with reverted(1,2) unconfirm(2) show ?thesis by (auto simp: order_status_of_def)
  qed (use unconfirm(2) in \<open>auto simp: order_status_of_def cong: order_by_cong\<close>)
next
  case (address oid user addr s s')
  then have "order_status_of s' k = order_status_of s k"
    by (auto simp: update_shipping_address_def bindR_Inr_iff Let_def order_update_status
        dest!: sync_address_status [where k = k])
  with address(2) show ?case by simp
next
  case (variant oid iid user vid s s')
  from variant(1) have "orders s' = orders s" by (rule update_item_variant_Inr) simp
  then have "order_status_of s' k = order_status_of s k" by (rule order_status_cong)
  with variant(2) show ?case by simp
next
  case (event oid actor ty stt desc s s')
  then show ?case by (auto simp: add_event_def bindR_Inr_iff order_status_of_def)
next
  case (sync d s x s')
  from sync(1) show ?case
  proof (cases rule: upsert_cases)
    case (resync ord)
    then show ?thesis
      using sync(2) by (auto simp: order_status_of_def [where s = "order_update i f t" for i f t]
          order_status_of_def [of s] order_by_update sync_existing_status)
  next
    case new
    then show ?thesis
      using sync(2)
      by (auto simp: order_status_of_def [of s] order_status_of_def [where s = "fresh t" for t]
          add_row_order_by [where s = s] split: option.splits)
  qed (use sync(2) in simp)
qed

interpretation order_machine: status_machine order_status_of order_transitions "order_step g" for g
  by unfold_locales (rule order_step_status)

text \<open>Which statuses are reachable from which.\<close>

lemma left_pending_never_pending:
  "x \<in> {PROCESSING, PACKED, SHIPPED, DELIVERED, CANCELLED} \<Longrightarrow> y \<in> set (order_transitions x) \<Longrightarrow>
   y \<in> {PROCESSING, PACKED, SHIPPED, DELIVERED, CANCELLED}"
  by (cases x) auto

section \<open>Cancelling the pending shipments\<close>

definition pending_ids :: "shipment list \<Rightarrow> uuid set" where
  "pending_ids shs = shp_id ` {sh \<in> set shs. shp_status sh = SHP_PENDING}"

abbreviation mark_cancelled :: "shipment \<Rightarrow> shipment" where
  "mark_cancelled \<equiv> \<lambda>r. r\<lparr>shp_status := SHP_CANCELLED\<rparr>"

lemma pending_ids_simps [simp]:
  "pending_ids [] = {}"
  "pending_ids (sh # shs) = (if shp_status sh = SHP_PENDING then insert (shp_id sh) (pending_ids shs)
     else pending_ids shs)"
  by (auto simp: pending_ids_def)

lemma set_where_merge:
  assumes "\<And>r. f (f r) = f r" and "\<And>r. q (f r) = q r"
  shows "set_where q f (set_where p f rows) = set_where (\<lambda>r. p r \<or> q r) f rows"
  using assms by (simp add: set_where_def)

lemma set_where_none: "(\<And>r. r \<in> set rows \<Longrightarrow> p r \<Longrightarrow> f r = r) \<Longrightarrow> set_where p f rows = rows"
  by (induction rows) (auto simp: set_where_def)

lemma filter_set_where:
  "(\<And>r. q (f r) = q r) \<Longrightarrow> filter q (set_where p f rows) = set_where p f (filter q rows)"
  by (induction rows) (auto simp: set_where_def)

text \<open>\<open>cancel_shipment\<close> refuses, or marks the one shipment after Shiprocket agreed.\<close>

lemma cancel_shipment_Inr:
  "cancel_shipment g sid u s = Inr s' \<longleftrightarrow>
   (\<exists>sh ext. shipment_by s sid = Some sh \<and> shp_shiprocket sh = Some ext \<and> ext \<noteq> [] \<and>
     gw_cancel_shipment g ext = None \<and>
     s' = audit_record u ''shipment.cancelled_via_shiprocket'' ''shipment'' sid [] [] []
            (shipment_update sid mark_cancelled s))"
  by (auto simp: cancel_shipment_def bindR_Inr_iff split: option.split_asm if_split_asm)

lemma cancel_pending_shipments:
  "cancel_pending g u shs s = (s', None) \<Longrightarrow>
   shipments s' = set_where (\<lambda>r. shp_id r \<in> pending_ids shs) mark_cancelled (shipments s)"
proof (induction g u shs s rule: cancel_pending.induct)
  case (1 g u s)
  then show ?case by (simp add: set_where_def)
next
  case (2 g u sh rest s)
  have merge: "set_where (\<lambda>r. shp_id r \<in> pending_ids rest) mark_cancelled
      (set_where (\<lambda>r. shp_id r = shp_id sh) mark_cancelled (shipments s)) =
    set_where (\<lambda>r. shp_id r = shp_id sh \<or> shp_id r \<in> pending_ids rest) mark_cancelled (shipments s)"
    by (rule set_where_merge) simp_all
  show ?case
  proof (cases "shp_status sh = SHP_PENDING")
    case False
    with 2 show ?thesis by simp
  next
    case pending: True
    show ?thesis
    proof (cases "shp_shiprocket sh \<noteq> None \<and> shp_shiprocket sh \<noteq> Some []")
      case True
      with 2(4) pending obtain t where t: "cancel_shipment g (shp_id sh) u s = Inr t"
          "cancel_pending g u rest t = (s', None)"
        by (auto split: sum.split_asm)
      with 2(2) [OF _ True t] pending merge show ?thesis by (auto simp: cancel_shipment_Inr)
    next
      case False
      with 2(3) [OF _ False] 2(4) pending merge show ?thesis by auto
    qed
  qed
qed

text \<open>Success means that Shiprocket agreed to every registered shipment's cancellation.\<close>

lemma cancel_pending_agreed:
  assumes "cancel_pending g u shs s = (s', None)" and "sh \<in> set shs" and "shp_status sh = SHP_PENDING"
    and "shp_shiprocket sh = Some i" and "i \<noteq> []"
    and "\<And>x. x \<in> set shs \<Longrightarrow> map_option shp_shiprocket (shipment_by s (shp_id x)) = Some (shp_shiprocket x)"
  shows "gw_cancel_shipment g i = None"
  using assms
proof (induction g u shs s rule: cancel_pending.induct)
  case (1 g u s)
  then show ?case by simp
next
  case (2 g u x rest s)
  have keep: "map_option shp_shiprocket (shipment_by (shipment_update j mark_cancelled s) k) =
      map_option shp_shiprocket (shipment_by s k)" for j k
    by (simp add: shipment_by_update option.map_comp o_def)
  have look: "map_option shp_shiprocket (shipment_by s (shp_id y)) = Some (shp_shiprocket y)" if "y \<in> set rest" for y
    using 2(9) that by simp
  show ?case
  proof (cases "shp_status x = SHP_PENDING")
    case False
    with 2 show ?thesis by auto
  next
    case pending: True
    show ?thesis
    proof (cases "shp_shiprocket x \<noteq> None \<and> shp_shiprocket x \<noteq> Some []")
      case True
      with 2(4) pending obtain t where t: "cancel_shipment g (shp_id x) u s = Inr t"
          "cancel_pending g u rest t = (s', None)"
        by (auto split: sum.split_asm)
      show ?thesis
      proof (cases "sh = x")
        case True
        with t(1) 2(7,9) show ?thesis by (force simp: cancel_shipment_Inr)
      next
        case False
        have "map_option shp_shiprocket (shipment_by t k) = map_option shp_shiprocket (shipment_by s k)" for k
          using t(1) unfolding cancel_shipment_Inr by (elim exE conjE) (simp only: shipment_by_frame keep)
        then have "map_option shp_shiprocket (shipment_by t (shp_id y)) = Some (shp_shiprocket y)"
          if "y \<in> set rest" for y using look [OF that] by simp
        with 2(2) [OF _ True t] 2(5-8) pending False show ?thesis by auto
      qed
    next
      case False
      then have "sh \<noteq> x" using 2(7,8) by auto
      with 2(3) [OF _ False] 2(4-8) pending False look show ?thesis by (auto simp: keep)
    qed
  qed
qed

lemma revert_blocked_None:
  "revert_blocked shs = None \<longleftrightarrow>
   (\<forall>sh\<in>set shs. shp_status sh \<in> {SHP_PENDING, SHP_CANCELLED} \<and> shp_sync sh \<noteq> SYNCED)"
proof (induction shs)
  case (Cons sh shs)
  then show ?case by (cases "shp_status sh") auto
qed simp

lemma revert_blocked_conflict: "revert_blocked shs = Some e \<Longrightarrow> \<exists>m. e = ConflictError m"
  by (induction shs) (auto split: option.split_asm if_split_asm)

text \<open>With nothing registered at Shiprocket the cancellations cannot fail.\<close>

lemma cancel_pending_unregistered:
  fixes s :: "'a order_db_scheme"
  assumes "\<And>sh. sh \<in> set shs \<Longrightarrow> shp_status sh = SHP_PENDING \<Longrightarrow> shp_shiprocket sh = None \<or> shp_shiprocket sh = Some []"
  shows "\<exists>s'. cancel_pending g u shs s = (s', None)"
  using assms
proof (induction shs arbitrary: s)
  case (Cons sh shs)
  have "shp_status sh \<noteq> SHP_PENDING \<or> \<not> (shp_shiprocket sh \<noteq> None \<and> shp_shiprocket sh \<noteq> Some [])"
    using Cons.prems [of sh] by auto
  moreover have "\<exists>s'. cancel_pending g u shs t = (s', None)" for t :: "'a order_db_scheme"
    by (rule Cons.IH) (rule Cons.prems, simp_all)
  ultimately show ?case by auto
qed simp

section \<open>The rows of a sync\<close>

text \<open>A line item is settled when syncing it again would write the row it finds as it is.\<close>

definition settled :: "string \<Rightarrow> uuid \<Rightarrow> synced_item \<Rightarrow> 'a stock_db_scheme \<Rightarrow> bool" where
  "settled source oid i s \<longleftrightarrow>
     (\<exists>r. by_external oi_source oi_external (order_items s) source (si_external i) = Some r
        \<and> write_item oid (synced_variant source i s) i r = r)"

text \<open>The primary keys of a table are distinct and below the next fresh one.\<close>

definition keys_ok :: "('r \<Rightarrow> uuid) \<Rightarrow> 'r list \<Rightarrow> 'a base_db_scheme \<Rightarrow> bool" where
  "keys_ok key rows s \<longleftrightarrow> distinct (map key rows) \<and> (\<forall>r\<in>set rows. key r < next_id s)"

lemma find_set_where:
  assumes "\<And>r. q (f r) = q r"
  shows "find q (set_where p f rows) = map_option (\<lambda>r. if p r then f r else r) (find q rows)"
  using assms by (induction rows) (auto simp: set_where_def)

lemma find_append: "find q (xs @ ys) = (case find q xs of None \<Rightarrow> find q ys | Some r \<Rightarrow> Some r)"
  by (induction xs) auto

lemma find_SomeD: "find q xs = Some r \<Longrightarrow> r \<in> set xs \<and> q r"
  by (induction xs) (auto split: if_split_asm)

lemma write_item_simps [simp]:
  "oi_id (write_item oid v i r) = oi_id r" "oi_source (write_item oid v i r) = oi_source r"
  "oi_external (write_item oid v i r) = oi_external r"
  "write_item oid v i (write_item oid v i r) = write_item oid v i r"
  by (simp_all add: write_item_def)

lemma synced_variant_upsert [simp]: "synced_variant src i (item_upsert src' oid j s) = synced_variant src i s"
  by (simp add: synced_variant_def split: option.split)

lemma keys_ok_set_where:
  assumes "\<And>r. key (f r) = key r" and "next_id t = next_id s"
  shows "keys_ok key (set_where p f rows) t \<longleftrightarrow> keys_ok key rows s"
proof -
  have "(\<forall>r\<in>set xs. key r < n) \<longleftrightarrow> (\<forall>k\<in>set (map key xs). k < n)" for xs n by simp
  then show ?thesis using assms(2) by (simp only: keys_ok_def set_where_keys [of key f, OF assms(1)])
qed

lemma keys_ok_snoc: "keys_ok key rows s \<Longrightarrow> key r = next_id s \<Longrightarrow> next_id t = Suc (next_id s) \<Longrightarrow> keys_ok key (rows @ [r]) t"
  by (auto simp: keys_ok_def less_Suc_eq)

lemma item_upsert_keys:
  "keys_ok oi_id (order_items s) s \<Longrightarrow> keys_ok oi_id (order_items (item_upsert src oid i s)) (item_upsert src oid i s)"
  by (auto simp: item_upsert_def keys_ok_set_where [of oi_id _ _ s] intro!: keys_ok_snoc split: option.split)

lemma item_upsert_settles:
  "settled src oid i (item_upsert src oid i s)"
  unfolding settled_def synced_variant_upsert
  by (auto simp: item_upsert_def by_external_def find_set_where find_append split: option.split)

lemma item_upsert_keeps_settled:
  assumes "settled src oid i s" and "si_external j \<noteq> si_external i" and "keys_ok oi_id (order_items s) s"
  shows "settled src oid i (item_upsert src oid j s)"
proof -
  obtain r where r: "by_external oi_source oi_external (order_items s) src (si_external i) = Some r"
    "write_item oid (synced_variant src i s) i r = r" using assms(1) by (auto simp: settled_def)
  have "oi_id r \<noteq> oi_id x" if "by_external oi_source oi_external (order_items s) src (si_external j) = Some x" for x
  proof
    assume "oi_id r = oi_id x"
    moreover have "r \<in> set (order_items s)" "x \<in> set (order_items s)"
      using r(1) that by (auto simp: by_external_def dest: find_SomeD)
    ultimately have "r = x" using assms(3) by (auto simp: keys_ok_def distinct_map dest: inj_onD)
    with r(1) that assms(2) show False by (auto simp: by_external_def dest!: find_SomeD)
  qed
  with r show ?thesis
    unfolding settled_def synced_variant_upsert
    by (auto simp: item_upsert_def by_external_def find_set_where find_append split: option.split)
qed

lemma settled_noop:
  assumes "settled src oid i s" and "distinct (map oi_id (order_items s))"
  shows "order_items (item_upsert src oid i s) = order_items s"
proof -
  obtain r where r: "by_external oi_source oi_external (order_items s) src (si_external i) = Some r"
    "write_item oid (synced_variant src i s) i r = r" using assms(1) by (auto simp: settled_def)
  then have "r \<in> set (order_items s)" by (auto simp: by_external_def dest: find_SomeD)
  then have "x = r" if "x \<in> set (order_items s)" "oi_id x = oi_id r" for x
    using that assms(2) by (auto simp: distinct_map dest: inj_onD)
  with r show ?thesis by (auto simp: item_upsert_def intro!: set_where_none)
qed

lemma settled_cong:
  "order_items s' = order_items s \<Longrightarrow> product_variants s' = product_variants s \<Longrightarrow>
   settled src oid i s' = settled src oid i s"
  by (simp add: settled_def synced_variant_def split: option.split)

lemma items_settle:
  fixes s :: "'a order_db_scheme"
  assumes "distinct (map si_external is)" and "keys_ok oi_id (order_items s) s"
  shows "(\<forall>i\<in>set is. settled src oid i (foldl (\<lambda>t i. item_upsert src oid i t) s is))
    \<and> keys_ok oi_id (order_items (foldl (\<lambda>t i. item_upsert src oid i t) s is))
        (foldl (\<lambda>t i. item_upsert src oid i t) s is)"
  using assms
proof (induction "is" rule: rev_induct)
  case (snoc j "is")
  have "si_external j \<noteq> si_external i" if "i \<in> set is" for i using snoc.prems(1) that by auto
  with snoc show ?case by (auto simp: item_upsert_settles intro: item_upsert_keeps_settled item_upsert_keys)
qed simp

lemma items_noop:
  fixes s :: "'a order_db_scheme"
  assumes "\<And>i. i \<in> set is \<Longrightarrow> settled src oid i s" and "distinct (map oi_id (order_items s))"
  shows "order_items (foldl (\<lambda>t i. item_upsert src oid i t) s is) = order_items s"
  using assms
proof (induction "is" arbitrary: s)
  case (Cons j "is")
  have same: "order_items (item_upsert src oid j s) = order_items s"
    using Cons.prems by (intro settled_noop) simp_all
  have "settled src oid i (item_upsert src oid j s)" if "i \<in> set is" for i
    using Cons.prems(1) [of i] that same by (simp add: settled_cong [of "item_upsert src oid j s" s])
  then have "order_items (foldl (\<lambda>t i. item_upsert src oid i t) (item_upsert src oid j s) is)
      = order_items (item_upsert src oid j s)"
    using Cons.prems(2) by (intro Cons.IH) (simp_all add: same)
  with same show ?case by simp
qed simp

definition payment_settled :: "uuid \<Rightarrow> synced_order \<Rightarrow> payment list \<Rightarrow> bool" where
  "payment_settled oid d rows \<longleftrightarrow>
     (\<exists>p. by_external pay_source pay_external rows (so_source d) (so_external d) = Some p \<and> write_payment oid d p = p)"

lemma write_payment_simps [simp]:
  "pay_id (write_payment oid d r) = pay_id r" "pay_source (write_payment oid d r) = pay_source r"
  "pay_external (write_payment oid d r) = pay_external r"
  "write_payment oid d (write_payment oid d r) = write_payment oid d r"
  by (simp_all add: write_payment_def)

lemma payment_upsert_settles: "payment_settled oid d (payments (payment_upsert oid d s))"
  by (auto simp: payment_settled_def payment_upsert_def by_external_def find_set_where find_append
      fresh_def split: option.split)

lemma payment_upsert_keys:
  "keys_ok pay_id (payments s) s \<Longrightarrow> distinct (map pay_id (payments (payment_upsert oid d s)))"
  by (auto simp: payment_upsert_def keys_ok_def set_where_keys split: option.split)

lemma payment_settled_noop:
  assumes "payment_settled oid d (payments s)" and "distinct (map pay_id (payments s))"
  shows "payments (payment_upsert oid d s) = payments s"
proof -
  obtain p where p: "by_external pay_source pay_external (payments s) (so_source d) (so_external d) = Some p"
    "write_payment oid d p = p" using assms(1) by (auto simp: payment_settled_def)
  then have "p \<in> set (payments s)" by (auto simp: by_external_def dest: find_SomeD)
  then have "x = p" if "x \<in> set (payments s)" "pay_id x = pay_id p" for x
    using that assms(2) by (auto simp: distinct_map dest: inj_onD)
  with p show ?thesis by (auto simp: payment_upsert_def intro!: set_where_none)
qed

text \<open>The order row of a sync, seen without the columns of its address check.\<close>

lemma sync_rest_tables:
  "map unvalidated (orders (sync_rest g d oid c s)) = map unvalidated (orders s)"
  "order_items (sync_rest g d oid c s) = order_items (foldl (\<lambda>t i. item_upsert (so_source d) oid i t) s (so_items d))"
  "payments (sync_rest g d oid c s) =
     payments (payment_upsert oid d (foldl (\<lambda>t i. item_upsert (so_source d) oid i t) s (so_items d)))"
  "customers (sync_rest g d oid c s) = customers s"
  "product_variants (sync_rest g d oid c s) = product_variants s"
  "shipments (sync_rest g d oid c s) = shipments s"
  by (simp_all add: sync_rest_def Let_def validate_order_orders items_fold [where h = orders]
      items_fold [where h = customers] items_fold [where h = product_variants]
      items_fold [where h = shipments])

text \<open>Every sync that is not stale leaves one event and one audit row.\<close>

lemma sync_rest_logs:
  "\<exists>ev au. order_events (sync_rest g d oid c s) = order_events s @ [ev] \<and> ev_order ev = oid
    \<and> ev_type ev = (if c then ''order_created'' else ''order_synced'')
    \<and> audit_log (sync_rest g d oid c s) = audit_log s @ [au] \<and> au_entity au = oid
    \<and> au_action au = (if c then ''order.created'' else ''order.synced'')"
proof -
  have validated: "order_events (validate_order g f k t) = order_events t" "audit_log (validate_order g f k t) = audit_log t"
    for f k and t :: "'a order_db_scheme" by (simp_all add: validate_order_def order_update_def Let_def split: option.split)
  have paid: "order_events (payment_upsert oid d t) = order_events t" "audit_log (payment_upsert oid d t) = audit_log t"
    for t :: "'a order_db_scheme" by (simp_all add: payment_upsert_def fresh_def split: option.split)
  have lines: "order_events (foldl (\<lambda>t i. item_upsert src oid i t) t is) = order_events t
      \<and> audit_log (foldl (\<lambda>t i. item_upsert src oid i t) t is) = audit_log t" for src "is" and t :: "'a order_db_scheme"
    by (induction "is" arbitrary: t) (simp_all add: item_upsert_def item_update_def fresh_def split: option.split)
  show ?thesis
    by (simp add: sync_rest_def Let_def validated event_create_def audit_record_def fresh_def paid lines)
qed

section \<open>The rows of a new order\<close>

definition line_total :: "new_item \<Rightarrow> rat" where
  "line_total i = ni_price i * of_int (ni_quantity i) - ni_discount i + ni_tax i"

definition line_row :: "uuid \<Rightarrow> new_item \<Rightarrow> order_item \<Rightarrow> bool" where
  "line_row oid i r \<longleftrightarrow> oi_order r = oid \<and> oi_variant r = ni_variant i \<and> oi_sku r = ni_sku i
     \<and> oi_quantity r = ni_quantity i \<and> oi_total r = line_total i"

lemma item_creates:
  fixes s :: "'a order_db_scheme"
  shows "\<exists>new. order_items (foldl (\<lambda>t i. item_create oid i t) s items) = order_items s @ new
    \<and> list_all2 (line_row oid) items new"
proof (induction items arbitrary: s)
  case (Cons i items)
  have "\<exists>r. order_items (item_create oid i s) = order_items s @ [r] \<and> line_row oid i r"
    by (simp add: item_create_def Let_def fresh_def line_row_def line_total_def)
  then obtain r where r: "order_items (item_create oid i s) = order_items s @ [r]" "line_row oid i r" by blast
  obtain new where "order_items (foldl (\<lambda>t i. item_create oid i t) (item_create oid i s) items)
      = order_items (item_create oid i s) @ new" "list_all2 (line_row oid) items new"
    using Cons.IH by blast
  with r show ?case by (intro exI [of _ "r # new"]) simp
qed simp

lemma lines_add_up:
  "list_all2 (line_row oid) items new \<Longrightarrow>
   sum_list (map oi_total new) + ship = total_of items ship"
proof -
  assume "list_all2 (line_row oid) items new"
  then have "sum_list (map oi_total new) = sum_list (map line_total items)"
    by (induction rule: list_all2_induct) (auto simp: line_row_def)
  moreover have "sum_list (map line_total items) + ship = total_of items ship" for ship
    by (induction items) (auto simp: line_total_def total_of_def subtotal_of_def)
  ultimately show ?thesis by simp
qed

lemma create_order_rows:
  assumes "create_order actor number cust dt cur pt ship nts items s = Inr (ord, s')"
  shows "\<exists>new p. order_items s' = order_items s @ new \<and> list_all2 (line_row (o_id ord)) items new
    \<and> payments s' = payments s @ [p] \<and> pay_order p = o_id ord \<and> pay_amount p = o_total ord
    \<and> pay_status p = PAY_PENDING \<and> pay_type p = pt \<and> shipments s' = shipments s"
proof -
  let ?oid = "next_id s"
  let ?s1 = "fresh (s\<lparr>orders := orders s @ [ord]\<rparr>)"
  let ?s2 = "foldl (\<lambda>t i. item_create ?oid i t) ?s1 items"
  let ?s3 = "payment_create ?oid pt PAY_PENDING (total_of items ship) cur ?s2"
  obtain new where new: "order_items ?s2 = order_items ?s1 @ new" "list_all2 (line_row ?oid) items new"
    using item_creates by blast
  have tables: "order_items s' = order_items ?s3" "payments s' = payments ?s3" "shipments s' = shipments ?s3"
    "o_id ord = ?oid" "o_total ord = total_of items ship"
    using assms unfolding create_order_def bindR_Inr_iff require_Inr_iff by (auto simp: Let_def)
  have "\<exists>p. payments ?s3 = payments ?s2 @ [p] \<and> pay_order p = ?oid \<and> pay_amount p = total_of items ship
      \<and> pay_status p = PAY_PENDING \<and> pay_type p = pt"
    by (simp add: payment_create_def fresh_def)
  then obtain p where p: "payments ?s3 = payments ?s2 @ [p]" "pay_order p = ?oid"
    "pay_amount p = total_of items ship" "pay_status p = PAY_PENDING" "pay_type p = pt" by blast
  have "payments ?s2 = payments s" "shipments ?s2 = shipments s"
    by (simp_all add: creates_fold [where h = payments] creates_fold [where h = shipments])
  with p new tables show ?thesis by (intro exI [of _ new] exI [of _ p]) simp
qed

section \<open>An address correction\<close>

lemma update_address_Inr:
  assumes "order_by s oid = Some ord"
  obtains s3 s' where "update_shipping_address g oid user addr s = Inr s'"
    "sync_shipping_address g oid (Some user) (validate_order g False oid s3) = Inr s'"
    "order_by s3 k = (if k = oid then Some (ord\<lparr>o_shipping_address := Some addr\<rparr>) else order_by s k)"
    "clock s3 = clock s"
proof -
  define s3 where "s3 = audit_record (Some user) ''order.shipping_address_updated'' ''order'' oid
      [(''shipping_address'', jaddress (o_shipping_address ord))] [(''shipping_address'', jaddress (Some addr))] []
      (event_create oid ''address_updated'' None (Some ''Shipping address updated.'') ''user'' (Some user)
        (order_update oid (\<lambda>r. r\<lparr>o_shipping_address := Some addr\<rparr>) s))"
  have look: "order_by s3 j = (if j = oid then Some (ord\<lparr>o_shipping_address := Some addr\<rparr>) else order_by s j)" for j
    using assms by (simp add: s3_def order_by_update)
  have "\<exists>x. order_by (validate_order g False oid s3) oid = Some x"
    using order_by_proj [OF validate_order_orders [of g False oid s3], of oid] look [of oid] by auto
  then obtain s' where s': "sync_shipping_address g oid (Some user) (validate_order g False oid s3) = Inr s'"
    using sync_address_total by blast
  have "update_shipping_address g oid user addr s = Inr s'"
    using assms s' by (simp add: update_shipping_address_def get_order_def Let_def s3_def)
  from that [OF this s' look] show thesis by (simp add: s3_def)
qed

text \<open>What the check leaves on an order whose address is not the one it validated last.\<close>

lemma validate_changed_address:
  assumes "order_by s oid = Some ord" and "o_shipping_address ord = Some addr" and "addr \<noteq> []"
    and "o_validation_hash ord \<noteq> Some (gw_hash g addr)"
  shows "order_by (validate_order g f oid s) oid = Some (ord\<lparr>
      o_validation := Some (case gw_validate g addr of Some v \<Rightarrow> v | None \<Rightarrow> provider_failure),
      o_validated_at := Some (clock s), o_validation_hash := Some (gw_hash g addr)\<rparr>)"
  using assms
  by (auto simp: validate_order_def has_address_def needs_validation_def hash_address_def order_by_update)

text \<open>What the push leaves on an order with a Shopify id and an address.\<close>

lemma push_address:
  assumes "order_by s oid = Some ord" and "shopify_id ord = Some i" and "o_shipping_address ord = Some addr"
    and "addr \<noteq> []" and "sync_shipping_address g oid u s = Inr s'"
  shows "order_by s' oid = Some (case gw_push_address g i addr of
      Some message \<Rightarrow> ord\<lparr>o_address_sync := SYNC_FAILED, o_address_sync_error := Some (take 2000 message)\<rparr>
    | None \<Rightarrow> ord\<lparr>o_address_sync := SYNCED, o_address_sync_error := None, o_address_synced_at := Some (clock s)\<rparr>)"
  using assms by (auto simp: sync_shipping_address_def order_by_update split: option.split)

section \<open>A sync leaves a row that the same sync would write as it is\<close>

lemma sync_existing_idem [simp]: "sync_existing c d (sync_existing c d r) = sync_existing c d r"
  by (cases "o_status r") (simp_all add: sync_existing_def apply_synced_def Let_def)

lemma sync_existing_new [simp]: "sync_existing c d (new_synced oid c d) = new_synced oid c d"
  by (auto simp: sync_existing_def apply_synced_def new_synced_def initial_status_def Let_def)

lemma sync_existing_unvalidated: "sync_existing c d (unvalidated r) = unvalidated (sync_existing c d r)"
  by (simp add: sync_existing_def apply_synced_def Let_def unvalidated_def)

lemma sync_existing_fixed:
  assumes "unvalidated r = unvalidated r0" and "sync_existing c d r0 = r0"
  shows "sync_existing c d r = r"
proof -
  let ?put = "\<lambda>x. x\<lparr>o_validation := o_validation r, o_validated_at := o_validated_at r,
    o_validation_hash := o_validation_hash r\<rparr>"
  have r: "r = ?put (unvalidated r0)" unfolding assms(1) [symmetric] by (simp add: unvalidated_def)
  have "sync_existing c d (?put x) = ?put (sync_existing c d x)" for x
    by (simp add: sync_existing_def apply_synced_def Let_def)
  then have "sync_existing c d (?put (unvalidated r0)) = ?put (unvalidated r0)"
    by (simp add: sync_existing_unvalidated assms(2))
  with r show ?thesis by simp
qed

lemma sync_existing_source [simp]:
  "o_source (sync_existing c d r) = o_source r" "o_external (sync_existing c d r) = o_external r"
  "o_source (new_synced oid c d) = so_source d" "o_external (new_synced oid c d) = Some (so_external d)"
  "o_id (new_synced oid c d) = oid"
  by (simp_all add: sync_existing_def apply_synced_def Let_def new_synced_def)

lemma find_proj:
  assumes "map h xs = map h ys" and "\<And>r. q (h r) = q r" and "find q ys = Some y"
  shows "\<exists>x. find q xs = Some x \<and> h x = h y"
proof -
  have "find q (map h zs) = map_option h (find q zs)" for zs
    by (induction zs) (simp_all add: assms(2))
  from this [of xs] this [of ys] assms(1,3) show ?thesis by (cases "find q xs") auto
qed

text \<open>
  One sync applied to a table of orders where its row is in place: after it every row the sync writes
  is settled.
\<close>

lemma sync_rest_settles:
  fixes t :: "'a order_db_scheme"
  assumes row: "by_external o_source o_external (orders t) (so_source d) (so_external d) = Some r0"
      "o_id r0 = oid" "sync_existing cu d r0 = r0"
    and keys: "distinct (map o_id (orders t))" "keys_ok oi_id (order_items t) t" "keys_ok pay_id (payments t) t"
    and lines: "distinct (map si_external (so_items d))"
    and s1: "s1 = sync_rest g d oid c t"
  shows "\<exists>r. by_external o_source o_external (orders s1) (so_source d) (so_external d) = Some r \<and> o_id r = oid
      \<and> sync_existing cu d r = r"
    and "distinct (map o_id (orders s1))"
    and "\<forall>i\<in>set (so_items d). settled (so_source d) oid i s1"
    and "payment_settled oid d (payments s1)" and "distinct (map pay_id (payments s1))"
    and "distinct (map oi_id (order_items s1))"
proof -
  let ?u = "foldl (\<lambda>t i. item_upsert (so_source d) oid i t) t (so_items d)"
  have orders: "map unvalidated (orders s1) = map unvalidated (orders t)"
    and items: "order_items s1 = order_items ?u" and pays: "payments s1 = payments (payment_upsert oid d ?u)"
    and pv: "product_variants s1 = product_variants ?u"
    by (simp_all add: s1 sync_rest_tables items_fold [where h = product_variants])
  obtain r where "by_external o_source o_external (orders s1) (so_source d) (so_external d) = Some r"
    "unvalidated r = unvalidated r0"
    using find_proj [OF orders, of "\<lambda>r. o_source r = so_source d \<and> o_external r = Some (so_external d)" r0] row(1)
    by (auto simp: by_external_def unvalidated_def)
  moreover from this have "o_id r = oid" using row(2) by (metis unvalidated_simps(1))
  ultimately show "\<exists>r. by_external o_source o_external (orders s1) (so_source d) (so_external d) = Some r
      \<and> o_id r = oid \<and> sync_existing cu d r = r"
    using sync_existing_fixed row(3) by blast
  have "map (o_id \<circ> unvalidated) (orders s1) = map (o_id \<circ> unvalidated) (orders t)"
    using arg_cong [OF orders, of "map o_id"] by simp
  then show "distinct (map o_id (orders s1))" using keys(1) by (simp add: o_def)
  from items_settle [OF lines keys(2), of "so_source d" oid]
  show "\<forall>i\<in>set (so_items d). settled (so_source d) oid i s1" "distinct (map oi_id (order_items s1))"
    by (simp_all add: settled_cong [OF items pv] items keys_ok_def)
  show "payment_settled oid d (payments s1)" by (simp add: pays payment_upsert_settles)
  have "keys_ok pay_id (payments ?u) ?u"
  proof -
    have "next_id x \<le> next_id (foldl (\<lambda>t i. item_upsert (so_source d) oid i t) x is)" for x :: "'a order_db_scheme" and "is"
    proof (induction "is" arbitrary: x)
      case (Cons i "is")
      have "next_id x \<le> next_id (item_upsert (so_source d) oid i x)"
        by (simp add: item_upsert_def split: option.split)
      also note Cons.IH
      finally show ?case by simp
    qed simp
    from this [of t "so_items d"] keys(3) show ?thesis
      by (auto simp: keys_ok_def items_fold [where h = payments])
  qed
  then show "distinct (map pay_id (payments s1))" by (simp add: pays payment_upsert_keys)
qed

text \<open>Syncing again over settled rows.\<close>

definition synced_again :: "uuid \<Rightarrow> 'a order_db_scheme \<Rightarrow> 'a order_db_scheme \<Rightarrow> bool" where
  "synced_again oid s s' \<longleftrightarrow> s' = s \<or> (\<exists>ev au. order_events s' = order_events s @ [ev] \<and> ev_order ev = oid \<and> ev_type ev = ''order_synced''
     \<and> audit_log s' = audit_log s @ [au] \<and> au_entity au = oid \<and> au_action au = ''order.synced'')"

lemma resync_settled:
  fixes s1 :: "'a order_db_scheme"
  assumes row: "\<exists>r. by_external o_source o_external (orders s1) (so_source d) (so_external d) = Some r \<and> o_id r = oid
      \<and> sync_existing cu d r = r"
    and dist: "distinct (map o_id (orders s1))"
    and items: "\<forall>i\<in>set (so_items d). settled (so_source d) oid i s1"
    and pay: "payment_settled oid d (payments s1)" "distinct (map pay_id (payments s1))"
    and item_ids: "distinct (map oi_id (order_items s1))"
    and cu: "find_customer s1 d = cu" and free: "\<not> synced_conflict oid d s1"
  shows "\<exists>s2. upsert_synced_order g d s1 = Inr ((oid, False), s2)
    \<and> map unvalidated (orders s2) = map unvalidated (orders s1)
    \<and> order_items s2 = order_items s1 \<and> payments s2 = payments s1 \<and> shipments s2 = shipments s1
    \<and> customers s2 = customers s1 \<and> synced_again oid s1 s2"
proof -
  obtain r where r: "by_external o_source o_external (orders s1) (so_source d) (so_external d) = Some r"
    "o_id r = oid" "sync_existing cu d r = r" using row by blast
  show ?thesis
  proof (cases "stale_delivery d r")
    case True
    with r show ?thesis by (auto simp: upsert_synced_order_def synced_again_def)
  next
    case False
    let ?t = "order_update oid (sync_existing cu d) s1"
    let ?s2 = "sync_rest g d oid False ?t"
    have "r \<in> set (orders s1)" using r(1) by (auto simp: by_external_def dest: find_SomeD)
    then have "x = r" if "x \<in> set (orders s1)" "o_id x = oid" for x
      using that dist r(2) by (auto simp: distinct_map dest: inj_onD)
    then have t: "orders ?t = orders s1" using r(3) by (auto intro!: set_where_none)
    have "upsert_synced_order g d s1 = Inr ((oid, False), ?s2)"
      using r False free by (simp add: upsert_synced_order_def Let_def cu)
    moreover have "map unvalidated (orders ?s2) = map unvalidated (orders s1)"
      by (simp only: sync_rest_tables t)
    moreover have "order_items ?s2 = order_items s1"
      using items item_ids unfolding sync_rest_tables
      by (subst items_noop) (simp_all add: settled_cong [of ?t s1])
    moreover have "payments ?s2 = payments s1"
      using pay unfolding sync_rest_tables
      by (subst payment_settled_noop) (simp_all add: items_fold [where h = payments])
    moreover have "shipments ?s2 = shipments s1" "customers ?s2 = customers s1" by (simp_all add: sync_rest_tables)
    moreover have "synced_again oid s1 ?s2"
      using sync_rest_logs [of g d oid False ?t] by (simp add: synced_again_def)
    ultimately show ?thesis by blast
  qed
qed

end
