(* ===== verification/Orders_Props.thy ===== *)
theory Orders_Props
  imports Orders_Facts
begin

text \<open>
  Properties of the order service, with witnesses on \<open>demo_oms\<close>: a pending order 7 with one line,
  and a processing order 8 with one shipment that was never registered with Shiprocket.
\<close>

definition demo_order :: "uuid \<Rightarrow> string \<Rightarrow> order_status \<Rightarrow> order" where
  "demo_order i number status = \<lparr>o_id = i, o_number = number, o_shopify = None, o_customer = None,
     o_datetime = 0, o_currency = ''INR'', o_subtotal = 100, o_discount = 0, o_tax = 0, o_shipping = 0,
     o_total = 100, o_payment_type = COD, o_payment_status = PAY_PENDING, o_status = status,
     o_fulfillment = UNFULFILLED, o_notes = None, o_shipping_address = None, o_billing_address = None,
     o_address_sync = NOT_APPLICABLE, o_address_sync_error = None, o_address_synced_at = None,
     o_validation = None, o_validated_at = None, o_validation_hash = None, o_confirmed_by = None,
     o_confirmed_at = None, o_confirmation_fulfillment = None, o_source = ''manual'', o_external = None,
     o_updated_at = None, o_tags = None\<rparr>"

definition demo_shipment :: "uuid \<Rightarrow> uuid \<Rightarrow> shipment" where
  "demo_shipment i oid = \<lparr>shp_id = i, shp_order = oid, shp_shiprocket = None, shp_awb = None, shp_courier = None,
     shp_status = SHP_PENDING, shp_ndr = None, shp_rto = None, shp_location = None, shp_last_update = None,
     shp_expected = None, shp_fulfillment = None, shp_sync = NOT_APPLICABLE, shp_sync_error = None,
     shp_synced_at = None, shp_source = ''manual'', shp_external = None\<rparr>"

definition demo_oms :: order_db where
  "demo_oms = \<lparr>clock = 1000, next_id = 100, audit_log = [],
     products = [\<lparr>p_id = 1, p_title = ''Masala'', p_title_override = None\<rparr>], catalog_variants = [],
     product_variants =
       [\<lparr>pv_id = 2, pv_product = 1, pv_sku = ''A'', pv_title = Some ''Orange'', pv_title_override = None,
         pv_available = 10, pv_packets_per_box = 1, pv_pack_size = 2, pv_catalog_variant = None,
         pv_source = ''shopify'', pv_external = Some ''v2''\<rparr>,
        \<lparr>pv_id = 3, pv_product = 1, pv_sku = ''B'', pv_title = Some ''Mango'', pv_title_override = None,
         pv_available = 4, pv_packets_per_box = 3, pv_pack_size = 1, pv_catalog_variant = None,
         pv_source = ''shopify'', pv_external = Some ''v3''\<rparr>],
     inventory_movements = [], stock_adjustments = [],
     order_items =
       [\<lparr>oi_id = 20, oi_order = 7, oi_variant = Some 2, oi_sku = ''A'', oi_product_name = ''Masala'', oi_quantity = 1,
          oi_unit_price = 100, oi_discount = 0, oi_tax = 0, oi_total = 100, oi_source = ''manual'', oi_external = None\<rparr>],
     unseen_moves = [], platform_movements = [], marketplace_movements = [], unseen_reversals = [],
     unseen_replacements = [],
     orders = [demo_order 7 ''O7'' PENDING, demo_order 8 ''O8'' PROCESSING], order_events = [], payments = [],
     shipments = [demo_shipment 30 8], customers = [], user_names = [(50, ''Asha'')]\<rparr>"

definition demo_gateways :: gateways where
  "demo_gateways = \<lparr>gw_add_tags = (\<lambda>_ _. True), gw_remove_tags = (\<lambda>_ _. True), gw_push_address = (\<lambda>_ _. None),
     gw_cancel_shipment = (\<lambda>_. None), gw_validate = (\<lambda>_. None), gw_hash = concat \<circ> map snd, gw_stale_after = 10\<rparr>"

definition demo_sync :: synced_order where
  "demo_sync = \<lparr>so_source = ''shopify'', so_external = ''s1'', so_number = ''S1'', so_shopify = Some ''s1'',
     so_customer_external = None, so_datetime = 5, so_currency = ''INR'', so_subtotal = 250, so_discount = 0,
     so_tax = 0, so_shipping = 0, so_total = 250, so_payment_type = PREPAID, so_payment_status = PAID,
     so_fulfillment = UNFULFILLED, so_cancelled = False, so_shipping_address = Some [(''city'', ''Pune'')],
     so_billing_address = None, so_updated_at = Some 9, so_tags = None,
     so_items = [\<lparr>si_external = ''l1'', si_variant_external = Some ''v2'', si_sku = ''A'', si_name = ''Masala'',
       si_quantity = 2, si_price = 125, si_discount = 0, si_tax = 0, si_total = 250\<rparr>]\<rparr>"

lemma demo_orders [simp]:
  "order_by demo_oms 7 = Some (demo_order 7 ''O7'' PENDING)"
  "order_by demo_oms 8 = Some (demo_order 8 ''O8'' PROCESSING)"
  by (simp_all add: order_by_def demo_oms_def demo_order_def)

lemma demo_order_simps [simp]:
  "o_status (demo_order i n st) = st" "o_id (demo_order i n st) = i" "o_fulfillment (demo_order i n st) = UNFULFILLED"
  "o_confirmed_by (demo_order i n st) = None" "o_confirmed_at (demo_order i n st) = None"
  by (simp_all add: demo_order_def)

lemma demo_shipments [simp]:
  "shipments_for_order demo_oms 7 = []" "shipments_for_order demo_oms 8 = [demo_shipment 30 8]"
  by (simp_all add: shipments_for_order_def demo_oms_def demo_shipment_def)

lemma demo_shipment_simps [simp]:
  "shp_status (demo_shipment i oid) = SHP_PENDING" "shp_shiprocket (demo_shipment i oid) = None"
  "shp_sync (demo_shipment i oid) = NOT_APPLICABLE" "shp_order (demo_shipment i oid) = oid"
  "shp_id (demo_shipment i oid) = i"
  by (simp_all add: demo_shipment_def)

lemma demo_confirm: "\<exists>s'. confirm_order demo_gateways 7 50 demo_oms = Inr s'"
proof -
  have "\<exists>s1. transition_status 7 CONFIRMED (Some 50) (Some ''Confirmed by telecaller.'') demo_oms = Inr s1"
    by (simp add: transition_Inr)
  then show ?thesis by (auto simp: confirm_order_def Let_def)
qed

section \<open>Properties\<close>

text \<open>
  C5: over any run of the order operations every order stays in the table and its status moves along
  the transition table only; an order that is delivered or cancelled stays so, and one that has left
  PENDING and CONFIRMED never returns to them.
\<close>

theorem order_lifecycle:
  assumes "(order_step g)\<^sup>*\<^sup>* s s'" and "order_status_of s k = Some a"
  shows "\<exists>b. order_status_of s' k = Some b \<and> (\<lambda>x y. y \<in> set (order_transitions x))\<^sup>*\<^sup>* a b
    \<and> (a \<in> {DELIVERED, CANCELLED} \<longrightarrow> b = a)
    \<and> (a \<notin> {PENDING, CONFIRMED} \<longrightarrow> b \<notin> {PENDING, CONFIRMED})"
proof -
  obtain b where b: "order_status_of s' k = Some b" "order_machine.reach a b"
    using order_machine.runs_along [OF assms] by blast
  have "b = a" if "a \<in> {DELIVERED, CANCELLED}"
    using order_machine.reach_terminal [OF b(2)] that by auto
  moreover have "b \<notin> {PENDING, CONFIRMED}" if "a \<notin> {PENDING, CONFIRMED}"
  proof -
    have "a \<in> {PROCESSING, PACKED, SHIPPED, DELIVERED, CANCELLED}" using that by (cases a) auto
    from order_machine.closed_set_is_kept [OF assms this left_pending_never_pending] b(1) show ?thesis
      by fastforce
  qed
  ultimately show ?thesis using b unfolding order_machine.reach_def by blast
qed

theorem order_lifecycle_witness:
  "\<exists>s'. (order_step demo_gateways)\<^sup>*\<^sup>* demo_oms s' \<and> order_status_of demo_oms 8 = Some PROCESSING
     \<and> (\<exists>b. order_status_of s' 8 = Some b \<and> b \<notin> {PENDING, CONFIRMED})"
proof -
  obtain s' where "confirm_order demo_gateways 7 50 demo_oms = Inr s'" using demo_confirm by blast
  then have run: "(order_step demo_gateways)\<^sup>*\<^sup>* demo_oms s'" by (blast intro: order_step.confirm)
  have "order_status_of demo_oms 8 = Some PROCESSING" by (simp add: order_status_of_def)
  from order_lifecycle [OF run this] this run show ?thesis by auto
qed

text \<open>
  A confirmation and its revert cancel out: with no live shipment, the orders, shipments, lines
  and payments are exactly what they were before the confirmation.
\<close>

theorem confirm_unconfirm_roundtrip:
  assumes "distinct (map o_id (orders s))"
    and "order_by s oid = Some ord" and "o_status ord = PENDING" and "o_confirmed_by ord = None"
    and "o_confirmed_at ord = None" and "o_fulfillment ord \<noteq> FULFILLED"
    and "\<And>sh. sh \<in> set (shipments_for_order s oid) \<Longrightarrow> shp_status sh = SHP_CANCELLED \<and> shp_sync sh \<noteq> SYNCED"
    and "confirm_order g oid user s = Inr s1"
  shows "\<exists>s2. unconfirm_order g oid actor s1 = (s2, None) \<and> orders s2 = orders s
    \<and> shipments s2 = shipments s \<and> order_items s2 = order_items s \<and> payments s2 = payments s"
proof -
  define t where "t = reverse_confirmation_tag g oid actor s1"
  let ?conf = "\<lambda>r. r\<lparr>o_status := CONFIRMED, o_confirmed_by := Some user, o_confirmed_at := Some (clock s)\<rparr>"
  have s1: "orders s1 = set_where (\<lambda>r. o_id r = oid) ?conf (orders s)" "shipments s1 = shipments s"
      "order_items s1 = order_items s" "payments s1 = payments s"
    using assms(8) by (elim confirm_Inr; force simp: transition_Inr set_where_def sync_confirmation_tag_def)+
  have ord1: "order_by s1 oid = Some (?conf ord)" using confirm_order_by [OF assms(8)] assms(2) by simp
  have sfo: "shipments_for_order s1 oid = shipments_for_order s oid" by (simp add: shipments_for_order_def s1)
  have pend: "cancel_pending g actor shs t = (t, None)" if "\<And>sh. sh \<in> set shs \<Longrightarrow> shp_status sh = SHP_CANCELLED" for shs
    using that by (induction shs) auto
  obtain s3 where s3: "transition_status oid PENDING actor (Some ''Reverted to pending (unconfirmed).'') t = Inr s3"
    unfolding transition_Inr by (simp add: t_def ord1)
  have blk: "revert_blocked (shipments_for_order s oid) = None"
    using assms(7) by (simp add: revert_blocked_None)
  have cp: "cancel_pending g actor (shipments_for_order s oid) t = (t, None)"
    using assms(7) by (intro pend) simp
  let ?s2 = "order_update oid (\<lambda>r. r\<lparr>o_confirmed_by := None, o_confirmed_at := None\<rparr>) s3"
  have "unconfirm_order g oid actor s1 = (?s2, None)"
    using ord1 assms(6) s3 unfolding unconfirm_order_def get_order_def
    by (simp add: blk sfo cp t_def [symmetric])
  moreover have "orders ?s2 = orders s"
  proof -
    have same: "r\<lparr>o_status := PENDING, o_confirmed_by := None, o_confirmed_at := None\<rparr> = r"
      if "r \<in> set (orders s)" "o_id r = oid" for r
    proof -
      have "ord = r" using row_by_distinct [OF assms(1) that(1)] that(2) assms(2) by (simp add: order_by_def)
      then show ?thesis using assms(3-5) by simp
    qed
    have "orders ?s2 = set_where (\<lambda>r. o_id r = oid)
        (\<lambda>r. r\<lparr>o_status := PENDING, o_confirmed_by := None, o_confirmed_at := None\<rparr>) (orders s)"
      using s3 by (auto simp: transition_Inr t_def s1 set_where_def)
    also have "\<dots> = orders s" by (rule set_where_none) (rule same)
    finally show ?thesis .
  qed
  moreover have "shipments ?s2 = shipments s" "order_items ?s2 = order_items s" "payments ?s2 = payments s"
    using s3 by (auto simp: transition_Inr t_def s1 reverse_confirmation_tag_def)
  ultimately show ?thesis by blast
qed

theorem confirm_unconfirm_roundtrip_witness:
  "\<exists>s1 s2. confirm_order demo_gateways 7 50 demo_oms = Inr s1
     \<and> unconfirm_order demo_gateways 7 (Some 50) s1 = (s2, None) \<and> orders s2 = orders demo_oms"
proof -
  obtain s1 where s1: "confirm_order demo_gateways 7 50 demo_oms = Inr s1" using demo_confirm by blast
  have "distinct (map o_id (orders demo_oms))" by (simp add: demo_oms_def)
  from confirm_unconfirm_roundtrip [OF this, of 7 "demo_order 7 ''O7'' PENDING" demo_gateways 50 s1 "Some 50"] s1
  show ?thesis by auto
qed

text \<open>
  C6: a revert that reports success was one of a CONFIRMED order, ends with the order PENDING and
  without attribution, and leaves no live shipment: every shipment of the order is cancelled, and
  Shiprocket agreed for every pending one it knew of. Nothing else in the two tables changes.
\<close>

theorem unconfirm_leaves_nothing_live:
  assumes "unconfirm_order g oid actor s = (s', None)" and "distinct (map shp_id (shipments s))"
  shows "\<exists>ord. order_by s oid = Some ord \<and> o_status ord = CONFIRMED
    \<and> (\<forall>k. order_by s' k = (if k = oid then Some (ord\<lparr>o_status := PENDING, o_confirmed_by := None,
        o_confirmed_at := None\<rparr>) else order_by s k))
    \<and> shipments s' = set_where (\<lambda>r. shp_order r = oid) (\<lambda>r. r\<lparr>shp_status := SHP_CANCELLED\<rparr>) (shipments s)
    \<and> (\<forall>sh\<in>set (shipments s). \<forall>i. shp_order sh = oid \<and> shp_status sh = SHP_PENDING
         \<and> shp_shiprocket sh = Some i \<and> i \<noteq> [] \<longrightarrow> gw_cancel_shipment g i = None)"
  using assms(1)
proof (cases rule: unconfirm_cases)
  case (reverted ord s2 s3)
  let ?own = "shipments_for_order s oid"
  have status: "o_status ord = CONFIRMED" using reverted(2) by (cases "o_status ord") auto
  have look: "map_option shp_shiprocket (shipment_by s (shp_id x)) = Some (shp_shiprocket x)" if "x \<in> set ?own" for x
    using that row_by_distinct [OF assms(2), of x] by (simp add: shipments_for_order_def shipment_by_def)
  have agreed: "gw_cancel_shipment g i = None"
    if "sh \<in> set ?own" "shp_status sh = SHP_PENDING" "shp_shiprocket sh = Some i" "i \<noteq> []" for sh i
    using cancel_pending_agreed [OF reverted(5) that] look by (simp add: shipment_by_def)
  have ids: "shp_id r \<in> pending_ids ?own \<longleftrightarrow> shp_order r = oid \<and> shp_status r = SHP_PENDING"
    if "r \<in> set (shipments s)" for r
    using that assms(2) by (auto simp: pending_ids_def shipments_for_order_def distinct_map dest: inj_onD)
  have done_ids: "shp_status r = SHP_CANCELLED" if "r \<in> set (shipments s)" "shp_order r = oid"
      "shp_status r \<noteq> SHP_PENDING" for r
    using reverted(4) that by (auto simp: revert_blocked_None shipments_for_order_def)
  have "shipments s' = set_where (\<lambda>r. shp_id r \<in> pending_ids ?own) mark_cancelled (shipments s)"
    using cancel_pending_shipments [OF reverted(5)] reverted(6,7) by (auto simp: transition_Inr)
  also have "\<dots> = set_where (\<lambda>r. shp_order r = oid) mark_cancelled (shipments s)"
    unfolding set_where_def by (rule map_cong) (auto simp: ids dest: done_ids)
  finally have shs: "shipments s' = set_where (\<lambda>r. shp_order r = oid) mark_cancelled (shipments s)" .
  have "order_by s' k = (if k = oid then Some (ord\<lparr>o_status := PENDING, o_confirmed_by := None,
        o_confirmed_at := None\<rparr>) else order_by s k)" for k
    using reverted by (simp add: order_by_update transition_order_by)
  with reverted(1) status shs agreed show ?thesis by (auto simp: shipments_for_order_def)
qed auto

theorem unconfirm_leaves_nothing_live_witness:
  "\<exists>s1 s2. confirm_order demo_gateways 7 50 demo_oms = Inr s1 \<and> unconfirm_order demo_gateways 7 (Some 50) s1 = (s2, None)
     \<and> shipments s2 = set_where (\<lambda>r. shp_order r = 7) (\<lambda>r. r\<lparr>shp_status := SHP_CANCELLED\<rparr>) (shipments s1)"
proof -
  have "case confirm_order demo_gateways 7 50 demo_oms of Inl _ \<Rightarrow> False
      | Inr s1 \<Rightarrow> snd (unconfirm_order demo_gateways 7 (Some 50) s1) = None \<and> distinct (map shp_id (shipments s1))"
    by code_simp
  then obtain s1 s2 where s: "confirm_order demo_gateways 7 50 demo_oms = Inr s1"
      "unconfirm_order demo_gateways 7 (Some 50) s1 = (s2, None)" "distinct (map shp_id (shipments s1))"
    by (auto split: sum.split_asm simp: prod_eq_iff)
  from unconfirm_leaves_nothing_live [OF s(2,3)] s show ?thesis by blast
qed

text \<open>
  A revert is refused, and nothing at all changes, when Shopify shows the order fulfilled
  without a confirmation fulfillment, when any of its shipments progressed beyond PENDING, or when any
  has a Shopify fulfillment.
\<close>

theorem unconfirm_refuses_progress:
  assumes "order_by s oid = Some ord"
    and "(o_fulfillment ord = FULFILLED \<and> o_confirmation_fulfillment ord \<in> {None, Some []})
      \<or> (\<exists>sh\<in>set (shipments_for_order s oid). shp_status sh \<notin> {SHP_PENDING, SHP_CANCELLED} \<or> shp_sync sh = SYNCED)"
  shows "\<exists>message. unconfirm_order g oid actor s = (s, Some (ConflictError message))"
proof (cases "o_fulfillment ord = FULFILLED \<and> o_confirmation_fulfillment ord \<in> {None, Some []}")
  case True
  then show ?thesis using assms(1) by (auto simp: unconfirm_order_def get_order_def)
next
  case False
  then have "revert_blocked (shipments_for_order s oid) \<noteq> None"
    using assms(2) unfolding revert_blocked_None by blast
  then obtain m where "revert_blocked (shipments_for_order s oid) = Some (ConflictError m)"
    using revert_blocked_conflict by blast
  then show ?thesis using assms(1) False by (simp add: unconfirm_order_def get_order_def)
qed

theorem unconfirm_refuses_progress_witness:
  "\<exists>message. unconfirm_order demo_gateways 8 None (shipment_update 30 (\<lambda>r. r\<lparr>shp_status := IN_TRANSIT\<rparr>) demo_oms)
     = (shipment_update 30 (\<lambda>r. r\<lparr>shp_status := IN_TRANSIT\<rparr>) demo_oms, Some (ConflictError message))"
proof -
  let ?s = "shipment_update 30 (\<lambda>r. r\<lparr>shp_status := IN_TRANSIT\<rparr>) demo_oms"
  have "\<exists>sh\<in>set (shipments_for_order ?s 8). shp_status sh \<notin> {SHP_PENDING, SHP_CANCELLED} \<or> shp_sync sh = SYNCED"
    by code_simp
  with unconfirm_refuses_progress [of ?s 8 "demo_order 8 ''O8'' PROCESSING"] show ?thesis by simp
qed

text \<open>
  A revert of an order that is not CONFIRMED is refused only after its pending shipments were
  cancelled: the conflict is raised, the order keeps its status, and all its shipments are cancelled.
\<close>

theorem unconfirm_cancels_before_refusing:
  assumes "order_by s oid = Some ord" and "PENDING \<notin> set (order_transitions (o_status ord))"
    and "o_fulfillment ord \<noteq> FULFILLED"
    and ready: "\<And>sh. sh \<in> set (shipments_for_order s oid) \<Longrightarrow>
      shp_status sh = SHP_PENDING \<and> shp_shiprocket sh = None \<and> shp_sync sh \<noteq> SYNCED"
  shows "\<exists>s'. unconfirm_order g oid actor s = (s', Some (ConflictError ''Cannot transition order.''))
    \<and> orders s' = orders s
    \<and> (\<forall>sh\<in>set (shipments_for_order s' oid). shp_status sh = SHP_CANCELLED)
    \<and> length (shipments_for_order s' oid) = length (shipments_for_order s oid)"
proof -
  let ?own = "shipments_for_order s oid" and ?t = "reverse_confirmation_tag g oid actor s"
  obtain s' where s': "cancel_pending g actor ?own ?t = (s', None)"
    using cancel_pending_unregistered [of ?own g actor ?t] ready by blast
  have o': "orders s' = orders s" "order_by s' = order_by s"
    using cancel_pending_frame(1) [of g actor ?own ?t] cancel_pending_order_by [of g actor ?own ?t] s' by simp_all
  have "transition_status oid PENDING actor d s' = Inl (ConflictError ''Cannot transition order.'')" for d
    using assms(1,2) o' by (simp add: transition_status_def get_order_def)
  then have "unconfirm_order g oid actor s = (s', Some (ConflictError ''Cannot transition order.''))"
    using assms(1,3) s' ready by (simp add: unconfirm_order_def get_order_def revert_blocked_None [THEN iffD2])
  moreover have own': "shipments_for_order s' oid =
      set_where (\<lambda>r. shp_id r \<in> pending_ids ?own) mark_cancelled ?own"
    using cancel_pending_shipments [OF s'] by (simp add: shipments_for_order_def filter_set_where)
  moreover have "shp_id r \<in> pending_ids ?own" if "r \<in> set ?own" for r
    using that ready by (auto simp: pending_ids_def)
  ultimately show ?thesis using o' by (auto simp: set_where_def)
qed

theorem unconfirm_cancels_before_refusing_witness:
  "\<exists>s'. unconfirm_order demo_gateways 8 None demo_oms = (s', Some (ConflictError ''Cannot transition order.''))
     \<and> (\<forall>sh\<in>set (shipments_for_order s' 8). shp_status sh = SHP_CANCELLED)"
  using unconfirm_cancels_before_refusing [of demo_oms 8 "demo_order 8 ''O8'' PROCESSING" demo_gateways None] by auto

text \<open>
  A new order's books add up: its total is the sum of its line totals plus shipping, it has one
  line per requested item and one pending payment of exactly its total; it starts PENDING under an
  order number that no order had.
\<close>

theorem create_order_adds_up:
  assumes "create_order actor number cust dt cur pt ship nts items s = Inr (ord, s')"
  shows "\<exists>new p. orders s' = orders s @ [ord] \<and> order_items s' = order_items s @ new
    \<and> length new = length items \<and> (\<forall>r\<in>set new. oi_order r = o_id ord)
    \<and> o_total ord = sum_list (map oi_total new) + ship
    \<and> payments s' = payments s @ [p] \<and> pay_order p = o_id ord \<and> pay_amount p = o_total ord \<and> pay_status p = PAY_PENDING
    \<and> o_status ord = PENDING \<and> order_by_number s number = None \<and> order_by_number s' number = Some ord"
proof -
  from create_order_rows [OF assms] obtain new p where rows: "order_items s' = order_items s @ new"
    "list_all2 (line_row (o_id ord)) items new" "payments s' = payments s @ [p]" "pay_order p = o_id ord"
    "pay_amount p = o_total ord" "pay_status p = PAY_PENDING" by blast
  note ord = create_order_orders [OF assms]
  have "\<forall>r\<in>set new. oi_order r = o_id ord"
    using rows(2) by (auto simp: list_all2_conv_all_nth line_row_def in_set_conv_nth)
  moreover have "order_by_number s' number = Some ord"
    using ord by (simp add: order_by_number_def row_by_append)
  ultimately show ?thesis
    using rows ord lines_add_up [OF rows(2)] by (auto dest: list_all2_lengthD)
qed

definition demo_items :: "new_item list" where
  "demo_items = [\<lparr>ni_variant = Some 2, ni_sku = ''A'', ni_name = ''Masala'', ni_quantity = 3, ni_price = 100,
     ni_discount = 20, ni_tax = 5\<rparr>, \<lparr>ni_variant = None, ni_sku = ''Z'', ni_name = ''Tea'', ni_quantity = 1,
     ni_price = 40, ni_discount = 0, ni_tax = 0\<rparr>]"

theorem create_order_adds_up_witness:
  "\<exists>ord s'. create_order None ''N1'' None None ''INR'' COD 30 None demo_items demo_oms = Inr (ord, s')
     \<and> o_total ord = 355 \<and> order_by_number s' ''N1'' = Some ord"
proof -
  have "case create_order None ''N1'' None None ''INR'' COD 30 None demo_items demo_oms of Inl _ \<Rightarrow> False
      | Inr (ord, s') \<Rightarrow> o_total ord = 355" by code_simp
  then obtain ord s' where c: "create_order None ''N1'' None None ''INR'' COD 30 None demo_items demo_oms = Inr (ord, s')"
      "o_total ord = 355" by (auto split: sum.split_asm)
  from create_order_adds_up [OF c(1)] c show ?thesis by auto
qed



text \<open>
  An address correction never fails once the order exists. Whatever Shopify and the validation
  provider do, the new address is stored and checked, the push's outcome is written on the order, and
  no other column (status, confirmation, amounts) of it changes.
\<close>

theorem address_edit_outcome:
  assumes "order_by s oid = Some ord" and "shopify_id ord = Some i" and "addr \<noteq> []"
    and "o_validation_hash ord \<noteq> Some (gw_hash g addr)"
  shows "\<exists>s' r. update_shipping_address g oid user addr s = Inr s' \<and> order_by s' oid = Some r
    \<and> o_shipping_address r = Some addr
    \<and> o_validation r = Some (case gw_validate g addr of Some v \<Rightarrow> v | None \<Rightarrow> provider_failure)
    \<and> o_validation_hash r = Some (gw_hash g addr)
    \<and> o_address_sync r = (if gw_push_address g i addr = None then SYNCED else SYNC_FAILED)
    \<and> unpushed (unvalidated r) = unpushed (unvalidated (ord\<lparr>o_shipping_address := Some addr\<rparr>))"
proof -
  obtain s3 s' where s3: "update_shipping_address g oid user addr s = Inr s'"
    "sync_shipping_address g oid (Some user) (validate_order g False oid s3) = Inr s'"
    "order_by s3 oid = Some (ord\<lparr>o_shipping_address := Some addr\<rparr>)" "clock s3 = clock s"
    by (rule update_address_Inr [OF assms(1), where k = oid and g = g and user = user and addr = addr]) auto
  let ?v = "ord\<lparr>o_shipping_address := Some addr,
      o_validation := Some (case gw_validate g addr of Some v \<Rightarrow> v | None \<Rightarrow> provider_failure),
      o_validated_at := Some (clock s), o_validation_hash := Some (gw_hash g addr)\<rparr>"
  have v: "order_by (validate_order g False oid s3) oid = Some ?v"
    using validate_changed_address [OF s3(3)] assms(3,4) s3(4) by simp
  have "shopify_id ?v = Some i" using assms(2) by (simp add: shopify_id_def)
  from push_address [OF v this _ assms(3) s3(2)] s3(1) show ?thesis
    by (auto simp: unpushed_def unvalidated_def split: option.splits)
qed

theorem address_edit_outcome_witness:
  "\<exists>s1 s2 r. upsert_synced_order demo_gateways demo_sync demo_oms = Inr ((100, True), s1)
     \<and> update_shipping_address demo_gateways 100 50 [(''city'', ''Delhi'')] s1 = Inr s2
     \<and> order_by s2 100 = Some r \<and> o_address_sync r = SYNCED \<and> o_shipping_address r = Some [(''city'', ''Delhi'')]"
proof -
  have "case upsert_synced_order demo_gateways demo_sync demo_oms of Inl _ \<Rightarrow> False | Inr (x, s1) \<Rightarrow> x = (100, True) \<and>
      (case order_by s1 100 of None \<Rightarrow> False | Some ord \<Rightarrow> shopify_id ord = Some ''s1''
        \<and> o_validation_hash ord \<noteq> Some (gw_hash demo_gateways [(''city'', ''Delhi'')]))" by code_simp
  then obtain s1 ord where s1: "upsert_synced_order demo_gateways demo_sync demo_oms = Inr ((100, True), s1)"
    "order_by s1 100 = Some ord" "shopify_id ord = Some ''s1''"
    "o_validation_hash ord \<noteq> Some (gw_hash demo_gateways [(''city'', ''Delhi'')])"
    by (auto split: sum.split_asm prod.split_asm option.split_asm)
  have "gw_push_address demo_gateways i a = None" for i a by (simp add: demo_gateways_def)
  with address_edit_outcome [OF s1(2,3) _ s1(4), of 50] s1(1) show ?thesis by auto
qed

text \<open>
  A variant correction changes the variant and the SKU of one line of the order to another
  variant of the same product, and nothing else: no amount, no other line, no order, payment,
  shipment or stock. The line then resolves to the new variant, which is what a dispatch will take.
\<close>

theorem variant_correction_narrow:
  assumes "update_item_variant oid iid user vid s = Inr s'"
  shows "\<exists>item v. item_by s iid = Some item \<and> oi_order item = oid \<and> variant_by s vid = Some v
    \<and> (\<forall>cur. Option.bind (oi_variant item) (variant_by s) = Some cur \<longrightarrow> pv_product cur = pv_product v)
    \<and> order_items s' = set_where (\<lambda>r. oi_id r = iid) (\<lambda>r. r\<lparr>oi_variant := Some vid, oi_sku := pv_sku v\<rparr>) (order_items s)
    \<and> map_option (line_variant s') (item_by s' iid) = Some (Some v)
    \<and> orders s' = orders s \<and> payments s' = payments s \<and> shipments s' = shipments s
    \<and> product_variants s' = product_variants s"
  using assms
proof (rule update_item_variant_Inr)
  fix item v desc prev new
  assume iv: "item_by s iid = Some item" "oi_order item = oid" "variant_by s vid = Some v"
    and prod: "\<And>cur. Option.bind (oi_variant item) (variant_by s) = Some cur \<Longrightarrow> pv_product cur = pv_product v"
    and s': "s' = audit_record (Some user) ''order.item_variant_updated'' ''order'' oid prev new []
      (event_create oid ''item_variant_updated'' None (Some desc) ''user'' (Some user)
        (item_update iid (\<lambda>r. r\<lparr>oi_variant := Some (pv_id v), oi_sku := pv_sku v\<rparr>) s))"
  have id: "pv_id v = vid" using iv(3) by (auto simp: variant_by_def)
  have "item_by s' iid = Some (item\<lparr>oi_variant := Some vid, oi_sku := pv_sku v\<rparr>)"
    using iv(1) by (simp add: s' item_by_def row_by_set_where id)
  moreover have "variant_by s' vid = Some v" using iv(3) by (simp add: s' variant_by_def)
  ultimately show ?thesis using iv prod by (auto simp: s' id resolve_variant_def)
qed

theorem variant_correction_narrow_witness:
  "\<exists>s' v. update_item_variant 7 20 50 3 demo_oms = Inr s' \<and> variant_by demo_oms 3 = Some v
     \<and> map_option (line_variant s') (item_by s' 20) = Some (Some v) \<and> payments s' = payments demo_oms"
proof -
  have "\<not> isl (update_item_variant 7 20 50 3 demo_oms)" by code_simp
  then obtain s' where s': "update_item_variant 7 20 50 3 demo_oms = Inr s'"
    by (cases "update_item_variant 7 20 50 3 demo_oms") auto
  from variant_correction_narrow [OF this] s' show ?thesis by blast
qed

text \<open>
  A sync decides the variant of every line it lists, whatever was written there before: a telecaller's
  correction of a synchronised line lasts until the order's next delivery from Shopify.
\<close>

lemma sync_overwrites_correction:
  fixes s :: "'a order_db_scheme"
  assumes "by_external o_source o_external (orders s) (so_source d) (so_external d) = Some ord"
    and "\<not> stale_delivery d ord" and "upsert_synced_order g d s = Inr (x, s')" and "i \<in> set (so_items d)"
    and keys: "keys_ok oi_id (order_items s) s" and lines: "distinct (map si_external (so_items d))"
  shows "\<exists>r. by_external oi_source oi_external (order_items s') (so_source d) (si_external i) = Some r
    \<and> oi_variant r = synced_variant (so_source d) i s \<and> oi_sku r = si_sku i"
proof -
  let ?t = "order_update (o_id ord) (sync_existing (find_customer s d) d) s"
  have s': "s' = sync_rest g d (o_id ord) False ?t"
    using assms(1-3) by (auto simp: upsert_synced_order_def Let_def bindR_Inr_iff)
  have "keys_ok oi_id (order_items ?t) ?t" using keys by (simp add: keys_ok_def)
  from items_settle [OF lines this, of "so_source d" "o_id ord"] assms(4)
  have "settled (so_source d) (o_id ord) i s'"
    by (simp add: s' settled_cong [OF sync_rest_tables(2)] sync_rest_tables items_fold [where h = product_variants]
        settled_cong [of s' "foldl (\<lambda>t i. item_upsert (so_source d) (o_id ord) i t) ?t (so_items d)"])
  then obtain r where r: "by_external oi_source oi_external (order_items s') (so_source d) (si_external i) = Some r"
    "write_item (o_id ord) (synced_variant (so_source d) i s') i r = r" by (auto simp: settled_def)
  have "oi_variant r = synced_variant (so_source d) i s'" "oi_sku r = si_sku i"
    using arg_cong [OF r(2), of oi_variant] arg_cong [OF r(2), of oi_sku] by (simp_all add: write_item_def)
  moreover have "synced_variant (so_source d) i s' = synced_variant (so_source d) i s"
    by (simp add: synced_variant_def s' sync_rest_tables split: option.split)
  ultimately show ?thesis using r(1) by auto
qed

end
