(* ===== verification/Couriers.thy ===== *)
theory Couriers
  imports Orders_Facts
begin

text \<open>
  Couriers: \<open>upsert_synced_courier\<close> of \<open>app/services/courier_service.py\<close> and the search for an
  unused code, a loop that tries one suffix after another.
\<close>

record courier =
  co_id :: uuid
  co_name :: string
  co_code :: string
  co_source :: string
  co_external :: "string option"

record courier_db = order_db +
  couriers :: "courier list"

section \<open>Codes\<close>

definition is_slug_char :: "char \<Rightarrow> bool" where
  "is_slug_char c \<longleftrightarrow> (let n = (of_char c :: nat) in (97 \<le> n \<and> n \<le> 122) \<or> (48 \<le> n \<and> n \<le> 57))"

text \<open>\<open>re.sub(r"[^a-z0-9]+", "_", text)\<close>: every run of other characters is one underscore.\<close>

fun slug_runs :: "bool \<Rightarrow> string \<Rightarrow> string" where
  "slug_runs in_run [] = []"
| "slug_runs in_run (c # cs) =
     (if is_slug_char c then c # slug_runs False cs
      else if in_run then slug_runs True cs else CHR ''_'' # slug_runs True cs)"

definition strip_underscores :: "string \<Rightarrow> string" where
  "strip_underscores t = rev (dropWhile ((=) CHR ''_'') (rev (dropWhile ((=) CHR ''_'') t)))"

definition base_code :: "string \<Rightarrow> string \<Rightarrow> string" where
  "base_code name ext =
     (let slug = strip_underscores (slug_runs False (lower (strip name)))
      in if slug = [] then ''courier-'' @ ext else slug)"

definition code_taken :: "'a courier_db_scheme \<Rightarrow> string \<Rightarrow> bool" where
  "code_taken s code \<longleftrightarrow> code \<in> co_code ` set (couriers s)"

definition nth_code :: "string \<Rightarrow> nat \<Rightarrow> string" where
  "nth_code base n = (if n = 0 then base else base @ ''-'' @ show_nat n)"

text \<open>The \<open>while\<close> loop: \<open>None\<close> if it never ends.\<close>

partial_function (option) try_codes :: "'a courier_db_scheme \<Rightarrow> string \<Rightarrow> nat \<Rightarrow> string option" where
  "try_codes s base n =
     (if code_taken s (nth_code base n) then try_codes s base (Suc n) else Some (nth_code base n))"

declare try_codes.simps [code]

definition unique_code_for :: "string \<Rightarrow> string \<Rightarrow> 'a courier_db_scheme \<Rightarrow> string option" where
  "unique_code_for name ext s = try_codes s (base_code name ext) 0"

section \<open>The loop ends\<close>

lemma show_nat_digit: "n < 10 \<Longrightarrow> show_nat n = [char_of (48 + n)]"
  by (simp add: show_nat.simps)

lemma show_nat_step: "\<not> n < 10 \<Longrightarrow> show_nat n = show_nat (n div 10) @ [char_of (48 + n mod 10)]"
  by (subst show_nat.simps) simp

lemma show_nat_not_Nil [simp]: "show_nat n \<noteq> []"
  by (subst show_nat.simps) simp

lemma Nil_not_show_nat [simp]: "[] \<noteq> show_nat n"
  by (metis show_nat_not_Nil)

lemma digit_inj:
  assumes "char_of (48 + a) = (char_of (48 + b) :: char)" and "a < 10" and "b < (10 :: nat)"
  shows "a = b"
proof -
  have "of_char (char_of (48 + a) :: char) = (of_char (char_of (48 + b) :: char) :: nat)"
    using assms(1) by simp
  then show ?thesis using assms(2,3) by simp
qed

lemma show_nat_inj: "show_nat a = show_nat b \<Longrightarrow> a = b"
proof (induction a arbitrary: b rule: less_induct)
  case (less a)
  show ?case
  proof (cases "a < 10")
    case True
    show ?thesis
    proof (cases "b < 10")
      case True
      with \<open>a < 10\<close> less.prems show ?thesis by (auto simp: show_nat_digit dest: digit_inj)
    next
      case False
      with \<open>a < 10\<close> less.prems show ?thesis by (auto simp: show_nat_digit show_nat_step)
    qed
  next
    case False
    show ?thesis
    proof (cases "b < 10")
      case True
      with \<open>\<not> a < 10\<close> less.prems show ?thesis by (auto simp: show_nat_digit show_nat_step)
    next
      case b: False
      with False less.prems have eq: "show_nat (a div 10) = show_nat (b div 10)"
          "char_of (48 + a mod 10) = (char_of (48 + b mod 10) :: char)"
        by (auto simp: show_nat_step)
      have "a div 10 = b div 10" using less.IH [OF _ eq(1)] False by simp
      moreover have "a mod 10 = b mod 10" using digit_inj [OF eq(2)] by simp
      ultimately show ?thesis by (metis div_mult_mod_eq)
    qed
  qed
qed

lemma nth_code_inj: "nth_code base a = nth_code base b \<Longrightarrow> a = b"
  by (auto simp: nth_code_def dest: show_nat_inj split: if_split_asm)

text \<open>
  The loop goes on from \<open>n\<close> while the codes from \<open>n\<close> are taken; a finite table takes finitely many.
\<close>

lemma try_codes_finds:
  assumes "n \<le> m" and "\<not> code_taken s (nth_code base m)" and "\<And>k. n \<le> k \<Longrightarrow> k < m \<Longrightarrow> code_taken s (nth_code base k)"
  shows "try_codes s base n = Some (nth_code base m)"
  using assms
proof (induction "m - n" arbitrary: n)
  case 0
  then show ?case by (subst try_codes.simps) simp
next
  case (Suc d)
  then have "code_taken s (nth_code base n)" "n < m" by simp_all
  moreover have "try_codes s base (Suc n) = Some (nth_code base m)"
    using Suc.hyps(2) Suc.prems by (intro Suc.hyps(1)) simp_all
  ultimately show ?case by (subst try_codes.simps) simp
qed

lemma some_code_free: "\<exists>m \<le> length (couriers s). \<not> code_taken s (nth_code base m)"
proof (rule ccontr)
  assume "\<not> ?thesis"
  then have "nth_code base ` {.. length (couriers s)} \<subseteq> co_code ` set (couriers s)"
    by (auto simp: code_taken_def)
  then have "card (nth_code base ` {.. length (couriers s)}) \<le> card (co_code ` set (couriers s))"
    by (rule card_mono [rotated]) simp
  also have "\<dots> \<le> length (couriers s)"
    using card_image_le [of "set (couriers s)" co_code] card_length [of "couriers s"] by simp
  finally show False
    by (simp add: card_image inj_on_def nth_code_inj)
qed

lemma unique_code_found:
  "\<exists>m \<le> length (couriers s). unique_code_for name ext s = Some (nth_code (base_code name ext) m)
    \<and> \<not> code_taken s (nth_code (base_code name ext) m)
    \<and> (\<forall>k<m. code_taken s (nth_code (base_code name ext) k))"
proof -
  let ?free = "\<lambda>m. \<not> code_taken s (nth_code (base_code name ext) m)"
  obtain j where "j \<le> length (couriers s)" "?free j" using some_code_free by blast
  define m where "m = (LEAST m. ?free m)"
  have m: "?free m" "m \<le> j" unfolding m_def using \<open>?free j\<close> by (rule LeastI, intro Least_le)
  have below: "\<not> ?free k" if "k < m" for k using that not_less_Least unfolding m_def by blast
  have "unique_code_for name ext s = Some (nth_code (base_code name ext) m)"
    unfolding unique_code_for_def using m(1) below by (intro try_codes_finds) auto
  with m below \<open>j \<le> _\<close> show ?thesis by (intro exI [of _ m]) auto
qed

section \<open>Upsert\<close>

definition courier_update :: "uuid \<Rightarrow> (courier \<Rightarrow> courier) \<Rightarrow> 'a courier_db_scheme \<Rightarrow> 'a courier_db_scheme" where
  "courier_update cid f s = s\<lparr>couriers := set_where (\<lambda>r. co_id r = cid) f (couriers s)\<rparr>"

text \<open>\<open>None\<close> would mean that the search for a code does not end.\<close>

definition upsert_synced_courier ::
  "string \<Rightarrow> string \<Rightarrow> string \<Rightarrow> 'a courier_db_scheme \<Rightarrow> ((uuid \<times> bool) \<times> 'a courier_db_scheme) option" where
  "upsert_synced_courier source ext name s =
     (case by_external co_source co_external (couriers s) source ext of
        Some c \<Rightarrow> Some ((co_id c, False), courier_update (co_id c) (\<lambda>r. r\<lparr>co_name := name\<rparr>) s)
      | None \<Rightarrow> map_option (\<lambda>code. ((next_id s, True), fresh (s\<lparr>couriers := couriers s @
          [\<lparr>co_id = next_id s, co_name = name, co_code = code, co_source = source, co_external = Some ext\<rparr>]\<rparr>)))
          (unique_code_for name ext s))"

lemma upsert_courier_total: "\<exists>x s'. upsert_synced_courier source ext name s = Some (x, s')"
  using unique_code_found [of s name ext]
  by (auto simp: upsert_synced_courier_def split: option.split)

lemma upsert_courier_codes:
  assumes "upsert_synced_courier source ext name s = Some (x, s')" and "distinct (map co_code (couriers s))"
  shows "distinct (map co_code (couriers s'))"
  using assms unique_code_found [of s name ext]
  by (auto simp: upsert_synced_courier_def courier_update_def set_where_keys fresh_def code_taken_def
      split: option.split_asm)

end
