(* ===== verification/Shipping.thy ===== *)
theory Shipping
  imports Couriers
begin

text \<open>
  Shipments after an order: \<open>app/services/shipment_service.py\<close>, \<open>ndr_service.py\<close>,
  \<open>rto_service.py\<close>, \<open>shiprocket_service.py\<close>, \<open>shiprocket_webhook_service.py\<close>, the tracking
  ingestion of \<open>app/integrations/shiprocket/sync.py\<close> with the status map of \<open>normalizer.py\<close>, and
  \<open>sync_fulfillment_for_shipment\<close>.

  An operation that commits in the middle returns the committed database with its result, an
  \<open>attempt\<close>. Raw payload columns are not kept.
\<close>

section \<open>Tables\<close>

record shipment_event =
  se_id :: uuid
  se_shipment :: uuid
  se_external :: "string option"
  se_status :: string
  se_location :: "string option"
  se_at :: instant
  se_description :: "string option"
  se_courier :: "string option"
  se_source :: string

record ndr =
  nd_id :: uuid
  nd_shipment :: uuid
  nd_order :: uuid
  nd_courier :: "uuid option"
  nd_reason :: "string option"
  nd_attempt :: int
  nd_status :: ndr_status
  nd_response :: "string option"
  nd_reattempt_status :: "string option"
  nd_reattempt_date :: "instant option"
  nd_notes :: "string option"
  nd_source :: string
  nd_external :: "string option"

record rto =
  rt_id :: uuid
  rt_shipment :: uuid
  rt_order :: uuid
  rt_courier :: "uuid option"
  rt_reason :: "string option"
  rt_status :: rto_status
  rt_notes :: "string option"
  rt_source :: string
  rt_external :: "string option"

record shipping_db = courier_db +
  shipment_events :: "shipment_event list"
  ndrs :: "ndr list"
  rtos :: "rto list"

type_synonym ('s, 'a) attempt = "'s \<times> 'a result"

text \<open>\<open>a or b\<close> for optional text: the empty text counts as absent.\<close>

definition text_or :: "string option \<Rightarrow> string option \<Rightarrow> string option" where
  "text_or a b = (if a = None \<or> a = Some [] then b else a)"

abbreviation present :: "string option \<Rightarrow> bool" where
  "present a \<equiv> a \<noteq> None \<and> a \<noteq> Some []"

section \<open>Shipments\<close>

definition get_shipment :: "uuid \<Rightarrow> 'a order_db_scheme \<Rightarrow> shipment result" where
  "get_shipment sid s = require_some (shipment_by s sid) (NotFoundError ''Shipment not found.'')"

text \<open>The columns of an update; an absent one is dropped (\<open>if v is not None\<close>).\<close>

record shipment_fields =
  sf_awb :: "string option"
  sf_shiprocket :: "string option"
  sf_courier :: "uuid option"
  sf_status :: "shipment_status option"
  sf_expected :: "instant option"
  sf_location :: "string option"

definition no_fields :: shipment_fields where
  "no_fields = \<lparr>sf_awb = None, sf_shiprocket = None, sf_courier = None, sf_status = None,
     sf_expected = None, sf_location = None\<rparr>"

definition keep :: "'a option \<Rightarrow> 'a option \<Rightarrow> 'a option" where
  "keep new old = (case new of None \<Rightarrow> old | Some _ \<Rightarrow> new)"

definition set_fields :: "shipment_fields \<Rightarrow> shipment \<Rightarrow> shipment" where
  "set_fields f r = r\<lparr>shp_awb := keep (sf_awb f) (shp_awb r),
     shp_shiprocket := keep (sf_shiprocket f) (shp_shiprocket r), shp_courier := keep (sf_courier f) (shp_courier r),
     shp_status := (case sf_status f of None \<Rightarrow> shp_status r | Some v \<Rightarrow> v),
     shp_expected := keep (sf_expected f) (shp_expected r), shp_location := keep (sf_location f) (shp_location r)\<rparr>"

text \<open>The unique columns \<open>awb\<close> and \<open>shiprocket_shipment_id\<close>: another row holds the value.\<close>

definition clashes :: "uuid option \<Rightarrow> string option \<Rightarrow> string option \<Rightarrow> shipment list \<Rightarrow> bool" where
  "clashes sid awb shiprocket rows \<longleftrightarrow> (\<exists>r\<in>set rows. Some (shp_id r) \<noteq> sid \<and>
     ((awb \<noteq> None \<and> shp_awb r = awb) \<or> (shiprocket \<noteq> None \<and> shp_shiprocket r = shiprocket)))"

fun shipment_status_value :: "shipment_status \<Rightarrow> string" where
  "shipment_status_value SHP_PENDING = ''pending''"
| "shipment_status_value PICKED_UP = ''picked_up''"
| "shipment_status_value IN_TRANSIT = ''in_transit''"
| "shipment_status_value OUT_FOR_DELIVERY = ''out_for_delivery''"
| "shipment_status_value SHP_DELIVERED = ''delivered''"
| "shipment_status_value NDR = ''ndr''"
| "shipment_status_value RTO_INITIATED = ''rto_initiated''"
| "shipment_status_value RTO_DELIVERED = ''rto_delivered''"
| "shipment_status_value SHP_CANCELLED = ''cancelled''"

definition given :: "string \<Rightarrow> 'a option \<Rightarrow> jval \<Rightarrow> (string \<times> jval) list" where
  "given name field v = (if field = None then [] else [(name, v)])"

definition field_values :: "shipment_fields \<Rightarrow> shipment \<Rightarrow> (string \<times> jval) list" where
  "field_values f r = given ''awb'' (sf_awb f) (jtext (shp_awb r))
     @ given ''shiprocket_shipment_id'' (sf_shiprocket f) (jtext (shp_shiprocket r))
     @ given ''courier_id'' (sf_courier f) (case shp_courier r of None \<Rightarrow> JNull | Some c \<Rightarrow> JId c)
     @ given ''current_status'' (sf_status f) (JStr (shipment_status_value (shp_status r)))
     @ given ''expected_delivery_date'' (sf_expected f) (case shp_expected r of None \<Rightarrow> JNull | Some t \<Rightarrow> JInt t)
     @ given ''current_location'' (sf_location f) (jtext (shp_location r))"

definition update_shipment ::
  "uuid \<Rightarrow> uuid option \<Rightarrow> shipment_fields \<Rightarrow> 'a order_db_scheme \<Rightarrow> 'a order_db_scheme result" where
  "update_shipment sid actor f s =
     bindR (get_shipment sid s) (\<lambda>sh.
     if f = no_fields then Inr s
     else bindR (require (\<not> clashes (Some sid) (sf_awb f) (sf_shiprocket f) (shipments s)) (IntegrityError ''shipments'')) (\<lambda>_.
       Inr (audit_record actor ''shipment.updated'' ''shipment'' sid (field_values f sh)
         (field_values f (set_fields f sh)) [] (shipment_update sid (set_fields f) s))))"

definition new_shipment :: "uuid \<Rightarrow> uuid \<Rightarrow> string \<Rightarrow> string option \<Rightarrow> shipment" where
  "new_shipment sid oid source ext = \<lparr>shp_id = sid, shp_order = oid, shp_shiprocket = None, shp_awb = None,
     shp_courier = None, shp_status = SHP_PENDING, shp_ndr = None, shp_rto = None, shp_location = None,
     shp_last_update = None, shp_expected = None, shp_fulfillment = None, shp_sync = NOT_APPLICABLE,
     shp_sync_error = None, shp_synced_at = None, shp_source = source, shp_external = ext\<rparr>"

definition create_shipment ::
  "uuid option \<Rightarrow> uuid \<Rightarrow> string option \<Rightarrow> uuid option \<Rightarrow> instant option \<Rightarrow> 'a order_db_scheme
   \<Rightarrow> (uuid \<times> 'a order_db_scheme) result" where
  "create_shipment actor oid awb courier_id expected s =
     bindR (require (order_by s oid \<noteq> None) (IntegrityError ''shipments.order_id'')) (\<lambda>_.
     bindR (require (\<not> clashes None awb None (shipments s)) (IntegrityError ''shipments'')) (\<lambda>_.
     let sid = next_id s;
         s1 = fresh (s\<lparr>shipments := shipments s @ [(new_shipment sid oid ''manual'' None)
                \<lparr>shp_awb := awb, shp_courier := courier_id, shp_expected := expected\<rparr>]\<rparr>)
     in Inr (sid, audit_record actor ''shipment.created'' ''shipment'' sid []
          [(''order_id'', JId oid), (''awb'', jtext awb)] [] s1)))"

text \<open>\<open>find_duplicate\<close>: by the event's own id where it has one, else by status and time.\<close>

definition same_event :: "uuid \<Rightarrow> string option \<Rightarrow> string \<Rightarrow> instant \<Rightarrow> shipment_event \<Rightarrow> bool" where
  "same_event sid ext status t e \<longleftrightarrow> se_shipment e = sid \<and>
     (if present ext then se_external e = ext else se_status e = status \<and> se_at e = t)"

definition find_duplicate ::
  "uuid \<Rightarrow> string option \<Rightarrow> string \<Rightarrow> instant \<Rightarrow> 'a shipping_db_scheme \<Rightarrow> shipment_event option result" where
  "find_duplicate sid ext status t s =
     (case filter (same_event sid ext status t) (shipment_events s) of
        [] \<Rightarrow> Inr None | [e] \<Rightarrow> Inr (Some e) | _ \<Rightarrow> Inl MultipleResultsFound)"

definition add_tracking_event ::
  "uuid \<Rightarrow> string option \<Rightarrow> string \<Rightarrow> string option \<Rightarrow> instant \<Rightarrow> string option \<Rightarrow> string option \<Rightarrow> string
   \<Rightarrow> 'a shipping_db_scheme \<Rightarrow> ((shipment_event \<times> bool) \<times> 'a shipping_db_scheme) result" where
  "add_tracking_event sid ext status location t description courier_name source s =
     bindR (get_shipment sid s) (\<lambda>_.
     bindR (find_duplicate sid ext status t s) (\<lambda>duplicate.
     case duplicate of
       Some e \<Rightarrow> Inr ((e, False), s)
     | None \<Rightarrow>
        bindR (require (ext = None \<or> \<not> (\<exists>e\<in>set (shipment_events s). se_shipment e = sid \<and> se_external e = ext))
                 (IntegrityError ''shipment_events'')) (\<lambda>_.
        let e = \<lparr>se_id = next_id s, se_shipment = sid, se_external = ext, se_status = status,
              se_location = location, se_at = t, se_description = description, se_courier = courier_name,
              se_source = source\<rparr>;
            s1 = fresh (s\<lparr>shipment_events := shipment_events s @ [e]\<rparr>)
        in Inr ((e, True), shipment_update sid
             (\<lambda>r. r\<lparr>shp_location := text_or location (shp_location r), shp_last_update := Some t\<rparr>) s1))))"

definition upsert_synced_shipment ::
  "string \<Rightarrow> string \<Rightarrow> uuid \<Rightarrow> shipment_fields \<Rightarrow> 'a order_db_scheme \<Rightarrow> ((uuid \<times> bool) \<times> 'a order_db_scheme) result" where
  "upsert_synced_shipment source ext oid f s =
     (case by_external shp_source shp_external (shipments s) source ext of
        Some sh \<Rightarrow>
          bindR (require (\<not> clashes (Some (shp_id sh)) (sf_awb f) (sf_shiprocket f) (shipments s)) (IntegrityError ''shipments'')) (\<lambda>_.
          Inr ((shp_id sh, False), shipment_update (shp_id sh) (\<lambda>r. (set_fields f r)\<lparr>shp_order := oid\<rparr>) s))
      | None \<Rightarrow>
          bindR (require (\<not> clashes None (sf_awb f) (sf_shiprocket f) (shipments s)) (IntegrityError ''shipments'')) (\<lambda>_.
          Inr ((next_id s, True), fresh (s\<lparr>shipments := shipments s @
            [set_fields f (new_shipment (next_id s) oid source (Some ext))]\<rparr>))))"

section \<open>Delivery exceptions and returns to origin\<close>

definition ndr_by :: "'a shipping_db_scheme \<Rightarrow> uuid \<Rightarrow> ndr option" where
  "ndr_by s = row_by nd_id (ndrs s)"

definition ndr_update :: "uuid \<Rightarrow> (ndr \<Rightarrow> ndr) \<Rightarrow> 'a shipping_db_scheme \<Rightarrow> 'a shipping_db_scheme" where
  "ndr_update i f s = s\<lparr>ndrs := set_where (\<lambda>r. nd_id r = i) f (ndrs s)\<rparr>"

definition rto_by :: "'a shipping_db_scheme \<Rightarrow> uuid \<Rightarrow> rto option" where
  "rto_by s = row_by rt_id (rtos s)"

definition rto_row_update :: "uuid \<Rightarrow> (rto \<Rightarrow> rto) \<Rightarrow> 'a shipping_db_scheme \<Rightarrow> 'a shipping_db_scheme" where
  "rto_row_update i f s = s\<lparr>rtos := set_where (\<lambda>r. rt_id r = i) f (rtos s)\<rparr>"

definition shipment_by_awb :: "'a order_db_scheme \<Rightarrow> string \<Rightarrow> shipment option" where
  "shipment_by_awb s awb = find (\<lambda>r. shp_awb r = Some awb) (shipments s)"

fun ndr_status_value :: "ndr_status \<Rightarrow> string" where
  "ndr_status_value OPEN = ''open''"
| "ndr_status_value CUSTOMER_CONTACTED = ''customer_contacted''"
| "ndr_status_value REATTEMPT_SCHEDULED = ''reattempt_scheduled''"
| "ndr_status_value RESOLVED = ''resolved''"
| "ndr_status_value NDR_RTO_INITIATED = ''rto_initiated''"

fun rto_status_value :: "rto_status \<Rightarrow> string" where
  "rto_status_value INITIATED = ''initiated''"
| "rto_status_value RTO_IN_TRANSIT = ''in_transit''"
| "rto_status_value RECEIVED = ''received''"
| "rto_status_value RTO_CANCELLED = ''cancelled''"

definition update_ndr ::
  "uuid \<Rightarrow> uuid option \<Rightarrow> ndr_status option \<Rightarrow> string option \<Rightarrow> string option \<Rightarrow> instant option
   \<Rightarrow> string option \<Rightarrow> 'a shipping_db_scheme \<Rightarrow> 'a shipping_db_scheme result" where
  "update_ndr i actor status response reattempt_status reattempt_date notes s =
     bindR (require_some (ndr_by s i) (NotFoundError ''NDR not found.'')) (\<lambda>n.
     let s1 = ndr_update i (\<lambda>r. r\<lparr>nd_status := (case status of None \<Rightarrow> nd_status r | Some v \<Rightarrow> v),
            nd_response := keep response (nd_response r),
            nd_reattempt_status := keep reattempt_status (nd_reattempt_status r),
            nd_reattempt_date := keep reattempt_date (nd_reattempt_date r),
            nd_notes := keep notes (nd_notes r)\<rparr>) s
     in Inr (case status of
          None \<Rightarrow> s1
        | Some v \<Rightarrow> audit_record actor ''ndr.status_changed'' ''ndr'' i
            [(''status'', JStr (ndr_status_value (nd_status n)))] [(''status'', JStr (ndr_status_value v))] []
            (shipment_update (nd_shipment n) (\<lambda>r. r\<lparr>shp_ndr := Some v\<rparr>) s1)))"

text \<open>An NDR belongs to the shipment with its AWB; without one it is refused, never invented.\<close>

definition upsert_synced_ndr ::
  "string \<Rightarrow> string \<Rightarrow> string option \<Rightarrow> string option \<Rightarrow> int option \<Rightarrow> 'a shipping_db_scheme
   \<Rightarrow> ((uuid \<times> bool) \<times> 'a shipping_db_scheme) result" where
  "upsert_synced_ndr source ext awb reason attempt s =
     bindR (require_some (case awb of None \<Rightarrow> None | Some a \<Rightarrow> if a = [] then None else shipment_by_awb s a)
              (NotFoundError ''No OMS shipment found for Shiprocket NDR'')) (\<lambda>sh.
     let write = (\<lambda>r. r\<lparr>nd_shipment := shp_id sh, nd_order := shp_order sh, nd_courier := shp_courier sh,
            nd_reason := keep reason (nd_reason r), nd_attempt := (case attempt of None \<Rightarrow> nd_attempt r | Some a \<Rightarrow> a)\<rparr>)
     in case by_external nd_source nd_external (ndrs s) source ext of
          Some n \<Rightarrow> Inr ((nd_id n, False),
            shipment_update (shp_id sh) (\<lambda>r. r\<lparr>shp_ndr := Some (nd_status n)\<rparr>) (ndr_update (nd_id n) write s))
        | None \<Rightarrow> Inr ((next_id s, True),
            shipment_update (shp_id sh) (\<lambda>r. r\<lparr>shp_ndr := Some OPEN\<rparr>)
              (fresh (s\<lparr>ndrs := ndrs s @ [write \<lparr>nd_id = next_id s, nd_shipment = shp_id sh, nd_order = shp_order sh,
                nd_courier = None, nd_reason = None, nd_attempt = 1, nd_status = OPEN, nd_response = None,
                nd_reattempt_status = None, nd_reattempt_date = None, nd_notes = None, nd_source = source,
                nd_external = Some ext\<rparr>]\<rparr>))))"

definition update_rto ::
  "uuid \<Rightarrow> uuid option \<Rightarrow> rto_status option \<Rightarrow> string option \<Rightarrow> 'a shipping_db_scheme
   \<Rightarrow> 'a shipping_db_scheme result" where
  "update_rto i actor status notes s =
     bindR (require_some (rto_by s i) (NotFoundError ''RTO not found.'')) (\<lambda>r0.
     let s1 = rto_row_update i (\<lambda>r. r\<lparr>rt_status := (case status of None \<Rightarrow> rt_status r | Some v \<Rightarrow> v),
            rt_notes := keep notes (rt_notes r)\<rparr>) s
     in case status of
          None \<Rightarrow> Inr s1
        | Some v \<Rightarrow>
            let s2 = audit_record actor ''rto.status_changed'' ''rto'' i
                  [(''status'', JStr (rto_status_value (rt_status r0)))] [(''status'', JStr (rto_status_value v))] []
                  (shipment_update (rt_shipment r0) (\<lambda>r. r\<lparr>shp_rto := Some v\<rparr>) s1)
            in if v = RECEIVED then apply_rto_restock (rt_order r0) i s2 else Inr s2)"

text \<open>
  The lookup by external id compares with \<open>==\<close>, which is \<open>IS NULL\<close> for a shipment without an
  AWB: it then finds any row of the source without an external id.
\<close>

definition rto_by_external :: "'a shipping_db_scheme \<Rightarrow> string \<Rightarrow> string option \<Rightarrow> rto option" where
  "rto_by_external s source ext = find (\<lambda>r. rt_source r = source \<and> rt_external r = ext) (rtos s)"

definition write_rto :: "shipment \<Rightarrow> rto_status \<Rightarrow> string option \<Rightarrow> rto \<Rightarrow> rto" where
  "write_rto sh status reason r = r\<lparr>rt_shipment := shp_id sh, rt_order := shp_order sh,
     rt_courier := shp_courier sh, rt_status := status, rt_reason := keep reason (rt_reason r)\<rparr>"

definition upsert_synced_rto ::
  "string \<Rightarrow> string option \<Rightarrow> shipment \<Rightarrow> rto_status \<Rightarrow> string option \<Rightarrow> 'a shipping_db_scheme
   \<Rightarrow> (uuid \<times> bool) \<times> 'a shipping_db_scheme" where
  "upsert_synced_rto source ext sh status reason s =
     (let mark = shipment_update (shp_id sh) (\<lambda>r. r\<lparr>shp_rto := Some status\<rparr>)
      in case rto_by_external s source ext of
           Some r0 \<Rightarrow> ((rt_id r0, False), mark (rto_row_update (rt_id r0) (write_rto sh status reason) s))
         | None \<Rightarrow> ((next_id s, True), mark (fresh (s\<lparr>rtos := rtos s @ [write_rto sh status reason
             \<lparr>rt_id = next_id s, rt_shipment = shp_id sh, rt_order = shp_order sh, rt_courier = None,
              rt_reason = None, rt_status = INITIATED, rt_notes = None, rt_source = source, rt_external = ext\<rparr>]\<rparr>))))"

section \<open>Tracking\<close>

definition upper_char :: "char \<Rightarrow> char" where
  "upper_char c = (let n = (of_char c :: nat) in if 97 \<le> n \<and> n \<le> 122 then char_of (n - 32) else c)"

definition normalize_key :: "string option \<Rightarrow> string" where
  "normalize_key raw = map upper_char (strip (case raw of None \<Rightarrow> [] | Some t \<Rightarrow> t))"

definition shipment_status_map :: "(string \<times> shipment_status) list" where
  "shipment_status_map =
     [(''NEW'', SHP_PENDING), (''PICKUP SCHEDULED'', SHP_PENDING), (''PICKUP GENERATED'', SHP_PENDING),
      (''PICKED UP'', PICKED_UP), (''SHIPPED'', PICKED_UP), (''IN TRANSIT'', IN_TRANSIT),
      (''OUT FOR DELIVERY'', OUT_FOR_DELIVERY), (''DELIVERED'', SHP_DELIVERED), (''UNDELIVERED'', NDR),
      (''NDR'', NDR), (''CANCELLED'', SHP_CANCELLED), (''CANCELED'', SHP_CANCELLED),
      (''RTO INITIATED'', RTO_INITIATED), (''RTO IN TRANSIT'', RTO_INITIATED), (''RTO'', RTO_INITIATED),
      (''RTO DELIVERED'', RTO_DELIVERED)]"

definition normalize_shipment_status :: "string option \<Rightarrow> shipment_status option" where
  "normalize_shipment_status raw = map_of shipment_status_map (normalize_key raw)"

text \<open>
  A normalised event. \<open>te_status\<close> is the provider's text, \<open>te_mapped\<close> the OMS status it maps to.
\<close>

record tracking_event =
  te_external :: "string option"
  te_status :: string
  te_location :: "string option"
  te_at :: "instant option"
  te_description :: "string option"
  te_courier :: "string option"

abbreviation te_mapped :: "tracking_event \<Rightarrow> shipment_status option" where
  "te_mapped ev \<equiv> normalize_shipment_status (Some (te_status ev))"

fun rto_status_of :: "shipment_status \<Rightarrow> rto_status option" where
  "rto_status_of RTO_INITIATED = Some INITIATED"
| "rto_status_of RTO_DELIVERED = Some RECEIVED"
| "rto_status_of _ = None"

definition dispatched_statuses :: "shipment_status list" where
  "dispatched_statuses = [PICKED_UP, IN_TRANSIT, OUT_FOR_DELIVERY, SHP_DELIVERED]"

definition terminal_statuses :: "shipment_status list" where
  "terminal_statuses = [SHP_DELIVERED, SHP_CANCELLED, RTO_DELIVERED]"

text \<open>A failed stock write is rolled back and logged; ingestion goes on.\<close>

definition swallow :: "'s result \<Rightarrow> 's \<Rightarrow> 's" where
  "swallow r s = (case r of Inl _ \<Rightarrow> s | Inr s' \<Rightarrow> s')"

definition track_status ::
  "uuid \<Rightarrow> uuid option \<Rightarrow> shipment_status option \<Rightarrow> 'a order_db_scheme \<Rightarrow> 'a order_db_scheme result" where
  "track_status sid actor mapped s = (case mapped of None \<Rightarrow> Inr s
     | Some st \<Rightarrow> update_shipment sid actor (no_fields\<lparr>sf_status := Some st\<rparr>) s)"

definition track_dispatch ::
  "shipment \<Rightarrow> shipment_status option \<Rightarrow> 'a stock_db_scheme \<Rightarrow> 'a stock_db_scheme" where
  "track_dispatch sh mapped s = (case mapped of None \<Rightarrow> s
     | Some st \<Rightarrow> if st \<in> set dispatched_statuses then swallow (apply_dispatch (shp_order sh) (shp_id sh) s) s else s)"

definition track_rto ::
  "shipment \<Rightarrow> shipment_status option \<Rightarrow> string option \<Rightarrow> 'a shipping_db_scheme \<Rightarrow> 'a shipping_db_scheme" where
  "track_rto sh mapped description s =
     (case Option.bind mapped rto_status_of of
        None \<Rightarrow> s
      | Some st \<Rightarrow> (case upsert_synced_rto ''shiprocket'' (shp_awb sh) sh st description s of
          ((rid, _), s1) \<Rightarrow> if st = RECEIVED then swallow (apply_rto_restock (shp_order sh) rid s1) s1 else s1))"

definition apply_tracking_event ::
  "uuid \<Rightarrow> string \<Rightarrow> tracking_event \<Rightarrow> 'a shipping_db_scheme \<Rightarrow> ('a shipping_db_scheme, bool) attempt" where
  "apply_tracking_event sid source ev s =
     (case te_at ev of
        None \<Rightarrow> (s, Inr False)
      | Some t \<Rightarrow>
         (case add_tracking_event sid (te_external ev) (te_status ev) (te_location ev) t (te_description ev)
                 (te_courier ev) source s of
            Inl e \<Rightarrow> (s, Inl e)
          | Inr ((_, created), s1) \<Rightarrow>
             (case track_status sid None (te_mapped ev) s1 of
                Inl e \<Rightarrow> (s1, Inl e)
              | Inr s2 \<Rightarrow>
                 (case shipment_by s2 sid of
                    None \<Rightarrow> (s2, Inr created)
                  | Some sh \<Rightarrow>
                     (track_rto sh (te_mapped ev) (te_description ev) (track_dispatch sh (te_mapped ev) s2),
                      Inr created)))))"

section \<open>Tracking webhooks\<close>

text \<open>A value of a webhook body: absent or null, text, or a number.\<close>

datatype raw_value = RNull | RText string | RNum int

type_synonym payload = "(string \<times> raw_value) list"

fun first_present :: "payload \<Rightarrow> string list \<Rightarrow> raw_value" where
  "first_present p [] = RNull"
| "first_present p (k # ks) =
     (case map_of p k of
        Some v \<Rightarrow> if v = RNull \<or> v = RText [] then first_present p ks else v
      | None \<Rightarrow> first_present p ks)"

definition normalize_identifier :: "raw_value \<Rightarrow> string option" where
  "normalize_identifier v = (case v of
     RNull \<Rightarrow> None
   | RText t \<Rightarrow> if strip t = [] then None else Some (strip t)
   | RNum i \<Rightarrow> Some (show_int i))"

record webhook_ids =
  wi_awb :: "string option"
  wi_shipment :: "string option"
  wi_order :: "string option"
  wi_channel :: "string option"

definition extract_webhook_shipment_identifiers :: "payload \<Rightarrow> webhook_ids" where
  "extract_webhook_shipment_identifiers p =
     \<lparr>wi_awb = normalize_identifier (first_present p [''awb'', ''awb_code'']),
      wi_shipment = normalize_identifier (first_present p [''shipment_id'', ''sr_shipment_id'']),
      wi_order = normalize_identifier (first_present p [''sr_order_id'']),
      wi_channel = normalize_identifier (first_present p
        [''channel_order_id'', ''channel_order_number'', ''reference_number'', ''order_id''])\<rparr>"

definition resolve_order_by_channel_order_id :: "'a order_db_scheme \<Rightarrow> string option \<Rightarrow> order option" where
  "resolve_order_by_channel_order_id s channel =
     (case channel of
        None \<Rightarrow> None
      | Some c \<Rightarrow>
          if c = [] then None
          else (case order_by_number s c of
            Some ord \<Rightarrow> Some ord
          | None \<Rightarrow> if hd c = CHR ''#'' then None else order_by_number s (CHR ''#'' # c)))"

definition resolve_shopify_order_by_api_order_id :: "'a order_db_scheme \<Rightarrow> string option \<Rightarrow> order option" where
  "resolve_shopify_order_by_api_order_id s api =
     (case api of
        None \<Rightarrow> None
      | Some i \<Rightarrow>
          if i = [] then None
          else (case filter (\<lambda>r. o_source r = ''shopify'' \<and> o_external r = Some i) (orders s) of
            [ord] \<Rightarrow> Some ord | _ \<Rightarrow> None))"

text \<open>
  \<open>GET /orders/show/{id}\<close> of the Shiprocket API: the channel order id and the API order id of its
  answer, or nothing when the lookup failed.
\<close>

type_synonym orders_show = "string \<Rightarrow> (string option \<times> string option) option"

definition resolve_order_via_orders_show :: "orders_show \<Rightarrow> string \<Rightarrow> 'a order_db_scheme \<Rightarrow> order option" where
  "resolve_order_via_orders_show api i s =
     (case api i of
        None \<Rightarrow> None
      | Some (channel, api_id) \<Rightarrow>
         (case resolve_order_by_channel_order_id s channel of
            Some ord \<Rightarrow> Some ord
          | None \<Rightarrow> resolve_shopify_order_by_api_order_id s api_id))"

definition webhook_order ::
  "orders_show \<Rightarrow> webhook_ids \<Rightarrow> 'a order_db_scheme \<Rightarrow> (order \<times> string) option" where
  "webhook_order api ids s =
     (case resolve_order_by_channel_order_id s (wi_channel ids) of
        Some ord \<Rightarrow> Some (ord, ''channel_order_id'')
      | None \<Rightarrow> (case wi_order ids of
          None \<Rightarrow> None
        | Some i \<Rightarrow> map_option (\<lambda>ord. (ord, ''shiprocket_order_id'')) (resolve_order_via_orders_show api i s)))"

definition find_or_create_shipment ::
  "orders_show \<Rightarrow> webhook_ids \<Rightarrow> 'a order_db_scheme \<Rightarrow> ((uuid option \<times> string) \<times> 'a order_db_scheme) result" where
  "find_or_create_shipment api ids s =
     (case Option.bind (wi_awb ids) (shipment_by_awb s) of
        Some sh \<Rightarrow> Inr ((Some (shp_id sh), ''awb''), s)
      | None \<Rightarrow> (case Option.bind (wi_shipment ids) (by_external shp_source shp_external (shipments s) ''shiprocket'') of
          Some sh \<Rightarrow> Inr ((Some (shp_id sh), ''shiprocket_shipment_id''), s)
        | None \<Rightarrow> (case webhook_order api ids s of
            None \<Rightarrow> Inr ((None, ''unmatched''), s)
          | Some (ord, strategy) \<Rightarrow> (case shipments_for_order s (o_id ord) of
              [sh] \<Rightarrow> Inr ((Some (shp_id sh), strategy), s)
            | _ # _ \<Rightarrow> Inr ((None, ''ambiguous_multiple_shipments_for_order''), s)
            | [] \<Rightarrow> (case (if wi_shipment ids = None then wi_awb ids else wi_shipment ids) of
                None \<Rightarrow> Inr ((None, ''order_resolved_no_shipment_identifier''), s)
              | Some ext \<Rightarrow>
                  bindR (upsert_synced_shipment ''shiprocket'' ext (o_id ord)
                     (no_fields\<lparr>sf_shiprocket := wi_shipment ids, sf_awb := wi_awb ids\<rparr>) s)
                   (\<lambda>((sid, _), s1). Inr ((Some sid, strategy @ ''_created_shipment''), s1)))))))"

fun apply_events ::
  "uuid \<Rightarrow> string \<Rightarrow> tracking_event list \<Rightarrow> 'a shipping_db_scheme \<Rightarrow> ('a shipping_db_scheme, bool) attempt" where
  "apply_events sid source [] s = (s, Inr False)"
| "apply_events sid source (ev # evs) s =
     (case apply_tracking_event sid source ev s of
        (s1, Inl e) \<Rightarrow> (s1, Inl e)
      | (s1, Inr created) \<Rightarrow> (case apply_events sid source evs s1 of
          (s2, Inl e) \<Rightarrow> (s2, Inl e)
        | (s2, Inr later_new) \<Rightarrow> (s2, Inr (created \<or> later_new))))"

definition apply_identifier_updates :: "uuid \<Rightarrow> webhook_ids \<Rightarrow> 'a order_db_scheme \<Rightarrow> 'a order_db_scheme result" where
  "apply_identifier_updates sid ids s =
     bindR (get_shipment sid s) (\<lambda>sh.
     update_shipment sid None (no_fields\<lparr>
       sf_awb := (if wi_awb ids \<noteq> None \<and> shp_awb sh \<noteq> wi_awb ids then wi_awb ids else None),
       sf_shiprocket := (if wi_shipment ids \<noteq> None \<and> shp_shiprocket sh \<noteq> wi_shipment ids
         then wi_shipment ids else None)\<rparr>) s)"

text \<open>The events of the body, normalised; one without a time gets the time of arrival.\<close>

definition apply_tracking_webhook ::
  "orders_show \<Rightarrow> payload \<Rightarrow> tracking_event list \<Rightarrow> 'a shipping_db_scheme
   \<Rightarrow> ('a shipping_db_scheme, uuid option \<times> string) attempt" where
  "apply_tracking_webhook api body events s =
     (let ids = extract_webhook_shipment_identifiers body
      in case find_or_create_shipment api ids s of
           Inl e \<Rightarrow> (s, Inl e)
         | Inr ((None, strategy), s1) \<Rightarrow> (s1, Inr (None, strategy))
         | Inr ((Some sid, strategy), s1) \<Rightarrow>
            (case apply_events sid ''shiprocket_webhook''
                    (map (\<lambda>ev. ev\<lparr>te_at := Some (case te_at ev of None \<Rightarrow> clock s | Some t \<Rightarrow> t)\<rparr>) events) s1 of
               (s2, Inl e) \<Rightarrow> (s2, Inl e)
             | (s2, Inr _) \<Rightarrow> (case apply_identifier_updates sid ids s2 of
                 Inl e \<Rightarrow> (s2, Inl e)
               | Inr s3 \<Rightarrow> (s3, Inr (Some sid, strategy)))))"

section \<open>Scheduled tracking refresh\<close>

text \<open>
  \<open>refresh_tracking\<close>: the shipments with an AWB that are not terminal, each with the events the
  provider reports for it. A shipment that raises is skipped and counted.
\<close>

definition refresh_due :: "'a order_db_scheme \<Rightarrow> shipment list" where
  "refresh_due s = filter (\<lambda>r. shp_awb r \<noteq> None \<and> shp_status r \<notin> set terminal_statuses) (shipments s)"

fun refresh_each ::
  "(string \<Rightarrow> tracking_event list result) \<Rightarrow> shipment list \<Rightarrow> nat \<times> nat \<Rightarrow> 'a shipping_db_scheme
   \<Rightarrow> (nat \<times> nat) \<times> 'a shipping_db_scheme" where
  "refresh_each track [] counts s = (counts, s)"
| "refresh_each track (sh # shs) (updated, failed) s =
     (case track (case shp_awb sh of None \<Rightarrow> [] | Some a \<Rightarrow> a) of
        Inl _ \<Rightarrow> refresh_each track shs (updated, Suc failed) s
      | Inr events \<Rightarrow> (case apply_events (shp_id sh) ''shiprocket'' events s of
          (s1, Inl _) \<Rightarrow> refresh_each track shs (updated, Suc failed) s1
        | (s1, Inr any_new) \<Rightarrow> refresh_each track shs (if any_new then Suc updated else updated, failed) s1))"

definition refresh_tracking ::
  "(string \<Rightarrow> tracking_event list result) \<Rightarrow> 'a shipping_db_scheme \<Rightarrow> (nat \<times> nat) \<times> 'a shipping_db_scheme" where
  "refresh_tracking track s = refresh_each track (refresh_due s) (0, 0) s"

section \<open>Shiprocket operations\<close>

text \<open>What Shiprocket and Shopify answer to the calls of an operator's action.\<close>

record courier_api =
  ca_configured :: bool
  ca_create_order :: "order \<Rightarrow> string option result"
  ca_assign_awb :: "string \<Rightarrow> string option \<Rightarrow> (string option \<times> string option \<times> string option) result"
  ca_pickup :: "string \<Rightarrow> unit result"
  ca_tracking :: "string \<Rightarrow> tracking_event list result"
  ca_reattempt :: "string \<Rightarrow> unit result"
  ca_open_fulfillment :: "string \<Rightarrow> (string option, string) sum"
  ca_update_tracking :: "string \<Rightarrow> string \<Rightarrow> (string, string) sum"
  ca_create_fulfillment :: "string \<Rightarrow> string \<Rightarrow> (string, string) sum"

definition check_shippable :: "order \<Rightarrow> 'a order_db_scheme \<Rightarrow> unit result" where
  "check_shippable ord s =
     bindR (require (o_status ord = CONFIRMED) (ConflictError ''Order is not confirmed.'')) (\<lambda>_.
     bindR (require (o_fulfillment ord \<noteq> FULFILLED) (ConflictError ''Order is already fulfilled.'')) (\<lambda>_.
     bindR (require (has_address ord) (ConflictError ''Order has no shipping address on file.'')) (\<lambda>_.
     bindR (require (\<forall>r\<in>set (shipments_for_order s (o_id ord)). shp_status r = SHP_CANCELLED)
              (ConflictError ''A shipment already exists for this order.'')) (\<lambda>_.
     bindR (check_stock_available (o_id ord) s) (\<lambda>shortages.
     require (shortages = []) (ConflictError ''Cannot create shipment: insufficient stock for one or more items.''))))))"

text \<open>The dry run of the bulk screen: only a \<open>ConflictError\<close> is a reason; anything else is raised.\<close>

fun validate_shipment_eligibility ::
  "uuid list \<Rightarrow> 'a order_db_scheme \<Rightarrow> (uuid \<times> bool \<times> string option) list result" where
  "validate_shipment_eligibility [] s = Inr []"
| "validate_shipment_eligibility (oid # oids) s =
     bindR (case order_by s oid of
        None \<Rightarrow> Inr (oid, False, Some ''Order not found.'')
      | Some ord \<Rightarrow> (case check_shippable ord s of
          Inr _ \<Rightarrow> Inr (oid, True, None)
        | Inl (ConflictError m) \<Rightarrow> Inr (oid, False, Some m)
        | Inl e \<Rightarrow> Inl e)) (\<lambda>row.
     bindR (validate_shipment_eligibility oids s) (\<lambda>rows. Inr (row # rows)))"

definition create_shipment_for_order ::
  "courier_api \<Rightarrow> uuid \<Rightarrow> uuid option \<Rightarrow> 'a order_db_scheme \<Rightarrow> (uuid \<times> 'a order_db_scheme) result" where
  "create_shipment_for_order api oid actor s =
     bindR (get_order oid s) (\<lambda>ord.
     bindR (check_shippable ord s) (\<lambda>_.
     bindR (require (ca_configured api) (IntegrationError ''Shiprocket is not configured with a pickup location'')) (\<lambda>_.
     bindR (ca_create_order api ord) (\<lambda>answer.
     bindR (require (present answer)
              (IntegrationError ''Shiprocket order creation response did not include a shipment_id.'')) (\<lambda>_.
     bindR (upsert_synced_shipment ''shiprocket'' (the answer) oid (no_fields\<lparr>sf_shiprocket := answer\<rparr>) s) (\<lambda>((sid, _), s1).
     Inr (sid, audit_record actor ''shipment.created_via_shiprocket'' ''shipment'' sid []
       [(''order_id'', JId oid), (''shiprocket_shipment_id'', jtext answer)] []
       (shipment_update sid (\<lambda>r. r\<lparr>shp_sync := (if shopify_id ord = None then NOT_APPLICABLE else SYNC_PENDING)\<rparr>) s1))))))))"

text \<open>One order's failure never stops the rest.\<close>

fun bulk_create_shipments_for_orders ::
  "courier_api \<Rightarrow> uuid list \<Rightarrow> uuid option \<Rightarrow> 'a order_db_scheme \<Rightarrow> (uuid \<times> uuid result) list \<times> 'a order_db_scheme" where
  "bulk_create_shipments_for_orders api [] actor s = ([], s)"
| "bulk_create_shipments_for_orders api (oid # oids) actor s =
     (case create_shipment_for_order api oid actor s of
        Inl e \<Rightarrow> (case bulk_create_shipments_for_orders api oids actor s of (rows, s') \<Rightarrow> ((oid, Inl e) # rows, s'))
      | Inr (sid, s1) \<Rightarrow>
          (case bulk_create_shipments_for_orders api oids actor s1 of (rows, s') \<Rightarrow> ((oid, Inr sid) # rows, s')))"

definition record_sync_failure ::
  "uuid \<Rightarrow> uuid option \<Rightarrow> string \<Rightarrow> 'a order_db_scheme \<Rightarrow> 'a order_db_scheme" where
  "record_sync_failure sid actor message s =
     audit_record actor ''shipment.shopify_fulfillment_sync_failed'' ''shipment'' sid []
       [(''error'', JStr (take 2000 message))] []
       (shipment_update sid (\<lambda>r. r\<lparr>shp_sync := SYNC_FAILED, shp_sync_error := Some (take 2000 message)\<rparr>) s)"

definition mark_synced ::
  "uuid \<Rightarrow> uuid option \<Rightarrow> string \<Rightarrow> string \<Rightarrow> 'a order_db_scheme \<Rightarrow> 'a order_db_scheme" where
  "mark_synced sid actor action fulfillment s =
     audit_record actor action ''shipment'' sid [] [(''shopify_fulfillment_id'', JStr fulfillment)] []
       (shipment_update sid (\<lambda>r. r\<lparr>shp_fulfillment := Some fulfillment, shp_sync := SYNCED, shp_sync_error := None,
          shp_synced_at := Some (clock s)\<rparr>) s)"

definition already_fulfilled_message :: string where
  "already_fulfilled_message = ''Shopify reports no remaining open fulfillment orders for this order -- treating as already fulfilled (likely by an earlier attempt whose result the OMS failed to record).''"

definition sync_fulfillment_for_shipment ::
  "courier_api \<Rightarrow> uuid \<Rightarrow> uuid option \<Rightarrow> 'a order_db_scheme \<Rightarrow> 'a order_db_scheme result" where
  "sync_fulfillment_for_shipment api sid actor s =
     bindR (get_shipment sid s) (\<lambda>sh.
     Inr (case Option.bind (order_by s (shp_order sh)) shopify_id of
        None \<Rightarrow> if shp_sync sh = NOT_APPLICABLE then s
                else shipment_update sid (\<lambda>r. r\<lparr>shp_sync := NOT_APPLICABLE\<rparr>) s
      | Some i \<Rightarrow>
         if present (shp_fulfillment sh) \<or> \<not> present (shp_awb sh) then s
         else (case ca_open_fulfillment api i of
           Inr message \<Rightarrow> record_sync_failure sid actor message s
         | Inl None \<Rightarrow>
            (case Option.bind (order_by s (shp_order sh)) (\<lambda>ord. text_or (o_confirmation_fulfillment ord) None) of
               Some f \<Rightarrow> (case ca_update_tracking api f (the (shp_awb sh)) of
                   Inr message \<Rightarrow> record_sync_failure sid actor message s
                 | Inl fid \<Rightarrow> mark_synced sid actor ''shipment.shopify_tracking_synced_to_confirmation_fulfillment'' fid s)
             | None \<Rightarrow>
                 if shp_sync sh = SYNC_FAILED
                 then shipment_update sid (\<lambda>r. r\<lparr>shp_sync := SYNCED, shp_sync_error := Some already_fulfilled_message,
                        shp_synced_at := Some (clock s)\<rparr>) s
                 else shipment_update sid (\<lambda>r. r\<lparr>shp_sync := NOT_APPLICABLE\<rparr>) s)
         | Inl (Some f) \<Rightarrow> (case ca_create_fulfillment api f (the (shp_awb sh)) of
             Inr message \<Rightarrow> record_sync_failure sid actor message s
           | Inl fid \<Rightarrow> mark_synced sid actor ''shipment.shopify_fulfillment_synced'' fid s))))"

definition upsert_assigned_courier ::
  "string option \<Rightarrow> string option \<Rightarrow> 'a courier_db_scheme \<Rightarrow> (uuid option \<times> 'a courier_db_scheme) option" where
  "upsert_assigned_courier name company s =
     (if present name \<and> present company
      then map_option (\<lambda>((cid, _), s1). (Some cid, s1)) (upsert_synced_courier ''shiprocket'' (the company) (the name) s)
      else Some (None, s))"

text \<open>
  \<open>assign_awb\<close>: the courier, the AWB and the audit row are committed before the Shopify push,
  which never raises. \<open>None\<close> is a search for a courier code that does not end.
\<close>

definition assign_awb ::
  "courier_api \<Rightarrow> uuid \<Rightarrow> uuid option \<Rightarrow> string option \<Rightarrow> 'a courier_db_scheme \<Rightarrow> ('a courier_db_scheme, unit) attempt option" where
  "assign_awb api sid actor courier_id s =
     (case bindR (get_shipment sid s) (\<lambda>sh.
        bindR (require (present (shp_shiprocket sh)) (ConflictError ''Shipment has no Shiprocket shipment id.'')) (\<lambda>_.
        ca_assign_awb api (the (shp_shiprocket sh)) courier_id)) of
       Inl e \<Rightarrow> Some (s, Inl e)
     | Inr (awb, name, company) \<Rightarrow>
        map_option (\<lambda>(cid, s1).
          let f = no_fields\<lparr>sf_awb := text_or awb None, sf_courier := cid\<rparr>
          in if clashes (Some sid) (sf_awb f) None (shipments s1) then (s1, Inl (IntegrityError ''shipments''))
             else
               let s2 = audit_record actor ''shipment.awb_assigned'' ''shipment'' sid []
                     [(''awb'', jtext awb), (''courier'', jtext name)] []
                     (shipment_update sid (set_fields f) s1)
               in if present awb then (case sync_fulfillment_for_shipment api sid actor s2 of
                      Inl e \<Rightarrow> (s2, Inl e) | Inr s3 \<Rightarrow> (s3, Inr ()))
                  else (s2, Inr ()))
          (upsert_assigned_courier name (text_or company courier_id) s))"

definition request_pickup ::
  "courier_api \<Rightarrow> uuid \<Rightarrow> uuid option \<Rightarrow> 'a shipping_db_scheme \<Rightarrow> 'a shipping_db_scheme result" where
  "request_pickup api sid actor s =
     bindR (get_shipment sid s) (\<lambda>sh.
     bindR (require (present (shp_shiprocket sh)) (ConflictError ''Shipment has no Shiprocket shipment id.'')) (\<lambda>_.
     bindR (ca_pickup api (the (shp_shiprocket sh))) (\<lambda>_.
     bindR (add_tracking_event sid None ''PICKUP SCHEDULED'' None (clock s)
              (Some ''Pickup requested via Shiprocket.'') None ''shiprocket'' s) (\<lambda>(_, s1).
     Inr (audit_record actor ''shipment.pickup_requested'' ''shipment'' sid [] [] [] s1)))))"

text \<open>
  The operator's refresh writes the event and the status only: unlike \<open>apply_tracking_event\<close> it
  moves no stock and derives no RTO row.
\<close>

fun refresh_events ::
  "uuid \<Rightarrow> uuid option \<Rightarrow> tracking_event list \<Rightarrow> 'a shipping_db_scheme \<Rightarrow> ('a shipping_db_scheme, unit) attempt" where
  "refresh_events sid actor [] s = (s, Inr ())"
| "refresh_events sid actor (ev # evs) s =
     (case te_at ev of
        None \<Rightarrow> refresh_events sid actor evs s
      | Some t \<Rightarrow>
         (case add_tracking_event sid (te_external ev) (te_status ev) (te_location ev) t (te_description ev)
                 (te_courier ev) ''shiprocket'' s of
            Inl e \<Rightarrow> (s, Inl e)
          | Inr (_, s1) \<Rightarrow> (case track_status sid actor (te_mapped ev) s1 of
              Inl e \<Rightarrow> (s1, Inl e)
            | Inr s2 \<Rightarrow> refresh_events sid actor evs s2)))"

definition refresh_tracking_for_shipment ::
  "courier_api \<Rightarrow> uuid \<Rightarrow> uuid option \<Rightarrow> 'a shipping_db_scheme \<Rightarrow> ('a shipping_db_scheme, unit) attempt" where
  "refresh_tracking_for_shipment api sid actor s =
     (case bindR (get_shipment sid s) (\<lambda>sh.
        bindR (require (present (shp_awb sh)) (ConflictError ''Shipment has no AWB yet.'')) (\<lambda>_.
        ca_tracking api (the (shp_awb sh)))) of
       Inl e \<Rightarrow> (s, Inl e)
     | Inr events \<Rightarrow> (case refresh_events sid actor events s of
         (s1, Inl e) \<Rightarrow> (s1, Inl e)
       | (s1, Inr _) \<Rightarrow>
           (audit_record actor ''shipment.tracking_refreshed'' ''shipment'' sid [] [] [] s1, Inr ())))"

definition ndr_reattempt ::
  "courier_api \<Rightarrow> uuid \<Rightarrow> uuid option \<Rightarrow> string \<Rightarrow> string \<Rightarrow> 'a shipping_db_scheme \<Rightarrow> 'a shipping_db_scheme result" where
  "ndr_reattempt api i actor address phone s =
     bindR (require_some (ndr_by s i) (NotFoundError ''NDR not found.'')) (\<lambda>n.
     bindR (require_some (Option.bind (shipment_by s (nd_shipment n)) (\<lambda>sh. text_or (shp_awb sh) None))
              (ConflictError ''This NDR's shipment has no AWB.'')) (\<lambda>awb.
     bindR (ca_reattempt api awb) (\<lambda>_.
     bindR (update_ndr i actor (Some REATTEMPT_SCHEDULED) (Some (''Reattempt requested: '' @ address))
              (Some ''requested'') None None s) (\<lambda>s1.
     Inr (audit_record actor ''ndr.reattempt_requested'' ''ndr'' i []
       [(''address_1'', JStr address), (''phone'', JStr phone)] [] s1)))))"

end
