(* ===== verification/Shipping_Facts.thy ===== *)
theory Shipping_Facts
  imports Shipping
begin

text \<open>
  Lemmas on shipments and tracking: the tables each operation leaves alone, the interface of an
  order-scoped stock move that happens once (which dispatch and restock both provide), and the
  stages of the ingestion of a tracking event.
\<close>

section \<open>Tables an operation leaves alone\<close>

lemma shipping_frame [simp]:
  "shipment_events (fresh s) = shipment_events s" "rtos (fresh s) = rtos s" "ndrs (fresh s) = ndrs s"
  "shipment_events (audit_record u a t e p n m s) = shipment_events s"
  "rtos (audit_record u a t e p n m s) = rtos s" "ndrs (audit_record u a t e p n m s) = ndrs s"
  "shipment_events (shipment_update i f s) = shipment_events s"
  "rtos (shipment_update i f s) = rtos s" "ndrs (shipment_update i f s) = ndrs s"
  by (simp_all add: fresh_def audit_record_def shipment_update_def)

text \<open>The tables the stock service reads and writes.\<close>

definition stock_part ::
  "'a stock_db_scheme \<Rightarrow> product_variant list \<times> inventory_movement list \<times> order_item list \<times> move_key list" where
  "stock_part s = (product_variants s, inventory_movements s, order_items s, unseen_moves s)"

lemma stock_part_frame [simp]:
  "stock_part (fresh s) = stock_part s" "stock_part (audit_record u a t e p n m s) = stock_part s"
  "stock_part (shipment_update i f s) = stock_part s" "stock_part (rto_row_update i g s) = stock_part s"
  by (simp_all add: stock_part_def fresh_def audit_record_def shipment_update_def rto_row_update_def)

lemma stock_part_tables [simp]:
  "stock_part (s\<lparr>shipment_events := x\<rparr>) = stock_part s" "stock_part (s\<lparr>rtos := y\<rparr>) = stock_part s"
  "stock_part (s\<lparr>shipments := z\<rparr>) = stock_part s"
  by (simp_all add: stock_part_def)

lemma stock_part_eqD:
  assumes "stock_part s = stock_part t"
  shows "variants_wf s = variants_wf t" "available s = available t" "taken s = taken t"
    "items_for_order s = items_for_order t" "resolve_variant s = resolve_variant t"
    "first_line_boxes s = first_line_boxes t"
proof -
  have eq: "product_variants s = product_variants t" "inventory_movements s = inventory_movements t"
    "order_items s = order_items t" "unseen_moves s = unseen_moves t"
    using assms by (simp_all add: stock_part_def)
  show "variants_wf s = variants_wf t" "available s = available t" "taken s = taken t"
    by (auto simp: eq variants_wf_def available_def variant_by_def taken_def move_keys_def fun_eq_iff)
  show items: "items_for_order s = items_for_order t" by (auto simp: eq items_for_order_def fun_eq_iff)
  show res: "resolve_variant s = resolve_variant t"
    by (auto simp: eq fun_eq_iff resolve_variant_def variant_by_def variant_by_sku_def split: option.split)
  then have h: "hits s = hits t" by (simp add: fun_eq_iff hits_def)
  show "first_line_boxes s = first_line_boxes t"
    by (intro ext) (simp only: first_line_boxes_def items res first_line_def h)
qed

section \<open>Stock moves that happen once per order\<close>

text \<open>Every variant the lines of an order resolve to has been moved by this type already.\<close>

definition all_moved :: "'a stock_db_scheme \<Rightarrow> uuid \<Rightarrow> movement_type \<Rightarrow> bool" where
  "all_moved s ord t \<longleftrightarrow> (\<forall>item\<in>set (items_for_order s ord). \<forall>vid. hits s vid item \<longrightarrow> (vid, ord, t) \<in> taken s)"

lemma all_moved_cong: "stock_part s = stock_part s' \<Longrightarrow> all_moved s = all_moved s'"
  using stock_part_eqD [of s s'] by (simp add: fun_eq_iff all_moved_def hits_def)

locale moved_once =
  fixes run :: "uuid \<Rightarrow> uuid \<Rightarrow> 'a stock_db_scheme \<Rightarrow> 'a stock_db_scheme result" and t :: movement_type
  assumes total: "variants_wf s \<Longrightarrow> \<exists>s'. run ord x s = Inr s'"
    and settles: "variants_wf s \<Longrightarrow> run ord x s = Inr s' \<Longrightarrow> variants_wf s' \<and> all_moved s' ord t"
    and skips: "variants_wf s \<Longrightarrow> all_moved s ord t \<Longrightarrow> run ord x s = Inr s"
begin

lemma swallow_settles:
  assumes "variants_wf s"
  shows "variants_wf (swallow (run ord x s) s) \<and> all_moved (swallow (run ord x s) s) ord t"
  using total [OF assms, of ord x] settles [OF assms, of ord x] by (auto simp: swallow_def)

lemma again: "variants_wf s \<Longrightarrow> run ord x s = Inr s' \<Longrightarrow> run ord y s' = Inr s'"
  using settles skips by blast

text \<open>Whatever happened in between to other tables, a second run changes nothing.\<close>

lemma swallow_again:
  assumes "variants_wf s" and "stock_part u = stock_part (swallow (run ord x s) s)"
  shows "swallow (run ord y u) u = u"
proof -
  have "variants_wf u" "all_moved u ord t"
    using swallow_settles [OF assms(1), of ord x] stock_part_eqD(1) [OF assms(2)] all_moved_cong [OF assms(2)]
    by auto
  then show ?thesis by (simp add: skips swallow_def)
qed

end

lemma dispatch_settles:
  assumes "variants_wf s" and "apply_dispatch ord x s = Inr s'"
  shows "variants_wf s' \<and> all_moved s' ord DISPATCH"
proof -
  have pass: "dispatch.pass ord s s'" using assms by (rule dispatch_pass)
  have "hits s' vid item = hits s vid item" for vid item
    using hits_same_catalog [of s s'] pass by (simp add: pass_facts)
  moreover have "items_for_order s' ord = items_for_order s ord"
    using items_for_order_cong [of s' s] pass by (simp add: pass_facts)
  ultimately have "all_moved s' ord DISPATCH"
    using dispatch.run_settles [OF assms(1) assms(2) [unfolded apply_dispatch_def]] by (simp add: all_moved_def)
  then show ?thesis using dispatch.pass_wf [OF pass assms(1)] by blast
qed

lemma dispatch_skips:
  assumes "variants_wf s" and "all_moved s ord DISPATCH"
  shows "apply_dispatch ord x s = Inr s"
  unfolding apply_dispatch_def
proof (rule for_each_fixpoint)
  fix item
  assume item: "item \<in> set (items_for_order s ord)"
  show "dispatch_line ord x item s = Inr s"
  proof (rule dispatch.settled_line [OF assms(1)])
    show "hits s vid item \<Longrightarrow> (vid, ord, DISPATCH) \<in> taken s" for vid
      using assms(2) item unfolding all_moved_def by blast
    show "line_variant s item = Some v \<Longrightarrow> \<exists>d. dispatch_amount s v item = Inr d" for v
      by (simp add: dispatch_amount_def ceil_div_line [OF assms(1)])
  qed
qed

lemma restock_settles:
  assumes "variants_wf s" and "apply_rto_restock ord x s = Inr s'"
  shows "variants_wf s' \<and> all_moved s' ord RTO_RESTOCK"
proof -
  have pass: "restock.pass ord s s'" using assms by (rule restock_pass)
  have "hits s' vid item = hits s vid item" for vid item
    using hits_same_catalog [of s s'] pass by (simp add: pass_facts)
  moreover have "items_for_order s' ord = items_for_order s ord"
    using items_for_order_cong [of s' s] pass by (simp add: pass_facts)
  ultimately have "all_moved s' ord RTO_RESTOCK"
    using restock.run_settles [OF assms(1) assms(2) [unfolded apply_rto_restock_def]] by (simp add: all_moved_def)
  then show ?thesis using restock.pass_wf [OF pass assms(1)] by blast
qed

lemma restock_skips:
  assumes "variants_wf s" and "all_moved s ord RTO_RESTOCK"
  shows "apply_rto_restock ord x s = Inr s"
  unfolding apply_rto_restock_def
proof (rule for_each_fixpoint)
  fix item
  assume item: "item \<in> set (items_for_order s ord)"
  show "restock_line ord x item s = Inr s"
  proof (rule restock.settled_line [OF assms(1)])
    show "hits s vid item \<Longrightarrow> (vid, ord, RTO_RESTOCK) \<in> taken s" for vid
      using assms(2) item unfolding all_moved_def by blast
    show "line_variant s item = Some v \<Longrightarrow> \<exists>d. restock_boxes s ord v item = Inr d" for v
      by (simp add: restock_boxes_def ceil_div_line [OF assms(1)] split: option.split)
  qed
qed

interpretation dispatch_once: moved_once apply_dispatch DISPATCH
  by unfold_locales (erule apply_dispatch_total, erule (1) dispatch_settles, erule (1) dispatch_skips)

interpretation restock_once: moved_once apply_rto_restock RTO_RESTOCK
  by unfold_locales (erule apply_rto_restock_total, erule (1) restock_settles, erule (1) restock_skips)

section \<open>The stages of a tracking event\<close>

lemma get_shipment_Inr [simp]: "get_shipment sid s = Inr sh \<longleftrightarrow> shipment_by s sid = Some sh"
  by (simp add: get_shipment_def)

lemma shipment_by_rtos [simp]:
  "shipment_by (s\<lparr>rtos := x\<rparr>) = shipment_by s" "shipment_by (s\<lparr>shipment_events := y\<rparr>) = shipment_by s"
  "shipment_by (rto_row_update i g s) = shipment_by s"
  by (simp_all add: shipment_by_def fun_eq_iff rto_row_update_def)

lemma shipment_by_id [dest]: "shipment_by s i = Some sh \<Longrightarrow> shp_id sh = i"
  by (auto simp: shipment_by_def)

text \<open>A new event is appended and refreshes the shipment's location and time; a known one changes nothing.\<close>

lemma add_tracking_cases:
  assumes "add_tracking_event sid ext status loc t desc cn src s = Inr ((e, created), s')"
  obtains (known) "\<not> created" "s' = s" "filter (same_event sid ext status t) (shipment_events s) = [e]"
    "shipment_by s sid \<noteq> None"
  | (new) "created" "filter (same_event sid ext status t) (shipment_events s) = []"
    "same_event sid ext status t e" "shipment_by s sid \<noteq> None"
    "s' = shipment_update sid (\<lambda>r. r\<lparr>shp_location := text_or loc (shp_location r), shp_last_update := Some t\<rparr>)
       (fresh (s\<lparr>shipment_events := shipment_events s @ [e]\<rparr>))"
proof -
  obtain d where d: "shipment_by s sid \<noteq> None" "find_duplicate sid ext status t s = Inr d"
    "(case d of Some x \<Rightarrow> Inr ((x, False), s)
      | None \<Rightarrow> bindR (require (ext = None \<or> \<not> (\<exists>e\<in>set (shipment_events s). se_shipment e = sid \<and> se_external e = ext))
                 (IntegrityError ''shipment_events'')) (\<lambda>_.
        let e = \<lparr>se_id = next_id s, se_shipment = sid, se_external = ext, se_status = status,
              se_location = loc, se_at = t, se_description = desc, se_courier = cn, se_source = src\<rparr>;
            s1 = fresh (s\<lparr>shipment_events := shipment_events s @ [e]\<rparr>)
        in Inr ((e, True), shipment_update sid
             (\<lambda>r. r\<lparr>shp_location := text_or loc (shp_location r), shp_last_update := Some t\<rparr>) s1))) = Inr ((e, created), s')"
    using assms unfolding add_tracking_event_def bindR_Inr_iff by (auto simp: get_shipment_def)
  show thesis
  proof (cases d)
    case (Some x)
    with d(2) have "filter (same_event sid ext status t) (shipment_events s) = [x]"
      by (auto simp: find_duplicate_def split: list.split_asm)
    with d(1,3) Some show thesis by (intro known) auto
  next
    case None
    with d(2) have none: "filter (same_event sid ext status t) (shipment_events s) = []"
      by (auto simp: find_duplicate_def split: list.split_asm)
    from d(3) None have e: "e = \<lparr>se_id = next_id s, se_shipment = sid, se_external = ext, se_status = status,
              se_location = loc, se_at = t, se_description = desc, se_courier = cn, se_source = src\<rparr>" "created"
        "s' = shipment_update sid (\<lambda>r. r\<lparr>shp_location := text_or loc (shp_location r), shp_last_update := Some t\<rparr>)
           (fresh (s\<lparr>shipment_events := shipment_events s @ [e]\<rparr>))"
      by (auto simp: bindR_Inr_iff Let_def)
    with d(1) none show thesis by (intro new) (auto simp: same_event_def)
  qed
qed

text \<open>Adding an event again finds the row, whoever reports it.\<close>

lemma add_tracking_again:
  assumes "add_tracking_event sid ext status loc t desc cn src s = Inr ((e, created), s1)"
    and "shipment_events u = shipment_events s1" and "shipment_by u sid \<noteq> None"
  shows "add_tracking_event sid ext status loc' t desc' cn' src' u = Inr ((e, False), u)"
proof -
  have "filter (same_event sid ext status t) (shipment_events u) = [e]"
    using assms(1) by (cases rule: add_tracking_cases) (simp_all add: assms(2))
  with assms(3) show ?thesis by (auto simp: add_tracking_event_def get_shipment_def find_duplicate_def)
qed

text \<open>The status stage cannot fail: it writes no unique column.\<close>

lemma track_status_Inr:
  assumes "shipment_by s sid = Some sh"
  shows "\<exists>p n. track_status sid actor mapped s = Inr (case mapped of None \<Rightarrow> s
    | Some st \<Rightarrow> audit_record actor ''shipment.updated'' ''shipment'' sid p n []
        (shipment_update sid (\<lambda>r. r\<lparr>shp_status := st\<rparr>) s))"
proof (cases mapped)
  case None
  then show ?thesis by (simp add: track_status_def)
next
  case (Some st)
  have "set_fields (no_fields\<lparr>sf_status := Some st\<rparr>) = (\<lambda>r. r\<lparr>shp_status := st\<rparr>)"
    by (simp add: set_fields_def no_fields_def keep_def fun_eq_iff)
  moreover have "no_fields\<lparr>sf_status := Some st\<rparr> \<noteq> no_fields"
    by (simp add: no_fields_def)
  moreover have "\<not> clashes (Some sid) (sf_awb (no_fields\<lparr>sf_status := Some st\<rparr>))
      (sf_shiprocket (no_fields\<lparr>sf_status := Some st\<rparr>)) rows" for rows
    by (simp add: clashes_def no_fields_def)
  ultimately show ?thesis using assms Some by (auto simp: track_status_def update_shipment_def get_shipment_def)
qed

text \<open>The tables a stock move does not know.\<close>

definition beside_stock :: "'a shipping_db_scheme \<Rightarrow> shipment list \<times> shipment_event list \<times> rto list \<times> order list" where
  "beside_stock s = (shipments s, shipment_events s, rtos s, orders s)"

lemma dispatch_line_beside:
  fixes s :: "'a shipping_db_scheme"
  shows "dispatch_line ord x item s = Inr s' \<Longrightarrow> beside_stock s' = beside_stock s"
  by (auto simp: dispatch_line_def beside_stock_def movement_create_def variant_update_def fresh_def Let_def
      bindR_Inr_iff split: option.split_asm if_split_asm sum.split_asm oms_error.split_asm)

lemma restock_line_beside:
  fixes s :: "'a shipping_db_scheme"
  shows "restock_line ord x item s = Inr s' \<Longrightarrow> beside_stock s' = beside_stock s"
  by (auto simp: restock_line_def beside_stock_def movement_create_def variant_update_def fresh_def Let_def
      bindR_Inr_iff split: option.split_asm if_split_asm sum.split_asm oms_error.split_asm)

lemma stock_run_beside:
  fixes s :: "'a shipping_db_scheme"
  shows "apply_dispatch ord x s = Inr s' \<Longrightarrow> beside_stock s' = beside_stock s"
    and "apply_rto_restock ord x s = Inr s' \<Longrightarrow> beside_stock s' = beside_stock s"
  unfolding apply_dispatch_def apply_rto_restock_def
  by (erule for_each_relation; auto dest: dispatch_line_beside restock_line_beside)+

lemma swallow_beside:
  fixes s :: "'a shipping_db_scheme"
  shows "beside_stock (swallow (apply_dispatch ord x s) s) = beside_stock s"
    and "beside_stock (swallow (apply_rto_restock ord x s) s) = beside_stock s"
  using stock_run_beside [of ord x s] by (auto simp: swallow_def split: sum.split)

lemma track_dispatch_beside: "beside_stock (track_dispatch sh mapped s) = beside_stock s"
  by (simp add: track_dispatch_def swallow_beside split: option.split)

lemma beside_stockD:
  assumes "beside_stock s' = beside_stock s"
  shows "shipments s' = shipments s" "shipment_events s' = shipment_events s" "rtos s' = rtos s"
    "orders s' = orders s" "shipment_by s' = shipment_by s" "rto_by_external s' = rto_by_external s"
  using assms by (auto simp: beside_stock_def shipment_by_def rto_by_external_def fun_eq_iff)

text \<open>The RTO stage marks the shipment and moves stock for a received return only.\<close>

lemma track_rto_none: "Option.bind mapped rto_status_of = None \<Longrightarrow> track_rto sh mapped d s = s"
  by (simp add: track_rto_def)

lemma rto_upsert_tables:
  assumes "upsert_synced_rto src ext sh st d s = ((rid, c), s1)"
  shows "shipments s1 = set_where (\<lambda>r. shp_id r = shp_id sh) (\<lambda>r. r\<lparr>shp_rto := Some st\<rparr>) (shipments s)"
    and "shipment_events s1 = shipment_events s" and "stock_part s1 = stock_part s" and "orders s1 = orders s"
  using assms
  by (auto simp: upsert_synced_rto_def Let_def rto_row_update_def stock_part_def fresh_def shipment_update_def
      split: option.split_asm)

lemma track_rto_tables:
  "shipment_events (track_rto sh mapped d s) = shipment_events s"
  "shipments (track_rto sh mapped d s) = (case Option.bind mapped rto_status_of of None \<Rightarrow> shipments s
     | Some st \<Rightarrow> set_where (\<lambda>r. shp_id r = shp_id sh) (\<lambda>r. r\<lparr>shp_rto := Some st\<rparr>) (shipments s))"
  by (auto simp: track_rto_def rto_upsert_tables swallow_beside [THEN beside_stockD(1)]
      swallow_beside [THEN beside_stockD(2)] split: option.split prod.split)

text \<open>At most one of the two stock moves belongs to a status.\<close>

lemma dispatched_no_rto: "st \<in> set dispatched_statuses \<Longrightarrow> rto_status_of st = None"
  by (auto simp: dispatched_statuses_def)

lemma track_stock_again:
  fixes s u :: "'a shipping_db_scheme"
  assumes wf: "variants_wf s" and "shp_order sh' = shp_order sh"
    and u: "stock_part u = stock_part (track_rto sh mapped d (track_dispatch sh mapped s))"
  shows "stock_part (track_rto sh' mapped d' (track_dispatch sh' mapped u)) = stock_part u"
proof (cases mapped)
  case None
  then show ?thesis by (simp add: track_rto_def track_dispatch_def)
next
  case (Some st)
  show ?thesis
  proof (cases "st \<in> set dispatched_statuses")
    case True
    note rto = dispatched_no_rto [OF True]
    have "stock_part u = stock_part (swallow (apply_dispatch (shp_order sh) (shp_id sh) s) s)"
      using u True rto Some by (simp add: track_rto_def track_dispatch_def)
    from dispatch_once.swallow_again [OF wf this] show ?thesis
      using True rto Some assms(2) by (simp add: track_rto_def track_dispatch_def)
  next
    case False
    show ?thesis
    proof (cases "rto_status_of st = Some RECEIVED")
      case True
      obtain rid c t where t: "upsert_synced_rto ''shiprocket'' (shp_awb sh) sh RECEIVED d s = ((rid, c), t)"
        by (metis prod.collapse)
      obtain rid' c' t' where t': "upsert_synced_rto ''shiprocket'' (shp_awb sh') sh' RECEIVED d' u = ((rid', c'), t')"
        by (metis prod.collapse)
      have "stock_part t = stock_part s" "stock_part t' = stock_part u"
        using rto_upsert_tables(3) [OF t] rto_upsert_tables(3) [OF t'] by simp_all
      moreover have "stock_part u = stock_part (swallow (apply_rto_restock (shp_order sh) rid t) t)"
        using u False True Some t by (simp add: track_rto_def track_dispatch_def)
      ultimately have "swallow (apply_rto_restock (shp_order sh) rid' t') t' = t'"
        using restock_once.swallow_again [of t t' "shp_order sh" rid] wf stock_part_eqD(1) [of t s] by simp
      then show ?thesis
        using False True Some t' assms(2) \<open>stock_part t' = stock_part u\<close>
        by (simp add: track_rto_def track_dispatch_def)
    next
      case other: False
      then show ?thesis
        using False Some rto_upsert_tables(3) [of "''shiprocket''" "shp_awb sh'" sh' _ d' u]
        by (auto simp: track_rto_def track_dispatch_def split: option.split prod.split)
    qed
  qed
qed

text \<open>An event that was applied went through every stage.\<close>

lemma tracking_stages:
  assumes "apply_tracking_event sid src ev s = (s', Inr c)" and "te_at ev = Some t"
  obtains e s1 s2 sh p n where
    "add_tracking_event sid (te_external ev) (te_status ev) (te_location ev) t (te_description ev) (te_courier ev) src s
      = Inr ((e, c), s1)"
    "s2 = (case te_mapped ev of None \<Rightarrow> s1 | Some st \<Rightarrow> audit_record None ''shipment.updated'' ''shipment'' sid p n []
        (shipment_update sid (\<lambda>r. r\<lparr>shp_status := st\<rparr>) s1))"
    "shipment_by s2 sid = Some sh" "shipment_by s sid \<noteq> None"
    "s' = track_rto sh (te_mapped ev) (te_description ev) (track_dispatch sh (te_mapped ev) s2)"
proof -
  obtain e s1 where add: "add_tracking_event sid (te_external ev) (te_status ev) (te_location ev) t
      (te_description ev) (te_courier ev) src s = Inr ((e, c), s1)"
    using assms by (auto simp: apply_tracking_event_def split: sum.split_asm prod.split_asm option.split_asm)
  then have here: "shipment_by s sid \<noteq> None" by (cases rule: add_tracking_cases) simp_all
  from add have "shipment_by s1 sid \<noteq> None"
    by (cases rule: add_tracking_cases) (auto simp: shipment_by_update)
  then obtain sh1 where sh1: "shipment_by s1 sid = Some sh1" by blast
  from track_status_Inr [OF sh1, of None "te_mapped ev"] obtain p n where
    st: "track_status sid None (te_mapped ev) s1 = Inr (case te_mapped ev of None \<Rightarrow> s1
      | Some st \<Rightarrow> audit_record None ''shipment.updated'' ''shipment'' sid p n []
          (shipment_update sid (\<lambda>r. r\<lparr>shp_status := st\<rparr>) s1))" by blast
  define s2 where "s2 = (case te_mapped ev of None \<Rightarrow> s1
      | Some st \<Rightarrow> audit_record None ''shipment.updated'' ''shipment'' sid p n []
          (shipment_update sid (\<lambda>r. r\<lparr>shp_status := st\<rparr>) s1))"
  have "shipment_by s2 sid \<noteq> None" using sh1 by (auto simp: s2_def shipment_by_update split: option.split)
  then obtain sh where sh: "shipment_by s2 sid = Some sh" by blast
  from assms add st [folded s2_def] sh
  have "s' = track_rto sh (te_mapped ev) (te_description ev) (track_dispatch sh (te_mapped ev) s2)"
    by (simp add: apply_tracking_event_def)
  with that add s2_def sh here show thesis by blast
qed

section \<open>The operator's refresh\<close>

lemma add_tracking_stock:
  "add_tracking_event sid a b c d e f g s = Inr (x, s') \<Longrightarrow> stock_part s' = stock_part s \<and> rtos s' = rtos s"
  by (cases x) (auto elim!: add_tracking_cases)

lemma track_status_stock:
  "track_status sid actor m s = Inr s' \<Longrightarrow> stock_part s' = stock_part s \<and> rtos s' = rtos s"
  by (auto simp: track_status_def update_shipment_def bindR_Inr_iff split: option.split_asm if_split_asm)

lemma refresh_events_stock:
  "refresh_events sid actor evs s = (s', r) \<Longrightarrow> stock_part s' = stock_part s \<and> rtos s' = rtos s"
proof (induction sid actor evs s rule: refresh_events.induct)
  case (2 sid actor ev evs s)
  show ?case
  proof (cases "te_at ev")
    case None
    with 2 show ?thesis by simp
  next
    case (Some t)
    show ?thesis
    proof (cases "add_tracking_event sid (te_external ev) (te_status ev) (te_location ev) t (te_description ev)
        (te_courier ev) ''shiprocket'' s")
      case (Inl e)
      with 2(3) Some show ?thesis by simp
    next
      case (Inr y)
      obtain x s1 where y: "y = (x, s1)" by (rule prod.exhaust)
      note add = Inr [unfolded y]
      show ?thesis
      proof (cases "track_status sid actor (te_mapped ev) s1")
        case (Inl e)
        with 2(3) Some add add_tracking_stock [OF add] show ?thesis by simp
      next
        case (Inr s2)
        with 2(3) Some add have "refresh_events sid actor evs s2 = (s', r)" by simp
        then have "stock_part s' = stock_part s2 \<and> rtos s' = rtos s2"
          using 2(2) [OF Some add refl] Inr by blast
        then show ?thesis using add_tracking_stock [OF add] track_status_stock [OF Inr] by simp
      qed
    qed
  qed
qed simp

section \<open>Creating a shipment\<close>

lemma check_shippable_Inr:
  "check_shippable ord s = Inr u \<longleftrightarrow> o_status ord = CONFIRMED \<and> o_fulfillment ord \<noteq> FULFILLED \<and> has_address ord
     \<and> (\<forall>r\<in>set (shipments_for_order s (o_id ord)). shp_status r = SHP_CANCELLED)
     \<and> check_stock_available (o_id ord) s = Inr []"
  by (auto simp: check_shippable_def bindR_Inr_iff)

text \<open>Where the guard reaches the shipments, a live one is what it reports.\<close>

lemma check_shippable_live:
  assumes "o_status ord = CONFIRMED" "o_fulfillment ord \<noteq> FULFILLED" "has_address ord"
    and "r \<in> set (shipments_for_order s (o_id ord))" "shp_status r \<noteq> SHP_CANCELLED"
  shows "check_shippable ord s = Inl (ConflictError ''A shipment already exists for this order.'')"
proof -
  have "(\<forall>r\<in>set (shipments_for_order s (o_id ord)). shp_status r = SHP_CANCELLED) = False" using assms(4,5) by blast
  with assms(1-3) show ?thesis by (simp only: check_shippable_def require_simps bindR_simps refl not_False_eq_True)
qed

lemma create_shipment_steps:
  assumes "create_shipment_for_order api oid actor s = Inr (sid, s1)"
  obtains ord i b t x where "order_by s oid = Some ord" "check_shippable ord s = Inr ()"
    "ca_create_order api ord = Inr (Some i)" "i \<noteq> []"
    "upsert_synced_shipment ''shiprocket'' i oid (no_fields\<lparr>sf_shiprocket := Some i\<rparr>) s = Inr ((sid, b), t)"
    "shipments s1 = set_where (\<lambda>r. shp_id r = sid) (\<lambda>r. r\<lparr>shp_sync := x\<rparr>) (shipments t)" "orders s1 = orders t"
proof -
  obtain ord where ord: "order_by s oid = Some ord" "check_shippable ord s = Inr ()"
    using assms unfolding create_shipment_for_order_def by (auto simp: bindR_Inr_iff get_order_def)
  obtain answer where answer: "ca_create_order api ord = Inr answer" "present answer"
    using assms ord unfolding create_shipment_for_order_def by (auto simp: bindR_Inr_iff get_order_def)
  then obtain i where i: "answer = Some i" "i \<noteq> []" by auto
  obtain b t where up: "upsert_synced_shipment ''shiprocket'' i oid (no_fields\<lparr>sf_shiprocket := Some i\<rparr>) s = Inr ((sid, b), t)"
    using assms ord answer(1) i unfolding create_shipment_for_order_def by (auto simp: bindR_Inr_iff get_order_def)
  have "s1 = audit_record actor ''shipment.created_via_shiprocket'' ''shipment'' sid []
       [(''order_id'', JId oid), (''shiprocket_shipment_id'', jtext (Some i))] []
       (shipment_update sid (\<lambda>r. r\<lparr>shp_sync := (if shopify_id ord = None then NOT_APPLICABLE else SYNC_PENDING)\<rparr>) t)"
    using assms ord answer(1) i up unfolding create_shipment_for_order_def by (auto simp: bindR_Inr_iff get_order_def)
  with ord answer(1) i up show ?thesis
    by (auto intro!: that [of ord i b t "if shopify_id ord = None then NOT_APPLICABLE else SYNC_PENDING"]
        simp: shipment_update_def)
qed

lemma create_shipment_once:
  assumes c: "create_shipment_for_order api oid actor s = Inr (sid, s1)"
    and new: "\<And>ord i. ca_create_order api ord = Inr (Some i) \<Longrightarrow>
      by_external shp_source shp_external (shipments s) ''shiprocket'' i = None"
  shows "(\<exists>ord. order_by s oid = Some ord \<and> o_status ord = CONFIRMED)
    \<and> (\<forall>r\<in>set (shipments_for_order s oid). shp_status r = SHP_CANCELLED)
    \<and> (\<exists>r. filter (\<lambda>r. shp_status r \<noteq> SHP_CANCELLED) (shipments_for_order s1 oid) = [r] \<and> shp_id r = sid)
    \<and> create_shipment_for_order api' oid actor' s1 = Inl (ConflictError ''A shipment already exists for this order.'')"
proof -
  obtain ord i b t x where ord: "order_by s oid = Some ord" and check: "check_shippable ord s = Inr ()"
    and answer: "ca_create_order api ord = Inr (Some i)" "i \<noteq> []"
    and up: "upsert_synced_shipment ''shiprocket'' i oid (no_fields\<lparr>sf_shiprocket := Some i\<rparr>) s = Inr ((sid, b), t)"
    and x: "shipments s1 = set_where (\<lambda>r. shp_id r = sid) (\<lambda>r. r\<lparr>shp_sync := x\<rparr>) (shipments t)" and orders_s1: "orders s1 = orders t"
    using c by (rule create_shipment_steps)
  have none: "by_external shp_source shp_external (shipments s) ''shiprocket'' i = None"
    using answer(1) by (rule new)
  have t: "shipments t = shipments s @ [(new_shipment sid oid ''shiprocket'' (Some i))\<lparr>shp_shiprocket := Some i\<rparr>]"
      "orders t = orders s"
    using up none
    by (auto simp: upsert_synced_shipment_def bindR_Inr_iff set_fields_def new_shipment_def no_fields_def keep_def)
  define r where "r = (new_shipment sid oid ''shiprocket'' (Some i))\<lparr>shp_shiprocket := Some i, shp_sync := x\<rparr>"
  have id: "o_id ord = oid" using ord by blast
  have ok: "o_status ord = CONFIRMED" "o_fulfillment ord \<noteq> FULFILLED" "has_address ord"
      "\<forall>r\<in>set (shipments_for_order s oid). shp_status r = SHP_CANCELLED"
    using check unfolding check_shippable_Inr id by blast+
  let ?live = "filter (\<lambda>r. shp_status r \<noteq> SHP_CANCELLED \<and> shp_order r = oid)"
  have "?live (shipments s1) = set_where (\<lambda>r. shp_id r = sid) (\<lambda>r. r\<lparr>shp_sync := x\<rparr>) (?live (shipments t))"
    unfolding x by (rule filter_set_where) simp
  moreover have "?live (shipments t) = [(new_shipment sid oid ''shiprocket'' (Some i))\<lparr>shp_shiprocket := Some i\<rparr>]"
    using ok(4) by (auto simp: t(1) shipments_for_order_def new_shipment_def filter_empty_conv)
  ultimately have live: "?live (shipments s1) = [r]"
    by (simp add: set_where_def r_def new_shipment_def)
  have r: "r \<in> set (shipments_for_order s1 oid)" "shp_status r \<noteq> SHP_CANCELLED"
    using arg_cong [OF live, of set] by (auto simp: shipments_for_order_def)
  have "order_by s1 oid = Some ord" using ord orders_s1 t(2) by (simp add: order_by_def)
  moreover have "check_shippable ord s1 = Inl (ConflictError ''A shipment already exists for this order.'')"
    using ok r id by (intro check_shippable_live [of ord r]) simp_all
  ultimately have "create_shipment_for_order api' oid actor' s1
      = Inl (ConflictError ''A shipment already exists for this order.'')"
    by (simp add: create_shipment_for_order_def get_order_def)
  moreover have "filter (\<lambda>r. shp_status r \<noteq> SHP_CANCELLED) (shipments_for_order s1 oid) = [r]"
    using live by (simp add: shipments_for_order_def conj_commute)
  moreover have "shp_id r = sid" by (simp add: r_def new_shipment_def)
  ultimately show ?thesis using ord ok by blast
qed

end
