(* ===== verification/Shipping_Props.thy ===== *)
theory Shipping_Props
  imports Shipping_Facts Orders_Props
begin

text \<open>
  Properties of shipments and tracking, with witnesses on \<open>demo_ship\<close>: order 7, confirmed, with an
  address and one line of variant 2, and order 8 with the shipment 31 on its way, AWB \<open>W31\<close>.
\<close>

definition demo_ship :: shipping_db where
  "demo_ship = \<lparr>clock = 1000, next_id = 100, audit_log = [],
     products = [\<lparr>p_id = 1, p_title = ''Masala'', p_title_override = None\<rparr>], catalog_variants = [],
     product_variants =
       [\<lparr>pv_id = 2, pv_product = 1, pv_sku = ''A'', pv_title = Some ''Orange'', pv_title_override = None,
         pv_available = 10, pv_packets_per_box = 1, pv_pack_size = 2, pv_catalog_variant = None,
         pv_source = ''shopify'', pv_external = Some ''v2''\<rparr>],
     inventory_movements = [], stock_adjustments = [],
     order_items =
       [\<lparr>oi_id = 20, oi_order = 7, oi_variant = Some 2, oi_sku = ''A'', oi_product_name = ''Masala'', oi_quantity = 1,
          oi_unit_price = 100, oi_discount = 0, oi_tax = 0, oi_total = 100, oi_source = ''manual'', oi_external = None\<rparr>,
        \<lparr>oi_id = 21, oi_order = 8, oi_variant = Some 2, oi_sku = ''A'', oi_product_name = ''Masala'', oi_quantity = 3,
          oi_unit_price = 100, oi_discount = 0, oi_tax = 0, oi_total = 300, oi_source = ''manual'', oi_external = None\<rparr>],
     unseen_moves = [], platform_movements = [], marketplace_movements = [], unseen_reversals = [],
     unseen_replacements = [],
     orders = [(demo_order 7 ''O7'' CONFIRMED)\<lparr>o_shipping_address := Some [(''city'', ''Pune'')]\<rparr>,
               demo_order 8 ''O8'' CONFIRMED], order_events = [], payments = [],
     shipments = [(demo_shipment 31 8)\<lparr>shp_awb := Some ''W31'', shp_status := SHP_DELIVERED, shp_last_update := Some 900\<rparr>],
     customers = [], user_names = [], couriers = [\<lparr>co_id = 60, co_name = ''Blue'', co_code = ''blue'',
       co_source = ''shiprocket'', co_external = Some ''1''\<rparr>],
     shipment_events = [], ndrs = [], rtos = []\<rparr>"

definition demo_event :: "string \<Rightarrow> instant \<Rightarrow> tracking_event" where
  "demo_event status t = \<lparr>te_external = None, te_status = status, te_location = None, te_at = Some t,
     te_description = None, te_courier = None\<rparr>"

lemma demo_event_simps [simp]: "te_at (demo_event st t) = Some t" "te_status (demo_event st t) = st"
  by (simp_all add: demo_event_def)

lemma demo_ship_wf [simp]: "variants_wf demo_ship"
  by (simp add: variants_wf_def demo_ship_def)

lemma demo_ship_31: "\<exists>sh. shipment_by demo_ship 31 = Some sh \<and> shp_order sh = 8 \<and> shp_status sh = SHP_DELIVERED
    \<and> shp_last_update sh = Some 900"
  by (simp add: shipment_by_def demo_ship_def demo_shipment_def)

lemma demo_track:
  "\<exists>s' c. apply_tracking_event 31 ''shiprocket'' (demo_event ''In Transit'' 500) demo_ship = (s', Inr c)"
proof -
  have "\<not> isl (snd (apply_tracking_event 31 ''shiprocket'' (demo_event ''In Transit'' 500) demo_ship))" by code_simp
  then show ?thesis by (metis isl_def prod.collapse sum.exhaust_sel)
qed

lemma demo_mapped:
  "te_mapped (demo_event ''In Transit'' t) = Some IN_TRANSIT" "te_mapped (demo_event ''RTO Delivered'' t) = Some RTO_DELIVERED"
  by (simp_all add: normalize_shipment_status_def normalize_key_def demo_event_def) code_simp+

section \<open>Properties\<close>

text \<open>
  C8: the first tracking event, with a time, that shows an order on its way takes from the stock of each variant exactly the boxes
  of the order's first line of that variant (a second line of the same variant takes nothing), and no later event of
  any such status takes any: the whole path from a courier's status text to the variants' stock.
\<close>

theorem tracking_moves_stock:
  assumes "apply_tracking_event sid src ev s = (s', Inr c)" and "te_at ev \<noteq> None"
    and "te_mapped ev = Some st" and "st \<in> {PICKED_UP, IN_TRANSIT, OUT_FOR_DELIVERY, SHP_DELIVERED}"
    and "variants_wf s" and "shipment_by s sid = Some sh"
  shows "available s' vid = available s vid -
    (if (vid, shp_order sh, DISPATCH) \<in> taken s then 0 else first_line_boxes s (shp_order sh) vid)"
proof -
  obtain t where t: "te_at ev = Some t" using assms(2) by blast
  show ?thesis
  proof (rule tracking_stages [OF assms(1) t])
    fix e s1 s2 sh2 p n
    assume add: "add_tracking_event sid (te_external ev) (te_status ev) (te_location ev) t (te_description ev)
        (te_courier ev) src s = Inr ((e, c), s1)"
      and s2: "s2 = (case te_mapped ev of None \<Rightarrow> s1 | Some st \<Rightarrow> audit_record None ''shipment.updated'' ''shipment''
        sid p n [] (shipment_update sid (\<lambda>r. r\<lparr>shp_status := st\<rparr>) s1))"
      and sh2: "shipment_by s2 sid = Some sh2"
      and s': "s' = track_rto sh2 (te_mapped ev) (te_description ev) (track_dispatch sh2 (te_mapped ev) s2)"
    have st: "st \<in> set dispatched_statuses" using assms(4) by (auto simp: dispatched_statuses_def)
    have part: "stock_part s2 = stock_part s"
      using add assms(3) by (cases rule: add_tracking_cases) (simp_all add: s2)
    have ord: "shp_order sh2 = shp_order sh"
      using add sh2 assms(3,6) by (cases rule: add_tracking_cases) (auto simp: s2 shipment_by_update)
    have wf: "variants_wf s2" using stock_part_eqD(1) [OF part] assms(5) by simp
    obtain u where u: "apply_dispatch (shp_order sh2) (shp_id sh2) s2 = Inr u"
      using apply_dispatch_total [OF wf] by blast
    have "s' = u"
      using s' assms(3) st dispatched_no_rto [OF st] u
      by (simp add: track_rto_def track_dispatch_def swallow_def)
    then show ?thesis
      using dispatch_effect [OF wf u, of vid] stock_part_eqD [OF part] ord by simp
  qed
qed

theorem tracking_moves_stock_witness:
  "\<exists>s' c. apply_tracking_event 31 ''shiprocket'' (demo_event ''In Transit'' 500) demo_ship = (s', Inr c)
     \<and> available s' 2 = 4"
proof -
  obtain s' c where r: "apply_tracking_event 31 ''shiprocket'' (demo_event ''In Transit'' 500) demo_ship = (s', Inr c)"
    using demo_track by blast
  obtain sh where sh: "shipment_by demo_ship 31 = Some sh" "shp_order sh = 8" using demo_ship_31 by blast
  have "available s' 2 = available demo_ship 2 -
      (if (2, shp_order sh, DISPATCH) \<in> taken demo_ship then 0 else first_line_boxes demo_ship (shp_order sh) 2)"
    by (rule tracking_moves_stock [OF r _ demo_mapped(1)]) (simp_all add: sh(1))
  also have "\<dots> = 4"
    by (simp add: sh(2) available_def taken_def move_keys_def first_line_boxes_def first_line_def hits_def
        items_for_order_def resolve_variant_def variant_by_def line_boxes_def demo_ship_def)
  finally show ?thesis using r by blast
qed

text \<open>
  Replaying a tracking event, from whichever source, is idempotent: it is reported as known, and
  the events, the shipments and the stock stay as the first application left them.
\<close>

theorem tracking_replay_idempotent:
  assumes "apply_tracking_event sid src ev s = (s1, Inr c)" and "te_at ev = Some t" and "variants_wf s"
  shows "\<exists>s2. apply_tracking_event sid src' ev s1 = (s2, Inr False)
    \<and> shipment_events s2 = shipment_events s1 \<and> shipments s2 = shipments s1 \<and> stock_part s2 = stock_part s1"
proof (rule tracking_stages [OF assms(1,2)])
  fix e a b sh p n
  let ?st = "te_mapped ev" and ?d = "te_description ev"
  assume add: "add_tracking_event sid (te_external ev) (te_status ev) (te_location ev) t ?d
      (te_courier ev) src s = Inr ((e, c), a)"
    and b: "b = (case ?st of None \<Rightarrow> a | Some st \<Rightarrow> audit_record None ''shipment.updated'' ''shipment''
      sid p n [] (shipment_update sid (\<lambda>r. r\<lparr>shp_status := st\<rparr>) a))"
    and sh: "shipment_by b sid = Some sh" and s1: "s1 = track_rto sh ?st ?d (track_dispatch sh ?st b)"
  have id: "shp_id sh = sid" using sh by blast
  let ?mark = "\<lambda>rows. case Option.bind ?st rto_status_of of None \<Rightarrow> rows
     | Some x \<Rightarrow> set_where (\<lambda>r. shp_id r = sid) (\<lambda>r. r\<lparr>shp_rto := Some x\<rparr>) rows"
  let ?set = "\<lambda>rows. case ?st of None \<Rightarrow> rows
     | Some x \<Rightarrow> set_where (\<lambda>r. shp_id r = sid) (\<lambda>r. r\<lparr>shp_status := x\<rparr>) rows"
  have ship1: "shipments s1 = ?mark (?set (shipments a))" "shipment_events s1 = shipment_events a"
    by (auto simp: s1 b id track_rto_tables beside_stockD [OF track_dispatch_beside] split: option.split)
  have fixed: "?set (shipments s1) = shipments s1" "?mark (shipments s1) = shipments s1"
    by (auto simp: ship1 set_where_def split: option.split)
  have part: "stock_part b = stock_part s"
    using add by (cases rule: add_tracking_cases) (simp_all add: b split: option.split)
  have wf: "variants_wf b" using stock_part_eqD(1) [OF part] assms(3) by simp
  have "shipment_by s1 sid \<noteq> None"
    using sh by (auto simp: shipment_by_def ship1 b row_by_set_where split: option.splits)
  then obtain r where r: "shipment_by s1 sid = Some r" by blast
  have order: "shp_order r = shp_order sh"
  proof -
    have "map_option shp_order (row_by shp_id (?mark rows) sid) = map_option shp_order (row_by shp_id rows sid)"
      for rows by (auto simp: row_by_set_where option.map_comp o_def split: option.split)
    moreover have "shipments s1 = ?mark (shipments b)" by (auto simp: ship1 b split: option.split)
    ultimately have "map_option shp_order (shipment_by s1 sid) = map_option shp_order (shipment_by b sid)"
      unfolding shipment_by_def by metis
    then show ?thesis using r sh by simp
  qed
  note again = add_tracking_again [OF add ship1(2), of "te_location ev" ?d "te_courier ev" src'] r
  obtain p' n' where st': "track_status sid None ?st s1 = Inr (case ?st of None \<Rightarrow> s1
      | Some st \<Rightarrow> audit_record None ''shipment.updated'' ''shipment'' sid p' n' []
          (shipment_update sid (\<lambda>r. r\<lparr>shp_status := st\<rparr>) s1))"
    using track_status_Inr [OF r, of None ?st] by blast
  define u where "u = (case ?st of None \<Rightarrow> s1
      | Some st \<Rightarrow> audit_record None ''shipment.updated'' ''shipment'' sid p' n' []
          (shipment_update sid (\<lambda>r. r\<lparr>shp_status := st\<rparr>) s1))"
  have u: "shipments u = shipments s1" "shipment_events u = shipment_events s1" "stock_part u = stock_part s1"
    using fixed(1) by (auto simp: u_def split: option.splits)
  have "shipment_by u sid = Some r" using r by (simp add: shipment_by_def u(1))
  then have "apply_tracking_event sid src' ev s1
      = (track_rto r ?st ?d (track_dispatch r ?st u), Inr False)"
    using assms(2) again st' [folded u_def] by (simp add: apply_tracking_event_def)
  moreover have "shipments (track_rto r ?st ?d (track_dispatch r ?st u)) = shipments s1"
    using fixed(2) r by (auto simp: track_rto_tables beside_stockD [OF track_dispatch_beside] u(1) split: option.split)
  moreover have "shipment_events (track_rto r ?st ?d (track_dispatch r ?st u)) = shipment_events s1"
    by (simp add: track_rto_tables beside_stockD [OF track_dispatch_beside] u(2))
  moreover have "stock_part (track_rto r ?st ?d (track_dispatch r ?st u)) = stock_part s1"
    using track_stock_again [OF wf order, of u ?st ?d ?d] u(3) s1 by simp
  ultimately show ?thesis by blast
qed

theorem tracking_replay_idempotent_witness:
  "\<exists>s1 s2 c. apply_tracking_event 31 ''shiprocket'' (demo_event ''In Transit'' 500) demo_ship = (s1, Inr c)
     \<and> apply_tracking_event 31 ''shiprocket_webhook'' (demo_event ''In Transit'' 500) s1 = (s2, Inr False)
     \<and> stock_part s2 = stock_part s1"
proof -
  obtain s1 c where r: "apply_tracking_event 31 ''shiprocket'' (demo_event ''In Transit'' 500) demo_ship = (s1, Inr c)"
    using demo_track by blast
  from tracking_replay_idempotent [OF r demo_event_simps(1) demo_ship_wf, of "''shiprocket_webhook''"] r
  show ?thesis by blast
qed

text \<open>
  C9: the status of a shipment is that of the event ingested last, not of the latest event: an event
  that maps to a status sets it whatever the shipment's status and however old the event is, so a
  late scan takes a delivered shipment back in transit.
\<close>

theorem last_ingested_status_wins:
  assumes "apply_tracking_event sid src ev s = (s', Inr c)" and "te_at ev = Some t" and "te_mapped ev = Some st"
  shows "\<exists>r. shipment_by s' sid = Some r \<and> shp_status r = st \<and> (c \<longrightarrow> shp_last_update r = Some t)"
proof (rule tracking_stages [OF assms(1,2)])
  fix e s1 s2 sh p n
  assume add: "add_tracking_event sid (te_external ev) (te_status ev) (te_location ev) t (te_description ev)
      (te_courier ev) src s = Inr ((e, c), s1)"
    and s2: "s2 = (case te_mapped ev of None \<Rightarrow> s1 | Some st \<Rightarrow> audit_record None ''shipment.updated'' ''shipment''
      sid p n [] (shipment_update sid (\<lambda>r. r\<lparr>shp_status := st\<rparr>) s1))"
    and sh: "shipment_by s2 sid = Some sh"
    and s': "s' = track_rto sh (te_mapped ev) (te_description ev) (track_dispatch sh (te_mapped ev) s2)"
  have id: "shp_id sh = sid" using sh by blast
  have st: "shp_status sh = st" using sh assms(3) by (auto simp: s2 shipment_by_update)
  have time: "c \<longrightarrow> shp_last_update sh = Some t"
    using add sh assms(3) by (cases rule: add_tracking_cases) (auto simp: s2 shipment_by_update)
  have "shipments s' = (case Option.bind (te_mapped ev) rto_status_of of None \<Rightarrow> shipments s2
     | Some x \<Rightarrow> set_where (\<lambda>r. shp_id r = sid) (\<lambda>r. r\<lparr>shp_rto := Some x\<rparr>) (shipments s2))"
    by (simp add: s' track_rto_tables id beside_stockD [OF track_dispatch_beside] split: option.split)
  then have "\<exists>r. shipment_by s' sid = Some r \<and> shp_status r = shp_status sh \<and> shp_last_update r = shp_last_update sh"
    using sh by (auto simp: shipment_by_def row_by_set_where split: option.split)
  then show ?thesis using st time by auto
qed

theorem last_ingested_status_wins_witness:
  "\<exists>sh s' c r. shipment_by demo_ship 31 = Some sh \<and> shp_status sh = SHP_DELIVERED \<and> shp_last_update sh = Some 900
     \<and> apply_tracking_event 31 ''shiprocket'' (demo_event ''In Transit'' 500) demo_ship = (s', Inr c)
     \<and> shipment_by s' 31 = Some r \<and> shp_status r = IN_TRANSIT"
proof -
  obtain s' c where r: "apply_tracking_event 31 ''shiprocket'' (demo_event ''In Transit'' 500) demo_ship = (s', Inr c)"
    using demo_track by blast
  from last_ingested_status_wins [OF r demo_event_simps(1) demo_mapped(1)] demo_ship_31 r show ?thesis by blast
qed

text \<open>
  An operator's tracking refresh moves no stock and makes no RTO row, whatever it reports; once it
  has brought the shipment to a terminal status the scheduled refresh does not look at it again, so the
  dispatch of its order is lost.
\<close>

theorem manual_refresh_moves_no_stock:
  assumes "refresh_tracking_for_shipment api sid actor s = (s', r)"
  shows "stock_part s' = stock_part s \<and> rtos s' = rtos s
    \<and> (\<forall>sh\<in>set (shipments s'). shp_status sh \<in> {SHP_DELIVERED, SHP_CANCELLED, RTO_DELIVERED}
         \<longrightarrow> sh \<notin> set (refresh_due s'))"
proof -
  have "stock_part s' = stock_part s \<and> rtos s' = rtos s"
    using assms
    by (auto simp: refresh_tracking_for_shipment_def split: sum.split_asm prod.split_asm dest!: refresh_events_stock)
  then show ?thesis by (auto simp: refresh_due_def terminal_statuses_def)
qed

definition demo_api :: courier_api where
  "demo_api = \<lparr>ca_configured = True, ca_create_order = (\<lambda>_. Inr (Some ''77'')),
     ca_assign_awb = (\<lambda>_ _. Inr (Some ''W77'', Some ''Blue'', Some ''9'')), ca_pickup = (\<lambda>_. Inr ()),
     ca_tracking = (\<lambda>_. Inr [demo_event ''Delivered'' 950]), ca_reattempt = (\<lambda>_. Inr ()),
     ca_open_fulfillment = (\<lambda>_. Inl (Some ''f'')), ca_update_tracking = (\<lambda>_ _. Inl ''f''),
     ca_create_fulfillment = (\<lambda>_ _. Inl ''f'')\<rparr>"

theorem manual_refresh_moves_no_stock_witness:
  "\<exists>s'. refresh_tracking_for_shipment demo_api 31 None demo_ship = (s', Inr ()) \<and> available s' 2 = 10"
proof -
  have "case refresh_tracking_for_shipment demo_api 31 None demo_ship of (s', r) \<Rightarrow> r = Inr ()" by code_simp
  then obtain s' where r: "refresh_tracking_for_shipment demo_api 31 None demo_ship = (s', Inr ())"
    by (auto split: prod.split_asm)
  have "available demo_ship 2 = 10" by (simp add: available_def variant_by_def demo_ship_def)
  with manual_refresh_moves_no_stock [OF r] r show ?thesis using stock_part_eqD(2) [of s' demo_ship] by simp
qed




text \<open>
  A shipment is created for a confirmed order without a live shipment only, and once: right after
  a success every further attempt, by whoever and however the provider answers, is refused.
\<close>

theorem no_second_shipment:
  assumes "create_shipment_for_order api oid actor s = Inr (sid, s1)"
    and "\<And>ord i. ca_create_order api ord = Inr (Some i) \<Longrightarrow>
      by_external shp_source shp_external (shipments s) ''shiprocket'' i = None"
  shows "(\<exists>ord. order_by s oid = Some ord \<and> o_status ord = CONFIRMED)
    \<and> (\<forall>r\<in>set (shipments_for_order s oid). shp_status r = SHP_CANCELLED)
    \<and> (\<exists>r. filter (\<lambda>r. shp_status r \<noteq> SHP_CANCELLED) (shipments_for_order s1 oid) = [r] \<and> shp_id r = sid)
    \<and> create_shipment_for_order api' oid actor' s1 = Inl (ConflictError ''A shipment already exists for this order.'')"
  using assms by (rule create_shipment_once)

theorem no_second_shipment_witness:
  "\<exists>sid s1. create_shipment_for_order demo_api 7 None demo_ship = Inr (sid, s1)
     \<and> create_shipment_for_order demo_api 7 None s1 = Inl (ConflictError ''A shipment already exists for this order.'')"
proof -
  have "\<not> isl (create_shipment_for_order demo_api 7 None demo_ship)" by code_simp
  then obtain sid s1 where c: "create_shipment_for_order demo_api 7 None demo_ship = Inr (sid, s1)"
    by (cases "create_shipment_for_order demo_api 7 None demo_ship") auto
  have "by_external shp_source shp_external (shipments demo_ship) ''shiprocket'' i = None" for i
    by (simp add: by_external_def demo_ship_def demo_shipment_def)
  with no_second_shipment [OF c] c show ?thesis by blast
qed

text \<open>
  A return is restocked once: after the tracking event ''RTO Delivered'' of a shipment, an operator
  who marks any RTO of the same order received succeeds and moves no stock.
\<close>

theorem return_restocked_once:
  assumes "apply_tracking_event sid src ev s = (s1, Inr c)" and "te_at ev \<noteq> None"
    and "te_mapped ev = Some RTO_DELIVERED" and "variants_wf s" and "shipment_by s sid = Some sh"
    and "rto_by s1 i = Some r" and "rt_order r = shp_order sh"
  shows "\<exists>s2. update_rto i actor (Some RECEIVED) notes s1 = Inr s2 \<and> stock_part s2 = stock_part s1
    \<and> rto_by s2 i = Some (r\<lparr>rt_status := RECEIVED, rt_notes := keep notes (rt_notes r)\<rparr>)"
proof -
  obtain t where t: "te_at ev = Some t" using assms(2) by blast
  show ?thesis
  proof (rule tracking_stages [OF assms(1) t])
    fix e a b sh2 p n
    assume add: "add_tracking_event sid (te_external ev) (te_status ev) (te_location ev) t (te_description ev)
        (te_courier ev) src s = Inr ((e, c), a)"
      and b: "b = (case te_mapped ev of None \<Rightarrow> a | Some st \<Rightarrow> audit_record None ''shipment.updated'' ''shipment''
        sid p n [] (shipment_update sid (\<lambda>r. r\<lparr>shp_status := st\<rparr>) a))"
      and sh2: "shipment_by b sid = Some sh2"
      and s1: "s1 = track_rto sh2 (te_mapped ev) (te_description ev) (track_dispatch sh2 (te_mapped ev) b)"
    have part: "stock_part b = stock_part s"
      using add assms(3) by (cases rule: add_tracking_cases) (simp_all add: b)
    have ord: "shp_order sh2 = shp_order sh"
      using add sh2 assms(3,5) by (cases rule: add_tracking_cases) (auto simp: b shipment_by_update)
    obtain rid x u where u: "upsert_synced_rto ''shiprocket'' (shp_awb sh2) sh2 RECEIVED (te_description ev) b = ((rid, x), u)"
      by (metis prod.collapse)
    have wf: "variants_wf u"
      using stock_part_eqD(1) [of u s] rto_upsert_tables(3) [OF u] part assms(4) by simp
    have s1: "s1 = swallow (apply_rto_restock (shp_order sh2) rid u) u"
      using s1 assms(3) u by (simp add: track_rto_def track_dispatch_def dispatched_statuses_def)
    have settled: "variants_wf s1" "all_moved s1 (shp_order sh) RTO_RESTOCK"
      using restock_once.swallow_settles [OF wf, of "shp_order sh2" rid] by (simp_all add: s1 ord)
    define s2 where "s2 = audit_record actor ''rto.status_changed'' ''rto'' i
        [(''status'', JStr (rto_status_value (rt_status r)))] [(''status'', JStr (rto_status_value RECEIVED))] []
        (shipment_update (rt_shipment r) (\<lambda>r. r\<lparr>shp_rto := Some RECEIVED\<rparr>)
          (rto_row_update i (\<lambda>r. r\<lparr>rt_status := RECEIVED, rt_notes := keep notes (rt_notes r)\<rparr>) s1))"
    have part2: "stock_part s2 = stock_part s1" by (simp add: s2_def)
    have "apply_rto_restock (rt_order r) i s2 = Inr s2"
      using settled stock_part_eqD(1) [OF part2] all_moved_cong [OF part2] assms(7)
      by (intro restock_once.skips) simp_all
    then have "update_rto i actor (Some RECEIVED) notes s1 = Inr s2"
      using assms(6) by (simp add: update_rto_def s2_def)
    moreover have "rto_by s2 i = Some (r\<lparr>rt_status := RECEIVED, rt_notes := keep notes (rt_notes r)\<rparr>)"
      using assms(6) by (simp add: rto_by_def s2_def rto_row_update_def row_by_set_where)
    ultimately show ?thesis using part2 by blast
  qed
qed

theorem return_restocked_once_witness:
  "\<exists>s1 c s2. apply_tracking_event 31 ''shiprocket'' (demo_event ''RTO Delivered'' 950) demo_ship = (s1, Inr c)
     \<and> update_rto 102 None (Some RECEIVED) None s1 = Inr s2 \<and> stock_part s2 = stock_part s1"
proof -
  have "case apply_tracking_event 31 ''shiprocket'' (demo_event ''RTO Delivered'' 950) demo_ship of
      (s1, Inl _) \<Rightarrow> False | (s1, Inr _) \<Rightarrow> map_option rt_order (rto_by s1 102) = Some 8" by code_simp
  then obtain s1 c r where t: "apply_tracking_event 31 ''shiprocket'' (demo_event ''RTO Delivered'' 950) demo_ship = (s1, Inr c)"
      and r: "rto_by s1 102 = Some r" "rt_order r = 8"
    by (auto split: prod.split_asm sum.split_asm)
  obtain sh where sh: "shipment_by demo_ship 31 = Some sh" "shp_order sh = 8" using demo_ship_31 by blast
  show ?thesis using return_restocked_once [OF t _ demo_mapped(2) demo_ship_wf sh(1) r(1)] r(2) sh(2) t by fastforce
qed

text \<open>
  An RTO is looked up by the shipment's AWB, and a missing AWB is looked up as NULL: when a second
  shipment without an AWB is returned, it takes over the RTO of the first. One row is left for two
  returns, and the first shipment's order has none.
\<close>

theorem rto_without_awb_taken_over:
  assumes "shp_awb a = None" and "shp_awb b = None" and "\<And>r. r \<in> set (rtos s) \<Longrightarrow> rt_source r = ''shiprocket'' \<Longrightarrow> rt_external r \<noteq> None"
    and "\<And>r. r \<in> set (rtos s) \<Longrightarrow> rt_id r \<noteq> next_id s"
  shows "\<exists>r. rtos (track_rto b (Some RTO_INITIATED) e (track_rto a (Some RTO_INITIATED) d s)) = rtos s @ [r]
    \<and> rt_shipment r = shp_id b \<and> rt_order r = shp_order b"
proof -
  have none: "rto_by_external s ''shiprocket'' None = None"
    using assms(3) by (auto simp: rto_by_external_def find_None_iff)
  define r where "r = write_rto a INITIATED d \<lparr>rt_id = next_id s, rt_shipment = shp_id a, rt_order = shp_order a,
    rt_courier = None, rt_reason = None, rt_status = INITIATED, rt_notes = None, rt_source = ''shiprocket'', rt_external = None\<rparr>"
  define u where "u = track_rto a (Some RTO_INITIATED) d s"
  have s1: "rtos u = rtos s @ [r]"
    using assms(1) none by (simp add: u_def track_rto_def upsert_synced_rto_def r_def fresh_def)
  have "rto_by_external u ''shiprocket'' None = Some r"
    using none by (simp add: rto_by_external_def s1 find_append r_def write_rto_def)
  then have "rtos (track_rto b (Some RTO_INITIATED) e u)
      = set_where (\<lambda>x. rt_id x = rt_id r) (write_rto b INITIATED e) (rtos s @ [r])"
    using assms(2) by (simp add: track_rto_def upsert_synced_rto_def rto_row_update_def s1)
  moreover have "rt_id r = next_id s" by (simp add: r_def write_rto_def)
  ultimately have "rtos (track_rto b (Some RTO_INITIATED) e u) = rtos s @ [write_rto b INITIATED e r]"
    using assms(4) by (simp add: set_where_def map_idI)
  then show ?thesis by (simp add: u_def write_rto_def)
qed

theorem rto_without_awb_taken_over_witness:
  "\<exists>r. rtos (track_rto (demo_shipment 41 8) (Some RTO_INITIATED) None
       (track_rto (demo_shipment 40 7) (Some RTO_INITIATED) None demo_ship)) = [r] \<and> rt_order r = 8"
proof -
  have e: "rtos demo_ship = []" by (simp add: demo_ship_def)
  have d: "shp_awb (demo_shipment x y) = None" "shp_order (demo_shipment x y) = y" for x y
    by (simp_all add: demo_shipment_def)
  show ?thesis
    using rto_without_awb_taken_over [of "demo_shipment 40 7" "demo_shipment 41 8" demo_ship None None]
    unfolding e d by auto
qed

text \<open>
  The search for a courier code always ends, after at most as many attempts as there are couriers:
  it returns the plain code or the one with the least suffix that no courier has, having found all the
  smaller ones taken. An upsert of a courier therefore always succeeds.
\<close>

theorem courier_code_search_ends:
  "(\<exists>m \<le> length (couriers s). unique_code_for name ext s = Some (nth_code (base_code name ext) m)
      \<and> nth_code (base_code name ext) m \<notin> co_code ` set (couriers s)
      \<and> nth_code (base_code name ext) ` {..<m} \<subseteq> co_code ` set (couriers s))
    \<and> (\<exists>x s'. upsert_synced_courier source ext name s = Some (x, s'))"
proof
  show "\<exists>m \<le> length (couriers s). unique_code_for name ext s = Some (nth_code (base_code name ext) m)
      \<and> nth_code (base_code name ext) m \<notin> co_code ` set (couriers s)
      \<and> nth_code (base_code name ext) ` {..<m} \<subseteq> co_code ` set (couriers s)"
    using unique_code_found [of s name ext] unfolding code_taken_def by blast
  show "\<exists>x s'. upsert_synced_courier source ext name s = Some (x, s')" by (rule upsert_courier_total)
qed

end
