(* ===== verification/Returns.thy ===== *)
theory Returns
  imports Shipping_Facts
begin

text \<open>
  Returns and the refunds they lead to: \<open>app/services/return_service.py\<close>, with the tables of
  \<open>app/models/returns.py\<close> and \<open>app/models/refund.py\<close>.

  A refund is computed with \<open>Decimal\<close>: a quotient and a product are rounded to the 28 significant digits
  of the default context, and the result to cents, half to even. A refund amount can depend on the first
  rounding, so it is part of the model.
\<close>

section \<open>Decimal arithmetic\<close>

text \<open>\<open>ROUND_HALF_EVEN\<close> to an integer.\<close>

definition half_even :: "rat \<Rightarrow> int" where
  "half_even r =
     (let f = \<lfloor>r\<rfloor>; d = r - of_int f
      in if d < 1 / 2 then f else if 1 / 2 < d then f + 1 else if even f then f else f + 1)"

text \<open>
  Rounding to 28 significant digits: the digits are \<open>r * 10 ^ e\<close> for the \<open>e\<close> that leaves 28 of them
  before the point. The columns are \<open>Numeric(12, 2)\<close> and 32-bit integers, so a value that is not 0 lies between
  \<open>10 ^ -12\<close> and \<open>10 ^ 22\<close> and an \<open>e\<close> below 60 is found.
\<close>

definition digits_exponent :: "rat \<Rightarrow> nat option" where
  "digits_exponent r = find (\<lambda>e. 10 ^ 27 \<le> \<bar>r\<bar> * 10 ^ e \<and> \<bar>r\<bar> * 10 ^ e < 10 ^ 28) [0..<60]"

definition decimal :: "rat \<Rightarrow> rat" where
  "decimal r = (case digits_exponent r of None \<Rightarrow> r | Some e \<Rightarrow> of_int (half_even (r * 10 ^ e)) / 10 ^ e)"

definition quantize_cents :: "rat \<Rightarrow> rat" where
  "quantize_cents r = of_int (half_even (r * 100)) / 100"

lemma half_even_close: "\<bar>of_int (half_even r) - r\<bar> \<le> 1 / 2"
proof -
  have "of_int \<lfloor>r\<rfloor> \<le> r" "r < of_int \<lfloor>r\<rfloor> + 1" by linarith+
  then show ?thesis by (auto simp: half_even_def Let_def)
qed

lemma half_even_near:
  assumes "\<bar>r - of_int n\<bar> < 1 / 2"
  shows "half_even r = n"
proof -
  have "\<bar>of_int (half_even r) - of_int n :: rat\<bar> < 1"
    using half_even_close [of r] assms by linarith
  then have "\<bar>half_even r - n\<bar> < 1" by linarith
  then show ?thesis by simp
qed

lemma decimal_close: "\<bar>decimal r - r\<bar> \<le> \<bar>r\<bar> / (2 * 10 ^ 27)"
proof (cases "digits_exponent r")
  case None
  then show ?thesis by (simp add: decimal_def)
next
  case (Some e)
  then have e: "10 ^ 27 \<le> \<bar>r\<bar> * 10 ^ e" by (auto simp: digits_exponent_def dest: find_SomeD)
  define p where "p = (10 ^ e :: rat)"
  have p: "0 < p" by (simp add: p_def)
  have "\<bar>decimal r - r\<bar> = \<bar>of_int (half_even (r * p)) / p - r\<bar>"
    using Some by (simp add: decimal_def p_def)
  also have "\<dots> = \<bar>of_int (half_even (r * p)) - r * p\<bar> / p"
    using p by (simp add: field_simps abs_divide flip: abs_mult)
  also have "\<dots> \<le> (1 / 2) / p" using half_even_close [of "r * p"] p by (intro divide_right_mono) simp_all
  also have "\<dots> \<le> \<bar>r\<bar> / (2 * 10 ^ 27)" using e p by (simp add: p_def [symmetric] field_simps)
  finally show ?thesis .
qed

lemma quantize_close: "\<bar>quantize_cents r - r\<bar> \<le> 1 / 200"
  using half_even_close [of "r * 100"] by (simp add: quantize_cents_def abs_le_iff field_simps)

lemma quantize_near:
  assumes "\<bar>r - of_int c / 100\<bar> < 1 / 200"
  shows "quantize_cents r = of_int c / 100"
proof -
  have "half_even (r * 100) = c"
    using assms by (intro half_even_near) (simp add: abs_less_iff field_simps)
  then show ?thesis by (simp add: quantize_cents_def)
qed

section \<open>Tables\<close>

datatype return_status = RET_REQUESTED | RET_APPROVED | RET_REJECTED | RET_IN_TRANSIT | RET_RECEIVED
  | RET_COMPLETED | RET_CANCELLED

datatype refund_status = RF_PENDING | RF_PROCESSING | RF_COMPLETED | RF_FAILED | RF_CANCELLED

text \<open>What may be written to the text column \<open>notes\<close>.\<close>

datatype note_cell = NoteText string | NoteTime instant

record return_row =
  re_id :: uuid
  re_order :: uuid
  re_item :: "uuid option"
  re_customer :: "uuid option"
  re_reason :: "string option"
  re_status :: return_status
  re_quantity :: int
  re_requested_at :: "instant option"
  re_approved_at :: "instant option"
  re_received_at :: "instant option"
  re_completed_at :: "instant option"
  re_notes :: "note_cell option"

record refund =
  rf_id :: uuid
  rf_order :: uuid
  rf_return :: "uuid option"
  rf_amount :: rat
  rf_reason :: "string option"
  rf_status :: refund_status
  rf_initiated_at :: "instant option"
  rf_source :: string
  rf_payment :: "uuid option"
  rf_completed_at :: "instant option"
  rf_external :: "string option"

record returns_db = shipping_db +
  returns :: "return_row list"
  refunds :: "refund list"

definition return_by :: "'a returns_db_scheme \<Rightarrow> uuid \<Rightarrow> return_row option" where
  "return_by s = row_by re_id (returns s)"

definition return_update :: "uuid \<Rightarrow> (return_row \<Rightarrow> return_row) \<Rightarrow> 'a returns_db_scheme \<Rightarrow> 'a returns_db_scheme" where
  "return_update i f s = s\<lparr>returns := set_where (\<lambda>r. re_id r = i) f (returns s)\<rparr>"

section \<open>Operations\<close>

definition create_return ::
  "uuid option \<Rightarrow> uuid \<Rightarrow> uuid option \<Rightarrow> uuid option \<Rightarrow> string option \<Rightarrow> int \<Rightarrow> 'a returns_db_scheme
   \<Rightarrow> (uuid \<times> 'a returns_db_scheme) result" where
  "create_return actor oid item customer_id reason quantity s =
     bindR (require (order_by s oid \<noteq> None) (NotFoundError ''Order not found.'')) (\<lambda>_.
     bindR (require (\<forall>i. item = Some i \<longrightarrow> item_by s i \<noteq> None) (IntegrityError ''returns.order_item_id'')) (\<lambda>_.
     bindR (require (\<forall>c. customer_id = Some c \<longrightarrow> c \<in> cu_id ` set (customers s)) (IntegrityError ''returns.customer_id'')) (\<lambda>_.
     let i = next_id s;
         s1 = fresh (s\<lparr>returns := returns s @ [\<lparr>re_id = i, re_order = oid, re_item = item, re_customer = customer_id,
           re_reason = reason, re_status = RET_REQUESTED, re_quantity = quantity, re_requested_at = Some (clock s),
           re_approved_at = None, re_received_at = None, re_completed_at = None, re_notes = None\<rparr>]\<rparr>)
     in Inr (i, audit_record actor ''return.created'' ''return'' i []
          [(''order_id'', JId oid), (''quantity'', JInt quantity)] [] s1))))"

definition get_by_return_id :: "'a returns_db_scheme \<Rightarrow> uuid \<Rightarrow> refund option result" where
  "get_by_return_id s i = (case filter (\<lambda>r. rf_return r = Some i) (refunds s) of
     [] \<Rightarrow> Inr None | [r] \<Rightarrow> Inr (Some r) | _ \<Rightarrow> Inl MultipleResultsFound)"

definition compute_refund_amount :: "return_row \<Rightarrow> 'a order_db_scheme \<Rightarrow> rat" where
  "compute_refund_amount r s =
     (case Option.bind (re_item r) (\<lambda>i. Option.bind (item_by s i) (\<lambda>item. if oi_quantity item = 0 then None else Some item)) of
        Some item \<Rightarrow>
          let per_unit = decimal (oi_total item / of_int (oi_quantity item))
          in quantize_cents (decimal (per_unit * of_int (re_quantity r)))
      | None \<Rightarrow> (case order_by s (re_order r) of None \<Rightarrow> 0 | Some ord \<Rightarrow> o_total ord))"

definition create_refund_for_return ::
  "return_row \<Rightarrow> uuid option \<Rightarrow> 'a returns_db_scheme \<Rightarrow> 'a returns_db_scheme result" where
  "create_refund_for_return r actor s =
     bindR (get_by_return_id s (re_id r)) (\<lambda>existing.
     if existing \<noteq> None then Inr s
     else
       let amount = compute_refund_amount r s;
           i = next_id s;
           s1 = fresh (s\<lparr>refunds := refunds s @ [\<lparr>rf_id = i, rf_order = re_order r, rf_return = Some (re_id r),
             rf_amount = amount, rf_reason = re_reason r, rf_status = RF_PENDING, rf_initiated_at = Some (clock s),
             rf_source = ''manual'', rf_payment = None, rf_completed_at = None, rf_external = None\<rparr>]\<rparr>)
       in Inr (audit_record actor ''refund.created'' ''refund'' i []
            [(''order_id'', JId (re_order r)), (''amount'', JNum amount)] [] s1))"

text \<open>
  \<open>_timestamp_field_for\<close>: the column that gets the time of a status. For the statuses without one it
  answers the column \<open>notes\<close>.
\<close>

definition stamp_status :: "return_status \<Rightarrow> instant \<Rightarrow> return_row \<Rightarrow> return_row" where
  "stamp_status st t r = (case st of
     RET_APPROVED \<Rightarrow> r\<lparr>re_approved_at := Some t\<rparr>
   | RET_RECEIVED \<Rightarrow> r\<lparr>re_received_at := Some t\<rparr>
   | RET_COMPLETED \<Rightarrow> r\<lparr>re_completed_at := Some t\<rparr>
   | _ \<Rightarrow> r\<lparr>re_notes := Some (NoteTime t)\<rparr>)"

definition write_return :: "return_status option \<Rightarrow> string option \<Rightarrow> instant \<Rightarrow> return_row \<Rightarrow> return_row" where
  "write_return status notes t r0 =
     (let r = (case notes of None \<Rightarrow> r0 | Some n \<Rightarrow> r0\<lparr>re_notes := Some (NoteText n)\<rparr>)
      in case status of
           None \<Rightarrow> r
         | Some st \<Rightarrow> if st = re_status r0 then r else stamp_status st t (r\<lparr>re_status := st\<rparr>))"

definition stamps_notes :: "return_status option \<Rightarrow> return_row \<Rightarrow> bool" where
  "stamps_notes status r0 \<longleftrightarrow> status \<noteq> None \<and> status \<noteq> Some (re_status r0)
     \<and> status \<notin> Some ` {RET_APPROVED, RET_RECEIVED, RET_COMPLETED}"

text \<open>
  The database driver decides whether a time may be written to a text column: \<open>stores_time\<close>
  (the SQLite driver converts it, asyncpg raises).
\<close>

definition update_return ::
  "bool \<Rightarrow> uuid \<Rightarrow> uuid option \<Rightarrow> return_status option \<Rightarrow> string option \<Rightarrow> 'a returns_db_scheme
   \<Rightarrow> 'a returns_db_scheme result" where
  "update_return stores_time i actor status notes s =
     bindR (require_some (return_by s i) (NotFoundError ''Return not found.'')) (\<lambda>r0.
     let r = write_return status notes (clock s) r0
     in bindR (require (stores_time \<or> \<not> stamps_notes status r0) (DataError ''returns.notes'')) (\<lambda>_.
        let s1 = return_update i (write_return status notes (clock s)) s
        in if status = Some RET_COMPLETED then create_refund_for_return r actor s1 else Inr s1))"


section \<open>The amount\<close>

text \<open>Two roundings to 28 digits move a value of that size by much less than a cent.\<close>

lemma decimal_twice:
  assumes "0 \<le> t" and "0 \<le> n" and "0 < (q :: rat)" and "t * n / q \<le> 10 ^ 14"
  shows "\<bar>decimal (decimal (t / q) * n) - t * n / q\<bar> \<le> 1 / 10 ^ 10"
proof -
  define u where "u = decimal (t / q)"
  define d where "d = (1 / (2 * 10 ^ 27) :: rat)"
  have "0 \<le> t / q" using assms by simp
  then have u: "\<bar>u - t / q\<bar> \<le> t / q * d" using decimal_close [of "t / q"] by (simp add: u_def d_def)
  have "u * n - t * n / q = (u - t / q) * n" by (simp add: left_diff_distrib)
  then have "\<bar>u * n - t * n / q\<bar> = \<bar>u - t / q\<bar> * n" using assms(2) by (simp add: abs_mult)
  also have "\<dots> \<le> t / q * d * n" using u assms(2) by (rule mult_right_mono)
  also have "\<dots> = t * n / q * d" by simp
  also have "\<dots> \<le> 10 ^ 14 * d" using assms(4) by (intro mult_right_mono) (simp_all add: d_def)
  finally have un: "\<bar>u * n - t * n / q\<bar> \<le> 10 ^ 14 * d" .
  have "0 \<le> t * n / q" using assms by simp
  moreover have "10 ^ 14 * d \<le> 1" by (simp add: d_def)
  ultimately have "\<bar>u * n\<bar> \<le> 10 ^ 15" using un assms(4) by (simp add: abs_le_iff)
  then have "\<bar>decimal (u * n) - u * n\<bar> \<le> 10 ^ 15 * d"
    using decimal_close [of "u * n"] by (simp add: d_def)
  with un have "\<bar>decimal (u * n) - t * n / q\<bar> \<le> 10 ^ 14 * d + 10 ^ 15 * d" by linarith
  then show ?thesis by (simp add: u_def d_def)
qed

lemma refund_amount_item:
  assumes "re_item r = Some i" and "item_by s i = Some item" and "oi_quantity item \<noteq> 0"
  shows "compute_refund_amount r s =
    quantize_cents (decimal (decimal (oi_total item / of_int (oi_quantity item)) * of_int (re_quantity r)))"
  using assms by (simp add: compute_refund_amount_def)

section \<open>One refund per return\<close>

abbreviation refunds_of :: "'a returns_db_scheme \<Rightarrow> uuid \<Rightarrow> refund list" where
  "refunds_of s i \<equiv> filter (\<lambda>r. rf_return r = Some i) (refunds s)"

inductive return_step :: "'a returns_db_scheme \<Rightarrow> 'a returns_db_scheme \<Rightarrow> bool" where
  created: "create_return actor oid item customer_id reason quantity s = Inr (i, s') \<Longrightarrow> return_step s s'"
| updated: "update_return stores_time i actor status notes s = Inr s' \<Longrightarrow> return_step s s'"

inductive_cases return_stepE: "return_step s s'"

text \<open>At most one refund for each return, and one for each return that was ever completed.\<close>

definition refunds_ok :: "'a returns_db_scheme \<Rightarrow> bool" where
  "refunds_ok s \<longleftrightarrow> (\<forall>i. length (refunds_of s i) \<le> 1)
     \<and> (\<forall>r\<in>set (returns s). re_completed_at r \<noteq> None \<longrightarrow> refunds_of s (re_id r) \<noteq> [])"

lemma returns_frame [simp]:
  "refunds (fresh s) = refunds s" "returns (fresh s) = returns s"
  "refunds (audit_record u a t e p n m s) = refunds s" "returns (audit_record u a t e p n m s) = returns s"
  "refunds (return_update i f s) = refunds s"
  by (simp_all add: fresh_def audit_record_def return_update_def)

lemma write_return_keeps:
  "re_id (write_return status notes t r) = re_id r"
  "re_completed_at (write_return status notes t r) =
     (if status = Some RET_COMPLETED \<and> re_status r \<noteq> RET_COMPLETED then Some t else re_completed_at r)"
  by (auto simp: write_return_def stamp_status_def split: option.split return_status.split)

lemma create_refund_Inr:
  assumes "create_refund_for_return r actor s = Inr s'"
  shows "returns s' = returns s \<and> refunds_of s' (re_id r) \<noteq> [] \<and>
    (\<exists>new. refunds s' = refunds s @ new \<and> (new = [] \<or> (refunds_of s (re_id r) = [] \<and>
       (\<exists>f. new = [f] \<and> rf_return f = Some (re_id r)))))"
  using assms
  by (auto simp: create_refund_for_return_def get_by_return_id_def bindR_Inr_iff Let_def split: list.split_asm if_split_asm)

lemma refunds_of_append:
  assumes "refunds s' = refunds s @ new"
  shows "refunds_of s' i = refunds_of s i @ filter (\<lambda>r. rf_return r = Some i) new"
  using assms by simp

lemma return_step_ok:
  assumes "return_step s s'" and "refunds_ok s" and "distinct (map re_id (returns s))"
  shows "refunds_ok s' \<and> (refunds_of s i \<noteq> [] \<longrightarrow> refunds_of s' i = refunds_of s i)"
  using assms(1)
proof (cases rule: return_step.cases)
  case (created actor oid item customer_id reason quantity j)
  then have "refunds s' = refunds s" "\<exists>r. returns s' = returns s @ [r] \<and> re_completed_at r = None"
    by (auto simp: create_return_def bindR_Inr_iff Let_def)
  with assms(2) show ?thesis by (auto simp: refunds_ok_def)
next
  case (updated stores_time j actor status nts)
  then obtain r0 where r0: "return_by s j = Some r0" and rest:
      "(if status = Some RET_COMPLETED
        then create_refund_for_return (write_return status nts (clock s) r0) actor
               (return_update j (write_return status nts (clock s)) s)
        else Inr (return_update j (write_return status nts (clock s)) s)) = Inr s'"
    by (auto simp: update_return_def bindR_Inr_iff Let_def)
  have id: "re_id r0 = j" using r0 by (auto simp: return_by_def)
  let ?s1 = "return_update j (write_return status nts (clock s)) s"
  have rows: "re_completed_at r = None \<or> refunds_of s (re_id r) \<noteq> [] \<or> (status = Some RET_COMPLETED \<and> re_id r = j)"
    if "r \<in> set (returns ?s1)" for r
    using that assms(2) by (auto simp: return_update_def set_where_def write_return_keeps refunds_ok_def split: if_split_asm)
  show ?thesis
  proof (cases "status = Some RET_COMPLETED")
    case True
    then have c: "create_refund_for_return (write_return status nts (clock s) r0) actor ?s1 = Inr s'"
      using rest by simp
    obtain new where s': "returns s' = returns ?s1" "refunds_of s' j \<noteq> []" "refunds s' = refunds s @ new"
        "new = [] \<or> (refunds_of s j = [] \<and> (\<exists>f. new = [f] \<and> rf_return f = Some j))"
      using create_refund_Inr [OF c] unfolding write_return_keeps id returns_frame by blast
    have of: "refunds_of s' k = refunds_of s k @ filter (\<lambda>r. rf_return r = Some k) new" for k by (simp add: s'(3))
    have "length (refunds_of s' k) \<le> 1" for k
      using assms(2) s'(4) unfolding of by (auto simp: refunds_ok_def)
    moreover have "refunds_of s' (re_id r) \<noteq> []" if "r \<in> set (returns s')" "re_completed_at r \<noteq> None" for r
      using rows [of r] that s'(1,2) unfolding of by auto
    moreover have "refunds_of s i \<noteq> [] \<longrightarrow> refunds_of s' i = refunds_of s i"
      using s'(4) unfolding of by auto
    ultimately show ?thesis unfolding refunds_ok_def by blast
  next
    case False
    then have "s' = ?s1" using rest by simp
    moreover have "refunds_of s (re_id r) \<noteq> []" if "r \<in> set (returns ?s1)" "re_completed_at r \<noteq> None" for r
      using rows [OF that(1)] that(2) False by blast
    ultimately show ?thesis using assms(2) unfolding refunds_ok_def by (simp only: returns_frame) blast
  qed
qed

text \<open>The ids of the returns stay distinct, because new ids are fresh.\<close>

definition return_ids_ok :: "'a returns_db_scheme \<Rightarrow> bool" where
  "return_ids_ok s \<longleftrightarrow> distinct (map re_id (returns s)) \<and> (\<forall>r\<in>set (returns s). re_id r < next_id s)"

lemma return_step_ids:
  assumes "return_step s s'" and "return_ids_ok s"
  shows "return_ids_ok s'"
  using assms(1)
proof (cases rule: return_step.cases)
  case (created actor oid item customer_id reason quantity j)
  then show ?thesis using assms(2)
    by (fastforce simp: create_return_def bindR_Inr_iff Let_def return_ids_ok_def)
next
  case (updated stores_time j actor status nts)
  have ids: "map re_id (returns (return_update j (write_return status nts (clock s)) s)) = map re_id (returns s)"
    by (simp add: return_update_def set_where_keys write_return_keeps)
  obtain r0 where rest: "(if status = Some RET_COMPLETED
        then create_refund_for_return (write_return status nts (clock s) r0) actor
               (return_update j (write_return status nts (clock s)) s)
        else Inr (return_update j (write_return status nts (clock s)) s)) = Inr s'"
    using updated by (auto simp: update_return_def bindR_Inr_iff Let_def)
  have nxt: "next_id (return_update j f s) = next_id s" for f by (simp add: return_update_def)
  have "map re_id (returns s') = map re_id (returns s) \<and> next_id s \<le> next_id s'"
  proof (cases "status = Some RET_COMPLETED")
    case True
    then have c: "create_refund_for_return (write_return status nts (clock s) r0) actor
               (return_update j (write_return status nts (clock s)) s) = Inr s'" using rest by simp
    have "next_id (return_update j (write_return status nts (clock s)) s) \<le> next_id s'"
      using c unfolding create_refund_for_return_def bindR_Inr_iff by (auto simp: Let_def split: if_split_asm)
    then show ?thesis using create_refund_Inr [OF c] ids by (simp add: nxt)
  next
    case False
    then have "s' = return_update j (write_return status nts (clock s)) s" using rest by simp
    then show ?thesis using ids by (simp add: nxt)
  qed
  moreover have "return_ids_ok s \<longleftrightarrow> distinct (map re_id (returns s)) \<and> (\<forall>i\<in>set (map re_id (returns s)). i < next_id s)"
    "return_ids_ok s' \<longleftrightarrow> distinct (map re_id (returns s')) \<and> (\<forall>i\<in>set (map re_id (returns s')). i < next_id s')"
    by (simp_all add: return_ids_ok_def)
  ultimately show ?thesis using assms(2) by auto
qed

lemma return_run_ok:
  assumes "return_step\<^sup>*\<^sup>* s s'" and "refunds_ok s" and "return_ids_ok s"
  shows "refunds_ok s' \<and> return_ids_ok s' \<and> (refunds_of s i \<noteq> [] \<longrightarrow> refunds_of s' i = refunds_of s i)"
  using assms
proof (induction rule: rtranclp_induct)
  case base
  then show ?case by simp
next
  case (step t u)
  then have t: "refunds_ok t" "return_ids_ok t" "refunds_of s i \<noteq> [] \<longrightarrow> refunds_of t i = refunds_of s i" by blast+
  have "refunds_ok u \<and> (refunds_of t i \<noteq> [] \<longrightarrow> refunds_of u i = refunds_of t i)"
    using return_step_ok [OF step.hyps(2) t(1)] t(2) by (simp add: return_ids_ok_def)
  with t return_step_ids [OF step.hyps(2) t(2)] show ?case by auto
qed

end
