(* ===== verification/Returns_Props.thy ===== *)
theory Returns_Props
  imports Returns Shipping_Props
begin

text \<open>
  Properties of returns and refunds, with witnesses on \<open>demo_returns\<close>: order 7 with one line of three
  units for 100.00, and a return of the order.
\<close>

definition demo_return :: return_row where
  "demo_return = \<lparr>re_id = 50, re_order = 7, re_item = Some 20, re_customer = None, re_reason = Some ''damaged'',
     re_status = RET_REQUESTED, re_quantity = 3, re_requested_at = Some 900, re_approved_at = None,
     re_received_at = None, re_completed_at = None, re_notes = Some (NoteText ''call first'')\<rparr>"

definition demo_returns :: returns_db where
  "demo_returns = shipping_db.extend (demo_ship\<lparr>order_items :=
      [\<lparr>oi_id = 20, oi_order = 7, oi_variant = Some 2, oi_sku = ''A'', oi_product_name = ''Masala'', oi_quantity = 3,
        oi_unit_price = 100 / 3, oi_discount = 0, oi_tax = 0, oi_total = 100, oi_source = ''manual'', oi_external = None\<rparr>]\<rparr>)
    \<lparr>returns = [demo_return\<lparr>re_item := None\<rparr>], refunds = []\<rparr>"

lemma demo_returns_tables:
  "returns demo_returns = [demo_return\<lparr>re_item := None\<rparr>]" "refunds demo_returns = []" "next_id demo_returns = 100" "clock demo_returns = 1000"
  by (simp_all add: demo_returns_def shipping_db.defs demo_ship_def)

lemma demo_return_50: "return_by demo_returns 50 = Some (demo_return\<lparr>re_item := None\<rparr>)"
  by (simp add: return_by_def demo_returns_tables demo_return_def)

text \<open>
  C11: over any run of the return operations each return gets at most one refund, which is then never
  replaced, and a return that was ever completed has one; completing it again or moving it back and forth
  never pays twice.
\<close>

theorem one_refund_per_return:
  assumes "return_step\<^sup>*\<^sup>* s s'" and "refunds_ok s" and "return_ids_ok s"
  shows "length (refunds_of s' i) \<le> 1 \<and> (refunds_of s i \<noteq> [] \<longrightarrow> refunds_of s' i = refunds_of s i)
    \<and> (\<forall>r\<in>set (returns s'). re_completed_at r \<noteq> None \<longrightarrow> (\<exists>f. refunds_of s' (re_id r) = [f]))"
proof -
  note run = return_run_ok [OF assms]
  have "\<exists>f. refunds_of s' (re_id r) = [f]" if "r \<in> set (returns s')" "re_completed_at r \<noteq> None" for r
  proof -
    have "refunds_of s' (re_id r) \<noteq> []" "length (refunds_of s' (re_id r)) \<le> 1"
      using run that unfolding refunds_ok_def by blast+
    then show ?thesis by (cases "refunds_of s' (re_id r)") simp_all
  qed
  with run show ?thesis unfolding refunds_ok_def by blast
qed

theorem one_refund_per_return_witness:
  "\<exists>s1 s2. update_return False 50 None (Some RET_COMPLETED) None demo_returns = Inr s1
     \<and> update_return True 50 None (Some RET_REJECTED) None s1 = Inr s2
     \<and> length (refunds_of s1 50) = 1 \<and> refunds_of s2 50 = refunds_of s1 50"
proof -
  have "case update_return False 50 None (Some RET_COMPLETED) None demo_returns of Inl _ \<Rightarrow> False
      | Inr s1 \<Rightarrow> length (refunds_of s1 50) = 1 \<and> \<not> isl (update_return True 50 None (Some RET_REJECTED) None s1)"
    by code_simp
  then obtain s1 where s1: "update_return False 50 None (Some RET_COMPLETED) None demo_returns = Inr s1"
      "length (refunds_of s1 50) = 1" "\<not> isl (update_return True 50 None (Some RET_REJECTED) None s1)"
    by (auto split: sum.split_asm)
  then obtain s2 where s2: "update_return True 50 None (Some RET_REJECTED) None s1 = Inr s2"
    by (cases "update_return True 50 None (Some RET_REJECTED) None s1") auto
  have ok: "refunds_ok demo_returns" "return_ids_ok demo_returns"
    by (simp_all add: refunds_ok_def return_ids_ok_def demo_returns_tables demo_return_def)
  have a: "return_step\<^sup>*\<^sup>* demo_returns s1" and b: "return_step\<^sup>*\<^sup>* s1 s2"
    using s1(1) s2 by (blast intro: r_into_rtranclp return_step.updated)+
  have "refunds_ok s1" "return_ids_ok s1" using return_run_ok [OF a ok] by blast+
  then have "refunds_of s2 50 = refunds_of s1 50"
    using one_refund_per_return [OF b, of 50] s1(2) by (metis list.size(3) zero_neq_one)
  with s1 s2 show ?thesis by blast
qed

text \<open>
  C12: the refund of \<open>n\<close> of the \<open>q\<close> units of a line that cost \<open>c\<close> cents is a whole number of cents, half a cent and the
  roundings of the decimal arithmetic away from the exact share. It never exceeds what the line cost where no more units
  come back than it has, and a return of all units refunds exactly that, although the price per unit is rounded. Nothing
  bounds \<open>n\<close>, and a return of more units than the line has, each worth a cent at least, is refunded more than the line cost.
  The share is at most 10^14, far above what the columns hold.
\<close>

theorem refund_is_the_share:
  assumes "re_item r = Some i" and "item_by s i = Some item" and "0 < oi_quantity item"
    and "oi_total item = of_int c / 100" and "0 \<le> c" and "0 \<le> re_quantity r"
  defines "share \<equiv> oi_total item * of_int (re_quantity r) / of_int (oi_quantity item)"
  assumes "share \<le> 10 ^ 14"
  shows "\<bar>compute_refund_amount r s - share\<bar> \<le> 1 / 200 + 1 / 10 ^ 10
    \<and> (\<exists>cents :: int. compute_refund_amount r s = of_int cents / 100)
    \<and> (re_quantity r \<le> oi_quantity item \<longrightarrow> compute_refund_amount r s \<le> oi_total item)
    \<and> (re_quantity r = oi_quantity item \<longrightarrow> compute_refund_amount r s = oi_total item)
    \<and> (oi_quantity item < re_quantity r \<longrightarrow> oi_quantity item \<le> c \<longrightarrow> oi_total item < compute_refund_amount r s)"
proof -
  define x where "x = decimal (decimal (oi_total item / of_int (oi_quantity item)) * of_int (re_quantity r))"
  have amount: "compute_refund_amount r s = quantize_cents x"
    using refund_amount_item [OF assms(1,2)] assms(3) by (simp add: x_def)
  have close: "\<bar>x - share\<bar> \<le> 1 / 10 ^ 10"
    unfolding x_def share_def using assms(3-6,8) by (intro decimal_twice) (simp_all add: share_def)
  have near: "\<bar>quantize_cents x - share\<bar> \<le> 1 / 200 + 1 / 10 ^ 10" using quantize_close [of x] close by linarith
  have "quantize_cents x \<le> oi_total item" if "re_quantity r \<le> oi_quantity item"
  proof -
    have "share \<le> oi_total item * 1"
      unfolding share_def times_divide_eq_right [symmetric]
      using assms(3-6) that by (intro mult_left_mono) simp_all
    moreover have "x - share < 1 / 200" using le_less_trans [OF order_trans [OF abs_ge_self close], of "1 / 200"] by simp
    ultimately have "x * 100 < of_int c + 1 / 2" using assms(4) by simp
    then have "half_even (x * 100) < c + 1"
      using half_even_close [of "x * 100"] by linarith
    then have "of_int (half_even (x * 100)) \<le> (of_int c :: rat)" by simp
    then show ?thesis using assms(4) by (simp add: quantize_cents_def)
  qed
  moreover have "quantize_cents x = oi_total item" if "re_quantity r = oi_quantity item"
  proof -
    have "share = of_int c / 100" using that assms(3,4) by (simp add: share_def)
    then have "\<bar>x - of_int c / 100\<bar> \<le> 1 / 10 ^ 10" using close by (simp only:)
    then have "\<bar>x - of_int c / 100\<bar> < 1 / 200" by (rule le_less_trans) simp
    then show ?thesis using quantize_near [of x c] assms(4) by simp
  qed
  moreover have "oi_total item < quantize_cents x" if more: "oi_quantity item < re_quantity r" "oi_quantity item \<le> c"
  proof -
    have q: "0 < (of_int (oi_quantity item) :: rat)" using assms(3) by simp
    have "(of_int (oi_quantity item) :: rat) \<le> of_int c * (of_int (re_quantity r) - of_int (oi_quantity item))"
    proof -
      have "c * 1 \<le> c * (re_quantity r - oi_quantity item)" using assms(5) more(1) by (intro mult_left_mono) simp_all
      then have "oi_quantity item \<le> c * (re_quantity r - oi_quantity item)" using more(2) by simp
      then have "(of_int (oi_quantity item) :: rat) \<le> of_int (c * (re_quantity r - oi_quantity item))" by (simp only: of_int_le_iff)
      then show ?thesis by simp
    qed
    then have "oi_total item + 1 / 100 \<le> share"
      using q by (simp add: share_def assms(4) field_simps)
    moreover have "1 / 200 + 1 / 10 ^ 10 < (1 / 100 :: rat)" by simp
    ultimately show ?thesis using near by linarith
  qed
  ultimately show ?thesis unfolding amount using near by (auto simp: quantize_cents_def)
qed

theorem refund_is_the_share_witness:
  "compute_refund_amount demo_return demo_returns = 100"
proof -
  obtain item where item: "item_by demo_returns 20 = Some item" "oi_quantity item = 3" "oi_total item = 100"
    by (simp add: item_by_def demo_returns_def shipping_db.defs demo_ship_def)
  have "compute_refund_amount demo_return demo_returns = oi_total item"
    using refund_is_the_share [of demo_return 20 demo_returns item 10000] item by (simp add: demo_return_def)
  then show ?thesis by (simp add: item)
qed

text \<open>
  Rejecting or cancelling a return, or marking it in transit or requested again, writes the time into
  the notes: with a driver that refuses a time for a text column the update fails, and with one that
  converts it the notes are lost, the ones given with the update too.
\<close>

theorem status_without_timestamp_hits_notes:
  assumes "return_by s i = Some r0" and "st \<in> {RET_REQUESTED, RET_REJECTED, RET_IN_TRANSIT, RET_CANCELLED}"
    and "st \<noteq> re_status r0"
  shows "update_return False i actor (Some st) given_notes s = Inl (DataError ''returns.notes'')
    \<and> (\<exists>s' r. update_return True i actor (Some st) given_notes s = Inr s' \<and> return_by s' i = Some r
      \<and> re_status r = st \<and> re_notes r = Some (NoteTime (clock s)))"
proof
  have stamps: "stamps_notes (Some st) r0" using assms(2,3) by (auto simp: stamps_notes_def)
  then show "update_return False i actor (Some st) given_notes s = Inl (DataError ''returns.notes'')"
    using assms(1) by (simp add: update_return_def)
  let ?s' = "return_update i (write_return (Some st) given_notes (clock s)) s"
  have "update_return True i actor (Some st) given_notes s = Inr ?s'"
    using assms(1,2) by (auto simp: update_return_def)
  moreover have "return_by ?s' i = Some (write_return (Some st) given_notes (clock s) r0)"
    using assms(1) by (simp add: return_by_def return_update_def row_by_set_where write_return_keeps)
  moreover have "re_status (write_return (Some st) given_notes (clock s) r0) = st"
    "re_notes (write_return (Some st) given_notes (clock s) r0) = Some (NoteTime (clock s))"
    using assms(2,3) by (auto simp: write_return_def stamp_status_def split: option.split)
  ultimately show "\<exists>s' r. update_return True i actor (Some st) given_notes s = Inr s' \<and> return_by s' i = Some r
      \<and> re_status r = st \<and> re_notes r = Some (NoteTime (clock s))" by blast
qed

theorem status_without_timestamp_hits_notes_witness:
  "update_return False 50 None (Some RET_REJECTED) (Some ''box open'') demo_returns = Inl (DataError ''returns.notes'')"
  using status_without_timestamp_hits_notes [OF demo_return_50, of RET_REJECTED] by (simp add: demo_return_def)

end
