(* ===== verification/Telecalling.thy ===== *)
theory Telecalling
  imports Returns
begin

text \<open>
  The calling workflow of team leaders and telecallers: \<open>app/services/telecalling_service.py\<close>,
  \<open>app/repositories/telecalling.py\<close>, the lead classification of \<open>lead_classification.py\<close> and the tags
  \<open>sync_call_tags\<close> pushes to Shopify.

  Order leads and checkout leads live in two tables of the same columns; \<open>assignment\<close> is a row of either,
  and a \<open>lead_table\<close> names the table an operation works on. A user's name is in \<open>user_names\<close>.
\<close>

section \<open>Tables\<close>

datatype assignment_status = ACTIVE | INACTIVE

datatype telecalling_status = NOT_CALLED | NOT_ANSWERING | BUSY | SWITCHED_OFF | CALL_BACK_LATER | INTERESTED
  | NOT_INTERESTED | TC_CONFIRMED | TC_CANCELLED | TC_OTHER | CALL_ATTEMPTED | CONNECTED | NOT_RECEIVED
  | INVALID_NUMBER | CALL_BACK_REQUESTED | FOLLOW_UP_REQUIRED

fun telecalling_status_value :: "telecalling_status \<Rightarrow> string" where
  "telecalling_status_value NOT_CALLED = ''not_called''"
| "telecalling_status_value NOT_ANSWERING = ''not_answering''"
| "telecalling_status_value BUSY = ''busy''"
| "telecalling_status_value SWITCHED_OFF = ''switched_off''"
| "telecalling_status_value CALL_BACK_LATER = ''call_back_later''"
| "telecalling_status_value INTERESTED = ''interested''"
| "telecalling_status_value NOT_INTERESTED = ''not_interested''"
| "telecalling_status_value TC_CONFIRMED = ''confirmed''"
| "telecalling_status_value TC_CANCELLED = ''cancelled''"
| "telecalling_status_value TC_OTHER = ''other''"
| "telecalling_status_value CALL_ATTEMPTED = ''call_attempted''"
| "telecalling_status_value CONNECTED = ''connected''"
| "telecalling_status_value NOT_RECEIVED = ''not_received''"
| "telecalling_status_value INVALID_NUMBER = ''invalid_number''"
| "telecalling_status_value CALL_BACK_REQUESTED = ''call_back_requested''"
| "telecalling_status_value FOLLOW_UP_REQUIRED = ''follow_up_required''"

definition legacy_statuses :: "telecalling_status list" where
  "legacy_statuses = [CALL_ATTEMPTED, CONNECTED, NOT_RECEIVED, INVALID_NUMBER, CALL_BACK_REQUESTED, FOLLOW_UP_REQUIRED]"

record user =
  u_id :: uuid
  u_active :: bool
  u_superuser :: bool
  u_leader :: "uuid option"
  u_roles :: "string list"

record assignment =
  as_id :: uuid
  as_subject :: uuid
  as_to :: uuid
  as_by :: "uuid option"
  as_at :: instant
  as_leader :: "uuid option"
  as_status :: assignment_status
  as_from :: "uuid option"
  as_reassigned_to :: "uuid option"
  as_reassigned_at :: "instant option"
  as_reason :: "string option"
  as_call :: telecalling_status
  as_attempts :: int
  as_last :: "instant option"
  as_follow_up :: "instant option"

record call_attempt =
  ct_id :: uuid
  ct_order :: uuid
  ct_telecaller :: "uuid option"
  ct_number :: int
  ct_at :: instant
  ct_outcome :: telecalling_status
  ct_notes :: "string option"
  ct_follow_up :: "instant option"
  ct_corrects :: "uuid option"
  ct_void :: bool

record checkout_attempt =
  cc_id :: uuid
  cc_checkout :: uuid
  cc_telecaller :: "uuid option"
  cc_number :: int
  cc_at :: instant
  cc_outcome :: telecalling_status
  cc_notes :: "string option"
  cc_follow_up :: "instant option"

record checkout =
  ck_id :: uuid
  ck_phone :: "string option"
  ck_email :: "string option"
  ck_recovered :: bool
  ck_created_at :: "instant option"

record tele_db = returns_db +
  users :: "user list"
  order_assignments :: "assignment list"
  call_attempts :: "call_attempt list"
  checkouts :: "checkout list"
  checkout_assignments :: "assignment list"
  checkout_attempts :: "checkout_attempt list"

record 's lead_table =
  lt_rows :: "'s \<Rightarrow> assignment list"
  lt_write :: "assignment list \<Rightarrow> 's \<Rightarrow> 's"
  lt_entity :: string
  lt_assigned :: string
  lt_reassigned :: string
  lt_unassigned_message :: string
  lt_team_message :: string

definition order_leads :: "'a tele_db_scheme lead_table" where
  "order_leads = \<lparr>lt_rows = order_assignments, lt_write = (\<lambda>rows s. s\<lparr>order_assignments := rows\<rparr>),
     lt_entity = ''order'', lt_assigned = ''order.assigned'', lt_reassigned = ''order.reassigned'',
     lt_unassigned_message = ''Order has no active assignment to reassign.'',
     lt_team_message = ''That order is not on your team.''\<rparr>"

definition checkout_leads :: "'a tele_db_scheme lead_table" where
  "checkout_leads = \<lparr>lt_rows = checkout_assignments, lt_write = (\<lambda>rows s. s\<lparr>checkout_assignments := rows\<rparr>),
     lt_entity = ''abandoned_checkout'', lt_assigned = ''checkout.assigned'', lt_reassigned = ''checkout.reassigned'',
     lt_unassigned_message = ''Checkout has no active assignment to reassign.'',
     lt_team_message = ''That checkout is not on your team.''\<rparr>"

definition user_by :: "'a tele_db_scheme \<Rightarrow> uuid \<Rightarrow> user option" where
  "user_by s = row_by u_id (users s)"

definition checkout_by :: "'a tele_db_scheme \<Rightarrow> uuid \<Rightarrow> checkout option" where
  "checkout_by s = row_by ck_id (checkouts s)"

section \<open>Scope\<close>

definition is_admin :: "user \<Rightarrow> bool" where
  "is_admin u \<longleftrightarrow> u_superuser u \<or> ''ADMIN'' \<in> set (u_roles u)"

record scope_filter =
  sc_assigned_to :: "uuid option"
  sc_leader :: "uuid option"

definition resolve_team_scope :: "user \<Rightarrow> scope_filter" where
  "resolve_team_scope actor = \<lparr>sc_assigned_to = None, sc_leader = (if is_admin actor then None else Some (u_id actor))\<rparr>"

definition resolve_telecaller_scope :: "user \<Rightarrow> scope_filter" where
  "resolve_telecaller_scope actor = \<lparr>sc_assigned_to = Some (u_id actor), sc_leader = None\<rparr>"

definition in_scope_of :: "scope_filter \<Rightarrow> assignment \<Rightarrow> bool" where
  "in_scope_of sc a \<longleftrightarrow> (sc_assigned_to sc = None \<or> sc_assigned_to sc = Some (as_to a))
     \<and> (sc_leader sc = None \<or> sc_leader sc = as_leader a)"

text \<open>The active rows of a subject, at most one of which is returned.\<close>

definition active_rows :: "assignment list \<Rightarrow> uuid \<Rightarrow> assignment list" where
  "active_rows rows x = filter (\<lambda>a. as_subject a = x \<and> as_status a = ACTIVE) rows"

definition one_or_none :: "'r list \<Rightarrow> 'r option result" where
  "one_or_none rows = (case rows of [] \<Rightarrow> Inr None | [r] \<Rightarrow> Inr (Some r) | _ \<Rightarrow> Inl MultipleResultsFound)"

definition get_active :: "'s lead_table \<Rightarrow> uuid \<Rightarrow> 's \<Rightarrow> assignment option result" where
  "get_active tbl x s = one_or_none (active_rows (lt_rows tbl s) x)"

definition get_scoped_assignment :: "uuid \<Rightarrow> scope_filter \<Rightarrow> 'a tele_db_scheme \<Rightarrow> assignment result" where
  "get_scoped_assignment oid sc s =
     bindR (one_or_none (filter (in_scope_of sc) (if order_by s oid = None then [] else active_rows (order_assignments s) oid)))
       (\<lambda>a. require_some a (AuthorizationError ''Order not found or not assigned to you.''))"

definition get_scoped_checkout_assignment :: "uuid \<Rightarrow> scope_filter \<Rightarrow> 'a tele_db_scheme \<Rightarrow> assignment result" where
  "get_scoped_checkout_assignment cid sc s =
     bindR (one_or_none (filter (in_scope_of sc) (if checkout_by s cid = None then [] else active_rows (checkout_assignments s) cid)))
       (\<lambda>a. require_some a (AuthorizationError ''Checkout not found or not assigned to you.''))"

text \<open>
  The roster of a select box: \<open>Role.name.ilike\<close> without wildcards compares without regard to case. The
  check before an assignment compares exactly.
\<close>

definition list_assignable_telecallers :: "scope_filter \<Rightarrow> 'a tele_db_scheme \<Rightarrow> user list" where
  "list_assignable_telecallers sc s = filter (\<lambda>u. (\<exists>r\<in>set (u_roles u). lower r = ''telecaller'') \<and> u_active u
     \<and> (sc_leader sc = None \<or> u_leader u = sc_leader sc)) (users s)"

definition assert_telecaller_in_team_scope :: "uuid \<Rightarrow> user \<Rightarrow> 'a tele_db_scheme \<Rightarrow> user result" where
  "assert_telecaller_in_team_scope i actor s =
     bindR (require_some (user_by s i) (NotFoundError ''Telecaller not found.'')) (\<lambda>u.
     bindR (require (''TELECALLER'' \<in> set (u_roles u)) (NotFoundError ''Telecaller not found.'')) (\<lambda>_.
     bindR (require (is_admin actor \<or> u_leader u = Some (u_id actor))
              (AuthorizationError ''That telecaller is not on your team.'')) (\<lambda>_.
     Inr u)))"

fun resolve_telecallers :: "uuid list \<Rightarrow> user \<Rightarrow> 'a tele_db_scheme \<Rightarrow> user list result" where
  "resolve_telecallers [] actor s = Inr []"
| "resolve_telecallers (i # is) actor s =
     bindR (assert_telecaller_in_team_scope i actor s) (\<lambda>u.
     bindR (resolve_telecallers is actor s) (\<lambda>us. Inr (u # us)))"

definition resolve_and_validate_telecallers :: "uuid list \<Rightarrow> user \<Rightarrow> 'a tele_db_scheme \<Rightarrow> user list result" where
  "resolve_and_validate_telecallers is actor s =
     bindR (require (is \<noteq> []) (ValidationError ''At least one telecaller must be specified.'')) (\<lambda>_.
     resolve_telecallers is actor s)"

section \<open>Assignment\<close>

definition new_assignment :: "uuid \<Rightarrow> uuid \<Rightarrow> user \<Rightarrow> user \<Rightarrow> instant \<Rightarrow> assignment" where
  "new_assignment i x telecaller actor t = \<lparr>as_id = i, as_subject = x, as_to = u_id telecaller,
     as_by = Some (u_id actor), as_at = t, as_leader = u_leader telecaller, as_status = ACTIVE, as_from = None,
     as_reassigned_to = None, as_reassigned_at = None, as_reason = None, as_call = NOT_CALLED, as_attempts = 0,
     as_last = None, as_follow_up = None\<rparr>"

text \<open>An insert under the partial unique index: one active row per subject.\<close>

definition insert_assignment :: "'s lead_table \<Rightarrow> assignment \<Rightarrow> 's \<Rightarrow> 's result" where
  "insert_assignment tbl a s =
     bindR (require (active_rows (lt_rows tbl s) (as_subject a) = []) (IntegrityError ''one_active'')) (\<lambda>_.
     Inr (lt_write tbl (lt_rows tbl s @ [a]) s))"

definition candidate_ids :: "string \<Rightarrow> uuid option \<Rightarrow> uuid list option \<Rightarrow> uuid list result" where
  "candidate_ids mode telecaller_id telecaller_ids =
     (if mode = ''manual''
      then bindR (require_some telecaller_id (ValidationError ''telecaller_id is required for manual assignment.'')) (\<lambda>i. Inr [i])
      else Inr (case telecaller_ids of None \<Rightarrow> [] | Some is \<Rightarrow> is))"

text \<open>The check before anything is written: the subjects that are assigned already.\<close>

fun order_conflicts :: "uuid list \<Rightarrow> 'a tele_db_scheme \<Rightarrow> uuid list result" where
  "order_conflicts [] s = Inr []"
| "order_conflicts (oid # oids) s =
     bindR (require (order_by s oid \<noteq> None) (NotFoundError ''Order not found.'')) (\<lambda>_.
     bindR (get_active order_leads oid s) (\<lambda>a.
     bindR (order_conflicts oids s) (\<lambda>cs. Inr (if a = None then cs else oid # cs))))"

fun checkout_conflicts :: "uuid list \<Rightarrow> 'a tele_db_scheme \<Rightarrow> uuid list result" where
  "checkout_conflicts [] s = Inr []"
| "checkout_conflicts (cid # cids) s =
     bindR (require_some (checkout_by s cid) (NotFoundError ''Abandoned checkout not found.'')) (\<lambda>c.
     bindR (require (\<not> ck_recovered c) (ConflictError ''Checkout has already been recovered.'')) (\<lambda>_.
     bindR (get_active checkout_leads cid s) (\<lambda>a.
     bindR (checkout_conflicts cids s) (\<lambda>cs. Inr (if a = None then cs else cid # cs)))))"

text \<open>The round robin: subject number \<open>k\<close> goes to telecaller \<open>k mod length telecallers\<close>.\<close>

fun assign_each ::
  "'a tele_db_scheme lead_table \<Rightarrow> user list \<Rightarrow> user \<Rightarrow> string \<Rightarrow> nat \<Rightarrow> uuid list \<Rightarrow> 'a tele_db_scheme
   \<Rightarrow> 'a tele_db_scheme result" where
  "assign_each tbl ts actor mode k [] s = Inr s"
| "assign_each tbl ts actor mode k (x # xs) s =
     (let u = ts ! (k mod length ts)
      in bindR (insert_assignment tbl (new_assignment (next_id s) x u actor (clock s)) s) (\<lambda>s1.
         assign_each tbl ts actor mode (Suc k) xs
           (audit_record (Some (u_id actor)) (lt_assigned tbl) (lt_entity tbl) x []
             [(''assigned_to'', JId (u_id u)), (''mode'', JStr mode)] [] (fresh s1))))"

definition assign_orders ::
  "uuid list \<Rightarrow> string \<Rightarrow> uuid option \<Rightarrow> uuid list option \<Rightarrow> user \<Rightarrow> 'a tele_db_scheme \<Rightarrow> 'a tele_db_scheme result" where
  "assign_orders oids mode telecaller_id telecaller_ids actor s =
     bindR (candidate_ids mode telecaller_id telecaller_ids) (\<lambda>candidates.
     bindR (resolve_and_validate_telecallers candidates actor s) (\<lambda>ts.
     bindR (order_conflicts oids s) (\<lambda>conflicts.
     bindR (require (conflicts = []) (ConflictError ''The following orders already have an active assignment.'')) (\<lambda>_.
     assign_each order_leads ts actor mode 0 oids s))))"

definition assign_checkouts ::
  "uuid list \<Rightarrow> string \<Rightarrow> uuid option \<Rightarrow> uuid list option \<Rightarrow> user \<Rightarrow> 'a tele_db_scheme \<Rightarrow> 'a tele_db_scheme result" where
  "assign_checkouts cids mode telecaller_id telecaller_ids actor s =
     bindR (candidate_ids mode telecaller_id telecaller_ids) (\<lambda>candidates.
     bindR (resolve_and_validate_telecallers candidates actor s) (\<lambda>ts.
     bindR (checkout_conflicts cids s) (\<lambda>conflicts.
     bindR (require (conflicts = []) (ConflictError ''The following checkouts already have an active assignment.'')) (\<lambda>_.
     assign_each checkout_leads ts actor mode 0 cids s))))"

text \<open>\<open>reassign_order\<close> and \<open>reassign_checkout\<close>: the active row is closed and a new one opened.\<close>

definition close_assignment :: "uuid \<Rightarrow> assignment list \<Rightarrow> assignment list" where
  "close_assignment i = set_where (\<lambda>a. as_id a = i) (\<lambda>a. a\<lparr>as_status := INACTIVE\<rparr>)"

definition reassign ::
  "'a tele_db_scheme lead_table \<Rightarrow> uuid \<Rightarrow> uuid \<Rightarrow> string \<Rightarrow> user \<Rightarrow> 'a tele_db_scheme \<Rightarrow> 'a tele_db_scheme result" where
  "reassign tbl x new_id reason actor s =
     bindR (get_active tbl x s) (\<lambda>found.
     bindR (require_some found (NotFoundError (lt_unassigned_message tbl))) (\<lambda>current.
     bindR (resolve_and_validate_telecallers [new_id] actor s) (\<lambda>ts.
     bindR (require (u_superuser actor \<or> as_leader current = Some (u_id actor))
              (AuthorizationError (lt_team_message tbl))) (\<lambda>_.
     let u = hd ts;
         s1 = lt_write tbl (close_assignment (as_id current) (lt_rows tbl s)) s;
         a = (new_assignment (next_id s) x u actor (clock s))\<lparr>as_from := Some (as_to current),
               as_reassigned_to := Some (u_id u), as_reassigned_at := Some (clock s), as_reason := Some reason\<rparr>
     in bindR (insert_assignment tbl a s1) (\<lambda>s2.
        Inr (audit_record (Some (u_id actor)) (lt_reassigned tbl) (lt_entity tbl) x
          [(''telecaller_id'', JId (as_to current))] [(''telecaller_id'', JId (u_id u)), (''reason'', JStr reason)] []
          (fresh s2)))))))"

definition reassign_order ::
  "uuid \<Rightarrow> uuid \<Rightarrow> string \<Rightarrow> user \<Rightarrow> 'a tele_db_scheme \<Rightarrow> 'a tele_db_scheme result" where
  "reassign_order = reassign order_leads"

definition reassign_checkout ::
  "uuid \<Rightarrow> uuid \<Rightarrow> string \<Rightarrow> user \<Rightarrow> 'a tele_db_scheme \<Rightarrow> 'a tele_db_scheme result" where
  "reassign_checkout = reassign checkout_leads"

section \<open>Who may work on an order\<close>

definition order_assignment_update :: "uuid \<Rightarrow> (assignment \<Rightarrow> assignment) \<Rightarrow> 'a tele_db_scheme \<Rightarrow> 'a tele_db_scheme" where
  "order_assignment_update i f s = s\<lparr>order_assignments := set_where (\<lambda>a. as_id a = i) f (order_assignments s)\<rparr>"

text \<open>The check each operation of a telecaller starts with.\<close>

definition own_assignment :: "uuid \<Rightarrow> user \<Rightarrow> 'a tele_db_scheme \<Rightarrow> assignment result" where
  "own_assignment oid actor s =
     bindR (get_active order_leads oid s) (\<lambda>found.
     bindR (require_some found (NotFoundError ''Order is not currently assigned.'')) (\<lambda>a.
     bindR (require (u_superuser actor \<or> as_to a = u_id actor) (AuthorizationError ''This order is not assigned to you.'')) (\<lambda>_.
     Inr a)))"

definition own_checkout_assignment :: "uuid \<Rightarrow> user \<Rightarrow> 'a tele_db_scheme \<Rightarrow> assignment result" where
  "own_checkout_assignment cid actor s =
     bindR (get_active checkout_leads cid s) (\<lambda>found.
     bindR (require_some found (NotFoundError ''Checkout is not currently assigned.'')) (\<lambda>a.
     bindR (require (u_superuser actor \<or> as_to a = u_id actor) (AuthorizationError ''This checkout is not assigned to you.'')) (\<lambda>_.
     Inr a)))"

section \<open>Call attempts\<close>

text \<open>Newest number first; \<open>sorted(..., reverse=True)\<close> keeps the order of equal numbers.\<close>

definition attempts_for_order :: "'a tele_db_scheme \<Rightarrow> uuid \<Rightarrow> call_attempt list" where
  "attempts_for_order s oid = sort_key (\<lambda>r. - ct_number r) (filter (\<lambda>r. ct_order r = oid) (call_attempts s))"

text \<open>The rows no other row of the order corrects.\<close>

definition resolve_current_for_order :: "'a tele_db_scheme \<Rightarrow> uuid \<Rightarrow> bool \<Rightarrow> call_attempt list" where
  "resolve_current_for_order s oid include_void =
     (let rows = attempts_for_order s oid;
          corrected = map ct_corrects rows;
          resolved = sort_key (\<lambda>r. - ct_number r) (filter (\<lambda>r. Some (ct_id r) \<notin> set corrected) rows)
      in if include_void then resolved else filter (\<lambda>r. \<not> ct_void r) resolved)"

definition get_correctable_for_order :: "'a tele_db_scheme \<Rightarrow> uuid \<Rightarrow> uuid \<Rightarrow> call_attempt option" where
  "get_correctable_for_order s aid oid =
     (case row_by ct_id (call_attempts s) aid of
        None \<Rightarrow> None
      | Some target \<Rightarrow>
          if ct_order target \<noteq> oid then None
          else (case find (\<lambda>r. ct_number r = ct_number target) (resolve_current_for_order s oid True) of
            None \<Rightarrow> None
          | Some current \<Rightarrow> if ct_void current then None else Some current))"

definition max_number :: "int list \<Rightarrow> int" where
  "max_number ns = (case ns of [] \<Rightarrow> 0 | n # rest \<Rightarrow> foldl max n rest)"

definition next_attempt_number :: "'a tele_db_scheme \<Rightarrow> uuid \<Rightarrow> int" where
  "next_attempt_number s oid = max_number (map ct_number (filter (\<lambda>r. ct_order r = oid) (call_attempts s))) + 1"

text \<open>\<open>max(resolved, key=(attempted_at, attempt_number))\<close>: the first of the greatest.\<close>

fun latest_attempt :: "call_attempt \<Rightarrow> call_attempt list \<Rightarrow> call_attempt" where
  "latest_attempt m [] = m"
| "latest_attempt m (r # rs) = latest_attempt (if (ct_at m, ct_number m) < (ct_at r, ct_number r) then r else m) rs"

definition recompute_assignment :: "uuid \<Rightarrow> assignment \<Rightarrow> call_attempt \<Rightarrow> 'a tele_db_scheme \<Rightarrow> 'a tele_db_scheme" where
  "recompute_assignment oid assignment target s =
     (let resolved = resolve_current_for_order s oid False;
          was_most_recent = resolved = [] \<or> (\<forall>r\<in>set resolved. ct_number r \<noteq> ct_number target \<longrightarrow> ct_at r \<le> ct_at target)
      in order_assignment_update (as_id assignment) (\<lambda>a. case resolved of
           [] \<Rightarrow> a\<lparr>as_attempts := 0, as_call := NOT_CALLED, as_last := None, as_follow_up := None\<rparr>
         | r # rs \<Rightarrow>
             let latest = latest_attempt r rs
             in a\<lparr>as_attempts := int (length resolved), as_call := ct_outcome latest, as_last := Some (ct_at latest),
                  as_follow_up := (if was_most_recent then ct_follow_up latest else as_follow_up a)\<rparr>) s)"

section \<open>Tags on the Shopify order\<close>

definition channel_keywords :: "(string \<times> string) list" where
  "channel_keywords = [(''distributor'', ''distributor''), (''influencer'', ''influencer_sample''), (''amazon'', ''amazon''),
     (''flipkart'', ''flipkart''), (''blinkit'', ''blinkit''), (''meesho'', ''meesho'')]"

definition channel_labels :: "(string \<times> string) list" where
  "channel_labels = [(''shopify'', ''Shopify Order''), (''manual'', ''Manual Order''), (''distributor'', ''Distributor Order''),
     (''influencer_sample'', ''Influencer Sample''), (''amazon'', ''Amazon Order''), (''flipkart'', ''Flipkart Order''),
     (''blinkit'', ''Blinkit Order''), (''meesho'', ''Meesho Order'')]"

definition outcome_tags :: "(telecalling_status \<times> string) list" where
  "outcome_tags = [(NOT_ANSWERING, ''Not Answering''), (BUSY, ''Busy''), (SWITCHED_OFF, ''Switched Off''),
     (CALL_BACK_LATER, ''Call Back Later''), (INTERESTED, ''Interested''), (NOT_INTERESTED, ''Not Interested''),
     (TC_CANCELLED, ''Cancelled''), (TC_OTHER, ''Other'')]"

text \<open>\<open>keyword in text\<close>.\<close>

definition contains :: "string \<Rightarrow> string \<Rightarrow> bool" where
  "contains keyword t = list_ex (\<lambda>i. take (length keyword) (drop i t) = keyword) [0..<Suc (length t)]"

fun tag_channel :: "string list \<Rightarrow> string" where
  "tag_channel [] = ''shopify''"
| "tag_channel (tag # tags) =
     (case find (\<lambda>(keyword, _). contains keyword (lower tag)) channel_keywords of
        Some (_, channel) \<Rightarrow> channel
      | None \<Rightarrow> tag_channel tags)"

definition resolve_order_channel :: "order \<Rightarrow> string" where
  "resolve_order_channel ord = (if o_source ord = ''manual'' then ''manual''
     else tag_channel (case o_tags ord of None \<Rightarrow> [] | Some tags \<Rightarrow> tags))"

definition resolve_order_channel_label :: "order \<Rightarrow> string" where
  "resolve_order_channel_label ord = the (map_of channel_labels (resolve_order_channel ord))"

definition call_tags_to_add :: "order \<Rightarrow> telecalling_status \<Rightarrow> string list" where
  "call_tags_to_add ord outcome = resolve_order_channel_label ord
     # (case map_of outcome_tags outcome of None \<Rightarrow> [] | Some tag \<Rightarrow> [tag])"

definition call_tags_to_remove :: "order \<Rightarrow> telecalling_status \<Rightarrow> string list" where
  "call_tags_to_remove ord outcome = map snd (filter (\<lambda>(k, _). k \<noteq> resolve_order_channel ord) channel_labels)
     @ map snd (filter (\<lambda>(k, _). k \<noteq> outcome) outcome_tags)"

definition sync_call_tags ::
  "gateways \<Rightarrow> uuid \<Rightarrow> telecalling_status \<Rightarrow> uuid \<Rightarrow> 'a order_db_scheme \<Rightarrow> 'a order_db_scheme" where
  "sync_call_tags g oid outcome actor s =
     (case Option.bind (order_by s oid) (\<lambda>ord. map_option (\<lambda>i. (ord, i)) (shopify_id ord)) of
        None \<Rightarrow> s
      | Some (ord, i) \<Rightarrow>
          let add = call_tags_to_add ord outcome; remove = call_tags_to_remove ord outcome;
              added = gw_add_tags g i add; removed = gw_remove_tags g i remove
          in if \<not> (added \<or> removed) then s
             else audit_record (Some actor) ''order.shopify_call_tags_synced'' ''order'' oid []
               [(''added'', JList (map JStr (if added then add else []))),
                (''removed'', JList (map JStr (if removed then remove else [])))] [] s)"

section \<open>Calling\<close>

text \<open>\<open>LogCallRequest\<close>: what the endpoint accepts.\<close>

definition loggable :: "telecalling_status \<Rightarrow> string option \<Rightarrow> bool" where
  "loggable outcome text_notes \<longleftrightarrow> outcome \<noteq> NOT_CALLED \<and> outcome \<notin> set legacy_statuses
     \<and> (outcome = TC_OTHER \<longrightarrow> clean_text text_notes \<noteq> None)
     \<and> (case text_notes of None \<Rightarrow> True | Some t \<Rightarrow> length t \<le> 4000)"

definition attempt_create ::
  "uuid \<Rightarrow> uuid \<Rightarrow> int \<Rightarrow> instant \<Rightarrow> telecalling_status \<Rightarrow> string option \<Rightarrow> instant option \<Rightarrow> uuid option \<Rightarrow> bool
   \<Rightarrow> 'a tele_db_scheme \<Rightarrow> 'a tele_db_scheme" where
  "attempt_create oid actor n t outcome text_notes follow_up corrects void s =
     fresh (s\<lparr>call_attempts := call_attempts s @ [\<lparr>ct_id = next_id s, ct_order = oid, ct_telecaller = Some actor,
       ct_number = n, ct_at = t, ct_outcome = outcome, ct_notes = text_notes, ct_follow_up = follow_up,
       ct_corrects = corrects, ct_void = void\<rparr>]\<rparr>)"

text \<open>The rows of a logged call, committed before anything else is tried.\<close>

definition write_call ::
  "uuid \<Rightarrow> assignment \<Rightarrow> telecalling_status \<Rightarrow> string option \<Rightarrow> instant option \<Rightarrow> user \<Rightarrow> 'a tele_db_scheme
   \<Rightarrow> 'a tele_db_scheme" where
  "write_call oid a outcome text_notes follow_up actor s =
     (let n = next_attempt_number s oid;
          s1 = attempt_create oid (u_id actor) n (clock s) outcome text_notes follow_up None False s;
          s2 = order_assignment_update (as_id a) (\<lambda>r. r\<lparr>as_call := outcome, as_attempts := as_attempts a + 1,
                 as_last := Some (clock s), as_follow_up := keep follow_up (as_follow_up r)\<rparr>) s1
      in audit_record (Some (u_id actor)) ''call.logged'' ''order'' oid []
           [(''outcome'', JStr (telecalling_status_value outcome)), (''attempt_number'', JInt n)] [] s2)"

text \<open>\<open>_confirm_order_from_call_log\<close>: a conflict is swallowed, anything else is raised.\<close>

definition confirm_from_call_log :: "gateways \<Rightarrow> uuid \<Rightarrow> user \<Rightarrow> 'a order_db_scheme \<Rightarrow> 'a order_db_scheme committed" where
  "confirm_from_call_log g oid actor s = (case confirm_order g oid (u_id actor) s of
     Inr s' \<Rightarrow> (s', None)
   | Inl (ConflictError _) \<Rightarrow> (s, None)
   | Inl e \<Rightarrow> (s, Some e))"

definition log_call ::
  "gateways \<Rightarrow> uuid \<Rightarrow> telecalling_status \<Rightarrow> string option \<Rightarrow> instant option \<Rightarrow> user \<Rightarrow> 'a tele_db_scheme
   \<Rightarrow> 'a tele_db_scheme committed" where
  "log_call g oid outcome text_notes follow_up actor s =
     (case own_assignment oid actor s of
        Inl e \<Rightarrow> (s, Some e)
      | Inr a \<Rightarrow>
          let s1 = write_call oid a outcome text_notes follow_up actor s
          in case (if outcome = TC_CONFIRMED then confirm_from_call_log g oid actor s1 else (s1, None)) of
               (s2, Some e) \<Rightarrow> (s2, Some e)
             | (s2, None) \<Rightarrow> (sync_call_tags g oid outcome (u_id actor) s2, None))"

text \<open>The request of the endpoint: a body that is not accepted is answered 422 before the service is asked.\<close>

definition log_call_request ::
  "gateways \<Rightarrow> uuid \<Rightarrow> telecalling_status \<Rightarrow> string option \<Rightarrow> instant option \<Rightarrow> user \<Rightarrow> 'a tele_db_scheme
   \<Rightarrow> 'a tele_db_scheme committed" where
  "log_call_request g oid outcome text_notes follow_up actor s =
     (if loggable outcome text_notes then log_call g oid outcome text_notes follow_up actor s
      else (s, Some (ValidationError ''LogCallRequest'')))"

definition list_call_history :: "uuid \<Rightarrow> scope_filter \<Rightarrow> 'a tele_db_scheme \<Rightarrow> call_attempt list result" where
  "list_call_history oid scope s = bindR (get_scoped_assignment oid scope s) (\<lambda>_. Inr (resolve_current_for_order s oid False))"

definition edit_call_attempt ::
  "uuid \<Rightarrow> uuid \<Rightarrow> telecalling_status \<Rightarrow> string option \<Rightarrow> instant option \<Rightarrow> user \<Rightarrow> 'a tele_db_scheme
   \<Rightarrow> 'a tele_db_scheme result" where
  "edit_call_attempt oid aid outcome text_notes follow_up actor s =
     bindR (own_assignment oid actor s) (\<lambda>a.
     bindR (require_some (get_correctable_for_order s aid oid) (NotFoundError ''Call attempt not found.'')) (\<lambda>target.
     let s1 = attempt_create oid (u_id actor) (ct_number target) (ct_at target) outcome text_notes follow_up
                (Some (ct_id target)) False s;
         s2 = recompute_assignment oid a target s1
     in Inr (audit_record (Some (u_id actor)) ''call_attempt.edited'' ''call_attempt'' (ct_id target)
          [(''outcome'', JStr (telecalling_status_value (ct_outcome target))), (''notes'', jtext (ct_notes target))]
          [(''outcome'', JStr (telecalling_status_value outcome)), (''notes'', jtext text_notes)] [] s2)))"

definition delete_call_attempt ::
  "uuid \<Rightarrow> uuid \<Rightarrow> user \<Rightarrow> 'a tele_db_scheme \<Rightarrow> 'a tele_db_scheme result" where
  "delete_call_attempt oid aid actor s =
     bindR (own_assignment oid actor s) (\<lambda>a.
     bindR (require_some (get_correctable_for_order s aid oid) (NotFoundError ''Call attempt not found.'')) (\<lambda>target.
     let s1 = attempt_create oid (u_id actor) (ct_number target) (ct_at target) (ct_outcome target) (ct_notes target)
                (ct_follow_up target) (Some (ct_id target)) True s;
         s2 = recompute_assignment oid a target s1
     in Inr (audit_record (Some (u_id actor)) ''call_attempt.deleted'' ''call_attempt'' (ct_id target)
          [(''outcome'', JStr (telecalling_status_value (ct_outcome target))), (''attempt_number'', JInt (ct_number target))]
          [] [] s2)))"

definition jtime :: "instant option \<Rightarrow> jval" where
  "jtime t = (case t of None \<Rightarrow> JNull | Some x \<Rightarrow> JInt x)"

definition schedule_follow_up :: "uuid \<Rightarrow> instant \<Rightarrow> user \<Rightarrow> 'a tele_db_scheme \<Rightarrow> 'a tele_db_scheme result" where
  "schedule_follow_up oid t actor s =
     bindR (own_assignment oid actor s) (\<lambda>a.
     Inr (audit_record (Some (u_id actor)) ''followup.scheduled'' ''order'' oid
       [(''next_follow_up_at'', jtime (as_follow_up a))] [(''next_follow_up_at'', JInt t)] []
       (order_assignment_update (as_id a) (\<lambda>r. r\<lparr>as_follow_up := Some t\<rparr>) s)))"

section \<open>Working on an assigned order\<close>

definition confirm_assigned_order :: "gateways \<Rightarrow> uuid \<Rightarrow> user \<Rightarrow> 'a tele_db_scheme \<Rightarrow> 'a tele_db_scheme result" where
  "confirm_assigned_order g oid actor s = bindR (own_assignment oid actor s) (\<lambda>_. confirm_order g oid (u_id actor) s)"

text \<open>Each order on its own: the result of one never stops the rest. \<open>None\<close> is a success.\<close>

definition failure_message :: "oms_error \<Rightarrow> string" where
  "failure_message e = (case e of NotFoundError m \<Rightarrow> m | AuthorizationError m \<Rightarrow> m | ConflictError m \<Rightarrow> m
     | ValidationError m \<Rightarrow> m | _ \<Rightarrow> ''Could not confirm this order.'')"

fun bulk_confirm_assigned_orders ::
  "gateways \<Rightarrow> uuid list \<Rightarrow> user \<Rightarrow> 'a tele_db_scheme \<Rightarrow> (uuid \<times> string option) list \<times> 'a tele_db_scheme" where
  "bulk_confirm_assigned_orders g [] actor s = ([], s)"
| "bulk_confirm_assigned_orders g (oid # oids) actor s =
     (case confirm_assigned_order g oid actor s of
        Inl e \<Rightarrow> (case bulk_confirm_assigned_orders g oids actor s of
          (rows, s') \<Rightarrow> ((oid, Some (failure_message e)) # rows, s'))
      | Inr s1 \<Rightarrow> (case bulk_confirm_assigned_orders g oids actor s1 of (rows, s') \<Rightarrow> ((oid, None) # rows, s')))"

definition unconfirm_assigned_order :: "gateways \<Rightarrow> uuid \<Rightarrow> user \<Rightarrow> 'a tele_db_scheme \<Rightarrow> 'a tele_db_scheme committed" where
  "unconfirm_assigned_order g oid actor s = (case own_assignment oid actor s of
     Inl e \<Rightarrow> (s, Some e) | Inr _ \<Rightarrow> unconfirm_order g oid (Some (u_id actor)) s)"

definition update_assigned_order_address ::
  "gateways \<Rightarrow> uuid \<Rightarrow> user \<Rightarrow> address \<Rightarrow> 'a tele_db_scheme \<Rightarrow> 'a tele_db_scheme result" where
  "update_assigned_order_address g oid actor new_address s =
     bindR (own_assignment oid actor s) (\<lambda>_. update_shipping_address g oid (u_id actor) new_address s)"

definition update_assigned_order_item_variant ::
  "uuid \<Rightarrow> uuid \<Rightarrow> user \<Rightarrow> uuid \<Rightarrow> 'a tele_db_scheme \<Rightarrow> 'a tele_db_scheme result" where
  "update_assigned_order_item_variant oid iid actor new_variant s =
     bindR (own_assignment oid actor s) (\<lambda>_. update_item_variant oid iid (u_id actor) new_variant s)"

text \<open>What the page of an assigned order shows beside it.\<close>

definition list_available_variants_for_item ::
  "uuid \<Rightarrow> uuid \<Rightarrow> user \<Rightarrow> 'a tele_db_scheme \<Rightarrow> product_variant list result" where
  "list_available_variants_for_item oid iid actor s =
     bindR (own_assignment oid actor s) (\<lambda>_.
     bindR (require_some (item_by s iid) (NotFoundError ''Order item not found.'')) (\<lambda>item.
     bindR (require (oi_order item = oid) (NotFoundError ''Order item not found.'')) (\<lambda>_.
     Inr (case Option.bind (oi_variant item) (variant_by s) of
       None \<Rightarrow> []
     | Some current \<Rightarrow> filter (\<lambda>v. pv_product v = pv_product current) (product_variants s)))))"

definition get_activity_for_assigned_order :: "uuid \<Rightarrow> user \<Rightarrow> 'a tele_db_scheme \<Rightarrow> order_event list result" where
  "get_activity_for_assigned_order oid actor s =
     bindR (own_assignment oid actor s) (\<lambda>_.
     Inr (rev (sort_key ev_at (filter (\<lambda>e. ev_order e = oid) (order_events s)))))"

definition get_previous_orders_for_assigned_order :: "uuid \<Rightarrow> user \<Rightarrow> nat \<Rightarrow> 'a tele_db_scheme \<Rightarrow> order list result" where
  "get_previous_orders_for_assigned_order oid actor limit s =
     bindR (own_assignment oid actor s) (\<lambda>_.
     Inr (case Option.bind (order_by s oid) o_customer of
       None \<Rightarrow> []
     | Some c \<Rightarrow> take limit (sort_key (\<lambda>r. - o_datetime r) (filter (\<lambda>r. o_customer r = Some c \<and> o_id r \<noteq> oid) (orders s)))))"

section \<open>Calling on an abandoned checkout\<close>

definition next_checkout_number :: "'a tele_db_scheme \<Rightarrow> uuid \<Rightarrow> int" where
  "next_checkout_number s cid = max_number (map cc_number (filter (\<lambda>r. cc_checkout r = cid) (checkout_attempts s))) + 1"

definition checkout_assignment_update :: "uuid \<Rightarrow> (assignment \<Rightarrow> assignment) \<Rightarrow> 'a tele_db_scheme \<Rightarrow> 'a tele_db_scheme" where
  "checkout_assignment_update i f s = s\<lparr>checkout_assignments := set_where (\<lambda>a. as_id a = i) f (checkout_assignments s)\<rparr>"

definition log_checkout_call ::
  "uuid \<Rightarrow> telecalling_status \<Rightarrow> string option \<Rightarrow> instant option \<Rightarrow> user \<Rightarrow> 'a tele_db_scheme \<Rightarrow> 'a tele_db_scheme result" where
  "log_checkout_call cid outcome text_notes follow_up actor s =
     bindR (own_checkout_assignment cid actor s) (\<lambda>a.
     let n = next_checkout_number s cid;
         s1 = fresh (s\<lparr>checkout_attempts := checkout_attempts s @ [\<lparr>cc_id = next_id s, cc_checkout = cid,
                cc_telecaller = Some (u_id actor), cc_number = n, cc_at = clock s, cc_outcome = outcome,
                cc_notes = text_notes, cc_follow_up = follow_up\<rparr>]\<rparr>);
         s2 = checkout_assignment_update (as_id a) (\<lambda>r. r\<lparr>as_call := outcome, as_attempts := as_attempts a + 1,
                as_last := Some (clock s), as_follow_up := keep follow_up (as_follow_up r)\<rparr>) s1
     in Inr (audit_record (Some (u_id actor)) ''checkout_call.logged'' ''abandoned_checkout'' cid []
          [(''outcome'', JStr (telecalling_status_value outcome)), (''attempt_number'', JInt n)] [] s2))"

definition schedule_checkout_follow_up :: "uuid \<Rightarrow> instant \<Rightarrow> user \<Rightarrow> 'a tele_db_scheme \<Rightarrow> 'a tele_db_scheme result" where
  "schedule_checkout_follow_up cid t actor s =
     bindR (own_checkout_assignment cid actor s) (\<lambda>a.
     Inr (audit_record (Some (u_id actor)) ''checkout_followup.scheduled'' ''abandoned_checkout'' cid
       [(''next_follow_up_at'', jtime (as_follow_up a))] [(''next_follow_up_at'', JInt t)] []
       (checkout_assignment_update (as_id a) (\<lambda>r. r\<lparr>as_follow_up := Some t\<rparr>) s)))"

section \<open>Classification and counts\<close>

datatype lead_category = ABANDONED_CHECKOUT | COD_UNFULFILLED | COD_FULFILLED | LEAD_PREPAID

datatype lead_priority = HIGH | MEDIUM | LOW

definition classify_order :: "payment_type \<Rightarrow> fulfillment_status \<Rightarrow> lead_category option" where
  "classify_order p f = (case p of
     COD \<Rightarrow> Some (if f = UNFULFILLED then COD_UNFULFILLED else COD_FULFILLED)
   | PREPAID \<Rightarrow> Some LEAD_PREPAID
   | OTHER_TYPE \<Rightarrow> None)"

definition recent_window_days :: int where
  "recent_window_days = 7"

definition classify_priority :: "lead_category \<Rightarrow> instant option \<Rightarrow> instant \<Rightarrow> instant \<Rightarrow> lead_priority" where
  "classify_priority category follow_up reference now =
     (if (case follow_up of None \<Rightarrow> False | Some t \<Rightarrow> t \<le> now) then HIGH
      else if category = ABANDONED_CHECKOUT \<or> category = COD_UNFULFILLED then HIGH
      else if category = COD_FULFILLED \<and> now - reference \<le> recent_window_days * day_us then MEDIUM
      else LOW)"

definition follow_up_window :: "string option \<Rightarrow> instant \<Rightarrow> (instant option \<times> instant option) result" where
  "follow_up_window win now = (case win of
     None \<Rightarrow> Inr (None, None)
   | Some w \<Rightarrow> (case ist_day_bounds now of (start, stop) \<Rightarrow>
       if w = ''today'' then Inr (Some start, Some stop)
       else if w = ''overdue'' then Inr (None, Some start)
       else if w = ''upcoming'' then Inr (Some stop, None)
       else Inl (ValidationError ''Unknown follow-up window'')))"

definition not_connected_outcomes :: "telecalling_status list" where
  "not_connected_outcomes = [NOT_CALLED, NOT_ANSWERING, BUSY, SWITCHED_OFF, NOT_RECEIVED, CALL_ATTEMPTED, INVALID_NUMBER]"

section \<open>Lead pools\<close>

text \<open>The left join of the orders with their active assignments.\<close>

definition outer_join :: "assignment list \<Rightarrow> uuid \<Rightarrow> assignment option list" where
  "outer_join rows x = (case active_rows rows x of [] \<Rightarrow> [None] | found \<Rightarrow> map Some found)"

definition order_pool :: "'a tele_db_scheme \<Rightarrow> (order \<times> assignment option) list" where
  "order_pool s = concat (map (\<lambda>ord. map (Pair ord) (outer_join (order_assignments s) (o_id ord))) (orders s))"

text \<open>Unassigned, or on the team; everything for an administrator.\<close>

definition pool_visible :: "uuid option \<Rightarrow> assignment option \<Rightarrow> bool" where
  "pool_visible leader a \<longleftrightarrow> leader = None \<or> a = None \<or> (\<exists>r. a = Some r \<and> as_leader r = leader)"

definition pool_matches ::
  "telecalling_status option \<Rightarrow> instant option \<Rightarrow> instant option \<Rightarrow> instant \<Rightarrow> assignment option \<Rightarrow> bool" where
  "pool_matches call_status date_from date_to placed a \<longleftrightarrow>
     (call_status = None \<or> map_option as_call a = call_status)
     \<and> (case date_from of None \<Rightarrow> True | Some d \<Rightarrow> d \<le> placed) \<and> (case date_to of None \<Rightarrow> True | Some d \<Rightarrow> placed \<le> d)"

text \<open>Newest order first; the page of the result is not taken.\<close>

definition list_unfulfilled_pool ::
  "uuid option \<Rightarrow> telecalling_status option \<Rightarrow> instant option \<Rightarrow> instant option \<Rightarrow> 'a tele_db_scheme
   \<Rightarrow> (order \<times> assignment option) list" where
  "list_unfulfilled_pool leader call_status date_from date_to s =
     sort_key (\<lambda>(ord, _). - o_datetime ord) (filter (\<lambda>(ord, a). o_fulfillment ord = UNFULFILLED \<and> pool_visible leader a
       \<and> pool_matches call_status date_from date_to (o_datetime ord) a) (order_pool s))"

definition in_category :: "lead_category option \<Rightarrow> order \<Rightarrow> bool" where
  "in_category category ord \<longleftrightarrow> (case category of
     Some COD_UNFULFILLED \<Rightarrow> o_payment_type ord = COD \<and> o_fulfillment ord = UNFULFILLED
   | Some COD_FULFILLED \<Rightarrow> o_payment_type ord = COD \<and> o_fulfillment ord \<noteq> UNFULFILLED
   | Some LEAD_PREPAID \<Rightarrow> o_payment_type ord = PREPAID
   | _ \<Rightarrow> True)"

definition list_category_pool ::
  "uuid option \<Rightarrow> lead_category option \<Rightarrow> telecalling_status option \<Rightarrow> instant option \<Rightarrow> instant option
   \<Rightarrow> 'a tele_db_scheme \<Rightarrow> (order \<times> assignment option) list" where
  "list_category_pool leader category call_status date_from date_to s =
     sort_key (\<lambda>(ord, _). - o_datetime ord) (filter (\<lambda>(ord, a). o_payment_type ord \<in> {COD, PREPAID}
       \<and> in_category category ord \<and> pool_visible leader a
       \<and> pool_matches call_status date_from date_to (o_datetime ord) a) (order_pool s))"

text \<open>
  \<open>category_counts\<close>: the counts of the groups (payment type, fulfillment status, unassigned), each added to the
  bucket of its category; the sum over the groups of a category is the number of its rows.
\<close>

definition count_category :: "order \<Rightarrow> lead_category" where
  "count_category ord = (if o_payment_type ord = COD \<and> o_fulfillment ord = UNFULFILLED then COD_UNFULFILLED
     else if o_payment_type ord = COD then COD_FULFILLED else LEAD_PREPAID)"

definition category_counts ::
  "uuid option \<Rightarrow> uuid option \<Rightarrow> 'a tele_db_scheme \<Rightarrow> (lead_category \<times> nat \<times> nat) list" where
  "category_counts leader assigned_to s =
     (let rows = filter (\<lambda>(ord, a). o_payment_type ord \<in> {COD, PREPAID} \<and>
            (if assigned_to \<noteq> None then map_option as_to a = assigned_to else pool_visible leader a)) (order_pool s)
      in map (\<lambda>c. (c, length (filter (\<lambda>(ord, a). count_category ord = c) rows),
                      length (filter (\<lambda>(ord, a). count_category ord = c \<and> a = None) rows)))
           [COD_UNFULFILLED, COD_FULFILLED, LEAD_PREPAID])"

definition checkout_pool :: "'a tele_db_scheme \<Rightarrow> (checkout \<times> assignment option) list" where
  "checkout_pool s = filter (\<lambda>(c, _). \<not> ck_recovered c \<and> (ck_phone c \<noteq> None \<or> ck_email c \<noteq> None))
     (concat (map (\<lambda>c. map (Pair c) (outer_join (checkout_assignments s) (ck_id c))) (checkouts s)))"

definition checkout_pool_counts :: "uuid option \<Rightarrow> 'a tele_db_scheme \<Rightarrow> nat \<times> nat" where
  "checkout_pool_counts leader s =
     (let rows = filter (\<lambda>(c, a). pool_visible leader a) (checkout_pool s)
      in (length rows, length (filter (\<lambda>(c, a). a = None) rows)))"

section \<open>Status counts\<close>

text \<open>
  The grouped counts of the active assignments of a team. Connected is whatever implies that the customer was
  reached.
\<close>

definition team_statuses :: "uuid option \<Rightarrow> assignment list \<Rightarrow> telecalling_status list" where
  "team_statuses leader rows =
     map as_call (filter (\<lambda>a. as_status a = ACTIVE \<and> (leader = None \<or> as_leader a = leader)) rows)"

record lead_summary =
  ls_assigned :: nat
  ls_pending :: nat
  ls_called :: nat
  ls_connected :: nat
  ls_confirmed :: nat
  ls_not_interested :: nat

definition summary_from_counts :: "telecalling_status list \<Rightarrow> lead_summary" where
  "summary_from_counts statuses =
     (let count = (\<lambda>st. length (filter ((=) st) statuses))
      in \<lparr>ls_assigned = length statuses, ls_pending = count NOT_CALLED, ls_called = length statuses - count NOT_CALLED,
         ls_connected = length (filter (\<lambda>st. st \<notin> set not_connected_outcomes) statuses),
         ls_confirmed = count TC_CONFIRMED, ls_not_interested = count NOT_INTERESTED\<rparr>)"

definition team_summary :: "scope_filter \<Rightarrow> 'a tele_db_scheme \<Rightarrow> lead_summary \<times> nat \<times> nat" where
  "team_summary sc s =
     (let counts = team_statuses (sc_leader sc) (order_assignments s) @ team_statuses (sc_leader sc) (checkout_assignments s);
          categories = category_counts (sc_leader sc) None s;
          pool = checkout_pool_counts (sc_leader sc) s
      in (summary_from_counts counts, sum_list (map (\<lambda>(_, t, _). t) categories) + fst pool,
          sum_list (map (\<lambda>(_, _, u). u) categories) + snd pool))"

end
