(* ===== verification/Telecalling_Facts.thy ===== *)
theory Telecalling_Facts
  imports Telecalling
begin

text \<open>
  Lemmas on the calling workflow: the interface of a lead table, which the order leads and the checkout leads
  both provide, the round robin, the corrections of call attempts as updates of a history, and the tables
  the operations of the order service leave alone.
\<close>

section \<open>Lead tables\<close>

lemma active_rows_append [simp]: "active_rows (xs @ ys) x = active_rows xs x @ active_rows ys x"
  by (simp add: active_rows_def)

lemma one_or_none_Inr:
  "one_or_none rows = Inr (Some r) \<longleftrightarrow> rows = [r]" "one_or_none rows = Inr None \<longleftrightarrow> rows = []"
  by (auto simp: one_or_none_def split: list.split)

text \<open>One active row per subject, and ids that are fresh.\<close>

definition leads_ok :: "assignment list \<Rightarrow> uuid \<Rightarrow> bool" where
  "leads_ok rows n \<longleftrightarrow> (\<forall>x. length (active_rows rows x) \<le> 1) \<and> distinct (map as_id rows) \<and> (\<forall>a\<in>set rows. as_id a < n)"

lemma leads_ok_iff:
  "leads_ok rows n \<longleftrightarrow> (\<forall>x. length (active_rows rows x) \<le> 1) \<and> distinct (map as_id rows)
    \<and> (\<forall>i\<in>set (map as_id rows). i < n)"
  by (simp add: leads_ok_def)

lemma leads_ok_insert:
  assumes "leads_ok rows n" and "active_rows rows (as_subject a) = []" and "as_id a = n" and "n < m"
  shows "leads_ok (rows @ [a]) m"
  using assms by (auto simp: leads_ok_def active_rows_def)

lemma leads_ok_mono: "leads_ok rows n \<Longrightarrow> n \<le> m \<Longrightarrow> leads_ok rows m"
  by (auto simp: leads_ok_def)

text \<open>Writes of the calling state keep who is assigned.\<close>

lemma active_rows_set_where:
  assumes "\<And>a. as_subject (f a) = as_subject a" and "\<And>a. as_status (f a) = as_status a"
  shows "active_rows (set_where p f rows) x = set_where p f (active_rows rows x)"
  using assms by (induction rows) (auto simp: active_rows_def set_where_def)

lemma leads_ok_set_where:
  assumes "leads_ok rows n" and "\<And>a. as_subject (f a) = as_subject a" and "\<And>a. as_status (f a) = as_status a"
    and "\<And>a. as_id (f a) = as_id a"
  shows "leads_ok (set_where p f rows) n"
proof -
  have "map as_id (set_where p f rows) = map as_id rows" using assms(4) by (rule set_where_keys)
  moreover have "length (active_rows (set_where p f rows) x) = length (active_rows rows x)" for x
    by (simp add: active_rows_set_where assms(2,3)) (simp add: set_where_def)
  ultimately show ?thesis using assms(1) unfolding leads_ok_iff by simp
qed

text \<open>Closing the active row of a subject leaves it without one and the others as they were.\<close>

lemma active_rows_close:
  assumes "active_rows rows x = [c]" and "distinct (map as_id rows)"
  shows "active_rows (close_assignment (as_id c) rows) y = (if y = x then [] else active_rows rows y)"
proof -
  have "c \<in> set (active_rows rows x)" by (simp add: assms(1))
  then have c: "c \<in> set rows" "as_subject c = x" by (auto simp: active_rows_def)
  have same: "a = c" if "a \<in> set rows" "as_id a = as_id c" for a
    using assms(2) c(1) that by (auto simp: distinct_map inj_on_def)
  have "active_rows (close_assignment (as_id c) rows) y = filter (\<lambda>a. as_subject a = y \<and> as_status a = ACTIVE \<and> as_id a \<noteq> as_id c) rows"
    by (simp add: close_assignment_def set_where_def active_rows_def filter_map o_def if_distrib cong: if_cong)
      (induction rows, auto)
  also have "\<dots> = filter (\<lambda>a. as_id a \<noteq> as_id c) (active_rows rows y)"
    by (simp add: active_rows_def conj_ac)
  also have "\<dots> = (if y = x then [] else active_rows rows y)"
  proof (cases "y = x")
    case False
    then have "as_id a \<noteq> as_id c" if "a \<in> set (active_rows rows y)" for a
      using that same c(2) by (auto simp: active_rows_def)
    with False show ?thesis by (simp add: filter_id_conv)
  qed (simp add: assms(1))
  finally show ?thesis .
qed

lemma leads_ok_close:
  assumes "active_rows rows x = [c]" and "leads_ok rows n"
  shows "leads_ok (close_assignment (as_id c) rows) n"
proof -
  have ids: "map as_id (close_assignment (as_id c) rows) = map as_id rows"
    by (simp add: close_assignment_def set_where_keys)
  have "distinct (map as_id rows)" using assms(2) unfolding leads_ok_iff by blast
  with ids assms(2) active_rows_close [OF assms(1)] show ?thesis unfolding leads_ok_iff by simp
qed

locale lead_store =
  fixes tbl :: "'a tele_db_scheme lead_table"
  assumes rows_write: "lt_rows tbl (lt_write tbl rows s) = rows"
    and rows_fresh: "lt_rows tbl (fresh s) = lt_rows tbl s"
    and rows_audit: "lt_rows tbl (audit_record u a t e p n m s) = lt_rows tbl s"
    and write_ids: "next_id (lt_write tbl rows s) = next_id s"
begin

lemma insert_Inr:
  "insert_assignment tbl a s = Inr s' \<longleftrightarrow> active_rows (lt_rows tbl s) (as_subject a) = []
    \<and> s' = lt_write tbl (lt_rows tbl s @ [a]) s"
  by (auto simp: insert_assignment_def bindR_Inr_iff)

text \<open>What the round robin appends.\<close>

lemma assign_each_rows:
  assumes "assign_each tbl ts actor mode k xs s = Inr s'"
  shows "\<exists>rows. lt_rows tbl s' = lt_rows tbl s @ rows \<and> map as_subject rows = xs \<and> (\<forall>a\<in>set rows. as_status a = ACTIVE)
    \<and> map as_to rows = map (\<lambda>i. u_id (ts ! (i mod length ts))) [k..<k + length xs]"
  using assms
proof (induction xs arbitrary: k s)
  case Nil
  then show ?case by simp
next
  case (Cons x xs)
  let ?a = "new_assignment (next_id s) x (ts ! (k mod length ts)) actor (clock s)"
  obtain t where t: "assign_each tbl ts actor mode (Suc k) xs t = Inr s'" and rows: "lt_rows tbl t = lt_rows tbl s @ [?a]"
    using Cons.prems by (auto simp: Let_def bindR_Inr_iff insert_Inr rows_audit rows_fresh rows_write)
  from Cons.IH [OF t] obtain more where more: "lt_rows tbl s' = lt_rows tbl t @ more" "map as_subject more = xs"
      "\<forall>a\<in>set more. as_status a = ACTIVE"
      "map as_to more = map (\<lambda>i. u_id (ts ! (i mod length ts))) [Suc k..<Suc k + length xs]" by blast
  have "[k..<k + length (x # xs)] = k # [Suc k..<Suc k + length xs]" by (simp add: upt_rec)
  with more rows show ?case
    by (intro exI [of _ "?a # more"]) (simp add: new_assignment_def)
qed

lemma assign_each_ok:
  assumes "assign_each tbl ts actor mode k xs s = Inr s'" and "leads_ok (lt_rows tbl s) (next_id s)"
  shows "leads_ok (lt_rows tbl s') (next_id s')"
  using assms
proof (induction xs arbitrary: k s)
  case Nil
  then show ?case by simp
next
  case (Cons x xs)
  let ?a = "new_assignment (next_id s) x (ts ! (k mod length ts)) actor (clock s)"
  obtain t where t: "assign_each tbl ts actor mode (Suc k) xs t = Inr s'" and rows: "lt_rows tbl t = lt_rows tbl s @ [?a]"
      and n: "next_id s < next_id t" and free: "active_rows (lt_rows tbl s) x = []"
    using Cons.prems(1) by (auto simp: Let_def bindR_Inr_iff insert_Inr rows_audit rows_fresh rows_write write_ids new_assignment_def)
  have "leads_ok (lt_rows tbl t) (next_id t)"
    unfolding rows using Cons.prems(2) free n by (intro leads_ok_insert) (simp_all add: new_assignment_def)
  then show ?case by (rule Cons.IH [OF t])
qed

lemma reassign_Inr:
  assumes "reassign tbl x new_id reason actor s = Inr s'"
  obtains c u a where "active_rows (lt_rows tbl s) x = [c]" "assert_telecaller_in_team_scope new_id actor s = Inr u"
    "u_superuser actor \<or> as_leader c = Some (u_id actor)"
    "lt_rows tbl s' = close_assignment (as_id c) (lt_rows tbl s) @ [a]" "as_id a = next_id s" "as_subject a = x"
    "as_status a = ACTIVE" "as_to a = u_id u" "as_leader a = u_leader u" "as_attempts a = 0" "as_call a = NOT_CALLED" "next_id s < next_id s'"
  using assms that
  by (auto simp: reassign_def get_active_def one_or_none_Inr bindR_Inr_iff insert_Inr resolve_and_validate_telecallers_def
      rows_audit rows_fresh rows_write write_ids Let_def new_assignment_def)

lemma reassign_ok:
  assumes "reassign tbl x new_id reason actor s = Inr s'" and ok: "leads_ok (lt_rows tbl s) (next_id s)"
  shows "leads_ok (lt_rows tbl s') (next_id s')"
  using assms(1)
proof (rule reassign_Inr)
  fix c u a
  assume c: "active_rows (lt_rows tbl s) x = [c]"
    and a: "lt_rows tbl s' = close_assignment (as_id c) (lt_rows tbl s) @ [a]" "as_id a = next_id s" "as_subject a = x"
      "next_id s < next_id s'"
  have "leads_ok (close_assignment (as_id c) (lt_rows tbl s)) (next_id s)" using c ok by (rule leads_ok_close)
  moreover have "active_rows (close_assignment (as_id c) (lt_rows tbl s)) x = []"
    using active_rows_close [OF c] ok by (simp add: leads_ok_def)
  ultimately show ?thesis using a by (simp add: leads_ok_insert)
qed

end

lemma tele_frame [simp]:
  "order_assignments (fresh s) = order_assignments s" "checkout_assignments (fresh s) = checkout_assignments s"
  "call_attempts (fresh s) = call_attempts s" "checkout_attempts (fresh s) = checkout_attempts s"
  "order_assignments (audit_record u a t e p n m s) = order_assignments s"
  "checkout_assignments (audit_record u a t e p n m s) = checkout_assignments s"
  "call_attempts (audit_record u a t e p n m s) = call_attempts s"
  "checkout_attempts (audit_record u a t e p n m s) = checkout_attempts s"
  by (simp_all add: fresh_def audit_record_def)

lemma lead_tables [simp]:
  "lt_rows order_leads = order_assignments" "lt_rows checkout_leads = checkout_assignments"
  by (simp_all add: order_leads_def checkout_leads_def)

interpretation order_store: lead_store order_leads
  by unfold_locales (simp_all add: order_leads_def)

interpretation checkout_store: lead_store checkout_leads
  by unfold_locales (simp_all add: checkout_leads_def)

section \<open>The round robin\<close>

lemma round_robin_count:
  assumes "j < k"
  shows "length (filter (\<lambda>i. i mod k = j) [0..<n]) = n div k + (if j < n mod k then 1 else 0)"
proof (induction n)
  case 0
  then show ?case by simp
next
  case (Suc n)
  have "n mod k < k" using assms by simp
  with Suc assms show ?case by (auto simp: div_Suc mod_Suc)
qed

section \<open>What the order service leaves alone\<close>

text \<open>The lead and call tables, and ids that only grow.\<close>

definition tele_part where
  "tele_part s = (order_assignments s, call_attempts s, checkout_assignments s, checkout_attempts s, users s, checkouts s, map o_id (orders s))"

definition tele_kept :: "'a tele_db_scheme \<Rightarrow> 'a tele_db_scheme \<Rightarrow> bool" where
  "tele_kept s s' \<longleftrightarrow> tele_part s' = tele_part s \<and> next_id s \<le> next_id s' \<and> clock s' = clock s"

lemma tele_kept_refl [simp]: "tele_kept s s"
  by (simp add: tele_kept_def)

lemma tele_kept_trans [trans]: "tele_kept s t \<Longrightarrow> tele_kept t u \<Longrightarrow> tele_kept s u"
  by (auto simp: tele_kept_def)

lemma tele_kept_intros [intro!]:
  "tele_kept s t \<Longrightarrow> tele_kept s (fresh t)" "tele_kept s t \<Longrightarrow> tele_kept s (audit_record u a ty e p n m t)"
  "tele_kept s t \<Longrightarrow> (\<And>ord. o_id (f ord) = o_id ord) \<Longrightarrow> tele_kept s (order_update oid f t)"
  "tele_kept s t \<Longrightarrow> tele_kept s (event_create oid ev st d src actor t)"
  "tele_kept s t \<Longrightarrow> tele_kept s (shipment_update i g t)" "tele_kept s t \<Longrightarrow> tele_kept s (item_update j h t)"
  by (simp_all add: tele_kept_def tele_part_def fresh_def audit_record_def order_update_def event_create_def
      shipment_update_def item_update_def set_where_keys)

lemma push_tag_kept [intro!]: "tele_kept s t \<Longrightarrow> tele_kept s (push_tag f a oid actor t)"
  unfolding push_tag_def Let_def by (cases "order_by t oid"; cases "shopify_id (the (order_by t oid))") auto

lemma sync_call_tags_kept [intro!]: "tele_kept s t \<Longrightarrow> tele_kept s (sync_call_tags g oid outcome actor t)"
  by (auto simp: sync_call_tags_def Let_def split: option.split)

lemma validate_order_kept [intro!]: "tele_kept s t \<Longrightarrow> tele_kept s (validate_order g force oid t)"
  unfolding validate_order_def Let_def by (cases "order_by t oid") auto

lemma transition_status_kept: "transition_status oid st actor d t = Inr s' \<Longrightarrow> tele_kept s t \<Longrightarrow> tele_kept s s'"
  unfolding transition_status_def bindR_Inr_iff Let_def by auto

lemma confirm_order_kept:
  assumes "confirm_order g oid actor s = Inr s'"
  shows "tele_kept s s'"
proof -
  obtain s1 where t: "transition_status oid CONFIRMED (Some actor) (Some ''Confirmed by telecaller.'') s = Inr s1"
    and s': "s' = push_tag (gw_add_tags g) ''order.shopify_confirmation_tag_synced'' oid (Some actor)
      (order_update oid (\<lambda>r. r\<lparr>o_confirmed_by := Some actor, o_confirmed_at := Some (clock s)\<rparr>) s1)"
    using assms unfolding confirm_order_def bindR_Inr_iff Let_def sync_confirmation_tag_def by blast
  have "tele_kept s s1" using t by (rule transition_status_kept) simp
  then show ?thesis unfolding s' by auto
qed

lemma cancel_shipment_kept:
  assumes "cancel_shipment g sid actor t = Inr s'" and "tele_kept s t"
  shows "tele_kept s s'"
proof -
  obtain sh where sh: "shipment_by t sid = Some sh" using assms(1) by (auto simp: cancel_shipment_def bindR_Inr_iff)
  then obtain ext where ext: "shp_shiprocket sh = Some ext" "ext \<noteq> []"
    using assms(1) by (cases "shp_shiprocket sh") (auto simp: cancel_shipment_def split: if_split_asm)
  then have "gw_cancel_shipment g ext = None"
    using assms(1) sh by (cases "gw_cancel_shipment g ext") (simp_all add: cancel_shipment_def)
  then show ?thesis using assms sh ext by (auto simp: cancel_shipment_def)
qed

lemma cancel_pending_kept: "cancel_pending g actor shs t = (s', e) \<Longrightarrow> tele_kept s t \<Longrightarrow> tele_kept s s'"
proof (induction shs arbitrary: t)
  case Nil
  then show ?case by simp
next
  case (Cons sh shs)
  from Cons.prems show ?case
    by (auto split: if_split_asm sum.split_asm intro: Cons.IH cancel_shipment_kept)
qed

lemma unconfirm_order_kept:
  assumes "unconfirm_order g oid actor s = (s', e)"
  shows "tele_kept s s'"
proof -
  obtain s2 e2 where c: "cancel_pending g actor (shipments_for_order s oid) (reverse_confirmation_tag g oid actor s) = (s2, e2)"
    by fastforce
  have kept: "tele_kept s s2"
    using c unfolding reverse_confirmation_tag_def by (rule cancel_pending_kept) auto
  have "s' = s \<or> s' = s2 \<or> (\<exists>s3 f. transition_status oid PENDING actor (Some ''Reverted to pending (unconfirmed).'') s2 = Inr s3
      \<and> s' = order_update oid f s3 \<and> (\<forall>ord. o_id (f ord) = o_id ord))"
    using assms c by (cases e2) (auto simp: unconfirm_order_def split: sum.split_asm if_split_asm option.split_asm)
  then show ?thesis using kept transition_status_kept [OF _ kept] by auto
qed

lemma sync_shipping_address_kept:
  assumes "sync_shipping_address g oid actor t = Inr s'" and "tele_kept s t"
  shows "tele_kept s s'"
proof -
  obtain ord where ord: "order_by t oid = Some ord" using assms(1) by (auto simp: sync_shipping_address_def bindR_Inr_iff)
  show ?thesis
  proof (cases "shopify_id ord")
    case None
    then show ?thesis using assms ord by (auto simp: sync_shipping_address_def split: if_split_asm)
  next
    case (Some i)
    show ?thesis
    proof (cases "o_shipping_address ord")
      case None
      then show ?thesis using assms ord Some by (auto simp: sync_shipping_address_def)
    next
      case (Some a)
      then show ?thesis using assms ord \<open>shopify_id ord = Some i\<close>
        by (auto simp: sync_shipping_address_def split: if_split_asm option.split_asm)
    qed
  qed
qed

lemma update_shipping_address_kept: "update_shipping_address g oid actor a s = Inr s' \<Longrightarrow> tele_kept s s'"
  unfolding update_shipping_address_def bindR_Inr_iff Let_def
  by (erule exE, erule conjE, rule sync_shipping_address_kept, assumption) auto

lemma update_item_variant_kept: "update_item_variant oid iid actor v s = Inr s' \<Longrightarrow> tele_kept s s'"
  unfolding update_item_variant_def bindR_Inr_iff Let_def by auto

lemmas order_service_kept = confirm_order_kept unconfirm_order_kept update_shipping_address_kept update_item_variant_kept

section \<open>Logging a call\<close>

lemma own_assignment_Inr:
  "own_assignment oid actor s = Inr a \<longleftrightarrow>
    active_rows (order_assignments s) oid = [a] \<and> (u_superuser actor \<or> as_to a = u_id actor)"
  by (auto simp: own_assignment_def get_active_def one_or_none_Inr bindR_Inr_iff)

text \<open>Whatever the order service answers, the rows of the call are kept.\<close>

lemma log_call_steps:
  assumes "log_call g oid outcome n follow_up actor s = (s', e)"
  obtains (refused) x where "own_assignment oid actor s = Inl x" "s' = s" "e = Some x"
  | (logged) a where "own_assignment oid actor s = Inr a" "tele_kept (write_call oid a outcome n follow_up actor s) s'"
proof (cases "own_assignment oid actor s")
  case (Inl x)
  then have "s' = s" "e = Some x" using assms by (simp_all add: log_call_def)
  then show ?thesis by (rule that(1) [OF Inl])
next
  case (Inr a)
  let ?s1 = "write_call oid a outcome n follow_up actor s"
  obtain s2 e2 where c: "(if outcome = TC_CONFIRMED then confirm_from_call_log g oid actor ?s1 else (?s1, None)) = (s2, e2)"
    by fastforce
  then have "tele_kept ?s1 s2"
    by (auto simp: confirm_from_call_log_def split: if_split_asm sum.split_asm oms_error.split_asm dest: confirm_order_kept)
  moreover have "s' = s2 \<or> s' = sync_call_tags g oid outcome (u_id actor) s2"
    using assms Inr c by (cases e2) (auto simp: log_call_def Let_def)
  ultimately have "tele_kept ?s1 s'" by auto
  then show ?thesis by (rule that(2) [OF Inr])
qed

lemma write_call_tables:
  "call_attempts (write_call oid a outcome n follow_up actor s) = call_attempts s @
     [\<lparr>ct_id = next_id s, ct_order = oid, ct_telecaller = Some (u_id actor), ct_number = next_attempt_number s oid,
       ct_at = clock s, ct_outcome = outcome, ct_notes = n, ct_follow_up = follow_up, ct_corrects = None, ct_void = False\<rparr>]"
  "order_assignments (write_call oid a outcome n follow_up actor s) = set_where (\<lambda>r. as_id r = as_id a)
     (\<lambda>r. r\<lparr>as_call := outcome, as_attempts := as_attempts a + 1, as_last := Some (clock s),
       as_follow_up := keep follow_up (as_follow_up r)\<rparr>) (order_assignments s)"
  "checkout_assignments (write_call oid a outcome n follow_up actor s) = checkout_assignments s"
  "next_id s < next_id (write_call oid a outcome n follow_up actor s)"
  by (simp_all add: write_call_def attempt_create_def order_assignment_update_def Let_def fresh_def audit_record_def)

section \<open>Attempts and their corrections\<close>

text \<open>Ids are fresh, corrections are of rows that exist, and each number has one current row.\<close>

definition tip :: "call_attempt list \<Rightarrow> uuid \<Rightarrow> call_attempt \<Rightarrow> bool" where
  "tip rows oid r \<longleftrightarrow> r \<in> set rows \<and> ct_order r = oid \<and> (\<forall>q\<in>set rows. ct_order q = oid \<longrightarrow> ct_corrects q \<noteq> Some (ct_id r))"

definition attempts_ok :: "call_attempt list \<Rightarrow> uuid \<Rightarrow> bool" where
  "attempts_ok rows n \<longleftrightarrow> distinct (map ct_id rows) \<and> (\<forall>r\<in>set rows. ct_id r < n \<and> (\<forall>i. ct_corrects r = Some i \<longrightarrow> i < n))
     \<and> (\<forall>x q r. tip rows x q \<longrightarrow> tip rows x r \<longrightarrow> ct_number q = ct_number r \<longrightarrow> q = r)"

lemma attempts_ok_mono: "attempts_ok rows n \<Longrightarrow> n \<le> m \<Longrightarrow> attempts_ok rows m"
  unfolding attempts_ok_def by (meson order.strict_trans2)

lemma set_resolve:
  "set (resolve_current_for_order s oid v) = {r. tip (call_attempts s) oid r \<and> (v \<or> \<not> ct_void r)}"
proof -
  have "Some (ct_id r) \<notin> ct_corrects ` {q \<in> set (call_attempts s). ct_order q = oid} \<longleftrightarrow>
      (\<forall>q\<in>set (call_attempts s). ct_order q = oid \<longrightarrow> ct_corrects q \<noteq> Some (ct_id r))" for r
    by (auto simp: image_iff)
  then show ?thesis
    by (auto simp: resolve_current_for_order_def attempts_for_order_def tip_def Let_def)
qed

text \<open>A new row: on top of the numbers there are, or correcting the current row of its number.\<close>

lemma tip_append:
  assumes "attempts_ok rows n" and "ct_id new = n" and "ct_corrects new \<noteq> Some n"
  shows "tip (rows @ [new]) x r \<longleftrightarrow>
    (if r = new then ct_order new = x else tip rows x r \<and> \<not> (ct_order new = x \<and> ct_corrects new = Some (ct_id r)))"
proof -
  have "new \<notin> set rows" using assms(1,2) by (auto simp: attempts_ok_def)
  moreover have "ct_corrects q \<noteq> Some n" if "q \<in> set rows" for q
    using assms(1) that unfolding attempts_ok_def by (metis less_irrefl)
  ultimately show ?thesis using assms(2,3) by (auto simp: tip_def)
qed

lemma attempts_ok_append:
  assumes ok: "attempts_ok rows n" and id: "ct_id new = n"
    and fits: "(ct_corrects new = None \<and> (\<forall>r\<in>set rows. ct_order r = ct_order new \<longrightarrow> ct_number r < ct_number new))
      \<or> (\<exists>t. tip rows (ct_order new) t \<and> ct_corrects new = Some (ct_id t) \<and> ct_number t = ct_number new)"
  shows "attempts_ok (rows @ [new]) (Suc n)"
proof -
  have c: "ct_corrects new \<noteq> Some n" "\<And>i. ct_corrects new = Some i \<Longrightarrow> i < n"
    using fits ok by (auto simp: tip_def attempts_ok_def)
  note tips = tip_append [OF ok id c(1)]
  have other: "ct_number r \<noteq> ct_number new"
    if r: "tip rows (ct_order new) r" "ct_corrects new \<noteq> Some (ct_id r)" for r
    using fits
  proof
    assume "ct_corrects new = None \<and> (\<forall>r\<in>set rows. ct_order r = ct_order new \<longrightarrow> ct_number r < ct_number new)"
    then show ?thesis using r(1) by (auto simp: tip_def)
  next
    assume "\<exists>t. tip rows (ct_order new) t \<and> ct_corrects new = Some (ct_id t) \<and> ct_number t = ct_number new"
    then obtain t where t: "tip rows (ct_order new) t" "ct_corrects new = Some (ct_id t)" "ct_number t = ct_number new" by blast
    then have "r \<noteq> t" using r(2) by blast
    then show ?thesis using ok r(1) t unfolding attempts_ok_def by metis
  qed
  have "q = r" if q: "tip (rows @ [new]) x q" and r: "tip (rows @ [new]) x r" and n: "ct_number q = ct_number r" for x q r
  proof -
    have old: "tip rows x z \<and> ct_number z \<noteq> ct_number new" if "tip (rows @ [new]) x z" "z \<noteq> new" "ct_order new = x" for z
      using that other [of z] unfolding tips by auto
    show ?thesis
    proof (cases "q = new \<or> r = new")
      case True
      then have "ct_order new = x" using q r unfolding tips by (auto split: if_split_asm)
      with True old [OF q] old [OF r] n show ?thesis by metis
    next
      case False
      with q r have "tip rows x q" "tip rows x r" unfolding tips by auto
      with n ok show ?thesis unfolding attempts_ok_def by blast
    qed
  qed
  moreover have "distinct (map ct_id (rows @ [new]))" using ok id by (auto simp: attempts_ok_def)
  moreover have "\<forall>r\<in>set (rows @ [new]). ct_id r < Suc n \<and> (\<forall>i. ct_corrects r = Some i \<longrightarrow> i < Suc n)"
    using ok id c(2) by (auto simp: attempts_ok_def less_Suc_eq)
  ultimately show ?thesis unfolding attempts_ok_def by blast
qed


section \<open>The history of an order's calls\<close>

text \<open>What an order's calls amount to: by attempt number, the current outcome, notes, follow-up and time.\<close>

type_synonym call_facts = "telecalling_status \<times> string option \<times> instant option \<times> instant"

type_synonym history = "uuid \<Rightarrow> int \<Rightarrow> call_facts option"

definition call_facts :: "call_attempt \<Rightarrow> call_facts" where
  "call_facts r = (ct_outcome r, ct_notes r, ct_follow_up r, ct_at r)"

definition call_history :: "'a tele_db_scheme \<Rightarrow> history" where
  "call_history s oid n = map_option call_facts (find (\<lambda>r. ct_number r = n) (resolve_current_for_order s oid False))"

lemma call_history_Some:
  assumes "attempts_ok (call_attempts s) m"
  shows "call_history s oid n = Some v \<longleftrightarrow>
    (\<exists>r. tip (call_attempts s) oid r \<and> \<not> ct_void r \<and> ct_number r = n \<and> call_facts r = v)"
proof
  assume "call_history s oid n = Some v"
  then obtain r where r: "find (\<lambda>r. ct_number r = n) (resolve_current_for_order s oid False) = Some r" "call_facts r = v"
    by (auto simp: call_history_def)
  from find_SomeD [OF r(1)] have "r \<in> set (resolve_current_for_order s oid False)" "ct_number r = n" by auto
  with r(2) show "\<exists>r. tip (call_attempts s) oid r \<and> \<not> ct_void r \<and> ct_number r = n \<and> call_facts r = v"
    by (auto simp: set_resolve)
next
  assume "\<exists>r. tip (call_attempts s) oid r \<and> \<not> ct_void r \<and> ct_number r = n \<and> call_facts r = v"
  then obtain r where r: "tip (call_attempts s) oid r" "\<not> ct_void r" "ct_number r = n" "call_facts r = v" by blast
  show "call_history s oid n = Some v"
  proof (cases "find (\<lambda>r. ct_number r = n) (resolve_current_for_order s oid False)")
    case None
    then show ?thesis using r by (auto simp: find_None_iff set_resolve)
  next
    case (Some q)
    from find_SomeD [OF Some] have "q \<in> set (resolve_current_for_order s oid False)" "ct_number q = n" by auto
    with r assms have "q = r" unfolding attempts_ok_def by (auto simp: set_resolve)
    with Some r show ?thesis by (simp add: call_history_def)
  qed
qed

text \<open>A new row is an update of its order's history at its number.\<close>

definition fits :: "call_attempt list \<Rightarrow> call_attempt \<Rightarrow> bool" where
  "fits rows new \<longleftrightarrow>
     (ct_corrects new = None \<and> (\<forall>r\<in>set rows. ct_order r = ct_order new \<longrightarrow> ct_number r < ct_number new))
     \<or> (\<exists>t. tip rows (ct_order new) t \<and> ct_corrects new = Some (ct_id t) \<and> ct_number t = ct_number new)"

lemma call_history_append:
  assumes ok: "attempts_ok (call_attempts s) n" and id: "ct_id new = n" and new: "fits (call_attempts s) new"
    and rows: "call_attempts s' = call_attempts s @ [new]"
  shows "call_history s' = (call_history s)(ct_order new :=
    (call_history s (ct_order new))(ct_number new := (if ct_void new then None else Some (call_facts new))))"
proof (intro ext)
  fix x k
  have ok': "attempts_ok (call_attempts s') (Suc n)"
    unfolding rows using new by (intro attempts_ok_append [OF ok id]) (simp add: fits_def)
  have c: "ct_corrects new \<noteq> Some n" using new ok id by (auto simp: fits_def tip_def attempts_ok_def)
  note tips = tip_append [OF ok id c, folded rows]
  have top: "tip (call_attempts s') (ct_order new) new" unfolding tips by simp
  have same: "(\<exists>r. tip (call_attempts s') x r \<and> \<not> ct_void r \<and> ct_number r = k \<and> call_facts r = v) \<longleftrightarrow>
      (\<exists>r. tip (call_attempts s) x r \<and> \<not> ct_void r \<and> ct_number r = k \<and> call_facts r = v)"
    if "x \<noteq> ct_order new \<or> k \<noteq> ct_number new" for v
  proof -
    have "tip (call_attempts s') x r \<longleftrightarrow> tip (call_attempts s) x r" if "ct_number r = k" for r
    proof (cases "x = ct_order new")
      case True
      then have "r \<noteq> new" "tip (call_attempts s) x r \<Longrightarrow> ct_corrects new \<noteq> Some (ct_id r)"
        using \<open>x \<noteq> ct_order new \<or> k \<noteq> ct_number new\<close> that new ok
        by (auto simp: fits_def tip_def attempts_ok_def distinct_map inj_on_def)
      then show ?thesis unfolding tips by auto
    next
      case False
      then have "r \<noteq> new" if "tip (call_attempts s') x r" using that unfolding tips by auto
      moreover have "r \<noteq> new" if "tip (call_attempts s) x r" using that False by (auto simp: tip_def)
      ultimately show ?thesis using False unfolding tips by auto
    qed
    then show ?thesis by blast
  qed
  show "call_history s' x k = ((call_history s)(ct_order new :=
    (call_history s (ct_order new))(ct_number new := (if ct_void new then None else Some (call_facts new))))) x k"
  proof (cases "x = ct_order new \<and> k = ct_number new")
    case True
    have only: "r = new" if "tip (call_attempts s') x r" "ct_number r = k" for r
      using ok' top that True unfolding attempts_ok_def by blast
    have "call_history s' x k = (if ct_void new then None else Some (call_facts new))"
    proof (cases "ct_void new")
      case False
      then have "call_history s' x k = Some (call_facts new)"
        using top True by (auto simp: call_history_Some [OF ok'])
      with False show ?thesis by simp
    next
      case void: True
      have "call_history s' x k \<noteq> Some v" for v
        unfolding call_history_Some [OF ok'] using only void by blast
      then show ?thesis using void by (cases "call_history s' x k") auto
    qed
    with True show ?thesis by simp
  next
    case False
    then have "call_history s' x k = Some v \<longleftrightarrow> call_history s x k = Some v" for v
      unfolding call_history_Some [OF ok'] call_history_Some [OF ok] by (intro same) auto
    then have "call_history s' x k = call_history s x k" by (metis not_Some_eq)
    with False show ?thesis by auto
  qed
qed


lemma max_number_ge: "n \<in> set ns \<Longrightarrow> n \<le> max_number ns"
proof (cases ns)
  case (Cons m rest)
  have base: "b \<le> foldl max b xs" for b :: int and xs
    by (induction xs arbitrary: b) (simp, metis foldl_Cons max.boundedE)
  have "n \<le> foldl max b xs" if "n \<in> set xs" for b :: int and xs
    using that by (induction xs arbitrary: b) (auto intro: order_trans [OF max.cobounded2 base])
  moreover assume "n \<in> set ns"
  ultimately show ?thesis using Cons base by (auto simp: max_number_def)
qed simp

lemma next_attempt_number_greater: "r \<in> set (call_attempts s) \<Longrightarrow> ct_order r = oid \<Longrightarrow> ct_number r < next_attempt_number s oid"
  using max_number_ge [of "ct_number r" "map ct_number (filter (\<lambda>r. ct_order r = oid) (call_attempts s))"]
  by (auto simp: next_attempt_number_def)

lemma get_correctable_tip:
  assumes "get_correctable_for_order s aid oid = Some r"
  shows "tip (call_attempts s) oid r" "\<not> ct_void r"
proof -
  obtain t where t: "row_by ct_id (call_attempts s) aid = Some t"
    using assms by (cases "row_by ct_id (call_attempts s) aid") (auto simp: get_correctable_for_order_def)
  have o: "ct_order t = oid" using assms t by (auto simp: get_correctable_for_order_def split: if_split_asm)
  obtain q where q: "find (\<lambda>r. ct_number r = ct_number t) (resolve_current_for_order s oid True) = Some q"
    using assms t o by (cases "find (\<lambda>r. ct_number r = ct_number t) (resolve_current_for_order s oid True)")
      (auto simp: get_correctable_for_order_def)
  then have "r = q" "\<not> ct_void q" using assms t o by (auto simp: get_correctable_for_order_def split: if_split_asm)
  moreover from find_SomeD [OF q] have "q \<in> set (resolve_current_for_order s oid True)" by blast
  ultimately show "tip (call_attempts s) oid r" "\<not> ct_void r" by (auto simp: set_resolve)
qed

text \<open>The calls as steps, and the same steps on a history.\<close>

datatype call_event = Logged uuid telecalling_status "string option" "instant option"
  | Edited uuid telecalling_status "string option" "instant option" | Deleted uuid

inductive call_step :: "call_event \<Rightarrow> 'a tele_db_scheme \<Rightarrow> 'a tele_db_scheme \<Rightarrow> bool" where
  logged: "own_assignment oid actor s = Inr a \<Longrightarrow> log_call g oid outcome n f actor s = (s', e)
    \<Longrightarrow> call_step (Logged oid outcome n f) s s'"
| edited: "edit_call_attempt oid aid outcome n f actor s = Inr s' \<Longrightarrow> call_step (Edited oid outcome n f) s s'"
| deleted: "delete_call_attempt oid aid actor s = Inr s' \<Longrightarrow> call_step (Deleted oid) s s'"

inductive history_step :: "call_event \<Rightarrow> history \<Rightarrow> history \<Rightarrow> bool" where
  logged: "(\<And>m. h oid m \<noteq> None \<Longrightarrow> m < k) \<Longrightarrow>
    history_step (Logged oid outcome n f) h (h(oid := (h oid)(k := Some (outcome, n, f, t))))"
| edited: "h oid k = Some (outcome0, n0, f0, t) \<Longrightarrow>
    history_step (Edited oid outcome n f) h (h(oid := (h oid)(k := Some (outcome, n, f, t))))"
| deleted: "h oid k = Some v \<Longrightarrow> history_step (Deleted oid) h (h(oid := (h oid)(k := None)))"

text \<open>Every step appends one row.\<close>

definition appends :: "call_attempt \<Rightarrow> 'a tele_db_scheme \<Rightarrow> 'a tele_db_scheme \<Rightarrow> bool" where
  "appends new s s' \<longleftrightarrow> call_attempts s' = call_attempts s @ [new] \<and> ct_id new = next_id s \<and> next_id s < next_id s'"

lemma log_call_appends:
  assumes "own_assignment oid actor s = Inr a" and "log_call g oid outcome n f actor s = (s', e)"
  shows "\<exists>r. appends r s s' \<and> ct_order r = oid \<and> ct_number r = next_attempt_number s oid \<and> ct_corrects r = None
    \<and> \<not> ct_void r \<and> call_facts r = (outcome, n, f, clock s)"
proof -
  let ?w = "write_call oid a outcome n f actor s"
  have "tele_kept ?w s'" using assms(2) by (rule log_call_steps) (simp_all add: assms(1))
  then have "call_attempts s' = call_attempts ?w" "next_id s < next_id s'"
    using write_call_tables(4) [of s oid a outcome n f actor] by (auto simp: tele_kept_def tele_part_def)
  then show ?thesis by (simp add: appends_def write_call_tables(1) call_facts_def)
qed

text \<open>A correction: of the current row of a number, at that number and time.\<close>

definition corrects :: "call_attempt \<Rightarrow> uuid \<Rightarrow> uuid \<Rightarrow> 'a tele_db_scheme \<Rightarrow> call_attempt \<Rightarrow> bool" where
  "corrects t oid aid s r \<longleftrightarrow> get_correctable_for_order s aid oid = Some t \<and> ct_order r = oid
     \<and> ct_number r = ct_number t \<and> ct_corrects r = Some (ct_id t) \<and> ct_at r = ct_at t"

lemma recompute_frame [simp]:
  "call_attempts (recompute_assignment oid a t s) = call_attempts s" "next_id (recompute_assignment oid a t s) = next_id s"
  by (simp_all add: recompute_assignment_def order_assignment_update_def Let_def)

lemma edit_call_appends:
  assumes "edit_call_attempt oid aid outcome n f actor s = Inr s'"
  shows "\<exists>t r. corrects t oid aid s r \<and> appends r s s' \<and> \<not> ct_void r \<and> call_facts r = (outcome, n, f, ct_at t)"
  using assms
  by (auto simp: edit_call_attempt_def bindR_Inr_iff Let_def corrects_def appends_def call_facts_def attempt_create_def)

lemma delete_call_appends:
  assumes "delete_call_attempt oid aid actor s = Inr s'"
  shows "\<exists>t r. corrects t oid aid s r \<and> appends r s s' \<and> ct_void r"
  using assms
  by (auto simp: delete_call_attempt_def bindR_Inr_iff Let_def corrects_def appends_def call_facts_def attempt_create_def)

lemma corrects_fits: "corrects t oid aid s r \<Longrightarrow> fits (call_attempts s) r"
  using get_correctable_tip(1) [of s aid oid t] by (auto simp: corrects_def fits_def)

lemma corrects_history:
  assumes "corrects t oid aid s r" and "attempts_ok (call_attempts s) n"
  shows "call_history s oid (ct_number t) = Some (call_facts t)"
  using get_correctable_tip [of s aid oid t] assms by (auto simp: call_history_Some [OF assms(2)] corrects_def)

text \<open>What a call needs to keep the table well formed.\<close>

lemma appends_ok:
  assumes "appends r s s'" and "attempts_ok (call_attempts s) (next_id s)" and "fits (call_attempts s) r"
  shows "attempts_ok (call_attempts s') (next_id s')"
proof -
  have "attempts_ok (call_attempts s @ [r]) (Suc (next_id s))"
    using assms by (intro attempts_ok_append) (simp_all add: appends_def fits_def)
  then show ?thesis using assms(1) by (auto simp: appends_def intro: attempts_ok_mono)
qed

lemma appends_history:
  assumes "appends r s s'" and "attempts_ok (call_attempts s) (next_id s)" and "fits (call_attempts s) r"
  shows "call_history s' = (call_history s)(ct_order r :=
    (call_history s (ct_order r))(ct_number r := (if ct_void r then None else Some (call_facts r))))"
  using assms by (intro call_history_append) (simp_all add: appends_def)

lemma history_below:
  assumes "attempts_ok (call_attempts s) n"
  shows "call_history s oid m \<noteq> None \<Longrightarrow> m < next_attempt_number s oid"
  using next_attempt_number_greater [of _ s oid] by (auto simp: call_history_Some [OF assms] tip_def)

lemma call_step_refines:
  assumes ok: "attempts_ok (call_attempts s) (next_id s)" and step: "call_step ev s s'"
  shows "history_step ev (call_history s) (call_history s') \<and> attempts_ok (call_attempts s') (next_id s')
    \<and> (\<exists>r. call_attempts s' = call_attempts s @ [r])"
  using step
proof cases
  case (logged oid actor a g outcome n f e)
  obtain r where r: "appends r s s'" "ct_order r = oid" "ct_number r = next_attempt_number s oid" "ct_corrects r = None"
      "\<not> ct_void r" "call_facts r = (outcome, n, f, clock s)"
    using log_call_appends [OF logged(2,3)] by blast
  have fit: "fits (call_attempts s) r" using r next_attempt_number_greater by (auto simp: fits_def)
  have "history_step ev (call_history s) ((call_history s)(oid := (call_history s oid)(ct_number r := Some (call_facts r))))"
    unfolding logged(1) r(6) using history_below [OF ok] by (intro history_step.logged) (simp add: r(3))
  moreover have "call_history s' = (call_history s)(oid := (call_history s oid)(ct_number r := Some (call_facts r)))"
    using appends_history [OF r(1) ok fit] r(2,5) by simp
  ultimately show ?thesis using appends_ok [OF r(1) ok fit] r(1) by (auto simp: appends_def)
next
  case (edited oid aid outcome n f actor)
  obtain t r where r: "corrects t oid aid s r" "appends r s s'" "\<not> ct_void r" "call_facts r = (outcome, n, f, ct_at t)"
    using edit_call_appends [OF edited(2)] by blast
  have k: "ct_number r = ct_number t" "ct_order r = oid" using r(1) by (simp_all add: corrects_def)
  have "history_step ev (call_history s) ((call_history s)(oid := (call_history s oid)(ct_number r := Some (call_facts r))))"
    unfolding edited(1) r(4) k using corrects_history [OF r(1) ok] by (intro history_step.edited) (simp add: call_facts_def)
  moreover have "call_history s' = (call_history s)(oid := (call_history s oid)(ct_number r := Some (call_facts r)))"
    using appends_history [OF r(2) ok corrects_fits [OF r(1)]] r(3) k by simp
  ultimately show ?thesis using appends_ok [OF r(2) ok corrects_fits [OF r(1)]] r(2) by (auto simp: appends_def)
next
  case (deleted oid aid actor)
  obtain t r where r: "corrects t oid aid s r" "appends r s s'" "ct_void r"
    using delete_call_appends [OF deleted(2)] by blast
  have k: "ct_number r = ct_number t" "ct_order r = oid" using r(1) by (simp_all add: corrects_def)
  have "history_step ev (call_history s) ((call_history s)(oid := (call_history s oid)(ct_number r := None)))"
    unfolding deleted(1) k using corrects_history [OF r(1) ok] by (rule history_step.deleted)
  moreover have "call_history s' = (call_history s)(oid := (call_history s oid)(ct_number r := None))"
    using appends_history [OF r(2) ok corrects_fits [OF r(1)]] r(3) k by simp
  ultimately show ?thesis using appends_ok [OF r(2) ok corrects_fits [OF r(1)]] r(2) by (auto simp: appends_def)
qed

section \<open>How the lead tables grow\<close>

text \<open>Who an order was ever given to: rows are closed, never deleted or given to someone else.\<close>

type_synonym lead_entry = "uuid \<times> uuid \<times> uuid \<times> uuid option"

definition trail :: "assignment list \<Rightarrow> lead_entry list" where
  "trail rows = map (\<lambda>a. (as_id a, as_subject a, as_to a, as_leader a)) rows"

text \<open>A typed entry is of a subject there is, given to a telecaller, with the leader of the telecaller.\<close>

definition entry_typed :: "uuid set \<Rightarrow> user list \<Rightarrow> lead_entry \<Rightarrow> bool" where
  "entry_typed subjects us e \<longleftrightarrow> (case e of (i, x, t, leader) \<Rightarrow> x \<in> subjects
     \<and> (\<exists>u. row_by u_id us t = Some u \<and> ''TELECALLER'' \<in> set (u_roles u) \<and> u_leader u = leader))"

definition entry_of :: "uuid set \<Rightarrow> lead_entry \<Rightarrow> bool" where
  "entry_of subjects e \<longleftrightarrow> fst (snd e) \<in> subjects"

lemma entry_typed_of: "entry_typed subjects us e \<Longrightarrow> entry_of subjects e"
  by (simp add: entry_typed_def entry_of_def split: prod.split_asm)

text \<open>Rows are added at the end, each with \<open>P\<close> where those before it have \<open>Q\<close>.\<close>

definition grows ::
  "(lead_entry \<Rightarrow> bool) \<Rightarrow> (lead_entry \<Rightarrow> bool) \<Rightarrow> assignment list \<Rightarrow> uuid \<Rightarrow> assignment list \<Rightarrow> uuid \<Rightarrow> bool" where
  "grows P Q rows n rows' n' \<longleftrightarrow> n \<le> n' \<and> (leads_ok rows n \<longrightarrow> leads_ok rows' n')
     \<and> (\<exists>more. trail rows' = trail rows @ more \<and> (list_all Q (trail rows) \<longrightarrow> list_all P more))"

lemma grows_refl [simp]: "grows P Q rows n rows n' \<longleftrightarrow> n \<le> n'"
  by (auto simp: grows_def intro: leads_ok_mono)

lemma grows_trans_as:
  assumes "grows P1 Q a i b j" and "grows P2 Q' b j c k"
    and "\<And>e. P1 e \<Longrightarrow> P e" "\<And>e. P2 e \<Longrightarrow> P e" "\<And>e. P1 e \<Longrightarrow> Q' e" "\<And>e. Q e \<Longrightarrow> Q' e"
  shows "grows P Q a i c k"
proof -
  obtain more more' where b: "trail b = trail a @ more" "list_all Q (trail a) \<Longrightarrow> list_all P1 more"
    and c: "trail c = trail b @ more'" "list_all Q' (trail b) \<Longrightarrow> list_all P2 more'"
    using assms(1,2) unfolding grows_def by metis
  have "list_all P (more @ more')" if "list_all Q (trail a)"
    using that b c assms(3-6) by (simp add: list_all_iff) blast
  then show ?thesis using assms(1,2) b(1) c(1) by (auto simp: grows_def)
qed

lemma grows_le: "grows P Q rows n rows' n' \<Longrightarrow> n \<le> n'"
  by (simp add: grows_def)

lemma grows_mono: "grows P Q rows n rows' k \<Longrightarrow> k \<le> n' \<Longrightarrow> grows P Q rows n rows' n'"
  by (auto simp: grows_def intro: leads_ok_mono)

lemma grows_set_where:
  assumes "\<And>a. as_subject (f a) = as_subject a" and "\<And>a. as_status (f a) = as_status a"
    and "\<And>a. as_id (f a) = as_id a" and "\<And>a. as_to (f a) = as_to a" and "\<And>a. as_leader (f a) = as_leader a" and "n \<le> n'"
  shows "grows P Q rows n (set_where p f rows) n'"
proof -
  have "trail (set_where p f rows) = trail rows" by (simp add: trail_def set_where_def assms(1,3,4,5))
  moreover have "leads_ok rows n \<longrightarrow> leads_ok (set_where p f rows) n'"
    using leads_ok_set_where [OF _ assms(1-3)] leads_ok_mono [OF _ assms(6)] by blast
  ultimately show ?thesis using assms(6) by (simp add: grows_def)
qed

lemma trail_append [simp]: "trail (xs @ ys) = trail xs @ trail ys"
  by (simp add: trail_def)

lemma trail_close [simp]: "trail (close_assignment i rows) = trail rows"
  by (simp add: trail_def close_assignment_def set_where_def)

lemma assert_telecaller_Inr:
  assumes "assert_telecaller_in_team_scope i actor s = Inr u"
  shows "u_id u = i" "user_by s i = Some u" "''TELECALLER'' \<in> set (u_roles u)"
    "is_admin actor \<or> u_leader u = Some (u_id actor)"
  using assms row_by_key [of u_id "users s" i u]
  by (auto simp: assert_telecaller_in_team_scope_def bindR_Inr_iff user_by_def)

lemma assert_telecaller_typed:
  assumes "assert_telecaller_in_team_scope i actor s = Inr u" and "x \<in> subjects"
  shows "entry_typed subjects (users s) (n, x, u_id u, u_leader u)"
  using assert_telecaller_Inr [OF assms(1)] assms(2) by (simp add: entry_typed_def user_by_def)

lemma resolve_telecallers_Inr:
  "resolve_telecallers is actor s = Inr us \<Longrightarrow> map u_id us = is \<and>
    (\<forall>u\<in>set us. assert_telecaller_in_team_scope (u_id u) actor s = Inr u)"
proof (induction "is" arbitrary: us)
  case (Cons i "is")
  then obtain u us' where u: "assert_telecaller_in_team_scope i actor s = Inr u" "resolve_telecallers is actor s = Inr us'"
      "us = u # us'" by (auto simp: bindR_Inr_iff)
  with Cons.IH [OF u(2)] assert_telecaller_Inr(1) [OF u(1)] show ?case by simp
qed simp

context lead_store
begin

lemma assign_each_ids: "assign_each tbl ts actor mode k xs s = Inr s' \<Longrightarrow> next_id s \<le> next_id s'"
proof (induction xs arbitrary: k s)
  case (Cons x xs)
  let ?a = "new_assignment (next_id s) x (ts ! (k mod length ts)) actor (clock s)"
  obtain t where t: "assign_each tbl ts actor mode (Suc k) xs t = Inr s'" "next_id s \<le> next_id t"
    using Cons.prems by (auto simp: Let_def bindR_Inr_iff insert_Inr write_ids)
  from Cons.IH [OF t(1)] t(2) show ?case by simp
qed simp

lemma assign_each_typed:
  assumes "assign_each tbl ts actor mode k xs s = Inr s'" and "ts \<noteq> []"
    and "\<And>i x u. x \<in> set xs \<Longrightarrow> u \<in> set ts \<Longrightarrow> P (i, x, u_id u, u_leader u)"
  shows "\<exists>more. trail (lt_rows tbl s') = trail (lt_rows tbl s) @ more \<and> list_all P more"
  using assms
proof (induction xs arbitrary: k s)
  case (Cons x xs)
  let ?a = "new_assignment (next_id s) x (ts ! (k mod length ts)) actor (clock s)"
  obtain t where t: "assign_each tbl ts actor mode (Suc k) xs t = Inr s'" and rows: "lt_rows tbl t = lt_rows tbl s @ [?a]"
    using Cons.prems(1) by (auto simp: Let_def bindR_Inr_iff insert_Inr rows_audit rows_fresh rows_write)
  have "ts ! (k mod length ts) \<in> set ts" using Cons.prems(2) by simp
  then have "list_all P (trail [?a])" using Cons.prems(3) [of x] by (simp add: trail_def new_assignment_def)
  moreover have "\<exists>more. trail (lt_rows tbl s') = trail (lt_rows tbl t) @ more \<and> list_all P more"
    using Cons.prems(3) by (intro Cons.IH [OF t Cons.prems(2)]) simp_all
  ultimately show ?case by (auto simp: rows)
qed simp

lemma assign_each_grows:
  assumes "assign_each tbl ts actor mode k xs s = Inr s'" and "ts \<noteq> []"
    and "\<And>i x u. x \<in> set xs \<Longrightarrow> u \<in> set ts \<Longrightarrow> P (i, x, u_id u, u_leader u)"
  shows "grows P Q (lt_rows tbl s) (next_id s) (lt_rows tbl s') (next_id s')"
  using assign_each_ok [OF assms(1)] assign_each_ids [OF assms(1)]
    assign_each_typed [OF assms(1,2), of P] assms(3) by (auto simp: grows_def)

lemma reassign_grows:
  assumes "reassign tbl x new_id reason actor s = Inr s'"
    and "\<And>i j t l u. Q (i, x, t, l) \<Longrightarrow> assert_telecaller_in_team_scope new_id actor s = Inr u \<Longrightarrow> P (j, x, u_id u, u_leader u)"
  shows "grows P Q (lt_rows tbl s) (next_id s) (lt_rows tbl s') (next_id s')"
proof -
  have "next_id s < next_id s' \<and> (\<exists>more. trail (lt_rows tbl s') = trail (lt_rows tbl s) @ more
      \<and> (list_all Q (trail (lt_rows tbl s)) \<longrightarrow> list_all P more))"
  proof (rule reassign_Inr [OF assms(1)])
    fix c u a
    assume c: "active_rows (lt_rows tbl s) x = [c]" and u: "assert_telecaller_in_team_scope new_id actor s = Inr u"
      and a: "lt_rows tbl s' = close_assignment (as_id c) (lt_rows tbl s) @ [a]" "as_subject a = x" "as_to a = u_id u"
        "as_leader a = u_leader u" "next_id s < next_id s'"
    have "c \<in> set (active_rows (lt_rows tbl s) x)" by (simp add: c)
    then have "c \<in> set (lt_rows tbl s)" "as_subject c = x" by (auto simp: active_rows_def)
    then have "Q (as_id c, x, as_to c, as_leader c)" if "list_all Q (trail (lt_rows tbl s))"
      using that by (auto simp: trail_def list_all_iff)
    then have "list_all P (trail [a])" if "list_all Q (trail (lt_rows tbl s))"
      using that a assms(2) [OF _ u] by (auto simp: trail_def)
    then show ?thesis using a(1,5) by auto
  qed
  then show ?thesis using reassign_ok [OF assms(1)] by (simp add: grows_def)
qed

end

text \<open>What neither touches.\<close>

locale lead_frame = lead_store tbl for tbl :: "'a tele_db_scheme lead_table" +
  fixes rest :: "'a tele_db_scheme \<Rightarrow> 'b"
  assumes rest_write: "rest (lt_write tbl rows s) = rest s"
    and rest_fresh: "rest (fresh s) = rest s"
    and rest_audit: "rest (audit_record u a t e p n m s) = rest s"
begin

lemma assign_each_rest: "assign_each tbl ts actor mode k xs s = Inr s' \<Longrightarrow> rest s' = rest s"
proof (induction xs arbitrary: k s)
  case (Cons x xs)
  obtain t where t: "assign_each tbl ts actor mode (Suc k) xs t = Inr s'" "rest t = rest s"
    using Cons.prems by (auto simp: Let_def bindR_Inr_iff insert_Inr rest_write rest_fresh rest_audit)
  from Cons.IH [OF t(1)] t(2) show ?case by simp
qed simp

lemma reassign_rest: "reassign tbl x new_id reason actor s = Inr s' \<Longrightarrow> rest s' = rest s"
  by (auto simp: reassign_def bindR_Inr_iff insert_Inr rest_audit rest_fresh rest_write Let_def)

end

lemma people_frame [simp]:
  "users (fresh s) = users s" "users (audit_record u a t e p n m s) = users s"
  "checkouts (fresh s) = checkouts s" "checkouts (audit_record u a t e p n m s) = checkouts s"
  "orders (fresh s) = orders s" "orders (audit_record u a t e p n m s) = orders s"
  by (simp_all add: fresh_def audit_record_def)

definition beside_orders where
  "beside_orders s = (checkout_assignments s, call_attempts s, checkout_attempts s, users s, orders s, checkouts s)"

definition beside_checkouts where
  "beside_checkouts s = (order_assignments s, call_attempts s, checkout_attempts s, users s, orders s, checkouts s)"

interpretation order_frame: lead_frame order_leads beside_orders
  by unfold_locales (simp_all add: order_leads_def beside_orders_def)

interpretation checkout_frame: lead_frame checkout_leads beside_checkouts
  by unfold_locales (simp_all add: checkout_leads_def beside_checkouts_def)

section \<open>Steps of the calling workflow\<close>

text \<open>
  What goes on beside it: users are created, moved to another leader, given other roles or deactivated, orders and checkouts
  arrive and move on, time passes. No code deletes an order or a checkout, and none of it writes the lead and call tables.
\<close>

definition tele_beside :: "'a tele_db_scheme \<Rightarrow> 'a tele_db_scheme \<Rightarrow> bool" where
  "tele_beside s s' \<longleftrightarrow> order_assignments s' = order_assignments s \<and> checkout_assignments s' = checkout_assignments s
     \<and> call_attempts s' = call_attempts s \<and> next_id s \<le> next_id s'
     \<and> set (map o_id (orders s)) \<subseteq> set (map o_id (orders s')) \<and> set (map ck_id (checkouts s)) \<subseteq> set (map ck_id (checkouts s'))"

inductive tele_step :: "'a tele_db_scheme \<Rightarrow> 'a tele_db_scheme \<Rightarrow> bool" where
  assign: "assign_orders oids mode i is actor s = Inr s' \<Longrightarrow> tele_step s s'"
| assign_checkout: "assign_checkouts cids mode i is actor s = Inr s' \<Longrightarrow> tele_step s s'"
| reassign: "reassign_order oid new_id reason actor s = Inr s' \<Longrightarrow> tele_step s s'"
| reassign_checkout: "reassign_checkout cid new_id reason actor s = Inr s' \<Longrightarrow> tele_step s s'"
| log: "log_call g oid outcome n f actor s = (s', e) \<Longrightarrow> tele_step s s'"
| edit: "edit_call_attempt oid aid outcome n f actor s = Inr s' \<Longrightarrow> tele_step s s'"
| delete: "delete_call_attempt oid aid actor s = Inr s' \<Longrightarrow> tele_step s s'"
| schedule: "schedule_follow_up oid t actor s = Inr s' \<Longrightarrow> tele_step s s'"
| confirm: "confirm_assigned_order g oid actor s = Inr s' \<Longrightarrow> tele_step s s'"
| unconfirm: "unconfirm_assigned_order g oid actor s = (s', e) \<Longrightarrow> tele_step s s'"
| address: "update_assigned_order_address g oid actor a s = Inr s' \<Longrightarrow> tele_step s s'"
| variant: "update_assigned_order_item_variant oid iid actor v s = Inr s' \<Longrightarrow> tele_step s s'"
| log_checkout: "log_checkout_call cid outcome n f actor s = Inr s' \<Longrightarrow> tele_step s s'"
| schedule_checkout: "schedule_checkout_follow_up cid t actor s = Inr s' \<Longrightarrow> tele_step s s'"
| bulk: "bulk_confirm_assigned_orders g oids actor s = (rows, s') \<Longrightarrow> tele_step s s'"
| others: "tele_beside s s' \<Longrightarrow> tele_step s s'"

abbreviation order_ids :: "'a tele_db_scheme \<Rightarrow> uuid set" where
  "order_ids s \<equiv> set (map o_id (orders s))"

abbreviation checkout_ids :: "'a tele_db_scheme \<Rightarrow> uuid set" where
  "checkout_ids s \<equiv> set (map ck_id (checkouts s))"

definition tables_grow :: "'a tele_db_scheme \<Rightarrow> 'a tele_db_scheme \<Rightarrow> bool" where
  "tables_grow s s' \<longleftrightarrow> grows (entry_typed (order_ids s) (users s)) (entry_of (order_ids s))
       (order_assignments s) (next_id s) (order_assignments s') (next_id s')
     \<and> grows (entry_typed (checkout_ids s) (users s)) (entry_of (checkout_ids s))
       (checkout_assignments s) (next_id s) (checkout_assignments s') (next_id s')
     \<and> users s' = users s \<and> checkouts s' = checkouts s \<and> map o_id (orders s') = map o_id (orders s)"

lemma tables_grow_kept: "tele_kept s s' \<Longrightarrow> tables_grow s s'"
  by (simp add: tables_grow_def tele_kept_def tele_part_def)

lemma tables_grow_trans [trans]:
  assumes "tables_grow s t" and "tables_grow t u"
  shows "tables_grow s u"
proof -
  have same: "users t = users s" "order_ids t = order_ids s" "checkout_ids t = checkout_ids s"
    using assms(1) unfolding tables_grow_def by metis+
  have through: "grows (entry_typed ids us) (entry_of ids) a i b j \<Longrightarrow> grows (entry_typed ids us) (entry_of ids) b j c k
      \<Longrightarrow> grows (entry_typed ids us) (entry_of ids) a i c k" for ids us a i b j c k
    using grows_trans_as [of "entry_typed ids us" "entry_of ids" a i b j "entry_typed ids us" "entry_of ids" c k "entry_typed ids us"]
      entry_typed_of [of ids us] by blast
  show ?thesis
    using assms unfolding tables_grow_def same by (blast intro: through trans)
qed

lemma tables_grow_update:
  assumes "\<And>a. as_subject (f a) = as_subject a" "\<And>a. as_status (f a) = as_status a" "\<And>a. as_id (f a) = as_id a"
    "\<And>a. as_to (f a) = as_to a" "\<And>a. as_leader (f a) = as_leader a"
  shows "tables_grow s (order_assignment_update i f s)" "tables_grow s (checkout_assignment_update i f s)"
  using assms by (simp_all add: tables_grow_def order_assignment_update_def checkout_assignment_update_def grows_set_where)

lemma tables_grow_same:
  assumes "order_assignments t = order_assignments s" "checkout_assignments t = checkout_assignments s" "next_id s \<le> next_id t"
    "users t = users s" "checkouts t = checkouts s" "orders t = orders s"
  shows "tables_grow s t"
  using assms by (simp add: tables_grow_def)

lemma tables_grow_audit: "tables_grow s t \<Longrightarrow> tables_grow s (audit_record u a ty e p n m t)"
  by (auto simp: tables_grow_def intro: grows_mono)

lemma recompute_grows: "tables_grow s (recompute_assignment oid a t s)"
  unfolding recompute_assignment_def Let_def by (rule tables_grow_update) (simp_all split: list.split)

lemma attempt_create_grows: "tables_grow s (attempt_create oid u n t out nt f c v s)"
  by (rule tables_grow_same) (simp_all add: attempt_create_def)

lemma write_call_grows: "tables_grow s (write_call oid a outcome n f actor s)"
  unfolding write_call_def Let_def
  by (rule tables_grow_audit, rule tables_grow_trans [OF attempt_create_grows], rule tables_grow_update) simp_all

text \<open>The subjects an assignment accepts are there.\<close>

lemma order_conflicts_exist: "order_conflicts oids s = Inr cs \<Longrightarrow> set oids \<subseteq> order_ids s"
proof (induction oids arbitrary: cs)
  case (Cons oid oids)
  then obtain ord cs' where "order_by s oid = Some ord" "order_conflicts oids s = Inr cs'"
    by (auto simp: bindR_Inr_iff)
  with Cons.IH show ?case using row_by_SomeD [of o_id "orders s" oid ord]
    by (auto simp: order_by_def)
qed simp

lemma checkout_conflicts_exist: "checkout_conflicts cids s = Inr cs \<Longrightarrow> set cids \<subseteq> checkout_ids s"
proof (induction cids arbitrary: cs)
  case (Cons cid cids)
  then obtain c cs' where "checkout_by s cid = Some c" "checkout_conflicts cids s = Inr cs'"
    by (auto simp: bindR_Inr_iff)
  with Cons.IH show ?case using row_by_SomeD [of ck_id "checkouts s" cid c]
    by (auto simp: checkout_by_def)
qed simp

lemma resolve_and_validate_Inr:
  assumes "resolve_and_validate_telecallers is actor s = Inr ts"
  shows "map u_id ts = is" "ts \<noteq> []" "u \<in> set ts \<Longrightarrow> assert_telecaller_in_team_scope (u_id u) actor s = Inr u"
  using assms resolve_telecallers_Inr [of "is" actor s ts]
  by (auto simp: resolve_and_validate_telecallers_def bindR_Inr_iff)

lemma order_side_grows:
  assumes "grows (entry_typed (order_ids s) (users s)) (entry_of (order_ids s)) (order_assignments s) (next_id s) (order_assignments s') (next_id s')"
    and "beside_orders s' = beside_orders s"
  shows "tables_grow s s'"
  using assms(2) assms(1) grows_le [OF assms(1)] by (simp add: tables_grow_def beside_orders_def)

lemma checkout_side_grows:
  assumes "grows (entry_typed (checkout_ids s) (users s)) (entry_of (checkout_ids s)) (checkout_assignments s) (next_id s) (checkout_assignments s') (next_id s')"
    and "beside_checkouts s' = beside_checkouts s"
  shows "tables_grow s s'"
  using assms(2) assms(1) grows_le [OF assms(1)] by (simp add: tables_grow_def beside_checkouts_def)

lemma assign_orders_grows:
  assumes "assign_orders oids mode i is actor s = Inr s'"
  shows "tables_grow s s'"
proof -
  obtain cs ts where ts: "resolve_and_validate_telecallers cs actor s = Inr ts" and c: "order_conflicts oids s = Inr []"
    and a: "assign_each order_leads ts actor mode 0 oids s = Inr s'"
    using assms by (auto simp: assign_orders_def bindR_Inr_iff)
  have "entry_typed (order_ids s) (users s) (i, x, u_id u, u_leader u)" if "x \<in> set oids" "u \<in> set ts" for i x u
    using that order_conflicts_exist [OF c] by (intro assert_telecaller_typed [OF resolve_and_validate_Inr(3) [OF ts]]) auto
  then show ?thesis
    using order_store.assign_each_grows [OF a resolve_and_validate_Inr(2) [OF ts]] order_frame.assign_each_rest [OF a]
    by (intro order_side_grows) simp_all
qed

lemma assign_checkouts_grows:
  assumes "assign_checkouts cids mode i is actor s = Inr s'"
  shows "tables_grow s s'"
proof -
  obtain cs ts where ts: "resolve_and_validate_telecallers cs actor s = Inr ts" and c: "checkout_conflicts cids s = Inr []"
    and a: "assign_each checkout_leads ts actor mode 0 cids s = Inr s'"
    using assms by (auto simp: assign_checkouts_def bindR_Inr_iff)
  have "entry_typed (checkout_ids s) (users s) (i, x, u_id u, u_leader u)" if "x \<in> set cids" "u \<in> set ts" for i x u
    using that checkout_conflicts_exist [OF c] by (intro assert_telecaller_typed [OF resolve_and_validate_Inr(3) [OF ts]]) auto
  then show ?thesis
    using checkout_store.assign_each_grows [OF a resolve_and_validate_Inr(2) [OF ts]] checkout_frame.assign_each_rest [OF a]
    by (intro checkout_side_grows) simp_all
qed

lemma reassign_tables_grow:
  "reassign_order oid new_id reason actor s = Inr s' \<Longrightarrow> tables_grow s s'"
  "reassign_checkout cid new_id reason actor s = Inr s' \<Longrightarrow> tables_grow s s'"
proof -
  have typed: "entry_typed ids (users s) (j, x, u_id u, u_leader u)"
    if "entry_of ids (i, x, t, l)" "assert_telecaller_in_team_scope new_id actor s = Inr u" for ids i j x t l u
    using that by (intro assert_telecaller_typed) (simp_all add: entry_of_def)
  show "tables_grow s s'" if "reassign_order oid new_id reason actor s = Inr s'"
    using order_store.reassign_grows [OF that [unfolded reassign_order_def], of "entry_of (order_ids s)" "entry_typed (order_ids s) (users s)"] typed
      order_frame.reassign_rest [OF that [unfolded reassign_order_def]] by (intro order_side_grows) simp_all
  show "tables_grow s s'" if "reassign_checkout cid new_id reason actor s = Inr s'"
    using checkout_store.reassign_grows [OF that [unfolded reassign_checkout_def], of "entry_of (checkout_ids s)" "entry_typed (checkout_ids s) (users s)"] typed
      checkout_frame.reassign_rest [OF that [unfolded reassign_checkout_def]] by (intro checkout_side_grows) simp_all
qed

lemma log_call_grows:
  assumes "log_call g oid outcome n f actor s = (s', e)"
  shows "tables_grow s s'"
  using assms
proof (cases rule: log_call_steps)
  case refused
  then show ?thesis by (simp add: tables_grow_same)
next
  case (logged a)
  show ?thesis by (rule tables_grow_trans [OF write_call_grows tables_grow_kept [OF logged(2)]])
qed

lemma correct_call_grows:
  "edit_call_attempt oid aid outcome n f actor s = Inr s' \<Longrightarrow> tables_grow s s'"
  "delete_call_attempt oid aid actor s = Inr s' \<Longrightarrow> tables_grow s s'"
  unfolding edit_call_attempt_def delete_call_attempt_def bindR_Inr_iff Let_def
  by (auto intro!: tables_grow_audit intro: tables_grow_trans [OF attempt_create_grows recompute_grows])

lemma checkout_call_grows:
  assumes "log_checkout_call cid outcome n f actor s = Inr s'"
  shows "tables_grow s s'"
proof -
  have "tables_grow s (fresh (s\<lparr>checkout_attempts := rows\<rparr>))" for rows
    by (rule tables_grow_same) simp_all
  then show ?thesis using assms unfolding log_checkout_call_def bindR_Inr_iff Let_def
    by (auto intro!: tables_grow_audit intro: tables_grow_trans [OF _ tables_grow_update(2)])
qed

lemma schedule_grows:
  "schedule_follow_up oid t actor s = Inr s' \<Longrightarrow> tables_grow s s'"
  "schedule_checkout_follow_up cid t actor s = Inr s' \<Longrightarrow> tables_grow s s'"
  unfolding schedule_follow_up_def schedule_checkout_follow_up_def bindR_Inr_iff
  by (auto intro!: tables_grow_audit intro: tables_grow_update)

lemma assigned_order_kept:
  "confirm_assigned_order g oid actor s = Inr s' \<Longrightarrow> tele_kept s s'"
  "unconfirm_assigned_order g oid actor s = (s', e) \<Longrightarrow> tele_kept s s'"
  "update_assigned_order_address g oid actor a s = Inr s' \<Longrightarrow> tele_kept s s'"
  "update_assigned_order_item_variant oid iid actor v s = Inr s' \<Longrightarrow> tele_kept s s'"
  unfolding confirm_assigned_order_def unconfirm_assigned_order_def update_assigned_order_address_def
    update_assigned_order_item_variant_def bindR_Inr_iff
  by (auto dest: order_service_kept split: sum.split_asm)

lemma bulk_confirm_kept: "bulk_confirm_assigned_orders g oids actor s = (rows, s') \<Longrightarrow> tele_kept s s'"
proof (induction oids arbitrary: s rows)
  case (Cons oid oids)
  then show ?case
    by (auto split: sum.split_asm prod.split_asm intro: tele_kept_trans dest!: assigned_order_kept(1))
qed simp

lemma tele_step_grows:
  assumes "tele_step s s'"
  shows "tables_grow s s' \<or> tele_beside s s'"
  using assms
proof cases
  case others
  then show ?thesis ..
qed (rule disjI1; erule assign_orders_grows assign_checkouts_grows reassign_tables_grow log_call_grows correct_call_grows
      checkout_call_grows schedule_grows assigned_order_kept [THEN tables_grow_kept] bulk_confirm_kept [THEN tables_grow_kept])+

text \<open>
  Over a run, a row is added by someone who was let assign to a telecaller, with the leader the telecaller had then.
\<close>

definition given_in ::
  "('a tele_db_scheme \<Rightarrow> uuid set) \<Rightarrow> 'a tele_db_scheme \<Rightarrow> 'a tele_db_scheme \<Rightarrow> lead_entry \<Rightarrow> bool" where
  "given_in subjects s s' e \<longleftrightarrow> (\<exists>t. tele_step\<^sup>*\<^sup>* s t \<and> tele_step\<^sup>*\<^sup>* t s' \<and> entry_typed (subjects t) (users t) e)"

lemma given_in_mono: "given_in subjects s t e \<Longrightarrow> tele_step t u \<Longrightarrow> given_in subjects s u e"
  unfolding given_in_def by (meson rtranclp.rtrancl_into_rtrancl)

definition run_grows :: "'a tele_db_scheme \<Rightarrow> 'a tele_db_scheme \<Rightarrow> bool" where
  "run_grows s s' \<longleftrightarrow> grows (given_in order_ids s s') (entry_of (order_ids s)) (order_assignments s) (next_id s) (order_assignments s') (next_id s')
     \<and> grows (given_in checkout_ids s s') (entry_of (checkout_ids s)) (checkout_assignments s) (next_id s) (checkout_assignments s') (next_id s')
     \<and> order_ids s \<subseteq> order_ids s' \<and> checkout_ids s \<subseteq> checkout_ids s'"

text \<open>One more step, on the one table or the other.\<close>

lemma grows_step:
  assumes "grows (given_in subjects s t) (entry_of (subjects s)) a i b j" and "subjects s \<subseteq> subjects t"
    and "tele_step\<^sup>*\<^sup>* s t" and "tele_step t u"
    and "grows (entry_typed (subjects t) (users t)) (entry_of (subjects t)) b j c k \<or> (c = b \<and> j \<le> k)"
    and "\<And>v. tele_step\<^sup>*\<^sup>* s v \<Longrightarrow> tele_step\<^sup>*\<^sup>* v t \<Longrightarrow> subjects v \<subseteq> subjects t"
  shows "grows (given_in subjects s u) (entry_of (subjects s)) a i c k"
proof -
  have step: "grows (entry_typed (subjects t) (users t)) (entry_of (subjects t)) b j c k" using assms(5) by auto
  show ?thesis
  proof (rule grows_trans_as [OF assms(1) step])
    show "given_in subjects s u e" if "given_in subjects s t e" for e using that assms(4) by (rule given_in_mono)
    show "given_in subjects s u e" if "entry_typed (subjects t) (users t) e" for e
      using that assms(3,4) unfolding given_in_def by blast
    show "entry_of (subjects t) e" if "given_in subjects s t e" for e
    proof -
      obtain v where v: "tele_step\<^sup>*\<^sup>* s v" "tele_step\<^sup>*\<^sup>* v t" "entry_typed (subjects v) (users v) e"
        using \<open>given_in subjects s t e\<close> unfolding given_in_def by blast
      then show ?thesis using entry_typed_of [OF v(3)] assms(6) [OF v(1,2)] unfolding entry_of_def by blast
    qed
    show "entry_of (subjects t) e" if "entry_of (subjects s) e" for e
      using that assms(2) unfolding entry_of_def by blast
  qed
qed

lemma tele_step_ids:
  assumes "tele_step s s'"
  shows "order_ids s \<subseteq> order_ids s' \<and> checkout_ids s \<subseteq> checkout_ids s'"
proof -
  have "order_ids s = order_ids s' \<and> checkout_ids s = checkout_ids s'" if "tables_grow s s'"
    using that unfolding tables_grow_def by metis
  then show ?thesis using tele_step_grows [OF assms] unfolding tele_beside_def by blast
qed

lemma tele_run_ids: "tele_step\<^sup>*\<^sup>* s s' \<Longrightarrow> order_ids s \<subseteq> order_ids s' \<and> checkout_ids s \<subseteq> checkout_ids s'"
proof (induction rule: rtranclp_induct)
  case (step t u)
  then show ?case using tele_step_ids [OF step(2)] by blast
qed simp

lemma tele_run_grows: "tele_step\<^sup>*\<^sup>* s s' \<Longrightarrow> run_grows s s'"
proof (induction rule: rtranclp_induct)
  case base
  then show ?case by (simp add: run_grows_def)
next
  case (step t u)
  have both: "(grows (entry_typed (order_ids t) (users t)) (entry_of (order_ids t)) (order_assignments t) (next_id t) (order_assignments u) (next_id u)
        \<or> (order_assignments u = order_assignments t \<and> next_id t \<le> next_id u))
      \<and> (grows (entry_typed (checkout_ids t) (users t)) (entry_of (checkout_ids t)) (checkout_assignments t) (next_id t) (checkout_assignments u) (next_id u)
        \<or> (checkout_assignments u = checkout_assignments t \<and> next_id t \<le> next_id u))"
    using tele_step_grows [OF step(2)] unfolding tables_grow_def tele_beside_def by blast
  have ids: "order_ids s \<subseteq> order_ids t" "checkout_ids s \<subseteq> checkout_ids t" using tele_run_ids [OF step(1)] by blast+
  have up: "order_ids v \<subseteq> order_ids t" "checkout_ids v \<subseteq> checkout_ids t" if "tele_step\<^sup>*\<^sup>* v t" for v
    using tele_run_ids [OF that] by blast+
  show ?case
    using step(3) grows_step [where subjects = order_ids, OF _ ids(1) step(1,2) conjunct1 [OF both]]
      grows_step [where subjects = checkout_ids, OF _ ids(2) step(1,2) conjunct2 [OF both]] up ids tele_step_ids [OF step(2)]
    unfolding run_grows_def by blast
qed

text \<open>What holds of the tables in every reachable state.\<close>

definition leads_exist :: "'a tele_db_scheme \<Rightarrow> bool" where
  "leads_exist s \<longleftrightarrow> list_all (entry_of (order_ids s)) (trail (order_assignments s))
     \<and> list_all (entry_of (checkout_ids s)) (trail (checkout_assignments s))"

definition one_active :: "'a tele_db_scheme \<Rightarrow> bool" where
  "one_active s \<longleftrightarrow> leads_ok (order_assignments s) (next_id s) \<and> leads_ok (checkout_assignments s) (next_id s)"

lemma given_in_of:
  "given_in order_ids s s' e \<Longrightarrow> entry_of (order_ids s') e" "given_in checkout_ids s s' e \<Longrightarrow> entry_of (checkout_ids s') e"
proof -
  have "entry_of (subjects s') e" if g: "given_in subjects s s' e" and "\<And>t. tele_step\<^sup>*\<^sup>* t s' \<Longrightarrow> subjects t \<subseteq> subjects s'"
    for subjects :: "'a tele_db_scheme \<Rightarrow> uuid set"
  proof -
    obtain t where t: "tele_step\<^sup>*\<^sup>* t s'" "entry_typed (subjects t) (users t) e" using g unfolding given_in_def by blast
    then have "entry_of (subjects t) e" by (intro entry_typed_of)
    then show ?thesis using that(2) [OF t(1)] by (auto simp: entry_of_def)
  qed
  then show "given_in order_ids s s' e \<Longrightarrow> entry_of (order_ids s') e" "given_in checkout_ids s s' e \<Longrightarrow> entry_of (checkout_ids s') e"
    using tele_run_ids by blast+
qed

lemma run_grows_exist:
  assumes "run_grows s s'" and "leads_exist s"
  shows "leads_exist s'"
proof -
  have old: "list_all (entry_of (order_ids s')) (trail (order_assignments s))"
    "list_all (entry_of (checkout_ids s')) (trail (checkout_assignments s))"
    using assms unfolding leads_exist_def run_grows_def list_all_iff entry_of_def by blast+
  have "\<exists>more. trail (order_assignments s') = trail (order_assignments s) @ more \<and> list_all (given_in order_ids s s') more"
    "\<exists>more. trail (checkout_assignments s') = trail (checkout_assignments s) @ more \<and> list_all (given_in checkout_ids s s') more"
    using assms unfolding leads_exist_def run_grows_def grows_def by blast+
  then obtain more more' where more: "trail (order_assignments s') = trail (order_assignments s) @ more" "list_all (given_in order_ids s s') more"
      "trail (checkout_assignments s') = trail (checkout_assignments s) @ more'" "list_all (given_in checkout_ids s s') more'" by blast
  have "list_all (entry_of (order_ids s')) more" "list_all (entry_of (checkout_ids s')) more'"
    using more(2,4) given_in_of [of s s'] unfolding list_all_iff by blast+
  with old show ?thesis by (simp only: leads_exist_def more(1,3) list_all_append)
qed

lemma run_grows_active: "run_grows s s' \<Longrightarrow> one_active s \<Longrightarrow> one_active s'"
  by (simp add: run_grows_def grows_def one_active_def)

lemma leads_ok_get_active: "leads_ok (lt_rows tbl s) n \<Longrightarrow> \<exists>a. get_active tbl x s = Inr a"
  unfolding leads_ok_def get_active_def one_or_none_def
  by (cases "active_rows (lt_rows tbl s) x") (auto split: list.split dest: spec [of _ x])

text \<open>The calls stay well formed: only the call operations touch them.\<close>

lemma kept_attempts_ok:
  "attempts_ok (call_attempts s) (next_id s) \<Longrightarrow> call_attempts s' = call_attempts s \<Longrightarrow> next_id s \<le> next_id s'
    \<Longrightarrow> attempts_ok (call_attempts s') (next_id s')"
  by (auto intro: attempts_ok_mono)

lemma tele_step_next_id: "tele_step s s' \<Longrightarrow> next_id s \<le> next_id s'"
  by (drule tele_step_grows) (auto simp: tables_grow_def tele_beside_def dest: grows_le)

lemma other_steps_attempts:
  "assign_orders oids mode i is actor s = Inr s' \<Longrightarrow> call_attempts s' = call_attempts s"
  "assign_checkouts oids mode i is actor s = Inr s' \<Longrightarrow> call_attempts s' = call_attempts s"
  "reassign_order oid new_id reason actor s = Inr s' \<Longrightarrow> call_attempts s' = call_attempts s"
  "reassign_checkout oid new_id reason actor s = Inr s' \<Longrightarrow> call_attempts s' = call_attempts s"
  "schedule_follow_up oid t actor s = Inr s' \<Longrightarrow> call_attempts s' = call_attempts s"
  "log_checkout_call oid outcome n f actor s = Inr s' \<Longrightarrow> call_attempts s' = call_attempts s"
  "schedule_checkout_follow_up oid t actor s = Inr s' \<Longrightarrow> call_attempts s' = call_attempts s"
  unfolding assign_orders_def assign_checkouts_def reassign_order_def reassign_checkout_def schedule_follow_up_def
    log_checkout_call_def schedule_checkout_follow_up_def bindR_Inr_iff Let_def
  by (auto simp: beside_orders_def beside_checkouts_def order_assignment_update_def checkout_assignment_update_def
      dest: order_frame.assign_each_rest order_frame.reassign_rest checkout_frame.assign_each_rest checkout_frame.reassign_rest)

lemma tele_step_attempts_ok:
  assumes "tele_step s s'" and ok: "attempts_ok (call_attempts s) (next_id s)"
  shows "attempts_ok (call_attempts s') (next_id s')"
proof -
  note same = kept_attempts_ok [OF ok _ tele_step_next_id [OF assms(1)]]
  show ?thesis
    using assms(1)
  proof cases
    case (log g oid outcome n f actor e)
    then show ?thesis
    proof (cases rule: log_call_steps)
      case (logged a)
      then show ?thesis using call_step_refines [OF ok call_step.logged [OF logged(1) log]] by blast
    qed (simp add: ok)
  next
    case (edit oid aid outcome n f actor)
    then show ?thesis using call_step_refines [OF ok call_step.edited] by blast
  next
    case (delete oid aid actor)
    then show ?thesis using call_step_refines [OF ok call_step.deleted] by blast
  qed (auto intro!: same attempts_ok_mono [OF ok] simp: tele_kept_def tele_part_def tele_beside_def dest: other_steps_attempts assigned_order_kept bulk_confirm_kept)
qed

lemma tele_run_attempts_ok:
  "tele_step\<^sup>*\<^sup>* s s' \<Longrightarrow> attempts_ok (call_attempts s) (next_id s) \<Longrightarrow> attempts_ok (call_attempts s') (next_id s')"
  by (induction rule: rtranclp_induct) (auto intro: tele_step_attempts_ok)

lemma confirm_order_conflict: "confirm_order g oid actor s = Inl e \<Longrightarrow> order_by s oid \<noteq> None \<Longrightarrow> \<exists>m. e = ConflictError m"
  by (auto simp: confirm_order_def transition_status_def get_order_def require_some_def require_def Let_def
      split: if_split_asm option.split_asm)

lemma confirm_from_call_log_returns:
  assumes "order_by s oid \<noteq> None"
  shows "\<exists>s'. confirm_from_call_log g oid actor s = (s', None)"
proof (cases "confirm_order g oid (u_id actor) s")
  case (Inl e)
  with confirm_order_conflict [OF _ assms] obtain m where "e = ConflictError m" by blast
  with Inl show ?thesis by (simp add: confirm_from_call_log_def)
qed (simp add: confirm_from_call_log_def)

end
