(* ===== verification/Telecalling_Props.thy ===== *)
theory Telecalling_Props
  imports Telecalling_Facts Returns_Props
begin

text \<open>
  Properties of the calling workflow, with witnesses on \<open>demo_tele\<close>: order 7 given to the telecaller 92 of the
  leader 91 and called once, order 8 free; 94 has the role of an administrator.
\<close>

definition demo_user :: "uuid \<Rightarrow> uuid option \<Rightarrow> string \<Rightarrow> user" where
  "demo_user i leader role = \<lparr>u_id = i, u_active = True, u_superuser = False, u_leader = leader, u_roles = [role]\<rparr>"

definition demo_lead :: assignment where
  "demo_lead = \<lparr>as_id = 70, as_subject = 7, as_to = 92, as_by = Some 91, as_at = 800, as_leader = Some 91,
     as_status = ACTIVE, as_from = None, as_reassigned_to = None, as_reassigned_at = None, as_reason = None,
     as_call = BUSY, as_attempts = 1, as_last = Some 850, as_follow_up = Some 2000\<rparr>"

definition demo_call :: call_attempt where
  "demo_call = \<lparr>ct_id = 71, ct_order = 7, ct_telecaller = Some 92, ct_number = 1, ct_at = 850, ct_outcome = BUSY,
     ct_notes = None, ct_follow_up = None, ct_corrects = None, ct_void = False\<rparr>"

definition demo_tele :: tele_db where
  "demo_tele = returns_db.extend demo_returns
    \<lparr>users = [demo_user 91 None ''TEAM_LEADER'', demo_user 92 (Some 91) ''TELECALLER'', demo_user 93 (Some 91) ''TELECALLER'',
       demo_user 94 None ''ADMIN'', demo_user 95 (Some 91) ''Telecaller''],
     order_assignments = [demo_lead], call_attempts = [demo_call], checkouts = [], checkout_assignments = [],
     checkout_attempts = []\<rparr>"

definition demo_leader :: user where
  "demo_leader = demo_user 91 None ''TEAM_LEADER''"

definition demo_caller :: user where
  "demo_caller = demo_user 92 (Some 91) ''TELECALLER''"

definition demo_second :: user where
  "demo_second = demo_user 93 (Some 91) ''TELECALLER''"

lemma demo_tele_tables [simp]:
  "order_assignments demo_tele = [demo_lead]" "call_attempts demo_tele = [demo_call]" "checkout_assignments demo_tele = []"
  "checkouts demo_tele = []" "next_id demo_tele = 100" "clock demo_tele = 1000" "map o_id (orders demo_tele) = [7, 8]"
  by (simp_all add: demo_tele_def demo_returns_def returns_db.defs shipping_db.defs demo_ship_def demo_order_def)

lemma demo_attempts_ok: "attempts_ok (call_attempts demo_tele) (next_id demo_tele)"
  by (simp add: attempts_ok_def tip_def demo_call_def)

section \<open>Calls\<close>

text \<open>
  C13: logging, correcting and deleting calls are the operations on a map from attempt numbers to calls: a
  logged call gets a number above all there are, a correction replaces the entry of its number and keeps its
  time, a deletion removes the entry and its number is not used again; the table itself only grows.
\<close>

theorem call_history_refines:
  assumes "call_step ev s s'" and "attempts_ok (call_attempts s) (next_id s)"
  shows "history_step ev (call_history s) (call_history s') \<and> attempts_ok (call_attempts s') (next_id s')
    \<and> (\<exists>r. call_attempts s' = call_attempts s @ [r])"
  using call_step_refines [OF assms(2,1)] .

theorem call_history_refines_witness:
  "\<exists>s'. delete_call_attempt 7 71 demo_caller demo_tele = Inr s' \<and> length (call_attempts s') = 2
     \<and> history_step (Deleted 7) (call_history demo_tele) (call_history s')"
proof -
  have "\<not> isl (delete_call_attempt 7 71 demo_caller demo_tele)" by code_simp
  then obtain s' where s': "delete_call_attempt 7 71 demo_caller demo_tele = Inr s'"
    by (cases "delete_call_attempt 7 71 demo_caller demo_tele") simp_all
  from call_history_refines [OF call_step.deleted [OF s'] demo_attempts_ok] s' show ?thesis by auto
qed

text \<open>
  C14: whatever the workflow and everything beside it have done, the telecaller an order is given to can log any outcome of a
  call that the request accepts: it succeeds, also when the order cannot be confirmed any more or Shopify refuses the tags, and
  the call is in the history. An outcome the request does not accept (not called, a retired outcome, "other" without notes) is
  refused with nothing written.
\<close>

theorem assigned_call_always_logged:
  assumes "tele_step\<^sup>*\<^sup>* s0 s" and "one_active s0" and "leads_exist s0" and "attempts_ok (call_attempts s0) (next_id s0)"
    and "a \<in> set (order_assignments s)" and "as_status a = ACTIVE" and "u_id actor = as_to a"
  shows "\<exists>s' e. log_call_request g (as_subject a) outcome n f actor s = (s', e)
    \<and> (if loggable outcome n
        then e = None \<and> call_history s' (as_subject a) (next_attempt_number s (as_subject a)) = Some (outcome, n, f, clock s)
        else e = Some (ValidationError ''LogCallRequest'') \<and> s' = s)"
proof (cases "loggable outcome n")
  case True
  let ?oid = "as_subject a"
  have active: "one_active s" and exist: "leads_exist s" and ok: "attempts_ok (call_attempts s) (next_id s)"
    using tele_run_grows [OF assms(1)] tele_run_attempts_ok [OF assms(1,4)] assms(2,3)
    by (auto intro: run_grows_active run_grows_exist)
  have "a \<in> set (active_rows (order_assignments s) ?oid)" "length (active_rows (order_assignments s) ?oid) \<le> 1"
    using assms(5,6) active by (simp_all add: active_rows_def one_active_def leads_ok_def)
  then have "active_rows (order_assignments s) ?oid = [a]"
    by (cases "active_rows (order_assignments s) ?oid") auto
  then have own: "own_assignment ?oid actor s = Inr a" by (simp add: own_assignment_Inr assms(7))
  have "?oid \<in> order_ids s"
    using exist assms(5) by (auto simp: leads_exist_def trail_def entry_of_def list_all_iff)
  then have "order_by s ?oid \<noteq> None" by (simp add: order_by_def row_by_None_iff)
  then have exists: "order_by (write_call ?oid a outcome n f actor s) ?oid \<noteq> None"
    by (simp add: order_by_def write_call_def Let_def attempt_create_def order_assignment_update_def)
  have "\<exists>s'. log_call g ?oid outcome n f actor s = (s', None)"
    using confirm_from_call_log_returns [OF exists, of g actor] by (auto simp: log_call_def own Let_def)
  then obtain s' where s': "log_call g ?oid outcome n f actor s = (s', None)" by blast
  obtain r where r: "appends r s s'" "ct_order r = ?oid" "ct_number r = next_attempt_number s ?oid" "ct_corrects r = None"
      "\<not> ct_void r" "call_facts r = (outcome, n, f, clock s)"
    using log_call_appends [OF own s'] by blast
  have "fits (call_attempts s) r" using r next_attempt_number_greater by (auto simp: fits_def)
  from appends_history [OF r(1) ok this] r s' True show ?thesis by (simp add: log_call_request_def)
qed (simp add: log_call_request_def)

lemma demo_tele_invariants: "one_active demo_tele" "leads_exist demo_tele"
  by (simp_all add: one_active_def leads_ok_def active_rows_def leads_exist_def demo_lead_def demo_user_def trail_def
      entry_of_def demo_tele_def returns_db.defs demo_returns_def shipping_db.defs demo_ship_def demo_order_def)

theorem assigned_call_always_logged_witness:
  "\<exists>s'. log_call_request demo_gateways 7 TC_CONFIRMED None None demo_caller demo_tele = (s', None)
     \<and> call_history s' 7 2 = Some (TC_CONFIRMED, None, None, 1000)"
proof -
  have "next_attempt_number demo_tele 7 = 2" by (simp add: next_attempt_number_def max_number_def demo_call_def)
  moreover have "\<exists>s' e. log_call_request demo_gateways (as_subject demo_lead) TC_CONFIRMED None None demo_caller demo_tele = (s', e)
    \<and> (if loggable TC_CONFIRMED None
        then e = None \<and> call_history s' (as_subject demo_lead) (next_attempt_number demo_tele (as_subject demo_lead))
          = Some (TC_CONFIRMED, None, None, clock demo_tele)
        else e = Some (ValidationError ''LogCallRequest'') \<and> s' = demo_tele)"
    by (rule assigned_call_always_logged [OF _ demo_tele_invariants demo_attempts_ok])
      (simp_all add: demo_lead_def demo_caller_def demo_user_def)
  ultimately show ?thesis by (simp add: demo_lead_def loggable_def legacy_statuses_def)
qed

section \<open>Assignments\<close>

text \<open>
  C15: in every state the workflow reaches, an order and a checkout have at most one active assignment, the
  query for it answers, and no row of the assignment history was deleted or given to someone else.
\<close>

theorem one_active_assignment:
  assumes "tele_step\<^sup>*\<^sup>* s s'" and "one_active s"
  shows "length (active_rows (order_assignments s') x) \<le> 1 \<and> length (active_rows (checkout_assignments s') x) \<le> 1
    \<and> (\<exists>a. get_active order_leads x s' = Inr a) \<and> (\<exists>a. get_active checkout_leads x s' = Inr a)
    \<and> (\<exists>more. trail (order_assignments s') = trail (order_assignments s) @ more)
    \<and> (\<exists>more. trail (checkout_assignments s') = trail (checkout_assignments s) @ more)"
proof -
  have grow: "run_grows s s'" using assms(1) by (rule tele_run_grows)
  have "one_active s'" using run_grows_active [OF grow assms(2)] .
  then have "leads_ok (order_assignments s') (next_id s')" "leads_ok (checkout_assignments s') (next_id s')"
    by (simp_all add: one_active_def)
  moreover from this have "\<exists>a. get_active order_leads x s' = Inr a" "\<exists>a. get_active checkout_leads x s' = Inr a"
    using leads_ok_get_active [of order_leads s'] leads_ok_get_active [of checkout_leads s'] by simp_all
  ultimately show ?thesis using grow unfolding leads_ok_def run_grows_def grows_def by blast
qed

theorem one_active_assignment_witness:
  "\<exists>s'. reassign_order 7 93 ''leave'' demo_leader demo_tele = Inr s' \<and> length (order_assignments s') = 2
     \<and> length (active_rows (order_assignments s') 7) \<le> 1"
proof -
  have "case reassign_order 7 93 ''leave'' demo_leader demo_tele of Inl _ \<Rightarrow> False
      | Inr s' \<Rightarrow> length (order_assignments s') = 2" by code_simp
  then obtain s' where s': "reassign_order 7 93 ''leave'' demo_leader demo_tele = Inr s'" "length (order_assignments s') = 2"
    by (auto split: sum.split_asm)
  have "tele_step\<^sup>*\<^sup>* demo_tele s'" using s'(1) by (blast intro: r_into_rtranclp tele_step.reassign)
  from one_active_assignment [OF this demo_tele_invariants(1), of 7] s' show ?thesis by blast
qed



text \<open>
  A bulk assignment deals the orders out evenly: of \<open>n\<close> orders, each of \<open>k\<close> telecallers gets \<open>n div k\<close>, and
  the first \<open>n mod k\<close> one more.
\<close>

theorem round_robin_fair:
  assumes "assign_orders oids mode i (Some is) actor s = Inr s'" and "mode \<noteq> ''manual''"
    and "distinct is" and "j < length is"
  shows "\<exists>rows. order_assignments s' = order_assignments s @ rows \<and> map as_subject rows = oids
    \<and> length (filter (\<lambda>a. as_to a = is ! j) rows)
        = length oids div length is + (if j < length oids mod length is then 1 else 0)"
proof -
  obtain ts where ts: "resolve_and_validate_telecallers is actor s = Inr ts"
    and a: "assign_each order_leads ts actor mode 0 oids s = Inr s'"
    using assms(1,2) by (auto simp: assign_orders_def candidate_ids_def bindR_Inr_iff)
  have ids: "map u_id ts = is" and len: "length ts = length is"
    using resolve_and_validate_Inr(1) [OF ts] by (simp, metis length_map)
  from order_store.assign_each_rows [OF a] obtain rows where rows: "order_assignments s' = order_assignments s @ rows"
      "map as_subject rows = oids" "map as_to rows = map (\<lambda>i. u_id (ts ! (i mod length ts))) [0..<length oids]" by auto
  have to: "u_id (ts ! (i mod length ts)) = is ! (i mod length is)" for i
  proof -
    have "i mod length ts < length ts" unfolding len using assms(4) by (intro mod_less_divisor) linarith
    then have "map u_id ts ! (i mod length ts) = u_id (ts ! (i mod length ts))" by (rule nth_map)
    then show ?thesis by (simp only: ids len)
  qed
  have "length (filter (\<lambda>a. as_to a = is ! j) rows) = length (filter (\<lambda>x. x = is ! j) (map as_to rows))"
    by (simp add: filter_map o_def)
  also have "\<dots> = length (filter (\<lambda>i. is ! (i mod length is) = is ! j) [0..<length oids])"
    unfolding rows(3) to by (simp add: filter_map o_def)
  also have "\<dots> = length (filter (\<lambda>i. i mod length is = j) [0..<length oids])"
    using nth_eq_iff_index_eq [OF assms(3) _ assms(4)] assms(4) by (intro arg_cong [where f = length] filter_cong refl)
      (metis gr_implies_not0 mod_less_divisor neq0_conv)
  also have "\<dots> = length oids div length is + (if j < length oids mod length is then 1 else 0)"
    by (rule round_robin_count [OF assms(4)])
  finally show ?thesis using rows(1,2) by blast
qed

theorem round_robin_fair_witness:
  "\<exists>s' rows. assign_orders [8] ''auto'' None (Some [92, 93]) demo_leader demo_tele = Inr s'
     \<and> order_assignments s' = demo_lead # rows \<and> length (filter (\<lambda>a. as_to a = 92) rows) = 1"
proof -
  have "\<not> isl (assign_orders [8] ''auto'' None (Some [92, 93]) demo_leader demo_tele)" by code_simp
  then obtain s' where s': "assign_orders [8] ''auto'' None (Some [92, 93]) demo_leader demo_tele = Inr s'"
    by (cases "assign_orders [8] ''auto'' None (Some [92, 93]) demo_leader demo_tele") simp_all
  from round_robin_fair [OF s', of 0] s' show ?thesis by auto
qed

definition not_theirs :: "user \<Rightarrow> 'a tele_db_scheme \<Rightarrow> uuid \<Rightarrow> bool" where
  "not_theirs actor s oid \<longleftrightarrow> \<not> u_superuser actor \<and> (\<forall>a\<in>set (active_rows (order_assignments s) oid). as_to a \<noteq> u_id actor)"

lemma not_theirs_own: "not_theirs actor s oid \<Longrightarrow> \<exists>e. own_assignment oid actor s = Inl e"
  by (cases "own_assignment oid actor s") (auto simp: not_theirs_def own_assignment_Inr)

lemma not_theirs_kept: "not_theirs actor s oid \<Longrightarrow> tele_kept s s' \<Longrightarrow> not_theirs actor s' oid"
  by (simp add: not_theirs_def tele_kept_def tele_part_def)

text \<open>In a bulk confirmation the orders that are not the telecaller's fail, whatever the others do.\<close>

lemma bulk_confirm_refused:
  assumes "bulk_confirm_assigned_orders g oids actor s = (rows, s')" and "not_theirs actor s oid"
  shows "(oid, None) \<notin> set rows \<and> ((\<forall>x\<in>set oids. not_theirs actor s x) \<longrightarrow> s' = s)"
  using assms
proof (induction oids arbitrary: s rows)
  case (Cons x xs)
  show ?case
  proof (cases "confirm_assigned_order g x actor s")
    case (Inl e)
    with Cons show ?thesis by (auto split: prod.split_asm)
  next
    case (Inr s1)
    then have mine: "\<not> not_theirs actor s x" using not_theirs_own by (fastforce simp: confirm_assigned_order_def bindR_Inr_iff)
    then have "x \<noteq> oid" using Cons.prems(2) by blast
    moreover obtain rest where rest: "bulk_confirm_assigned_orders g xs actor s1 = (rest, s')" "rows = (x, None) # rest"
      using Cons.prems(1) Inr by (auto split: prod.split_asm)
    moreover have "not_theirs actor s1 oid" using Cons.prems(2) assigned_order_kept(1) [OF Inr] by (rule not_theirs_kept)
    ultimately show ?thesis using Cons.IH [OF rest(1)] mine by auto
  qed
qed simp

text \<open>
  C17: whoever an order is not actively assigned to, short of a superuser, is refused every operation of the telecaller routes on
  it: reading it, its calls, its activity, the variants of its items or the customer's other orders, logging, correcting or
  deleting a call, planning a follow-up, confirming it, alone or in bulk, reverting it, and changing its address or items.
  Nothing is written.
\<close>

theorem telecaller_isolation:
  assumes "not_theirs actor s oid"
  shows "(\<exists>e. log_call_request g oid outcome n f actor s = (s, Some e)) \<and> (\<exists>e. log_call g oid outcome n f actor s = (s, Some e))
    \<and> (\<exists>e. unconfirm_assigned_order g oid actor s = (s, Some e))
    \<and> isl (edit_call_attempt oid aid outcome n f actor s) \<and> isl (delete_call_attempt oid aid actor s)
    \<and> isl (schedule_follow_up oid t actor s) \<and> isl (confirm_assigned_order g oid actor s)
    \<and> (\<forall>oids rows s'. bulk_confirm_assigned_orders g oids actor s = (rows, s') \<longrightarrow>
        (oid, None) \<notin> set rows \<and> ((\<forall>x\<in>set oids. not_theirs actor s x) \<longrightarrow> s' = s))
    \<and> isl (update_assigned_order_address g oid actor new_address s)
    \<and> isl (update_assigned_order_item_variant oid iid actor v s)
    \<and> isl (list_available_variants_for_item oid iid actor s) \<and> isl (get_activity_for_assigned_order oid actor s)
    \<and> isl (get_previous_orders_for_assigned_order oid actor limit s)
    \<and> isl (list_call_history oid (resolve_telecaller_scope actor) s)
    \<and> get_scoped_assignment oid (resolve_telecaller_scope actor) s
        = Inl (AuthorizationError ''Order not found or not assigned to you.'')"
proof -
  obtain e where e: "own_assignment oid actor s = Inl e" using not_theirs_own [OF assms] by blast
  have "\<not> in_scope_of (resolve_telecaller_scope actor) a" if "a \<in> set (active_rows (order_assignments s) oid)" for a
    using assms that by (auto simp: not_theirs_def in_scope_of_def resolve_telecaller_scope_def)
  then have "filter (in_scope_of (resolve_telecaller_scope actor)) (active_rows (order_assignments s) oid) = []"
    by (simp add: filter_empty_conv)
  then have scoped: "get_scoped_assignment oid (resolve_telecaller_scope actor) s
      = Inl (AuthorizationError ''Order not found or not assigned to you.'')"
    by (simp add: get_scoped_assignment_def one_or_none_def require_some_def)
  show ?thesis
    using bulk_confirm_refused [where g = g and actor = actor and s = s, OF _ assms]
    by (simp add: e scoped log_call_request_def log_call_def unconfirm_assigned_order_def edit_call_attempt_def delete_call_attempt_def
        schedule_follow_up_def confirm_assigned_order_def update_assigned_order_address_def
        update_assigned_order_item_variant_def list_available_variants_for_item_def get_activity_for_assigned_order_def
        get_previous_orders_for_assigned_order_def list_call_history_def)
qed

theorem telecaller_isolation_witness:
  "log_call_request demo_gateways 7 TC_CONFIRMED None None (demo_user 93 (Some 91) ''TELECALLER'') demo_tele
     = (demo_tele, Some (AuthorizationError ''This order is not assigned to you.''))"
proof -
  have "not_theirs (demo_user 93 (Some 91) ''TELECALLER'') demo_tele 7"
    by (simp add: not_theirs_def demo_user_def active_rows_def demo_lead_def)
  then have "\<exists>e. log_call_request demo_gateways 7 TC_CONFIRMED None None (demo_user 93 (Some 91) ''TELECALLER'') demo_tele = (demo_tele, Some e)"
    using telecaller_isolation [of "demo_user 93 (Some 91) ''TELECALLER''" demo_tele 7 demo_gateways TC_CONFIRMED None None] by blast
  then show ?thesis
    by (auto simp: log_call_request_def loggable_def legacy_statuses_def log_call_def own_assignment_def get_active_def active_rows_def
        one_or_none_def demo_lead_def demo_user_def require_some_def require_def split: sum.split_asm)
qed

text \<open>
  An administrator by role is let through the scope check for every telecaller and may assign any free
  order, but cannot move an order that is assigned to a team: the check of a reassignment asks for the
  superuser flag alone.
\<close>

theorem admin_cannot_reassign:
  assumes "''ADMIN'' \<in> set (u_roles actor)" and "\<not> u_superuser actor"
    and "user_by s i = Some u" and "''TELECALLER'' \<in> set (u_roles u)"
    and "active_rows (order_assignments s) oid = [a]" and "as_leader a \<noteq> Some (u_id actor)"
  shows "reassign_order oid i reason actor s = Inl (AuthorizationError ''That order is not on your team.'')
    \<and> resolve_and_validate_telecallers [i] actor s = Inr [u] \<and> sc_leader (resolve_team_scope actor) = None"
proof -
  have "assert_telecaller_in_team_scope i actor s = Inr u"
    using assms(1,3,4) by (simp add: assert_telecaller_in_team_scope_def is_admin_def require_some_def require_def)
  then show ?thesis
    using assms
    by (simp add: reassign_order_def reassign_def get_active_def one_or_none_def resolve_and_validate_telecallers_def
        require_some_def require_def order_leads_def resolve_team_scope_def is_admin_def)
qed

theorem admin_cannot_reassign_witness:
  "reassign_order 7 93 ''sick'' (demo_user 94 None ''ADMIN'') demo_tele
     = Inl (AuthorizationError ''That order is not on your team.'')"
  using admin_cannot_reassign [of "demo_user 94 None ''ADMIN''" demo_tele 93 "demo_user 93 (Some 91) ''TELECALLER''" 7 demo_lead]
  by (simp add: demo_user_def user_by_def demo_tele_def returns_db.defs demo_returns_def shipping_db.defs demo_ship_def
      active_rows_def demo_lead_def)

text \<open>
  A user whose role is spelled \<open>telecaller\<close> in another case is offered in the roster of the team and
  then refused by every assignment, as if there were no such user.
\<close>

theorem roster_lists_unassignable:
  assumes "u \<in> set (users s)" and "user_by s (u_id u) = Some u" and "u_active u"
    and "r \<in> set (u_roles u)" and "lower r = ''telecaller''" and "''TELECALLER'' \<notin> set (u_roles u)"
    and "u_leader u = Some (u_id actor)"
  shows "u \<in> set (list_assignable_telecallers (resolve_team_scope actor) s)
    \<and> assign_orders oids ''manual'' (Some (u_id u)) None actor s = Inl (NotFoundError ''Telecaller not found.'')"
  using assms
  by (auto simp: list_assignable_telecallers_def resolve_team_scope_def assign_orders_def candidate_ids_def
      resolve_and_validate_telecallers_def assert_telecaller_in_team_scope_def require_some_def require_def)

theorem roster_lists_unassignable_witness:
  "demo_user 95 (Some 91) ''Telecaller'' \<in> set (list_assignable_telecallers (resolve_team_scope demo_leader) demo_tele)"
proof -
  have "lower ''Telecaller'' = ''telecaller''" by code_simp
  moreover have "users demo_tele = [demo_user 91 None ''TEAM_LEADER'', demo_user 92 (Some 91) ''TELECALLER'',
      demo_user 93 (Some 91) ''TELECALLER'', demo_user 94 None ''ADMIN'', demo_user 95 (Some 91) ''Telecaller'']"
    by (simp add: demo_tele_def returns_db.defs)
  ultimately show ?thesis
    by (intro conjunct1 [OF roster_lists_unassignable [of _ _ "''Telecaller''"]])
      (simp_all add: demo_user_def demo_leader_def user_by_def)
qed

lemma current_count:
  assumes "attempts_ok (call_attempts s) m"
  shows "length (resolve_current_for_order s oid False) = card (dom (call_history s oid))"
proof -
  let ?rows = "resolve_current_for_order s oid False"
  have "distinct (call_attempts s)" using assms by (simp add: attempts_ok_def distinct_map)
  then have "distinct ?rows" by (simp add: resolve_current_for_order_def attempts_for_order_def Let_def)
  moreover have "inj_on ct_number (set ?rows)"
    using assms by (auto simp: set_resolve inj_on_def attempts_ok_def)
  ultimately have "length ?rows = card (ct_number ` set ?rows)" by (simp add: card_image distinct_card)
  also have "ct_number ` set ?rows = dom (call_history s oid)"
  proof -
    have "k \<in> dom (call_history s oid) \<longleftrightarrow> k \<in> ct_number ` set ?rows" for k
      using call_history_Some [OF assms, of oid k] unfolding domIff not_None_eq set_resolve by blast
    then show ?thesis by blast
  qed
  finally show ?thesis .
qed

lemma recompute_count:
  assumes "active_rows (order_assignments s) oid = [a]"
  shows "\<exists>a'. active_rows (order_assignments (recompute_assignment oid a t s)) oid = [a']
    \<and> as_attempts a' = int (length (resolve_current_for_order s oid False))"
  by (cases "resolve_current_for_order s oid False";
      simp add: recompute_assignment_def order_assignment_update_def Let_def active_rows_set_where assms)
    (simp_all add: set_where_def)

lemma reassigned_active:
  assumes "reassign_order oid i reason leader s = Inr s'" and "one_active s"
  shows "\<exists>a. active_rows (order_assignments s') oid = [a] \<and> as_attempts a = 0"
proof (rule order_store.reassign_Inr [OF assms(1) [unfolded reassign_order_def]])
  fix c u a
  assume c: "active_rows (lt_rows order_leads s) oid = [c]" and "as_attempts a = 0"
    and rows: "lt_rows order_leads s' = close_assignment (as_id c) (lt_rows order_leads s) @ [a]" "as_subject a = oid" "as_status a = ACTIVE"
  have "active_rows (order_assignments s') oid = [a]"
    using active_rows_close [of "order_assignments s" oid c oid] c rows assms(2)
    by (simp add: one_active_def leads_ok_def) (simp add: active_rows_def)
  then show ?thesis using \<open>as_attempts a = 0\<close> by blast
qed

lemma edited_count:
  assumes "edit_call_attempt oid aid outcome n f actor s = Inr s'" and "attempts_ok (call_attempts s') m"
    and "active_rows (order_assignments s) oid = [a]"
  shows "\<exists>a'. active_rows (order_assignments s') oid = [a'] \<and> as_attempts a' = int (card (dom (call_history s' oid)))"
proof -
  obtain x t where x: "own_assignment oid actor s = Inr x"
    and s': "s' = audit_record (Some (u_id actor)) ''call_attempt.edited'' ''call_attempt'' (ct_id t)
      [(''outcome'', JStr (telecalling_status_value (ct_outcome t))), (''notes'', jtext (ct_notes t))]
      [(''outcome'', JStr (telecalling_status_value outcome)), (''notes'', jtext n)] []
      (recompute_assignment oid x t (attempt_create oid (u_id actor) (ct_number t) (ct_at t) outcome n f
        (Some (ct_id t)) False s))"
    using assms(1) by (auto simp: edit_call_attempt_def bindR_Inr_iff Let_def)
  let ?u = "attempt_create oid (u_id actor) (ct_number t) (ct_at t) outcome n f (Some (ct_id t)) False s"
  have u: "order_assignments s' = order_assignments (recompute_assignment oid x t ?u)" "call_attempts ?u = call_attempts s'"
      "order_assignments ?u = order_assignments s"
    by (simp_all add: s' attempt_create_def)
  have "x = a" using x assms(3) by (simp add: own_assignment_Inr)
  then obtain a' where a': "active_rows (order_assignments s') oid = [a']"
      "as_attempts a' = int (length (resolve_current_for_order ?u oid False))"
    using recompute_count [of ?u oid x t] assms(3) u by auto
  have "attempts_ok (call_attempts ?u) m" "call_history ?u oid = call_history s' oid"
    using assms(2) u(2) by (simp_all add: fun_eq_iff call_history_def resolve_current_for_order_def attempts_for_order_def)
  then have "as_attempts a' = int (card (dom (call_history s' oid)))" using a'(2) by (metis current_count)
  then show ?thesis using a'(1) by blast
qed

text \<open>
  The attempt count of an assignment is not one number: logging a call adds one to the count of the
  assignment, which a reassignment starts at zero, while correcting or deleting a call sets it to the calls
  of the order, the ones of earlier telecallers included. Correcting the first call after a reassignment
  changes the count from one to one more than the calls the order had before.
\<close>

theorem attempt_count_jumps:
  assumes "reassign_order oid i reason leader s = Inr s1" and "log_call g oid outcome n f actor s1 = (s2, None)"
    and "edit_call_attempt oid aid outcome' n' f' actor s2 = Inr s3"
    and "one_active s" and "attempts_ok (call_attempts s) (next_id s)"
  shows "\<exists>a2 a3. active_rows (order_assignments s2) oid = [a2] \<and> as_attempts a2 = 1
    \<and> active_rows (order_assignments s3) oid = [a3] \<and> as_attempts a3 = int (card (dom (call_history s oid))) + 1"
proof -
  have run: "tele_step s s1" "tele_step s1 s2" "tele_step s2 s3"
    using assms(1-3) by (blast intro: tele_step.reassign tele_step.log tele_step.edit)+
  note ok1 = tele_step_attempts_ok [OF run(1) assms(5)]
  note ok2 = tele_step_attempts_ok [OF run(2) ok1]
  note ok3 = tele_step_attempts_ok [OF run(3) ok2]
  have same: "call_history s1 = call_history s"
    using other_steps_attempts(3) [OF assms(1)]
    by (intro ext) (simp add: call_history_def resolve_current_for_order_def attempts_for_order_def)
  obtain a where a: "active_rows (order_assignments s1) oid = [a]" "as_attempts a = 0"
    using reassigned_active [OF assms(1,4)] by blast
  from assms(2) obtain own: "own_assignment oid actor s1 = Inr a" and kept: "tele_kept (write_call oid a outcome n f actor s1) s2"
    by (cases rule: log_call_steps) (auto simp: own_assignment_Inr a(1))
  let ?a2 = "a\<lparr>as_call := outcome, as_attempts := 1, as_last := Some (clock s1), as_follow_up := keep f (as_follow_up a)\<rparr>"
  have active2: "active_rows (order_assignments s2) oid = [?a2]"
    using kept by (simp add: tele_kept_def tele_part_def write_call_tables active_rows_set_where a) (simp add: set_where_def)
  obtain r where r: "appends r s1 s2" "ct_order r = oid" "ct_number r = next_attempt_number s1 oid" "ct_corrects r = None"
      "\<not> ct_void r"
    using log_call_appends [OF own assms(2)] by blast
  have fits: "fits (call_attempts s1) r" using r next_attempt_number_greater by (auto simp: fits_def)
  have new: "call_history s1 oid (ct_number r) = None"
    using history_below [OF ok1, of oid "ct_number r"] unfolding r(3) by blast
  have dom2: "dom (call_history s2 oid) = insert (ct_number r) (dom (call_history s oid))"
    using appends_history [OF r(1) ok1 fits] r(2,5) same by simp
  obtain t q where q: "corrects t oid aid s2 q" "appends q s2 s3" "\<not> ct_void q"
    using edit_call_appends [OF assms(3)] by blast
  have "dom (call_history s3 oid) = dom (call_history s2 oid)"
    using appends_history [OF q(2) ok2 corrects_fits [OF q(1)]] q(1,3) corrects_history [OF q(1) ok2]
    by (auto simp: corrects_def)
  moreover have "finite (dom (call_history s oid))"
    by (rule finite_subset [of _ "ct_number ` set (call_attempts s)"])
      (auto simp: dom_def call_history_Some [OF assms(5)] tip_def)
  ultimately have count: "card (dom (call_history s3 oid)) = Suc (card (dom (call_history s oid)))"
    using dom2 new same by (simp add: domIff)
  obtain a3 where "active_rows (order_assignments s3) oid = [a3]" "as_attempts a3 = int (card (dom (call_history s3 oid)))"
    using edited_count [OF assms(3) ok3 active2] by blast
  then show ?thesis using active2 count by simp
qed

theorem attempt_count_jumps_witness:
  "\<exists>s1 s2 s3 aid. reassign_order 7 93 ''leave'' demo_leader demo_tele = Inr s1
     \<and> log_call demo_gateways 7 INTERESTED None None demo_second s1 = (s2, None)
     \<and> edit_call_attempt 7 aid INTERESTED (Some ''asked twice'') None demo_second s2 = Inr s3
     \<and> map as_attempts (active_rows (order_assignments s2) 7) = [1]
     \<and> map as_attempts (active_rows (order_assignments s3) 7) = [2]"
proof -
  have "case reassign_order 7 93 ''leave'' demo_leader demo_tele of Inl _ \<Rightarrow> False | Inr s1 \<Rightarrow>
      (case log_call demo_gateways 7 INTERESTED None None demo_second s1 of (s2, e) \<Rightarrow> e = None \<and>
       \<not> isl (edit_call_attempt 7 (ct_id (last (call_attempts s2))) INTERESTED (Some ''asked twice'') None demo_second s2))"
    by code_simp
  then obtain s1 s2 where s1: "reassign_order 7 93 ''leave'' demo_leader demo_tele = Inr s1"
      and s2: "log_call demo_gateways 7 INTERESTED None None demo_second s1 = (s2, None)"
      and e: "\<not> isl (edit_call_attempt 7 (ct_id (last (call_attempts s2))) INTERESTED (Some ''asked twice'') None demo_second s2)"
    by (auto split: sum.split_asm prod.split_asm)
  then obtain s3 where s3: "edit_call_attempt 7 (ct_id (last (call_attempts s2))) INTERESTED (Some ''asked twice'') None demo_second s2 = Inr s3"
    by (cases "edit_call_attempt 7 (ct_id (last (call_attempts s2))) INTERESTED (Some ''asked twice'') None demo_second s2") auto
  have "call_history demo_tele 7 = [1 \<mapsto> call_facts demo_call]"
    by (auto simp: fun_eq_iff call_history_def resolve_current_for_order_def attempts_for_order_def demo_call_def)
  then have "card (dom (call_history demo_tele 7)) = 1" by simp
  with attempt_count_jumps [OF s1 s2 s3 demo_tele_invariants(1) demo_attempts_ok] s1 s2 s3 show ?thesis by force
qed

section \<open>Tags and counts\<close>

lemma resolve_order_channel_known: "resolve_order_channel ord \<in> fst ` set channel_labels"
proof -
  have "tag_channel tags \<in> fst ` set channel_labels" for tags
  proof (induction tags)
    case (Cons tag tags)
    then show ?case
    proof (cases "find (\<lambda>(keyword, _). contains keyword (lower tag)) channel_keywords")
      case (Some kc)
      then have "kc \<in> set channel_keywords" using find_SomeD [OF Some] by blast
      with Some show ?thesis by (auto simp: channel_keywords_def channel_labels_def)
    qed simp
  qed (simp add: channel_labels_def)
  then show ?thesis by (auto simp: resolve_order_channel_def channel_labels_def)
qed

text \<open>The tags of an order once both requests are through.\<close>

definition pushed_tags :: "order \<Rightarrow> telecalling_status \<Rightarrow> string set \<Rightarrow> string set" where
  "pushed_tags ord outcome tags = tags \<union> set (call_tags_to_add ord outcome) - set (call_tags_to_remove ord outcome)"

text \<open>
  After the tags of a call are pushed, a Shopify order carries exactly one channel tag, the one of its
  channel, and of the outcome tags exactly that of the last outcome, none for a confirmed call; every other
  tag is as before. Nothing is both added and removed.
\<close>

theorem call_tags_one_current:
  shows "set (call_tags_to_add ord outcome) \<inter> set (call_tags_to_remove ord outcome) = {}
    \<and> pushed_tags ord outcome tags \<inter> snd ` set channel_labels = {resolve_order_channel_label ord}
    \<and> pushed_tags ord outcome tags \<inter> snd ` set outcome_tags = set_option (map_of outcome_tags outcome)
    \<and> pushed_tags ord outcome tags - snd ` (set channel_labels) - snd ` (set outcome_tags)
        = tags - snd ` (set channel_labels) - snd ` (set outcome_tags)"
proof -
  obtain c l where c: "resolve_order_channel ord = c" "(c, l) \<in> set channel_labels"
    using resolve_order_channel_known [of ord] by force
  have channels: "distinct (map fst channel_labels)" "distinct (map snd (channel_labels) @ map snd outcome_tags)"
    "distinct (map fst outcome_tags)"
    by (simp_all add: channel_labels_def outcome_tags_def)
  have l: "resolve_order_channel_label ord = l"
    using c channels(1) by (simp add: resolve_order_channel_label_def)
  have add: "set (call_tags_to_add ord outcome) = {l} \<union> set_option (map_of outcome_tags outcome)"
    by (auto simp: call_tags_to_add_def l split: option.split)
  have tag: "set_option (map_of outcome_tags outcome) = snd ` {p \<in> set outcome_tags. fst p = outcome}"
    using channels(3) by (force simp: image_iff dest: map_of_SomeD)
  have rem: "set (call_tags_to_remove ord outcome) = snd ` {p \<in> set channel_labels. fst p \<noteq> c} \<union> snd ` {p \<in> set outcome_tags. fst p \<noteq> outcome}"
    by (auto simp: call_tags_to_remove_def c(1) image_iff)
  have inj: "inj_on snd (set channel_labels)" "inj_on snd (set outcome_tags)" "snd ` set channel_labels \<inter> snd ` set outcome_tags = {}"
    using channels(2) by (simp_all add: distinct_map)
  have only: "(fst p = c) = (p = (c, l))" if "p \<in> set channel_labels" for p
    using that c(2) channels(1) by (metis eq_key_imp_eq_value fst_conv prod.collapse)
  have label: "snd ` {p \<in> set channel_labels. fst p \<noteq> c} = snd ` set channel_labels - {l}"
  proof -
    have "{p \<in> set channel_labels. fst p \<noteq> c} = set channel_labels - {(c, l)}" using only by blast
    then show ?thesis using inj_on_image_set_diff [OF inj(1), of "set channel_labels" "{(c, l)}"] c(2) by simp
  qed
  have outcomes: "snd ` {p \<in> set outcome_tags. fst p \<noteq> outcome} = snd ` set outcome_tags - set_option (map_of outcome_tags outcome)"
  proof -
    have "{p \<in> set outcome_tags. fst p \<noteq> outcome} = set outcome_tags - {p \<in> set outcome_tags. fst p = outcome}" by blast
    then show ?thesis unfolding tag
      using inj_on_image_set_diff [OF inj(2), of "set outcome_tags" "{p \<in> set outcome_tags. fst p = outcome}"] by simp
  qed
  have sub: "l \<in> snd ` set channel_labels" "set_option (map_of outcome_tags outcome) \<subseteq> snd ` set outcome_tags"
    using c(2) unfolding tag by force+
  show ?thesis
    unfolding pushed_tags_def add rem label outcomes l using sub inj(3) by blast
qed

lemma in_category_count:
  assumes "o_payment_type ord \<in> {COD, PREPAID}" and "c \<noteq> ABANDONED_CHECKOUT"
  shows "in_category (Some c) ord \<longleftrightarrow> count_category ord = c"
  using assms by (cases c) (auto simp: in_category_def count_category_def split: if_splits)

lemma classify_count:
  "o_payment_type ord \<in> {COD, PREPAID} \<Longrightarrow> classify_order (o_payment_type ord) (o_fulfillment ord) = Some (count_category ord)"
  by (auto simp: classify_order_def count_category_def)

text \<open>The rows of an order's categories.\<close>

definition category_rows :: "uuid option \<Rightarrow> 'a tele_db_scheme \<Rightarrow> (order \<times> assignment option) list" where
  "category_rows leader s = filter (\<lambda>(ord, a). o_payment_type ord \<in> {COD, PREPAID} \<and> pool_visible leader a) (order_pool s)"

lemma list_category_pool_rows:
  "c \<noteq> ABANDONED_CHECKOUT \<Longrightarrow> list_category_pool leader (Some c) None None None s =
    sort_key (\<lambda>(ord, _). - o_datetime ord) (filter (\<lambda>(ord, a). count_category ord = c) (category_rows leader s))"
  "list_category_pool leader None None None None s = sort_key (\<lambda>(ord, _). - o_datetime ord) (category_rows leader s)"
  unfolding list_category_pool_def category_rows_def filter_filter
  by (auto intro!: arg_cong [where f = "sort_key _"] filter_cong simp: pool_matches_def in_category_count)
    (auto simp: in_category_def)

lemma category_total:
  "length (filter (\<lambda>(ord, a). count_category ord = COD_UNFULFILLED) rows)
    + (length (filter (\<lambda>(ord, a). count_category ord = COD_FULFILLED) rows)
    + length (filter (\<lambda>(ord, a). count_category ord = LEAD_PREPAID) rows)) = length rows"
proof (induction rows)
  case (Cons r rows)
  have "count_category (fst r) \<in> {COD_UNFULFILLED, COD_FULFILLED, LEAD_PREPAID}" by (simp add: count_category_def)
  with Cons show ?case by (auto simp: case_prod_unfold)
qed simp

text \<open>
  C18: the count of a category in the lead summary is the number of rows its tab lists, and the total of the
  team is the sum of the tabs, abandoned checkouts included; every order counted has the category
  \<open>classify_order\<close> gives it.
\<close>

theorem category_counts_match_pools:
  shows "category_counts leader None s = map (\<lambda>c. (c, length (list_category_pool leader (Some c) None None None s),
      length (filter (\<lambda>(ord, a). a = None) (list_category_pool leader (Some c) None None None s))))
        [COD_UNFULFILLED, COD_FULFILLED, LEAD_PREPAID]
    \<and> fst (snd (team_summary \<lparr>sc_assigned_to = None, sc_leader = leader\<rparr> s))
        = length (list_category_pool leader None None None None s) + fst (checkout_pool_counts leader s)
    \<and> {ord. (ord, a) \<in> set (list_category_pool leader (Some LEAD_PREPAID) None None None s)}
        \<subseteq> {ord. classify_order (o_payment_type ord) (o_fulfillment ord) = Some LEAD_PREPAID}"
proof -
  have none: "length (filter P (sort_key f xs)) = length (filter P xs)" for P and f :: "(order \<times> assignment option) \<Rightarrow> instant" and xs
    by (metis filter_sort length_sort)
  have counts: "category_counts leader None s = map (\<lambda>c. (c, length (filter (\<lambda>(ord, a). count_category ord = c) (category_rows leader s)),
      length (filter (\<lambda>(ord, a). count_category ord = c \<and> a = None) (category_rows leader s))))
        [COD_UNFULFILLED, COD_FULFILLED, LEAD_PREPAID]"
    by (simp add: category_counts_def category_rows_def Let_def)
  have total: "fst (snd (team_summary \<lparr>sc_assigned_to = None, sc_leader = leader\<rparr> s))
      = length (category_rows leader s) + fst (checkout_pool_counts leader s)"
    by (simp add: team_summary_def Let_def counts category_total)
  have "classify_order (o_payment_type ord) (o_fulfillment ord) = Some LEAD_PREPAID"
    if "(ord, a) \<in> set (list_category_pool leader (Some LEAD_PREPAID) None None None s)" for ord
    using that classify_count [of ord] by (auto simp: list_category_pool_rows category_rows_def)
  then show ?thesis
    by (simp add: total subset_iff) (simp add: counts list_category_pool_rows none case_prod_unfold conj_commute)
qed

end
