(* ===== verification/Webhooks.thy ===== *)
theory Webhooks
  imports Returns
begin

text \<open>
  Webhook deliveries: \<open>app/services/webhook_service.py\<close>, \<open>app/repositories/webhook_event.py\<close> and the worker
  task of \<open>app/tasks/webhook_processing.py\<close>. The payload column is not kept: its canonical JSON text comes
  with the delivery, and the digest of the fallback id is a parameter.
\<close>

datatype webhook_status = WE_RECEIVED | WE_PROCESSING | WE_PROCESSED | WE_FAILED | WE_IGNORED

datatype integration_status = CONNECTED_STATUS | DISCONNECTED | INTEGRATION_ERROR | SYNCING | DISABLED

record integration =
  in_id :: uuid
  in_code :: string
  in_status :: integration_status
  in_cursors :: "(string \<times> string) list"
  in_backlog :: "(string \<times> bool) list"
  in_last_sync :: "instant option"
  in_last_success :: "instant option"
  in_last_failure :: "instant option"

record webhook_event =
  we_id :: uuid
  we_integration :: uuid
  we_type :: string
  we_external :: string
  we_resource :: "string option"
  we_received :: instant
  we_processed :: "instant option"
  we_status :: webhook_status
  we_retries :: int
  we_error :: "string option"

record webhook_db = returns_db +
  integrations :: "integration list"
  webhook_events :: "webhook_event list"

definition integration_by :: "'a webhook_db_scheme \<Rightarrow> uuid \<Rightarrow> integration option" where
  "integration_by s = row_by in_id (integrations s)"

definition integration_by_code :: "'a webhook_db_scheme \<Rightarrow> string \<Rightarrow> integration option" where
  "integration_by_code s = row_by in_code (integrations s)"

definition webhook_by :: "'a webhook_db_scheme \<Rightarrow> uuid \<Rightarrow> webhook_event option" where
  "webhook_by s = row_by we_id (webhook_events s)"

definition webhook_by_external :: "'a webhook_db_scheme \<Rightarrow> uuid \<Rightarrow> string \<Rightarrow> webhook_event option" where
  "webhook_by_external s iid ext = find (\<lambda>r. we_integration r = iid \<and> we_external r = ext) (webhook_events s)"

text \<open>\<open>d[k] = v\<close> on a JSON object.\<close>

fun put :: "string \<Rightarrow> 'v \<Rightarrow> (string \<times> 'v) list \<Rightarrow> (string \<times> 'v) list" where
  "put k v [] = [(k, v)]"
| "put k v ((k', v') # rest) = (if k = k' then (k, v) # rest else (k', v') # put k v rest)"

section \<open>Ingestion\<close>

definition compute_fallback_event_id :: "(string \<Rightarrow> string) \<Rightarrow> string \<Rightarrow> string \<Rightarrow> string \<Rightarrow> string" where
  "compute_fallback_event_id digest code event_type canonical =
     ''fallback:'' @ digest (code @ '':'' @ event_type @ '':'' @ canonical)"

text \<open>The row and whether it is new.\<close>

definition ingest ::
  "(string \<Rightarrow> string) \<Rightarrow> uuid \<Rightarrow> string \<Rightarrow> string \<Rightarrow> string option \<Rightarrow> string option \<Rightarrow> 'a webhook_db_scheme
   \<Rightarrow> ((uuid \<times> bool) \<times> 'a webhook_db_scheme) result" where
  "ingest digest iid event_type canonical external resource s =
     bindR (require_some (integration_by s iid) (NotFoundError ''Integration not found.'')) (\<lambda>integration.
     let event_id = (if present external then the external
           else compute_fallback_event_id digest (in_code integration) event_type canonical)
     in (case webhook_by_external s iid event_id of
          Some r \<Rightarrow> Inr ((we_id r, False), s)
        | None \<Rightarrow> Inr ((next_id s, True), fresh (s\<lparr>webhook_events := webhook_events s @
            [\<lparr>we_id = next_id s, we_integration = iid, we_type = event_type, we_external = event_id,
              we_resource = resource, we_received = clock s, we_processed = None, we_status = WE_RECEIVED,
              we_retries = 0, we_error = None\<rparr>]\<rparr>))))"

section \<open>Status of an event\<close>

definition webhook_update :: "uuid \<Rightarrow> (webhook_event \<Rightarrow> webhook_event) \<Rightarrow> 'a webhook_db_scheme \<Rightarrow> 'a webhook_db_scheme" where
  "webhook_update i f s = s\<lparr>webhook_events := set_where (\<lambda>r. we_id r = i) f (webhook_events s)\<rparr>"

definition mark_event :: "(webhook_event \<Rightarrow> webhook_event) \<Rightarrow> uuid \<Rightarrow> 'a webhook_db_scheme \<Rightarrow> 'a webhook_db_scheme result" where
  "mark_event f i s =
     bindR (require_some (webhook_by s i) (NotFoundError ''Webhook event not found.'')) (\<lambda>_. Inr (webhook_update i f s))"

definition mark_processing :: "uuid \<Rightarrow> 'a webhook_db_scheme \<Rightarrow> 'a webhook_db_scheme result" where
  "mark_processing = mark_event (\<lambda>r. r\<lparr>we_status := WE_PROCESSING\<rparr>)"

definition mark_processed :: "uuid \<Rightarrow> 'a webhook_db_scheme \<Rightarrow> 'a webhook_db_scheme result" where
  "mark_processed i s = mark_event (\<lambda>r. r\<lparr>we_status := WE_PROCESSED, we_processed := Some (clock s)\<rparr>) i s"

text \<open>The columns hold at most 1000 characters.\<close>

definition mark_failed :: "uuid \<Rightarrow> string \<Rightarrow> 'a webhook_db_scheme \<Rightarrow> 'a webhook_db_scheme result" where
  "mark_failed i message = mark_event (\<lambda>r. r\<lparr>we_status := WE_FAILED, we_error := Some (take 1000 message),
     we_retries := we_retries r + 1\<rparr>) i"

definition mark_ignored :: "uuid \<Rightarrow> string \<Rightarrow> 'a webhook_db_scheme \<Rightarrow> 'a webhook_db_scheme result" where
  "mark_ignored i reason = mark_event (\<lambda>r. r\<lparr>we_status := WE_IGNORED, we_error := Some (take 1000 reason)\<rparr>) i"

definition get_stuck_received :: "instant \<Rightarrow> 'a webhook_db_scheme \<Rightarrow> webhook_event list" where
  "get_stuck_received before s = filter (\<lambda>r. we_status r = WE_RECEIVED \<and> we_received r < before) (webhook_events s)"

definition stuck_webhook_threshold :: int where
  "stuck_webhook_threshold = 5 * 60 * 1000000"

text \<open>The ids the scheduled task puts back on the queue.\<close>

definition recover_stuck_webhook_events :: "'a webhook_db_scheme \<Rightarrow> uuid list" where
  "recover_stuck_webhook_events s = map we_id (get_stuck_received (clock s - stuck_webhook_threshold) s)"

section \<open>The worker\<close>

text \<open>\<open>str(exc)\<close>.\<close>

definition error_message :: "oms_error \<Rightarrow> string" where
  "error_message e = (case e of NotFoundError m \<Rightarrow> m | ValidationError m \<Rightarrow> m | ConflictError m \<Rightarrow> m
     | AuthenticationError m \<Rightarrow> m | AuthorizationError m \<Rightarrow> m | IntegrationError m \<Rightarrow> m | WebhookVerificationError m \<Rightarrow> m
     | RateLimitError m \<Rightarrow> m | IntegrityError m \<Rightarrow> m | MultipleResultsFound \<Rightarrow> ''Multiple rows were found when one or none was required''
     | DataError m \<Rightarrow> m | ZeroDivisionError \<Rightarrow> ''division by zero'' | KeyError m \<Rightarrow> m)"

text \<open>
  \<open>adapter\<close> gives the adapter registered for a code, which turns an event into an entity type and a normalized
  entity or raises, and \<open>handlers\<close> the upsert of an entity type, which may commit before it raises. The result
  is the exception the task raises again for Celery to retry.
\<close>

definition process_webhook_event ::
  "(string \<Rightarrow> (webhook_event \<Rightarrow> (string option \<times> 'n option) result) option)
   \<Rightarrow> (string \<Rightarrow> ('n \<Rightarrow> 'a webhook_db_scheme \<Rightarrow> 'a webhook_db_scheme \<times> oms_error option) option)
   \<Rightarrow> uuid \<Rightarrow> 'a webhook_db_scheme \<Rightarrow> 'a webhook_db_scheme committed" where
  "process_webhook_event adapter handlers i s =
     (case webhook_by s i of
        None \<Rightarrow> (s, Some (NotFoundError ''Webhook event not found.''))
      | Some event \<Rightarrow>
          let s1 = webhook_update i (\<lambda>r. r\<lparr>we_status := WE_PROCESSING\<rparr>) s;
              ignored = (\<lambda>reason t. webhook_update i (\<lambda>r. r\<lparr>we_status := WE_IGNORED, we_error := Some reason\<rparr>) t);
              failed = (\<lambda>e t. (webhook_update i (\<lambda>r. r\<lparr>we_status := WE_FAILED, we_error := Some (take 1000 (error_message e)),
                 we_retries := we_retries r + 1\<rparr>) t, Some e))
          in (case Option.bind (integration_by s1 (we_integration event)) (\<lambda>n. adapter (in_code n)) of
                None \<Rightarrow> (ignored ''No adapter registered for integration.'' s1, None)
              | Some process \<Rightarrow>
                  (case process event of
                     Inl e \<Rightarrow> failed e s1
                   | Inr (entity_type, normalized) \<Rightarrow>
                       (case (Option.bind entity_type handlers, normalized) of
                          (Some handler, Some entity) \<Rightarrow>
                            (case handler entity s1 of
                               (s2, Some e) \<Rightarrow> failed e s2
                             | (s2, None) \<Rightarrow> (webhook_update i (\<lambda>r. r\<lparr>we_status := WE_PROCESSED,
                                 we_processed := Some (clock s2)\<rparr>) s2, None))
                        | _ \<Rightarrow> (ignored ''Unhandled webhook topic.'' s1, None)))))"

end
