(* ===== verification/Payments.thy ===== *)
theory Payments
  imports Webhooks
begin

text \<open>
  Online payments through Cashfree: \<open>app/services/cashfree_payment_service.py\<close>,
  \<open>app/services/cashfree_sync_service.py\<close>, the mapping of \<open>app/integrations/cashfree/normalizer.py\<close>, the
  signature check and the webhook endpoint \<open>app/api/v1/webhooks/cashfree.py\<close>.

  Cashfree itself is the record \<open>cashfree_api\<close>. The service commits several times per event, and the database
  may refuse at each point; a \<open>faults\<close> function says where it does, so that what was committed before a
  failure is part of the model. Raw payload columns are not kept.
\<close>

record transaction =
  tx_id :: uuid
  tx_payment :: uuid
  tx_gateway :: "string option"
  tx_external :: "string option"
  tx_status :: payment_status
  tx_amount :: rat

record settlement_fields =
  sf_status :: "string option"
  sf_description :: "string option"
  sf_utr :: "string option"
  sf_initiated :: "instant option"
  sf_processed :: "instant option"
  sf_amount :: "rat option"
  sf_charges :: "rat option list"
  sf_settled :: "rat option"

record settlement =
  se_id :: uuid
  se_external :: string
  se_fields :: settlement_fields

record pay_db = webhook_db +
  transactions :: "transaction list"
  settlements :: "settlement list"

record checkout_payload =
  cp_order :: string
  cp_amount :: rat
  cp_currency :: string
  cp_phone :: string

record checkout_response =
  cr_cf_order :: "string option"
  cr_session :: "string option"
  cr_status :: "string option"

record payment_event =
  pe_order :: string
  pe_payment :: "string option"
  pe_status :: "string option"
  pe_amount :: "rat option"
  pe_currency :: "string option"
  pe_method :: "string option"
  pe_paid_at :: "instant option"

text \<open>A row of the bulk reconciliation; \<open>Decimal\<close> may refuse the amount.\<close>

record recon_row =
  rr_type :: "string option"
  rr_order :: "string option"
  rr_payment :: "string option"
  rr_status :: "string option"
  rr_amount :: "rat result option"
  rr_currency :: "string option"
  rr_paid_at :: "instant option"

record settlement_row =
  sl_id :: "string option"
  sl_fields :: "settlement_fields result"

record cashfree_api =
  cf_configured :: bool
  cf_create_order :: "checkout_payload \<Rightarrow> checkout_response result"
  cf_payments :: "string \<Rightarrow> payment_event list result"
  cf_recon :: "string option \<Rightarrow> (recon_row list \<times> string option) result"
  cf_settlements :: "string option \<Rightarrow> (settlement_row list \<times> string option) result"

datatype commit_point = CREATING_PAYMENT | RECORDING_TRANSACTION | UPDATING_PAYMENT | UPDATING_ORDER

type_synonym faults = "payment_event \<Rightarrow> commit_point \<Rightarrow> oms_error option"

section \<open>Mapping\<close>

definition is_order_id_char :: "char \<Rightarrow> bool" where
  "is_order_id_char c \<longleftrightarrow> (let n = (of_char c :: nat) in
     (65 \<le> n \<and> n \<le> 90) \<or> (97 \<le> n \<and> n \<le> 122) \<or> (48 \<le> n \<and> n \<le> 57) \<or> n = 95 \<or> n = 45)"

definition order_id_max_length :: int where
  "order_id_max_length = 45"

text \<open>\<open>xs[:n]\<close>; a negative bound counts from the end.\<close>

definition slice_to :: "int \<Rightarrow> 'b list \<Rightarrow> 'b list" where
  "slice_to n xs = (if 0 \<le> n then take (nat n) xs else take (length xs - nat (- n)) xs)"

definition build_cashfree_order_id :: "string \<Rightarrow> string option \<Rightarrow> string" where
  "build_cashfree_order_id order_number disambiguator =
     (let kept = filter is_order_id_char order_number;
          base = (if kept = [] then ''AWLORDER'' else kept)
      in if \<not> present disambiguator then slice_to order_id_max_length base
         else let suffix = ''-'' @ the disambiguator
              in slice_to (order_id_max_length - int (length suffix)) base @ suffix)"

definition payment_status_map :: "(string \<times> payment_status) list" where
  "payment_status_map = [(''SUCCESS'', PAID), (''FAILED'', PAY_FAILED), (''USER_DROPPED'', PAY_FAILED),
     (''CANCELLED'', PAY_FAILED), (''VOID'', PAY_FAILED), (''PENDING'', PAY_PENDING), (''NOT_ATTEMPTED'', PAY_PENDING),
     (''FLAGGED'', PAY_PENDING)]"

definition normalize_payment_status :: "string option \<Rightarrow> payment_status option" where
  "normalize_payment_status raw = (if present raw then map_of payment_status_map (normalize_key raw) else None)"

definition recognized_webhook_types :: "string list" where
  "recognized_webhook_types = [''PAYMENT_SUCCESS_WEBHOOK'', ''PAYMENT_FAILED_WEBHOOK'', ''PAYMENT_USER_DROPPED_WEBHOOK'']"

text \<open>A row that is no payment, or of no order, is skipped; an unreadable amount raises.\<close>

definition normalize_recon_row :: "recon_row \<Rightarrow> payment_event option result" where
  "normalize_recon_row r =
     (if rr_type r \<noteq> None \<and> rr_type r \<noteq> Some ''PAYMENT'' then Inr None
      else if \<not> present (rr_order r) then Inr None
      else bindR (case rr_amount r of None \<Rightarrow> Inr None | Some a \<Rightarrow> bindR a (\<lambda>x. Inr (Some x))) (\<lambda>amount.
        Inr (Some \<lparr>pe_order = the (rr_order r), pe_payment = rr_payment r, pe_status = rr_status r, pe_amount = amount,
          pe_currency = rr_currency r, pe_method = None, pe_paid_at = rr_paid_at r\<rparr>)))"

fun payment_status_value :: "payment_status \<Rightarrow> string" where
  "payment_status_value PAY_PENDING = ''pending''"
| "payment_status_value AUTHORIZED = ''authorized''"
| "payment_status_value PAID = ''paid''"
| "payment_status_value PAY_FAILED = ''failed''"
| "payment_status_value REFUNDED = ''refunded''"
| "payment_status_value PARTIALLY_REFUNDED = ''partially_refunded''"

section \<open>Rows\<close>

definition payment_by :: "'a order_db_scheme \<Rightarrow> uuid \<Rightarrow> payment option" where
  "payment_by s = row_by pay_id (payments s)"

definition payment_update :: "uuid \<Rightarrow> (payment \<Rightarrow> payment) \<Rightarrow> 'a order_db_scheme \<Rightarrow> 'a order_db_scheme" where
  "payment_update i f s = s\<lparr>payments := set_where (\<lambda>r. pay_id r = i) f (payments s)\<rparr>"

definition cashfree_payment :: "'a order_db_scheme \<Rightarrow> string \<Rightarrow> payment option" where
  "cashfree_payment s = by_external pay_source pay_external (payments s) ''cashfree''"

text \<open>The attempts of an order, oldest first.\<close>

definition cashfree_attempts :: "'a order_db_scheme \<Rightarrow> uuid \<Rightarrow> payment list" where
  "cashfree_attempts s oid = sort_key pay_created
     (filter (\<lambda>p. pay_provider p = Some ''cashfree'') (filter (\<lambda>p. pay_order p = oid) (payments s)))"

text \<open>\<open>upsert_by_external_id\<close> of a Cashfree payment, always PENDING: the row and whether it is new.\<close>

definition upsert_cashfree_payment ::
  "order \<Rightarrow> string \<Rightarrow> (string \<times> string option) list \<Rightarrow> 'a order_db_scheme \<Rightarrow> (payment \<times> bool) \<times> 'a order_db_scheme" where
  "upsert_cashfree_payment ord cid metadata s =
     (let write = (\<lambda>p. p\<lparr>pay_order := o_id ord, pay_type := o_payment_type ord, pay_status := PAY_PENDING,
            pay_amount := o_total ord, pay_currency := o_currency ord, pay_provider := Some ''cashfree'',
            pay_metadata := metadata\<rparr>)
      in case cashfree_payment s cid of
           Some p \<Rightarrow> ((write p, False), payment_update (pay_id p) write s)
         | None \<Rightarrow>
             let p = write \<lparr>pay_id = next_id s, pay_order = o_id ord, pay_type = o_payment_type ord,
                   pay_status = PAY_PENDING, pay_amount = 0, pay_currency = [], pay_provider = None,
                   pay_transaction = None, pay_source = ''cashfree'', pay_external = Some cid, pay_paid_at = None,
                   pay_created = clock s, pay_metadata = []\<rparr>
             in ((p, True), fresh (s\<lparr>payments := payments s @ [p]\<rparr>)))"

section \<open>Checkout\<close>

definition order_phone :: "order \<Rightarrow> 'a order_db_scheme \<Rightarrow> string" where
  "order_phone ord s = or_text (text_or (Option.bind (o_shipping_address ord) (\<lambda>a. map_of a ''contact_phone''))
     (Option.bind (Option.bind (o_customer ord) (row_by cu_id (customers s))) cu_phone)) []"

definition create_or_reuse_checkout ::
  "cashfree_api \<Rightarrow> uuid \<Rightarrow> uuid option \<Rightarrow> 'a order_db_scheme \<Rightarrow> ((uuid \<times> bool) \<times> 'a order_db_scheme) result" where
  "create_or_reuse_checkout api oid actor s =
     bindR (get_order oid s) (\<lambda>ord.
     bindR (require (o_payment_status ord \<noteq> PAID) (ConflictError ''Order is already paid.'')) (\<lambda>_.
     bindR (require (o_status ord \<noteq> CANCELLED) (ConflictError ''Cannot collect payment on a cancelled order.'')) (\<lambda>_.
     let attempts = cashfree_attempts s oid;
         reusable = (\<lambda>p. pay_status p = PAY_PENDING \<and> present (Option.bind (map_of (pay_metadata p) ''payment_session_id'') id))
     in if attempts \<noteq> [] \<and> reusable (last attempts) then Inr ((pay_id (last attempts), False), s)
        else
          bindR (require (cf_configured api) (IntegrationError ''Cashfree integration is not configured.'')) (\<lambda>_.
          bindR (require (order_phone ord s \<noteq> []) (ValidationError ''Order has no customer phone number on file.'')) (\<lambda>_.
          let cid = build_cashfree_order_id (o_number ord) (if attempts = [] then None else Some (show_nat (length attempts)))
          in bindR (cf_create_order api \<lparr>cp_order = cid, cp_amount = o_total ord, cp_currency = o_currency ord,
                 cp_phone = order_phone ord s\<rparr>) (\<lambda>response.
          case upsert_cashfree_payment ord cid [(''cashfree_order_id'', Some cid), (''cf_order_id'', cr_cf_order response),
                 (''payment_session_id'', cr_session response), (''order_status'', cr_status response)] s of
            ((p, created), s1) \<Rightarrow>
              Inr ((pay_id p, created), audit_record actor ''payment.cashfree_checkout_created'' ''payment'' (pay_id p) []
                [(''order_id'', JId oid), (''cashfree_order_id'', JStr cid)] [] s1)))))))"

definition get_payment_for_order :: "uuid \<Rightarrow> 'a order_db_scheme \<Rightarrow> payment result" where
  "get_payment_for_order oid s =
     bindR (get_order oid s) (\<lambda>_.
     bindR (require (cashfree_attempts s oid \<noteq> []) (NotFoundError ''No Cashfree payment found for this order.'')) (\<lambda>_.
     Inr (last (cashfree_attempts s oid))))"

section \<open>Applying a result\<close>

record event_result =
  er_applied :: bool
  er_reason :: "string option"
  er_payment :: "uuid option"
  er_status :: "payment_status option"

definition not_applied :: "string \<Rightarrow> uuid option \<Rightarrow> payment_status option \<Rightarrow> event_result" where
  "not_applied reason p st = \<lparr>er_applied = False, er_reason = Some reason, er_payment = p, er_status = st\<rparr>"

text \<open>The order a payment made outside the OMS belongs to, by its number with or without the hash sign.\<close>

definition external_order :: "'a order_db_scheme \<Rightarrow> string \<Rightarrow> order option" where
  "external_order s cid = (case order_by_number s cid of Some ord \<Rightarrow> Some ord | None \<Rightarrow> order_by_number s (''#'' @ cid))"

definition find_or_create_payment :: "faults \<Rightarrow> payment_event \<Rightarrow> 'a pay_db_scheme \<Rightarrow> ('a pay_db_scheme, payment option) attempt" where
  "find_or_create_payment fault ev s = (case cashfree_payment s (pe_order ev) of
     Some p \<Rightarrow> (s, Inr (Some p))
   | None \<Rightarrow> (case external_order s (pe_order ev) of
       None \<Rightarrow> (s, Inr None)
     | Some ord \<Rightarrow> (case fault ev CREATING_PAYMENT of
         Some e \<Rightarrow> (s, Inl e)
       | None \<Rightarrow> (case upsert_cashfree_payment ord (pe_order ev) [(''cashfree_order_id'', Some (pe_order ev)),
             (''created_from'', Some ''webhook'')] s of ((p, _), s1) \<Rightarrow> (s1, Inr (Some p))))))"

text \<open>\<open>create_if_new\<close>: keyed by the gateway's id where there is one.\<close>

definition transaction_known :: "string option \<Rightarrow> 'a pay_db_scheme \<Rightarrow> bool" where
  "transaction_known ext s \<longleftrightarrow> ext \<noteq> None \<and> (\<exists>t\<in>set (transactions s). tx_gateway t = Some ''cashfree'' \<and> tx_external t = ext)"

definition record_transaction ::
  "faults \<Rightarrow> payment_event \<Rightarrow> payment \<Rightarrow> payment_status \<Rightarrow> 'a pay_db_scheme \<Rightarrow> ('a pay_db_scheme, bool) attempt" where
  "record_transaction fault ev p st s =
     (if transaction_known (pe_payment ev) s then (s, Inr False)
      else case fault ev RECORDING_TRANSACTION of
        Some e \<Rightarrow> (s, Inl e)
      | None \<Rightarrow> (fresh (s\<lparr>transactions := transactions s @ [\<lparr>tx_id = next_id s, tx_payment = pay_id p,
          tx_gateway = Some ''cashfree'', tx_external = pe_payment ev, tx_status = st,
          tx_amount = (case pe_amount ev of Some a \<Rightarrow> a | None \<Rightarrow> pay_amount p)\<rparr>]\<rparr>), Inr True))"

definition write_event :: "payment_event \<Rightarrow> payment_status \<Rightarrow> instant \<Rightarrow> payment \<Rightarrow> payment" where
  "write_event ev st now p =
     (let m1 = put ''order_status'' (Some (if st = PAID then ''PAID'' else ''ACTIVE'')) (pay_metadata p);
          m2 = put ''last_raw_payment_status'' (pe_status ev) m1;
          m3 = (if present (pe_method ev) then put ''payment_method'' (pe_method ev) m2 else m2)
      in p\<lparr>pay_status := st, pay_metadata := m3,
           pay_paid_at := (if st = PAID then Some (case pe_paid_at ev of Some t \<Rightarrow> t | None \<Rightarrow> now) else pay_paid_at p),
           pay_transaction := (if present (pe_payment ev) then pe_payment ev else pay_transaction p)\<rparr>)"

definition apply_order_state :: "payment \<Rightarrow> payment_status \<Rightarrow> 'a order_db_scheme \<Rightarrow> 'a order_db_scheme" where
  "apply_order_state p st s = (case order_by s (pay_order p) of
     None \<Rightarrow> s
   | Some ord \<Rightarrow>
       if st = PAID
       then let s1 = (if o_payment_status ord \<noteq> PAID then order_update (o_id ord) (\<lambda>r. r\<lparr>o_payment_status := PAID\<rparr>) s else s);
                s2 = (if o_status ord = PENDING \<and> CONFIRMED \<in> set (order_transitions (o_status ord))
                      then order_update (o_id ord) (\<lambda>r. r\<lparr>o_status := CONFIRMED\<rparr>) s1 else s1)
            in event_create (o_id ord) ''payment.cashfree_paid'' (Some (payment_status_value PAID))
                 (Some ''Cashfree payment confirmed.'') ''cashfree'' None s2
       else event_create (o_id ord) ''payment.cashfree_failed'' (Some (payment_status_value st))
              (Some ''Cashfree payment.'') ''cashfree'' None s)"

text \<open>From the transaction on: each step is committed before the next.\<close>

definition settle_event ::
  "faults \<Rightarrow> payment_event \<Rightarrow> payment \<Rightarrow> payment_status \<Rightarrow> 'a pay_db_scheme \<Rightarrow> ('a pay_db_scheme, event_result) attempt" where
  "settle_event fault ev p st s = (case record_transaction fault ev p st s of
     (s1, Inl e) \<Rightarrow> (s1, Inl e)
   | (s1, Inr created) \<Rightarrow>
       if pay_status p = PAID \<and> st \<noteq> PAID then (s1, Inr (not_applied ''payment_already_paid'' (Some (pay_id p)) (Some st)))
       else if \<not> created then (s1, Inr (not_applied ''duplicate_transaction'' (Some (pay_id p)) (Some st)))
       else (case fault ev UPDATING_PAYMENT of
         Some e \<Rightarrow> (s1, Inl e)
       | None \<Rightarrow>
           let s2 = payment_update (pay_id p) (write_event ev st (clock s1)) s1
           in (case fault ev UPDATING_ORDER of
             Some e \<Rightarrow> (s2, Inl e)
           | None \<Rightarrow> (apply_order_state p st s2,
               Inr \<lparr>er_applied = True, er_reason = None, er_payment = Some (pay_id p), er_status = Some st\<rparr>))))"

definition apply_payment_event :: "faults \<Rightarrow> payment_event \<Rightarrow> 'a pay_db_scheme \<Rightarrow> ('a pay_db_scheme, event_result) attempt" where
  "apply_payment_event fault ev s = (case find_or_create_payment fault ev s of
     (s1, Inl e) \<Rightarrow> (s1, Inl e)
   | (s1, Inr None) \<Rightarrow> (s1, Inr (not_applied ''unknown_cashfree_order'' None None))
   | (s1, Inr (Some p)) \<Rightarrow> (case normalize_payment_status (pe_status ev) of
       None \<Rightarrow> (s1, Inr (not_applied ''unrecognized_payment_status'' (Some (pay_id p)) None))
     | Some st \<Rightarrow>
         if st = PAID \<and> pe_amount ev \<noteq> Some (pay_amount p)
         then (s1, Inr (not_applied ''amount_mismatch'' (Some (pay_id p)) None))
         else if st = PAID \<and> present (pe_currency ev) \<and> map upper_char (the (pe_currency ev)) \<noteq> map upper_char (pay_currency p)
         then (s1, Inr (not_applied ''currency_mismatch'' (Some (pay_id p)) None))
         else settle_event fault ev p st s1))"

section \<open>Reconciliation\<close>

fun apply_attempts :: "faults \<Rightarrow> payment_event list \<Rightarrow> 'a pay_db_scheme \<Rightarrow> 'a pay_db_scheme committed" where
  "apply_attempts fault [] s = (s, None)"
| "apply_attempts fault (ev # evs) s = (case apply_payment_event fault ev s of
     (s1, Inl e) \<Rightarrow> (s1, Some e)
   | (s1, Inr _) \<Rightarrow> apply_attempts fault evs s1)"

definition reconcile_payment ::
  "cashfree_api \<Rightarrow> faults \<Rightarrow> uuid \<Rightarrow> uuid option \<Rightarrow> 'a pay_db_scheme \<Rightarrow> ('a pay_db_scheme, payment) attempt" where
  "reconcile_payment api fault oid actor s = (case get_payment_for_order oid s of
     Inl e \<Rightarrow> (s, Inl e)
   | Inr p \<Rightarrow>
       if \<not> present (pay_external p) then (s, Inl (ConflictError ''This payment has no Cashfree order_id to reconcile against.''))
       else if \<not> cf_configured api then (s, Inl (IntegrationError ''Cashfree integration is not configured.''))
       else (case cf_payments api (the (pay_external p)) of
         Inl e \<Rightarrow> (s, Inl e)
       | Inr attempts \<Rightarrow> (case apply_attempts fault (map (\<lambda>ev. ev\<lparr>pe_order := the (pay_external p)\<rparr>) attempts) s of
           (s1, Some e) \<Rightarrow> (s1, Inl e)
         | (s1, None) \<Rightarrow>
             let s2 = audit_record actor ''payment.cashfree_reconciled'' ''payment'' (pay_id p) []
                   [(''attempts_checked'', JInt (int (length attempts)))] [] s1
             in (s2, get_payment_for_order oid s2))))"

section \<open>Bulk sync\<close>

record sync_result =
  sr_fetched :: nat
  sr_processed :: nat
  sr_applied :: nat
  sr_duplicates :: nat
  sr_skipped :: nat
  sr_failures :: nat

definition empty_result :: sync_result where
  "empty_result = \<lparr>sr_fetched = 0, sr_processed = 0, sr_applied = 0, sr_duplicates = 0, sr_skipped = 0, sr_failures = 0\<rparr>"

definition max_pages_per_sync :: nat where
  "max_pages_per_sync = 50"

datatype row_outcome = ROW_APPLIED | ROW_DUPLICATE | ROW_SKIPPED | ROW_FAILED

definition count_row :: "row_outcome \<Rightarrow> sync_result \<Rightarrow> sync_result" where
  "count_row outcome r = (let r1 = r\<lparr>sr_processed := sr_processed r + 1\<rparr> in case outcome of
     ROW_APPLIED \<Rightarrow> r1\<lparr>sr_applied := sr_applied r + 1\<rparr>
   | ROW_DUPLICATE \<Rightarrow> r1\<lparr>sr_duplicates := sr_duplicates r + 1\<rparr>
   | ROW_SKIPPED \<Rightarrow> r1\<lparr>sr_skipped := sr_skipped r + 1\<rparr>
   | ROW_FAILED \<Rightarrow> r1\<lparr>sr_failures := sr_failures r + 1\<rparr>)"

fun sync_rows :: "('row \<Rightarrow> 's \<Rightarrow> row_outcome \<times> 's) \<Rightarrow> 'row list \<Rightarrow> sync_result \<times> 's \<Rightarrow> sync_result \<times> 's" where
  "sync_rows handle [] rs = rs"
| "sync_rows handle (row # rows) (r, s) = (case handle row s of (outcome, s1) \<Rightarrow> sync_rows handle rows (count_row outcome r, s1))"

text \<open>At most \<open>n\<close> pages; a page that fails ends the sync with what its predecessors committed.\<close>

fun sync_pages ::
  "nat \<Rightarrow> (string option \<Rightarrow> ('row list \<times> string option) result) \<Rightarrow> ('row \<Rightarrow> 's \<Rightarrow> row_outcome \<times> 's) \<Rightarrow> string option
   \<Rightarrow> sync_result \<Rightarrow> 's \<Rightarrow> ('s, sync_result) attempt" where
  "sync_pages 0 get handle cursor r s = (s, Inr r)"
| "sync_pages (Suc n) get handle cursor r s = (case get cursor of
     Inl e \<Rightarrow> (s, Inl e)
   | Inr (rows, next_cursor) \<Rightarrow>
       (case sync_rows handle rows (r\<lparr>sr_fetched := sr_fetched r + length rows\<rparr>, s) of
          (r1, s1) \<Rightarrow> if \<not> present next_cursor \<or> rows = [] then (s1, Inr r1)
                     else sync_pages n get handle next_cursor r1 s1))"

text \<open>
  The row handler does not roll back: once the database has refused a write, the session refuses every later query
  with \<open>PendingRollbackError\<close>. The flag says that it is in that state.
\<close>

definition sync_transaction_row :: "faults \<Rightarrow> recon_row \<Rightarrow> bool \<times> 'a pay_db_scheme \<Rightarrow> row_outcome \<times> (bool \<times> 'a pay_db_scheme)" where
  "sync_transaction_row fault row session = (case session of (broken, s) \<Rightarrow>
     (case normalize_recon_row row of
        Inl _ \<Rightarrow> (ROW_FAILED, (broken, s))
      | Inr None \<Rightarrow> (ROW_SKIPPED, (broken, s))
      | Inr (Some ev) \<Rightarrow>
          if broken then (ROW_FAILED, (True, s))
          else (case apply_payment_event fault ev s of
            (s1, Inl _) \<Rightarrow> (ROW_FAILED, (True, s1))
          | (s1, Inr res) \<Rightarrow> (if er_applied res then ROW_APPLIED
              else if er_reason res = Some ''duplicate_transaction'' then ROW_DUPLICATE else ROW_SKIPPED, (False, s1)))))"

definition sync_transactions :: "cashfree_api \<Rightarrow> faults \<Rightarrow> 'a pay_db_scheme \<Rightarrow> ('a pay_db_scheme, sync_result) attempt" where
  "sync_transactions api fault s =
     (if \<not> cf_configured api then (s, Inl (IntegrationError ''Cashfree integration is not configured.''))
      else case sync_pages max_pages_per_sync (cf_recon api) (sync_transaction_row fault) None empty_result (False, s) of
        ((_, s1), r) \<Rightarrow> (s1, r))"

text \<open>A settlement is updated in place: its status moves on. Whether the row is new.\<close>

definition upsert_settlement :: "string \<Rightarrow> settlement_fields \<Rightarrow> 'a pay_db_scheme \<Rightarrow> bool \<times> 'a pay_db_scheme" where
  "upsert_settlement ext cols s = (case row_by se_external (settlements s) ext of
     Some r \<Rightarrow> (False, s\<lparr>settlements := set_where (\<lambda>x. se_id x = se_id r) (\<lambda>x. x\<lparr>se_fields := cols\<rparr>) (settlements s)\<rparr>)
   | None \<Rightarrow> (True, fresh (s\<lparr>settlements := settlements s @ [\<lparr>se_id = next_id s, se_external = ext, se_fields = cols\<rparr>]\<rparr>)))"

definition sync_settlement_row :: "settlement_row \<Rightarrow> 'a pay_db_scheme \<Rightarrow> row_outcome \<times> 'a pay_db_scheme" where
  "sync_settlement_row row s =
     (if \<not> present (sl_id row) then (ROW_SKIPPED, s)
      else case sl_fields row of
        Inl _ \<Rightarrow> (ROW_FAILED, s)
      | Inr cols \<Rightarrow> (case upsert_settlement (the (sl_id row)) cols s of
          (created, s1) \<Rightarrow> (if created then ROW_APPLIED else ROW_DUPLICATE, s1)))"

definition sync_settlements :: "cashfree_api \<Rightarrow> 'a pay_db_scheme \<Rightarrow> ('a pay_db_scheme, sync_result) attempt" where
  "sync_settlements api s =
     (if \<not> cf_configured api then (s, Inl (IntegrationError ''Cashfree integration is not configured.''))
      else sync_pages max_pages_per_sync (cf_settlements api) sync_settlement_row None empty_result s)"

definition unsettled_statuses :: "string list" where
  "unsettled_statuses = [''PENDING'', ''PENDING_WITH_CASHFREE'', ''PENDING_WITH_BANK'']"

text \<open>\<open>a or b or 0\<close>: a zero counts as absent.\<close>

definition get_unsettled_total :: "'a pay_db_scheme \<Rightarrow> rat" where
  "get_unsettled_total s = sum_list (map (\<lambda>r. case sf_settled (se_fields r) of
       Some a \<Rightarrow> if a \<noteq> 0 then a else (case sf_amount (se_fields r) of Some b \<Rightarrow> b | None \<Rightarrow> 0)
     | None \<Rightarrow> (case sf_amount (se_fields r) of Some b \<Rightarrow> b | None \<Rightarrow> 0))
     (filter (\<lambda>r. \<exists>st\<in>set unsettled_statuses. sf_status (se_fields r) = Some st) (settlements s)))"

section \<open>The webhook endpoint\<close>

text \<open>What a request carries once its body is parsed; \<open>Decimal\<close> may not read the amount.\<close>

record cashfree_delivery =
  cd_type :: "string option"
  cd_event :: payment_event
  cd_amount_ok :: bool
  cd_has_order :: bool
  cd_canonical :: string

datatype response = Acknowledged | HTTPException int

definition resolve_webhook_secret :: "string option \<Rightarrow> string option \<Rightarrow> string" where
  "resolve_webhook_secret client_secret webhook_secret = strip (or_text (text_or webhook_secret client_secret) [])"

definition verify_webhook_signature ::
  "(string \<Rightarrow> string \<Rightarrow> string \<Rightarrow> string) \<Rightarrow> string \<Rightarrow> string option \<Rightarrow> string option \<Rightarrow> string \<Rightarrow> bool" where
  "verify_webhook_signature sign body timestamp signature secret \<longleftrightarrow>
     present timestamp \<and> present signature \<and> secret \<noteq> [] \<and> sign secret (the timestamp) body = the signature"

definition finish_event :: "uuid \<Rightarrow> ('a pay_db_scheme, event_result) attempt \<Rightarrow> 'a pay_db_scheme \<times> response" where
  "finish_event i outcome = (case outcome of
     (s, Inl e) \<Rightarrow> (webhook_update i (\<lambda>r. r\<lparr>we_status := WE_FAILED, we_error := Some (take 1000 (error_message e)),
        we_retries := we_retries r + 1\<rparr>) s, HTTPException 500)
   | (s, Inr res) \<Rightarrow>
       (if er_applied res
        then webhook_update i (\<lambda>r. r\<lparr>we_status := WE_PROCESSED, we_processed := Some (clock s)\<rparr>) s
        else webhook_update i (\<lambda>r. r\<lparr>we_status := WE_IGNORED, we_error := Some (take 1000 (or_text (er_reason res) ''not_applied''))\<rparr>) s,
        Acknowledged))"

text \<open>
  \<open>sign\<close> is the keyed digest, \<open>digest\<close> the plain one and \<open>parse\<close> the JSON parser, which gives nothing for a body
  that is no JSON object. The amount is read after the event was marked and before the handler that marks a failed
  one: an amount \<open>Decimal\<close> refuses leaves the event as it is then.
\<close>

definition receive_cashfree_payment_webhook ::
  "(string \<Rightarrow> string \<Rightarrow> string \<Rightarrow> string) \<Rightarrow> (string \<Rightarrow> string) \<Rightarrow> (string \<Rightarrow> cashfree_delivery option) \<Rightarrow> string option \<Rightarrow> string option
   \<Rightarrow> faults \<Rightarrow> string \<Rightarrow> string option \<Rightarrow> string option \<Rightarrow> 'a pay_db_scheme \<Rightarrow> 'a pay_db_scheme \<times> response" where
  "receive_cashfree_payment_webhook sign digest parse client_secret webhook_secret fault body timestamp signature s =
     (if \<not> verify_webhook_signature sign body timestamp signature (resolve_webhook_secret client_secret webhook_secret)
      then (s, HTTPException 401)
      else case parse body of
        None \<Rightarrow> (s, HTTPException 400)
      | Some d \<Rightarrow>
          let recognized = (\<exists>t\<in>set recognized_webhook_types. cd_type d = Some t)
          in if recognized \<and> \<not> cd_has_order d then (s, HTTPException 400)
             else (case integration_by_code s ''cashfree'' of
               None \<Rightarrow> (s, HTTPException 404)
             | Some integration \<Rightarrow>
                 (case ingest digest (in_id integration) (or_text (cd_type d) ''unknown'') (cd_canonical d)
                         (pe_payment (cd_event d)) (if cd_has_order d then Some (pe_order (cd_event d)) else None) s of
                    Inl e \<Rightarrow> (s, HTTPException (status_code e))
                  | Inr ((i, created), s1) \<Rightarrow>
                      if \<not> created then (s1, Acknowledged)
                      else if \<not> recognized
                      then (webhook_update i (\<lambda>r. r\<lparr>we_status := WE_IGNORED, we_error := Some ''unrecognized_event_type''\<rparr>) s1,
                            Acknowledged)
                      else let s2 = webhook_update i (\<lambda>r. r\<lparr>we_status := WE_PROCESSING\<rparr>) s1
                           in if \<not> cd_amount_ok d then (s2, HTTPException 500)
                              else finish_event i (apply_payment_event fault (cd_event d) s2))))"

end
