(* ===== verification/Payments_Facts.thy ===== *)
theory Payments_Facts
  imports Payments
begin

text \<open>
  Lemmas on online payments: what one event writes, and the runs of events in which the database may fail at
  every commit.
\<close>

section \<open>Frames\<close>

lemma pay_frame [simp]:
  "payments (fresh s) = payments s" "transactions (fresh s) = transactions s" "webhook_events (fresh s) = webhook_events s"
  "payments (audit_record u a t e p n m s) = payments s" "transactions (audit_record u a t e p n m s) = transactions s"
  "payments (order_update i f s) = payments s" "transactions (order_update i f s) = transactions s"
  "payments (event_create i x st d src actor s) = payments s" "transactions (event_create i x st d src actor s) = transactions s"
  "transactions (payment_update i g s) = transactions s" "next_id (payment_update i g s) = next_id s"
  "payments (webhook_update i h s) = payments s" "transactions (webhook_update i h s) = transactions s"
  "next_id (order_update i f s) = next_id s" "next_id (webhook_update i h s) = next_id s"
  "next_id s \<le> next_id (event_create i x st d src actor s)"
  "payments (payment_update i g s) = set_where (\<lambda>r. pay_id r = i) g (payments s)"
  by (simp_all add: fresh_def audit_record_def order_update_def event_create_def payment_update_def webhook_update_def)

lemma apply_order_state_frame [simp]:
  "payments (apply_order_state p st s) = payments s" "transactions (apply_order_state p st s) = transactions s"
  "next_id s \<le> next_id (apply_order_state p st s)"
  by (auto simp: apply_order_state_def Let_def split: option.split)

lemma write_event_keeps [simp]:
  "pay_id (write_event ev st t p) = pay_id p" "pay_amount (write_event ev st t p) = pay_amount p"
  "pay_currency (write_event ev st t p) = pay_currency p" "pay_external (write_event ev st t p) = pay_external p"
  "pay_source (write_event ev st t p) = pay_source p" "pay_order (write_event ev st t p) = pay_order p"
  "pay_status (write_event ev st t p) = st" "pay_provider (write_event ev st t p) = pay_provider p"
  by (simp_all add: write_event_def Let_def)

section \<open>One event\<close>

definition new_payment :: "order \<Rightarrow> string \<Rightarrow> (string \<times> string option) list \<Rightarrow> 'a order_db_scheme \<Rightarrow> payment" where
  "new_payment ord cid metadata s = \<lparr>pay_id = next_id s, pay_order = o_id ord, pay_type = o_payment_type ord,
     pay_status = PAY_PENDING, pay_amount = o_total ord, pay_currency = o_currency ord, pay_provider = Some ''cashfree'',
     pay_transaction = None, pay_source = ''cashfree'', pay_external = Some cid, pay_paid_at = None,
     pay_created = clock s, pay_metadata = metadata\<rparr>"

lemma upsert_new_payment:
  "cashfree_payment s cid = None \<Longrightarrow> upsert_cashfree_payment ord cid m s =
    ((new_payment ord cid m s, True), fresh (s\<lparr>payments := payments s @ [new_payment ord cid m s]\<rparr>))"
  by (simp add: upsert_cashfree_payment_def new_payment_def Let_def)

lemma find_or_create_cases:
  assumes "find_or_create_payment fault ev s = (s1, q)"
  obtains (found) p where "cashfree_payment s (pe_order ev) = Some p" "s1 = s" "q = Inr (Some p)"
  | (unknown) "cashfree_payment s (pe_order ev) = None" "external_order s (pe_order ev) = None" "s1 = s" "q = Inr None"
  | (refused) e where "cashfree_payment s (pe_order ev) = None" "s1 = s" "q = Inl e"
  | (created) ord p m where "cashfree_payment s (pe_order ev) = None" "p = new_payment ord (pe_order ev) m s"
      "s1 = fresh (s\<lparr>payments := payments s @ [p]\<rparr>)" "q = Inr (Some p)"
proof (cases "cashfree_payment s (pe_order ev)")
  case (Some p)
  then have "s1 = s" "q = Inr (Some p)" using assms by (simp_all add: find_or_create_payment_def)
  then show ?thesis by (rule that(1) [OF Some])
next
  case None
  show ?thesis
  proof (cases "external_order s (pe_order ev)")
    case no: None
    then have "s1 = s" "q = Inr None" using assms None by (simp_all add: find_or_create_payment_def)
    then show ?thesis by (rule that(2) [OF None no])
  next
    case (Some ord)
    show ?thesis
    proof (cases "fault ev CREATING_PAYMENT")
      case (Some e)
      then have "s1 = s" "q = Inl e" using assms None \<open>external_order s (pe_order ev) = Some ord\<close>
        by (simp_all add: find_or_create_payment_def)
      then show ?thesis by (rule that(3) [OF None])
    next
      case no: None
      let ?m = "[(''cashfree_order_id'', Some (pe_order ev)), (''created_from'', Some ''webhook'')]"
      have "s1 = fresh (s\<lparr>payments := payments s @ [new_payment ord (pe_order ev) ?m s]\<rparr>)"
          "q = Inr (Some (new_payment ord (pe_order ev) ?m s))"
        using assms None Some no by (simp_all add: find_or_create_payment_def upsert_new_payment)
      then show ?thesis by (rule that(4) [OF None refl])
    qed
  qed
qed

text \<open>What an event asks of the payment it settles.\<close>

definition verified :: "payment_event \<Rightarrow> payment \<Rightarrow> bool" where
  "verified ev p \<longleftrightarrow> pe_amount ev = Some (pay_amount p)
     \<and> (present (pe_currency ev) \<longrightarrow> map upper_char (the (pe_currency ev)) = map upper_char (pay_currency p))"

lemma record_transaction_cases:
  assumes "record_transaction fault ev p st s = (s1, q)"
  obtains (known) "transaction_known (pe_payment ev) s" "s1 = s" "q = Inr False"
  | (refused) e where "\<not> transaction_known (pe_payment ev) s" "s1 = s" "q = Inl e"
  | (recorded) t where "\<not> transaction_known (pe_payment ev) s" "s1 = fresh (s\<lparr>transactions := transactions s @ [t]\<rparr>)"
      "q = Inr True" "tx_external t = pe_payment ev" "tx_gateway t = Some ''cashfree''" "tx_payment t = pay_id p" "tx_status t = st"
proof (cases "transaction_known (pe_payment ev) s")
  case True
  then have "s1 = s" "q = Inr False" using assms by (simp_all add: record_transaction_def)
  then show ?thesis by (rule that(1) [OF True])
next
  case False
  show ?thesis
  proof (cases "fault ev RECORDING_TRANSACTION")
    case (Some e)
    then have "s1 = s" "q = Inl e" using assms False by (simp_all add: record_transaction_def)
    then show ?thesis by (rule that(2) [OF False])
  next
    case None
    let ?t = "\<lparr>tx_id = next_id s, tx_payment = pay_id p, tx_gateway = Some ''cashfree'', tx_external = pe_payment ev,
      tx_status = st, tx_amount = (case pe_amount ev of Some a \<Rightarrow> a | None \<Rightarrow> pay_amount p)\<rparr>"
    have "s1 = fresh (s\<lparr>transactions := transactions s @ [?t]\<rparr>)" "q = Inr True"
      using assms False None by (simp_all add: record_transaction_def)
    then show ?thesis by (rule that(3) [OF False]) simp_all
  qed
qed

text \<open>The outcomes of an event once its payment is found: ignored, or written as far as the database went along.\<close>

lemma settle_event_cases:
  assumes "settle_event fault ev p st s = (s', r)"
  obtains (ignored) s1 q where "record_transaction fault ev p st s = (s1, q)" "s' = s1" "\<And>x. r = Inr x \<Longrightarrow> \<not> er_applied x"
      "q = Inr True \<Longrightarrow> (pay_status p = PAID \<and> st \<noteq> PAID) \<or> isl r"
  | (written) s1 where "record_transaction fault ev p st s = (s1, Inr True)" "pay_status p = PAID \<Longrightarrow> st = PAID" "isl r"
      "s' = payment_update (pay_id p) (write_event ev st (clock s1)) s1"
  | (applied) s1 where "record_transaction fault ev p st s = (s1, Inr True)" "pay_status p = PAID \<Longrightarrow> st = PAID"
      "s' = apply_order_state p st (payment_update (pay_id p) (write_event ev st (clock s1)) s1)"
      "r = Inr \<lparr>er_applied = True, er_reason = None, er_payment = Some (pay_id p), er_status = Some st\<rparr>"
proof -
  obtain s1 q where rec: "record_transaction fault ev p st s = (s1, q)" by fastforce
  show ?thesis
  proof (cases q)
    case (Inl e)
    then have "s' = s1" "r = Inl e" using assms rec by (simp_all add: settle_event_def)
    then show ?thesis using Inl by (intro that(1) [OF rec]) simp_all
  next
    case (Inr c)
    show ?thesis
    proof (cases "(pay_status p = PAID \<and> st \<noteq> PAID) \<or> \<not> c")
      case True
      then have "s' = s1" "\<And>x. r = Inr x \<Longrightarrow> \<not> er_applied x" "c \<Longrightarrow> pay_status p = PAID \<and> st \<noteq> PAID"
        using assms rec Inr by (auto simp: settle_event_def not_applied_def split: if_split_asm)
      then show ?thesis using Inr by (intro that(1) [OF rec]) auto
    next
      case go: False
      then have rec': "record_transaction fault ev p st s = (s1, Inr True)" using rec Inr by simp
      have st: "pay_status p = PAID \<Longrightarrow> st = PAID" using go by blast
      show ?thesis
      proof (cases "fault ev UPDATING_PAYMENT")
        case (Some e)
        then have "s' = s1" "r = Inl e" using assms rec Inr go by (auto simp: settle_event_def)
        then show ?thesis by (intro that(1) [OF rec]) simp_all
      next
        case None
        show ?thesis
        proof (cases "fault ev UPDATING_ORDER")
          case (Some e)
          then have "r = Inl e" "s' = payment_update (pay_id p) (write_event ev st (clock s1)) s1"
            using assms rec Inr go None by (auto simp: settle_event_def Let_def)
          then show ?thesis by (intro that(2) [OF rec' st]) simp_all
        next
          case no: None
          then have "s' = apply_order_state p st (payment_update (pay_id p) (write_event ev st (clock s1)) s1)"
              "r = Inr \<lparr>er_applied = True, er_reason = None, er_payment = Some (pay_id p), er_status = Some st\<rparr>"
            using assms rec Inr go None by (auto simp: settle_event_def Let_def)
          then show ?thesis by (intro that(3) [OF rec' st]) simp_all
        qed
      qed
    qed
  qed
qed

lemma apply_event_settles:
  assumes "find_or_create_payment fault ev s = (s1, Inr (Some p))" and "normalize_payment_status (pe_status ev) = Some st"
    and "st = PAID \<Longrightarrow> verified ev p"
  shows "apply_payment_event fault ev s = settle_event fault ev p st s1"
proof -
  have "\<not> (st = PAID \<and> pe_amount ev \<noteq> Some (pay_amount p))"
    "\<not> (st = PAID \<and> present (pe_currency ev) \<and> map upper_char (the (pe_currency ev)) \<noteq> map upper_char (pay_currency p))"
    using assms(3) unfolding verified_def by blast+
  then show ?thesis using assms(1,2) by (simp only: apply_payment_event_def prod.case sum.case option.case if_False)
qed

lemma apply_event_cases:
  assumes "apply_payment_event fault ev s = (s', r)"
  obtains (idle) s1 q where "find_or_create_payment fault ev s = (s1, q)" "s' = s1" "\<And>x. r = Inr x \<Longrightarrow> \<not> er_applied x"
      "\<And>p st. q = Inr (Some p) \<Longrightarrow> normalize_payment_status (pe_status ev) = Some st \<Longrightarrow> st = PAID \<and> \<not> verified ev p"
  | (settled) s1 p st where "find_or_create_payment fault ev s = (s1, Inr (Some p))"
      "normalize_payment_status (pe_status ev) = Some st" "st = PAID \<Longrightarrow> verified ev p" "settle_event fault ev p st s1 = (s', r)"
proof -
  obtain s1 q where find: "find_or_create_payment fault ev s = (s1, q)" by fastforce
  show ?thesis
  proof (cases "\<exists>p st. q = Inr (Some p) \<and> normalize_payment_status (pe_status ev) = Some st \<and> (st = PAID \<longrightarrow> verified ev p)")
    case True
    then obtain p st where p: "q = Inr (Some p)" "normalize_payment_status (pe_status ev) = Some st" "st = PAID \<longrightarrow> verified ev p"
      by blast
    then have "settle_event fault ev p st s1 = (s', r)"
      using assms find apply_event_settles [of fault ev s s1 p st] by simp
    then show ?thesis using p find by (intro that(2) [of s1 p st]) simp_all
  next
    case False
    have "s' = s1 \<and> (\<forall>x. r = Inr x \<longrightarrow> \<not> er_applied x)"
    proof (cases q)
      case (Inl e)
      then show ?thesis using assms find by (auto simp: apply_payment_event_def)
    next
      case (Inr o1)
      show ?thesis
      proof (cases o1)
        case None
        then show ?thesis using assms find Inr by (auto simp: apply_payment_event_def not_applied_def)
      next
        case (Some p)
        then show ?thesis using assms find Inr False
          by (cases "normalize_payment_status (pe_status ev)")
            (auto simp: apply_payment_event_def not_applied_def verified_def split: if_split_asm)
      qed
    qed
    then show ?thesis using False by (intro that(1) [OF find]) auto
  qed
qed

section \<open>Runs of events\<close>

definition payments_keyed :: "'a order_db_scheme \<Rightarrow> bool" where
  "payments_keyed s \<longleftrightarrow> distinct (map pay_id (payments s)) \<and> (\<forall>p\<in>set (payments s). pay_id p < next_id s)"

text \<open>An event at which the money of a payment was verified.\<close>

definition paid_by :: "payment_event \<Rightarrow> payment \<Rightarrow> bool" where
  "paid_by ev q \<longleftrightarrow> normalize_payment_status (pe_status ev) = Some PAID \<and> verified ev q \<and> pay_external q = Some (pe_order ev)"

lemma list_all2_right: "list_all2 R xs ys \<Longrightarrow> y \<in> set ys \<Longrightarrow> \<exists>x\<in>set xs. R x y"
  by (induction rule: list_all2_induct) auto

lemma list_all2_left: "list_all2 R xs ys \<Longrightarrow> x \<in> set xs \<Longrightarrow> \<exists>y\<in>set ys. R x y"
  by (induction rule: list_all2_induct) auto

text \<open>What an event may do to a payment.\<close>

definition moves :: "payment_event \<Rightarrow> payment \<Rightarrow> payment \<Rightarrow> bool" where
  "moves ev p q \<longleftrightarrow> pay_id q = pay_id p \<and> pay_amount q = pay_amount p \<and> pay_currency q = pay_currency p
     \<and> pay_external q = pay_external p \<and> (pay_status p = PAID \<longrightarrow> pay_status q = PAID)
     \<and> (pay_status q = PAID \<longrightarrow> pay_status p = PAID \<or> paid_by ev q)"

lemma moves_refl [simp]: "moves ev p p"
  by (simp add: moves_def)

lemma cashfree_payment_simps:
  "payments s' = payments s \<Longrightarrow> cashfree_payment s' = cashfree_payment s"
  by (simp add: cashfree_payment_def fun_eq_iff)

lemma cashfree_payment_in:
  "cashfree_payment s cid = Some p \<Longrightarrow> p \<in> set (payments s) \<and> pay_external p = Some cid \<and> pay_source p = ''cashfree''"
  unfolding cashfree_payment_def by_external_def by (drule find_SomeD) simp

lemma cashfree_payment_append:
  assumes "payments s' = payments s @ new"
  shows "cashfree_payment s cid = Some p \<Longrightarrow> cashfree_payment s' cid = Some p"
  using assms by (simp add: cashfree_payment_def by_external_def find_append)

text \<open>The search for the payment of an event.\<close>

lemma find_or_create_rows:
  assumes "find_or_create_payment fault ev s = (s1, q)"
  obtains new where "payments s1 = payments s @ new" "length new \<le> 1" "\<forall>p\<in>set new. pay_status p = PAY_PENDING"
    "transactions s1 = transactions s" "payments_keyed s \<Longrightarrow> payments_keyed s1"
    "\<And>p. q = Inr (Some p) \<Longrightarrow> cashfree_payment s1 (pe_order ev) = Some p"
    "q = Inr None \<Longrightarrow> s1 = s \<and> cashfree_payment s (pe_order ev) = None \<and> external_order s (pe_order ev) = None"
    "\<And>p. cashfree_payment s (pe_order ev) = Some p \<Longrightarrow> q = Inr (Some p) \<and> s1 = s"
  using assms
proof (cases rule: find_or_create_cases)
  case (created ord p m)
  have "cashfree_payment s1 (pe_order ev) = Some p"
    using created by (simp add: cashfree_payment_def by_external_def find_append new_payment_def)
  moreover have "payments_keyed s \<Longrightarrow> payments_keyed s1"
    using created by (auto simp: payments_keyed_def new_payment_def)
  ultimately show ?thesis using created by (intro that [of "[p]"]) (simp_all add: new_payment_def fresh_def)
qed (rule that [of "[]"]; simp)+

lemma set_where_all2: "(\<And>r. r \<in> set rows \<Longrightarrow> P r \<Longrightarrow> R r (f r)) \<Longrightarrow> (\<And>r. R r r) \<Longrightarrow> list_all2 R rows (set_where P f rows)"
  by (induction rows) (auto simp: set_where_def)

lemma record_transaction_frame:
  assumes "record_transaction fault ev p st s = (s1, q)"
  shows "payments s1 = payments s" "next_id s \<le> next_id s1" "set (transactions s) \<subseteq> set (transactions s1)"
    "clock s1 = clock s"
  using assms by (auto elim!: record_transaction_cases simp: fresh_def)

lemma settle_event_rows:
  assumes "settle_event fault ev p st s = (s', r)" and "payments_keyed s" and "p \<in> set (payments s)"
    and "pay_external p = Some (pe_order ev)" and "st = PAID \<Longrightarrow> verified ev p"
    and "normalize_payment_status (pe_status ev) = Some st"
  shows "list_all2 (moves ev) (payments s) (payments s') \<and> payments_keyed s'"
proof -
  have same: "list_all2 (moves ev) (payments s) (payments s)" by (simp add: list_all2_refl)
  have wr: "list_all2 (moves ev) (payments s) (set_where (\<lambda>r. pay_id r = pay_id p) (write_event ev st t) (payments s))"
    if "pay_status p = PAID \<Longrightarrow> st = PAID" for t
  proof (rule set_where_all2)
    fix r assume r: "r \<in> set (payments s)" "pay_id r = pay_id p"
    have "r = p" using assms(2,3) r by (auto simp: payments_keyed_def distinct_map inj_on_def)
    then show "moves ev r (write_event ev st t r)"
      using assms(4-6) that by (auto simp: moves_def paid_by_def verified_def)
  qed simp
  have keyed: "payments_keyed t" if "payments t = set_where (\<lambda>r. pay_id r = pay_id p) (write_event ev st c) (payments s)"
      "next_id s \<le> next_id t" for t :: "'a pay_db_scheme" and c
    unfolding payments_keyed_def
  proof
    have keys: "map pay_id (payments t) = map pay_id (payments s)" by (simp add: that(1) set_where_keys)
    then show "distinct (map pay_id (payments t))" using assms(2) by (simp add: payments_keyed_def)
    have ids: "pay_id ` set (payments t) = pay_id ` set (payments s)" using arg_cong [OF keys, of set] by simp
    show "\<forall>q\<in>set (payments t). pay_id q < next_id t"
    proof
      fix q
      assume "q \<in> set (payments t)"
      then obtain q' where "q' \<in> set (payments s)" "pay_id q' = pay_id q" using ids by (metis imageE imageI)
      then show "pay_id q < next_id t" using assms(2) that(2) unfolding payments_keyed_def by fastforce
    qed
  qed
  from assms(1) show ?thesis
  proof (cases rule: settle_event_cases)
    case (ignored s1 q)
    note f = record_transaction_frame [OF ignored(1)]
    have "payments_keyed s'" using assms(2) f ignored(2) by (force simp: payments_keyed_def)
    then show ?thesis using f same ignored(2) by simp
  next
    case (written s1)
    note f = record_transaction_frame [OF written(1)]
    show ?thesis using f keyed [of s'] wr written(2,4) by simp
  next
    case (applied s1)
    note f = record_transaction_frame [OF applied(1)]
    have "next_id s \<le> next_id s'"
      using f(2) apply_order_state_frame(3) [of "payment_update (pay_id p) (write_event ev st (clock s1)) s1" p st] applied(3) by simp
    then show ?thesis using f keyed [of s'] wr applied(2,3) by simp
  qed
qed

lemma apply_event_rows:
  assumes "apply_payment_event fault ev s = (s', r)" and "payments_keyed s"
  obtains old new where "payments s' = old @ new" "list_all2 (moves ev) (payments s) old"
    "\<forall>q\<in>set new. pay_status q = PAID \<longrightarrow> paid_by ev q" "payments_keyed s'"
proof (rule apply_event_cases [OF assms(1)])
  fix s1 q
  assume idle: "find_or_create_payment fault ev s = (s1, q)" "s' = s1"
  from idle(1) show thesis
  proof (rule find_or_create_rows)
    fix new assume *: "payments s1 = payments s @ new" "\<forall>p\<in>set new. pay_status p = PAY_PENDING" "payments_keyed s \<Longrightarrow> payments_keyed s1"
    then show thesis using idle(2) assms(2) by (intro that [of "payments s" new]) (auto simp: list_all2_refl)
  qed
next
  fix s1 p st
  assume settled: "find_or_create_payment fault ev s = (s1, Inr (Some p))" "normalize_payment_status (pe_status ev) = Some st"
    "st = PAID \<Longrightarrow> verified ev p" "settle_event fault ev p st s1 = (s', r)"
  from settled(1) show thesis
  proof (rule find_or_create_rows)
    fix new assume *: "payments s1 = payments s @ new" "\<forall>p\<in>set new. pay_status p = PAY_PENDING" "payments_keyed s \<Longrightarrow> payments_keyed s1"
      "\<And>p'. Inr (Some p) = (Inr (Some p') :: oms_error + payment option) \<Longrightarrow> cashfree_payment s1 (pe_order ev) = Some p'"
    have p: "p \<in> set (payments s1)" "pay_external p = Some (pe_order ev)" using cashfree_payment_in [OF *(4) [OF refl]] by simp_all
    have "list_all2 (moves ev) (payments s @ new) (payments s')" and k: "payments_keyed s'"
      using settle_event_rows [OF settled(4) *(3) [OF assms(2)] p settled(3) settled(2)] *(1) by simp_all
    then obtain old new' where o: "payments s' = old @ new'" "list_all2 (moves ev) (payments s) old" "list_all2 (moves ev) new new'"
      by (auto simp: list_all2_append1)
    have "pay_status q = PAID \<longrightarrow> paid_by ev q" if "q \<in> set new'" for q
    proof -
      obtain p where "p \<in> set new" "moves ev p q" using list_all2_right [OF o(3) \<open>q \<in> set new'\<close>] by blast
      then show ?thesis using *(2) by (auto simp: moves_def)
    qed
    then show thesis using o k by (intro that [of old new']) simp_all
  qed
qed

fun run_events :: "(faults \<times> payment_event) list \<Rightarrow> 'a pay_db_scheme \<Rightarrow> 'a pay_db_scheme" where
  "run_events [] s = s"
| "run_events ((fault, ev) # evs) s = run_events evs (fst (apply_payment_event fault ev s))"

text \<open>What identifies a payment and its amount.\<close>

definition claim :: "payment \<Rightarrow> uuid \<times> rat \<times> string \<times> string option" where
  "claim p = (pay_id p, pay_amount p, pay_currency p, pay_external p)"

lemma paid_by_claim: "claim p = claim q \<Longrightarrow> paid_by ev p \<longleftrightarrow> paid_by ev q"
  by (simp add: claim_def paid_by_def verified_def)

lemma moves_claim: "moves ev p q \<Longrightarrow> claim q = claim p"
  by (simp add: claim_def moves_def)

lemma run_events_paid:
  assumes "payments_keyed s" and "q \<in> set (payments (run_events evs s))" and "pay_status q = PAID"
  shows "(\<exists>p\<in>set (payments s). claim p = claim q \<and> pay_status p = PAID) \<or> (\<exists>(fault, ev)\<in>set evs. paid_by ev q)"
  using assms
proof (induction evs s rule: run_events.induct)
  case (1 s)
  then show ?case by auto
next
  case (2 fault ev evs s)
  obtain s1 r where a: "apply_payment_event fault ev s = (s1, r)" by fastforce
  obtain old new where rows: "payments s1 = old @ new" "list_all2 (moves ev) (payments s) old"
      "\<forall>q\<in>set new. pay_status q = PAID \<longrightarrow> paid_by ev q" "payments_keyed s1"
    using apply_event_rows [OF a 2(2)] .
  have "(\<exists>p\<in>set (payments s1). claim p = claim q \<and> pay_status p = PAID) \<or> (\<exists>(fault, ev)\<in>set evs. paid_by ev q)"
    using 2 a rows(4) by simp
  then consider (before) p where "p \<in> set (payments s1)" "claim p = claim q" "pay_status p = PAID"
    | (later) "\<exists>(fault, ev)\<in>set evs. paid_by ev q" by blast
  then show ?case
  proof cases
    case before
    show ?thesis
    proof (cases "p \<in> set old")
      case True
      then obtain p0 where "p0 \<in> set (payments s)" "moves ev p0 p" using rows(2) by (auto dest: list_all2_right)
      then show ?thesis using before paid_by_claim [OF before(2)] moves_claim [of ev p0 p] by (auto simp: moves_def)
    next
      case False
      then have "paid_by ev q" using before rows(1,3) paid_by_claim [OF before(2)] by auto
      then show ?thesis by auto
    qed
  qed auto
qed

lemma run_events_sticky:
  assumes "payments_keyed s" and "p \<in> set (payments s)" and "pay_status p = PAID"
  shows "\<exists>q\<in>set (payments (run_events evs s)). claim q = claim p \<and> pay_status q = PAID"
  using assms
proof (induction evs s arbitrary: p rule: run_events.induct)
  case (1 s)
  then show ?case by auto
next
  case (2 fault ev evs s)
  obtain s1 r where a: "apply_payment_event fault ev s = (s1, r)" by fastforce
  obtain old new where rows: "payments s1 = old @ new" "list_all2 (moves ev) (payments s) old" "payments_keyed s1"
    using apply_event_rows [OF a 2(2)] .
  then obtain q where "q \<in> set (payments s1)" "moves ev p q" using 2(3) by (auto dest: list_all2_left)
  then show ?case using 2(1) [of q] 2(4) a rows(3) moves_claim [of ev p q] by (auto simp: moves_def)
qed

section \<open>An event that was seen before\<close>

lemma transaction_known_mono:
  "set (transactions s) \<subseteq> set (transactions s') \<Longrightarrow> transaction_known x s \<Longrightarrow> transaction_known x s'"
  by (auto simp: transaction_known_def)

text \<open>Once its id is recorded, an event does not touch a payment.\<close>

lemma known_not_settled:
  assumes "transaction_known (pe_payment ev) s" and "settle_event fault ev p st s = (s', r)"
  shows "s' = s" "r = Inr res \<Longrightarrow> \<not> er_applied res"
  using assms by (auto simp: settle_event_def record_transaction_def not_applied_def split: if_split_asm)

lemma known_event_rows:
  assumes "transaction_known (pe_payment ev) s" and "apply_payment_event fault ev s = (s', r)"
  obtains new where "payments s' = payments s @ new" "\<forall>p\<in>set new. pay_status p = PAY_PENDING"
    "transactions s' = transactions s"
proof (rule apply_event_cases [OF assms(2)])
  fix s1 q
  assume idle: "find_or_create_payment fault ev s = (s1, q)" "s' = s1"
  from idle(1) show thesis by (rule find_or_create_rows) (auto simp: idle(2) intro: that)
next
  fix s1 p st
  assume settled: "find_or_create_payment fault ev s = (s1, Inr (Some p))" "settle_event fault ev p st s1 = (s', r)"
  from settled(1) show thesis
  proof (rule find_or_create_rows)
    fix new
    assume *: "payments s1 = payments s @ new" "\<forall>p\<in>set new. pay_status p = PAY_PENDING" "transactions s1 = transactions s"
    then have "s' = s1" using known_not_settled(1) [OF _ settled(2)] assms(1) by (simp add: transaction_known_def)
    with * show thesis by (intro that) simp_all
  qed
qed

lemma known_event_noop:
  assumes "transaction_known (pe_payment ev) s" and "cashfree_payment s (pe_order ev) = Some p"
  shows "\<exists>res. apply_payment_event fault ev s = (s, Inr res) \<and> \<not> er_applied res"
  using assms by (auto simp: apply_payment_event_def find_or_create_payment_def settle_event_def record_transaction_def
      not_applied_def split: option.split)

lemma known_events_run:
  assumes "\<forall>(fault, ev)\<in>set evs. transaction_known (pe_payment ev) s"
  shows "\<exists>new. payments (run_events evs s) = payments s @ new \<and> (\<forall>p\<in>set new. pay_status p = PAY_PENDING)"
  using assms
proof (induction evs s rule: run_events.induct)
  case (2 fault ev evs s)
  obtain s1 r where a: "apply_payment_event fault ev s = (s1, r)" by fastforce
  have "transaction_known (pe_payment ev) s" using 2(2) by simp
  from known_event_rows [OF this a] obtain new where new: "payments s1 = payments s @ new"
    "\<forall>p\<in>set new. pay_status p = PAY_PENDING" "transactions s1 = transactions s" .
  have "\<forall>(fault, ev)\<in>set evs. transaction_known (pe_payment ev) s1"
    using 2(2) new(3) by (auto simp: transaction_known_def)
  with 2(1) a obtain more_new where "payments (run_events evs s1) = payments s1 @ more_new" "\<forall>p\<in>set more_new. pay_status p = PAY_PENDING"
    by auto
  with new a show ?case by (intro exI [of _ "new @ more_new"]) auto
qed simp

lemma settle_event_keys:
  assumes "settle_event fault ev p st s = (s', r)"
  shows "map (\<lambda>p. (pay_source p, pay_external p)) (payments s') = map (\<lambda>p. (pay_source p, pay_external p)) (payments s)"
  using assms
proof (cases rule: settle_event_cases)
  case (ignored s1 q)
  then show ?thesis using record_transaction_frame [OF ignored(1)] by simp
next
  case (written s1)
  then show ?thesis using record_transaction_frame [OF written(1)] by (simp add: set_where_def)
next
  case (applied s1)
  then show ?thesis using record_transaction_frame [OF applied(1)] by (simp add: set_where_def)
qed

lemma cashfree_payment_exists:
  "cashfree_payment s cid \<noteq> None \<longleftrightarrow> (''cashfree'', Some cid) \<in> set (map (\<lambda>p. (pay_source p, pay_external p)) (payments s))"
  unfolding cashfree_payment_def by_external_def by (force simp: find_None_iff image_iff)

text \<open>A transaction is recorded before anything else is written.\<close>

lemma settle_event_records:
  assumes "settle_event fault ev p st s = (s', r)" and "pe_payment ev \<noteq> None" and "\<not> isl r \<or> fault ev RECORDING_TRANSACTION = None"
  shows "transaction_known (pe_payment ev) s'"
proof -
  obtain s1 q where rec: "record_transaction fault ev p st s = (s1, q)" by fastforce
  have q: "\<not> isl q"
  proof
    assume "isl q"
    then obtain e where e: "q = Inl e" by (cases q) auto
    then have "fault ev RECORDING_TRANSACTION \<noteq> None"
      using rec by (auto simp: record_transaction_def split: if_split_asm option.split_asm)
    moreover have "isl r" using assms(1) rec e by (auto simp: settle_event_def)
    ultimately show False using assms(3) by simp
  qed
  have "transaction_known (pe_payment ev) s1"
    using rec q assms(2) by (cases rule: record_transaction_cases) (auto simp: transaction_known_def)
  moreover have "transactions s' = transactions s1"
    using assms(1) by (cases rule: settle_event_cases) (auto simp: rec)
  ultimately show ?thesis by (simp add: transaction_known_def)
qed

section \<open>What an event leaves alone\<close>

lemma hook_frame [simp]:
  "webhook_events (order_update i f s) = webhook_events s" "integrations (order_update i f s) = integrations s"
  "webhook_events (event_create i x st d src actor s) = webhook_events s"
  "integrations (event_create i x st d src actor s) = integrations s"
  "webhook_events (payment_update i g s) = webhook_events s" "integrations (payment_update i g s) = integrations s"
  "integrations (fresh s) = integrations s" "integrations (webhook_update i h s) = integrations s"
  by (simp_all add: order_update_def event_create_def payment_update_def webhook_update_def fresh_def)

lemma apply_order_state_hooks [simp]:
  "webhook_events (apply_order_state p st s) = webhook_events s" "integrations (apply_order_state p st s) = integrations s"
  by (auto simp: apply_order_state_def Let_def split: option.split)

lemma upsert_cashfree_hooks:
  "upsert_cashfree_payment ord cid m s = (x, s') \<Longrightarrow> webhook_events s' = webhook_events s \<and> integrations s' = integrations s"
  by (auto simp: upsert_cashfree_payment_def Let_def fresh_def split: option.split_asm)

lemma find_or_create_hooks:
  "find_or_create_payment fault ev s = (s1, q) \<Longrightarrow> webhook_events s1 = webhook_events s \<and> integrations s1 = integrations s"
  by (elim find_or_create_cases) (auto simp: fresh_def)

lemma record_transaction_hooks:
  "record_transaction fault ev p st s = (s1, q) \<Longrightarrow> webhook_events s1 = webhook_events s \<and> integrations s1 = integrations s"
  by (elim record_transaction_cases) (auto simp: fresh_def)

lemma settle_event_hooks:
  assumes "settle_event fault ev p st s = (s', r)"
  shows "webhook_events s' = webhook_events s \<and> integrations s' = integrations s"
  using assms
proof (cases rule: settle_event_cases)
  case (ignored s1 q)
  then show ?thesis using record_transaction_hooks [OF ignored(1)] by simp
next
  case (written s1)
  then show ?thesis using record_transaction_hooks [OF written(1)] by simp
next
  case (applied s1)
  then show ?thesis using record_transaction_hooks [OF applied(1)] by simp
qed

lemma apply_event_hooks:
  assumes "apply_payment_event fault ev s = (s', r)"
  shows "webhook_events s' = webhook_events s \<and> integrations s' = integrations s"
  by (rule apply_event_cases [OF assms]) (auto dest!: find_or_create_hooks settle_event_hooks)

lemma webhook_external_update:
  assumes "webhook_by_external s iid ext = Some r" and "\<And>r. we_integration (f r) = we_integration r" "\<And>r. we_external (f r) = we_external r"
  shows "\<exists>r'. webhook_by_external (webhook_update i f s) iid ext = Some r'"
proof -
  have "find Q (map g rows) = map_option g (find Q rows)" if "\<And>r. Q (g r) = Q r" for Q g and rows :: "webhook_event list"
    using that by (induction rows) auto
  then show ?thesis using assms by (simp add: webhook_by_external_def webhook_update_def set_where_def)
qed

lemma webhook_external_simps:
  "webhook_events s' = webhook_events s \<Longrightarrow> webhook_by_external s' iid ext = webhook_by_external s iid ext"
  by (simp add: webhook_by_external_def)

text \<open>The key of a delivery.\<close>

definition event_key :: "(string \<Rightarrow> string) \<Rightarrow> integration \<Rightarrow> string \<Rightarrow> string \<Rightarrow> string option \<Rightarrow> string" where
  "event_key digest integration event_type canonical external =
     (if present external then the external else compute_fallback_event_id digest (in_code integration) event_type canonical)"

lemma ingest_cases:
  assumes "ingest digest iid event_type canonical external resource s = Inr ((i, created), s1)"
  obtains (old) n r where "integration_by s iid = Some n" "s1 = s" "\<not> created"
      "webhook_by_external s iid (event_key digest n event_type canonical external) = Some r" "i = we_id r"
  | (new) n r where "integration_by s iid = Some n" "created" "s1 = fresh (s\<lparr>webhook_events := webhook_events s @ [r]\<rparr>)"
      "we_integration r = iid" "we_external r = event_key digest n event_type canonical external" "i = next_id s" "we_id r = i"
      "we_status r = WE_RECEIVED" "webhook_by_external s iid (event_key digest n event_type canonical external) = None"
proof -
  from assms obtain n where n: "integration_by s iid = Some n" by (auto simp: ingest_def bindR_Inr_iff)
  let ?k = "event_key digest n event_type canonical external"
  have body: "(case webhook_by_external s iid ?k of Some r \<Rightarrow> Inr ((we_id r, False), s)
      | None \<Rightarrow> Inr ((next_id s, True), fresh (s\<lparr>webhook_events := webhook_events s @
            [\<lparr>we_id = next_id s, we_integration = iid, we_type = event_type, we_external = ?k,
              we_resource = resource, we_received = clock s, we_processed = None, we_status = WE_RECEIVED,
              we_retries = 0, we_error = None\<rparr>]\<rparr>))) = (Inr ((i, created), s1) :: _ result)"
    using assms n by (simp only: ingest_def event_key_def [symmetric] Let_def require_some_simps bindR_simps)
  show thesis
  proof (cases "webhook_by_external s iid ?k")
    case None
    then show thesis using body n by (intro that(2) [OF n]) auto
  next
    case (Some r)
    then show thesis using body by (intro that(1) [OF n _ _ Some]) auto
  qed
qed

text \<open>A delivery whose key is known adds nothing.\<close>

lemma ingest_known:
  assumes "integration_by s iid = Some n" and "webhook_by_external s iid (event_key digest n event_type canonical external) = Some r"
  shows "ingest digest iid event_type canonical external resource s = Inr ((we_id r, False), s)"
  using assms by (simp add: ingest_def event_key_def)

end
