(* ===== verification/Payments_Props.thy ===== *)
theory Payments_Props
  imports Payments_Facts Returns_Props
begin

text \<open>
  Properties of online payments, with witnesses on \<open>demo_pay\<close>: a pending order 7, number \<open>#AW7\<close>, of 100 rupees
  that nobody has paid.
\<close>

definition demo_pay :: pay_db where
  "demo_pay = returns_db.extend (demo_returns\<lparr>orders := [demo_order 7 ''#AW7'' PENDING]\<rparr>)
     \<lparr>integrations = [\<lparr>in_id = 60, in_code = ''cashfree'', in_status = CONNECTED_STATUS, in_cursors = [], in_backlog = [],
        in_last_sync = None, in_last_success = None, in_last_failure = None\<rparr>], webhook_events = [],
      transactions = [], settlements = []\<rparr>"

definition demo_pay_event :: "string \<Rightarrow> payment_event" where
  "demo_pay_event status = \<lparr>pe_order = ''AW7'', pe_payment = Some ''cf1'', pe_status = Some status, pe_amount = Some 100,
     pe_currency = Some ''INR'', pe_method = Some ''upi'', pe_paid_at = Some 990\<rparr>"

definition no_faults :: faults where
  "no_faults = (\<lambda>_ _. None)"

text \<open>The database refuses one commit.\<close>

definition fault_at :: "commit_point \<Rightarrow> faults" where
  "fault_at c = (\<lambda>_ c'. if c' = c then Some (DataError ''connection lost'') else None)"

lemma demo_pay_simps [simp]: "payments demo_pay = []" "transactions demo_pay = []" "next_id demo_pay = 100"
  by (simp_all add: demo_pay_def returns_db.defs demo_returns_def shipping_db.defs demo_ship_def)

lemma demo_pay_keyed [simp]: "payments_keyed demo_pay"
  by (simp add: payments_keyed_def)

section \<open>Events\<close>

text \<open>
  C19: however the events of a payment arrive and wherever the database fails in between, a payment is paid only
  if it was before or an event of its Cashfree order reported success with its exact amount and no other
  currency (an event that names no currency is accepted); a payment that is paid stays paid.
\<close>

theorem paid_only_verified:
  assumes "payments_keyed s" and "s' = run_events evs s"
  shows "(\<forall>q\<in>set (payments s'). pay_status q = PAID \<longrightarrow>
        (\<exists>p\<in>set (payments s). claim p = claim q \<and> pay_status p = PAID) \<or> (\<exists>(fault, ev)\<in>set evs. paid_by ev q))
    \<and> (\<forall>p\<in>set (payments s). pay_status p = PAID \<longrightarrow> (\<exists>q\<in>set (payments s'). claim q = claim p \<and> pay_status q = PAID))"
  using assms run_events_paid [of s _ evs] run_events_sticky [of s _ evs] by blast

theorem paid_only_verified_witness:
  "\<exists>q\<in>set (payments (run_events [(no_faults, demo_pay_event ''SUCCESS'')] demo_pay)). pay_status q = PAID
     \<and> paid_by (demo_pay_event ''SUCCESS'') q"
proof -
  have "\<exists>q\<in>set (payments (run_events [(no_faults, demo_pay_event ''SUCCESS'')] demo_pay)). pay_status q = PAID" by code_simp
  with paid_only_verified [OF demo_pay_keyed refl, of "[(no_faults, demo_pay_event ''SUCCESS'')]"] show ?thesis by auto
qed

text \<open>
  C20: an event with a payment id that was handled, whatever came of it, is not applied when it comes again: the
  database stays as it is, whatever fails.
\<close>

theorem event_idempotent:
  assumes "apply_payment_event fault ev s = (s', Inr res)" and "pe_payment ev \<noteq> None"
  shows "\<exists>res'. apply_payment_event fault' ev s' = (s', Inr res') \<and> \<not> er_applied res'"
proof (rule apply_event_cases [OF assms(1)])
  fix s1 q
  assume idle: "find_or_create_payment fault ev s = (s1, q)" "s' = s1"
    "\<And>p st. q = Inr (Some p) \<Longrightarrow> normalize_payment_status (pe_status ev) = Some st \<Longrightarrow> st = PAID \<and> \<not> verified ev p"
  have "\<not> isl q" using assms(1) idle(1) by (cases q) (simp_all add: apply_payment_event_def)
  from idle(1) show ?thesis
  proof (rule find_or_create_rows)
    assume *: "\<And>p. q = Inr (Some p) \<Longrightarrow> cashfree_payment s1 (pe_order ev) = Some p"
      "q = Inr None \<Longrightarrow> s1 = s \<and> cashfree_payment s (pe_order ev) = None \<and> external_order s (pe_order ev) = None"
    show ?thesis
    proof (cases "q = Inr None")
      case True
      then show ?thesis using *(2) idle(2) by (simp add: apply_payment_event_def find_or_create_payment_def not_applied_def)
    next
      case False
      then obtain p where q: "q = Inr (Some p)" using \<open>\<not> isl q\<close> by (cases q) auto
      have again: "find_or_create_payment fault' ev s' = (s', Inr (Some p))"
        using *(1) [OF q] idle(2) by (simp add: find_or_create_payment_def)
      show ?thesis
      proof (cases "normalize_payment_status (pe_status ev)")
        case None
        then show ?thesis using again by (simp add: apply_payment_event_def not_applied_def)
      next
        case (Some st)
        then have "st = PAID" "\<not> verified ev p" using idle(3) [OF q] by blast+
        then show ?thesis using again Some by (simp add: apply_payment_event_def not_applied_def verified_def)
      qed
    qed
  qed
next
  fix s1 p st
  assume settled: "find_or_create_payment fault ev s = (s1, Inr (Some p))" "settle_event fault ev p st s1 = (s', Inr res)"
  have "cashfree_payment s1 (pe_order ev) \<noteq> None" using settled(1) by (rule find_or_create_rows) simp
  then have "cashfree_payment s' (pe_order ev) \<noteq> None"
    unfolding cashfree_payment_exists settle_event_keys [OF settled(2)] .
  moreover have "transaction_known (pe_payment ev) s'" using settle_event_records [OF settled(2) assms(2)] by simp
  ultimately show ?thesis using known_event_noop [of ev s' _ fault'] by blast
qed

theorem event_idempotent_witness:
  "\<exists>s' res res'. apply_payment_event no_faults (demo_pay_event ''SUCCESS'') demo_pay = (s', Inr res) \<and> er_applied res
     \<and> apply_payment_event no_faults (demo_pay_event ''SUCCESS'') s' = (s', Inr res') \<and> \<not> er_applied res'"
proof -
  have "case apply_payment_event no_faults (demo_pay_event ''SUCCESS'') demo_pay of (s', Inl _) \<Rightarrow> False | (s', Inr res) \<Rightarrow> er_applied res"
    by code_simp
  then obtain s' res where a: "apply_payment_event no_faults (demo_pay_event ''SUCCESS'') demo_pay = (s', Inr res)" "er_applied res"
    by (auto split: prod.split_asm sum.split_asm)
  from event_idempotent [OF a(1), of no_faults] a show ?thesis by (auto simp: demo_pay_event_def)
qed

text \<open>
  C21: a payment whose transaction id was recorded without paying it is lost. After an event that is only pending
  (\<open>NOT_ATTEMPTED\<close> in a reconciliation, say), or a success whose update of the payment the database refused, no
  later event with that id, success or not, ever makes the payment paid, whatever the order in which they come.
\<close>

theorem recorded_id_never_pays:
  assumes "apply_payment_event fault ev s = (s', r)" and "payments_keyed s" and "pe_payment ev = Some x"
    and "cashfree_payment s (pe_order ev) = Some p" and "pay_status p \<noteq> PAID"
    and "normalize_payment_status (pe_status ev) = Some st" and "st = PAID \<Longrightarrow> verified ev p"
    and "st \<noteq> PAID \<or> fault ev UPDATING_PAYMENT \<noteq> None" and "fault ev RECORDING_TRANSACTION = None"
    and "\<forall>(fault, ev)\<in>set evs. pe_payment ev = Some x"
  shows "\<exists>q\<in>set (payments (run_events evs s')). claim q = claim p \<and> pay_status q \<noteq> PAID"
proof -
  have "settle_event fault ev p st s = (s', r)"
    using assms(1,4,6,7) apply_event_settles [of fault ev s s p st] by (simp add: find_or_create_payment_def)
  note settled = this
  have "transaction_known (Some x) s'" using settle_event_records [OF settled] assms(3,9) by simp
  then have "\<forall>(fault, ev)\<in>set evs. transaction_known (pe_payment ev) s'" using assms(10) by fastforce
  then obtain new where run: "payments (run_events evs s') = payments s' @ new" using known_events_run by blast
  have p: "p \<in> set (payments s)" using cashfree_payment_in [OF assms(4)] by simp
  obtain old new' where rows: "payments s' = old @ new'" "list_all2 (moves ev) (payments s) old"
    using apply_event_rows [OF assms(1,2)] .
  have "\<exists>q\<in>set (payments s'). claim q = claim p \<and> pay_status q \<noteq> PAID"
  proof (cases "st = PAID")
    case True
    then obtain e where e: "fault ev UPDATING_PAYMENT = Some e" using assms(8) by blast
    obtain s1 q where rec: "record_transaction fault ev p st s = (s1, q)" by fastforce
    have "s' = s1" using settled rec e by (auto simp: settle_event_def split: sum.split_asm if_split_asm)
    then show ?thesis using p assms(5) record_transaction_frame(1) [OF rec] by auto
  next
    case False
    have stays: "\<exists>q\<in>set (payments s'). claim q = claim p \<and> pay_status q \<noteq> PAID"
      if "payments s' = set_where (\<lambda>r. pay_id r = pay_id p) (write_event ev st t) (payments s)" for t
      using that p False by (intro bexI [of _ "write_event ev st t p"]) (force simp: set_where_def claim_def)+
    from settled show ?thesis
    proof (cases rule: settle_event_cases)
      case (ignored s1 q)
      then show ?thesis using p assms(5) record_transaction_frame(1) [OF ignored(1)] by auto
    next
      case (written s1)
      then show ?thesis using stays [of "clock s1"] record_transaction_frame(1) [OF written(1)] by simp
    next
      case (applied s1)
      then show ?thesis using stays [of "clock s1"] record_transaction_frame(1) [OF applied(1)] by simp
    qed
  qed
  then show ?thesis using run by auto
qed

definition demo_checkout :: pay_db where
  "demo_checkout = demo_pay\<lparr>payments := [new_payment (demo_order 7 ''#AW7'' PENDING) ''AW7'' [] demo_pay], next_id := 101\<rparr>"

theorem recorded_id_never_pays_witness:
  "\<exists>s' r q. apply_payment_event no_faults (demo_pay_event ''NOT_ATTEMPTED'') demo_checkout = (s', r)
     \<and> q \<in> set (payments (run_events [(no_faults, demo_pay_event ''SUCCESS''), (no_faults, demo_pay_event ''SUCCESS'')] s'))
     \<and> pay_amount q = 100 \<and> pay_status q \<noteq> PAID"
proof -
  obtain s' r where a: "apply_payment_event no_faults (demo_pay_event ''NOT_ATTEMPTED'') demo_checkout = (s', r)" by fastforce
  let ?p = "new_payment (demo_order 7 ''#AW7'' PENDING) ''AW7'' [] demo_pay"
  have c: "cashfree_payment demo_checkout (pe_order (demo_pay_event ''NOT_ATTEMPTED'')) = Some ?p"
    by (simp add: cashfree_payment_def by_external_def demo_checkout_def demo_pay_event_def new_payment_def)
  have k: "payments_keyed demo_checkout" by (simp add: payments_keyed_def demo_checkout_def new_payment_def)
  have n: "normalize_payment_status (pe_status (demo_pay_event ''NOT_ATTEMPTED'')) = Some PAY_PENDING" by code_simp
  have "\<exists>q\<in>set (payments (run_events [(no_faults, demo_pay_event ''SUCCESS''), (no_faults, demo_pay_event ''SUCCESS'')] s')).
      claim q = claim ?p \<and> pay_status q \<noteq> PAID"
    by (rule recorded_id_never_pays [OF a k, where x = "''cf1''" and p = "?p" and st = PAY_PENDING])
      (use c n in \<open>simp_all add: demo_pay_event_def new_payment_def no_faults_def\<close>)
  with a show ?thesis by (auto simp: claim_def new_payment_def demo_order_def)
qed

section \<open>Deliveries\<close>

text \<open>
  How a delivery ends in an internal error: its event is on record, as failed (with whatever the handler had
  committed) or, when its amount could not be read, as being processed.
\<close>

lemma receive_500:
  assumes "receive_cashfree_payment_webhook sign digest parse client_secret webhook_secret fault body timestamp signature s
    = (s', HTTPException 500)"
  obtains d n s1 where "parse body = Some d" "integration_by_code s ''cashfree'' = Some n"
    "\<exists>t\<in>set recognized_webhook_types. cd_type d = Some t" "cd_has_order d"
    "ingest digest (in_id n) (or_text (cd_type d) ''unknown'') (cd_canonical d) (pe_payment (cd_event d))
       (if cd_has_order d then Some (pe_order (cd_event d)) else None) s = Inr ((next_id s, True), s1)"
    "integrations s' = integrations s1"
    "\<And>i k r. webhook_by_external s1 i k = Some r \<Longrightarrow> \<exists>r'. webhook_by_external s' i k = Some r'"
proof -
  note recv = assms [unfolded receive_cashfree_payment_webhook_def Let_def]
  have "verify_webhook_signature sign body timestamp signature (resolve_webhook_secret client_secret webhook_secret)"
    using recv by (auto split: if_split_asm)
  then obtain d where d: "parse body = Some d" "(\<exists>t\<in>set recognized_webhook_types. cd_type d = Some t) \<longrightarrow> cd_has_order d"
    using recv by (cases "parse body") (auto split: if_split_asm)
  then obtain n where n: "integration_by_code s ''cashfree'' = Some n"
    using recv \<open>verify_webhook_signature _ _ _ _ _\<close> by (cases "integration_by_code s ''cashfree''") (simp_all split: if_split_asm)
  let ?in = "ingest digest (in_id n) (or_text (cd_type d) ''unknown'') (cd_canonical d) (pe_payment (cd_event d))
       (if cd_has_order d then Some (pe_order (cd_event d)) else None) s"
  obtain i created s1 where ing: "?in = Inr ((i, created), s1)"
  proof (cases ?in)
    case (Inl e)
    then have "status_code e \<noteq> 500" by (auto simp: ingest_def bindR_Inl_iff Let_def split: option.split_asm)
    then show thesis using recv Inl d n \<open>verify_webhook_signature _ _ _ _ _\<close> by (simp split: if_split_asm)
  next
    case (Inr x)
    then show thesis using that by (cases x) auto
  qed
  have c: created "\<exists>t\<in>set recognized_webhook_types. cd_type d = Some t"
    using recv d n ing \<open>verify_webhook_signature _ _ _ _ _\<close> by (simp_all split: if_split_asm)
  from ing have i: "i = next_id s" by (rule ingest_cases) (use c in auto)
  let ?s2 = "webhook_update i (\<lambda>r. r\<lparr>we_status := WE_PROCESSING\<rparr>) s1"
  have fin: "(if \<not> cd_amount_ok d then (?s2, HTTPException 500) else finish_event i (apply_payment_event fault (cd_event d) ?s2))
      = (s', HTTPException 500)"
    using recv d n ing c \<open>verify_webhook_signature _ _ _ _ _\<close> by (simp split: if_split_asm)
  have known: "\<exists>r'. webhook_by_external ?s2 j k = Some r'" if "webhook_by_external s1 j k = Some r" for j k r
    using that by (rule webhook_external_update) simp_all
  have "integrations s' = integrations s1
    \<and> (\<forall>j k r. webhook_by_external s1 j k = Some r \<longrightarrow> (\<exists>r'. webhook_by_external s' j k = Some r'))"
  proof (cases "cd_amount_ok d")
    case False
    then show ?thesis using fin known by auto
  next
    case True
    obtain s3 o1 where a: "apply_payment_event fault (cd_event d) ?s2 = (s3, o1)" by fastforce
    with fin True obtain e where "o1 = Inl e" by (cases o1) (auto simp: finish_event_def split: if_split_asm)
    with fin True a have s': "s' = webhook_update i (\<lambda>r. r\<lparr>we_status := WE_FAILED, we_error := Some (take 1000 (error_message e)),
       we_retries := we_retries r + 1\<rparr>) s3" by (simp add: finish_event_def)
    note hooks = apply_event_hooks [OF a]
    have "\<exists>r'. webhook_by_external s' j k = Some r'" if w: "webhook_by_external s1 j k = Some r" for j k r
    proof -
      obtain r2 where "webhook_by_external s3 j k = Some r2"
        using known [OF w] webhook_external_simps [of s3 ?s2] hooks by auto
      then show ?thesis unfolding s' by (rule webhook_external_update) simp_all
    qed
    then show ?thesis using hooks s' by simp
  qed
  then show thesis using that [OF d(1) n c(2)] c d(2) ing i by auto
qed

text \<open>
  C22: when applying a payment event fails, or its amount cannot be read, the endpoint answers 500, which asks
  Cashfree to deliver it again; every later delivery of the same body is then acknowledged at the door, before
  anything is applied, and leaves the database as it is. The retry the answer asks for never happens.
\<close>

theorem failed_delivery_never_retried:
  assumes "receive_cashfree_payment_webhook sign digest parse client_secret webhook_secret fault body timestamp signature s
    = (s', HTTPException 500)"
    and "verify_webhook_signature sign body timestamp' signature' (resolve_webhook_secret client_secret webhook_secret)"
  shows "receive_cashfree_payment_webhook sign digest parse client_secret webhook_secret fault' body timestamp' signature' s'
    = (s', Acknowledged)"
proof (rule receive_500 [OF assms(1)])
  fix d n s1
  assume d: "parse body = Some d" "integration_by_code s ''cashfree'' = Some n"
    "\<exists>t\<in>set recognized_webhook_types. cd_type d = Some t" "cd_has_order d"
    "ingest digest (in_id n) (or_text (cd_type d) ''unknown'') (cd_canonical d) (pe_payment (cd_event d))
       (if cd_has_order d then Some (pe_order (cd_event d)) else None) s = Inr ((next_id s, True), s1)"
    and kept: "integrations s' = integrations s1"
      "\<And>i k r. webhook_by_external s1 i k = Some r \<Longrightarrow> \<exists>r'. webhook_by_external s' i k = Some r'"
  from d(5) obtain m where m: "integration_by s (in_id n) = Some m"
    "\<exists>r. webhook_by_external s1 (in_id n) (event_key digest m (or_text (cd_type d) ''unknown'') (cd_canonical d) (pe_payment (cd_event d))) = Some r"
    "integrations s1 = integrations s"
    by (rule ingest_cases) (auto simp: webhook_by_external_def find_append fresh_def)
  then obtain r where r: "webhook_by_external s' (in_id n)
      (event_key digest m (or_text (cd_type d) ''unknown'') (cd_canonical d) (pe_payment (cd_event d))) = Some r"
    using kept(2) by blast
  have found: "integration_by_code s' ''cashfree'' = Some n" "integration_by s' (in_id n) = Some m"
    using d(2) m(1,3) kept(1) by (simp_all add: integration_by_code_def integration_by_def)
  show ?thesis
    using assms(2) d(1,3,4) found ingest_known [OF found(2) r]
    by (simp add: receive_cashfree_payment_webhook_def)
qed

definition demo_parse :: "string \<Rightarrow> cashfree_delivery option" where
  "demo_parse body = Some \<lparr>cd_type = Some ''PAYMENT_SUCCESS_WEBHOOK'', cd_event = demo_pay_event ''SUCCESS'', cd_amount_ok = True,
     cd_has_order = True, cd_canonical = body\<rparr>"

definition demo_sign :: "string \<Rightarrow> string \<Rightarrow> string \<Rightarrow> string" where
  "demo_sign secret timestamp body = secret @ timestamp @ body"

theorem failed_delivery_never_retried_witness:
  "\<exists>s'. receive_cashfree_payment_webhook demo_sign id demo_parse (Some ''k'') None (fault_at UPDATING_PAYMENT) ''b'' (Some ''1'') (Some ''k1b'')
       demo_pay = (s', HTTPException 500)
     \<and> map pay_status (payments s') = [PAY_PENDING]
     \<and> receive_cashfree_payment_webhook demo_sign id demo_parse (Some ''k'') None no_faults ''b'' (Some ''2'') (Some ''k2b'') s'
       = (s', Acknowledged)"
proof -
  have "case receive_cashfree_payment_webhook demo_sign id demo_parse (Some ''k'') None (fault_at UPDATING_PAYMENT) ''b'' (Some ''1'')
      (Some ''k1b'') demo_pay of (s', r) \<Rightarrow> r = HTTPException 500 \<and> map pay_status (payments s') = [PAY_PENDING]" by code_simp
  then obtain s' where a: "receive_cashfree_payment_webhook demo_sign id demo_parse (Some ''k'') None (fault_at UPDATING_PAYMENT) ''b''
      (Some ''1'') (Some ''k1b'') demo_pay = (s', HTTPException 500)" "map pay_status (payments s') = [PAY_PENDING]"
    by (auto split: prod.split_asm)
  have v: "verify_webhook_signature demo_sign ''b'' (Some ''2'') (Some ''k2b'') (resolve_webhook_secret (Some ''k'') None)"
    by (simp add: verify_webhook_signature_def resolve_webhook_secret_def or_text_def text_or_def strip_def is_space_def demo_sign_def)
  show ?thesis
    by (intro exI conjI) (rule a(1), rule a(2), rule failed_delivery_never_retried [OF a(1) v])
qed

section \<open>Order ids\<close>

text \<open>The id Cashfree is given for the attempt after \<open>k\<close> earlier ones.\<close>

definition attempt_id :: "string \<Rightarrow> nat \<Rightarrow> string" where
  "attempt_id number k = build_cashfree_order_id number (if k = 0 then None else Some (show_nat k))"

lemma show_nat_chars: "\<forall>c\<in>set (show_nat n). is_order_id_char c \<and> c \<noteq> CHR ''-''"
proof (induction n rule: less_induct)
  case (less n)
  have digit: "is_order_id_char (char_of (48 + k)) \<and> char_of (48 + k) \<noteq> CHR ''-''" if "k < 10" for k :: nat
  proof -
    have n: "of_char (char_of (48 + k) :: char) = (48 + k :: nat)" using that by simp
    then have "is_order_id_char (char_of (48 + k))" using that by (simp add: is_order_id_char_def)
    moreover have "char_of (48 + k) \<noteq> CHR ''-''"
    proof
      assume "char_of (48 + k) = CHR ''-''"
      then have "of_char (char_of (48 + k) :: char) = (of_char (CHR ''-'') :: nat)" by (rule arg_cong)
      then show False using n by simp
    qed
    ultimately show ?thesis ..
  qed
  show ?case
  proof (cases "n < 10")
    case True
    then show ?thesis using digit [OF True] by (simp add: show_nat_digit)
  next
    case False
    then show ?thesis using less [of "n div 10"] digit [of "n mod 10"] by (simp add: show_nat_step)
  qed
qed

text \<open>The order number as far as Cashfree allows it.\<close>

definition kept_text :: "string \<Rightarrow> string" where
  "kept_text number = (if filter is_order_id_char number = [] then ''AWLORDER'' else filter is_order_id_char number)"

lemma kept_chars: "\<forall>c\<in>set (kept_text number). is_order_id_char c"
proof -
  have "list_all is_order_id_char ''AWLORDER''" by code_simp
  then show ?thesis unfolding kept_text_def list_all_iff by (cases "filter is_order_id_char number = []") auto
qed

lemma attempt_id_first: "attempt_id number 0 = take 45 (kept_text number)"
  by (simp add: attempt_id_def build_cashfree_order_id_def kept_text_def slice_to_def order_id_max_length_def)

lemma attempt_id_retry:
  assumes "0 < k" and "length (show_nat k) < 45"
  shows "attempt_id number k = take (44 - length (show_nat k)) (kept_text number) @ CHR ''-'' # show_nat k"
proof -
  have bound: "order_id_max_length - int (length (''-'' @ show_nat k)) = int (44 - length (show_nat k))"
    using assms(2) by (simp add: order_id_max_length_def)
  have "attempt_id number k = slice_to (order_id_max_length - int (length (''-'' @ show_nat k))) (kept_text number) @ ''-'' @ show_nat k"
    using assms(1) unfolding attempt_id_def build_cashfree_order_id_def kept_text_def Let_def by simp
  then show ?thesis unfolding bound by (simp add: slice_to_def)
qed

lemma same_suffix:
  assumes "xs @ c # a = ys @ c # b" and "c \<notin> set a" and "c \<notin> set b"
  shows "a = b"
proof -
  have "takeWhile (\<lambda>x. x \<noteq> c) (rev (xs @ c # a)) = rev a" "takeWhile (\<lambda>x. x \<noteq> c) (rev (ys @ c # b)) = rev b"
    using assms(2,3) by (auto simp: takeWhile_append)
  then show ?thesis using assms(1) by (metis rev_rev_ident)
qed

lemma attempt_id_shape:
  assumes "length (show_nat k) < 45"
  shows "length (attempt_id number k) \<le> 45 \<and> (\<forall>c\<in>set (attempt_id number k). is_order_id_char c)"
proof -
  have dash: "is_order_id_char (CHR ''-'')" by code_simp
  have kept: "\<forall>c\<in>set (take n (kept_text number)). is_order_id_char c" for n
    using kept_chars [of number] by (meson in_set_takeD)
  show ?thesis
  proof (cases "k = 0")
    case True
    then show ?thesis using kept [of 45] by (simp add: attempt_id_first)
  next
    case False
    then have eq: "attempt_id number k = take (44 - length (show_nat k)) (kept_text number) @ CHR ''-'' # show_nat k"
      by (intro attempt_id_retry assms) blast
    have "length (attempt_id number k) \<le> 45" unfolding eq using assms by (simp add: min_def) linarith
    moreover have "\<forall>c\<in>set (attempt_id number k). is_order_id_char c"
      unfolding eq using show_nat_chars [of k] kept [of "44 - length (show_nat k)"] dash by auto
    ultimately show ?thesis ..
  qed
qed

lemma retries_differ:
  assumes "length (show_nat j) < 45" and "length (show_nat k) < 45" and "0 < j" and "0 < k"
    and "attempt_id number j = attempt_id number k"
  shows "j = k"
proof -
  have "take (44 - length (show_nat j)) (kept_text number) @ CHR ''-'' # show_nat j
      = take (44 - length (show_nat k)) (kept_text number) @ CHR ''-'' # show_nat k"
    using assms(5) attempt_id_retry [OF assms(3,1), of number] attempt_id_retry [OF assms(4,2), of number] by simp
  then have "show_nat j = show_nat k"
    by (rule same_suffix) (use show_nat_chars [of j] show_nat_chars [of k] in auto)
  then show ?thesis by (rule show_nat_inj)
qed

text \<open>A retry is longer than the first attempt, or as long as an id may be.\<close>

lemma retry_is_not_first:
  assumes "length (show_nat k) < 45" and "0 < k" and "length (kept_text number) < 45"
  shows "attempt_id number k \<noteq> attempt_id number 0"
proof
  assume "attempt_id number k = attempt_id number 0"
  then have "length (take (44 - length (show_nat k)) (kept_text number) @ CHR ''-'' # show_nat k) = length (take 45 (kept_text number))"
    by (simp add: attempt_id_first attempt_id_retry [OF assms(2,1)])
  then show False using assms(1,3) by (auto simp: min_def split: if_split_asm)
qed

lemma cashfree_payment_update:
  assumes "cashfree_payment s cid = Some p" and "\<And>r. pay_source (f r) = pay_source r" "\<And>r. pay_external (f r) = pay_external r"
  shows "cashfree_payment (payment_update (pay_id p) f s) cid = Some (f p)"
proof -
  have "find Q (map (\<lambda>r. if pay_id r = pay_id p then f r else r) rows) = Some (f p)"
    if "find Q rows = Some p" "\<And>r. Q (f r) = Q r" for Q and rows :: "payment list"
    using that by (induction rows) (auto split: if_split_asm)
  then show ?thesis using assms by (simp add: cashfree_payment_def by_external_def payment_update_def set_where_def)
qed

lemma upserted_payment_found:
  assumes "upsert_cashfree_payment ord cid m s = ((p, created), s1)"
  shows "cashfree_payment s1 cid = Some p \<and> pay_order p = o_id ord"
proof (cases "cashfree_payment s cid")
  case None
  then have p: "p = new_payment ord cid m s" "s1 = fresh (s\<lparr>payments := payments s @ [p]\<rparr>)"
    using assms by (auto simp: upsert_new_payment)
  then show ?thesis using None
    by (simp add: cashfree_payment_def by_external_def new_payment_def find_append fresh_def)
next
  case (Some q)
  let ?w = "\<lambda>p. p\<lparr>pay_order := o_id ord, pay_type := o_payment_type ord, pay_status := PAY_PENDING,
      pay_amount := o_total ord, pay_currency := o_currency ord, pay_provider := Some ''cashfree'', pay_metadata := m\<rparr>"
  have p: "p = ?w q" "s1 = payment_update (pay_id q) ?w s"
    using assms Some by (simp_all add: upsert_cashfree_payment_def Let_def)
  then show ?thesis using cashfree_payment_update [OF Some, of ?w] by simp
qed

text \<open>What a checkout that was not simply reused has sent and stored.\<close>

lemma new_checkout:
  assumes "create_or_reuse_checkout api oid actor s = Inr ((pid, created), s')" and "s' \<noteq> s" and "order_by s oid = Some ord"
  obtains p response where
    "cf_create_order api \<lparr>cp_order = attempt_id (o_number ord) (length (cashfree_attempts s oid)), cp_amount = o_total ord,
       cp_currency = o_currency ord, cp_phone = order_phone ord s\<rparr> = Inr response"
    "cashfree_payment s' (attempt_id (o_number ord) (length (cashfree_attempts s oid))) = Some p" "pay_id p = pid" "pay_order p = oid"
proof -
  let ?cid = "attempt_id (o_number ord) (length (cashfree_attempts s oid))"
  have ord: "get_order oid s = Inr ord" "o_id ord = oid" using assms(3) by (auto simp: get_order_def order_by_def row_by_def dest: find_Some_iff [THEN iffD1])
  have cid: "build_cashfree_order_id (o_number ord) (if cashfree_attempts s oid = [] then None
      else Some (show_nat (length (cashfree_attempts s oid)))) = ?cid" by (simp add: attempt_id_def)
  note run = assms(1) [unfolded create_or_reuse_checkout_def Let_def ord(1) bindR_simps cid]
  let ?m = "\<lambda>r. [(''cashfree_order_id'', Some ?cid), (''cf_order_id'', cr_cf_order r), (''payment_session_id'', cr_session r),
      (''order_status'', cr_status r)]"
  obtain response where response: "cf_create_order api \<lparr>cp_order = ?cid, cp_amount = o_total ord,
       cp_currency = o_currency ord, cp_phone = order_phone ord s\<rparr> = Inr response"
    and stored: "(case upsert_cashfree_payment ord ?cid (?m response) s of ((p, created), s1) \<Rightarrow>
       Inr ((pay_id p, created), audit_record actor ''payment.cashfree_checkout_created'' ''payment'' (pay_id p) []
         [(''order_id'', JId oid), (''cashfree_order_id'', JStr ?cid)] [] s1)) = (Inr ((pid, created), s') :: _ result)"
    using run assms(2) by (simp only: bindR_Inr_iff split: if_split_asm) auto
  obtain p c s1 where up: "upsert_cashfree_payment ord ?cid (?m response) s = ((p, c), s1)" by (metis prod.exhaust)
  have r: "pid = pay_id p" "cashfree_payment s' = cashfree_payment s1"
    using stored unfolding up by (auto simp: cashfree_payment_def fun_eq_iff)
  show ?thesis using that [OF response] upserted_payment_found [OF up] r ord(2) by simp
qed

text \<open>
  C23: the order ids sent to Cashfree have at most 45 characters, all of them allowed, where the number of the attempt
  has fewer than 45 digits. The attempts of one order
  never share an id: two retries never do, and a retry and the first attempt do not while the order number keeps
  fewer than 45 allowed characters. The id round-trips through the database: the payment a checkout has stored is
  found again, for every attempt, by the id the checkout sent, and by every event that names it. And a payment made
  outside the OMS is found by the first attempt's id when the order number is a hash sign and at most 45 allowed
  characters and no order has the number without the hash sign.
\<close>

theorem cashfree_order_ids:
  assumes "length (show_nat j) < 45" and "length (show_nat k) < 45"
  shows "length (attempt_id number k) \<le> 45 \<and> (\<forall>c\<in>set (attempt_id number k). is_order_id_char c)
    \<and> (attempt_id number j = attempt_id number k \<longrightarrow> 0 < j \<and> 0 < k \<or> length (kept_text number) < 45 \<longrightarrow> j = k)
    \<and> (create_or_reuse_checkout api oid actor s = Inr ((pid, created), s') \<longrightarrow> s' \<noteq> s \<longrightarrow> order_by s oid = Some ord \<longrightarrow>
        (\<exists>p cid response. cid = attempt_id (o_number ord) (length (cashfree_attempts s oid))
          \<and> cf_create_order api \<lparr>cp_order = cid, cp_amount = o_total ord, cp_currency = o_currency ord, cp_phone = order_phone ord s\<rparr>
            = Inr response
          \<and> cashfree_payment s' cid = Some p \<and> pay_id p = pid \<and> pay_order p = oid
          \<and> (\<forall>fault ev. pe_order ev = cid \<longrightarrow> find_or_create_payment fault ev s' = (s', Inr (Some p)))))
    \<and> (number = CHR ''#'' # bare \<longrightarrow> bare \<noteq> [] \<longrightarrow> length bare \<le> 45 \<longrightarrow> (\<forall>c\<in>set bare. is_order_id_char c) \<longrightarrow>
        order_by_number t bare = None \<longrightarrow> external_order t (attempt_id number 0) = order_by_number t number)"
proof (intro conjI impI)
  show "length (attempt_id number k) \<le> 45" "\<forall>c\<in>set (attempt_id number k). is_order_id_char c"
    using attempt_id_shape [OF assms(2)] by blast+
next
  assume eq: "attempt_id number j = attempt_id number k" and "0 < j \<and> 0 < k \<or> length (kept_text number) < 45"
  then consider "0 < j" "0 < k" | "j = 0" "k = 0" | "length (kept_text number) < 45" "0 < j" "k = 0"
    | "length (kept_text number) < 45" "j = 0" "0 < k" by auto
  then show "j = k"
  proof cases
    case 1
    then show ?thesis by (rule retries_differ [OF assms _ _ eq])
  next
    case 3
    then show ?thesis using retry_is_not_first [OF assms(1) 3(2,1)] eq by simp
  next
    case 4
    then show ?thesis using retry_is_not_first [OF assms(2) 4(3,1)] eq by simp
  qed simp
next
  assume "create_or_reuse_checkout api oid actor s = Inr ((pid, created), s')" "s' \<noteq> s" "order_by s oid = Some ord"
  then obtain p response where
    "cf_create_order api \<lparr>cp_order = attempt_id (o_number ord) (length (cashfree_attempts s oid)), cp_amount = o_total ord,
       cp_currency = o_currency ord, cp_phone = order_phone ord s\<rparr> = Inr response"
    "cashfree_payment s' (attempt_id (o_number ord) (length (cashfree_attempts s oid))) = Some p" "pay_id p = pid" "pay_order p = oid"
    by (rule new_checkout)
  then show "\<exists>p cid response. cid = attempt_id (o_number ord) (length (cashfree_attempts s oid))
      \<and> cf_create_order api \<lparr>cp_order = cid, cp_amount = o_total ord, cp_currency = o_currency ord, cp_phone = order_phone ord s\<rparr>
        = Inr response
      \<and> cashfree_payment s' cid = Some p \<and> pay_id p = pid \<and> pay_order p = oid
      \<and> (\<forall>fault ev. pe_order ev = cid \<longrightarrow> find_or_create_payment fault ev s' = (s', Inr (Some p)))"
    by (auto simp: find_or_create_payment_def)
next
  assume number: "number = CHR ''#'' # bare" "bare \<noteq> []" "length bare \<le> 45" "\<forall>c\<in>set bare. is_order_id_char c"
    and none: "order_by_number t bare = None"
  have "\<not> is_order_id_char (CHR ''#'')" by code_simp
  then have "kept_text number = bare"
    using number(1,2,4) by (simp add: kept_text_def filter_id_conv)
  then have "attempt_id number 0 = bare" using number(3) by (simp add: attempt_id_first)
  then show "external_order t (attempt_id number 0) = order_by_number t number"
    using none number(1) by (simp add: external_order_def)
qed

definition demo_cashfree :: cashfree_api where
  "demo_cashfree = \<lparr>cf_configured = True, cf_create_order = (\<lambda>_. Inr \<lparr>cr_cf_order = Some ''1'', cr_session = Some ''s'', cr_status = None\<rparr>),
     cf_payments = (\<lambda>_. Inr []),
     cf_recon = (\<lambda>_. Inr ([\<lparr>rr_type = Some ''PAYMENT'', rr_order = Some ''AW7'', rr_payment = Some ''cf1'', rr_status = Some ''SUCCESS'',
        rr_amount = Some (Inr 100), rr_currency = None, rr_paid_at = None\<rparr>], None)),
     cf_settlements = (\<lambda>_. Inr ([\<lparr>sl_id = Some ''st1'', sl_fields = Inl (DataError ''amount'')\<rparr>], None))\<rparr>"

text \<open>The order of \<open>demo_pay\<close> after a first attempt that failed.\<close>

definition demo_retry :: pay_db where
  "demo_retry = demo_pay\<lparr>orders := [(demo_order 7 ''#AW7'' PENDING)\<lparr>o_shipping_address := Some [(''contact_phone'', ''98'')]\<rparr>],
     payments := [(new_payment (demo_order 7 ''#AW7'' PENDING) ''AW7'' [] demo_pay)\<lparr>pay_status := PAY_FAILED\<rparr>], next_id := 101\<rparr>"

theorem cashfree_order_ids_witness:
  "attempt_id ''#AW7'' 0 \<noteq> attempt_id ''#AW7'' 1
   \<and> (\<exists>s' p. create_or_reuse_checkout demo_cashfree 7 None demo_retry = Inr ((101, True), s') \<and> pay_id p = 101 \<and> pay_order p = 7
       \<and> find_or_create_payment no_faults ((demo_pay_event ''SUCCESS'')\<lparr>pe_order := ''AW7-1''\<rparr>) s' = (s', Inr (Some p)))
   \<and> external_order demo_pay (attempt_id ''#AW7'' 0) = order_by_number demo_pay ''#AW7''"
proof -
  have len: "length (show_nat 0) < 45" "length (show_nat 1) < 45" by (simp_all add: show_nat_digit)
  have kept: "length (kept_text ''#AW7'') < 45" "attempt_id ''#AW7'' 1 = ''AW7-1''" by code_simp+
  have "case create_or_reuse_checkout demo_cashfree 7 None demo_retry of Inl _ \<Rightarrow> False
      | Inr ((pid, c), s') \<Rightarrow> pid = 101 \<and> c \<and> length (payments s') = 2" by code_simp
  then obtain s' where r: "create_or_reuse_checkout demo_cashfree 7 None demo_retry = Inr ((101, True), s')" "length (payments s') = 2"
    by (auto split: sum.split_asm prod.split_asm)
  then have new: "s' \<noteq> demo_retry" by (auto simp: demo_retry_def)
  have ord: "order_by demo_retry 7 = Some ((demo_order 7 ''#AW7'' PENDING)\<lparr>o_shipping_address := Some [(''contact_phone'', ''98'')]\<rparr>)"
    by (simp add: order_by_def demo_retry_def demo_order_def)
  have cid: "attempt_id ''#AW7'' (length (cashfree_attempts demo_retry 7)) = ''AW7-1''" by code_simp
  have "order_by_number demo_pay ''AW7'' = None"
    by (simp add: order_by_number_def demo_pay_def returns_db.defs demo_returns_def shipping_db.defs demo_order_def)
  moreover have "\<forall>c\<in>set ''AW7''. is_order_id_char c" by code_simp
  moreover have "o_number (demo_order 7 ''#AW7'' PENDING) = ''#AW7''" by (simp add: demo_order_def)
  ultimately show ?thesis
    using cashfree_order_ids [OF len, of "''#AW7''" demo_cashfree 7 None demo_retry 101 True s' _ "''AW7''" demo_pay] r(1) new ord cid kept
    by fastforce
qed

section \<open>Bulk sync\<close>

definition counts_ok :: "sync_result \<Rightarrow> bool" where
  "counts_ok r \<longleftrightarrow> sr_processed r = sr_fetched r
     \<and> sr_processed r = sr_applied r + sr_duplicates r + sr_skipped r + sr_failures r"

lemma sync_rows_counts:
  assumes "\<And>row t. row \<in> set rows \<Longrightarrow> grown (snd (handle row t)) \<ge> grown t + (if fst (handle row t) = ROW_APPLIED then 1 else (0 :: nat))"
    and "sync_rows handle rows (r, s) = (r', s')"
  shows "sr_processed r' = sr_processed r + length rows \<and> sr_fetched r' = sr_fetched r
    \<and> sr_processed r' + sr_applied r + sr_duplicates r + sr_skipped r + sr_failures r
      = sr_processed r + sr_applied r' + sr_duplicates r' + sr_skipped r' + sr_failures r'
    \<and> grown s' + sr_applied r \<ge> grown s + sr_applied r'"
  using assms
proof (induction handle rows "(r, s)" arbitrary: r s rule: sync_rows.induct)
  case (2 handle row rows r s)
  obtain c s1 where h: "handle row s = (c, s1)" by fastforce
  have "grown s1 \<ge> grown s + (if c = ROW_APPLIED then 1 else 0)" using 2(2) [of row s] h by simp
  with 2(1) [OF h [symmetric] 2(2)] 2(3) h show ?case
    by (cases c) (auto simp: count_row_def Let_def)
qed simp

lemma sync_pages_counts:
  assumes "\<And>row t. grown (snd (handle row t)) \<ge> grown t + (if fst (handle row t) = ROW_APPLIED then 1 else (0 :: nat))"
    and "\<And>c rows next_c. get c = Inr (rows, next_c) \<Longrightarrow> length rows \<le> page"
    and "sync_pages n get handle cursor r s = (s', Inr r')" and "counts_ok r"
  shows "counts_ok r' \<and> sr_fetched r' \<le> sr_fetched r + n * page \<and> grown s' + sr_applied r \<ge> grown s + sr_applied r'"
  using assms(3,4)
proof (induction n arbitrary: cursor r s)
  case (Suc n)
  then obtain rows next_c where g: "get cursor = Inr (rows, next_c)" by (cases "get cursor") auto
  obtain r1 s1 where rows: "sync_rows handle rows (r\<lparr>sr_fetched := sr_fetched r + length rows\<rparr>, s) = (r1, s1)" by fastforce
  note c = sync_rows_counts [where grown = grown, OF assms(1) rows]
  have ok: "counts_ok r1" using c Suc(3) by (auto simp: counts_ok_def)
  have len: "length rows \<le> page" using assms(2) [OF g] .
  show ?case
  proof (cases "\<not> present next_c \<or> rows = []")
    case True
    then have "s' = s1" "r' = r1" using Suc(2) g rows by (auto split: if_split_asm)
    then show ?thesis using ok c len by simp
  next
    case False
    then have "sync_pages n get handle next_c r1 s1 = (s', Inr r')" using Suc(2) g rows by (auto split: if_split_asm)
    from Suc(1) [OF this ok] show ?thesis using c len by auto
  qed
qed simp

lemma apply_event_grows:
  assumes "apply_payment_event fault ev s = (s', r)"
  shows "length (transactions s') \<ge> length (transactions s) + (case r of Inr res \<Rightarrow> if er_applied res then 1 else 0 | Inl _ \<Rightarrow> 0)"
proof -
  have find: "length (transactions s1) = length (transactions s)" if "find_or_create_payment fault ev s = (s1, q)" for s1 q
    by (rule find_or_create_rows [OF that]) simp
  have rec: "length (transactions s2) \<ge> length (transactions s1) + (if q = Inr True then 1 else 0)"
    if "record_transaction fault ev p st s1 = (s2, q)" for s1 s2 :: "'a pay_db_scheme" and p st q
    using that by (cases rule: record_transaction_cases) (auto simp: fresh_def)
  show ?thesis
  proof (rule apply_event_cases [OF assms])
    fix s1 q
    assume "find_or_create_payment fault ev s = (s1, q)" "s' = s1" "\<And>x. r = Inr x \<Longrightarrow> \<not> er_applied x"
    then show ?thesis using find by (auto split: sum.split)
  next
    fix s1 p st
    assume s1: "find_or_create_payment fault ev s = (s1, Inr (Some p))" and settled: "settle_event fault ev p st s1 = (s', r)"
    from settled show ?thesis
    proof (cases rule: settle_event_cases)
      case (ignored s2 q)
      then show ?thesis using find [OF s1] rec [OF ignored(1)] by (auto split: sum.split)
    next
      case (written s2)
      then show ?thesis using find [OF s1] rec [OF written(1)] by (auto split: sum.split)
    next
      case (applied s2)
      then show ?thesis using find [OF s1] rec [OF applied(1)] by simp
    qed
  qed
qed

lemma sync_transaction_row_grows:
  "length (transactions (snd (snd (sync_transaction_row fault row session))))
    \<ge> length (transactions (snd session)) + (if fst (sync_transaction_row fault row session) = ROW_APPLIED then 1 else 0)"
proof -
  obtain broken s where session: "session = (broken, s)" by fastforce
  show ?thesis
  proof (cases "\<exists>ev. normalize_recon_row row = Inr (Some ev)")
    case True
    then obtain ev where ev: "normalize_recon_row row = Inr (Some ev)" by blast
    obtain s1 r where a: "apply_payment_event fault ev s = (s1, r)" by fastforce
    show ?thesis using apply_event_grows [OF a] ev a by (cases r) (auto simp: session sync_transaction_row_def)
  next
    case False
    then show ?thesis by (auto simp: session sync_transaction_row_def split: sum.split option.split)
  qed
qed

lemma sync_settlement_row_grows:
  "length (settlements (snd (sync_settlement_row row s)))
    \<ge> length (settlements s) + (if fst (sync_settlement_row row s) = ROW_APPLIED then 1 else 0)"
  by (auto simp: sync_settlement_row_def upsert_settlement_def set_where_def fresh_def split: sum.split option.split)

text \<open>
  A bulk sync that ends counts every row it fetched once, as applied, duplicate, skipped or failed; it reads at
  most fifty pages; and it counts no more transactions as applied, or settlements as new, than it has written.
\<close>

theorem sync_counts_add_up:
  assumes "\<And>c rows next_c. cf_recon api c = Inr (rows, next_c) \<Longrightarrow> length rows \<le> page"
    and "\<And>c rows next_c. cf_settlements api c = Inr (rows, next_c) \<Longrightarrow> length rows \<le> page"
    and "sync_transactions api fault s = (s1, Inr r1)" and "sync_settlements api s = (s2, Inr r2)"
  shows "counts_ok r1 \<and> sr_fetched r1 \<le> 50 * page \<and> length (transactions s) + sr_applied r1 \<le> length (transactions s1)
    \<and> counts_ok r2 \<and> sr_fetched r2 \<le> 50 * page \<and> length (settlements s) + sr_applied r2 \<le> length (settlements s2)"
proof -
  have start: "counts_ok empty_result" "sr_applied empty_result = 0" "sr_fetched empty_result = 0"
    by (simp_all add: counts_ok_def empty_result_def)
  obtain broken where "sync_pages 50 (cf_recon api) (sync_transaction_row fault) None empty_result (False, s) = ((broken, s1), Inr r1)"
    "sync_pages 50 (cf_settlements api) sync_settlement_row None empty_result s = (s2, Inr r2)"
    using assms(3,4) by (auto simp: sync_transactions_def sync_settlements_def max_pages_per_sync_def split: if_split_asm prod.split_asm)
  from sync_pages_counts [where grown = "\<lambda>t. length (transactions (snd t))", OF sync_transaction_row_grows assms(1) this(1) start(1)]
    sync_pages_counts [where grown = "\<lambda>t. length (settlements t)", OF sync_settlement_row_grows assms(2) this(2) start(1)]
  show ?thesis using start by auto
qed

theorem sync_counts_add_up_witness:
  "\<exists>s1 r1 s2 r2. sync_transactions demo_cashfree no_faults demo_pay = (s1, Inr r1) \<and> sync_settlements demo_cashfree demo_pay = (s2, Inr r2)
     \<and> counts_ok r1 \<and> sr_applied r1 = 1 \<and> counts_ok r2 \<and> sr_failures r2 = 1"
proof -
  have "case sync_transactions demo_cashfree no_faults demo_pay of (s1, Inl _) \<Rightarrow> False | (s1, Inr r1) \<Rightarrow> sr_applied r1 = 1" by code_simp
  then obtain s1 r1 where 1: "sync_transactions demo_cashfree no_faults demo_pay = (s1, Inr r1)" "sr_applied r1 = 1"
    by (auto split: prod.split_asm sum.split_asm)
  have "case sync_settlements demo_cashfree demo_pay of (s1, Inl _) \<Rightarrow> False | (s1, Inr r1) \<Rightarrow> sr_failures r1 = 1" by code_simp
  then obtain s2 r2 where 2: "sync_settlements demo_cashfree demo_pay = (s2, Inr r2)" "sr_failures r2 = 1"
    by (auto split: prod.split_asm sum.split_asm)
  have page: "\<And>c rows n. cf_recon demo_cashfree c = Inr (rows, n) \<Longrightarrow> length rows \<le> 1"
    "\<And>c rows n. cf_settlements demo_cashfree c = Inr (rows, n) \<Longrightarrow> length rows \<le> 1"
    by (auto simp: demo_cashfree_def)
  have "counts_ok r1 \<and> sr_fetched r1 \<le> 50 * 1 \<and> length (transactions demo_pay) + sr_applied r1 \<le> length (transactions s1)
    \<and> counts_ok r2 \<and> sr_fetched r2 \<le> 50 * 1 \<and> length (settlements demo_pay) + sr_applied r2 \<le> length (settlements s2)"
    by (rule sync_counts_add_up [OF _ _ 1(1) 2(1)]) (erule page)+
  with 1 2 show ?thesis by blast
qed

lemma broken_rows:
  "sync_rows (sync_transaction_row fault) rows (r, (True, s)) = (r', session) \<Longrightarrow>
    session = (True, s) \<and> sr_applied r' = sr_applied r \<and> sr_duplicates r' = sr_duplicates r"
proof (induction rows arbitrary: r)
  case (Cons row rows)
  have "sync_transaction_row fault row (True, s) \<in> {(ROW_FAILED, (True, s)), (ROW_SKIPPED, (True, s))}"
    by (auto simp: sync_transaction_row_def split: sum.split option.split)
  then obtain c where "sync_transaction_row fault row (True, s) = (c, (True, s))" "c = ROW_FAILED \<or> c = ROW_SKIPPED"
    by blast
  with Cons show ?case by (auto simp: count_row_def Let_def)
qed simp

lemma broken_pages:
  "sync_pages n get (sync_transaction_row fault) cursor r (True, s) = (session, Inr r') \<Longrightarrow>
    session = (True, s) \<and> sr_applied r' = sr_applied r \<and> sr_duplicates r' = sr_duplicates r"
proof (induction n arbitrary: cursor r)
  case (Suc n)
  then obtain rows next_c where g: "get cursor = Inr (rows, next_c)" by (cases "get cursor") auto
  obtain r1 session1 where rows: "sync_rows (sync_transaction_row fault) rows (r\<lparr>sr_fetched := sr_fetched r + length rows\<rparr>, (True, s)) = (r1, session1)"
    by (rule prod.exhaust)
  note b = broken_rows [OF rows]
  show ?case
  proof (cases "\<not> present next_c \<or> rows = []")
    case True
    then have "session = session1" "r' = r1" using Suc(2) g rows by (auto split: if_split_asm)
    then show ?thesis using b by simp
  next
    case False
    then have "sync_pages n get (sync_transaction_row fault) next_c r1 (True, s) = (session, Inr r')"
      using Suc(2) g rows b by (auto split: if_split_asm)
    from Suc(1) [OF this] show ?thesis using b by simp
  qed
qed simp

lemma sync_rows_append: "sync_rows handle (xs @ ys) rs = sync_rows handle ys (sync_rows handle xs rs)"
  by (induction handle xs rs rule: sync_rows.induct) (auto split: prod.split)

text \<open>
  One row the database refuses ends a bulk sync in all but name. Nothing after it is applied, on that page or any
  later one, however many rows are left, and the sync still returns a result: the database is as it was after the
  refused row.
\<close>

theorem failed_row_stops_sync:
  assumes "cf_recon api None = Inr (pre @ row # post, next_c)"
    and "sync_rows (sync_transaction_row fault) pre (empty_result, (False, s)) = (r1, (False, s1))"
    and "sync_transaction_row fault row (False, s1) = (ROW_FAILED, (True, s2))"
    and "sync_transactions api fault s = (s', Inr r)"
  shows "s' = s2 \<and> sr_applied r = sr_applied r1 \<and> sr_duplicates r = sr_duplicates r1"
proof -
  have count: "count_row c (q\<lparr>sr_fetched := n\<rparr>) = (count_row c q)\<lparr>sr_fetched := n\<rparr>" for c q n
    by (cases c) (simp_all add: count_row_def)
  have shift: "sync_rows h rows (q\<lparr>sr_fetched := n\<rparr>, t) = map_prod (\<lambda>q. q\<lparr>sr_fetched := n\<rparr>) id (sync_rows h rows (q, t))"
    for h :: "'r \<Rightarrow> 't \<Rightarrow> row_outcome \<times> 't" and rows q n t
    by (induction h rows "(q, t)" arbitrary: q t rule: sync_rows.induct) (auto simp: count split: prod.split)
  obtain broken where pages: "sync_pages 50 (cf_recon api) (sync_transaction_row fault) None empty_result (False, s) = ((broken, s'), Inr r)"
    using assms(4) by (auto simp: sync_transactions_def max_pages_per_sync_def split: if_split_asm prod.split_asm)
  let ?n = "length (pre @ row # post)"
  obtain r3 session3 where rows: "sync_rows (sync_transaction_row fault) (pre @ row # post) (empty_result\<lparr>sr_fetched := ?n\<rparr>, (False, s)) = (r3, session3)"
    by (rule prod.exhaust)
  have "sync_rows (sync_transaction_row fault) post (count_row ROW_FAILED (r1\<lparr>sr_fetched := ?n\<rparr>), (True, s2)) = (r3, session3)"
    using rows assms(2,3) by (simp add: sync_rows_append shift count)
  note b = broken_rows [OF this]
  have r3: "sr_applied r3 = sr_applied r1" "sr_duplicates r3 = sr_duplicates r1" "session3 = (True, s2)"
    using b by (simp_all add: count_row_def)
  show ?thesis
  proof (cases "\<not> present next_c")
    case True
    then show ?thesis using pages assms(1) rows r3 by (auto simp: numeral_eq_Suc empty_result_def)
  next
    case False
    then have "sync_pages 49 (cf_recon api) (sync_transaction_row fault) next_c r3 (True, s2) = ((broken, s'), Inr r)"
      using pages assms(1) rows r3 by (auto simp: numeral_eq_Suc empty_result_def)
    from broken_pages [OF this] show ?thesis using r3 by simp
  qed
qed

definition demo_recon_row :: "string \<Rightarrow> recon_row" where
  "demo_recon_row cf = \<lparr>rr_type = Some ''PAYMENT'', rr_order = Some ''AW7'', rr_payment = Some cf, rr_status = Some ''SUCCESS'',
     rr_amount = Some (Inr 100), rr_currency = None, rr_paid_at = None\<rparr>"

text \<open>The database refuses the first row only.\<close>

definition demo_refused :: faults where
  "demo_refused = (\<lambda>ev c. if pe_payment ev = Some ''cf1'' \<and> c = RECORDING_TRANSACTION then Some (DataError ''value too long'') else None)"

theorem failed_row_stops_sync_witness:
  "\<exists>s' r. sync_transactions (demo_cashfree\<lparr>cf_recon := (\<lambda>_. Inr ([demo_recon_row ''cf1'', demo_recon_row ''cf2''], None))\<rparr>)
       demo_refused demo_pay = (s', Inr r) \<and> sr_applied r = 0 \<and> map pay_status (payments s') = [PAY_PENDING]"
proof -
  let ?api = "demo_cashfree\<lparr>cf_recon := (\<lambda>_. Inr ([demo_recon_row ''cf1'', demo_recon_row ''cf2''], None))\<rparr>"
  have "case sync_transaction_row demo_refused (demo_recon_row ''cf1'') (False, demo_pay) of (c, (b, s2)) \<Rightarrow>
      c = ROW_FAILED \<and> b \<and> map pay_status (payments s2) = [PAY_PENDING]" by code_simp
  then obtain s2 where s2: "sync_transaction_row demo_refused (demo_recon_row ''cf1'') (False, demo_pay) = (ROW_FAILED, (True, s2))"
      "map pay_status (payments s2) = [PAY_PENDING]" by (auto split: prod.split_asm)
  have "\<not> isl (snd (sync_transactions ?api demo_refused demo_pay))" by code_simp
  then obtain s' r where r: "sync_transactions ?api demo_refused demo_pay = (s', Inr r)"
    by (cases "sync_transactions ?api demo_refused demo_pay"; cases "snd (sync_transactions ?api demo_refused demo_pay)") auto
  have "s' = s2 \<and> sr_applied r = sr_applied empty_result \<and> sr_duplicates r = sr_duplicates empty_result"
    by (rule failed_row_stops_sync [OF _ _ s2(1) r, of "[]" "[demo_recon_row ''cf2'']" None]) simp_all
  then show ?thesis using r s2(2) by (auto simp: empty_result_def)
qed

section \<open>The order\<close>

lemma apply_order_state_paid:
  assumes "order_by (apply_order_state p PAID s) (pay_order p) = Some ord"
  shows "o_payment_status ord = PAID \<and> o_status ord \<noteq> PENDING"
proof (cases "order_by s (pay_order p)")
  case None
  then show ?thesis using assms by (simp add: apply_order_state_def)
next
  case (Some ord0)
  then have "o_id ord0 = pay_order p" by (auto simp: order_by_def)
  then show ?thesis using assms Some
    by (auto simp: apply_order_state_def Let_def order_by_update split: if_split_asm)
qed

text \<open>
  A success that is applied leaves the payment paid, by its own amount, with its transaction on record, and the
  order of the payment paid and no longer pending.
\<close>

theorem paid_event_settles_order:
  assumes "apply_payment_event fault ev s = (s', Inr res)" and "er_applied res" and "er_status res = Some PAID"
  shows "\<exists>p\<in>set (payments s'). er_payment res = Some (pay_id p) \<and> pay_status p = PAID \<and> paid_by ev p
    \<and> (\<exists>t\<in>set (transactions s'). tx_payment t = pay_id p \<and> tx_external t = pe_payment ev \<and> tx_status t = PAID)
    \<and> (\<forall>ord. order_by s' (pay_order p) = Some ord \<longrightarrow> o_payment_status ord = PAID \<and> o_status ord \<noteq> PENDING)"
proof (rule apply_event_cases [OF assms(1)])
  fix s1 q
  assume "\<And>x. Inr res = Inr x \<Longrightarrow> \<not> er_applied x"
  then show ?thesis using assms(2) by blast
next
  fix s1 p st
  assume s1: "find_or_create_payment fault ev s = (s1, Inr (Some p))" and st: "normalize_payment_status (pe_status ev) = Some st"
    "st = PAID \<Longrightarrow> verified ev p" and settled: "settle_event fault ev p st s1 = (s', Inr res)"
  have "cashfree_payment s1 (pe_order ev) = Some p" using s1 by (rule find_or_create_rows) simp
  note p = cashfree_payment_in [OF this]
  from settled show ?thesis
  proof (cases rule: settle_event_cases)
    case (applied s2)
    have "st = PAID" using applied(4) assms(3) by simp
    note applied = applied [unfolded this]
    let ?p = "write_event ev PAID (clock s2) p"
    from applied(1) obtain t where "t \<in> set (transactions s2)" "tx_external t = pe_payment ev" "tx_payment t = pay_id p" "tx_status t = PAID"
      by (rule record_transaction_cases) (auto simp: fresh_def)
    moreover have "?p \<in> set (payments s')"
      using p record_transaction_frame(1) [OF applied(1)] applied(3) by (force simp: set_where_def)
    moreover have "paid_by ev ?p" using st p \<open>st = PAID\<close> by (simp add: paid_by_def verified_def)
    moreover have "order_by s' (pay_order ?p) = Some ord \<longrightarrow> o_payment_status ord = PAID \<and> o_status ord \<noteq> PENDING" for ord
      using apply_order_state_paid [of p _ ord] applied(3) by auto
    ultimately show ?thesis using applied(3,4) by (intro bexI [of _ ?p]) auto
  qed (use assms(2) in auto)
qed

theorem paid_event_settles_order_witness:
  "\<exists>s' res p. apply_payment_event no_faults (demo_pay_event ''SUCCESS'') demo_pay = (s', Inr res) \<and> p \<in> set (payments s')
     \<and> pay_status p = PAID \<and> map (\<lambda>r. (o_status r, o_payment_status r)) (orders s') = [(CONFIRMED, PAID)]"
proof -
  have "case apply_payment_event no_faults (demo_pay_event ''SUCCESS'') demo_pay of (s', Inl _) \<Rightarrow> False
      | (s', Inr res) \<Rightarrow> er_applied res \<and> er_status res = Some PAID
        \<and> map (\<lambda>r. (o_status r, o_payment_status r)) (orders s') = [(CONFIRMED, PAID)]" by code_simp
  then obtain s' res where a: "apply_payment_event no_faults (demo_pay_event ''SUCCESS'') demo_pay = (s', Inr res)" "er_applied res"
      "er_status res = Some PAID" "map (\<lambda>r. (o_status r, o_payment_status r)) (orders s') = [(CONFIRMED, PAID)]"
    by (auto split: prod.split_asm sum.split_asm)
  from paid_event_settles_order [OF a(1-3)] obtain p where "p \<in> set (payments s')" "pay_status p = PAID" by blast
  with a show ?thesis by (intro exI conjI)
qed

end
