(* ===== verification/Sync.thy ===== *)
theory Sync
  imports Webhooks
begin

text \<open>
  The synchronisation engine: \<open>app/services/sync_service.py\<close>, \<open>app/repositories/sync_job.py\<close>,
  \<open>app/repositories/sync_error.py\<close>, the retry policy \<open>app/integrations/retry.py\<close> and the tasks of
  \<open>app/tasks/sync_tasks.py\<close> and \<open>app/tasks/retry_processing.py\<close>.

  A provider is the record \<open>adapter\<close>, a function of the time of the call; \<open>ad_returns\<close> is when a call made at some
  time returns, and the only thing in this theory that lets the clock move. The upsert of an entity type is a parameter:
  it commits what it writes, then says whether the row is new or raises. The loop over the pages ends when the provider
  has no more or the time budget is used up; its value is \<open>None\<close> where neither ever happens.
\<close>

datatype sync_type = FULL_SYNC | INCREMENTAL_SYNC | WEBHOOK_SYNC

datatype job_status = JOB_QUEUED | JOB_RUNNING | JOB_COMPLETED | JOB_PARTIAL | JOB_FAILED | JOB_CANCELLED

record sync_job =
  sj_id :: uuid
  sj_integration :: uuid
  sj_type :: sync_type
  sj_entity :: string
  sj_status :: job_status
  sj_started :: "instant option"
  sj_completed :: "instant option"
  sj_received :: int
  sj_created :: int
  sj_updated :: int
  sj_skipped :: int
  sj_failed :: int
  sj_errors :: int
  sj_created_at :: instant
  sj_updated_at :: instant

record sync_error =
  sx_id :: uuid
  sx_job :: uuid
  sx_integration :: uuid
  sx_entity :: string
  sx_external :: "string option"
  sx_type :: string
  sx_message :: string
  sx_retries :: int
  sx_resolved :: bool
  sx_created_at :: instant

record sync_db = webhook_db +
  sync_jobs :: "sync_job list"
  sync_errors :: "sync_error list"

section \<open>Providers\<close>

text \<open>An exception together with the \<open>error_type\<close> of its details, where the raiser gave one.\<close>

datatype failure = Failure (failure_error: oms_error) (failure_details: "string option")

definition error_code :: "oms_error \<Rightarrow> string option" where
  "error_code e = (case e of NotFoundError _ \<Rightarrow> Some ''not_found'' | ValidationError _ \<Rightarrow> Some ''validation_error''
     | ConflictError _ \<Rightarrow> Some ''conflict'' | AuthenticationError _ \<Rightarrow> Some ''authentication_error''
     | AuthorizationError _ \<Rightarrow> Some ''authorization_error'' | IntegrationError _ \<Rightarrow> Some ''integration_error''
     | WebhookVerificationError _ \<Rightarrow> Some ''webhook_verification_error'' | RateLimitError _ \<Rightarrow> Some ''rate_limit_exceeded''
     | _ \<Rightarrow> None)"

definition is_integration_error :: "oms_error \<Rightarrow> bool" where
  "is_integration_error e \<longleftrightarrow> (case e of IntegrationError _ \<Rightarrow> True | _ \<Rightarrow> False)"

text \<open>The type recorded for a record that failed, and for a page that could not be fetched or finished.\<close>

definition record_failure_type :: "failure \<Rightarrow> string" where
  "record_failure_type f = (case error_code (failure_error f) of
     None \<Rightarrow> ''validation_error''
   | Some code \<Rightarrow> (case failure_details f of Some t \<Rightarrow> t | None \<Rightarrow> code))"

definition page_failure_type :: "failure \<Rightarrow> string" where
  "page_failure_type f = (if is_integration_error (failure_error f)
     then (case failure_details f of Some t \<Rightarrow> t | None \<Rightarrow> ''integration_error'') else ''unexpected_error'')"

record 'raw page =
  page_nodes :: "'raw list"
  page_next :: "string option"
  page_more :: bool

record ('raw, 'n) adapter =
  ad_fetch :: "string \<Rightarrow> string option \<Rightarrow> instant \<Rightarrow> failure + 'raw page"
  ad_fetch_incremental :: "string \<Rightarrow> instant \<Rightarrow> string option \<Rightarrow> instant \<Rightarrow> failure + 'raw page"
  ad_normalize :: "string \<Rightarrow> 'raw \<Rightarrow> failure + 'n"
  ad_raw_id :: "'raw \<Rightarrow> string option"
  ad_external :: "'n \<Rightarrow> string option"
  ad_returns :: "instant \<Rightarrow> instant"

type_synonym ('n, 's) upsert_handler = "'n \<Rightarrow> 's \<Rightarrow> 's \<times> (failure + bool)"

section \<open>Rows\<close>

definition job_by :: "'a sync_db_scheme \<Rightarrow> uuid \<Rightarrow> sync_job option" where
  "job_by s = row_by sj_id (sync_jobs s)"

text \<open>The row's \<open>updated_at\<close> moves when a column changes.\<close>

definition job_update :: "uuid \<Rightarrow> (sync_job \<Rightarrow> sync_job) \<Rightarrow> 'a sync_db_scheme \<Rightarrow> 'a sync_db_scheme" where
  "job_update i f s = s\<lparr>sync_jobs := set_where (\<lambda>r. sj_id r = i)
     (\<lambda>r. if f r = r then r else (f r)\<lparr>sj_updated_at := clock s\<rparr>) (sync_jobs s)\<rparr>"

definition integration_update :: "uuid \<Rightarrow> (integration \<Rightarrow> integration) \<Rightarrow> 'a webhook_db_scheme \<Rightarrow> 'a webhook_db_scheme" where
  "integration_update i f s = s\<lparr>integrations := set_where (\<lambda>r. in_id r = i) f (integrations s)\<rparr>"

definition get_sync_job :: "uuid \<Rightarrow> 'a sync_db_scheme \<Rightarrow> sync_job result" where
  "get_sync_job i s = require_some (job_by s i) (NotFoundError ''Sync job not found.'')"

definition active_status :: "job_status \<Rightarrow> bool" where
  "active_status st \<longleftrightarrow> st = JOB_QUEUED \<or> st = JOB_RUNNING"

definition active_jobs :: "'a sync_db_scheme \<Rightarrow> uuid \<Rightarrow> string \<Rightarrow> sync_job list" where
  "active_jobs s iid entity = filter (\<lambda>j. sj_integration j = iid \<and> sj_entity j = entity \<and> active_status (sj_status j)) (sync_jobs s)"

definition get_active_for_entity :: "'a sync_db_scheme \<Rightarrow> uuid \<Rightarrow> string \<Rightarrow> sync_job option" where
  "get_active_for_entity s iid entity = latest_by sj_created_at (active_jobs s iid entity)"

definition get_last_successful_for_entity :: "'a sync_db_scheme \<Rightarrow> uuid \<Rightarrow> string \<Rightarrow> sync_job option" where
  "get_last_successful_for_entity s iid entity = latest_by (\<lambda>j. the (sj_completed j))
     (filter (\<lambda>j. sj_integration j = iid \<and> sj_entity j = entity \<and> (sj_status j = JOB_COMPLETED \<or> sj_status j = JOB_PARTIAL)
        \<and> sj_completed j \<noteq> None) (sync_jobs s))"

definition get_stale_running :: "instant \<Rightarrow> 'a sync_db_scheme \<Rightarrow> sync_job list" where
  "get_stale_running before s = filter (\<lambda>j. sj_status j = JOB_RUNNING \<and> sj_updated_at j < before) (sync_jobs s)"

definition get_stale_queued :: "instant \<Rightarrow> 'a sync_db_scheme \<Rightarrow> sync_job list" where
  "get_stale_queued before s = filter (\<lambda>j. sj_status j = JOB_QUEUED \<and> sj_created_at j < before) (sync_jobs s)"

section \<open>The crawl checkpoint\<close>

definition persist_sync_cursor :: "uuid \<Rightarrow> string \<Rightarrow> string option \<Rightarrow> 'a webhook_db_scheme \<Rightarrow> 'a webhook_db_scheme" where
  "persist_sync_cursor iid entity cursor s = (case integration_by s iid of
     None \<Rightarrow> s
   | Some _ \<Rightarrow> integration_update iid (\<lambda>n. n\<lparr>in_cursors := (case cursor of
         None \<Rightarrow> filter (\<lambda>(k, _). k \<noteq> entity) (in_cursors n)
       | Some c \<Rightarrow> put entity c (in_cursors n))\<rparr>) s)"

definition mark_backlog_complete :: "uuid \<Rightarrow> string \<Rightarrow> bool \<Rightarrow> 'a webhook_db_scheme \<Rightarrow> 'a webhook_db_scheme" where
  "mark_backlog_complete iid entity finished s = (case integration_by s iid of
     None \<Rightarrow> s
   | Some _ \<Rightarrow> integration_update iid (\<lambda>n. n\<lparr>in_backlog := put entity finished (in_backlog n)\<rparr>) s)"

definition backlog_known_complete_for :: "integration \<Rightarrow> string \<Rightarrow> instant option \<Rightarrow> string option \<Rightarrow> bool" where
  "backlog_known_complete_for n entity since resume_cursor = (case map_of (in_backlog n) entity of
     Some explicit \<Rightarrow> explicit
   | None \<Rightarrow> since \<noteq> None \<and> resume_cursor = None)"

definition reset_backlog :: "uuid \<Rightarrow> string \<Rightarrow> 'a webhook_db_scheme \<Rightarrow> 'a webhook_db_scheme" where
  "reset_backlog iid entity s = mark_backlog_complete iid entity False (persist_sync_cursor iid entity None s)"

section \<open>The life of a job\<close>

text \<open>
  \<open>meanwhile\<close> is what other transactions commit between the check and the insert, nothing as a rule; the partial unique
  index then refuses a second active job, and what they committed stays.
\<close>

definition start_sync ::
  "('a sync_db_scheme \<Rightarrow> 'a sync_db_scheme) \<Rightarrow> uuid \<Rightarrow> sync_type \<Rightarrow> string \<Rightarrow> uuid option \<Rightarrow> 'a sync_db_scheme
   \<Rightarrow> ('a sync_db_scheme, uuid) attempt" where
  "start_sync meanwhile iid ty entity actor s = (case integration_by s iid of
     None \<Rightarrow> (s, Inl (NotFoundError ''Integration not found.''))
   | Some n \<Rightarrow>
       if get_active_for_entity s iid entity \<noteq> None then (s, Inl (ConflictError ''A sync is already active for this integration.''))
       else let s1 = meanwhile s in
         if active_jobs s1 iid entity \<noteq> [] then (s1, Inl (ConflictError ''A sync is already active for this integration.''))
         else let i = next_id s1;
                  s2 = fresh (s1\<lparr>sync_jobs := sync_jobs s1 @ [\<lparr>sj_id = i, sj_integration = iid, sj_type = ty, sj_entity = entity,
                    sj_status = JOB_QUEUED, sj_started = None, sj_completed = None, sj_received = 0, sj_created = 0,
                    sj_updated = 0, sj_skipped = 0, sj_failed = 0, sj_errors = 0, sj_created_at = clock s1,
                    sj_updated_at = clock s1\<rparr>]\<rparr>)
              in (audit_record actor ''sync.started'' ''sync_job'' i [] [(''integration'', JStr (in_code n)),
                    (''entity_type'', JStr entity)] [] s2, Inr i))"

text \<open>The same index refuses to make a job active beside another.\<close>

definition mark_running :: "uuid \<Rightarrow> 'a sync_db_scheme \<Rightarrow> 'a sync_db_scheme result" where
  "mark_running i s =
     bindR (get_sync_job i s) (\<lambda>job.
     bindR (require (\<forall>j\<in>set (active_jobs s (sj_integration job) (sj_entity job)). sj_id j = i)
       (IntegrityError ''uq_sync_jobs_one_active_per_entity'')) (\<lambda>_.
     Inr (integration_update (sj_integration job) (\<lambda>n. n\<lparr>in_status := SYNCING\<rparr>)
       (job_update i (\<lambda>j. j\<lparr>sj_status := JOB_RUNNING, sj_started := Some (clock s)\<rparr>) s))))"

definition record_progress :: "uuid \<Rightarrow> int \<Rightarrow> int \<Rightarrow> int \<Rightarrow> int \<Rightarrow> int \<Rightarrow> 'a sync_db_scheme \<Rightarrow> 'a sync_db_scheme result" where
  "record_progress i received created updated skipped failed s =
     bindR (get_sync_job i s) (\<lambda>_.
     Inr (job_update i (\<lambda>j. j\<lparr>sj_received := sj_received j + received, sj_created := sj_created j + created,
       sj_updated := sj_updated j + updated, sj_skipped := sj_skipped j + skipped, sj_failed := sj_failed j + failed\<rparr>) s))"

text \<open>The message column holds at most 1000 characters.\<close>

definition record_error ::
  "uuid \<Rightarrow> string \<Rightarrow> string \<Rightarrow> string \<Rightarrow> string option \<Rightarrow> 'a sync_db_scheme \<Rightarrow> 'a sync_db_scheme result" where
  "record_error i entity error_type message external s =
     bindR (get_sync_job i s) (\<lambda>job.
     Inr (job_update i (\<lambda>j. j\<lparr>sj_errors := sj_errors j + 1\<rparr>)
       (fresh (s\<lparr>sync_errors := sync_errors s @ [\<lparr>sx_id = next_id s, sx_job = i, sx_integration = sj_integration job,
          sx_entity = entity, sx_external = external, sx_type = error_type, sx_message = take 1000 message,
          sx_retries = 0, sx_resolved = False, sx_created_at = clock s\<rparr>]\<rparr>))))"

definition completion_status :: "bool \<Rightarrow> sync_job \<Rightarrow> job_status" where
  "completion_status success j = (if \<not> success then JOB_FAILED else if 0 < sj_errors j then JOB_PARTIAL else JOB_COMPLETED)"

fun job_status_value :: "job_status \<Rightarrow> string" where
  "job_status_value JOB_QUEUED = ''queued''"
| "job_status_value JOB_RUNNING = ''running''"
| "job_status_value JOB_COMPLETED = ''completed''"
| "job_status_value JOB_PARTIAL = ''partial''"
| "job_status_value JOB_FAILED = ''failed''"
| "job_status_value JOB_CANCELLED = ''cancelled''"

definition update_integration_health :: "job_status \<Rightarrow> instant \<Rightarrow> integration \<Rightarrow> integration" where
  "update_integration_health st now n = (if st = JOB_COMPLETED \<or> st = JOB_PARTIAL
     then n\<lparr>in_status := CONNECTED_STATUS, in_last_sync := Some now, in_last_success := Some now\<rparr>
     else n\<lparr>in_status := INTEGRATION_ERROR, in_last_sync := Some now, in_last_failure := Some now\<rparr>)"

definition complete_sync :: "uuid \<Rightarrow> bool \<Rightarrow> 'a sync_db_scheme \<Rightarrow> 'a sync_db_scheme result" where
  "complete_sync i success s =
     bindR (get_sync_job i s) (\<lambda>job.
     let now = clock s; st = completion_status success job;
         s1 = job_update i (\<lambda>j. j\<lparr>sj_status := st, sj_completed := Some now\<rparr>) s;
         s2 = integration_update (sj_integration job) (update_integration_health st now) s1
     in Inr (audit_record None (if st = JOB_FAILED then ''sync.failed'' else ''sync.completed'') ''sync_job'' i []
          [(''status'', JStr (job_status_value st)), (''records_received'', JInt (sj_received job)),
           (''records_created'', JInt (sj_created job)), (''records_updated'', JInt (sj_updated job)),
           (''records_failed'', JInt (sj_failed job)), (''error_count'', JInt (sj_errors job))] [] s2))"

definition cancel_sync :: "uuid \<Rightarrow> 'a sync_db_scheme \<Rightarrow> 'a sync_db_scheme result" where
  "cancel_sync i s =
     bindR (get_sync_job i s) (\<lambda>_. Inr (job_update i (\<lambda>j. j\<lparr>sj_status := JOB_CANCELLED, sj_completed := Some (clock s)\<rparr>) s))"

section \<open>One page\<close>

text \<open>The records of a page: how many were created, updated and failed. One that fails is recorded and passed over.\<close>

fun sync_records ::
  "uuid \<Rightarrow> string \<Rightarrow> ('raw, 'n) adapter \<Rightarrow> ('n, 'a sync_db_scheme) upsert_handler \<Rightarrow> 'raw list \<Rightarrow> int \<times> int \<times> int
   \<Rightarrow> 'a sync_db_scheme \<Rightarrow> ('a sync_db_scheme, int \<times> int \<times> int) attempt" where
  "sync_records i entity A handler [] counts s = (s, Inr counts)"
| "sync_records i entity A handler (raw # rest) (created, updated, failed) s =
     (case (case ad_normalize A entity raw of
         Inl f \<Rightarrow> (s, ad_raw_id A raw, Inl f)
       | Inr n \<Rightarrow> (case handler n s of (s1, r) \<Rightarrow> (s1, (case ad_external A n of Some x \<Rightarrow> Some x | None \<Rightarrow> ad_raw_id A raw), r))) of
        (s1, external, Inr new) \<Rightarrow>
          sync_records i entity A handler rest (if new then (created + 1, updated, failed) else (created, updated + 1, failed)) s1
      | (s1, external, Inl f) \<Rightarrow>
          (case record_error i entity (record_failure_type f) (error_message (failure_error f))
              (if present external then external else None) s1 of
             Inl e \<Rightarrow> (s1, Inl e)
           | Inr s2 \<Rightarrow> sync_records i entity A handler rest (created, updated, failed + 1) s2))"

definition sync_page ::
  "uuid \<Rightarrow> string \<Rightarrow> ('raw, 'n) adapter \<Rightarrow> ('n, 'a sync_db_scheme) upsert_handler \<Rightarrow> 'raw page
   \<Rightarrow> 'a sync_db_scheme \<Rightarrow> 'a sync_db_scheme committed" where
  "sync_page i entity A handler page s = (case sync_records i entity A handler (page_nodes page) (0, 0, 0) s of
     (s1, Inl e) \<Rightarrow> (s1, Some e)
   | (s1, Inr (created, updated, failed)) \<Rightarrow>
       (case record_progress i (int (length (page_nodes page))) created updated 0 failed s1 of
          Inl e \<Rightarrow> (s1, Some e)
        | Inr s2 \<Rightarrow> (s2, None)))"

text \<open>
  Fetching: with a boundary the records changed since, else the whole list. A page number that went stale since the
  last run is forgotten and the crawl starts over; that is tried for the first page of a run only.
\<close>

definition fetch_page ::
  "uuid \<Rightarrow> string \<Rightarrow> ('raw, 'n) adapter \<Rightarrow> instant option \<Rightarrow> bool \<Rightarrow> string option \<Rightarrow> 'a sync_db_scheme
   \<Rightarrow> 'a sync_db_scheme \<times> (failure + 'raw page)" where
  "fetch_page iid entity A since is_first cursor s =
     (let call = (\<lambda>c. case since of Some t \<Rightarrow> ad_fetch_incremental A entity t c | None \<Rightarrow> ad_fetch A entity c);
          s1 = s\<lparr>clock := ad_returns A (clock s)\<rparr>
      in case call cursor (clock s) of
           Inr page \<Rightarrow> (s1, Inr page)
         | Inl f \<Rightarrow>
             if is_first \<and> cursor \<noteq> None \<and> is_integration_error (failure_error f) \<and> failure_details f = Some ''validation_error''
             then let s2 = persist_sync_cursor iid entity None s1
                  in (s2\<lparr>clock := ad_returns A (clock s2)\<rparr>, call None (clock s2))
             else (s1, Inl f))"

section \<open>The run\<close>

text \<open>The state the run ends in and what it raised, if anything.\<close>

partial_function (option) sync_loop ::
  "uuid \<Rightarrow> uuid \<Rightarrow> string \<Rightarrow> ('raw, 'n) adapter \<Rightarrow> ('n, 'a sync_db_scheme) upsert_handler \<Rightarrow> instant option \<Rightarrow> instant \<Rightarrow> bool
   \<Rightarrow> string option \<Rightarrow> 'a sync_db_scheme \<Rightarrow> ('a sync_db_scheme \<times> failure option) option" where
  "sync_loop i iid entity A handler since deadline is_first cursor s =
     (case fetch_page iid entity A since is_first cursor s of
        (s1, Inl f) \<Rightarrow> Some (s1, Some f)
      | (s1, Inr page) \<Rightarrow>
          (case sync_page i entity A handler page s1 of
             (s2, Some e) \<Rightarrow> Some (s2, Some (Failure e None))
           | (s2, None) \<Rightarrow>
               if \<not> page_more page
               then Some (if since = None then mark_backlog_complete iid entity True (persist_sync_cursor iid entity None s2) else s2, None)
               else let s3 = (if since = None then persist_sync_cursor iid entity (page_next page) s2 else s2)
                    in if deadline \<le> clock s3 then Some (s3, None)
                       else sync_loop i iid entity A handler since deadline False (page_next page) s3))"

declare sync_loop.simps [code]

definition max_entity_sync_duration :: int where
  "max_entity_sync_duration = 8 * 60 * 1000000"

definition run_entity_sync ::
  "uuid \<Rightarrow> uuid \<Rightarrow> string \<Rightarrow> sync_type \<Rightarrow> instant option \<Rightarrow> ('raw, 'n) adapter \<Rightarrow> ('n, 'a sync_db_scheme) upsert_handler
   \<Rightarrow> string option \<Rightarrow> bool \<Rightarrow> 'a sync_db_scheme \<Rightarrow> ('a sync_db_scheme \<times> failure option) option" where
  "run_entity_sync i iid entity ty since A handler resume_cursor known_complete s =
     (let incremental = (ty = INCREMENTAL_SYNC \<and> since \<noteq> None \<and> resume_cursor = None \<and> known_complete)
      in sync_loop i iid entity A handler (if incremental then since else None) (clock s + max_entity_sync_duration) True
           (if incremental then None else resume_cursor) s)"

definition fail_job :: "uuid \<Rightarrow> string \<Rightarrow> string \<Rightarrow> string \<Rightarrow> 'a sync_db_scheme \<Rightarrow> ('a sync_db_scheme, uuid) attempt" where
  "fail_job i entity error_type message s = (case record_error i entity error_type message None s of
     Inl e \<Rightarrow> (s, Inl e)
   | Inr s1 \<Rightarrow> (case complete_sync i False s1 of Inl e \<Rightarrow> (s1, Inl e) | Inr s2 \<Rightarrow> (s2, Inr i)))"

text \<open>The incremental boundary of an entity: the end of its last job that got through.\<close>

definition since_of :: "'a sync_db_scheme \<Rightarrow> uuid \<Rightarrow> string \<Rightarrow> instant option" where
  "since_of s iid entity = Option.bind (get_last_successful_for_entity s iid entity) sj_completed"

definition execute_sync ::
  "(string \<Rightarrow> ('raw, 'n) adapter option) \<Rightarrow> (string \<Rightarrow> ('n, 'a sync_db_scheme) upsert_handler option) \<Rightarrow> uuid
   \<Rightarrow> 'a sync_db_scheme \<Rightarrow> ('a sync_db_scheme, uuid) attempt option" where
  "execute_sync adapters handlers i s = (case job_by s i of
     None \<Rightarrow> Some (s, Inl (NotFoundError ''Sync job not found.''))
   | Some job \<Rightarrow> (case mark_running i s of
       Inl e \<Rightarrow> Some (s, Inl e)
     | Inr s1 \<Rightarrow>
         let entity = sj_entity job; iid = sj_integration job;
             found = integration_by s1 iid;
             since = (if found = None then None else since_of s1 iid entity);
             resume = Option.bind found (\<lambda>n. map_of (in_cursors n) entity);
             known = (case found of None \<Rightarrow> False | Some n \<Rightarrow> backlog_known_complete_for n entity since resume)
         in (case Option.bind found (\<lambda>n. adapters (in_code n)) of
               None \<Rightarrow> Some (fail_job i entity ''integration_error'' ''No adapter registered for integration.'' s1)
             | Some A \<Rightarrow> (case handlers entity of
                 None \<Rightarrow> Some (fail_job i entity ''validation_error'' ''No sync handler registered for entity_type.'' s1)
               | Some handler \<Rightarrow>
                   map_option (\<lambda>(s2, raised). case raised of
                       Some f \<Rightarrow> fail_job i entity (page_failure_type f) (error_message (failure_error f)) s2
                     | None \<Rightarrow> (case complete_sync i True s2 of Inl e \<Rightarrow> (s2, Inl e) | Inr s3 \<Rightarrow> (s3, Inr i)))
                   (run_entity_sync i iid entity (sj_type job) since A handler resume known s1)))))"

text \<open>
  \<open>run_sync\<close>: a job that is active already is left alone. It tries again should that job be gone in the meantime; the
  interleavings of the attempts come one by one.
\<close>

partial_function (option) run_sync ::
  "(string \<Rightarrow> ('raw, 'n) adapter option) \<Rightarrow> (string \<Rightarrow> ('n, 'a sync_db_scheme) upsert_handler option)
   \<Rightarrow> ('a sync_db_scheme \<Rightarrow> 'a sync_db_scheme) list \<Rightarrow> uuid \<Rightarrow> sync_type \<Rightarrow> string \<Rightarrow> 'a sync_db_scheme \<Rightarrow> ('a sync_db_scheme, uuid) attempt option" where
  "run_sync adapters handlers meanwhiles iid ty entity s =
     (case start_sync (case meanwhiles of [] \<Rightarrow> id | meanwhile # _ \<Rightarrow> meanwhile) iid ty entity None s of
        (s1, Inr i) \<Rightarrow> execute_sync adapters handlers i s1
      | (s1, Inl (ConflictError m)) \<Rightarrow> (case get_active_for_entity s1 iid entity of
          None \<Rightarrow> run_sync adapters handlers (tl meanwhiles) iid ty entity s1
        | Some existing \<Rightarrow> Some (s1, Inr (sj_id existing)))
      | (s1, Inl e) \<Rightarrow> Some (s1, Inl e))"

declare run_sync.simps [code]

section \<open>Retries\<close>

definition non_retryable_error_types :: "string list" where
  "non_retryable_error_types = [''authentication_error'', ''authorization_error'', ''invalid_payload'', ''validation_error'',
     ''not_found'', ''permanent_error'']"

record retry_policy =
  max_retries :: int
  base_delay_seconds :: rat
  max_delay_seconds :: rat
  backoff_multiplier :: rat

definition default_retry_policy :: retry_policy where
  "default_retry_policy = \<lparr>max_retries = 5, base_delay_seconds = 60, max_delay_seconds = 3600, backoff_multiplier = 2\<rparr>"

definition is_retryable_error_type :: "string \<Rightarrow> bool" where
  "is_retryable_error_type t \<longleftrightarrow> t \<notin> set non_retryable_error_types"

definition should_retry :: "retry_policy \<Rightarrow> string \<Rightarrow> int \<Rightarrow> bool" where
  "should_retry policy error_type retry_count = (if max_retries policy \<le> retry_count then False else is_retryable_error_type error_type)"

text \<open>The floating-point product is exact for the default policy up to the cap.\<close>

definition compute_backoff_seconds :: "retry_policy \<Rightarrow> int \<Rightarrow> rat" where
  "compute_backoff_seconds policy attempt =
     min (base_delay_seconds policy * backoff_multiplier policy ^ nat (max (attempt - 1) 0)) (max_delay_seconds policy)"

definition error_update :: "uuid \<Rightarrow> (sync_error \<Rightarrow> sync_error) \<Rightarrow> 'a sync_db_scheme \<Rightarrow> 'a sync_db_scheme" where
  "error_update i f s = s\<lparr>sync_errors := set_where (\<lambda>r. sx_id r = i) f (sync_errors s)\<rparr>"

text \<open>The errors to look at were read once, at the start; how many syncs were run.\<close>

fun retry_errors ::
  "(string \<Rightarrow> ('raw, 'n) adapter option) \<Rightarrow> (string \<Rightarrow> ('n, 'a sync_db_scheme) upsert_handler option) \<Rightarrow> uuid list \<Rightarrow> nat
   \<Rightarrow> 'a sync_db_scheme \<Rightarrow> ('a sync_db_scheme, nat) attempt option" where
  "retry_errors adapters handlers [] retried s = Some (s, Inr retried)"
| "retry_errors adapters handlers (x # xs) retried s =
     (case row_by sx_id (sync_errors s) x of
        None \<Rightarrow> retry_errors adapters handlers xs retried s
      | Some e \<Rightarrow>
          if \<not> should_retry default_retry_policy (sx_type e) (sx_retries e) then retry_errors adapters handlers xs retried s
          else (case job_by s (sx_job e) of
            None \<Rightarrow> retry_errors adapters handlers xs retried s
          | Some job \<Rightarrow>
              Option.bind (run_sync adapters handlers [] (sj_integration job) (sj_type job) (sj_entity job)
                  (error_update x (\<lambda>r. r\<lparr>sx_retries := sx_retries r + 1\<rparr>) s))
                (\<lambda>outcome. case outcome of
                   (s1, Inl e) \<Rightarrow> Some (s1, Inl e)
                 | (s1, Inr _) \<Rightarrow> retry_errors adapters handlers xs (retried + 1) s1)))"

definition retry_failed_syncs ::
  "(string \<Rightarrow> ('raw, 'n) adapter option) \<Rightarrow> (string \<Rightarrow> ('n, 'a sync_db_scheme) upsert_handler option)
   \<Rightarrow> 'a sync_db_scheme \<Rightarrow> ('a sync_db_scheme, nat) attempt option" where
  "retry_failed_syncs adapters handlers s =
     retry_errors adapters handlers (map sx_id (filter (\<lambda>e. \<not> sx_resolved e) (sync_errors s))) 0 s"

section \<open>Scheduled tasks\<close>

definition stale_sync_job_threshold :: int where
  "stale_sync_job_threshold = 20 * 60 * 1000000"

definition reap_job :: "string \<Rightarrow> sync_job \<Rightarrow> 'a sync_db_scheme \<Rightarrow> 'a sync_db_scheme result" where
  "reap_job message j s = bindR (record_error (sj_id j) (sj_entity j) ''orphaned'' message None s) (complete_sync (sj_id j) False)"

definition reap_stale_sync_jobs :: "'a sync_db_scheme \<Rightarrow> 'a sync_db_scheme result" where
  "reap_stale_sync_jobs s =
     (let cutoff = clock s - stale_sync_job_threshold
      in bindR (for_each (reap_job ''Sync job marked failed by the stale-job reaper: no progress'') (get_stale_running cutoff s) s)
           (for_each (reap_job ''Sync job marked failed by the stale-job reaper: still QUEUED'') (get_stale_queued cutoff s)))"

definition scheduled_sync_entities :: "(string \<times> string list) list" where
  "scheduled_sync_entities = [(''shopify'', [''orders'', ''customers'', ''products'', ''abandoned_checkouts'']),
     (''shiprocket'', [''shipments'', ''ndr''])]"

text \<open>What a beat puts on the queue: a full sync until the backlog of the entity is known to be complete.\<close>

definition run_scheduled_sync :: "(string \<Rightarrow> ('raw, 'n) adapter option) \<Rightarrow> 'a sync_db_scheme \<Rightarrow> (uuid \<times> sync_type \<times> string) list" where
  "run_scheduled_sync adapters s = concat (map (\<lambda>n. case map_of scheduled_sync_entities (in_code n) of
       None \<Rightarrow> []
     | Some entities \<Rightarrow>
         if adapters (in_code n) = None then []
         else map (\<lambda>entity.
           let since = since_of s (in_id n) entity; resume = map_of (in_cursors n) entity
           in (in_id n, if backlog_known_complete_for n entity since resume then INCREMENTAL_SYNC else FULL_SYNC, entity)) entities)
     (integrations s))"

end
