(* ===== verification/Entity_Sync.thy ===== *)
theory Entity_Sync
  imports Sync Telecalling
begin

text \<open>
  The upserts the engine hands a normalized record to: \<open>app/integrations/entity_sync.py\<close>. Customers, products and
  checkouts are a parameter; orders, NDRs, shipments and refunds are the operations of the
  theories below.
\<close>

record synced_ndr =
  sn_source :: string
  sn_external :: string
  sn_awb :: "string option"
  sn_reason :: "string option"
  sn_attempt :: "int option"

record synced_shipment =
  sp_source :: string
  sp_external :: string
  sp_channel_order :: "string option"
  sp_shiprocket_order :: "string option"
  sp_fields :: shipment_fields

record synced_refund =
  sr_source :: string
  sr_external :: string
  sr_order_external :: "string option"
  sr_amount :: rat
  sr_reason :: "string option"
  sr_status :: refund_status
  sr_initiated :: "instant option"
  sr_completed :: "instant option"

datatype synced_entity = Synced_order synced_order | Synced_ndr synced_ndr | Synced_shipment synced_shipment | Synced_refund synced_refund

text \<open>What \<open>GET /orders/show\<close> says of an order: its \<open>channel_order_id\<close> and its \<open>api_order_id\<close>.\<close>

type_synonym order_lookup = "string \<Rightarrow> failure + (string option \<times> string option)"

definition unmatched_message :: string where
  "unmatched_message = ''No OMS order found for Shiprocket shipment''"

definition get_latest_for_entity_and_external_id :: "'a sync_db_scheme \<Rightarrow> string \<Rightarrow> string \<Rightarrow> sync_error option" where
  "get_latest_for_entity_and_external_id s entity ext =
     latest_by sx_created_at (filter (\<lambda>e. sx_entity e = entity \<and> sx_external e = Some ext) (sync_errors s))"

definition confirmed_unmatched :: "'a sync_db_scheme \<Rightarrow> string \<Rightarrow> bool" where
  "confirmed_unmatched s ext \<longleftrightarrow> ext \<noteq> [] \<and>
     (case get_latest_for_entity_and_external_id s ''shipments'' ext of
        None \<Rightarrow> False
      | Some e \<Rightarrow> sx_type e = ''validation_error'' \<and> take (length unmatched_message) (sx_message e) = unmatched_message
          \<and> \<not> contains ''orders_show_lookup_failed'' (sx_message e))"

text \<open>The order of a shipment nobody knows; \<open>lookup\<close> is the live call, where an adapter that has it is registered.\<close>

definition shipment_order :: "order_lookup option \<Rightarrow> synced_shipment \<Rightarrow> 'a sync_db_scheme \<Rightarrow> failure + order" where
  "shipment_order lookup d s =
     (let unmatched = Inl (Failure (NotFoundError unmatched_message) (Some ''validation_error''))
      in case resolve_order_by_channel_order_id s (sp_channel_order d) of
           Some ord \<Rightarrow> Inr ord
         | None \<Rightarrow>
             if \<not> present (sp_shiprocket_order d) \<or> confirmed_unmatched s (sp_external d) then unmatched
             else (case lookup of
               None \<Rightarrow> unmatched
             | Some show_order \<Rightarrow> (case show_order (the (sp_shiprocket_order d)) of
                 Inl f \<Rightarrow> Inl f
               | Inr (channel, api) \<Rightarrow> (case resolve_order_by_channel_order_id s channel of
                   Some ord \<Rightarrow> Inr ord
                 | None \<Rightarrow> (case resolve_shopify_order_by_api_order_id s api of Some ord \<Rightarrow> Inr ord | None \<Rightarrow> unmatched)))))"

text \<open>An upsert that raises has written nothing.\<close>

definition upserted :: "'s \<Rightarrow> ((uuid \<times> bool) \<times> 's) result \<Rightarrow> string option \<Rightarrow> 's \<times> (failure + bool)" where
  "upserted s outcome details = (case outcome of
     Inl e \<Rightarrow> (s, Inl (Failure e details))
   | Inr ((_, created), s1) \<Rightarrow> (s1, Inr created))"

definition upsert_shipment :: "order_lookup option \<Rightarrow> synced_shipment \<Rightarrow> 'a sync_db_scheme \<Rightarrow> 'a sync_db_scheme \<times> (failure + bool)" where
  "upsert_shipment lookup d s =
     (let write = (\<lambda>oid. upserted s (upsert_synced_shipment (sp_source d) (sp_external d) oid (sp_fields d) s) None)
      in case (if sp_source d \<noteq> [] \<and> sp_external d \<noteq> []
            then by_external shp_source shp_external (shipments s) (sp_source d) (sp_external d) else None) of
           Some existing \<Rightarrow> write (shp_order existing)
         | None \<Rightarrow> (case shipment_order lookup d s of Inl f \<Rightarrow> (s, Inl f) | Inr ord \<Rightarrow> write (o_id ord)))"

definition upsert_ndr :: "synced_ndr \<Rightarrow> 'a sync_db_scheme \<Rightarrow> 'a sync_db_scheme \<times> (failure + bool)" where
  "upsert_ndr d s = upserted s (upsert_synced_ndr (sn_source d) (sn_external d) (sn_awb d) (sn_reason d) (sn_attempt d) s)
     (Some ''dependency_not_ready'')"

definition upsert_order :: "gateways \<Rightarrow> synced_order \<Rightarrow> 'a sync_db_scheme \<Rightarrow> 'a sync_db_scheme \<times> (failure + bool)" where
  "upsert_order g d s = upserted s (upsert_synced_order g d s) None"

definition upsert_refund :: "synced_refund \<Rightarrow> 'a sync_db_scheme \<Rightarrow> 'a sync_db_scheme \<times> (failure + bool)" where
  "upsert_refund d s =
     (case (if present (sr_order_external d)
          then by_external o_source o_external (orders s) (sr_source d) (the (sr_order_external d)) else None) of
        None \<Rightarrow> (s, Inl (Failure (NotFoundError ''No OMS order found for Shopify refund'') None))
      | Some ord \<Rightarrow>
          let payment = map_option pay_id (by_external pay_source pay_external (payments s) (sr_source d) (the (sr_order_external d)));
              write = (\<lambda>r. r\<lparr>rf_order := o_id ord, rf_payment := payment, rf_amount := sr_amount d, rf_reason := sr_reason d,
                 rf_status := sr_status d, rf_initiated_at := sr_initiated d, rf_completed_at := sr_completed d\<rparr>)
          in (case by_external rf_source rf_external (refunds s) (sr_source d) (sr_external d) of
                Some r \<Rightarrow> (s\<lparr>refunds := set_where (\<lambda>x. rf_id x = rf_id r) write (refunds s)\<rparr>, Inr False)
              | None \<Rightarrow> (fresh (s\<lparr>refunds := refunds s @ [write \<lparr>rf_id = next_id s, rf_order = o_id ord, rf_return = None,
                  rf_amount = 0, rf_reason = None, rf_status = RF_PENDING, rf_initiated_at = None, rf_source = sr_source d,
                  rf_payment = None, rf_completed_at = None, rf_external = Some (sr_external d)\<rparr>]\<rparr>), Inr True)))"

text \<open>
  A normalized record of another entity lacks the handler's arguments. \<open>others\<close> are the upserts of the entities that
  are not modelled.
\<close>

definition entity_upsert_handlers ::
  "gateways \<Rightarrow> order_lookup option \<Rightarrow> (string \<Rightarrow> (synced_entity, 'a sync_db_scheme) upsert_handler) \<Rightarrow> string
   \<Rightarrow> (synced_entity, 'a sync_db_scheme) upsert_handler option" where
  "entity_upsert_handlers g lookup others entity =
     (let mismatch = (\<lambda>s. (s, Inl (Failure (KeyError ''normalized'') None)))
      in if entity = ''orders'' then Some (\<lambda>n s. case n of Synced_order d \<Rightarrow> upsert_order g d s | _ \<Rightarrow> mismatch s)
         else if entity = ''ndr'' then Some (\<lambda>n s. case n of Synced_ndr d \<Rightarrow> upsert_ndr d s | _ \<Rightarrow> mismatch s)
         else if entity = ''shipments'' then Some (\<lambda>n s. case n of Synced_shipment d \<Rightarrow> upsert_shipment lookup d s | _ \<Rightarrow> mismatch s)
         else if entity = ''refunds'' then Some (\<lambda>n s. case n of Synced_refund d \<Rightarrow> upsert_refund d s | _ \<Rightarrow> mismatch s)
         else if entity = ''customers'' \<or> entity = ''products'' \<or> entity = ''abandoned_checkouts'' then Some (others entity)
         else None)"

end
