(* ===== verification/Sync_Facts.thy ===== *)
theory Sync_Facts
  imports Entity_Sync
begin

text \<open>
  Lemmas on the synchronisation engine: the contract of an upsert, as a locale that the upserts of the model meet; what a
  page and a whole run do to the tables; that the loop ends.
\<close>

section \<open>Rows\<close>

lemma sync_frame [simp]:
  "sync_errors (job_update i f s) = sync_errors s" "integrations (job_update i f s) = integrations s"
  "clock (job_update i f s) = clock s" "next_id (job_update i f s) = next_id s"
  "sync_jobs (integration_update k g s) = sync_jobs s" "sync_errors (integration_update k g s) = sync_errors s"
  "clock (integration_update k g s) = clock s" "next_id (integration_update k g s) = next_id s"
  "sync_jobs (audit_record u a t e p n m s) = sync_jobs s" "sync_errors (audit_record u a t e p n m s) = sync_errors s"
  "integrations (audit_record u a t e p n m s) = integrations s"
  "sync_jobs (fresh s) = sync_jobs s" "sync_errors (fresh s) = sync_errors s" "integrations (fresh s) = integrations s"
  by (simp_all add: job_update_def integration_update_def audit_record_def fresh_def)

lemma cursor_frame [simp]:
  "sync_jobs (persist_sync_cursor iid e c s) = sync_jobs s" "sync_errors (persist_sync_cursor iid e c s) = sync_errors s"
  "clock (persist_sync_cursor iid e c s) = clock s" "next_id (persist_sync_cursor iid e c s) = next_id s"
  "sync_jobs (mark_backlog_complete iid e b s) = sync_jobs s" "sync_errors (mark_backlog_complete iid e b s) = sync_errors s"
  "clock (mark_backlog_complete iid e b s) = clock s" "next_id (mark_backlog_complete iid e b s) = next_id s"
  by (simp_all add: persist_sync_cursor_def mark_backlog_complete_def split: option.split)

lemma job_by_simps [simp]:
  "job_by (integration_update k g s) = job_by s" "job_by (audit_record u a t e p n m s) = job_by s" "job_by (fresh s) = job_by s"
  "job_by (persist_sync_cursor iid ent c s) = job_by s" "job_by (mark_backlog_complete iid ent b s) = job_by s"
  "job_by (s\<lparr>clock := c'\<rparr>) = job_by s" "job_by (s\<lparr>sync_errors := xs\<rparr>) = job_by s"
  by (simp_all add: job_by_def fun_eq_iff)

definition touch :: "instant \<Rightarrow> (sync_job \<Rightarrow> sync_job) \<Rightarrow> sync_job \<Rightarrow> sync_job" where
  "touch now f r = (if f r = r then r else (f r)\<lparr>sj_updated_at := now\<rparr>)"

lemma touch_simps [simp]:
  "sj_id (touch now f r) = sj_id (f r)" "sj_integration (touch now f r) = sj_integration (f r)"
  "sj_type (touch now f r) = sj_type (f r)" "sj_entity (touch now f r) = sj_entity (f r)"
  "sj_status (touch now f r) = sj_status (f r)" "sj_started (touch now f r) = sj_started (f r)"
  "sj_completed (touch now f r) = sj_completed (f r)" "sj_received (touch now f r) = sj_received (f r)"
  "sj_created (touch now f r) = sj_created (f r)" "sj_updated (touch now f r) = sj_updated (f r)"
  "sj_skipped (touch now f r) = sj_skipped (f r)" "sj_failed (touch now f r) = sj_failed (f r)"
  "sj_errors (touch now f r) = sj_errors (f r)" "sj_created_at (touch now f r) = sj_created_at (f r)"
  by (simp_all add: touch_def)

lemma job_update_jobs: "sync_jobs (job_update i f s) = set_where (\<lambda>r. sj_id r = i) (touch (clock s) f) (sync_jobs s)"
  by (simp add: job_update_def touch_def [abs_def])

lemma job_by_update:
  "(\<And>r. sj_id (f r) = sj_id r) \<Longrightarrow>
    job_by (job_update i f s) k = (if k = i then map_option (touch (clock s) f) (job_by s i) else job_by s k)"
  by (simp add: job_by_def job_update_jobs row_by_set_where)

lemma job_by_id [dest]: "job_by s i = Some j \<Longrightarrow> sj_id j = i"
  by (auto simp: job_by_def)

lemma get_sync_job_simps:
  "job_by s i = Some j \<Longrightarrow> get_sync_job i s = Inr j"
  "job_by s i = None \<Longrightarrow> get_sync_job i s = Inl (NotFoundError ''Sync job not found.'')"
  by (simp_all add: get_sync_job_def)

section \<open>The work of one job\<close>

text \<open>What a run may change of its own job before it is completed, and that its counts stay consistent.\<close>

definition progress :: "sync_job \<Rightarrow> sync_job \<Rightarrow> bool" where
  "progress r r' \<longleftrightarrow> sj_id r' = sj_id r \<and> sj_integration r' = sj_integration r \<and> sj_type r' = sj_type r \<and> sj_entity r' = sj_entity r
     \<and> sj_status r' = sj_status r \<and> sj_created_at r' = sj_created_at r \<and> sj_skipped r' = sj_skipped r
     \<and> sj_received r' - sj_received r = (sj_created r' - sj_created r) + (sj_updated r' - sj_updated r) + (sj_failed r' - sj_failed r)
     \<and> sj_errors r' - sj_errors r = sj_failed r' - sj_failed r
     \<and> sj_created r \<le> sj_created r' \<and> sj_updated r \<le> sj_updated r' \<and> sj_failed r \<le> sj_failed r'"

lemma progress_refl [simp]: "progress r r"
  by (simp add: progress_def)

lemma progress_trans: "progress a b \<Longrightarrow> progress b c \<Longrightarrow> progress a c"
  by (simp add: progress_def)

definition errors_of :: "'a sync_db_scheme \<Rightarrow> uuid \<Rightarrow> sync_error list" where
  "errors_of s i = filter (\<lambda>e. sx_job e = i) (sync_errors s)"

text \<open>One record of a page, seen from the job: it moves by one count, and a failure by one error row as well.\<close>

definition works :: "uuid \<Rightarrow> 'a sync_db_scheme \<Rightarrow> 'a sync_db_scheme \<Rightarrow> bool" where
  "works i s s' \<longleftrightarrow> (\<exists>g. sync_jobs s' = set_where (\<lambda>r. sj_id r = i) g (sync_jobs s)
       \<and> (\<forall>r. sj_id (g r) = sj_id r \<and> sj_integration (g r) = sj_integration r \<and> sj_entity (g r) = sj_entity r
            \<and> sj_status (g r) = sj_status r \<and> sj_created_at (g r) = sj_created_at r))
     \<and> clock s \<le> clock s' \<and> next_id s \<le> next_id s'
     \<and> (\<exists>new. sync_errors s' = sync_errors s @ new \<and> (\<forall>e\<in>set new. sx_job e = i))"

lemma set_where_comp: "(\<And>r. P (g r) = P r) \<Longrightarrow> set_where P f (set_where P g rows) = set_where P (f \<circ> g) rows"
  by (simp add: set_where_def)

lemma set_where_same [simp]: "set_where P (\<lambda>r. r) rows = rows"
  by (simp add: set_where_def map_idI)

lemma works_refl [simp]: "works i s s"
  unfolding works_def by (intro conjI exI [of _ "\<lambda>r. r"]) simp_all

lemma works_trans:
  assumes "works i s t" and "works i t u"
  shows "works i s u"
proof -
  obtain g h where g: "sync_jobs t = set_where (\<lambda>r. sj_id r = i) g (sync_jobs s)" "sync_jobs u = set_where (\<lambda>r. sj_id r = i) h (sync_jobs t)"
      "\<And>r. sj_id (g r) = sj_id r \<and> sj_integration (g r) = sj_integration r \<and> sj_entity (g r) = sj_entity r
        \<and> sj_status (g r) = sj_status r \<and> sj_created_at (g r) = sj_created_at r"
      "\<And>r. sj_id (h r) = sj_id r \<and> sj_integration (h r) = sj_integration r \<and> sj_entity (h r) = sj_entity r
        \<and> sj_status (h r) = sj_status r \<and> sj_created_at (h r) = sj_created_at r"
    using assms unfolding works_def by blast
  have "sync_jobs u = set_where (\<lambda>r. sj_id r = i) (h \<circ> g) (sync_jobs s)" using g by (simp add: set_where_comp)
  with g(3,4) assms show ?thesis unfolding works_def by (intro conjI exI [of _ "h \<circ> g"]) fastforce+
qed

lemma works_errors: "works i s s' \<Longrightarrow> k \<noteq> i \<Longrightarrow> errors_of s' k = errors_of s k"
  by (auto simp: works_def errors_of_def)

lemma works_plain:
  "sync_jobs s' = sync_jobs s \<Longrightarrow> sync_errors s' = sync_errors s \<Longrightarrow> clock s \<le> clock s' \<Longrightarrow> next_id s \<le> next_id s' \<Longrightarrow> works i s s'"
  unfolding works_def by (intro conjI exI [of _ "\<lambda>r. r"]) simp_all

lemma job_update_works:
  assumes "\<And>r. sj_id (f r) = sj_id r \<and> sj_integration (f r) = sj_integration r \<and> sj_entity (f r) = sj_entity r
      \<and> sj_status (f r) = sj_status r \<and> sj_created_at (f r) = sj_created_at r"
  shows "works i s (job_update i f s)"
  unfolding works_def job_update_jobs using assms by (intro conjI exI [of _ "touch (clock s) f"]) simp_all

section \<open>The contract of an upsert\<close>

locale upsert_contract =
  fixes handler :: "'n \<Rightarrow> 'a sync_db_scheme \<Rightarrow> 'a sync_db_scheme \<times> (failure + bool)"
  assumes handler_jobs: "sync_jobs (fst (handler n s)) = sync_jobs s"
    and handler_errors: "sync_errors (fst (handler n s)) = sync_errors s"
    and handler_integrations: "integrations (fst (handler n s)) = integrations s"
    and handler_clock: "clock s \<le> clock (fst (handler n s))"
    and handler_ids: "next_id s \<le> next_id (fst (handler n s))"
begin

lemma handler_works:
  assumes "handler n s = (s1, r)"
  shows "works i s s1" "integrations s1 = integrations s" "job_by s1 = job_by s" "errors_of s1 i = errors_of s i"
  using handler_jobs [of n s] handler_errors [of n s] handler_integrations [of n s] handler_clock [of s n] handler_ids [of s n] assms
  by (auto intro: works_plain simp: job_by_def fun_eq_iff errors_of_def)

end

lemma record_error_works:
  assumes "job_by s i = Some j"
  obtains s' where "record_error i entity ty message external s = Inr s'" "works i s s'" "integrations s' = integrations s"
    "job_by s' i = Some (touch (clock s) (\<lambda>j. j\<lparr>sj_errors := sj_errors j + 1\<rparr>) j)"
    "length (errors_of s' i) = Suc (length (errors_of s i))"
proof -
  let ?f = "\<lambda>j. j\<lparr>sj_errors := sj_errors j + 1\<rparr>"
  let ?e = "\<lparr>sx_id = next_id s, sx_job = i, sx_integration = sj_integration j, sx_entity = entity, sx_external = external, sx_type = ty,
    sx_message = take 1000 message, sx_retries = 0, sx_resolved = False, sx_created_at = clock s\<rparr>"
  let ?s1 = "fresh (s\<lparr>sync_errors := sync_errors s @ [?e]\<rparr>)"
  have "record_error i entity ty message external s = Inr (job_update i ?f ?s1)"
    using assms by (simp add: record_error_def get_sync_job_simps)
  moreover have "works i s ?s1"
    unfolding works_def by (intro conjI exI [of _ "\<lambda>r. r"] exI [of _ "[?e]"]) (simp_all add: fresh_def)
  then have "works i s (job_update i ?f ?s1)" by (rule works_trans) (rule job_update_works, simp)
  moreover have "job_by (job_update i ?f ?s1) i = Some (touch (clock s) ?f j)"
    using assms by (simp add: job_by_update)
  moreover have "length (errors_of (job_update i ?f ?s1) i) = Suc (length (errors_of s i))" by (simp add: errors_of_def)
  moreover have "integrations (job_update i ?f ?s1) = integrations s" by simp
  ultimately show thesis by (intro that) simp_all
qed

section \<open>One page\<close>

text \<open>After \<open>n\<close> records the three counts have moved by \<open>n\<close> together, and each failure has left an error row.\<close>

definition tally ::
  "uuid \<Rightarrow> nat \<Rightarrow> 'a sync_db_scheme \<Rightarrow> sync_job \<Rightarrow> int \<times> int \<times> int \<Rightarrow> 'a sync_db_scheme \<Rightarrow> sync_job \<Rightarrow> int \<times> int \<times> int \<Rightarrow> bool" where
  "tally i n s j k s' j' k' \<longleftrightarrow> works i s s' \<and> integrations s' = integrations s \<and> job_by s' i = Some j'
     \<and> fst k \<le> fst k' \<and> fst (snd k) \<le> fst (snd k') \<and> snd (snd k) \<le> snd (snd k')
     \<and> (fst k' - fst k) + (fst (snd k') - fst (snd k)) + (snd (snd k') - snd (snd k)) = int n
     \<and> progress j (j'\<lparr>sj_errors := sj_errors j\<rparr>) \<and> sj_received j' = sj_received j \<and> sj_created j' = sj_created j
     \<and> sj_updated j' = sj_updated j \<and> sj_failed j' = sj_failed j \<and> sj_errors j' = sj_errors j + (snd (snd k') - snd (snd k))
     \<and> int (length (errors_of s' i)) = int (length (errors_of s i)) + (snd (snd k') - snd (snd k))"

lemma tally_refl: "job_by s i = Some j \<Longrightarrow> tally i 0 s j k s j k"
  by (simp add: tally_def progress_def)

lemma tally_trans:
  assumes "tally i n s j k t j1 k1" and "tally i m t j1 k1 u j2 k2"
  shows "tally i (n + m) s j k u j2 k2"
proof -
  have "works i s u" using assms unfolding tally_def by (blast intro: works_trans)
  then show ?thesis using assms unfolding tally_def progress_def by simp
qed

context upsert_contract
begin

lemma sync_records_step:
  assumes "job_by s i = Some j"
  obtains s2 k' j' where "tally i 1 s j k s2 j' k'"
    "sync_records i entity A handler (raw # rest) k s = sync_records i entity A handler rest k' s2"
proof -
  obtain c u f where k: "k = (c, u, f)" by (cases k)
  define out where "out = (case ad_normalize A entity raw of Inl f \<Rightarrow> (s, ad_raw_id A raw, Inl f)
     | Inr n \<Rightarrow> (case handler n s of (s1, r) \<Rightarrow> (s1, (case ad_external A n of Some x \<Rightarrow> Some x | None \<Rightarrow> ad_raw_id A raw), r)))"
  obtain s1 x r where out: "out = (s1, x, r)" by (cases out)
  have s1: "works i s s1 \<and> integrations s1 = integrations s \<and> job_by s1 = job_by s \<and> errors_of s1 i = errors_of s i"
  proof (cases "ad_normalize A entity raw")
    case (Inl f)
    then show ?thesis using out by (auto simp: out_def)
  next
    case (Inr n)
    obtain s' q where h: "handler n s = (s', q)" by fastforce
    then have "s' = s1" using out Inr by (simp add: out_def)
    then show ?thesis using handler_works [OF h] by simp
  qed
  have body: "sync_records i entity A handler (raw # rest) k s = (case out of
        (s1, external, Inr new) \<Rightarrow> sync_records i entity A handler rest (if new then (c + 1, u, f) else (c, u + 1, f)) s1
      | (s1, external, Inl g) \<Rightarrow>
          (case record_error i entity (record_failure_type g) (error_message (failure_error g)) (if present external then external else None) s1 of
             Inl e \<Rightarrow> (s1, Inl e)
           | Inr s2 \<Rightarrow> sync_records i entity A handler rest (c, u, f + 1) s2))"
    by (simp only: k sync_records.simps out_def)
  have job: "job_by s1 i = Some j" using s1 assms by simp
  show thesis
  proof (cases r)
    case (Inr new)
    have "sync_records i entity A handler (raw # rest) k s
        = sync_records i entity A handler rest (if new then (c + 1, u, f) else (c, u + 1, f)) s1"
      unfolding body out Inr by simp
    moreover have "tally i 1 s j k s1 j (if new then (c + 1, u, f) else (c, u + 1, f))"
      using s1 job by (simp add: tally_def k progress_def)
    ultimately show thesis by (intro that)
  next
    case (Inl g)
    from job obtain s2 where e: "record_error i entity (record_failure_type g) (error_message (failure_error g))
        (if present x then x else None) s1 = Inr s2" "works i s1 s2" "integrations s2 = integrations s1"
      "job_by s2 i = Some (touch (clock s1) (\<lambda>j. j\<lparr>sj_errors := sj_errors j + 1\<rparr>) j)"
      "length (errors_of s2 i) = Suc (length (errors_of s1 i))" by (rule record_error_works)
    have "sync_records i entity A handler (raw # rest) k s = sync_records i entity A handler rest (c, u, f + 1) s2"
      unfolding body out Inl using e(1) by (simp only: prod.case sum.case)
    moreover have "works i s s2" using s1 e(2) by (blast intro: works_trans)
    then have "tally i 1 s j k s2 (touch (clock s1) (\<lambda>j. j\<lparr>sj_errors := sj_errors j + 1\<rparr>) j) (c, u, f + 1)"
      using s1 e(3-5) by (simp add: tally_def k progress_def)
    ultimately show thesis by (intro that)
  qed
qed

lemma sync_records_works:
  assumes "job_by s i = Some j"
  shows "\<exists>s' j' k'. sync_records i entity A handler raws k s = (s', Inr k') \<and> tally i (length raws) s j k s' j' k'"
  using assms
proof (induction raws arbitrary: k s j)
  case Nil
  then show ?case using tally_refl [of s i j k] by auto
next
  case (Cons raw raws)
  show ?case
  proof (rule sync_records_step [OF Cons.prems, of k entity A raw raws])
    fix s2 k2 j2
    assume step: "tally i 1 s j k s2 j2 k2"
      "sync_records i entity A handler (raw # raws) k s = sync_records i entity A handler raws k2 s2"
    then have "job_by s2 i = Some j2" by (simp add: tally_def)
    from Cons.IH [OF this, of k2] obtain s' j' k' where
      ih: "sync_records i entity A handler raws k2 s2 = (s', Inr k')" "tally i (length raws) s2 j2 k2 s' j' k'" by blast
    have "tally i (length (raw # raws)) s j k s' j' k'" using tally_trans [OF step(1) ih(2)] by simp
    with step(2) ih(1) show ?thesis by auto
  qed
qed

text \<open>A page of a job that exists never aborts; every record of it is counted once.\<close>

lemma sync_page_works:
  assumes "job_by s i = Some j"
  obtains s' j' where "sync_page i entity A handler page s = (s', None)" "works i s s'" "integrations s' = integrations s"
    "job_by s' i = Some j'" "progress j j'" "sj_received j' = sj_received j + int (length (page_nodes page))"
    "int (length (errors_of s' i)) - sj_errors j' = int (length (errors_of s i)) - sj_errors j"
proof -
  from sync_records_works [OF assms, of entity A "page_nodes page" "(0, 0, 0)"] obtain s1 j1 k1 where
    r: "sync_records i entity A handler (page_nodes page) (0, 0, 0) s = (s1, Inr k1)"
      "tally i (length (page_nodes page)) s j (0, 0, 0) s1 j1 k1" by blast
  obtain c u f where k1: "k1 = (c, u, f)" by (cases k1)
  note t = r(2) [unfolded k1 tally_def]
  let ?f = "\<lambda>j. j\<lparr>sj_received := sj_received j + int (length (page_nodes page)), sj_created := sj_created j + c,
    sj_updated := sj_updated j + u, sj_skipped := sj_skipped j + 0, sj_failed := sj_failed j + f\<rparr>"
  have "sync_page i entity A handler page s = (job_update i ?f s1, None)"
    using r(1) t by (simp add: k1 sync_page_def record_progress_def get_sync_job_simps)
  moreover have "works i s (job_update i ?f s1)"
    using t works_trans [of i s s1 "job_update i ?f s1"] job_update_works [of ?f i s1] by simp
  moreover have "job_by (job_update i ?f s1) i = Some (touch (clock s1) ?f j1)" using t by (simp add: job_by_update)
  moreover have "progress j (touch (clock s1) ?f j1)" using t by (simp add: progress_def)
  moreover have "sj_received (touch (clock s1) ?f j1) = sj_received j + int (length (page_nodes page))" using t by simp
  moreover have "int (length (errors_of (job_update i ?f s1) i)) - sj_errors (touch (clock s1) ?f j1) = int (length (errors_of s i)) - sj_errors j"
    using t by (simp add: errors_of_def)
  moreover have "integrations (job_update i ?f s1) = integrations s" using t by simp
  ultimately show thesis by (intro that)
qed

end

section \<open>The loop\<close>

text \<open>Every call to the provider takes some time.\<close>

definition takes_time :: "('raw, 'n) adapter \<Rightarrow> bool" where
  "takes_time A \<longleftrightarrow> (\<forall>t. t < ad_returns A t)"

lemma fetch_page_frame:
  assumes "fetch_page iid entity A since is_first cursor s = (s1, r)" and "takes_time A"
  shows "works i s s1" "job_by s1 = job_by s" "errors_of s1 k = errors_of s k" "clock s < clock s1"
proof -
  have t: "clock s < ad_returns A (clock s)" "ad_returns A (clock s) < ad_returns A (ad_returns A (clock s))"
    using assms(2) by (simp_all add: takes_time_def)
  have "sync_jobs s1 = sync_jobs s \<and> sync_errors s1 = sync_errors s \<and> next_id s1 = next_id s \<and> clock s < clock s1"
    using assms(1) t by (auto simp: fetch_page_def Let_def split: sum.split_asm if_split_asm)
  then show "works i s s1" "job_by s1 = job_by s" "errors_of s1 k = errors_of s k" "clock s < clock s1"
    by (auto intro: works_plain simp: job_by_def errors_of_def fun_eq_iff)
qed

text \<open>The errors counted by a job are its error rows.\<close>

definition slack :: "'a sync_db_scheme \<Rightarrow> sync_job \<Rightarrow> int" where
  "slack s j = int (length (errors_of s (sj_id j))) - sj_errors j"

context upsert_contract
begin

lemma sync_loop_ends:
  assumes "takes_time A" and "job_by s i = Some j"
  shows "\<exists>s' raised j'. sync_loop i iid entity A handler since deadline is_first cursor s = Some (s', raised)
    \<and> works i s s' \<and> job_by s' i = Some j' \<and> progress j j' \<and> slack s' j' = slack s j"
  using assms(2)
proof (induction "nat (deadline - clock s)" arbitrary: is_first cursor s j rule: less_induct)
  case (less s is_first cursor j)
  let ?loop = "\<lambda>is_first cursor s. sync_loop i iid entity A handler since deadline is_first cursor s"
  obtain s1 r where f: "fetch_page iid entity A since is_first cursor s = (s1, r)" by fastforce
  note frame = fetch_page_frame [OF f assms(1)]
  have j1: "job_by s1 i = Some j" using less.prems frame(2) by simp
  have id: "sj_id j = i" using less.prems by blast
  show ?case
  proof (cases r)
    case (Inl e)
    then have "?loop is_first cursor s = Some (s1, Some e)" using f by (subst sync_loop.simps) simp
    then show ?thesis using frame j1 by (auto simp: slack_def)
  next
    case (Inr page)
    obtain s2 j2 where p: "sync_page i entity A handler page s1 = (s2, None)" "works i s1 s2" "job_by s2 i = Some j2" "progress j j2"
      "int (length (errors_of s2 i)) - sj_errors j2 = int (length (errors_of s1 i)) - sj_errors j"
      using sync_page_works [OF j1, of entity A page] by metis
    have id2: "sj_id j2 = i" using p(3) by blast
    have w2: "works i s s2" using frame(1) p(2) by (rule works_trans)
    have sl2: "slack s2 j2 = slack s j" using p(5) frame(3) [of i] id id2 by (simp add: slack_def)
    show ?thesis
    proof (cases "page_more page")
      case False
      let ?s3 = "if since = None then mark_backlog_complete iid entity True (persist_sync_cursor iid entity None s2) else s2"
      have "?loop is_first cursor s = Some (?s3, None)" using f p(1) Inr False by (subst sync_loop.simps) simp
      moreover have "works i s ?s3" using works_trans [OF w2, of ?s3] by (simp add: works_plain)
      moreover have "job_by ?s3 i = Some j2" "slack ?s3 j2 = slack s j" using p(3) sl2 by (simp_all add: slack_def errors_of_def)
      ultimately show ?thesis using p(4) by blast
    next
      case True
      let ?s3 = "if since = None then persist_sync_cursor iid entity (page_next page) s2 else s2"
      have w3: "works i s ?s3" using works_trans [OF w2, of ?s3] by (simp add: works_plain)
      have j3: "job_by ?s3 i = Some j2" "slack ?s3 j2 = slack s j" using p(3) sl2 by (simp_all add: slack_def errors_of_def)
      have step: "?loop is_first cursor s = (if deadline \<le> clock ?s3 then Some (?s3, None) else ?loop False (page_next page) ?s3)"
        using f p(1) Inr True by (subst sync_loop.simps) (simp add: Let_def)
      show ?thesis
      proof (cases "deadline \<le> clock ?s3")
        case True
        then have "?loop is_first cursor s = Some (?s3, None)" using step by simp
        then show ?thesis using w3 j3 p(4) by blast
      next
        case False
        have "clock s < clock ?s3" using frame(4) p(2) by (auto simp: works_def)
        then have "nat (deadline - clock ?s3) < nat (deadline - clock s)" using False by linarith
        from less.hyps [OF this j3(1), of False "page_next page"] obtain s' raised j' where
          "?loop False (page_next page) ?s3 = Some (s', raised)" "works i ?s3 s'" "job_by s' i = Some j'" "progress j2 j'" "slack s' j' = slack ?s3 j2"
          by blast
        moreover have "?loop is_first cursor s = ?loop False (page_next page) ?s3" using step False by simp
        ultimately have rest: "?loop is_first cursor s = Some (s', raised)" "works i ?s3 s'" "job_by s' i = Some j'" "progress j2 j'"
          "slack s' j' = slack ?s3 j2" by simp_all
        have "works i s s'" using w3 rest(2) by (rule works_trans)
        moreover have "progress j j'" using p(4) rest(4) by (rule progress_trans)
        ultimately show ?thesis using rest(1,3,5) j3(2) by (intro exI [of _ s'] exI [of _ raised] exI [of _ j']) simp
      qed
    qed
  qed
qed

end

section \<open>The whole run\<close>

lemma mark_running_works:
  assumes "mark_running i s = Inr s1" and "job_by s i = Some j"
  shows "job_by s1 i = Some (touch (clock s) (\<lambda>j. j\<lparr>sj_status := JOB_RUNNING, sj_started := Some (clock s)\<rparr>) j)"
    "\<forall>k\<in>set (active_jobs s (sj_integration j) (sj_entity j)). sj_id k = i"
    "sync_jobs s1 = set_where (\<lambda>r. sj_id r = i) (touch (clock s) (\<lambda>j. j\<lparr>sj_status := JOB_RUNNING, sj_started := Some (clock s)\<rparr>)) (sync_jobs s)"
    "sync_errors s1 = sync_errors s" "clock s1 = clock s" "next_id s1 = next_id s"
  using assms by (auto simp: mark_running_def bindR_Inr_iff get_sync_job_simps job_by_update job_update_jobs)

text \<open>A job that ended.\<close>

definition ended :: "sync_job \<Rightarrow> bool" where
  "ended j \<longleftrightarrow> (sj_status j = JOB_COMPLETED \<or> sj_status j = JOB_PARTIAL \<or> sj_status j = JOB_FAILED)
     \<and> sj_completed j \<noteq> None \<and> (sj_status j = JOB_COMPLETED \<longrightarrow> sj_errors j \<le> 0) \<and> (sj_status j = JOB_PARTIAL \<longrightarrow> 0 < sj_errors j)"

definition completes :: "uuid \<Rightarrow> bool \<Rightarrow> 'a sync_db_scheme \<Rightarrow> sync_job \<Rightarrow> 'a sync_db_scheme \<Rightarrow> sync_job \<Rightarrow> bool" where
  "completes i success s j s' j' \<longleftrightarrow> j' = touch (clock s) (\<lambda>r. r\<lparr>sj_status := completion_status success j, sj_completed := Some (clock s)\<rparr>) j
     \<and> sync_jobs s' = set_where (\<lambda>r. sj_id r = i)
         (touch (clock s) (\<lambda>r. r\<lparr>sj_status := completion_status success j, sj_completed := Some (clock s)\<rparr>)) (sync_jobs s)
     \<and> sync_errors s' = sync_errors s \<and> clock s' = clock s \<and> next_id s \<le> next_id s'"

lemma complete_sync_works:
  assumes "job_by s i = Some j"
  obtains s' j' where "complete_sync i success s = Inr s'" "job_by s' i = Some j'" "completes i success s j s' j'" "ended j'"
    "integrations s' = set_where (\<lambda>n. in_id n = sj_integration j)
       (update_integration_health (completion_status success j) (clock s)) (integrations s)"
proof -
  let ?f = "\<lambda>r. r\<lparr>sj_status := completion_status success j, sj_completed := Some (clock s)\<rparr>"
  obtain s' where s': "complete_sync i success s = Inr s'"
    using assms by (simp add: complete_sync_def get_sync_job_simps Let_def)
  have "job_by s' i = Some (touch (clock s) ?f j)"
    using s' assms by (auto simp: complete_sync_def get_sync_job_simps Let_def job_by_update)
  moreover have "completes i success s j s' (touch (clock s) ?f j)"
    using s' assms by (auto simp: complete_sync_def get_sync_job_simps Let_def completes_def job_update_jobs)
  moreover have "ended (touch (clock s) ?f j)" by (auto simp: ended_def completion_status_def)
  moreover have "integrations s' = set_where (\<lambda>n. in_id n = sj_integration j)
       (update_integration_health (completion_status success j) (clock s)) (integrations s)"
    using s' assms by (auto simp: complete_sync_def get_sync_job_simps Let_def integration_update_def audit_record_def fresh_def job_update_def)
  ultimately show thesis using s' by (intro that)
qed

lemma fail_job_works:
  assumes "job_by s i = Some j"
  obtains s1 j1 s' j' where "fail_job i entity ty message s = (s', Inr i)" "works i s s1" "job_by s1 i = Some j1" "slack s1 j1 = slack s j"
    "integrations s1 = integrations s"
    "sj_errors j1 = sj_errors j + 1" "sj_received j1 = sj_received j" "sj_created j1 = sj_created j" "sj_updated j1 = sj_updated j"
    "sj_failed j1 = sj_failed j" "sj_skipped j1 = sj_skipped j" "sj_integration j1 = sj_integration j" "sj_entity j1 = sj_entity j"
    "sj_type j1 = sj_type j" "job_by s' i = Some j'" "completes i False s1 j1 s' j'" "ended j'"
proof -
  have id: "sj_id j = i" using assms by blast
  obtain s1 where e: "record_error i entity ty message None s = Inr s1" "works i s s1" "integrations s1 = integrations s"
    "job_by s1 i = Some (touch (clock s) (\<lambda>j. j\<lparr>sj_errors := sj_errors j + 1\<rparr>) j)"
    "length (errors_of s1 i) = Suc (length (errors_of s i))" using record_error_works [OF assms] .
  obtain s' j' where c: "complete_sync i False s1 = Inr s'" "job_by s' i = Some j'"
    "completes i False s1 (touch (clock s) (\<lambda>j. j\<lparr>sj_errors := sj_errors j + 1\<rparr>) j) s' j'" "ended j'"
    by (rule complete_sync_works [OF e(4), of False])
  show thesis using e c id by (intro that [of s' s1 "touch (clock s) (\<lambda>j. j\<lparr>sj_errors := sj_errors j + 1\<rparr>) j" j']) (simp_all add: fail_job_def slack_def)
qed

text \<open>What a run changes: its own job, whose place in the table stays.\<close>

definition touches :: "uuid \<Rightarrow> 'a sync_db_scheme \<Rightarrow> 'a sync_db_scheme \<Rightarrow> bool" where
  "touches i s s' \<longleftrightarrow> (\<exists>g. sync_jobs s' = set_where (\<lambda>r. sj_id r = i) g (sync_jobs s)
       \<and> (\<forall>r. sj_id (g r) = sj_id r \<and> sj_integration (g r) = sj_integration r \<and> sj_entity (g r) = sj_entity r \<and> sj_created_at (g r) = sj_created_at r))
     \<and> clock s \<le> clock s' \<and> next_id s \<le> next_id s'
     \<and> (\<exists>new. sync_errors s' = sync_errors s @ new \<and> (\<forall>e\<in>set new. sx_job e = i))"

lemma works_touches: "works i s s' \<Longrightarrow> touches i s s'"
  unfolding works_def touches_def by blast

lemma touches_trans:
  assumes "touches i s t" and "touches i t u"
  shows "touches i s u"
proof -
  obtain g h where g: "sync_jobs t = set_where (\<lambda>r. sj_id r = i) g (sync_jobs s)" "sync_jobs u = set_where (\<lambda>r. sj_id r = i) h (sync_jobs t)"
      "\<And>r. sj_id (g r) = sj_id r \<and> sj_integration (g r) = sj_integration r \<and> sj_entity (g r) = sj_entity r \<and> sj_created_at (g r) = sj_created_at r"
      "\<And>r. sj_id (h r) = sj_id r \<and> sj_integration (h r) = sj_integration r \<and> sj_entity (h r) = sj_entity r \<and> sj_created_at (h r) = sj_created_at r"
    using assms unfolding touches_def by blast
  have "sync_jobs u = set_where (\<lambda>r. sj_id r = i) (h \<circ> g) (sync_jobs s)" using g by (simp add: set_where_comp)
  with g(3,4) assms show ?thesis unfolding touches_def by (intro conjI exI [of _ "h \<circ> g"]) fastforce+
qed

lemma mark_running_touches: "mark_running i s = Inr s1 \<Longrightarrow> job_by s i = Some j \<Longrightarrow> touches i s s1"
  unfolding touches_def using mark_running_works [of i s s1 j] by (intro conjI exI [of _ "touch (clock s) (\<lambda>j. j\<lparr>sj_status := JOB_RUNNING, sj_started := Some (clock s)\<rparr>)"]) simp_all

lemma completes_touches: "completes i success s j s' j' \<Longrightarrow> touches i s s'"
  unfolding touches_def completes_def
  by (intro conjI exI [of _ "touch (clock s) (\<lambda>r. r\<lparr>sj_status := completion_status success j, sj_completed := Some (clock s)\<rparr>)"]) auto

text \<open>Counts of a job that was run: every record received is counted once, every failed record left an error.\<close>

definition counted :: "sync_job \<Rightarrow> sync_job \<Rightarrow> bool" where
  "counted r r' \<longleftrightarrow> sj_integration r' = sj_integration r \<and> sj_type r' = sj_type r \<and> sj_entity r' = sj_entity r \<and> sj_skipped r' = sj_skipped r
     \<and> sj_received r' - sj_received r = (sj_created r' - sj_created r) + (sj_updated r' - sj_updated r) + (sj_failed r' - sj_failed r)
     \<and> sj_failed r' - sj_failed r \<le> sj_errors r' - sj_errors r
     \<and> sj_created r \<le> sj_created r' \<and> sj_updated r \<le> sj_updated r' \<and> sj_failed r \<le> sj_failed r'"

lemma progress_counted: "progress a b \<Longrightarrow> counted a b"
  by (simp add: progress_def counted_def)

lemma counted_trans: "counted a b \<Longrightarrow> counted b c \<Longrightarrow> counted a c"
  by (simp add: counted_def)

lemma touch_running_counted [simp]: "counted j (touch now (\<lambda>j. j\<lparr>sj_status := st, sj_started := Some t\<rparr>) j)"
  by (simp add: counted_def)

lemma completes_counted: "completes i success s j s' j' \<Longrightarrow> counted j j' \<and> slack s' j' = slack s j"
  by (simp add: completes_def counted_def slack_def errors_of_def)

lemma fail_job_ends:
  assumes "job_by s i = Some j"
  obtains s' j' where "fail_job i entity ty message s = (s', Inr i)" "touches i s s'" "job_by s' i = Some j'" "counted j j'"
    "slack s' j' = slack s j" "ended j'" "sj_status j' = JOB_FAILED"
proof (rule fail_job_works [OF assms, of entity ty message])
  fix s1 j1 s' j'
  assume f: "fail_job i entity ty message s = (s', Inr i)" "works i s s1" "slack s1 j1 = slack s j"
    "sj_errors j1 = sj_errors j + 1" "sj_received j1 = sj_received j" "sj_created j1 = sj_created j" "sj_updated j1 = sj_updated j"
    "sj_failed j1 = sj_failed j" "sj_skipped j1 = sj_skipped j" "sj_integration j1 = sj_integration j" "sj_entity j1 = sj_entity j"
    "sj_type j1 = sj_type j" "job_by s' i = Some j'" "completes i False s1 j1 s' j'" "ended j'" "job_by s1 i = Some j1"
  have "touches i s s'" using works_touches [OF f(2)] completes_touches [OF f(14)] by (rule touches_trans)
  moreover have "sj_status j' = JOB_FAILED" using f(14) by (simp add: completes_def completion_status_def)
  moreover have "counted j j1" using f(4-12) by (simp add: counted_def)
  then have "counted j j'" using completes_counted [OF f(14)] counted_trans by blast
  moreover have "slack s' j' = slack s j" using completes_counted [OF f(14)] f(3) by simp
  ultimately show thesis using f(1,13,15) by (intro that)
qed

lemma execute_sync_ends:
  assumes time: "\<And>code A. adapters code = Some A \<Longrightarrow> takes_time A"
    and contract: "\<And>entity handler. handlers entity = Some handler \<Longrightarrow> upsert_contract handler"
    and job: "job_by s i = Some j" and running: "mark_running i s = Inr s1"
  shows "\<exists>s' j'. execute_sync adapters handlers i s = Some (s', Inr i) \<and> touches i s s' \<and> job_by s' i = Some j' \<and> counted j j'
    \<and> slack s' j' = slack s j \<and> ended j'"
proof -
  note m = mark_running_works [OF running job]
  let ?j1 = "touch (clock s) (\<lambda>j. j\<lparr>sj_status := JOB_RUNNING, sj_started := Some (clock s)\<rparr>) j"
  have t1: "touches i s s1" using running job by (rule mark_running_touches)
  have sl1: "slack s1 ?j1 = slack s j" using m(4) by (simp add: slack_def errors_of_def)
  have c1: "counted j ?j1" by (simp add: counted_def)
  define iid entity where ie: "iid = sj_integration j" "entity = sj_entity j"
  define found where "found = integration_by s1 iid"
  define since where "since = (if found = None then None else since_of s1 iid entity)"
  define resume where "resume = Option.bind found (\<lambda>n. map_of (in_cursors n) entity)"
  define known where "known = (case found of None \<Rightarrow> False | Some n \<Rightarrow> backlog_known_complete_for n entity since resume)"
  have body: "execute_sync adapters handlers i s = (case Option.bind found (\<lambda>n. adapters (in_code n)) of
        None \<Rightarrow> Some (fail_job i entity ''integration_error'' ''No adapter registered for integration.'' s1)
      | Some A \<Rightarrow> (case handlers entity of
          None \<Rightarrow> Some (fail_job i entity ''validation_error'' ''No sync handler registered for entity_type.'' s1)
        | Some handler \<Rightarrow>
            map_option (\<lambda>(s2, raised). case raised of
                Some f \<Rightarrow> fail_job i entity (page_failure_type f) (error_message (failure_error f)) s2
              | None \<Rightarrow> (case complete_sync i True s2 of Inl e \<Rightarrow> (s2, Inl e) | Inr s3 \<Rightarrow> (s3, Inr i)))
            (run_entity_sync i iid entity (sj_type j) since A handler resume known s1)))"
    by (simp only: execute_sync_def job running option.case sum.case Let_def ie found_def since_def resume_def known_def)
  have failing: ?thesis if "execute_sync adapters handlers i s = Some (fail_job i entity ty message s2)" "touches i s s2"
      "job_by s2 i = Some j2" "counted j j2" "slack s2 j2 = slack s j" for ty message s2 j2
  proof -
    note h = that
    obtain s' j' where f: "fail_job i entity ty message s2 = (s', Inr i)" "touches i s2 s'" "job_by s' i = Some j'" "counted j2 j'"
      "slack s' j' = slack s2 j2" "ended j'" by (rule fail_job_ends [OF h(3), of entity ty message])
    have "touches i s s'" using h(2) f(2) by (rule touches_trans)
    moreover have "counted j j'" using h(4) f(4) by (rule counted_trans)
    ultimately show ?thesis using h(1,5) f(1,3,5,6) by (intro exI [of _ s'] exI [of _ j']) simp
  qed
  show ?thesis
  proof (cases "Option.bind found (\<lambda>n. adapters (in_code n))")
    case None
    then show ?thesis using failing [OF _ t1 m(1) c1 sl1] body by simp
  next
    case (Some A)
    then obtain n :: integration where "adapters (in_code n) = Some A" by (cases found) auto
    then have A: "takes_time A" by (rule time)
    show ?thesis
    proof (cases "handlers entity")
      case None
      then show ?thesis using failing [OF _ t1 m(1) c1 sl1] body Some by simp
    next
      case handler: (Some handler)
      obtain s2 raised j2 where loop: "run_entity_sync i iid entity (sj_type j) since A handler resume known s1 = Some (s2, raised)"
        "works i s1 s2" "job_by s2 i = Some j2" "progress ?j1 j2" "slack s2 j2 = slack s1 ?j1"
        using upsert_contract.sync_loop_ends [OF contract [OF handler] A m(1)] unfolding run_entity_sync_def Let_def by metis
      have t2: "touches i s s2" using t1 works_touches [OF loop(2)] by (rule touches_trans)
      have c2: "counted j j2" using c1 progress_counted [OF loop(4)] by (rule counted_trans)
      have sl2: "slack s2 j2 = slack s j" using loop(5) sl1 by simp
      show ?thesis
      proof (cases raised)
        case (Some f)
        then show ?thesis using failing [OF _ t2 loop(3) c2 sl2] body \<open>Option.bind found _ = Some A\<close> handler loop(1) by simp
      next
        case None
        obtain s' j' where c: "complete_sync i True s2 = Inr s'" "job_by s' i = Some j'" "completes i True s2 j2 s' j'" "ended j'"
          by (rule complete_sync_works [OF loop(3), of True])
        have "execute_sync adapters handlers i s = Some (s', Inr i)"
          using body \<open>Option.bind found _ = Some A\<close> handler loop(1) None c(1) by simp
        moreover have "touches i s s'" using t2 completes_touches [OF c(3)] by (rule touches_trans)
        moreover have "counted j j'" "slack s' j' = slack s j"
          using counted_trans [OF c2] completes_counted [OF c(3)] sl2 by simp_all
        ultimately show ?thesis using c(2,4) by blast
      qed
    qed
  qed
qed

section \<open>The upserts of the model\<close>

text \<open>What the engine keeps beside the tables of the upserts.\<close>

definition sync_side :: "'a sync_db_scheme \<Rightarrow> sync_job list \<times> sync_error list \<times> integration list \<times> instant" where
  "sync_side s = (sync_jobs s, sync_errors s, integrations s, clock s)"

lemma sync_side_frame [simp]:
  "sync_side (fresh s) = sync_side s" "sync_side (order_update k f s) = sync_side s"
  "sync_side (shipment_update k g s) = sync_side s" "sync_side (ndr_update k h s) = sync_side s"
  "sync_side (item_update k q s) = sync_side s" "sync_side (event_create k x st d src actor s) = sync_side s"
  "sync_side (audit_record u a t en p n m s) = sync_side s"
  "sync_side (orders_update fo s) = sync_side s" "sync_side (payments_update fp s) = sync_side s"
  "sync_side (order_items_update fi s) = sync_side s" "sync_side (shipments_update fs s) = sync_side s"
  "sync_side (ndrs_update fn s) = sync_side s" "sync_side (refunds_update fr s) = sync_side s"
  by (simp_all add: sync_side_def fresh_def order_update_def shipment_update_def ndr_update_def item_update_def event_create_def audit_record_def)

lemma validate_order_sync [simp]: "sync_side (validate_order g f oid s) = sync_side s"
  by (simp add: validate_order_def Let_def split: option.split)

lemma item_upsert_sync [simp]: "sync_side (item_upsert src oid i s) = sync_side s"
  by (simp add: item_upsert_def split: option.split)

lemma payment_upsert_sync [simp]: "sync_side (payment_upsert oid d s) = sync_side s"
  by (simp add: payment_upsert_def split: option.split)

lemma items_sync [simp]: "sync_side (foldl (\<lambda>t i. item_upsert src oid i t) s items) = sync_side s"
  by (induction items arbitrary: s) simp_all

lemma sync_rest_sync [simp]: "sync_side (sync_rest g d oid c s) = sync_side s"
  by (simp add: sync_rest_def Let_def)

lemma upsert_order_sync: "sync_side (fst (upsert_order g d s)) = sync_side s"
  by (auto simp: upsert_order_def upserted_def upsert_synced_order_def Let_def bindR_def require_def split: option.split)

lemma upsert_shipment_sync: "sync_side (fst (upsert_shipment lookup d s)) = sync_side s"
  by (auto simp: upsert_shipment_def upserted_def upsert_synced_shipment_def bindR_def require_def Let_def
      split: option.split sum.split)

lemma upsert_ndr_sync: "sync_side (fst (upsert_ndr d s)) = sync_side s"
  by (auto simp: upsert_ndr_def upserted_def upsert_synced_ndr_def bindR_def require_some_def Let_def split: option.split sum.split)

lemma upsert_refund_sync: "sync_side (fst (upsert_refund d s)) = sync_side s"
  by (auto simp: upsert_refund_def Let_def split: option.split)

lemma items_ids: "next_id s \<le> next_id (foldl (\<lambda>t i. item_upsert src oid i t) s items)"
proof (induction items arbitrary: s)
  case (Cons i items)
  have "next_id s \<le> next_id (item_upsert src oid i s)" by (auto simp: item_upsert_def item_update_def split: option.split)
  also have "\<dots> \<le> next_id (foldl (\<lambda>t i. item_upsert src oid i t) (item_upsert src oid i s) items)" by (rule Cons.IH)
  finally show ?case by simp
qed simp

lemma sync_rest_ids: "next_id s \<le> next_id (sync_rest g d oid c s)"
proof -
  have "next_id (validate_order g f k t) = next_id t" for f k and t :: "'a order_db_scheme"
    by (simp add: validate_order_def order_update_def Let_def split: option.split)
  moreover have "next_id t \<le> next_id (payment_upsert oid d t)" for t :: "'a order_db_scheme"
    by (auto simp: payment_upsert_def split: option.split)
  ultimately show ?thesis using items_ids [of s "so_source d" oid "so_items d"]
    by (auto simp: sync_rest_def Let_def event_create_def intro: le_SucI order_trans)
qed

lemma sync_side_eq: "sync_side t = sync_side s \<Longrightarrow>
  sync_jobs t = sync_jobs s \<and> sync_errors t = sync_errors s \<and> integrations t = integrations s \<and> clock t = clock s"
  by (simp add: sync_side_def)

lemma upsert_ids:
  "next_id s \<le> next_id (fst (upsert_order g d s))" "next_id s \<le> next_id (fst (upsert_ndr nd s))"
  "next_id s \<le> next_id (fst (upsert_shipment lookup sd s))" "next_id s \<le> next_id (fst (upsert_refund rd s))"
proof -
  show "next_id s \<le> next_id (fst (upsert_order g d s))"
  proof (cases "by_external o_source o_external (orders s) (so_source d) (so_external d)")
    case None
    let ?t = "fresh (s\<lparr>orders := orders s @ [new_synced (next_id s) (find_customer s d) d]\<rparr>)"
    have "fst (upsert_order g d s) \<in> {s, sync_rest g d (next_id s) True ?t}"
      using None by (simp add: upsert_order_def upserted_def upsert_synced_order_def Let_def bindR_def require_def)
    moreover have "Suc (next_id s) \<le> next_id (sync_rest g d (next_id s) True ?t)"
      using sync_rest_ids [of ?t g d "next_id s" True] by simp
    ultimately show ?thesis by auto
  next
    case (Some existing)
    let ?t = "order_update (o_id existing) (sync_existing (find_customer s d) d) s"
    have "fst (upsert_order g d s) \<in> {s, sync_rest g d (o_id existing) False ?t}"
      using Some by (simp add: upsert_order_def upserted_def upsert_synced_order_def Let_def bindR_def require_def)
    moreover have "next_id s \<le> next_id (sync_rest g d (o_id existing) False ?t)"
      using sync_rest_ids [of ?t g d "o_id existing" False] by (simp add: order_update_def)
    ultimately show ?thesis by auto
  qed
  show "next_id s \<le> next_id (fst (upsert_ndr nd s))"
    by (auto simp: upsert_ndr_def upserted_def upsert_synced_ndr_def bindR_def require_some_def Let_def shipment_update_def ndr_update_def
        split: option.split sum.split)
  have ship: "next_id s \<le> next_id (fst (upserted s (upsert_synced_shipment src ext oid f s) det))" for src ext oid f det
  proof (cases "upsert_synced_shipment src ext oid f s")
    case (Inl e)
    then show ?thesis by (simp add: upserted_def)
  next
    case (Inr x)
    obtain i c t where x: "x = ((i, c), t)" by (metis prod.exhaust)
    have "next_id s \<le> next_id t"
    proof (cases "by_external shp_source shp_external (shipments s) src ext")
      case None
      then show ?thesis using Inr unfolding x upsert_synced_shipment_def by (simp add: bindR_Inr_iff) force
    next
      case (Some sh)
      then show ?thesis using Inr unfolding x upsert_synced_shipment_def by (simp add: bindR_Inr_iff) (auto simp: shipment_update_def)
    qed
    then show ?thesis using Inr x by (simp add: upserted_def)
  qed
  have outcome: "fst (case r of Inl f \<Rightarrow> (s, Inl f) | Inr ord \<Rightarrow> w (o_id ord)) \<in> insert s (range (\<lambda>oid. fst (w oid)))"
    for r :: "failure + order" and w :: "uuid \<Rightarrow> 'a sync_db_scheme \<times> (failure + bool)"
    by (cases r) simp_all
  let ?w = "\<lambda>oid. upserted s (upsert_synced_shipment (sp_source sd) (sp_external sd) oid (sp_fields sd) s) None"
  have "fst (case x of Some existing \<Rightarrow> ?w (shp_order existing) | None \<Rightarrow> (case r of Inl f \<Rightarrow> (s, Inl f) | Inr ord \<Rightarrow> ?w (o_id ord)))
      \<in> insert s (range (\<lambda>oid. fst (?w oid)))" for x :: "shipment option" and r :: "failure + order"
    using outcome [of ?w r] by (cases x) simp_all
  then have "fst (upsert_shipment lookup sd s) \<in> insert s (range (\<lambda>oid. fst (?w oid)))"
    unfolding upsert_shipment_def Let_def .
  then show "next_id s \<le> next_id (fst (upsert_shipment lookup sd s))"
    using ship by (elim insertE rangeE) simp_all
  show "next_id s \<le> next_id (fst (upsert_refund rd s))"
    by (auto simp: upsert_refund_def Let_def split: option.split)
qed

interpretation order_upsert: upsert_contract "upsert_order g" for g
  by unfold_locales (simp_all add: sync_side_eq [OF upsert_order_sync] upsert_ids)

interpretation ndr_upsert: upsert_contract upsert_ndr
  by unfold_locales (simp_all add: sync_side_eq [OF upsert_ndr_sync] upsert_ids)

interpretation shipment_upsert: upsert_contract "upsert_shipment lookup" for lookup
  by unfold_locales (simp_all add: sync_side_eq [OF upsert_shipment_sync] upsert_ids)

interpretation refund_upsert: upsert_contract upsert_refund
  by unfold_locales (simp_all add: sync_side_eq [OF upsert_refund_sync] upsert_ids)

text \<open>A handler that answers by an upsert meeting the contract, or by an error.\<close>

lemma guarded_contract:
  assumes h: "upsert_contract h" and f: "\<And>n s. f n s = (s, Inl e) \<or> (\<exists>d. f n s = h d s)"
  shows "upsert_contract f"
proof -
  have "P s (fst (f n s))" if "\<And>d. P s (fst (h d s))" "P s s" for P and n and s :: "'b sync_db_scheme"
    using f [of n s] that by auto
  note by_case = this
  note c = h [unfolded upsert_contract_def]
  show ?thesis
  proof
    fix n and s :: "'b sync_db_scheme"
    show "sync_jobs (fst (f n s)) = sync_jobs s" by (rule by_case [where P = "\<lambda>s t. sync_jobs t = sync_jobs s"]) (simp_all add: c)
    show "sync_errors (fst (f n s)) = sync_errors s" by (rule by_case [where P = "\<lambda>s t. sync_errors t = sync_errors s"]) (simp_all add: c)
    show "integrations (fst (f n s)) = integrations s" by (rule by_case [where P = "\<lambda>s t. integrations t = integrations s"]) (simp_all add: c)
    show "clock s \<le> clock (fst (f n s))" by (rule by_case [where P = "\<lambda>s t. clock s \<le> clock t"]) (simp_all add: c)
    show "next_id s \<le> next_id (fst (f n s))" by (rule by_case [where P = "\<lambda>s t. next_id s \<le> next_id t"]) (simp_all add: c)
  qed
qed

lemma if_SomeE: "(if b then Some x else r) = Some h \<Longrightarrow> (h = x \<Longrightarrow> P) \<Longrightarrow> (r = Some h \<Longrightarrow> P) \<Longrightarrow> P"
  by (cases b) simp_all

text \<open>So every upsert the engine dispatches to meets the contract, if those that are not modelled do.\<close>

lemma entity_handlers_contract:
  assumes others: "\<And>e. upsert_contract (others e)" and h: "entity_upsert_handlers g lookup others entity = Some handler"
  shows "upsert_contract handler"
proof -
  have "upsert_contract (\<lambda>n s. case n of Synced_order d \<Rightarrow> upsert_order g d s | _ \<Rightarrow> (s, Inl e))" for e :: failure
    by (rule guarded_contract [OF order_upsert.upsert_contract_axioms [of g], where e = e]) (auto split: synced_entity.split)
  moreover have "upsert_contract (\<lambda>n s. case n of Synced_ndr d \<Rightarrow> upsert_ndr d s | _ \<Rightarrow> (s, Inl e))" for e :: failure
    by (rule guarded_contract [OF ndr_upsert.upsert_contract_axioms, where e = e]) (auto split: synced_entity.split)
  moreover have "upsert_contract (\<lambda>n s. case n of Synced_shipment d \<Rightarrow> upsert_shipment lookup d s | _ \<Rightarrow> (s, Inl e))" for e :: failure
    by (rule guarded_contract [OF shipment_upsert.upsert_contract_axioms [of lookup], where e = e]) (auto split: synced_entity.split)
  moreover have "upsert_contract (\<lambda>n s. case n of Synced_refund d \<Rightarrow> upsert_refund d s | _ \<Rightarrow> (s, Inl e))" for e :: failure
    by (rule guarded_contract [OF refund_upsert.upsert_contract_axioms, where e = e]) (auto split: synced_entity.split)
  ultimately show ?thesis using h others [of entity] unfolding entity_upsert_handlers_def Let_def
    by (elim if_SomeE) (simp_all only: option.distinct)
qed


section \<open>The books of all jobs\<close>

definition books_ok :: "sync_job \<Rightarrow> bool" where
  "books_ok j \<longleftrightarrow> sj_received j = sj_created j + sj_updated j + sj_skipped j + sj_failed j \<and> sj_failed j \<le> sj_errors j"

definition jobs_ok :: "'a sync_db_scheme \<Rightarrow> bool" where
  "jobs_ok s \<longleftrightarrow> distinct (map sj_id (sync_jobs s)) \<and> (\<forall>j\<in>set (sync_jobs s). sj_id j < next_id s \<and> books_ok j \<and> slack s j = 0)
     \<and> (\<forall>iid entity. length (active_jobs s iid entity) \<le> 1) \<and> (\<forall>e\<in>set (sync_errors s). sx_job e < next_id s)"

text \<open>\<open>start\<close>: what happened between the check and the insert is itself a run.\<close>

inductive sync_run ::
  "(string \<Rightarrow> ('raw, 'n) adapter option) \<Rightarrow> (string \<Rightarrow> ('n, 'a sync_db_scheme) upsert_handler option)
   \<Rightarrow> 'a sync_db_scheme \<Rightarrow> 'a sync_db_scheme \<Rightarrow> bool"
  for adapters handlers where
  idle: "sync_run adapters handlers s s"
| start: "\<lbrakk>sync_run adapters handlers s t; sync_run adapters handlers t u; start_sync (\<lambda>_. u) iid ty entity actor t = (v, r)\<rbrakk>
    \<Longrightarrow> sync_run adapters handlers s v"
| execute: "\<lbrakk>sync_run adapters handlers s t; execute_sync adapters handlers i t = Some (u, r)\<rbrakk> \<Longrightarrow> sync_run adapters handlers s u"
| cancel: "\<lbrakk>sync_run adapters handlers s t; cancel_sync i t = Inr u\<rbrakk> \<Longrightarrow> sync_run adapters handlers s u"
| reap: "\<lbrakk>sync_run adapters handlers s t; reap_stale_sync_jobs t = Inr u\<rbrakk> \<Longrightarrow> sync_run adapters handlers s u"

lemma active_set_where:
  assumes "\<And>r. sj_id (g r) = sj_id r \<and> sj_integration (g r) = sj_integration r \<and> sj_entity (g r) = sj_entity r"
    and "\<And>r. r \<in> set rows \<Longrightarrow> sj_id r = i \<Longrightarrow> active_status (sj_status (g r)) \<Longrightarrow> active_status (sj_status r)"
  shows "length (filter (\<lambda>j. sj_integration j = iid \<and> sj_entity j = entity \<and> active_status (sj_status j)) (set_where (\<lambda>r. sj_id r = i) g rows))
    \<le> length (filter (\<lambda>j. sj_integration j = iid \<and> sj_entity j = entity \<and> active_status (sj_status j)) rows)"
  using assms(2) by (induction rows) (auto simp: set_where_def assms(1))

text \<open>A step that ends, or leaves ended, the job it touches keeps the books.\<close>

lemma touches_ok:
  assumes "touches i s s'" and "jobs_ok s" and "job_by s i = Some j" and "job_by s' i = Some j'"
    and "\<not> active_status (sj_status j')" and "counted j j'" and "slack s' j' = slack s j"
  shows "jobs_ok s'"
proof -
  obtain g new where g: "sync_jobs s' = set_where (\<lambda>r. sj_id r = i) g (sync_jobs s)"
      "\<And>r. sj_id (g r) = sj_id r \<and> sj_integration (g r) = sj_integration r \<and> sj_entity (g r) = sj_entity r \<and> sj_created_at (g r) = sj_created_at r"
    and n: "next_id s \<le> next_id s'" and e: "sync_errors s' = sync_errors s @ new" "\<forall>e\<in>set new. sx_job e = i"
    using assms(1) unfolding touches_def by blast
  have ok: "distinct (map sj_id (sync_jobs s))" "\<And>r. r \<in> set (sync_jobs s) \<Longrightarrow> sj_id r < next_id s \<and> books_ok r \<and> slack s r = 0"
    "\<And>iid entity. length (active_jobs s iid entity) \<le> 1" "\<And>e. e \<in> set (sync_errors s) \<Longrightarrow> sx_job e < next_id s"
    using assms(2) unfolding jobs_ok_def by blast+
  have ids: "map sj_id (sync_jobs s') = map sj_id (sync_jobs s)" using g by (simp add: set_where_keys)
  have j: "j \<in> set (sync_jobs s)" "sj_id j = i" using assms(3) row_by_SomeD unfolding job_by_def by fast+
  have "job_by s' i = map_option g (job_by s i)" using g by (simp add: job_by_def row_by_set_where)
  then have j': "g j = j'" using assms(3,4) by simp
  have unique: "r = j" if "r \<in> set (sync_jobs s)" "sj_id r = i" for r
    using row_by_distinct [OF ok(1) that(1)] row_by_distinct [OF ok(1) j(1)] that(2) j(2) by simp
  have "sj_id r < next_id s' \<and> books_ok r \<and> slack s' r = 0" if "r \<in> set (sync_jobs s')" for r
  proof (cases "sj_id r = i")
    case True
    from that obtain q where q: "q \<in> set (sync_jobs s)" "r = (if sj_id q = i then g q else q)"
      unfolding g(1) set_where_def by auto
    with True have "sj_id q = i" using g(2) [of q] by (simp split: if_split_asm)
    with q have "q \<in> set (sync_jobs s)" "sj_id q = i" "r = g q" by simp_all
    then have "r = j'" using unique j' by blast
    moreover have "books_ok j'" using ok(2) [OF j(1)] assms(6) by (auto simp: books_ok_def counted_def)
    moreover have "slack s' j' = 0" using assms(7) ok(2) [OF j(1)] by simp
    moreover have "sj_id j' < next_id s'" using g(2) [of j] j' ok(2) [OF j(1)] n by simp
    ultimately show ?thesis by blast
  next
    case False
    from that obtain q where q: "q \<in> set (sync_jobs s)" "r = (if sj_id q = i then g q else q)"
      unfolding g(1) set_where_def by auto
    with False have "r \<in> set (sync_jobs s)" using g(2) [of q] by (simp split: if_split_asm)
    moreover have "errors_of s' (sj_id r) = errors_of s (sj_id r)" using e False by (auto simp: errors_of_def)
    ultimately show ?thesis using ok(2) [of r] n by (simp add: slack_def)
  qed
  moreover have "length (active_jobs s' iid entity) \<le> 1" for iid entity
  proof -
    have "length (active_jobs s' iid entity) \<le> length (active_jobs s iid entity)"
      unfolding active_jobs_def g(1)
    proof (rule active_set_where)
      fix r assume "r \<in> set (sync_jobs s)" "sj_id r = i" "active_status (sj_status (g r))"
      with unique j' assms(5) show "active_status (sj_status r)" by blast
    qed (use g(2) in blast)
    with ok(3) show ?thesis using le_trans by blast
  qed
  moreover have "sx_job x < next_id s'" if "x \<in> set (sync_errors s')" for x
    using that e ok(2) [OF j(1)] ok(4) [of x] j(2) n by auto
  ultimately show ?thesis using ok(1) ids unfolding jobs_ok_def by simp
qed

lemma ended_inactive: "ended j \<Longrightarrow> \<not> active_status (sj_status j)"
  by (auto simp: ended_def active_status_def)

lemma audit_frame_ids [simp]: "next_id s \<le> next_id (audit_record u a t e p n m s)" "clock (audit_record u a t e p n m s) = clock s"
  by (simp_all add: audit_record_def fresh_def)

lemma start_ok:
  assumes start: "start_sync (\<lambda>_. u) iid ty entity actor s = (v, r)" and ok: "jobs_ok s" "jobs_ok u"
  shows "jobs_ok v"
proof (cases "v = s \<or> v = u")
  case True
  then show ?thesis using ok by blast
next
  case False
  let ?j = "\<lparr>sj_id = next_id u, sj_integration = iid, sj_type = ty, sj_entity = entity, sj_status = JOB_QUEUED, sj_started = None,
    sj_completed = None, sj_received = 0, sj_created = 0, sj_updated = 0, sj_skipped = 0, sj_failed = 0, sj_errors = 0,
    sj_created_at = clock u, sj_updated_at = clock u\<rparr>"
  have free: "active_jobs u iid entity = []" and rows: "sync_jobs v = sync_jobs u @ [?j]" "sync_errors v = sync_errors u" "next_id u < next_id v"
    using start False by (auto simp: start_sync_def Let_def audit_record_def fresh_def split: option.split_asm if_split_asm)
  note u = ok(2) [unfolded jobs_ok_def]
  have "errors_of u (next_id u) = []" using u by (auto simp: errors_of_def filter_empty_conv)
  then have "slack v ?j = 0" using rows(2) by (simp add: slack_def errors_of_def)
  moreover have "slack v j = slack u j" for j using rows(2) by (simp add: slack_def errors_of_def)
  moreover have "active_jobs v k e = active_jobs u k e @ (if k = iid \<and> e = entity then [?j] else [])" for k e
    using rows(1) by (auto simp: active_jobs_def active_status_def)
  moreover have "next_id u \<notin> sj_id ` set (sync_jobs u)" using u by auto
  ultimately show ?thesis using u rows free unfolding jobs_ok_def
    by (auto simp: books_ok_def intro: order_less_trans)
qed

lemma integration_ids:
  "map in_id (integrations (integration_update k (update_integration_health st now) s)) = map in_id (integrations s)"
  by (simp add: integration_update_def set_where_keys update_integration_health_def)

text \<open>A step fails the job of a stale row.\<close>

lemma reap_job_works:
  assumes "job_by s (sj_id j0) = Some j"
  obtains s' j' where "reap_job message j0 s = Inr s'" "touches (sj_id j0) s s'" "job_by s' (sj_id j0) = Some j'" "counted j j'"
    "slack s' j' = slack s j" "ended j'" "sj_status j' = JOB_FAILED" "clock s' = clock s"
    "map in_id (integrations s') = map in_id (integrations s)"
proof -
  obtain s1 where e: "record_error (sj_id j0) (sj_entity j0) ''orphaned'' message None s = Inr s1" using assms
    by (rule record_error_works) blast
  obtain s' j' where f: "fail_job (sj_id j0) (sj_entity j0) ''orphaned'' message s = (s', Inr (sj_id j0))" "touches (sj_id j0) s s'"
    "job_by s' (sj_id j0) = Some j'" "counted j j'" "slack s' j' = slack s j" "ended j'" "sj_status j' = JOB_FAILED"
    by (rule fail_job_ends [OF assms, of "sj_entity j0" "''orphaned''" message])
  have "reap_job message j0 s = Inr s'" using e f(1) by (auto simp: reap_job_def fail_job_def split: sum.split_asm)
  moreover have "clock s' = clock s" using calculation
    by (auto simp: reap_job_def record_error_def complete_sync_def bindR_Inr_iff Let_def)
  moreover have "map in_id (integrations s') = map in_id (integrations s)" using calculation(1)
    by (auto simp: reap_job_def record_error_def complete_sync_def bindR_Inr_iff Let_def integration_ids)
  ultimately show thesis using f(2-) by (intro that)
qed

lemma reap_job_ok: "reap_job message j0 s = Inr s' \<Longrightarrow> jobs_ok s \<Longrightarrow> jobs_ok s'"
proof -
  assume reap: "reap_job message j0 s = Inr s'" and ok: "jobs_ok s"
  show "jobs_ok s'"
  proof (cases "job_by s (sj_id j0)")
    case None
    then show ?thesis using reap by (simp add: reap_job_def record_error_def get_sync_job_simps)
  next
    case (Some j)
    from Some show ?thesis
    proof (rule reap_job_works [of s j0 j message])
      fix t j' assume h: "reap_job message j0 s = Inr t" "touches (sj_id j0) s t" "job_by t (sj_id j0) = Some j'" "counted j j'"
        "slack t j' = slack s j" "ended j'"
      show ?thesis using touches_ok [OF h(2) ok Some h(3) ended_inactive [OF h(6)] h(4,5)] reap h(1) by simp
    qed
  qed
qed

lemma reap_ok: "reap_stale_sync_jobs s = Inr s' \<Longrightarrow> jobs_ok s \<Longrightarrow> jobs_ok s'"
  unfolding reap_stale_sync_jobs_def Let_def bindR_Inr_iff
  by (elim exE conjE) (blast intro: for_each_invariant [where I = jobs_ok] reap_job_ok)

lemma cancel_ok:
  assumes "cancel_sync i s = Inr s'" and "jobs_ok s"
  shows "jobs_ok s'"
proof -
  let ?f = "\<lambda>j. j\<lparr>sj_status := JOB_CANCELLED, sj_completed := Some (clock s)\<rparr>"
  obtain j where j: "job_by s i = Some j" and s': "s' = job_update i ?f s"
    using assms(1) by (auto simp: cancel_sync_def bindR_Inr_iff get_sync_job_def)
  have "touches i s s'" unfolding s' touches_def job_update_jobs by (intro conjI exI [of _ "touch (clock s) ?f"]) simp_all
  moreover have "job_by s' i = Some (touch (clock s) ?f j)" using j s' by (simp add: job_by_update)
  ultimately show ?thesis
    by (rule touches_ok [OF _ assms(2) j]) (simp_all add: active_status_def counted_def slack_def errors_of_def s')
qed

lemma sync_run_ok:
  assumes "sync_run adapters handlers s s'" and "jobs_ok s"
    and time: "\<And>code A. adapters code = Some A \<Longrightarrow> takes_time A"
    and contract: "\<And>entity handler. handlers entity = Some handler \<Longrightarrow> upsert_contract handler"
  shows "jobs_ok s'"
  using assms(1,2)
proof induction
  case (execute s t i u r)
  then have t: "jobs_ok t" by blast
  show ?case
  proof (cases "job_by t i")
    case None
    then show ?thesis using execute t by (simp add: execute_sync_def)
  next
    case (Some j)
    show ?thesis
    proof (cases "mark_running i t")
      case (Inl e)
      then show ?thesis using execute t Some by (simp add: execute_sync_def)
    next
      case (Inr t1)
      obtain u' j' where h: "execute_sync adapters handlers i t = Some (u', Inr i)" "touches i t u'" "job_by u' i = Some j'" "counted j j'"
        "slack u' j' = slack t j" "ended j'"
      proof -
        have "\<exists>u' j'. execute_sync adapters handlers i t = Some (u', Inr i) \<and> touches i t u' \<and> job_by u' i = Some j' \<and> counted j j'
            \<and> slack u' j' = slack t j \<and> ended j'"
          by (rule execute_sync_ends [OF _ _ Some Inr]) (erule time, erule contract)
        then show thesis using that by blast
      qed
      show ?thesis using touches_ok [OF h(2) t Some h(3) ended_inactive [OF h(6)] h(4,5)] execute.hyps(2) h(1) by simp
    qed
  qed
qed (blast intro: start_ok reap_ok cancel_ok)+

lemma touches_others: "touches i s s' \<Longrightarrow> k \<noteq> i \<Longrightarrow> job_by s' k = job_by s k"
  unfolding touches_def job_by_def by (elim exE conjE) (simp add: row_by_set_where)

lemma touches_ids: "touches i s s' \<Longrightarrow> map sj_id (sync_jobs s') = map sj_id (sync_jobs s)"
  unfolding touches_def by (elim exE conjE) (simp add: set_where_keys)

lemma for_each_reap:
  assumes "\<forall>x\<in>set xs. job_by s (sj_id x) \<noteq> None"
  shows "\<exists>s'. for_each (reap_job message) xs s = Inr s' \<and> (\<forall>k. k \<notin> sj_id ` set xs \<longrightarrow> job_by s' k = job_by s k)
    \<and> (\<forall>k\<in>sj_id ` set xs. \<exists>j. job_by s' k = Some j \<and> sj_status j = JOB_FAILED)
    \<and> map in_id (integrations s') = map in_id (integrations s) \<and> map sj_id (sync_jobs s') = map sj_id (sync_jobs s)"
  using assms
proof (induction xs arbitrary: s)
  case (Cons x xs)
  obtain j where j: "job_by s (sj_id x) = Some j" using Cons.prems by auto
  from j show ?case
  proof (rule reap_job_works [of s x j message])
    fix t j' assume t: "reap_job message x s = Inr t" "touches (sj_id x) s t" "job_by t (sj_id x) = Some j'" "sj_status j' = JOB_FAILED"
      "map in_id (integrations t) = map in_id (integrations s)"
    have "job_by t (sj_id y) \<noteq> None" if "y \<in> set xs" for y
      using Cons.prems that touches_others [OF t(2), of "sj_id y"] t(3) by (cases "sj_id y = sj_id x") auto
    then have "\<forall>y\<in>set xs. job_by t (sj_id y) \<noteq> None" by blast
    from Cons.IH [OF this] obtain s' where s': "for_each (reap_job message) xs t = Inr s'"
      "\<And>k. k \<notin> sj_id ` set xs \<Longrightarrow> job_by s' k = job_by t k"
      "\<And>k. k \<in> sj_id ` set xs \<Longrightarrow> \<exists>j. job_by s' k = Some j \<and> sj_status j = JOB_FAILED"
      "map in_id (integrations s') = map in_id (integrations t)" "map sj_id (sync_jobs s') = map sj_id (sync_jobs t)"
      by blast
    have "for_each (reap_job message) (x # xs) s = Inr s'" using t(1) s'(1) by simp
    moreover have "job_by s' k = job_by s k" if "k \<notin> sj_id ` set (x # xs)" for k
      using s'(2) [of k] touches_others [OF t(2), of k] that by simp
    moreover have "\<exists>j. job_by s' k = Some j \<and> sj_status j = JOB_FAILED" if "k \<in> sj_id ` set (x # xs)" for k
    proof (cases "k \<in> sj_id ` set xs")
      case False
      then have "k = sj_id x" using that by simp
      then show ?thesis using s'(2) [OF False] t(3,4) by simp
    qed (rule s'(3))
    moreover have "map sj_id (sync_jobs s') = map sj_id (sync_jobs s)" using s'(5) touches_ids [OF t(2)] by simp
    ultimately show ?thesis using s'(4) t(5) by (intro exI [of _ s']) simp
  qed
qed simp

end
