(* ===== verification/Sync_Crawl.thy ===== *)
theory Sync_Crawl
  imports Sync_Facts
begin

text \<open>
  The crawl of a backlog over several runs: a provider whose list of pages does not change meanwhile, and the
  checkpoint a run leaves on the integration for the next one.
\<close>

definition set_cursor :: "string \<Rightarrow> string option \<Rightarrow> integration \<Rightarrow> integration" where
  "set_cursor entity cursor n = n\<lparr>in_cursors := (case cursor of None \<Rightarrow> filter (\<lambda>(k, _). k \<noteq> entity) (in_cursors n)
     | Some c \<Rightarrow> put entity c (in_cursors n))\<rparr>"

definition set_backlog :: "string \<Rightarrow> bool \<Rightarrow> integration \<Rightarrow> integration" where
  "set_backlog entity finished n = n\<lparr>in_backlog := put entity finished (in_backlog n)\<rparr>"

lemma no_row_set_where: "row_by key rows k = None \<Longrightarrow> set_where (\<lambda>r. key r = k) f rows = rows"
  unfolding set_where_def row_by_None_iff by (intro map_idI) auto

lemma checkpoint_rows:
  "integrations (persist_sync_cursor iid entity c s) = set_where (\<lambda>n. in_id n = iid) (set_cursor entity c) (integrations s)"
  "integrations (mark_backlog_complete iid entity b s) = set_where (\<lambda>n. in_id n = iid) (set_backlog entity b) (integrations s)"
  by (auto simp: persist_sync_cursor_def mark_backlog_complete_def integration_update_def set_cursor_def [abs_def] set_backlog_def [abs_def]
      integration_by_def no_row_set_where split: option.split)

lemma put_put [simp]: "put k v (put k w xs) = put k v xs"
  by (induction xs rule: put.induct) auto

lemma put_filter [simp]: "filter (\<lambda>(k', _). k' \<noteq> k) (put k v xs) = filter (\<lambda>(k', _). k' \<noteq> k) xs"
  by (induction k v xs rule: put.induct) auto

lemma map_of_put [simp]: "map_of (put k v xs) = (map_of xs)(k \<mapsto> v)"
  by (induction k v xs rule: put.induct) (auto simp: fun_eq_iff)

lemma map_of_dropped [simp]: "map_of (filter (\<lambda>(k', _). k' \<noteq> k) xs) k = None"
  by (induction xs) auto

lemma set_cursor_again: "d \<noteq> None \<Longrightarrow> set_cursor entity c (set_cursor entity d n) = set_cursor entity c n"
  by (cases d) (auto simp: set_cursor_def split: option.split)

lemma set_cursor_simps [simp]:
  "in_id (set_cursor entity c n) = in_id n" "in_code (set_cursor entity c n) = in_code n"
  "map_of (in_cursors (set_cursor entity c n)) entity = c" "in_backlog (set_cursor entity c n) = in_backlog n"
  "in_id (set_backlog entity b n) = in_id n" "in_code (set_backlog entity b n) = in_code n"
  "map_of (in_backlog (set_backlog entity b n)) entity = Some b" "in_cursors (set_backlog entity b n) = in_cursors n"
  by (auto simp: set_cursor_def set_backlog_def split: option.split)

text \<open>A provider's list: page \<open>k\<close> is asked for by \<open>cur k\<close>, the first by no cursor at all.\<close>

definition crawls :: "('raw, 'n) adapter \<Rightarrow> string \<Rightarrow> (nat \<Rightarrow> string option) \<Rightarrow> 'raw list list \<Rightarrow> bool" where
  "crawls A entity cur pgs \<longleftrightarrow> cur 0 = None \<and> (\<forall>k. cur (Suc k) \<noteq> None) \<and> (\<forall>k<length pgs. \<forall>t. ad_fetch A entity (cur k) t = Inr \<lparr>page_nodes = pgs ! k,
       page_next = (if Suc k < length pgs then cur (Suc k) else None), page_more = (Suc k < length pgs)\<rparr>)"

text \<open>What a full run that started at page \<open>k\<close> and stopped before page \<open>m\<close> leaves on the integration.\<close>

definition crawled :: "uuid \<Rightarrow> string \<Rightarrow> (nat \<Rightarrow> string option) \<Rightarrow> nat \<Rightarrow> nat \<Rightarrow> integration list \<Rightarrow> integration list" where
  "crawled iid entity cur n m rows =
     (if m < n then set_where (\<lambda>r. in_id r = iid) (set_cursor entity (cur m)) rows
      else set_where (\<lambda>r. in_id r = iid) (set_backlog entity True) (set_where (\<lambda>r. in_id r = iid) (set_cursor entity None) rows))"

lemma crawled_again:
  "c \<noteq> None \<Longrightarrow> crawled iid entity cur n m (set_where (\<lambda>r. in_id r = iid) (set_cursor entity c) rows) = crawled iid entity cur n m rows"
proof -
  assume "c \<noteq> None"
  then have "set_where (\<lambda>r. in_id r = iid) (set_cursor entity d) (set_where (\<lambda>r. in_id r = iid) (set_cursor entity c) rows)
      = set_where (\<lambda>r. in_id r = iid) (set_cursor entity d) rows" for d
    by (simp add: set_where_comp comp_def set_cursor_again)
  then show ?thesis by (simp add: crawled_def)
qed

context upsert_contract
begin

lemma sync_loop_crawl:
  assumes time: "takes_time A" and crawls: "crawls A entity cur pgs" and job: "job_by s i = Some j" and k: "k < length pgs"
  shows "\<exists>s' j' m. sync_loop i iid entity A handler None deadline is_first (cur k) s = Some (s', None) \<and> k < m \<and> m \<le> length pgs
    \<and> integrations s' = crawled iid entity cur (length pgs) m (integrations s) \<and> job_by s' i = Some j'
    \<and> sj_received j' = sj_received j + int (length (concat (take (m - k) (drop k pgs))))"
  using job k
proof (induction "length pgs - k" arbitrary: k s j is_first rule: less_induct)
  case (less k s j is_first)
  let ?n = "length pgs"
  let ?loop = "\<lambda>is_first cursor s. sync_loop i iid entity A handler None deadline is_first cursor s"
  let ?page = "\<lparr>page_nodes = pgs ! k, page_next = (if Suc k < ?n then cur (Suc k) else None), page_more = (Suc k < ?n)\<rparr>"
  let ?s1 = "s\<lparr>clock := ad_returns A (clock s)\<rparr>"
  have f: "fetch_page iid entity A None is_first (cur k) s = (?s1, Inr ?page)"
    using crawls less.prems(2) by (simp add: fetch_page_def crawls_def)
  have j1: "job_by ?s1 i = Some j" using less.prems(1) by simp
  obtain s2 j2 where p: "sync_page i entity A handler ?page ?s1 = (s2, None)" "integrations s2 = integrations s" "job_by s2 i = Some j2"
    "sj_received j2 = sj_received j + int (length (pgs ! k))"
    by (rule sync_page_works [OF j1, of entity A ?page]) (rule that; simp)
  have first: "concat (take (Suc 0) (drop k pgs)) = pgs ! k" using less.prems(2) by (simp add: Cons_nth_drop_Suc [symmetric])
  show ?case
  proof (cases "Suc k < ?n")
    case False
    let ?s3 = "mark_backlog_complete iid entity True (persist_sync_cursor iid entity None s2)"
    have "?loop is_first (cur k) s = Some (?s3, None)" using f p(1) False by (subst sync_loop.simps) simp
    moreover have "integrations ?s3 = crawled iid entity cur ?n (Suc k) (integrations s)"
      using False p(2) by (simp add: crawled_def checkpoint_rows)
    ultimately show ?thesis using less.prems(2) p(3,4) first
      by (intro exI [of _ ?s3] exI [of _ j2] exI [of _ "Suc k"]) simp
  next
    case True
    let ?s3 = "persist_sync_cursor iid entity (cur (Suc k)) s2"
    have rows: "integrations ?s3 = set_where (\<lambda>r. in_id r = iid) (set_cursor entity (cur (Suc k))) (integrations s)"
      using p(2) by (simp add: checkpoint_rows)
    have step: "?loop is_first (cur k) s = (if deadline \<le> clock ?s3 then Some (?s3, None) else ?loop False (cur (Suc k)) ?s3)"
      using f p(1) True by (subst sync_loop.simps) (simp add: Let_def)
    have j3: "job_by ?s3 i = Some j2" using p(3) by simp
    show ?thesis
    proof (cases "deadline \<le> clock ?s3")
      case stop: True
      have "integrations ?s3 = crawled iid entity cur ?n (Suc k) (integrations s)" using True rows by (simp add: crawled_def)
      then show ?thesis using step stop True j3 p(4) first
        by (intro exI [of _ ?s3] exI [of _ j2] exI [of _ "Suc k"]) simp
    next
      case False
      have "?n - Suc k < ?n - k" using True by simp
      from less.hyps [OF this j3 True, of False] obtain s' j' m where
        ih: "?loop False (cur (Suc k)) ?s3 = Some (s', None)" "Suc k < m" "m \<le> ?n"
        "integrations s' = crawled iid entity cur ?n m (integrations ?s3)" "job_by s' i = Some j'"
        "sj_received j' = sj_received j2 + int (length (concat (take (m - Suc k) (drop (Suc k) pgs))))" by blast
      have "take (m - k) (drop k pgs) = pgs ! k # take (m - Suc k) (drop (Suc k) pgs)"
        using less.prems(2) ih(2) by (simp add: Cons_nth_drop_Suc [symmetric] take_Cons' Suc_diff_Suc)
      then have "sj_received j' = sj_received j + int (length (concat (take (m - k) (drop k pgs))))" using ih(6) p(4) by simp
      moreover have "cur (Suc k) \<noteq> None" using crawls by (simp add: crawls_def)
      ultimately show ?thesis using step False ih(1-5) rows
        by (intro exI [of _ s'] exI [of _ j'] exI [of _ m]) (simp add: crawled_again)
    qed
  qed
qed

end

lemma row_set_where:
  assumes "row_by in_id rows iid = Some n" and "\<And>r. in_id (f r) = in_id r"
  shows "row_by in_id (set_where (\<lambda>r. in_id r = iid) f rows) iid = Some (f n)"
  using assms by (simp add: row_by_set_where)

text \<open>What the next run finds: a later page to go on with, or a backlog that is known to be complete.\<close>

definition advanced :: "string \<Rightarrow> (nat \<Rightarrow> string option) \<Rightarrow> nat \<Rightarrow> nat \<Rightarrow> integration \<Rightarrow> bool" where
  "advanced entity cur n m row \<longleftrightarrow> (if m < n then map_of (in_cursors row) entity = cur m
     else map_of (in_cursors row) entity = None \<and> map_of (in_backlog row) entity = Some True)"

lemma crawled_finds:
  assumes "row_by in_id rows iid = Some row"
  obtains row' where "row_by in_id (crawled iid entity cur n m rows) iid = Some row'" "in_code row' = in_code row" "advanced entity cur n m row'"
proof (cases "m < n")
  case True
  then show thesis using assms by (intro that [of "set_cursor entity (cur m) row"]) (simp_all add: crawled_def advanced_def row_set_where)
next
  case False
  have "row_by in_id (set_where (\<lambda>r. in_id r = iid) (set_cursor entity None) rows) iid = Some (set_cursor entity None row)"
    using assms by (simp add: row_set_where)
  then have "row_by in_id (crawled iid entity cur n m rows) iid = Some (set_backlog entity True (set_cursor entity None row))"
    using False by (simp add: crawled_def row_set_where)
  then show thesis using False by (intro that [of "set_backlog entity True (set_cursor entity None row)"]) (simp_all add: advanced_def)
qed

lemma health_keeps [simp]:
  "in_id (update_integration_health st now row) = in_id row" "in_code (update_integration_health st now row) = in_code row"
  "in_cursors (update_integration_health st now row) = in_cursors row" "in_backlog (update_integration_health st now row) = in_backlog row"
  by (simp_all add: update_integration_health_def)

lemma active_set_unique: "j \<in> set (sync_jobs s) \<Longrightarrow> distinct (map sj_id (sync_jobs s)) \<Longrightarrow> job_by s (sj_id j) = Some j"
  by (simp add: job_by_def row_by_distinct)

text \<open>A job that ends was the only active one of its entity.\<close>

lemma touches_frees:
  assumes "touches i s s'" and "distinct (map sj_id (sync_jobs s))" and "\<forall>k\<in>set (active_jobs s iid entity). sj_id k = i"
    and "job_by s' i = Some j'" and "ended j'"
  shows "active_jobs s' iid entity = []"
proof (rule ccontr)
  assume "active_jobs s' iid entity \<noteq> []"
  then obtain k where k: "k \<in> set (sync_jobs s')" "sj_integration k = iid" "sj_entity k = entity" "active_status (sj_status k)"
    unfolding active_jobs_def filter_empty_conv by blast
  have "distinct (map sj_id (sync_jobs s'))" using touches_ids [OF assms(1)] assms(2) by simp
  then have found: "job_by s' (sj_id k) = Some k" using k(1) by (rule active_set_unique [rotated])
  show False
  proof (cases "sj_id k = i")
    case True
    then have "k = j'" using found assms(4) by simp
    then show False using assms(5) k(4) ended_inactive by blast
  next
    case False
    then have "job_by s (sj_id k) = Some k" using found touches_others [OF assms(1), of "sj_id k"] by simp
    then have "k \<in> set (sync_jobs s)" unfolding job_by_def by (blast dest: row_by_SomeD)
    then have "k \<in> set (active_jobs s iid entity)" using k by (simp add: active_jobs_def)
    then show False using assms(3) False by blast
  qed
qed

text \<open>A full run of a job, from the checkpoint its integration carries.\<close>

lemma execute_full:
  assumes time: "\<And>code A. adapters code = Some A \<Longrightarrow> takes_time A"
    and contract: "\<And>entity handler. handlers entity = Some handler \<Longrightarrow> upsert_contract handler"
    and ok: "jobs_ok s" and job: "job_by s i = Some j" and type: "sj_type j = FULL_SYNC"
    and free: "\<forall>k\<in>set (active_jobs s (sj_integration j) (sj_entity j)). sj_id k = i"
    and row: "integration_by s (sj_integration j) = Some row" and A: "adapters (in_code row) = Some A" and H: "handlers (sj_entity j) = Some H"
    and crawls: "crawls A (sj_entity j) cur pgs" and at: "map_of (in_cursors row) (sj_entity j) = cur k" and k: "k < length pgs"
  shows "\<exists>s' m row' j'. execute_sync adapters handlers i s = Some (s', Inr i) \<and> jobs_ok s' \<and> active_jobs s' (sj_integration j) (sj_entity j) = []
    \<and> integration_by s' (sj_integration j) = Some row' \<and> in_code row' = in_code row \<and> k < m \<and> m \<le> length pgs
    \<and> advanced (sj_entity j) cur (length pgs) m row' \<and> job_by s' i = Some j'
    \<and> sj_received j' = sj_received j + int (length (concat (take (m - k) (drop k pgs))))"
proof -
  let ?iid = "sj_integration j" and ?entity = "sj_entity j"
  obtain s1 where run: "mark_running i s = Inr s1" using job free by (simp add: mark_running_def get_sync_job_simps)
  note m1 = mark_running_works [OF run job]
  have distinct: "distinct (map sj_id (sync_jobs s))" using ok by (simp add: jobs_ok_def)
  have s1_rows: "integrations s1 = set_where (\<lambda>n. in_id n = ?iid) (\<lambda>n. n\<lparr>in_status := SYNCING\<rparr>) (integrations s)"
    using run job by (auto simp: mark_running_def bindR_Inr_iff get_sync_job_simps integration_update_def job_update_def)
  have row1: "integration_by s1 ?iid = Some (row\<lparr>in_status := SYNCING\<rparr>)"
    using row by (simp add: integration_by_def s1_rows row_set_where)
  have contract_H: "upsert_contract H" using H by (rule contract)
  have time_A: "takes_time A" using A by (rule time)
  obtain s2 j2 m where loop: "sync_loop i ?iid ?entity A H None (clock s1 + max_entity_sync_duration) True (cur k) s1 = Some (s2, None)"
    "k < m" "m \<le> length pgs" "integrations s2 = crawled ?iid ?entity cur (length pgs) m (integrations s1)" "job_by s2 i = Some j2"
    "sj_received j2 = sj_received j + int (length (concat (take (m - k) (drop k pgs))))"
    using upsert_contract.sync_loop_crawl [OF contract_H time_A crawls m1(1) k, of ?iid "clock s1 + max_entity_sync_duration" True] by auto
  obtain s3 j3 where c: "complete_sync i True s2 = Inr s3" "job_by s3 i = Some j3" "completes i True s2 j2 s3 j3"
    "integrations s3 = set_where (\<lambda>n. in_id n = sj_integration j2) (update_integration_health (completion_status True j2) (clock s2)) (integrations s2)"
    by (rule complete_sync_works [OF loop(5), of True])
  have body: "execute_sync adapters handlers i s = Some (s3, Inr i)"
    using job run row1 A H type at loop(1) c(1) by (simp add: execute_sync_def run_entity_sync_def Let_def)
  obtain s' j' where e: "execute_sync adapters handlers i s = Some (s', Inr i)" "touches i s s'" "job_by s' i = Some j'" "counted j j'"
    "slack s' j' = slack s j" "ended j'"
  proof -
    have "\<exists>s' j'. execute_sync adapters handlers i s = Some (s', Inr i) \<and> touches i s s' \<and> job_by s' i = Some j' \<and> counted j j'
        \<and> slack s' j' = slack s j \<and> ended j'"
      by (rule execute_sync_ends [OF _ _ job run]) (erule time, erule contract)
    then show thesis using that by blast
  qed
  have same: "s' = s3" "j' = j3" using body e(1,3) c(2) by simp_all
  obtain row2 where row2: "row_by in_id (integrations s2) ?iid = Some row2" "in_code row2 = in_code row" "advanced ?entity cur (length pgs) m row2"
  proof (rule crawled_finds [of "integrations s1" ?iid "row\<lparr>in_status := SYNCING\<rparr>" ?entity cur "length pgs" m])
    show "row_by in_id (integrations s1) ?iid = Some (row\<lparr>in_status := SYNCING\<rparr>)" using row1 by (simp add: integration_by_def)
  next
    fix row' assume "row_by in_id (crawled ?iid ?entity cur (length pgs) m (integrations s1)) ?iid = Some row'"
      "in_code row' = in_code (row\<lparr>in_status := SYNCING\<rparr>)" "advanced ?entity cur (length pgs) m row'"
    then show thesis using that loop(4) by simp
  qed
  let ?row3 = "update_integration_health (completion_status True j2) (clock s2) row2"
  have "row_by in_id (integrations s3) ?iid = (if sj_integration j2 = ?iid then Some ?row3 else Some row2)"
    using row2(1) unfolding c(4) by (simp add: row_by_set_where)
  then obtain row' where row': "integration_by s3 ?iid = Some row'" "in_code row' = in_code row" "advanced ?entity cur (length pgs) m row'"
    using row2 by (auto simp: integration_by_def advanced_def split: if_split_asm)
  have "sj_received j3 = sj_received j2" using c(3) by (simp add: completes_def)
  moreover have "jobs_ok s3" using touches_ok [OF e(2) ok job e(3) ended_inactive [OF e(6)] e(4,5)] same by simp
  moreover have "active_jobs s3 ?iid ?entity = []" using touches_frees [OF e(2) distinct free e(3,6)] same by simp
  ultimately show ?thesis using body row' loop(2,3,6) c(2)
    by (intro exI [of _ s3] exI [of _ m] exI [of _ row'] exI [of _ j3]) simp
qed

text \<open>Full syncs one after another, each started when the one before has ended.\<close>

fun full_syncs ::
  "(string \<Rightarrow> ('raw, 'n) adapter option) \<Rightarrow> (string \<Rightarrow> ('n, 'a sync_db_scheme) upsert_handler option) \<Rightarrow> uuid \<Rightarrow> string \<Rightarrow> nat
   \<Rightarrow> 'a sync_db_scheme \<Rightarrow> 'a sync_db_scheme option" where
  "full_syncs adapters handlers iid entity 0 s = Some s"
| "full_syncs adapters handlers iid entity (Suc r) s =
     Option.bind (run_sync adapters handlers [] iid FULL_SYNC entity s) (\<lambda>(s1, _). full_syncs adapters handlers iid entity r s1)"

lemma start_free:
  assumes "integration_by s iid = Some row" and "active_jobs s iid entity = []" and "jobs_ok s"
  obtains s1 i j where "start_sync id iid ty entity actor s = (s1, Inr i)" "jobs_ok s1" "job_by s1 i = Some j" "sj_type j = ty"
    "sj_integration j = iid" "sj_entity j = entity" "active_jobs s1 iid entity = [j]" "sj_id j = i" "integrations s1 = integrations s"
    "sj_received j = 0"
proof -
  let ?j = "\<lparr>sj_id = next_id s, sj_integration = iid, sj_type = ty, sj_entity = entity, sj_status = JOB_QUEUED, sj_started = None,
    sj_completed = None, sj_received = 0, sj_created = 0, sj_updated = 0, sj_skipped = 0, sj_failed = 0, sj_errors = 0,
    sj_created_at = clock s, sj_updated_at = clock s\<rparr>"
  obtain s1 where s1: "start_sync id iid ty entity actor s = (s1, Inr (next_id s))" "sync_jobs s1 = sync_jobs s @ [?j]"
      "integrations s1 = integrations s"
    using assms(1,2) by (simp add: start_sync_def get_active_for_entity_def latest_by_def Let_def)
  have "start_sync (\<lambda>_. s) iid ty entity actor s = (s1, Inr (next_id s))" using s1(1) by (simp only: start_sync_def id_apply)
  then have ok: "jobs_ok s1" using start_ok assms(3) by blast
  then have "job_by s1 (sj_id ?j) = Some ?j" by (intro active_set_unique) (simp_all add: s1(2) jobs_ok_def)
  moreover have "active_jobs s1 iid entity = [?j]"
    using assms(2) s1(2) by (simp add: active_jobs_def active_status_def)
  ultimately show thesis using s1(1,3) ok by (intro that [of s1 "next_id s" ?j]) simp_all
qed

lemma full_syncs_complete:
  assumes time: "\<And>code A. adapters code = Some A \<Longrightarrow> takes_time A"
    and contract: "\<And>entity handler. handlers entity = Some handler \<Longrightarrow> upsert_contract handler"
    and A: "adapters code = Some A" and H: "handlers entity = Some H" and crawls: "crawls A entity cur pgs"
    and "jobs_ok s" and "active_jobs s iid entity = []" and "integration_by s iid = Some row" and "in_code row = code"
    and "map_of (in_cursors row) entity = cur k" and "k < length pgs"
  shows "\<exists>r s' row'. r \<le> length pgs - k \<and> full_syncs adapters handlers iid entity r s = Some s' \<and> integration_by s' iid = Some row'
    \<and> map_of (in_cursors row') entity = None \<and> map_of (in_backlog row') entity = Some True \<and> jobs_ok s' \<and> active_jobs s' iid entity = []"
  using assms(6-)
proof (induction "length pgs - k" arbitrary: k s row rule: less_induct)
  case (less k s row)
  obtain s1 i j where st: "start_sync id iid FULL_SYNC entity None s = (s1, Inr i)" "jobs_ok s1" "job_by s1 i = Some j" "sj_type j = FULL_SYNC"
    "sj_integration j = iid" "sj_entity j = entity" "active_jobs s1 iid entity = [j]" "sj_id j = i" "integrations s1 = integrations s"
    using start_free [OF less.prems(3,2,1), of FULL_SYNC None] by metis
  have row1: "integration_by s1 iid = Some row" using less.prems(3) st(9) by (simp add: integration_by_def)
  have "\<exists>s' m row' j'. execute_sync adapters handlers i s1 = Some (s', Inr i) \<and> jobs_ok s'
    \<and> active_jobs s' (sj_integration j) (sj_entity j) = [] \<and> integration_by s' (sj_integration j) = Some row' \<and> in_code row' = in_code row
    \<and> k < m \<and> m \<le> length pgs \<and> advanced (sj_entity j) cur (length pgs) m row' \<and> job_by s' i = Some j'
    \<and> sj_received j' = sj_received j + int (length (concat (take (m - k) (drop k pgs))))"
    by (rule execute_full [OF _ _ st(2,3,4)]) (use st less.prems row1 A H crawls in \<open>auto intro: time contract\<close>)
  then obtain s2 m row2 where run: "execute_sync adapters handlers i s1 = Some (s2, Inr i)" "jobs_ok s2" "active_jobs s2 iid entity = []"
    "integration_by s2 iid = Some row2" "in_code row2 = in_code row" "k < m" "m \<le> length pgs" "advanced entity cur (length pgs) m row2"
    using st(5,6) by blast
  have step: "full_syncs adapters handlers iid entity (Suc r) s = full_syncs adapters handlers iid entity r s2" for r
    using st(1) run(1) by (subst full_syncs.simps, subst run_sync.simps) simp
  show ?case
  proof (cases "m < length pgs")
    case False
    then have "map_of (in_cursors row2) entity = None" "map_of (in_backlog row2) entity = Some True"
      using run(8) by (simp_all add: advanced_def)
    moreover have "full_syncs adapters handlers iid entity 1 s = Some s2" using step [of 0] by simp
    ultimately show ?thesis using run(2,3,4) less.prems(6) by (intro exI [of _ 1] exI [of _ s2] exI [of _ row2]) simp
  next
    case True
    have "map_of (in_cursors row2) entity = cur m" using run(8) True by (simp add: advanced_def)
    moreover have "length pgs - m < length pgs - k" using run(6) True by simp
    ultimately obtain r s' row' where "r \<le> length pgs - m" "full_syncs adapters handlers iid entity r s2 = Some s'" "integration_by s' iid = Some row'"
      "map_of (in_cursors row') entity = None" "map_of (in_backlog row') entity = Some True" "jobs_ok s'" "active_jobs s' iid entity = []"
      using less.hyps [of m s2 row2] run(2-5) less.prems(4) True by auto
    then show ?thesis using step [of r] run(6,7) by (intro exI [of _ "Suc r"] exI [of _ s'] exI [of _ row']) simp
  qed
qed

end
