(* ===== verification/Sync_Props.thy ===== *)
theory Sync_Props
  imports Sync_Crawl Payments_Props
begin

text \<open>
  Properties of the synchronisation engine, with witnesses on \<open>demo_engine\<close>: a connected integration 60 named \<open>shopify\<close>,
  a queued full sync 70 of its refunds, and a provider of three pages whose calls take a second.
\<close>

definition demo_job :: "uuid \<Rightarrow> job_status \<Rightarrow> sync_job" where
  "demo_job i st = \<lparr>sj_id = i, sj_integration = 60, sj_type = FULL_SYNC, sj_entity = ''refunds'', sj_status = st, sj_started = None,
     sj_completed = None, sj_received = 0, sj_created = 0, sj_updated = 0, sj_skipped = 0, sj_failed = 0, sj_errors = 0,
     sj_created_at = 900, sj_updated_at = 900\<rparr>"

definition demo_engine :: sync_db where
  "demo_engine = webhook_db.extend (webhook_db.truncate (demo_pay\<lparr>integrations := [\<lparr>in_id = 60, in_code = ''shopify'',
       in_status = CONNECTED_STATUS, in_cursors = [], in_backlog = [], in_last_sync = None, in_last_success = None, in_last_failure = None\<rparr>],
     orders := [(demo_order 7 ''#AW7'' PENDING)\<lparr>o_source := ''shopify'', o_external := Some ''900''\<rparr>]\<rparr>))
     \<lparr>sync_jobs = [demo_job 70 JOB_QUEUED], sync_errors = []\<rparr>"

text \<open>A refund as the provider sends it: its id, its order and its amount in rupees.\<close>

type_synonym demo_raw = "string \<times> string \<times> nat"

definition demo_pages :: "demo_raw list list" where
  "demo_pages = [[(''r1'', ''900'', 10), (''r2'', ''nosuch'', 20)], [(''r3'', ''900'', 30)], [(''r1'', ''900'', 40)]]"

definition demo_refund :: "demo_raw \<Rightarrow> synced_refund" where
  "demo_refund raw = (case raw of (x, order, amount) \<Rightarrow> \<lparr>sr_source = ''shopify'', sr_external = x, sr_order_external = Some order,
     sr_amount = of_nat amount, sr_reason = None, sr_status = RF_COMPLETED, sr_initiated = None, sr_completed = None\<rparr>)"

definition demo_page :: "nat \<Rightarrow> demo_raw page" where
  "demo_page k = \<lparr>page_nodes = demo_pages ! k, page_next = (if k < 2 then Some (replicate (Suc k) (CHR ''p'')) else None), page_more = k < 2\<rparr>"

definition demo_adapter :: "(demo_raw, synced_entity) adapter" where
  "demo_adapter = \<lparr>ad_fetch = (\<lambda>entity cursor t. Inr (demo_page (case cursor of None \<Rightarrow> 0 | Some c \<Rightarrow> length c))),
     ad_fetch_incremental = (\<lambda>entity since cursor t. Inr \<lparr>page_nodes = [], page_next = None, page_more = False\<rparr>),
     ad_normalize = (\<lambda>entity raw. Inr (Synced_refund (demo_refund raw))), ad_raw_id = (\<lambda>raw. Some (fst raw)),
     ad_external = (\<lambda>n. case n of Synced_refund d \<Rightarrow> Some (sr_external d) | _ \<Rightarrow> None), ad_returns = (\<lambda>t. t + 1000000)\<rparr>"

definition demo_adapters :: "string \<Rightarrow> (demo_raw, synced_entity) adapter option" where
  "demo_adapters code = (if code = ''shopify'' then Some demo_adapter else None)"

definition demo_others :: "string \<Rightarrow> (synced_entity, sync_db) upsert_handler" where
  "demo_others entity = (\<lambda>n s. (s, Inl (Failure (ValidationError entity) None)))"

lemma demo_takes_time: "demo_adapters code = Some A \<Longrightarrow> takes_time A"
  by (auto simp: demo_adapters_def demo_adapter_def takes_time_def split: if_split_asm)

lemma demo_contract: "upsert_contract (demo_others e)"
  by unfold_locales (simp_all add: demo_others_def)

lemma demo_job_70: "job_by demo_engine 70 = Some (demo_job 70 JOB_QUEUED)"
  by (simp add: job_by_def demo_engine_def webhook_db.defs demo_job_def)

lemma demo_jobs_ok: "jobs_ok demo_engine"
  by (auto simp: jobs_ok_def demo_engine_def webhook_db.defs demo_job_def slack_def errors_of_def active_jobs_def books_ok_def demo_pay_def
      returns_db.defs demo_returns_def shipping_db.defs demo_ship_def)

section \<open>A run ends\<close>

text \<open>
  C24: whatever the provider answers, page by page, and whatever the records look like, a sync that is started ends:
  where every call to the provider takes some time and the upserts that are not modelled keep to the contract, executing a
  job next to which no other is active returns, leaves the job completed, partial or failed with the time it ended, has
  counted every record it received exactly once as created, updated or failed, and has left one error row for each
  error it counted. The job's own status is never looked at: one that was cancelled, or given up by the reaper, is run
  and completed all the same.
\<close>

theorem sync_always_ends:
  assumes "\<And>code A. adapters code = Some A \<Longrightarrow> takes_time A" and "\<And>e. upsert_contract (others e)"
    and "job_by s i = Some j" and "\<forall>k\<in>set (active_jobs s (sj_integration j) (sj_entity j)). sj_id k = i"
  shows "\<exists>s' j'. execute_sync adapters (entity_upsert_handlers g lookup others) i s = Some (s', Inr i) \<and> job_by s' i = Some j'
    \<and> ended j' \<and> counted j j' \<and> slack s' j' = slack s j"
proof -
  obtain s1 where m: "mark_running i s = Inr s1"
    using assms(3,4) by (simp add: mark_running_def get_sync_job_simps)
  have "\<exists>s' j'. execute_sync adapters (entity_upsert_handlers g lookup others) i s = Some (s', Inr i) \<and> touches i s s'
      \<and> job_by s' i = Some j' \<and> counted j j' \<and> slack s' j' = slack s j \<and> ended j'"
    by (rule execute_sync_ends [OF _ _ assms(3) m]) (erule assms(1), erule entity_handlers_contract [OF assms(2)])
  then show ?thesis by blast
qed

theorem sync_always_ends_witness:
  "\<exists>s' j'. execute_sync demo_adapters (entity_upsert_handlers demo_gateways None demo_others) 70 demo_engine = Some (s', Inr 70)
     \<and> job_by s' 70 = Some j' \<and> ended j' \<and> sj_status (demo_job 70 JOB_CANCELLED) = JOB_CANCELLED
     \<and> (\<exists>s2 j2. execute_sync demo_adapters (entity_upsert_handlers demo_gateways None demo_others) 70
           (demo_engine\<lparr>sync_jobs := [demo_job 70 JOB_CANCELLED]\<rparr>) = Some (s2, Inr 70) \<and> job_by s2 70 = Some j2 \<and> ended j2)"
proof -
  let ?c = "demo_engine\<lparr>sync_jobs := [demo_job 70 JOB_CANCELLED]\<rparr>"
  have c: "job_by ?c 70 = Some (demo_job 70 JOB_CANCELLED)" "active_jobs ?c 60 ''refunds'' = []"
    by (simp_all add: job_by_def demo_job_def active_jobs_def active_status_def)
  have q: "active_jobs demo_engine 60 ''refunds'' = [demo_job 70 JOB_QUEUED]"
    by (simp add: active_jobs_def active_status_def demo_engine_def webhook_db.defs demo_job_def)
  have side: "sj_integration (demo_job 70 st) = 60" "sj_entity (demo_job 70 st) = ''refunds''" "sj_id (demo_job 70 st) = 70" for st
    by (simp_all add: demo_job_def)
  have "\<exists>s' j'. execute_sync demo_adapters (entity_upsert_handlers demo_gateways None demo_others) 70 demo_engine = Some (s', Inr 70)
      \<and> job_by s' 70 = Some j' \<and> ended j' \<and> counted (demo_job 70 JOB_QUEUED) j' \<and> slack s' j' = slack demo_engine (demo_job 70 JOB_QUEUED)"
    by (rule sync_always_ends [OF demo_takes_time demo_contract demo_job_70]) (simp_all add: side q)
  moreover have "\<exists>s' j'. execute_sync demo_adapters (entity_upsert_handlers demo_gateways None demo_others) 70 ?c = Some (s', Inr 70)
      \<and> job_by s' 70 = Some j' \<and> ended j' \<and> counted (demo_job 70 JOB_CANCELLED) j' \<and> slack s' j' = slack ?c (demo_job 70 JOB_CANCELLED)"
    by (rule sync_always_ends [OF demo_takes_time demo_contract c(1)]) (simp_all add: side c(2))
  ultimately show ?thesis by (auto simp: demo_job_def)
qed


section \<open>One job at a time\<close>

text \<open>
  C25: however starts, runs, cancellations and reaper passes follow one another, and whatever other starts commit between
  a start's check and its insert, no entity of an integration ever has two active jobs; the counts of every job add up, and
  every job has as many error rows as it says.
\<close>

theorem one_active_sync:
  assumes "sync_run adapters (entity_upsert_handlers g lookup others) s s'" and "jobs_ok s"
    and "\<And>code A. adapters code = Some A \<Longrightarrow> takes_time A" and "\<And>e. upsert_contract (others e)"
  shows "jobs_ok s' \<and> length (active_jobs s' iid entity) \<le> 1"
proof -
  have "jobs_ok s'"
    by (rule sync_run_ok [OF assms(1,2)]) (erule assms(3), erule entity_handlers_contract [OF assms(4)])
  then show ?thesis by (simp add: jobs_ok_def)
qed

text \<open>Two workers start the same sync at the same time: the second loses.\<close>

theorem one_active_sync_witness:
  "\<exists>s'. start_sync (\<lambda>t. fst (start_sync id 60 FULL_SYNC ''orders'' None t)) 60 FULL_SYNC ''orders'' None demo_engine
       = (s', Inl (ConflictError ''A sync is already active for this integration.''))
     \<and> length (active_jobs s' 60 ''orders'') = 1 \<and> jobs_ok s'"
proof -
  let ?H = "entity_upsert_handlers demo_gateways None demo_others"
  let ?s = "fst (start_sync id 60 FULL_SYNC ''orders'' None demo_engine)"
  have race: "start_sync (\<lambda>t. fst (start_sync id 60 FULL_SYNC ''orders'' None t)) 60 FULL_SYNC ''orders'' None demo_engine
      = start_sync (\<lambda>_. ?s) 60 FULL_SYNC ''orders'' None demo_engine"
    by (simp only: start_sync_def)
  have one: "start_sync (\<lambda>_. demo_engine) 60 FULL_SYNC ''orders'' None demo_engine = start_sync id 60 FULL_SYNC ''orders'' None demo_engine"
    by (simp only: start_sync_def id_apply)
  have "case start_sync (\<lambda>t. fst (start_sync id 60 FULL_SYNC ''orders'' None t)) 60 FULL_SYNC ''orders'' None demo_engine of
      (s', r) \<Rightarrow> r = Inl (ConflictError ''A sync is already active for this integration.'') \<and> length (active_jobs s' 60 ''orders'') = 1"
    by code_simp
  then obtain s' where s': "start_sync (\<lambda>_. ?s) 60 FULL_SYNC ''orders'' None demo_engine
      = (s', Inl (ConflictError ''A sync is already active for this integration.''))" "length (active_jobs s' 60 ''orders'') = 1"
    unfolding race by (auto split: prod.splits)
  have ok: "jobs_ok demo_engine" by (rule demo_jobs_ok)
  have "sync_run demo_adapters ?H demo_engine ?s"
    by (rule sync_run.start [OF sync_run.idle sync_run.idle, where iid = 60 and ty = FULL_SYNC and entity = "''orders''" and actor = None
        and r = "snd (start_sync id 60 FULL_SYNC ''orders'' None demo_engine)"]) (simp add: one)
  then have "sync_run demo_adapters ?H demo_engine s'"
    by (rule sync_run.start [OF sync_run.idle _ s'(1)])
  from one_active_sync [OF this ok demo_takes_time demo_contract]
  show ?thesis using s' race by auto
qed

section \<open>The reaper\<close>

definition stale :: "'a sync_db_scheme \<Rightarrow> sync_job set" where
  "stale s = set (get_stale_running (clock s - stale_sync_job_threshold) s) \<union> set (get_stale_queued (clock s - stale_sync_job_threshold) s)"

text \<open>
  C26: a pass of the reaper always succeeds, fails every job that has been running without progress or queued for
  twenty minutes, leaves all other jobs as they are, and thereby frees an entity whose active jobs are all
  stale: the next sync of it starts.
\<close>

theorem reaper_unblocks:
  assumes "jobs_ok s"
  shows "\<exists>s'. reap_stale_sync_jobs s = Inr s' \<and> jobs_ok s'
    \<and> (\<forall>j\<in>set (sync_jobs s). if j \<in> stale s then \<exists>j'. job_by s' (sj_id j) = Some j' \<and> sj_status j' = JOB_FAILED
         else job_by s' (sj_id j) = Some j)
    \<and> (integration_by s iid \<noteq> None \<longrightarrow> set (active_jobs s iid entity) \<subseteq> stale s \<longrightarrow>
        (\<exists>v i. start_sync id iid ty entity actor s' = (v, Inr i)))"
proof -
  let ?c = "clock s - stale_sync_job_threshold"
  let ?ids = "sj_id ` stale s"
  have distinct: "distinct (map sj_id (sync_jobs s))" using assms by (simp add: jobs_ok_def)
  have rows: "job_by s (sj_id x) = Some x" if "x \<in> set (sync_jobs s)" for x
    using row_by_distinct [OF distinct that] by (simp add: job_by_def)
  have listed: "stale s \<subseteq> set (sync_jobs s)" by (auto simp: stale_def get_stale_running_def get_stale_queued_def)
  obtain t where t: "for_each (reap_job ''Sync job marked failed by the stale-job reaper: no progress'') (get_stale_running ?c s) s = Inr t"
    "\<And>k. k \<notin> sj_id ` set (get_stale_running ?c s) \<Longrightarrow> job_by t k = job_by s k"
    "\<And>k. k \<in> sj_id ` set (get_stale_running ?c s) \<Longrightarrow> \<exists>j. job_by t k = Some j \<and> sj_status j = JOB_FAILED"
    "map in_id (integrations t) = map in_id (integrations s)" "map sj_id (sync_jobs t) = map sj_id (sync_jobs s)"
  proof -
    have "\<forall>x\<in>set (get_stale_running ?c s). job_by s (sj_id x) \<noteq> None"
      using rows by (simp add: get_stale_running_def)
    from for_each_reap [OF this, of "''Sync job marked failed by the stale-job reaper: no progress''"] show thesis
      by (elim exE conjE) (rule that; blast)
  qed
  have "job_by t (sj_id x) \<noteq> None" if "x \<in> set (get_stale_queued ?c s)" for x
    using t(2) [of "sj_id x"] t(3) [of "sj_id x"] rows [of x] that by (cases "sj_id x \<in> sj_id ` set (get_stale_running ?c s)") (auto simp: get_stale_queued_def)
  then have "\<forall>x\<in>set (get_stale_queued ?c s). job_by t (sj_id x) \<noteq> None" by blast
  from for_each_reap [OF this, of "''Sync job marked failed by the stale-job reaper: still QUEUED''"] obtain s' where
    s': "for_each (reap_job ''Sync job marked failed by the stale-job reaper: still QUEUED'') (get_stale_queued ?c s) t = Inr s'"
    "\<And>k. k \<notin> sj_id ` set (get_stale_queued ?c s) \<Longrightarrow> job_by s' k = job_by t k"
    "\<And>k. k \<in> sj_id ` set (get_stale_queued ?c s) \<Longrightarrow> \<exists>j. job_by s' k = Some j \<and> sj_status j = JOB_FAILED"
    "map in_id (integrations s') = map in_id (integrations t)" "map sj_id (sync_jobs s') = map sj_id (sync_jobs t)"
    by blast
  have reap: "reap_stale_sync_jobs s = Inr s'" using t(1) s'(1) by (simp add: reap_stale_sync_jobs_def Let_def)
  have ok: "jobs_ok s'" using reap_ok [OF reap assms] .
  have failed: "\<exists>j. job_by s' k = Some j \<and> sj_status j = JOB_FAILED" if "k \<in> ?ids" for k
    using s'(2) [of k] s'(3) [of k] t(3) [of k] that unfolding stale_def by (cases "k \<in> sj_id ` set (get_stale_queued ?c s)") auto
  have kept: "job_by s' k = job_by s k" if "k \<notin> ?ids" for k
    using s'(2) [of k] t(2) [of k] that unfolding stale_def by (simp add: image_Un)
  have same: "j \<in> stale s" if "j \<in> set (sync_jobs s)" "sj_id j \<in> ?ids" for j
    using that rows listed by (metis imageE option.inject subsetD)
  have empty: "active_jobs s' iid entity = []" if "set (active_jobs s iid entity) \<subseteq> stale s"
  proof (rule ccontr)
    assume "active_jobs s' iid entity \<noteq> []"
    then obtain j where j: "j \<in> set (sync_jobs s')" "sj_integration j = iid" "sj_entity j = entity" "active_status (sj_status j)"
      unfolding active_jobs_def filter_empty_conv by blast
    then have found: "job_by s' (sj_id j) = Some j" using row_by_distinct [of sj_id "sync_jobs s'" j] ok by (simp add: jobs_ok_def job_by_def)
    show False
    proof (cases "sj_id j \<in> ?ids")
      case True
      from failed [OF True] found j(4) show False by (simp add: active_status_def)
    next
      case False
      then have "job_by s (sj_id j) = Some j" using kept found by simp
      then have "j \<in> set (sync_jobs s)" unfolding job_by_def by (blast dest: row_by_SomeD)
      then have "j \<in> set (active_jobs s iid entity)" using j by (simp add: active_jobs_def)
      with that False show False by blast
    qed
  qed
  have free: "\<exists>v i. start_sync id iid ty entity actor s' = (v, Inr i)"
    if "integration_by s iid \<noteq> None" "set (active_jobs s iid entity) \<subseteq> stale s"
  proof -
    have "integration_by s' iid \<noteq> None" using that(1) s'(4) t(4)
      by (metis integration_by_def list.set_map row_by_None_iff)
    moreover have "active_jobs s' iid entity = []" using that(2) by (rule empty)
    ultimately show ?thesis by (auto simp: start_sync_def get_active_for_entity_def latest_by_def Let_def)
  qed
  have "if j \<in> stale s then \<exists>j'. job_by s' (sj_id j) = Some j' \<and> sj_status j' = JOB_FAILED else job_by s' (sj_id j) = Some j"
    if "j \<in> set (sync_jobs s)" for j
    using failed [of "sj_id j"] kept [of "sj_id j"] same [OF that] rows [OF that] by auto
  with reap ok free show ?thesis by blast
qed

theorem reaper_unblocks_witness:
  "\<exists>s'. reap_stale_sync_jobs (demo_engine\<lparr>clock := 2000000000\<rparr>) = Inr s'
     \<and> (\<exists>j'. job_by s' 70 = Some j' \<and> sj_status j' = JOB_FAILED)
     \<and> (\<exists>v i. start_sync id 60 FULL_SYNC ''refunds'' None s' = (v, Inr i))"
proof -
  let ?s = "demo_engine\<lparr>clock := 2000000000\<rparr>"
  have ok: "jobs_ok ?s" using demo_jobs_ok by (simp add: jobs_ok_def slack_def errors_of_def active_jobs_def)
  have jobs: "sync_jobs ?s = [demo_job 70 JOB_QUEUED]" by (simp add: demo_engine_def webhook_db.defs)
  have old: "demo_job 70 JOB_QUEUED \<in> stale ?s"
    unfolding stale_def get_stale_queued_def jobs by (simp add: demo_job_def stale_sync_job_threshold_def)
  have found: "integration_by ?s 60 \<noteq> None" by (simp add: integration_by_def demo_engine_def webhook_db.defs)
  have active: "set (active_jobs ?s 60 ''refunds'') \<subseteq> stale ?s" using old unfolding active_jobs_def jobs by simp
  obtain s' where s': "reap_stale_sync_jobs ?s = Inr s'"
    "\<forall>j\<in>set (sync_jobs ?s). if j \<in> stale ?s then \<exists>j'. job_by s' (sj_id j) = Some j' \<and> sj_status j' = JOB_FAILED
         else job_by s' (sj_id j) = Some j"
    "integration_by ?s 60 \<noteq> None \<longrightarrow> set (active_jobs ?s 60 ''refunds'') \<subseteq> stale ?s \<longrightarrow>
        (\<exists>v i. start_sync id 60 FULL_SYNC ''refunds'' None s' = (v, Inr i))"
    using reaper_unblocks [OF ok, of 60 "''refunds''" FULL_SYNC None] by (elim exE conjE) (rule that)
  have "sj_id (demo_job 70 JOB_QUEUED) = 70" by (simp add: demo_job_def)
  with s'(2) old jobs have "\<exists>j'. job_by s' 70 = Some j' \<and> sj_status j' = JOB_FAILED" by simp
  with s'(1,3) found active show ?thesis by blast
qed

section \<open>The backlog\<close>

text \<open>
  C27: where the provider's list of pages stays as it is, a backlog is crawled to its end: each full sync takes up the
  page its predecessor stopped before, be it out of time or not, so that from a checkpoint at page \<open>k\<close> of \<open>n\<close> at most
  \<open>n - k\<close> full syncs, however slow the provider is, leave the backlog marked complete, no checkpoint and no active job;
  the scheduler asks for incremental syncs from then on.
\<close>

theorem backlog_completes:
  assumes "\<And>c A. adapters c = Some A \<Longrightarrow> takes_time A" and "\<And>e. upsert_contract (others e)"
    and "adapters (in_code row) = Some A" and "entity_upsert_handlers g lookup others entity = Some H" and "crawls A entity cur pgs"
    and "jobs_ok s" and "active_jobs s iid entity = []" and "integration_by s iid = Some row"
    and "map_of (in_cursors row) entity = cur k" and "k < length pgs"
  shows "\<exists>r s' row'. r \<le> length pgs - k \<and> full_syncs adapters (entity_upsert_handlers g lookup others) iid entity r s = Some s'
    \<and> integration_by s' iid = Some row' \<and> map_of (in_cursors row') entity = None \<and> active_jobs s' iid entity = []
    \<and> backlog_known_complete_for row' entity (since_of s' iid entity) None"
proof -
  have "\<exists>r s' row'. r \<le> length pgs - k \<and> full_syncs adapters (entity_upsert_handlers g lookup others) iid entity r s = Some s'
    \<and> integration_by s' iid = Some row' \<and> map_of (in_cursors row') entity = None \<and> map_of (in_backlog row') entity = Some True
    \<and> jobs_ok s' \<and> active_jobs s' iid entity = []"
    by (rule full_syncs_complete [where cur = cur and k = k and row = row])
      (erule assms(1), erule entity_handlers_contract [OF assms(2)], (rule assms(3-10) HOL.refl)+)
  then show ?thesis by (auto simp: backlog_known_complete_for_def)
qed

theorem backlog_completes_witness:
  "\<exists>r s' row'. r \<le> 3 \<and> full_syncs demo_adapters (entity_upsert_handlers demo_gateways None demo_others) 60 ''refunds'' r
       (demo_engine\<lparr>sync_jobs := []\<rparr>) = Some s' \<and> integration_by s' 60 = Some row' \<and> map_of (in_cursors row') ''refunds'' = None
     \<and> active_jobs s' 60 ''refunds'' = [] \<and> backlog_known_complete_for row' ''refunds'' (since_of s' 60 ''refunds'') None"
proof -
  let ?s = "demo_engine\<lparr>sync_jobs := []\<rparr>"
  let ?cur = "\<lambda>k::nat. if k = 0 then None else Some (replicate k (CHR ''p''))"
  have ok: "jobs_ok ?s" by (simp add: jobs_ok_def active_jobs_def demo_engine_def webhook_db.defs)
  have free: "active_jobs ?s 60 ''refunds'' = []" by (simp add: active_jobs_def)
  let ?row = "\<lparr>in_id = 60, in_code = ''shopify'', in_status = CONNECTED_STATUS, in_cursors = [], in_backlog = [], in_last_sync = None,
    in_last_success = None, in_last_failure = None\<rparr>"
  have row: "integration_by ?s 60 = Some ?row" by (simp add: integration_by_def demo_engine_def webhook_db.defs)
  have pages: "length demo_pages = 3" by (simp add: demo_pages_def)
  have A: "demo_adapters (in_code ?row) = Some demo_adapter" by (simp add: demo_adapters_def)
  have crawls: "crawls demo_adapter ''refunds'' ?cur demo_pages"
    by (auto simp: crawls_def demo_adapter_def demo_page_def pages)
  have cur: "map_of (in_cursors ?row) ''refunds'' = ?cur 0" by simp
  obtain H where H: "entity_upsert_handlers demo_gateways None demo_others ''refunds'' = Some H"
    by (simp add: entity_upsert_handlers_def Let_def)
  have k: "0 < length demo_pages" using pages by simp
  have "\<exists>r s' row'. r \<le> length demo_pages - 0 \<and> full_syncs demo_adapters (entity_upsert_handlers demo_gateways None demo_others) 60 ''refunds'' r
       ?s = Some s' \<and> integration_by s' 60 = Some row' \<and> map_of (in_cursors row') ''refunds'' = None
     \<and> active_jobs s' 60 ''refunds'' = [] \<and> backlog_known_complete_for row' ''refunds'' (since_of s' 60 ''refunds'') None"
    by (rule backlog_completes [where cur = ?cur and k = 0 and row = ?row]) (erule demo_takes_time, (rule demo_contract A H crawls ok free row cur k)+)
  then show ?thesis unfolding pages by simp
qed

section \<open>Shipments nobody knows\<close>

lemma last_sort_key_snoc: "\<forall>x\<in>set xs. f x \<le> f a \<Longrightarrow> last (sort_key f (xs @ [a])) = a"
proof -
  assume top: "\<forall>x\<in>set xs. f x \<le> f a"
  have stable: "filter (\<lambda>x. f k = f x) (sort_key f xs) = filter (\<lambda>x. f k = f x) xs" for k
    using sort_key_stable [of f "f k" xs] by (simp only: eq_commute [of "f k"])
  have "sort_key f (xs @ [a]) = sort_key f xs @ [a]"
    by (rule properties_for_sort_key) (use top in \<open>auto simp: sorted_append stable\<close>)
  then show ?thesis by simp
qed

definition demo_listed :: synced_shipment where
  "demo_listed = \<lparr>sp_source = ''shiprocket'', sp_external = ''sp1'', sp_channel_order = None, sp_shiprocket_order = Some ''77'',
     sp_fields = no_fields\<rparr>"

definition no_order :: failure where
  "no_order = Failure (NotFoundError unmatched_message) (Some ''validation_error'')"

text \<open>
  C28: once the last error of a shipment says that no order was found for it, no later sync looks for its order again:
  a shipment the list sends without a channel order fails with the same error, whatever the live lookup would say and whatever
  orders the table holds by now, and the error it leaves is again of that kind. A shipment that was listed before its
  order was synced never reaches the table.
\<close>

theorem unmatched_shipment_stays_unmatched:
  assumes "by_external shp_source shp_external (shipments s) (sp_source d) (sp_external d) = None" and "\<not> present (sp_channel_order d)"
    and "confirmed_unmatched s (sp_external d)" and "job_by s i \<noteq> None" and "\<forall>e\<in>set (sync_errors s). sx_created_at e \<le> clock s"
  shows "upsert_shipment lookup d s = (s, Inl no_order)
    \<and> (\<exists>s'. record_error i ''shipments'' (record_failure_type no_order) (error_message (failure_error no_order)) (Some (sp_external d)) s = Inr s'
        \<and> confirmed_unmatched s' (sp_external d) \<and> shipments s' = shipments s)"
proof -
  let ?x = "sp_external d"
  have "resolve_order_by_channel_order_id s (sp_channel_order d) = None"
    using assms(2) by (auto simp: resolve_order_by_channel_order_id_def split: option.split)
  then have "shipment_order lookup d s = Inl no_order"
    using assms(3) by (simp add: shipment_order_def no_order_def)
  then have up: "upsert_shipment lookup d s = (s, Inl no_order)" using assms(1) by (simp add: upsert_shipment_def)
  obtain j where j: "job_by s i = Some j" using assms(4) by blast
  let ?e = "\<lparr>sx_id = next_id s, sx_job = i, sx_integration = sj_integration j, sx_entity = ''shipments'', sx_external = Some ?x,
    sx_type = ''validation_error'', sx_message = unmatched_message, sx_retries = 0, sx_resolved = False, sx_created_at = clock s\<rparr>"
  let ?P = "\<lambda>e. sx_entity e = ''shipments'' \<and> sx_external e = Some ?x"
  obtain s' where s': "record_error i ''shipments'' (record_failure_type no_order) (error_message (failure_error no_order)) (Some ?x) s = Inr s'"
    "sync_errors s' = sync_errors s @ [?e]" "shipments s' = shipments s"
    using j by (simp add: record_error_def get_sync_job_simps no_order_def record_failure_type_def error_code_def unmatched_message_def error_message_def
        job_update_def fresh_def)
  have "last (sort_key sx_created_at (filter ?P (sync_errors s) @ [?e])) = ?e"
    using assms(5) by (simp add: last_sort_key_snoc)
  then have "get_latest_for_entity_and_external_id s' ''shipments'' ?x = Some ?e"
    by (simp add: get_latest_for_entity_and_external_id_def latest_by_def s'(2))
  moreover have "?x \<noteq> []" using assms(3) by (simp add: confirmed_unmatched_def)
  moreover have "\<not> contains ''orders_show_lookup_failed'' unmatched_message" by code_simp
  ultimately have "confirmed_unmatched s' ?x" by (simp add: confirmed_unmatched_def)
  with up s'(1,3) show ?thesis by blast
qed

text \<open>Order 900 is in the table and the lookup names it; the shipment is kept out by the error of an earlier sync.\<close>

theorem unmatched_shipment_stays_unmatched_witness:
  "\<exists>s :: sync_db. upsert_shipment (Some (\<lambda>_. Inr (None, Some ''900''))) demo_listed s = (s, Inl no_order)
     \<and> snd (upsert_shipment (Some (\<lambda>_. Inr (None, Some ''900''))) demo_listed (s\<lparr>sync_errors := []\<rparr>)) = Inr True"
proof -
  let ?e = "\<lparr>sx_id = 80, sx_job = 70, sx_integration = 60, sx_entity = ''shipments'', sx_external = Some ''sp1'',
    sx_type = ''validation_error'', sx_message = unmatched_message, sx_retries = 0, sx_resolved = False, sx_created_at = 950\<rparr>"
  let ?s = "demo_engine\<lparr>sync_errors := [?e], shipments := []\<rparr>"
  have "upsert_shipment (Some (\<lambda>_. Inr (None, Some ''900''))) demo_listed ?s = (?s, Inl no_order)"
  proof (rule unmatched_shipment_stays_unmatched [where i = 70, THEN conjunct1])
    show "by_external shp_source shp_external (shipments ?s) (sp_source demo_listed) (sp_external demo_listed) = None"
      by (simp add: by_external_def)
    show "\<not> present (sp_channel_order demo_listed)" by (simp add: demo_listed_def)
    have "\<not> contains ''orders_show_lookup_failed'' unmatched_message" by code_simp
    then show "confirmed_unmatched ?s (sp_external demo_listed)"
      by (simp add: confirmed_unmatched_def get_latest_for_entity_and_external_id_def latest_by_def demo_listed_def)
    show "job_by ?s 70 \<noteq> None" using demo_job_70 by (simp add: job_by_def)
    have "clock ?s = 1000" by (simp add: demo_engine_def webhook_db.defs demo_pay_def returns_db.defs demo_returns_def shipping_db.defs demo_ship_def)
    then show "\<forall>e\<in>set (sync_errors ?s). sx_created_at e \<le> clock ?s" by simp
  qed
  moreover have "snd (upsert_shipment (Some (\<lambda>_. Inr (None, Some ''900''))) demo_listed (?s\<lparr>sync_errors := []\<rparr>)) = Inr True"
    by code_simp
  ultimately show ?thesis by blast
qed

end
