(* ===== verification/Access.thy ===== *)
theory Access
  imports Shipping
begin

text \<open>
  Who may do what: \<open>app/services/auth_service.py\<close>, \<open>app/services/user_service.py\<close>, \<open>app/services/rbac_service.py\<close>, the guards of
  \<open>app/dependencies/auth.py\<close>, the tokens of \<open>app/core/security.py\<close>, the endpoints \<open>auth.py\<close>, \<open>users.py\<close>, \<open>roles.py\<close> and
  \<open>permissions.py\<close>, and the seeding of roles and permissions by \<open>scripts/seed.py\<close>.

  Signing and password hashing are the parameter \<open>crypto\<close>: \<open>cr_decode\<close> is given the time in seconds, because a token past its
  \<open>exp\<close> does not decode. Request bodies come after their schema check. A join row is the pair of its two keys, and a permission's description is not kept.
\<close>

section \<open>Rows\<close>

record account =
  ac_id :: uuid
  ac_name :: string
  ac_email :: string
  ac_phone :: "string option"
  ac_hash :: string
  ac_active :: bool
  ac_superuser :: bool
  ac_leader :: "uuid option"
  ac_staff :: "uuid option"

record role =
  ro_id :: uuid
  ro_name :: string
  ro_description :: "string option"

record permission =
  pn_id :: uuid
  pn_code :: string
  pn_module :: string
  pn_action :: string

record refresh_token =
  rk_jti :: uuid
  rk_user :: uuid
  rk_expires :: instant
  rk_revoked :: "instant option"

record access_db = base_db +
  accounts :: "account list"
  roles :: "role list"
  permissions :: "permission list"
  user_roles :: "(uuid \<times> uuid) list"
  role_permissions :: "(uuid \<times> uuid) list"
  refresh_tokens :: "refresh_token list"

definition account_by :: "'a access_db_scheme \<Rightarrow> uuid \<Rightarrow> account option" where
  "account_by s = row_by ac_id (accounts s)"

definition get_by_email :: "'a access_db_scheme \<Rightarrow> string \<Rightarrow> account option" where
  "get_by_email s email = find (\<lambda>u. ac_email u = email) (accounts s)"

definition role_by :: "'a access_db_scheme \<Rightarrow> uuid \<Rightarrow> role option" where
  "role_by s = row_by ro_id (roles s)"

definition role_by_name :: "'a access_db_scheme \<Rightarrow> string \<Rightarrow> role option" where
  "role_by_name s name = find (\<lambda>r. ro_name r = name) (roles s)"

definition permission_by :: "'a access_db_scheme \<Rightarrow> uuid \<Rightarrow> permission option" where
  "permission_by s = row_by pn_id (permissions s)"

definition permission_by_code :: "'a access_db_scheme \<Rightarrow> string \<Rightarrow> permission option" where
  "permission_by_code s code = find (\<lambda>p. pn_code p = code) (permissions s)"

definition get_by_jti :: "'a access_db_scheme \<Rightarrow> uuid \<Rightarrow> refresh_token option" where
  "get_by_jti s = row_by rk_jti (refresh_tokens s)"

definition token_active :: "'a base_db_scheme \<Rightarrow> refresh_token \<Rightarrow> bool" where
  "token_active s r \<longleftrightarrow> rk_revoked r = None \<and> clock s < rk_expires r"

definition roles_of :: "'a access_db_scheme \<Rightarrow> uuid \<Rightarrow> role list" where
  "roles_of s uid = List.map_filter (\<lambda>(u, r). if u = uid then role_by s r else None) (user_roles s)"

definition role_names :: "'a access_db_scheme \<Rightarrow> uuid \<Rightarrow> string list" where
  "role_names s uid = map ro_name (roles_of s uid)"

definition codes_of_role :: "'a access_db_scheme \<Rightarrow> uuid \<Rightarrow> string list" where
  "codes_of_role s rid = List.map_filter (\<lambda>(r, p). if r = rid then map_option pn_code (permission_by s p) else None) (role_permissions s)"

definition permission_codes :: "'a access_db_scheme \<Rightarrow> uuid \<Rightarrow> string set" where
  "permission_codes s uid = set (concat (map (\<lambda>r. codes_of_role s (ro_id r)) (roles_of s uid)))"

text \<open>SQL's \<open>ILIKE\<close>, without its escapes.\<close>

fun ilike :: "string \<Rightarrow> string \<Rightarrow> bool" where
  "ilike [] s \<longleftrightarrow> s = []"
| "ilike (p # ps) s \<longleftrightarrow> (if p = CHR ''%'' then list_ex (\<lambda>k. ilike ps (drop k s)) [0..<Suc (length s)]
     else s \<noteq> [] \<and> (p = CHR ''_'' \<or> lower_char p = lower_char (hd s)) \<and> ilike ps (tl s))"

definition list_by_role :: "'a access_db_scheme \<Rightarrow> string \<Rightarrow> uuid option \<Rightarrow> bool \<Rightarrow> account list" where
  "list_by_role s name leader active_only = sort_key ac_name (filter (\<lambda>u. list_ex (ilike name) (role_names s (ac_id u))
     \<and> (active_only \<longrightarrow> ac_active u) \<and> (leader \<noteq> None \<longrightarrow> ac_leader u = leader)) (accounts s))"

definition list_ids_by_shipment_staff :: "'a access_db_scheme \<Rightarrow> uuid \<Rightarrow> uuid list" where
  "list_ids_by_shipment_staff s staff = map ac_id (filter (\<lambda>u. ac_staff u = Some staff) (accounts s))"

section \<open>Tokens\<close>

datatype token_type = ACCESS_TOKEN | REFRESH_TOKEN

record claims =
  cl_sub :: "uuid option"
  cl_type :: "token_type option"
  cl_iat :: int
  cl_exp :: int
  cl_jti :: "uuid option"

record crypto =
  cr_encode :: "claims \<Rightarrow> string"
  cr_decode :: "int \<Rightarrow> string \<Rightarrow> claims option"
  cr_hash :: "string \<Rightarrow> string"
  cr_verify :: "string \<Rightarrow> string \<Rightarrow> bool"

definition seconds :: "instant \<Rightarrow> int" where
  "seconds t = t div 1000000"

definition jwt_access_token_expire :: int where
  "jwt_access_token_expire = 900"

definition jwt_refresh_token_expire :: int where
  "jwt_refresh_token_expire = 1209600"

definition create_token :: "crypto \<Rightarrow> token_type \<Rightarrow> int \<Rightarrow> uuid option \<Rightarrow> uuid \<Rightarrow> 'a base_db_scheme \<Rightarrow> string" where
  "create_token C ty expire jti uid s = cr_encode C \<lparr>cl_sub = Some uid, cl_type = Some ty, cl_iat = seconds (clock s),
     cl_exp = seconds (clock s + expire * 1000000), cl_jti = jti\<rparr>"

definition create_access_token :: "crypto \<Rightarrow> uuid \<Rightarrow> 'a base_db_scheme \<Rightarrow> string" where
  "create_access_token C uid s = create_token C ACCESS_TOKEN jwt_access_token_expire None uid s"

definition create_refresh_token :: "crypto \<Rightarrow> uuid \<Rightarrow> 'a base_db_scheme \<Rightarrow> string \<times> uuid" where
  "create_refresh_token C uid s = (create_token C REFRESH_TOKEN jwt_refresh_token_expire (Some (next_id s)) uid s, next_id s)"

definition decode_token :: "crypto \<Rightarrow> string \<Rightarrow> 'a base_db_scheme \<Rightarrow> claims option" where
  "decode_token C token s = cr_decode C (seconds (clock s)) token"

section \<open>Sessions\<close>

definition login :: "crypto \<Rightarrow> string \<Rightarrow> string \<Rightarrow> 'a access_db_scheme \<Rightarrow> ((string \<times> string) \<times> 'a access_db_scheme) result" where
  "login C email password s = (case get_by_email s email of
     None \<Rightarrow> Inl (AuthenticationError ''Invalid email or password.'')
   | Some u \<Rightarrow>
       if \<not> cr_verify C password (ac_hash u) then Inl (AuthenticationError ''Invalid email or password.'')
       else if \<not> ac_active u then Inl (AuthenticationError ''Account is deactivated.'')
       else let access = create_access_token C (ac_id u) s;
                (token, jti) = create_refresh_token C (ac_id u) s
            in Inr ((access, token), fresh (s\<lparr>refresh_tokens := refresh_tokens s @ [\<lparr>rk_jti = jti, rk_user = ac_id u,
                 rk_expires = clock s + jwt_refresh_token_expire * 1000000, rk_revoked = None\<rparr>]\<rparr>)))"

definition refresh :: "crypto \<Rightarrow> string \<Rightarrow> 'a access_db_scheme \<Rightarrow> string result" where
  "refresh C token s =
     bindR (require_some (decode_token C token s) (AuthenticationError ''Invalid or expired refresh token.'')) (\<lambda>payload.
     bindR (require (cl_type payload = Some REFRESH_TOKEN) (AuthenticationError ''Refresh token required.'')) (\<lambda>_.
     bindR (require (case Option.bind (cl_jti payload) (get_by_jti s) of None \<Rightarrow> False | Some r \<Rightarrow> token_active s r)
       (AuthenticationError ''Refresh token has been revoked or expired.'')) (\<lambda>_.
     bindR (require_some (cl_sub payload) (KeyError ''sub'')) (\<lambda>uid. case account_by s uid of
       None \<Rightarrow> Inl (AuthenticationError ''User not found or inactive.'')
     | Some u \<Rightarrow> if ac_active u then Inr (create_access_token C (ac_id u) s)
         else Inl (AuthenticationError ''User not found or inactive.'')))))"

definition logout :: "crypto \<Rightarrow> string \<Rightarrow> 'a access_db_scheme \<Rightarrow> 'a access_db_scheme" where
  "logout C token s = (case decode_token C token s of
     None \<Rightarrow> s
   | Some payload \<Rightarrow> (case cl_jti payload of
       None \<Rightarrow> s
     | Some jti \<Rightarrow> (case get_by_jti s jti of
         None \<Rightarrow> s
       | Some r \<Rightarrow> if rk_revoked r \<noteq> None then s
           else s\<lparr>refresh_tokens := set_where (\<lambda>x. rk_jti x = jti) (\<lambda>x. x\<lparr>rk_revoked := Some (clock s)\<rparr>) (refresh_tokens s)\<rparr>)))"

definition get_current_user :: "crypto \<Rightarrow> string option \<Rightarrow> 'a access_db_scheme \<Rightarrow> account result" where
  "get_current_user C credentials s =
     bindR (require_some credentials (AuthenticationError ''Missing bearer token.'')) (\<lambda>token.
     bindR (require_some (decode_token C token s) (AuthenticationError ''Invalid or expired token.'')) (\<lambda>payload.
     bindR (require (cl_type payload = Some ACCESS_TOKEN) (AuthenticationError ''Access token required.'')) (\<lambda>_.
     bindR (require_some (cl_sub payload) (AuthenticationError ''Invalid token subject.'')) (\<lambda>uid. case account_by s uid of
       None \<Rightarrow> Inl (AuthenticationError ''User not found or inactive.'')
     | Some u \<Rightarrow> if ac_active u then Inr u else Inl (AuthenticationError ''User not found or inactive.'')))))"

definition require_permission :: "crypto \<Rightarrow> string \<Rightarrow> string option \<Rightarrow> 'a access_db_scheme \<Rightarrow> account result" where
  "require_permission C code credentials s =
     bindR (get_current_user C credentials s) (\<lambda>u.
     if \<not> ac_superuser u \<and> code \<notin> permission_codes s (ac_id u) then Inl (AuthorizationError ''Missing required permission'') else Inr u)"

section \<open>Users\<close>

text \<open>The old join rows go, then each id is looked up; the unique constraint sees a repeated one at the flush.\<close>

definition sync_joins :: "(uuid \<Rightarrow> bool) \<Rightarrow> string \<Rightarrow> uuid \<Rightarrow> uuid list \<Rightarrow> (uuid \<times> uuid) list \<Rightarrow> (uuid \<times> uuid) list result" where
  "sync_joins known missing owner ids rows =
     bindR (require (list_all known ids) (NotFoundError missing)) (\<lambda>_.
     bindR (require (distinct ids) (IntegrityError ''unique join'')) (\<lambda>_.
     Inr (filter (\<lambda>(k, _). k \<noteq> owner) rows @ map (Pair owner) ids)))"

definition sync_roles :: "uuid \<Rightarrow> uuid list \<Rightarrow> 'a access_db_scheme \<Rightarrow> 'a access_db_scheme result" where
  "sync_roles uid ids s =
     bindR (sync_joins (\<lambda>i. role_by s i \<noteq> None) ''Role not found.'' uid ids (user_roles s)) (\<lambda>rows. Inr (s\<lparr>user_roles := rows\<rparr>))"

definition validate_holds :: "string \<Rightarrow> oms_error \<Rightarrow> uuid option \<Rightarrow> 'a access_db_scheme \<Rightarrow> unit result" where
  "validate_holds name e uid s = (case uid of
     None \<Rightarrow> Inr ()
   | Some i \<Rightarrow> require (account_by s i \<noteq> None \<and> name \<in> set (role_names s i)) e)"

definition validate_team_leader :: "uuid option \<Rightarrow> 'a access_db_scheme \<Rightarrow> unit result" where
  "validate_team_leader = validate_holds ''TEAM_LEADER'' (NotFoundError ''team_leader_id does not reference a Team Leader.'')"

definition validate_shipment_staff :: "uuid option \<Rightarrow> 'a access_db_scheme \<Rightarrow> unit result" where
  "validate_shipment_staff = validate_holds ''SHIPMENT_STAFF'' (NotFoundError ''shipment_staff_id does not reference a Shipment Staff user.'')"

definition get_user :: "uuid \<Rightarrow> 'a access_db_scheme \<Rightarrow> account result" where
  "get_user uid s = require_some (account_by s uid) (NotFoundError ''User not found.'')"

record user_payload =
  up_name :: string
  up_email :: string
  up_phone :: "string option"
  up_password :: string
  up_roles :: "uuid list"
  up_leader :: "uuid option"
  up_staff :: "uuid option"

definition create_user :: "crypto \<Rightarrow> user_payload \<Rightarrow> 'a access_db_scheme \<Rightarrow> (account \<times> 'a access_db_scheme) result" where
  "create_user C p s =
     bindR (require (get_by_email s (up_email p) = None) (ConflictError ''A user with this email already exists.'')) (\<lambda>_.
     bindR (validate_team_leader (up_leader p) s) (\<lambda>_.
     bindR (validate_shipment_staff (up_staff p) s) (\<lambda>_.
     let i = next_id s;
         s1 = fresh (s\<lparr>accounts := accounts s @ [\<lparr>ac_id = i, ac_name = up_name p, ac_email = up_email p, ac_phone = up_phone p,
           ac_hash = cr_hash C (up_password p), ac_active = True, ac_superuser = False, ac_leader = up_leader p, ac_staff = up_staff p\<rparr>]\<rparr>)
     in bindR (sync_roles i (up_roles p) s1) (\<lambda>s2. bindR (get_user i s2) (\<lambda>u. Inr (u, s2))))))"

text \<open>What is left out is left alone; a leader or staff user is cleared by a flag of its own.\<close>

record user_patch =
  ut_name :: "string option"
  ut_phone :: "string option"
  ut_active :: "bool option"
  ut_roles :: "uuid list option"
  ut_leader :: "uuid option"
  ut_clear_leader :: bool
  ut_staff :: "uuid option"
  ut_clear_staff :: bool

definition no_patch :: user_patch where
  "no_patch = \<lparr>ut_name = None, ut_phone = None, ut_active = None, ut_roles = None, ut_leader = None, ut_clear_leader = False,
     ut_staff = None, ut_clear_staff = False\<rparr>"

definition patch_account :: "user_patch \<Rightarrow> account \<Rightarrow> account" where
  "patch_account p u = u\<lparr>ac_name := (case ut_name p of None \<Rightarrow> ac_name u | Some n \<Rightarrow> n),
     ac_phone := (case ut_phone p of None \<Rightarrow> ac_phone u | Some t \<Rightarrow> Some t),
     ac_active := (case ut_active p of None \<Rightarrow> ac_active u | Some b \<Rightarrow> b),
     ac_leader := (if ut_clear_leader p then None else case ut_leader p of None \<Rightarrow> ac_leader u | Some i \<Rightarrow> Some i),
     ac_staff := (if ut_clear_staff p then None else case ut_staff p of None \<Rightarrow> ac_staff u | Some i \<Rightarrow> Some i)\<rparr>"

definition update_user :: "uuid \<Rightarrow> user_patch \<Rightarrow> 'a access_db_scheme \<Rightarrow> (account \<times> 'a access_db_scheme) result" where
  "update_user uid p s =
     bindR (get_user uid s) (\<lambda>_.
     bindR (validate_team_leader (if ut_clear_leader p then None else ut_leader p) s) (\<lambda>_.
     bindR (validate_shipment_staff (if ut_clear_staff p then None else ut_staff p) s) (\<lambda>_.
     let s1 = s\<lparr>accounts := set_where (\<lambda>u. ac_id u = uid) (patch_account p) (accounts s)\<rparr>
     in bindR (case ut_roles p of None \<Rightarrow> Inr s1 | Some ids \<Rightarrow> sync_roles uid ids s1) (\<lambda>s2.
        bindR (get_user uid s2) (\<lambda>u. Inr (u, s2))))))"

definition deactivate_user :: "uuid \<Rightarrow> 'a access_db_scheme \<Rightarrow> (account \<times> 'a access_db_scheme) result" where
  "deactivate_user uid = update_user uid (no_patch\<lparr>ut_active := Some False\<rparr>)"

section \<open>Roles\<close>

definition get_role :: "uuid \<Rightarrow> 'a access_db_scheme \<Rightarrow> role result" where
  "get_role rid s = require_some (role_by s rid) (NotFoundError ''Role not found.'')"

definition sync_permissions :: "uuid \<Rightarrow> uuid list \<Rightarrow> 'a access_db_scheme \<Rightarrow> 'a access_db_scheme result" where
  "sync_permissions rid ids s =
     bindR (sync_joins (\<lambda>i. permission_by s i \<noteq> None) ''Permission not found.'' rid ids (role_permissions s)) (\<lambda>rows.
     Inr (s\<lparr>role_permissions := rows\<rparr>))"

text \<open>A name that is taken is refused by the unique constraint, not by a check.\<close>

definition create_role :: "string \<Rightarrow> string option \<Rightarrow> uuid list \<Rightarrow> 'a access_db_scheme \<Rightarrow> (role \<times> 'a access_db_scheme) result" where
  "create_role name description ids s =
     bindR (require (role_by_name s name = None) (IntegrityError ''roles_name_key'')) (\<lambda>_.
     let i = next_id s; s1 = fresh (s\<lparr>roles := roles s @ [\<lparr>ro_id = i, ro_name = name, ro_description = description\<rparr>]\<rparr>)
     in bindR (sync_permissions i ids s1) (\<lambda>s2. bindR (get_role i s2) (\<lambda>r. Inr (r, s2))))"

definition update_role ::
  "uuid \<Rightarrow> string option \<Rightarrow> uuid list option \<Rightarrow> 'a access_db_scheme \<Rightarrow> (role \<times> 'a access_db_scheme) result" where
  "update_role rid description ids s =
     bindR (get_role rid s) (\<lambda>_.
     let s1 = (case description of None \<Rightarrow> s
           | Some d \<Rightarrow> s\<lparr>roles := set_where (\<lambda>r. ro_id r = rid) (\<lambda>r. r\<lparr>ro_description := Some d\<rparr>) (roles s)\<rparr>)
     in bindR (case ids of None \<Rightarrow> Inr s1 | Some xs \<Rightarrow> sync_permissions rid xs s1) (\<lambda>s2.
        bindR (get_role rid s2) (\<lambda>r. Inr (r, s2))))"

section \<open>Endpoints\<close>

datatype access_request =
    Post_login string string
  | Post_refresh string
  | Post_logout "string option" string
  | Get_me "string option"
  | Post_user "string option" user_payload
  | Get_user "string option" uuid
  | Patch_user "string option" uuid user_patch
  | Delete_user "string option" uuid
  | Get_users "string option"
  | Post_role "string option" string "string option" "uuid list"
  | Get_role "string option" uuid
  | Patch_role "string option" uuid "string option" "uuid list option"
  | Get_roles "string option"
  | Get_permissions "string option"

datatype access_response =
    Tokens string string
  | Access_token string
  | Done
  | Profile account "string list" "string set"
  | User_row account "string list"
  | User_rows "(account \<times> string list) list"
  | Role_row role "string list"
  | Role_rows "(role \<times> string list) list"
  | Permission_rows "permission list"

definition user_row :: "'a access_db_scheme \<Rightarrow> account \<Rightarrow> access_response" where
  "user_row s u = User_row u (role_names s (ac_id u))"

definition role_row :: "'a access_db_scheme \<Rightarrow> role \<Rightarrow> access_response" where
  "role_row s r = Role_row r (codes_of_role s (ro_id r))"

text \<open>The handler behind its guard, and the state and the answer of a request; one that raises leaves the state as it was.\<close>

definition guarded :: "crypto \<Rightarrow> string \<Rightarrow> string option \<Rightarrow> 's access_db_scheme \<Rightarrow> ('r \<times> 's access_db_scheme) result \<Rightarrow> ('r \<times> 's access_db_scheme) result" where
  "guarded C code credentials s body = bindR (require_permission C code credentials s) (\<lambda>_. body)"

fun handle :: "crypto \<Rightarrow> access_request \<Rightarrow> 'a access_db_scheme \<Rightarrow> (access_response \<times> 'a access_db_scheme) result" where
  "handle C (Post_login email password) s = bindR (login C email password s) (\<lambda>((access, token), s1). Inr (Tokens access token, s1))"
| "handle C (Post_refresh token) s = bindR (refresh C token s) (\<lambda>access. Inr (Access_token access, s))"
| "handle C (Post_logout cred token) s = bindR (get_current_user C cred s) (\<lambda>_. Inr (Done, logout C token s))"
| "handle C (Get_me cred) s = bindR (get_current_user C cred s) (\<lambda>u. Inr (Profile u (role_names s (ac_id u)) (permission_codes s (ac_id u)), s))"
| "handle C (Post_user cred p) s =
     guarded C ''users.manage'' cred s (bindR (create_user C p s) (\<lambda>(u, s1). Inr (user_row s1 u, s1)))"
| "handle C (Get_user cred uid) s = guarded C ''users.manage'' cred s (bindR (get_user uid s) (\<lambda>u. Inr (user_row s u, s)))"
| "handle C (Patch_user cred uid p) s =
     guarded C ''users.manage'' cred s (bindR (update_user uid p s) (\<lambda>(u, s1). Inr (user_row s1 u, s1)))"
| "handle C (Delete_user cred uid) s =
     guarded C ''users.manage'' cred s (bindR (deactivate_user uid s) (\<lambda>(u, s1). Inr (Done, s1)))"
| "handle C (Get_users cred) s =
     guarded C ''users.manage'' cred s (Inr (User_rows (map (\<lambda>u. (u, role_names s (ac_id u))) (accounts s)), s))"
| "handle C (Post_role cred name description ids) s =
     guarded C ''roles.manage'' cred s (bindR (create_role name description ids s) (\<lambda>(r, s1). Inr (role_row s1 r, s1)))"
| "handle C (Get_role cred rid) s = guarded C ''roles.manage'' cred s (bindR (get_role rid s) (\<lambda>r. Inr (role_row s r, s)))"
| "handle C (Patch_role cred rid description ids) s =
     guarded C ''roles.manage'' cred s (bindR (update_role rid description ids s) (\<lambda>(r, s1). Inr (role_row s1 r, s1)))"
| "handle C (Get_roles cred) s =
     guarded C ''roles.manage'' cred s (Inr (Role_rows (map (\<lambda>r. (r, codes_of_role s (ro_id r))) (roles s)), s))"
| "handle C (Get_permissions cred) s = guarded C ''roles.manage'' cred s (Inr (Permission_rows (permissions s), s))"

section \<open>Seeding\<close>

definition seeded_permissions :: "string list" where
  "seeded_permissions = [''orders.read'', ''orders.create'', ''orders.update'', ''orders.cancel'', ''orders.confirm'', ''shipments.read'',
     ''shipments.update'', ''customers.read'', ''customers.update'', ''products.read'', ''products.update'', ''inventory.read'',
     ''inventory.manage'', ''ndr.read'', ''ndr.update'', ''rto.read'', ''rto.update'', ''returns.read'', ''returns.update'', ''refunds.read'',
     ''payments.read'', ''payments.create'', ''couriers.read'', ''couriers.update'', ''analytics.read'', ''users.manage'', ''roles.manage'',
     ''audit_logs.read'', ''integrations.read'', ''integrations.manage'', ''integrations.test'', ''sync_jobs.read'', ''sync_jobs.manage'',
     ''webhooks.read'', ''reconciliation.read'', ''reconciliation.manage'', ''telecalling.manage'', ''calls.manage'',
     ''shipment_staff.manage'', ''chat.use'', ''settings.manage'']"

definition seeded_roles :: "(string \<times> string list) list" where
  "seeded_roles = [(''ADMIN'', seeded_permissions),
     (''OPERATIONS'', [''orders.read'', ''orders.update'', ''orders.cancel'', ''shipments.read'', ''shipments.update'', ''ndr.read'', ''ndr.update'',
        ''rto.read'', ''rto.update'', ''couriers.read'', ''couriers.update'', ''customers.read'', ''reconciliation.read'',
        ''reconciliation.manage'', ''payments.read'', ''payments.create'', ''inventory.read'', ''inventory.manage'', ''chat.use'']),
     (''CUSTOMER_SUPPORT'', [''customers.read'', ''customers.update'', ''orders.read'', ''orders.cancel'', ''shipments.read'', ''ndr.read'',
        ''returns.read'', ''returns.update'', ''refunds.read'', ''chat.use'']),
     (''MARKETING'', [''analytics.read'', ''chat.use'']),
     (''MANAGEMENT'', [''analytics.read'', ''orders.read'', ''customers.read'', ''shipments.read'', ''ndr.read'', ''rto.read'', ''returns.read'',
        ''refunds.read'', ''payments.read'', ''couriers.read'', ''integrations.read'', ''sync_jobs.read'', ''webhooks.read'',
        ''reconciliation.read'', ''chat.use'']),
     (''TEAM_LEADER'', [''telecalling.manage'']),
     (''TELECALLER'', [''calls.manage'', ''orders.read'', ''orders.confirm'']),
     (''FULFILLMENT'', [''orders.read'', ''shipments.read'', ''shipments.update'', ''inventory.read'', ''ndr.read'', ''ndr.update'', ''rto.read'',
        ''rto.update'', ''couriers.read'']),
     (''SHIPMENT_STAFF'', [''shipment_staff.manage''])]"

fun seed_permissions :: "string list \<Rightarrow> 'a access_db_scheme \<Rightarrow> 'a access_db_scheme" where
  "seed_permissions [] s = s"
| "seed_permissions (code # codes) s = seed_permissions codes (case permission_by_code s code of
     Some _ \<Rightarrow> s
   | None \<Rightarrow> fresh (s\<lparr>permissions := permissions s @ [\<lparr>pn_id = next_id s, pn_code = code, pn_module = takeWhile (\<lambda>c. c \<noteq> CHR ''.'') code,
       pn_action = tl (dropWhile (\<lambda>c. c \<noteq> CHR ''.'') code)\<rparr>]\<rparr>))"

text \<open>\<open>str.title\<close>.\<close>

fun title_case :: "bool \<Rightarrow> string \<Rightarrow> string" where
  "title_case inside [] = []"
| "title_case inside (c # cs) = (if inside then lower_char c else upper_char c) # title_case (lower_char c \<noteq> upper_char c) cs"

text \<open>
  A permission the role has beyond the seeded ones is not found in the map from ids to codes. The script takes the codes
  to add from a set; here they come in the order of the list.
\<close>

definition seed_role :: "string \<times> string list \<Rightarrow> 'a access_db_scheme \<Rightarrow> 'a access_db_scheme result" where
  "seed_role grid s = (case grid of (name, codes) \<Rightarrow>
     let (rid, s1) = (case role_by_name s name of
           Some r \<Rightarrow> (ro_id r, s)
         | None \<Rightarrow> (next_id s, fresh (s\<lparr>roles := roles s @ [\<lparr>ro_id = next_id s, ro_name = name, ro_description = Some (title_case False name @ '' role'')\<rparr>]\<rparr>)));
         existing = codes_of_role s1 rid
     in bindR (require (list_all (\<lambda>c. c \<in> set seeded_permissions) existing) (KeyError ''permission_id'')) (\<lambda>_.
        Inr (s1\<lparr>role_permissions := role_permissions s1 @ List.map_filter (\<lambda>c. if c \<in> set existing then None
          else map_option (\<lambda>p. (rid, pn_id p)) (permission_by_code s1 c)) codes\<rparr>)))"

definition seed_admin_user :: "crypto \<Rightarrow> string \<Rightarrow> string \<Rightarrow> 'a access_db_scheme \<Rightarrow> 'a access_db_scheme" where
  "seed_admin_user C email password s = (case get_by_email s email of
     Some _ \<Rightarrow> s
   | None \<Rightarrow>
       let s1 = fresh (s\<lparr>accounts := accounts s @ [\<lparr>ac_id = next_id s, ac_name = ''Development Admin'', ac_email = email, ac_phone = None,
             ac_hash = cr_hash C password, ac_active = True, ac_superuser = True, ac_leader = None, ac_staff = None\<rparr>]\<rparr>)
       in (case role_by_name s1 ''ADMIN'' of None \<Rightarrow> s1 | Some r \<Rightarrow> s1\<lparr>user_roles := user_roles s1 @ [(next_id s, ro_id r)]\<rparr>))"

definition seed :: "crypto \<Rightarrow> string \<Rightarrow> string \<Rightarrow> 'a access_db_scheme \<Rightarrow> 'a access_db_scheme result" where
  "seed C email password s =
     bindR (for_each seed_role seeded_roles (seed_permissions seeded_permissions s)) (\<lambda>s1. Inr (seed_admin_user C email password s1))"

text \<open>A history of the service: requests, answered or refused, and time going by.\<close>

inductive access_run :: "crypto \<Rightarrow> 'a access_db_scheme \<Rightarrow> 'a access_db_scheme \<Rightarrow> bool" for C where
  start: "access_run C s s"
| answered: "access_run C s t \<Longrightarrow> handle C req t = Inr (r, u) \<Longrightarrow> access_run C s u"
| waited: "access_run C s t \<Longrightarrow> clock t \<le> now \<Longrightarrow> access_run C s (t\<lparr>clock := now\<rparr>)"

end
