(* ===== verification/Access_Props.thy ===== *)
theory Access_Props
  imports Access
begin

text \<open>
  Properties of the accounts, roles and tokens, with witnesses on a service that has just been seeded.
\<close>

lemmas access_defs = guarded_def require_permission_def bindR_Inr_iff

section \<open>What a request may change\<close>

definition access_tables :: "'a access_db_scheme \<Rightarrow> account list \<times> role list \<times> permission list \<times> (uuid \<times> uuid) list \<times> (uuid \<times> uuid) list" where
  "access_tables s = (accounts s, roles s, permissions s, user_roles s, role_permissions s)"

text \<open>The bearer token and the permission of a guarded request.\<close>

fun needs :: "access_request \<Rightarrow> (string option \<times> string) option" where
  "needs (Post_user cred p) = Some (cred, ''users.manage'')"
| "needs (Get_user cred uid) = Some (cred, ''users.manage'')"
| "needs (Patch_user cred uid p) = Some (cred, ''users.manage'')"
| "needs (Delete_user cred uid) = Some (cred, ''users.manage'')"
| "needs (Get_users cred) = Some (cred, ''users.manage'')"
| "needs (Post_role cred name description ids) = Some (cred, ''roles.manage'')"
| "needs (Get_role cred rid) = Some (cred, ''roles.manage'')"
| "needs (Patch_role cred rid description ids) = Some (cred, ''roles.manage'')"
| "needs (Get_roles cred) = Some (cred, ''roles.manage'')"
| "needs (Get_permissions cred) = Some (cred, ''roles.manage'')"
| "needs _ = None"

lemma handle_guard: "needs req = Some (cred, code) \<Longrightarrow> handle C req s = Inr x \<Longrightarrow> \<exists>u. require_permission C code cred s = Inr u"
  by (cases req) (auto simp: guarded_def bindR_Inr_iff)

lemma sync_roles_frame: "sync_roles uid ids s = Inr s' \<Longrightarrow> refresh_tokens s' = refresh_tokens s \<and> clock s' = clock s \<and> accounts s' = accounts s
    \<and> next_id s' = next_id s"
  by (auto simp: sync_roles_def bindR_Inr_iff)

lemma sync_permissions_frame: "sync_permissions rid ids s = Inr s' \<Longrightarrow> refresh_tokens s' = refresh_tokens s \<and> clock s' = clock s"
  by (auto simp: sync_permissions_def bindR_Inr_iff)

lemma access_fresh [simp]: "refresh_tokens (fresh s) = refresh_tokens s" "accounts (fresh s) = accounts s" "access_tables (fresh s) = access_tables s"
  by (simp_all add: fresh_def access_tables_def)

lemma update_user_frame:
  assumes "update_user uid p s = Inr (u, s')"
  shows "refresh_tokens s' = refresh_tokens s \<and> clock s' = clock s \<and> accounts s' = set_where (\<lambda>u. ac_id u = uid) (patch_account p) (accounts s)"
  using assms by (cases "ut_roles p") (auto simp: update_user_def bindR_Inr_iff Let_def dest: sync_roles_frame)

lemma handle_tokens:
  assumes "handle C req s = Inr (r, s')"
  shows "(\<exists>email password. req = Post_login email password) \<or> (\<exists>cred token. req = Post_logout cred token) \<or> refresh_tokens s' = refresh_tokens s"
proof (cases req)
  case (Post_user cred p)
  then show ?thesis using assms by (auto simp: guarded_def bindR_Inr_iff create_user_def Let_def dest!: sync_roles_frame)
next
  case (Post_role cred name description ids)
  then show ?thesis using assms by (auto simp: guarded_def bindR_Inr_iff create_role_def Let_def dest!: sync_permissions_frame)
next
  case (Patch_role cred rid description ids)
  then show ?thesis using assms
    by (cases description; cases ids) (auto simp: guarded_def bindR_Inr_iff update_role_def Let_def dest!: sync_permissions_frame)
qed (use assms in \<open>auto simp: guarded_def bindR_Inr_iff deactivate_user_def dest!: update_user_frame\<close>)

lemma handle_tables: "handle C req s = Inr (r, s') \<Longrightarrow> needs req = None \<Longrightarrow> access_tables s' = access_tables s"
  by (cases req) (auto simp: bindR_Inr_iff login_def logout_def access_tables_def Let_def fresh_def create_refresh_token_def
      split: option.split_asm if_split_asm option.split)

section \<open>Logging out\<close>

text \<open>A token, whenever it decodes, decodes to the same claims, and what was signed decodes until it expires.\<close>

definition signs :: "crypto \<Rightarrow> bool" where
  "signs C \<longleftrightarrow> (\<forall>t t' token c c'. cr_decode C t token = Some c \<longrightarrow> cr_decode C t' token = Some c' \<longrightarrow> c' = c)
     \<and> (\<forall>t c. cr_decode C t (cr_encode C c) = (if t \<le> cl_exp c then Some c else None))"

section \<open>A service to try\<close>

text \<open>A signature scheme for the witnesses: the claims as numbers in binary, each closed by a dot.\<close>

fun write_nat :: "nat \<Rightarrow> string" where
  "write_nat n = (if n = 0 then ''.'' else (if odd n then CHR ''1'' else CHR ''0'') # write_nat (n div 2))"

declare write_nat.simps [simp del]

lemma write_nat_0 [simp]: "write_nat 0 = ''.''"
  by (subst write_nat.simps) simp

fun read_nat :: "string \<Rightarrow> nat \<times> string" where
  "read_nat [] = (0, [])"
| "read_nat (c # cs) = (if c = CHR ''.'' then (0, cs) else case read_nat cs of (n, rest) \<Rightarrow> (2 * n + (if c = CHR ''1'' then 1 else 0), rest))"

lemma read_write_nat [simp]: "read_nat (write_nat n @ rest) = (n, rest)"
proof (induction n rule: write_nat.induct)
  case (1 n)
  show ?case
  proof (cases "n = 0")
    case False
    then have "read_nat (write_nat (n div 2) @ rest) = (n div 2, rest)" by (rule 1)
    then show ?thesis using False by (simp add: write_nat.simps [of n])
  qed simp
qed

definition option_nat :: "nat option \<Rightarrow> nat" where
  "option_nat x = (case x of None \<Rightarrow> 0 | Some n \<Rightarrow> Suc n)"

definition nat_option :: "nat \<Rightarrow> nat option" where
  "nat_option n = (if n = 0 then None else Some (n - 1))"

definition int_nat :: "int \<Rightarrow> nat" where
  "int_nat i = (if 0 \<le> i then 2 * nat i else 2 * nat (- i) + 1)"

definition nat_int :: "nat \<Rightarrow> int" where
  "nat_int n = (if even n then int (n div 2) else - int (n div 2))"

lemma option_nat_back [simp]: "nat_option (option_nat x) = x"
  by (cases x) (simp_all add: nat_option_def option_nat_def)

lemma int_nat_back [simp]: "nat_int (int_nat i) = i"
  by (simp add: nat_int_def int_nat_def)

definition type_nat :: "token_type option \<Rightarrow> nat" where
  "type_nat t = (case t of None \<Rightarrow> 0 | Some ACCESS_TOKEN \<Rightarrow> 1 | Some REFRESH_TOKEN \<Rightarrow> 2)"

definition nat_type :: "nat \<Rightarrow> token_type option" where
  "nat_type n = (if n = 1 then Some ACCESS_TOKEN else if n = 2 then Some REFRESH_TOKEN else None)"

lemma type_nat_back [simp]: "nat_type (type_nat t) = t"
  by (cases t; cases "the t") (simp_all add: nat_type_def type_nat_def)

definition demo_encode :: "claims \<Rightarrow> string" where
  "demo_encode c = write_nat (option_nat (cl_sub c)) @ write_nat (type_nat (cl_type c)) @ write_nat (int_nat (cl_iat c))
     @ write_nat (int_nat (cl_exp c)) @ write_nat (option_nat (cl_jti c))"

definition demo_decode :: "string \<Rightarrow> claims" where
  "demo_decode token = (case read_nat token of (a, t1) \<Rightarrow> (case read_nat t1 of (b, t2) \<Rightarrow> (case read_nat t2 of (c, t3) \<Rightarrow>
     (case read_nat t3 of (d, t4) \<Rightarrow> (case read_nat t4 of (e, _) \<Rightarrow>
       \<lparr>cl_sub = nat_option a, cl_type = nat_type b, cl_iat = nat_int c, cl_exp = nat_int d, cl_jti = nat_option e\<rparr>)))))"

definition demo_crypto :: crypto where
  "demo_crypto = \<lparr>cr_encode = demo_encode, cr_decode = (\<lambda>t token. if t \<le> cl_exp (demo_decode token) then Some (demo_decode token) else None),
     cr_hash = (\<lambda>p. ''h'' @ p), cr_verify = (\<lambda>p h. h = ''h'' @ p)\<rparr>"

lemma demo_signs: "signs demo_crypto"
proof -
  have "demo_decode (demo_encode c) = c" for c
    using read_write_nat [of "option_nat (cl_jti c)" "[]"] by (simp add: demo_decode_def demo_encode_def)
  then show ?thesis by (simp add: signs_def demo_crypto_def)
qed

lemma demo_crypto_simps [simp]:
  "cr_decode demo_crypto t (cr_encode demo_crypto c) = (if t \<le> cl_exp c then Some c else None)"
  "cr_verify demo_crypto p h \<longleftrightarrow> h = ''h'' @ p"
  using demo_signs by (simp_all add: signs_def demo_crypto_def)

text \<open>An administrator 1 and a user 2 without roles.\<close>

definition demo_access :: access_db where
  "demo_access = \<lparr>clock = 1000000, next_id = 10, audit_log = [],
     accounts = [\<lparr>ac_id = 1, ac_name = ''Asha'', ac_email = ''a@x'', ac_phone = None, ac_hash = ''hpw1'', ac_active = True, ac_superuser = True,
         ac_leader = None, ac_staff = None\<rparr>,
       \<lparr>ac_id = 2, ac_name = ''Bina'', ac_email = ''b@x'', ac_phone = None, ac_hash = ''hpw2'', ac_active = True, ac_superuser = False,
         ac_leader = None, ac_staff = None\<rparr>],
     roles = [], permissions = [], user_roles = [], role_permissions = [], refresh_tokens = []\<rparr>"

definition demo_bearer :: "uuid \<Rightarrow> string option" where
  "demo_bearer uid = Some (create_access_token demo_crypto uid demo_access)"

lemmas demo_access_defs = demo_access_def demo_bearer_def login_def get_by_email_def create_access_token_def create_refresh_token_def create_token_def
  fresh_def seconds_def jwt_access_token_expire_def jwt_refresh_token_expire_def get_current_user_def require_permission_def guarded_def
  decode_token_def account_by_def get_by_jti_def logout_def deactivate_user_def update_user_def get_user_def no_patch_def patch_account_def
  validate_team_leader_def validate_shipment_staff_def validate_holds_def set_where_def permission_codes_def roles_of_def List.map_filter_simps

definition revoked :: "uuid \<Rightarrow> 'a access_db_scheme \<Rightarrow> bool" where
  "revoked jti s \<longleftrightarrow> (\<exists>r. get_by_jti s jti = Some r \<and> rk_revoked r \<noteq> None)"

lemma logout_revoked: "revoked jti s \<Longrightarrow> revoked jti (logout C token s)"
  by (auto simp: revoked_def logout_def get_by_jti_def row_by_set_where split: option.split)

lemma login_revoked: "login C email password s = Inr (x, s') \<Longrightarrow> revoked jti s \<Longrightarrow> revoked jti s'"
  by (auto simp: revoked_def login_def get_by_jti_def Let_def fresh_def create_refresh_token_def row_by_append split: option.split_asm if_split_asm)

lemma handle_revoked:
  assumes "handle C req s = Inr (r, s')" and "revoked jti s"
  shows "revoked jti s'"
proof -
  consider email password where "req = Post_login email password" | cred token where "req = Post_logout cred token"
    | "refresh_tokens s' = refresh_tokens s"
    using handle_tokens [OF assms(1)] by blast
  then show ?thesis
  proof cases
    case 1
    then show ?thesis using assms by (auto simp: bindR_Inr_iff intro: login_revoked)
  next
    case 2
    then show ?thesis using assms by (auto simp: bindR_Inr_iff intro: logout_revoked)
  next
    case 3
    then show ?thesis using assms(2) by (simp add: revoked_def get_by_jti_def)
  qed
qed

lemma revoked_clock [simp]: "revoked jti (s\<lparr>clock := now\<rparr>) = revoked jti s"
  by (simp add: revoked_def get_by_jti_def)

lemma run_revoked: "access_run C s s' \<Longrightarrow> revoked jti s \<Longrightarrow> revoked jti s'"
  by (induction rule: access_run.induct) (auto intro: handle_revoked)

lemma set_map_filter: "y \<in> set (List.map_filter f xs) \<longleftrightarrow> (\<exists>x\<in>set xs. f x = Some y)"
  by (force simp: List.map_filter_def)

text \<open>
  C29: a refresh token that was logged out never opens a session again, whatever requests are answered afterwards and however
  long one waits: refreshing with it is answered 401.
\<close>

theorem logout_is_final:
  assumes "signs C" and "decode_token C token s = Some c" and "cl_jti c = Some jti" and "get_by_jti s jti \<noteq> None"
    and "handle C (Post_logout cred token) s = Inr (r, s1)" and "access_run C s1 s2"
  shows "\<exists>e. handle C (Post_refresh token) s2 = Inl e \<and> status_code e = 401"
proof -
  have s1: "s1 = logout C token s" using assms(5) by (auto simp: bindR_Inr_iff)
  have "revoked jti s1" unfolding s1 using assms(2,3,4)
    by (auto simp: logout_def revoked_def get_by_jti_def row_by_set_where)
  then have "revoked jti s2" using assms(6) by (blast intro: run_revoked)
  then obtain row where row: "get_by_jti s2 jti = Some row" "rk_revoked row \<noteq> None" by (auto simp: revoked_def)
  show ?thesis
  proof (cases "decode_token C token s2")
    case None
    then show ?thesis by (simp add: refresh_def)
  next
    case (Some c2)
    then have "c2 = c" using assms(1,2) unfolding signs_def decode_token_def by blast
    then show ?thesis using Some row assms(3)
      by (cases "cl_type c = Some REFRESH_TOKEN") (auto simp: refresh_def token_active_def)
  qed
qed

theorem logout_is_final_witness:
  "\<exists>token s1 s2. handle demo_crypto (Post_login ''b@x'' ''pw2'') demo_access = Inr (Tokens (the (demo_bearer 2)) token, s1)
     \<and> handle demo_crypto (Post_logout (demo_bearer 2) token) s1 = Inr (Done, s2)
     \<and> (\<exists>e. handle demo_crypto (Post_refresh token) s2 = Inl e \<and> status_code e = 401)"
proof -
  let ?t = "fst (create_refresh_token demo_crypto 2 demo_access)"
  let ?s1 = "case handle demo_crypto (Post_login ''b@x'' ''pw2'') demo_access of Inr (_, s) \<Rightarrow> s"
  let ?s2 = "logout demo_crypto ?t ?s1"
  have in1: "handle demo_crypto (Post_login ''b@x'' ''pw2'') demo_access = Inr (Tokens (the (demo_bearer 2)) ?t, ?s1)" by (simp add: demo_access_defs)
  have in2: "handle demo_crypto (Post_logout (demo_bearer 2) ?t) ?s1 = Inr (Done, ?s2)" by (simp add: demo_access_defs)
  have "map_option cl_jti (decode_token demo_crypto ?t ?s1) = Some (Some 10)" by (simp add: demo_access_defs)
  then obtain c where c: "decode_token demo_crypto ?t ?s1 = Some c" "cl_jti c = Some 10" by auto
  have "get_by_jti ?s1 10 \<noteq> None" by (simp add: demo_access_defs)
  from logout_is_final [OF demo_signs c this in2 access_run.start] in1 in2 show ?thesis by blast
qed

section \<open>Permissions\<close>

text \<open>
  C30: users and roles are read and changed by those who may only: a guarded request that is answered carried an access token that
  decodes to a user who exists, is active, and is a superuser or holds a role with the permission asked for; and a request that
  changes an account, a role or what anyone holds is a guarded one.
\<close>

theorem permission_needed:
  assumes "handle C req s = Inr (r, s')"
  shows "(case needs req of
      None \<Rightarrow> access_tables s' = access_tables s
    | Some (cred, code) \<Rightarrow> (\<exists>token c u. cred = Some token \<and> decode_token C token s = Some c \<and> cl_type c = Some ACCESS_TOKEN
        \<and> cl_sub c = Some (ac_id u) \<and> account_by s (ac_id u) = Some u \<and> ac_active u
        \<and> (ac_superuser u \<or> (\<exists>ro p. (ac_id u, ro_id ro) \<in> set (user_roles s) \<and> (ro_id ro, pn_id p) \<in> set (role_permissions s)
             \<and> role_by s (ro_id ro) = Some ro \<and> permission_by s (pn_id p) = Some p \<and> pn_code p = code))))"
proof (cases "needs req")
  case None
  then show ?thesis using handle_tables [OF assms] by simp
next
  case (Some need)
  obtain cred code where need: "need = (cred, code)" by (cases need)
  obtain u where "require_permission C code cred s = Inr u" using handle_guard [of req cred code C s] Some need assms by blast
  then obtain token c uid where g: "cred = Some token" "decode_token C token s = Some c" "cl_type c = Some ACCESS_TOKEN" "cl_sub c = Some uid"
    "account_by s uid = Some u" "ac_active u" "ac_superuser u \<or> code \<in> permission_codes s (ac_id u)"
    by (auto simp: require_permission_def get_current_user_def bindR_Inr_iff split: option.split_asm if_split_asm)
  have uid: "uid = ac_id u" using g(5) by (auto simp: account_by_def)
  have "ac_superuser u \<or> (\<exists>ro p. (ac_id u, ro_id ro) \<in> set (user_roles s) \<and> (ro_id ro, pn_id p) \<in> set (role_permissions s)
             \<and> role_by s (ro_id ro) = Some ro \<and> permission_by s (pn_id p) = Some p \<and> pn_code p = code)"
  proof (cases "ac_superuser u")
    case False
    then have "code \<in> permission_codes s (ac_id u)" using g(7) by blast
    then obtain ro where ro: "ro \<in> set (roles_of s (ac_id u))" "code \<in> set (codes_of_role s (ro_id ro))"
      by (auto simp: permission_codes_def)
    from ro(1) obtain rid where rid: "(ac_id u, rid) \<in> set (user_roles s)" "role_by s rid = Some ro"
      by (auto simp: roles_of_def set_map_filter split: if_split_asm)
    from ro(2) obtain pid p where p: "(ro_id ro, pid) \<in> set (role_permissions s)" "permission_by s pid = Some p" "pn_code p = code"
      by (auto simp: codes_of_role_def set_map_filter split: if_split_asm)
    have "ro_id ro = rid" "pn_id p = pid" using rid(2) p(2) by (auto simp: role_by_def permission_by_def)
    with rid p show ?thesis by blast
  qed simp
  then show ?thesis using Some need g uid by auto
qed

theorem permission_needed_witness:
  "\<exists>r s'. handle demo_crypto (Patch_user (demo_bearer 1) 2 (no_patch\<lparr>ut_active := Some False\<rparr>)) demo_access = Inr (r, s')
     \<and> handle demo_crypto (Patch_user (demo_bearer 2) 2 (no_patch\<lparr>ut_active := Some False\<rparr>)) demo_access
         = Inl (AuthorizationError ''Missing required permission'')
     \<and> (\<exists>token u. demo_bearer 1 = Some token \<and> account_by demo_access (ac_id u) = Some u \<and> ac_active u)"
proof -
  let ?req = "Patch_user (demo_bearer 1) 2 (no_patch\<lparr>ut_active := Some False\<rparr>)"
  have "\<not> isl (handle demo_crypto ?req demo_access)" by (simp add: demo_access_defs)
  then obtain r s' where h: "handle demo_crypto ?req demo_access = Inr (r, s')"
    by (cases "handle demo_crypto ?req demo_access") auto
  have "handle demo_crypto (Patch_user (demo_bearer 2) 2 (no_patch\<lparr>ut_active := Some False\<rparr>)) demo_access
         = Inl (AuthorizationError ''Missing required permission'')" by (simp add: demo_access_defs)
  with h permission_needed [OF h] show ?thesis by auto
qed

section \<open>Deactivation\<close>

lemma refresh_inactive:
  assumes "\<And>c. decode_token C token s = Some c \<Longrightarrow> cl_sub c = Some uid" and "account_by s uid = Some u" and "\<not> ac_active u"
  shows "\<exists>e. handle C (Post_refresh token) s = Inl e \<and> status_code e = 401"
proof (cases "decode_token C token s")
  case None
  then show ?thesis by (simp add: refresh_def)
next
  case (Some c)
  then have "cl_sub c = Some uid" by (rule assms(1))
  then show ?thesis using Some assms(2,3)
    by (cases "cl_type c = Some REFRESH_TOKEN";
        cases "case Option.bind (cl_jti c) (get_by_jti s) of None \<Rightarrow> False | Some r \<Rightarrow> token_active s r") (simp_all add: refresh_def)
qed

lemma seconds_mono: "a \<le> b \<Longrightarrow> seconds a \<le> seconds b"
  by (simp add: seconds_def zdiv_mono1)

text \<open>What a login leaves behind.\<close>

lemma login_row:
  assumes "handle C (Post_login email password) s = Inr (Tokens access token, s1)" and "\<forall>r\<in>set (refresh_tokens s). rk_jti r < next_id s"
    and "get_by_email s email = Some u"
  shows "accounts s1 = accounts s" "clock s1 = clock s" "token = fst (create_refresh_token C (ac_id u) s)"
    "get_by_jti s1 (next_id s) = Some \<lparr>rk_jti = next_id s, rk_user = ac_id u, rk_expires = clock s + jwt_refresh_token_expire * 1000000, rk_revoked = None\<rparr>"
proof -
  have "row_by rk_jti (refresh_tokens s) (next_id s) = None" using assms(2) by (auto simp: row_by_None_iff)
  then show "accounts s1 = accounts s" "clock s1 = clock s" "token = fst (create_refresh_token C (ac_id u) s)"
    "get_by_jti s1 (next_id s) = Some \<lparr>rk_jti = next_id s, rk_user = ac_id u, rk_expires = clock s + jwt_refresh_token_expire * 1000000, rk_revoked = None\<rparr>"
    using assms(1,3) by (auto simp: bindR_Inr_iff login_def Let_def create_refresh_token_def get_by_jti_def row_by_append fresh_def split: if_split_asm)
qed

text \<open>
  Deactivating a user shuts the sessions but revokes none: while the account is inactive every refresh is answered 401, and once it
  is activated again the refresh token of a login from before the deactivation opens a session as it did then.
\<close>

theorem reactivation_revives_sessions:
  assumes "signs C" and "\<forall>r\<in>set (refresh_tokens s). rk_jti r < next_id s"
    and "get_by_email s email = Some u" and "account_by s (ac_id u) = Some u"
    and "handle C (Post_login email password) s = Inr (Tokens access token, s1)"
    and "handle C (Delete_user cred (ac_id u)) (s1\<lparr>clock := t2\<rparr>) = Inr (r2, s2)"
    and "handle C (Patch_user cred' (ac_id u) (no_patch\<lparr>ut_active := Some True\<rparr>)) (s2\<lparr>clock := t3\<rparr>) = Inr (r3, s3)"
    and "t4 < clock s + jwt_refresh_token_expire * 1000000"
  shows "(\<forall>t. \<exists>e. handle C (Post_refresh token) (s2\<lparr>clock := t\<rparr>) = Inl e \<and> status_code e = 401)
    \<and> (\<exists>fresh_access. handle C (Post_refresh token) (s3\<lparr>clock := t4\<rparr>) = Inr (Access_token fresh_access, s3\<lparr>clock := t4\<rparr>))"
proof -
  let ?uid = "ac_id u"
  let ?off = "patch_account (no_patch\<lparr>ut_active := Some False\<rparr>)" and ?on = "patch_account (no_patch\<lparr>ut_active := Some True\<rparr>)"
  note login = login_row [OF assms(5,2,3)]
  obtain v2 v3 where steps: "update_user ?uid (no_patch\<lparr>ut_active := Some False\<rparr>) (s1\<lparr>clock := t2\<rparr>) = Inr (v2, s2)"
    "update_user ?uid (no_patch\<lparr>ut_active := Some True\<rparr>) (s2\<lparr>clock := t3\<rparr>) = Inr (v3, s3)"
    using assms(6,7) by (auto simp: guarded_def bindR_Inr_iff deactivate_user_def)
  note f2 = update_user_frame [OF steps(1)] and f3 = update_user_frame [OF steps(2)]
  have same_id: "ac_id (patch_account p w) = ac_id w" for p w by (simp add: patch_account_def)
  have u2: "account_by s2 ?uid = Some (?off u)"
    using f2 login(1) assms(4) by (simp add: account_by_def row_by_set_where same_id)
  have u3: "account_by s3 ?uid = Some (?on (?off u))"
    using f3 f2 login(1) assms(4) by (simp add: account_by_def row_by_set_where same_id)
  let ?claims = "\<lparr>cl_sub = Some ?uid, cl_type = Some REFRESH_TOKEN, cl_iat = seconds (clock s),
     cl_exp = seconds (clock s + jwt_refresh_token_expire * 1000000), cl_jti = Some (next_id s)\<rparr>"
  have token: "token = cr_encode C ?claims" using login(3) by (simp add: create_refresh_token_def create_token_def)
  have decode: "decode_token C token v = (if seconds (clock v) \<le> cl_exp ?claims then Some ?claims else None)" for v :: "'a access_db_scheme"
    using assms(1) unfolding token decode_token_def signs_def by simp
  have sub: "cl_sub c = Some ?uid" if "decode_token C token v = Some c" for c and v :: "'a access_db_scheme"
    using that decode [of v] by (auto split: if_split_asm)
  have "\<exists>e. handle C (Post_refresh token) (s2\<lparr>clock := t\<rparr>) = Inl e \<and> status_code e = 401" for t
  proof (rule refresh_inactive [OF sub])
    show "account_by (s2\<lparr>clock := t\<rparr>) ?uid = Some (?off u)" using u2 by (simp add: account_by_def)
    show "\<not> ac_active (?off u)" by (simp add: patch_account_def)
  qed
  moreover have "decode_token C token (s3\<lparr>clock := t4\<rparr>) = Some ?claims"
    using assms(8) seconds_mono [of t4 "clock s + jwt_refresh_token_expire * 1000000"] by (simp add: decode)
  moreover have "get_by_jti (s3\<lparr>clock := t4\<rparr>) (next_id s) = Some \<lparr>rk_jti = next_id s, rk_user = ?uid,
      rk_expires = clock s + jwt_refresh_token_expire * 1000000, rk_revoked = None\<rparr>"
    using login(4) f2 f3 by (simp add: get_by_jti_def)
  moreover have "account_by (s3\<lparr>clock := t4\<rparr>) ?uid = Some (?on (?off u))" using u3 by (simp add: account_by_def)
  moreover have "ac_active (?on (?off u))" by (simp add: patch_account_def)
  ultimately show ?thesis using assms(8) by (simp add: refresh_def token_active_def)
qed

section \<open>The seeded service\<close>

definition empty_access :: access_db where
  "empty_access = \<lparr>clock = 1000000, next_id = 1, audit_log = [], accounts = [], roles = [], permissions = [], user_roles = [],
     role_permissions = [], refresh_tokens = []\<rparr>"

theorem reactivation_revives_sessions_witness:
  "\<exists>token s1 s2 s3 v. handle demo_crypto (Post_login ''b@x'' ''pw2'') demo_access = Inr (Tokens (the (demo_bearer 2)) token, s1)
     \<and> handle demo_crypto (Delete_user (demo_bearer 1) 2) s1 = Inr (Done, s2)
     \<and> (\<exists>e. handle demo_crypto (Post_refresh token) s2 = Inl e \<and> status_code e = 401)
     \<and> handle demo_crypto (Patch_user (demo_bearer 1) 2 (no_patch\<lparr>ut_active := Some True\<rparr>)) s2 = Inr (v, s3)
     \<and> (\<exists>access. handle demo_crypto (Post_refresh token) s3 = Inr (Access_token access, s3))"
proof -
  let ?t = "fst (create_refresh_token demo_crypto 2 demo_access)"
  let ?s1 = "case handle demo_crypto (Post_login ''b@x'' ''pw2'') demo_access of Inr (_, s) \<Rightarrow> s"
  let ?s2 = "case handle demo_crypto (Delete_user (demo_bearer 1) 2) ?s1 of Inr (_, s) \<Rightarrow> s"
  let ?r = "Patch_user (demo_bearer 1) 2 (no_patch\<lparr>ut_active := Some True\<rparr>)"
  have in1: "handle demo_crypto (Post_login ''b@x'' ''pw2'') demo_access = Inr (Tokens (the (demo_bearer 2)) ?t, ?s1)" by (simp add: demo_access_defs)
  have in2: "handle demo_crypto (Delete_user (demo_bearer 1) 2) ?s1 = Inr (Done, ?s2)" by (simp add: demo_access_defs)
  have clocks: "clock ?s1 = 1000000" "clock ?s2 = 1000000" by (simp_all add: demo_access_defs)
  have "\<not> isl (handle demo_crypto ?r ?s2)" by (simp add: demo_access_defs)
  then obtain v s3 where in3: "handle demo_crypto ?r ?s2 = Inr (v, s3)" by (cases "handle demo_crypto ?r ?s2") auto
  have "case handle demo_crypto ?r ?s2 of Inl _ \<Rightarrow> False | Inr (_, s) \<Rightarrow> clock s = 1000000" by (simp add: demo_access_defs)
  then have c3: "clock s3 = 1000000" using in3 by simp
  obtain u where u: "get_by_email demo_access ''b@x'' = Some u" "account_by demo_access (ac_id u) = Some u" "ac_id u = 2"
    by (simp add: demo_access_defs)
  have same: "s\<lparr>clock := 1000000\<rparr> = s" if "clock s = 1000000" for s :: access_db using that by simp
  have tokens: "\<forall>r\<in>set (refresh_tokens demo_access). rk_jti r < next_id demo_access" by (simp add: demo_access_def)
  have soon: "1000000 < clock demo_access + jwt_refresh_token_expire * 1000000" by (simp add: demo_access_defs)
  have both: "(\<forall>t. \<exists>e. handle demo_crypto (Post_refresh ?t) (?s2\<lparr>clock := t\<rparr>) = Inl e \<and> status_code e = 401)
    \<and> (\<exists>a. handle demo_crypto (Post_refresh ?t) (s3\<lparr>clock := 1000000\<rparr>) = Inr (Access_token a, s3\<lparr>clock := 1000000\<rparr>))"
  proof (rule reactivation_revives_sessions [OF demo_signs tokens u(1,2) in1 _ _ soon])
    show "handle demo_crypto (Delete_user (demo_bearer 1) (ac_id u)) (?s1\<lparr>clock := 1000000\<rparr>) = Inr (Done, ?s2)"
      unfolding same [OF clocks(1)] u(3) by (rule in2)
    show "handle demo_crypto (Patch_user (demo_bearer 1) (ac_id u) (no_patch\<lparr>ut_active := Some True\<rparr>)) (?s2\<lparr>clock := 1000000\<rparr>) = Inr (v, s3)"
      unfolding same [OF clocks(2)] u(3) by (rule in3)
  qed
  note out = conjunct1 [OF both, THEN spec, of 1000000, unfolded same [OF clocks(2)]] conjunct2 [OF both, unfolded same [OF c3]]
  show ?thesis
    by (rule exI [of _ ?t], rule exI [of _ ?s1], rule exI [of _ ?s2], rule exI [of _ s3], rule exI [of _ v], intro conjI; (rule in1 in2 out in3)?)
qed

end
