(* ===== verification/Reconciliation.thy ===== *)
theory Reconciliation
  imports Sync
begin

text \<open>
  Comparing the OMS with its providers: \<open>app/services/reconciliation_service.py\<close>, its tables in
  \<open>app/models/reconciliation.py\<close>, the query of \<open>app/repositories/reconciliation.py\<close> and the task of
  \<open>app/tasks/reconciliation_tasks.py\<close>.

  A provider is what its adapter answers during the run: a page of raw records, the normalised form of each, the
  tracking of an AWB. A run asks each of these once, so an answer needs no time. The clock does not move within a run.
  Columns of products, customers and shipments that no other theory reads are functions of the row's id.
\<close>

section \<open>Tables\<close>

datatype run_status = RUN_RUNNING | RUN_COMPLETED | RUN_FAILED

datatype recon_status = RECONCILED | MISMATCH | MISSING | CHECK_FAILED

datatype product_status = ACTIVE | DRAFT | ARCHIVED

text \<open>What a JSON column of a result holds: plain values, or under one key the fields that differ.\<close>

datatype evidence = Values "(string \<times> jval) list" | Differences string "(string \<times> jval \<times> jval) list"

record recon_run =
  rn_id :: uuid
  rn_user :: "uuid option"
  rn_status :: run_status
  rn_started :: "instant option"
  rn_completed :: "instant option"
  rn_total :: int
  rn_reconciled :: int
  rn_mismatch :: int
  rn_missing :: int
  rn_errors :: int
  rn_metadata :: "(string \<times> jval) list option"

record recon_result =
  rs_id :: uuid
  rs_run :: uuid
  rs_check :: string
  rs_provider :: string
  rs_entity :: string
  rs_internal :: "uuid option"
  rs_external :: "string option"
  rs_expected :: "evidence option"
  rs_actual :: "evidence option"
  rs_status :: recon_status
  rs_message :: "string option"
  rs_resolved :: bool
  rs_resolved_at :: "instant option"
  rs_resolved_by :: "uuid option"

record product_columns =
  pc_source :: string
  pc_external :: "string option"
  pc_status :: product_status
  pc_vendor :: "string option"

record customer_columns =
  cc_email :: "string option"
  cc_first :: "string option"
  cc_last :: "string option"

record recon_db = sync_db +
  recon_runs :: "recon_run list"
  recon_results :: "recon_result list"
  product_columns_of :: "uuid \<Rightarrow> product_columns"
  customer_columns_of :: "uuid \<Rightarrow> customer_columns"
  shipment_updated_at :: "uuid \<Rightarrow> instant"

definition run_by :: "'a recon_db_scheme \<Rightarrow> uuid \<Rightarrow> recon_run option" where
  "run_by s = row_by rn_id (recon_runs s)"

definition run_update :: "uuid \<Rightarrow> (recon_run \<Rightarrow> recon_run) \<Rightarrow> 'a recon_db_scheme \<Rightarrow> 'a recon_db_scheme" where
  "run_update i f s = s\<lparr>recon_runs := set_where (\<lambda>r. rn_id r = i) f (recon_runs s)\<rparr>"

definition get_run :: "uuid \<Rightarrow> 'a recon_db_scheme \<Rightarrow> recon_run result" where
  "get_run i s = require_some (run_by s i) (NotFoundError ''Reconciliation run not found.'')"

section \<open>Providers\<close>

text \<open>A normalised record of Shopify: each entity type uses some of the fields.\<close>

record shopify_item =
  si_external :: "string option"
  si_title :: "string option"
  si_status :: "product_status option"
  si_vendor :: "string option"
  si_email :: "string option"
  si_first :: "string option"
  si_last :: "string option"

record 'raw shopify_source =
  so_fetch :: "string \<Rightarrow> nat \<Rightarrow> failure + 'raw list"
  so_normalize :: "string \<Rightarrow> 'raw \<Rightarrow> failure + shopify_item"

text \<open>The answer to a tracking request: the AWB it names and its events, the last one being the current one.\<close>

record tracking_answer =
  ta_awb :: "string option"
  ta_events :: "tracking_event list"

record ndr_item =
  ni_awb :: "string option"
  ni_reason :: "string option"
  ni_attempt :: int

record 'raw shiprocket_source =
  sk_tracking :: "string \<Rightarrow> failure + tracking_answer"
  sk_fetch_ndr :: "nat \<Rightarrow> failure + 'raw list"
  sk_normalize_ndr :: "'raw \<Rightarrow> failure + ndr_item"

section \<open>Recording\<close>

text \<open>Sequencing of steps that may raise, the exception keeping its details.\<close>

definition bindF :: "failure + 'a \<Rightarrow> ('a \<Rightarrow> failure + 'b) \<Rightarrow> failure + 'b" where
  "bindF m f = (case m of Inl e \<Rightarrow> Inl e | Inr x \<Rightarrow> f x)"

fun each_record :: "('a \<Rightarrow> 's \<Rightarrow> failure + 's) \<Rightarrow> 'a list \<Rightarrow> 's \<Rightarrow> failure + 's" where
  "each_record body [] s = Inr s"
| "each_record body (x # xs) s = bindF (body x s) (each_record body xs)"

definition finding :: "string \<Rightarrow> string \<Rightarrow> string \<Rightarrow> recon_status \<Rightarrow> recon_result" where
  "finding check provider entity status = \<lparr>rs_id = 0, rs_run = 0, rs_check = check, rs_provider = provider,
     rs_entity = entity, rs_internal = None, rs_external = None, rs_expected = None, rs_actual = None, rs_status = status,
     rs_message = None, rs_resolved = False, rs_resolved_at = None, rs_resolved_by = None\<rparr>"

text \<open>
  One row per run, check and pair of ids, where both ids are there: the unique constraint does not compare nulls.
\<close>

definition already_recorded :: "uuid \<Rightarrow> recon_result \<Rightarrow> recon_result list \<Rightarrow> bool" where
  "already_recorded i r rows \<longleftrightarrow> rs_internal r \<noteq> None \<and> rs_external r \<noteq> None \<and>
     (\<exists>x\<in>set rows. rs_run x = i \<and> rs_check x = rs_check r \<and> rs_internal x = rs_internal r \<and> rs_external x = rs_external r)"

definition record_result :: "uuid \<Rightarrow> recon_result \<Rightarrow> 'a recon_db_scheme \<Rightarrow> failure + 'a recon_db_scheme" where
  "record_result i r s =
     (if run_by s i = None then Inl (Failure (IntegrityError ''reconciliation_results.run_id'') None)
      else if already_recorded i r (recon_results s)
      then Inl (Failure (IntegrityError ''uq_reconciliation_results_run_check_entity'') None)
      else Inr (fresh (s\<lparr>recon_results := recon_results s @ [r\<lparr>rs_id := next_id s, rs_run := i\<rparr>]\<rparr>)))"

definition sample_limit :: nat where
  "sample_limit = 25"

section \<open>Checks on the database\<close>

definition check_oms_orders_missing_shopify_id :: "uuid \<Rightarrow> 'a recon_db_scheme \<Rightarrow> failure + 'a recon_db_scheme" where
  "check_oms_orders_missing_shopify_id i s =
     each_record (\<lambda>row. record_result i ((finding ''oms_order_missing_shopify_id'' ''shopify'' ''order'' MISMATCH)
         \<lparr>rs_internal := Some (o_id row), rs_external := o_external row,
          rs_message := Some ''Order is sourced from Shopify but shopify_order_id is not set.''\<rparr>))
       (take sample_limit (filter (\<lambda>row. o_source row = ''shopify'' \<and> o_shopify row = None) (orders s))) s"

definition check_shipment_missing_shiprocket_id :: "uuid \<Rightarrow> 'a recon_db_scheme \<Rightarrow> failure + 'a recon_db_scheme" where
  "check_shipment_missing_shiprocket_id i s =
     each_record (\<lambda>sh. record_result i ((finding ''shipment_missing_shiprocket_id'' ''shiprocket'' ''shipment'' MISMATCH)
         \<lparr>rs_internal := Some (shp_id sh), rs_external := shp_external sh,
          rs_message := Some ''Shipment is sourced from Shiprocket but shiprocket_shipment_id is not set.''\<rparr>))
       (take sample_limit (filter (\<lambda>sh. shp_source sh = ''shiprocket'' \<and> shp_shiprocket sh = None) (shipments s))) s"

definition created_via_shiprocket :: "'a recon_db_scheme \<Rightarrow> audit_row list" where
  "created_via_shiprocket s = take sample_limit (sort_key (\<lambda>l. - au_at l)
     (filter (\<lambda>l. au_action l = ''shipment.created_via_shiprocket'') (audit_log s)))"

definition check_shiprocket_shipment_missing_in_oms :: "uuid \<Rightarrow> 'a recon_db_scheme \<Rightarrow> failure + 'a recon_db_scheme" where
  "check_shiprocket_shipment_missing_in_oms i s =
     each_record (\<lambda>l s. if shipment_by s (au_entity l) \<noteq> None then Inr s
       else record_result i ((finding ''shiprocket_shipment_missing_in_oms'' ''shiprocket'' ''shipment'' MISSING)
         \<lparr>rs_internal := Some (au_entity l),
          rs_message := Some ''Audit log recorded a Shiprocket shipment creation but no matching Shipment row exists.''\<rparr>) s)
       (created_via_shiprocket s) s"

section \<open>Checks against Shopify\<close>

text \<open>Every record of a page, normalised, that has an external id.\<close>

definition each_item ::
  "'raw shopify_source \<Rightarrow> string \<Rightarrow> (string \<Rightarrow> shopify_item \<Rightarrow> 's \<Rightarrow> failure + 's) \<Rightarrow> 's \<Rightarrow> failure + 's" where
  "each_item P entity body s =
     bindF (so_fetch P entity sample_limit) (\<lambda>raws.
     each_record (\<lambda>raw s. bindF (so_normalize P entity raw) (\<lambda>n.
       case si_external n of None \<Rightarrow> Inr s | Some ext \<Rightarrow> if ext = [] then Inr s else body ext n s)) raws s)"

definition check_shopify_orders_missing_in_oms ::
  "uuid \<Rightarrow> 'raw shopify_source \<Rightarrow> 'a recon_db_scheme \<Rightarrow> failure + 'a recon_db_scheme" where
  "check_shopify_orders_missing_in_oms i P = each_item P ''orders'' (\<lambda>ext n s.
     case by_external o_source o_external (orders s) ''shopify'' ext of
       Some row \<Rightarrow> record_result i ((finding ''shopify_order_missing_in_oms'' ''shopify'' ''order'' RECONCILED)
         \<lparr>rs_internal := Some (o_id row), rs_external := Some ext\<rparr>) s
     | None \<Rightarrow> record_result i ((finding ''shopify_order_missing_in_oms'' ''shopify'' ''order'' MISSING)
         \<lparr>rs_external := Some ext, rs_message := Some ''Shopify order has no matching OMS order.''\<rparr>) s)"

definition differs :: "string \<Rightarrow> bool \<Rightarrow> jval \<Rightarrow> jval \<Rightarrow> (string \<times> jval \<times> jval) list" where
  "differs field changed ours theirs = (if changed then [(field, ours, theirs)] else [])"

text \<open>\<open>x or None\<close> of a text column.\<close>

abbreviation blank_none :: "string option \<Rightarrow> string option" where
  "blank_none t \<equiv> (if t = Some [] then None else t)"

fun product_status_value :: "product_status \<Rightarrow> string" where
  "product_status_value ACTIVE = ''active''"
| "product_status_value DRAFT = ''draft''"
| "product_status_value ARCHIVED = ''archived''"

fun join_comma :: "string list \<Rightarrow> string" where
  "join_comma [] = []"
| "join_comma [x] = x"
| "join_comma (x # xs) = x @ '', '' @ join_comma xs"

text \<open>A comparison of fields: reconciled where none differs, else a mismatch that names them.\<close>

definition compared :: "string \<Rightarrow> string \<Rightarrow> string \<Rightarrow> uuid \<Rightarrow> string \<Rightarrow> (string \<times> jval \<times> jval) list \<Rightarrow> recon_result" where
  "compared check provider entity row ext changes =
     (finding check provider entity (if changes = [] then RECONCILED else MISMATCH))
       \<lparr>rs_internal := Some row, rs_external := Some ext,
        rs_expected := (if changes = [] then None else Some (Differences provider changes)),
        rs_message := (if changes = [] then None else Some (''Fields differ: '' @ join_comma (map fst changes) @ ''.''))\<rparr>"

definition product_diffs :: "product \<Rightarrow> product_columns \<Rightarrow> shopify_item \<Rightarrow> (string \<times> jval \<times> jval) list" where
  "product_diffs p c n =
     (let status = map_option product_status_value (si_status n)
      in differs ''title'' (Some (p_title p) \<noteq> si_title n) (JStr (p_title p)) (jtext (si_title n))
       @ differs ''status'' (Some (product_status_value (pc_status c)) \<noteq> status)
           (JStr (product_status_value (pc_status c))) (jtext status)
       @ differs ''vendor'' (blank_none (pc_vendor c) \<noteq> blank_none (si_vendor n)) (jtext (pc_vendor c)) (jtext (si_vendor n)))"

definition check_shopify_product_diff ::
  "uuid \<Rightarrow> 'raw shopify_source \<Rightarrow> 'a recon_db_scheme \<Rightarrow> failure + 'a recon_db_scheme" where
  "check_shopify_product_diff i P = each_item P ''products'' (\<lambda>ext n s.
     case by_external (\<lambda>p. pc_source (product_columns_of s (p_id p))) (\<lambda>p. pc_external (product_columns_of s (p_id p)))
         (products s) ''shopify'' ext of
       None \<Rightarrow> Inr s
     | Some p \<Rightarrow> record_result i (compared ''shopify_product_diff'' ''shopify'' ''product'' (p_id p) ext
         (product_diffs p (product_columns_of s (p_id p)) n)) s)"

definition customer_diffs :: "customer_columns \<Rightarrow> shopify_item \<Rightarrow> (string \<times> jval \<times> jval) list" where
  "customer_diffs c n =
     differs ''email'' (blank_none (cc_email c) \<noteq> blank_none (si_email n)) (jtext (cc_email c)) (jtext (si_email n))
     @ differs ''first_name'' (blank_none (cc_first c) \<noteq> blank_none (si_first n)) (jtext (cc_first c)) (jtext (si_first n))
     @ differs ''last_name'' (blank_none (cc_last c) \<noteq> blank_none (si_last n)) (jtext (cc_last c)) (jtext (si_last n))"

definition check_shopify_customer_diff ::
  "uuid \<Rightarrow> 'raw shopify_source \<Rightarrow> 'a recon_db_scheme \<Rightarrow> failure + 'a recon_db_scheme" where
  "check_shopify_customer_diff i P = each_item P ''customers'' (\<lambda>ext n s.
     case by_external cu_source cu_external (customers s) ''shopify'' ext of
       None \<Rightarrow> Inr s
     | Some c \<Rightarrow> record_result i (compared ''shopify_customer_diff'' ''shopify'' ''customer'' (cu_id c) ext
         (customer_diffs (customer_columns_of s (cu_id c)) n)) s)"

section \<open>Checks against Shiprocket\<close>

definition tracking_sample :: "'a recon_db_scheme \<Rightarrow> shipment list" where
  "tracking_sample s = take sample_limit (sort_key (\<lambda>sh. - shipment_updated_at s (shp_id sh))
     (filter (\<lambda>sh. shp_awb sh \<noteq> None \<and> shp_shiprocket sh \<noteq> None) (shipments s)))"

text \<open>A finding on a shipment of the sample, with the two values compared.\<close>

definition on_shipment :: "string \<Rightarrow> string \<Rightarrow> recon_status \<Rightarrow> shipment \<Rightarrow> recon_result" where
  "on_shipment check entity status sh = (finding check ''shiprocket'' entity status)
     \<lparr>rs_internal := Some (shp_id sh), rs_external := shp_shiprocket sh\<rparr>"

definition agrees :: "bool \<Rightarrow> recon_status" where
  "agrees same = (if same then RECONCILED else MISMATCH)"

definition unless_same :: "bool \<Rightarrow> string \<Rightarrow> string option" where
  "unless_same same message = (if same then None else Some message)"

definition record_awb :: "uuid \<Rightarrow> shipment \<Rightarrow> tracking_answer \<Rightarrow> 'a recon_db_scheme \<Rightarrow> failure + 'a recon_db_scheme" where
  "record_awb i sh answer s = (if \<not> present (ta_awb answer) then Inr s
     else let same = (ta_awb answer = shp_awb sh) in record_result i
       ((on_shipment ''awb_mismatch'' ''shipment'' (agrees same) sh)
         \<lparr>rs_expected := Some (Values [(''awb'', jtext (ta_awb answer))]), rs_actual := Some (Values [(''awb'', jtext (shp_awb sh))]),
          rs_message := unless_same same ''AWB on file differs from Shiprocket's tracking response.''\<rparr>) s)"

definition courier_name_of :: "shipment \<Rightarrow> 'a courier_db_scheme \<Rightarrow> string option" where
  "courier_name_of sh s = map_option co_name (Option.bind (shp_courier sh) (row_by co_id (couriers s)))"

definition record_courier :: "uuid \<Rightarrow> shipment \<Rightarrow> tracking_event \<Rightarrow> 'a recon_db_scheme \<Rightarrow> failure + 'a recon_db_scheme" where
  "record_courier i sh ev s = (if \<not> present (te_courier ev) then Inr s
     else let ours = courier_name_of sh s; same = (ours = te_courier ev) in record_result i
       ((on_shipment ''courier_mismatch'' ''shipment'' (agrees same) sh)
         \<lparr>rs_expected := Some (Values [(''courier'', jtext (te_courier ev))]), rs_actual := Some (Values [(''courier'', jtext ours)]),
          rs_message := unless_same same ''Courier on file differs from Shiprocket's latest tracking event.''\<rparr>) s)"

definition record_status :: "uuid \<Rightarrow> shipment \<Rightarrow> shipment_status \<Rightarrow> 'a recon_db_scheme \<Rightarrow> failure + 'a recon_db_scheme" where
  "record_status i sh st s = (let same = (st = shp_status sh) in record_result i
     ((on_shipment ''tracking_status_mismatch'' ''shipment'' (agrees same) sh)
       \<lparr>rs_expected := Some (Values [(''status'', JStr (shipment_status_value st))]),
        rs_actual := Some (Values [(''status'', JStr (shipment_status_value (shp_status sh)))]),
        rs_message := unless_same same ''OMS shipment status is stale relative to Shiprocket''\<rparr>) s)"

text \<open>\<open>scalar_one_or_none\<close>: more than one RTO of the shipment raises.\<close>

definition record_rto :: "uuid \<Rightarrow> shipment \<Rightarrow> shipment_status \<Rightarrow> 'a recon_db_scheme \<Rightarrow> failure + 'a recon_db_scheme" where
  "record_rto i sh st s = (case rto_status_of st of
     None \<Rightarrow> Inr s
   | Some rst \<Rightarrow> (case filter (\<lambda>r. rt_shipment r = shp_id sh) (rtos s) of
       [] \<Rightarrow> record_result i ((on_shipment ''rto_mismatch'' ''rto'' MISSING sh)
         \<lparr>rs_expected := Some (Values [(''rto_status'', JStr (rto_status_value rst))]),
          rs_message := Some ''Latest tracking indicates RTO but no RTO record exists in OMS.''\<rparr>) s
     | [r] \<Rightarrow> let same = (rt_status r = rst) in record_result i ((on_shipment ''rto_mismatch'' ''rto'' (agrees same) sh)
         \<lparr>rs_internal := Some (rt_id r), rs_expected := Some (Values [(''rto_status'', JStr (rto_status_value rst))]),
          rs_actual := Some (Values [(''rto_status'', JStr (rto_status_value (rt_status r)))]),
          rs_message := unless_same same ''RTO status in OMS differs from what the latest tracking event implies.''\<rparr>) s
     | _ \<Rightarrow> Inl (Failure MultipleResultsFound None)))"

definition check_tracking_of ::
  "uuid \<Rightarrow> 'raw shiprocket_source \<Rightarrow> shipment \<Rightarrow> 'a recon_db_scheme \<Rightarrow> failure + 'a recon_db_scheme" where
  "check_tracking_of i P sh s =
     bindF (sk_tracking P (the (shp_awb sh))) (\<lambda>answer.
     bindF (record_awb i sh answer s) (\<lambda>s.
     if ta_events answer = [] then Inr s
     else let ev = last (ta_events answer) in
       bindF (record_courier i sh ev s) (\<lambda>s.
       case te_mapped ev of
         None \<Rightarrow> Inr s
       | Some st \<Rightarrow> bindF (record_status i sh st s) (record_rto i sh st))))"

definition check_shiprocket_tracking_family ::
  "uuid \<Rightarrow> 'raw shiprocket_source \<Rightarrow> 'a recon_db_scheme \<Rightarrow> failure + 'a recon_db_scheme" where
  "check_shiprocket_tracking_family i P s = each_record (check_tracking_of i P) (tracking_sample s) s"

definition ndr_diffs :: "ndr \<Rightarrow> ndr_item \<Rightarrow> (string \<times> jval \<times> jval) list" where
  "ndr_diffs r n =
     differs ''reason'' (blank_none (nd_reason r) \<noteq> blank_none (ni_reason n)) (jtext (nd_reason r)) (jtext (ni_reason n))
     @ differs ''attempt_number'' (nd_attempt r \<noteq> ni_attempt n) (JInt (nd_attempt r)) (JInt (ni_attempt n))"

definition check_ndr_of :: "uuid \<Rightarrow> ndr_item \<Rightarrow> 'a recon_db_scheme \<Rightarrow> failure + 'a recon_db_scheme" where
  "check_ndr_of i n s = (case ni_awb n of
     None \<Rightarrow> Inr s
   | Some awb \<Rightarrow> if awb = [] then Inr s
     else (case shipment_by_awb s awb of
         None \<Rightarrow> Inr s
       | Some sh \<Rightarrow> (case find (\<lambda>r. nd_shipment r = shp_id sh) (ndrs s) of
           None \<Rightarrow> record_result i ((finding ''ndr_mismatch'' ''shiprocket'' ''ndr'' MISSING)
             \<lparr>rs_internal := Some (shp_id sh), rs_external := Some awb,
              rs_expected := Some (Values [(''reason'', jtext (ni_reason n))]),
              rs_message := Some ''Shiprocket reports an NDR for this AWB but no NDR record exists in OMS.''\<rparr>) s
         | Some r \<Rightarrow> record_result i (compared ''ndr_mismatch'' ''shiprocket'' ''ndr'' (nd_id r) awb (ndr_diffs r n)) s)))"

definition check_ndr_mismatch :: "uuid \<Rightarrow> 'raw shiprocket_source \<Rightarrow> 'a recon_db_scheme \<Rightarrow> failure + 'a recon_db_scheme" where
  "check_ndr_mismatch i P s =
     bindF (sk_fetch_ndr P sample_limit) (\<lambda>raws.
     each_record (\<lambda>raw s. bindF (sk_normalize_ndr P raw) (\<lambda>n. check_ndr_of i n s)) raws s)"

section \<open>The run\<close>

definition start_run :: "uuid option \<Rightarrow> 'a recon_db_scheme \<Rightarrow> uuid \<times> 'a recon_db_scheme" where
  "start_run actor s =
     (let i = next_id s;
          s1 = fresh (s\<lparr>recon_runs := recon_runs s @ [\<lparr>rn_id = i, rn_user = actor, rn_status = RUN_RUNNING,
            rn_started = Some (clock s), rn_completed = None, rn_total = 0, rn_reconciled = 0, rn_mismatch = 0,
            rn_missing = 0, rn_errors = 0, rn_metadata = None\<rparr>]\<rparr>)
      in (i, audit_record actor ''reconciliation.started'' ''reconciliation_run'' i [] [] [] s1))"

text \<open>A check has a name, a provider, an entity type and a body.\<close>

datatype 's check = Check (check_name: string) (check_provider: string) (check_entity: string) (check_body: "'s \<Rightarrow> failure + 's")

datatype outcome = CHECK_OK | CHECK_SKIPPED | CHECK_ERRORED

definition safe_check :: "uuid \<Rightarrow> 'a recon_db_scheme check \<Rightarrow> 'a recon_db_scheme \<Rightarrow> ('a recon_db_scheme, outcome) attempt" where
  "safe_check i c s = (case check_body c s of
     Inr s1 \<Rightarrow> (s1, Inr CHECK_OK)
   | Inl f \<Rightarrow>
       if is_integration_error (failure_error f) \<and> failure_details f = Some ''not_configured'' then (s, Inr CHECK_SKIPPED)
       else (case record_result i ((finding (check_name c) (check_provider c) (check_entity c) CHECK_FAILED)
                 \<lparr>rs_message := Some (take 1000 (error_message (failure_error f)))\<rparr>) s of
           Inl g \<Rightarrow> (s, Inl (failure_error g))
         | Inr s1 \<Rightarrow> (s1, Inr CHECK_ERRORED)))"

definition database_checks :: "uuid \<Rightarrow> 'a recon_db_scheme check list" where
  "database_checks i =
     [Check ''oms_order_missing_shopify_id'' ''shopify'' ''order'' (check_oms_orders_missing_shopify_id i),
      Check ''shipment_missing_shiprocket_id'' ''shiprocket'' ''shipment'' (check_shipment_missing_shiprocket_id i),
      Check ''shiprocket_shipment_missing_in_oms'' ''shiprocket'' ''shipment'' (check_shiprocket_shipment_missing_in_oms i)]"

definition shopify_checks :: "uuid \<Rightarrow> 'raw shopify_source \<Rightarrow> 'a recon_db_scheme check list" where
  "shopify_checks i P =
     [Check ''shopify_order_missing_in_oms'' ''shopify'' ''order'' (check_shopify_orders_missing_in_oms i P),
      Check ''shopify_product_diff'' ''shopify'' ''product'' (check_shopify_product_diff i P),
      Check ''shopify_customer_diff'' ''shopify'' ''customer'' (check_shopify_customer_diff i P)]"

definition shiprocket_checks :: "uuid \<Rightarrow> 'raw shiprocket_source \<Rightarrow> 'a recon_db_scheme check list" where
  "shiprocket_checks i P =
     [Check ''shiprocket_tracking_family'' ''shiprocket'' ''shipment'' (check_shiprocket_tracking_family i P),
      Check ''shiprocket_ndr_mismatch'' ''shiprocket'' ''ndr'' (check_ndr_mismatch i P)]"

text \<open>A provider without an adapter has its checks skipped.\<close>

definition the_checks ::
  "uuid \<Rightarrow> 'p shopify_source option \<Rightarrow> 'q shiprocket_source option \<Rightarrow> 'a recon_db_scheme check list" where
  "the_checks i shopify shiprocket = database_checks i
     @ (case shopify of None \<Rightarrow> [] | Some P \<Rightarrow> shopify_checks i P)
     @ (case shiprocket of None \<Rightarrow> [] | Some P \<Rightarrow> shiprocket_checks i P)"

definition skipped_upfront :: "'p shopify_source option \<Rightarrow> 'q shiprocket_source option \<Rightarrow> string list" where
  "skipped_upfront shopify shiprocket =
     (if shopify = None then [''shopify_order_missing_in_oms'', ''shopify_product_diff'', ''shopify_customer_diff''] else [])
     @ (if shiprocket = None then [''shiprocket_tracking_family'', ''shiprocket_ndr_mismatch''] else [])"

fun run_each ::
  "uuid \<Rightarrow> 'a recon_db_scheme check list \<Rightarrow> string list \<Rightarrow> string list \<Rightarrow> 'a recon_db_scheme
   \<Rightarrow> ('a recon_db_scheme, string list \<times> string list) attempt" where
  "run_each i [] skipped errored s = (s, Inr (skipped, errored))"
| "run_each i (c # cs) skipped errored s = (case safe_check i c s of
     (s1, Inl e) \<Rightarrow> (s1, Inl e)
   | (s1, Inr CHECK_OK) \<Rightarrow> run_each i cs skipped errored s1
   | (s1, Inr CHECK_SKIPPED) \<Rightarrow> run_each i cs (skipped @ [check_name c]) errored s1
   | (s1, Inr CHECK_ERRORED) \<Rightarrow> run_each i cs skipped (errored @ [check_name c]) s1)"

definition results_of :: "uuid \<Rightarrow> 'a recon_db_scheme \<Rightarrow> recon_result list" where
  "results_of i s = filter (\<lambda>r. rs_run r = i) (recon_results s)"

definition count_status :: "recon_status \<Rightarrow> recon_result list \<Rightarrow> int" where
  "count_status st rows = int (length (filter (\<lambda>r. rs_status r = st) rows))"

definition complete_run :: "uuid \<Rightarrow> string list \<Rightarrow> string list \<Rightarrow> 'a recon_db_scheme \<Rightarrow> 'a recon_db_scheme result" where
  "complete_run i skipped errored s =
     bindR (get_run i s) (\<lambda>_.
     let count = (\<lambda>st. count_status st (results_of i s));
         total = count RECONCILED + count MISMATCH + count MISSING + count CHECK_FAILED
     in Inr (audit_record None ''reconciliation.completed'' ''reconciliation_run'' i []
          [(''total_checked'', JInt total), (''mismatch_count'', JInt (count MISMATCH)), (''missing_count'', JInt (count MISSING)),
           (''error_count'', JInt (count CHECK_FAILED))] []
          (run_update i (\<lambda>r. r\<lparr>rn_status := RUN_COMPLETED, rn_completed := Some (clock s), rn_total := total,
             rn_reconciled := count RECONCILED, rn_mismatch := count MISMATCH, rn_missing := count MISSING,
             rn_errors := count CHECK_FAILED,
             rn_metadata := Some [(''skipped_checks'', JList (map JStr skipped)), (''errored_checks'', JList (map JStr errored))]\<rparr>) s)))"

definition run_checks ::
  "'p shopify_source option \<Rightarrow> 'q shiprocket_source option \<Rightarrow> uuid \<Rightarrow> 'a recon_db_scheme
   \<Rightarrow> ('a recon_db_scheme, string list \<times> string list) attempt" where
  "run_checks shopify shiprocket i s =
     (case run_each i (the_checks i shopify shiprocket) (skipped_upfront shopify shiprocket) [] s of
        (s1, Inl e) \<Rightarrow> (s1, Inl e)
      | (s1, Inr (skipped, errored)) \<Rightarrow> (case complete_run i skipped errored s1 of
          Inl e \<Rightarrow> (s1, Inl e) | Inr s2 \<Rightarrow> (s2, Inr (skipped, errored))))"

definition fail_run :: "uuid \<Rightarrow> string \<Rightarrow> 'a recon_db_scheme \<Rightarrow> 'a recon_db_scheme result" where
  "fail_run i message s =
     bindR (get_run i s) (\<lambda>_.
     Inr (audit_record None ''reconciliation.failed'' ''reconciliation_run'' i [] [(''error'', JStr message)] []
       (run_update i (\<lambda>r. r\<lparr>rn_status := RUN_FAILED, rn_completed := Some (clock s),
          rn_metadata := Some [(''error'', JStr message)]\<rparr>) s)))"

text \<open>The task: which checks were skipped and which failed, where the run completed.\<close>

definition execute_reconciliation_run ::
  "'p shopify_source option \<Rightarrow> 'q shiprocket_source option \<Rightarrow> uuid \<Rightarrow> 'a recon_db_scheme
   \<Rightarrow> ('a recon_db_scheme, (string list \<times> string list) option) attempt" where
  "execute_reconciliation_run shopify shiprocket i s = (case run_checks shopify shiprocket i s of
     (s1, Inr names) \<Rightarrow> (s1, Inr (Some names))
   | (s1, Inl e) \<Rightarrow> (case fail_run i (take 1000 (error_message e)) s1 of
       Inl e' \<Rightarrow> (s1, Inl e') | Inr s2 \<Rightarrow> (s2, Inr None)))"

section \<open>Results\<close>

fun run_status_value :: "recon_status \<Rightarrow> string" where
  "run_status_value RECONCILED = ''reconciled''"
| "run_status_value MISMATCH = ''mismatch''"
| "run_status_value MISSING = ''missing''"
| "run_status_value CHECK_FAILED = ''error''"

text \<open>An absent filter lets every row through.\<close>

definition search_results ::
  "uuid option \<Rightarrow> recon_status option \<Rightarrow> string option \<Rightarrow> string option \<Rightarrow> bool option \<Rightarrow> 'a recon_db_scheme
   \<Rightarrow> recon_result list" where
  "search_results i status check provider resolved s = filter (\<lambda>r.
     (i = None \<or> i = Some (rs_run r)) \<and> (status = None \<or> status = Some (rs_status r)) \<and>
     (check = None \<or> check = Some (rs_check r)) \<and> (provider = None \<or> provider = Some (rs_provider r)) \<and>
     (resolved = None \<or> resolved = Some (rs_resolved r))) (recon_results s)"

definition resolve_result :: "uuid \<Rightarrow> uuid \<Rightarrow> 'a recon_db_scheme \<Rightarrow> 'a recon_db_scheme result" where
  "resolve_result x actor s =
     bindR (require_some (row_by rs_id (recon_results s) x) (NotFoundError ''Reconciliation result not found.'')) (\<lambda>r.
     Inr (audit_record (Some actor) ''reconciliation.result_resolved'' ''reconciliation_result'' x []
       [(''check_type'', JStr (rs_check r)), (''status'', JStr (run_status_value (rs_status r)))] []
       (s\<lparr>recon_results := set_where (\<lambda>r. rs_id r = x)
          (\<lambda>r. r\<lparr>rs_resolved := True, rs_resolved_at := Some (clock s), rs_resolved_by := Some actor\<rparr>) (recon_results s)\<rparr>)))"

end
