(* ===== verification/Reconciliation_Props.thy ===== *)
theory Reconciliation_Props
  imports Reconciliation Sync_Props
begin

text \<open>
  Reconciliation reports and does nothing else: what a run may write, how its totals are made up, which discrepancies of
  the sample it is bound to find, and what a single failure costs.
\<close>

section \<open>What a check writes\<close>

lemma bindF_simps [simp]:
  "bindF (Inl e) f = Inl e"
  "bindF (Inr x) f = f x"
  by (simp_all add: bindF_def)

lemma bindF_Inr_iff: "bindF m f = Inr y \<longleftrightarrow> (\<exists>x. m = Inr x \<and> f x = Inr y)"
  by (cases m) auto

text \<open>New results of the run, unresolved, of the given checks and statuses, and the ids they took.\<close>

definition reports :: "uuid \<Rightarrow> (string \<times> recon_status) set \<Rightarrow> 'a recon_db_scheme \<Rightarrow> 'a recon_db_scheme \<Rightarrow> bool" where
  "reports i T s s' \<longleftrightarrow> (\<exists>rows n. s' = s\<lparr>next_id := n, recon_results := recon_results s @ rows\<rparr> \<and>
     (\<forall>r\<in>set rows. rs_run r = i \<and> \<not> rs_resolved r \<and> (rs_check r, rs_status r) \<in> T))"

lemma reports_refl [simp]: "reports i T s s"
  unfolding reports_def by (rule exI [where x = "[]"]) (rule exI [where x = "next_id s"], simp)

lemma reports_trans: "reports i T s t \<Longrightarrow> reports i T t u \<Longrightarrow> reports i T s u"
  unfolding reports_def
proof (elim exE conjE)
  fix rows n rows' n'
  assume "t = s\<lparr>next_id := n, recon_results := recon_results s @ rows\<rparr>"
    and "u = t\<lparr>next_id := n', recon_results := recon_results t @ rows'\<rparr>"
    and "\<forall>r\<in>set rows. rs_run r = i \<and> \<not> rs_resolved r \<and> (rs_check r, rs_status r) \<in> T"
    and "\<forall>r\<in>set rows'. rs_run r = i \<and> \<not> rs_resolved r \<and> (rs_check r, rs_status r) \<in> T"
  then show "\<exists>rows n. u = s\<lparr>next_id := n, recon_results := recon_results s @ rows\<rparr> \<and>
      (\<forall>r\<in>set rows. rs_run r = i \<and> \<not> rs_resolved r \<and> (rs_check r, rs_status r) \<in> T)"
    by (intro exI [where x = "rows @ rows'"] exI [where x = n']) auto
qed

lemma reports_mono: "reports i T s t \<Longrightarrow> T \<subseteq> T' \<Longrightarrow> reports i T' s t"
  unfolding reports_def by blast

lemma reports_keeps:
  assumes "reports i T s t"
  shows "run_by t x = run_by s x" "shipments t = shipments s" "recon_runs t = recon_runs s" "clock t = clock s"
    "audit_log t = audit_log s" "shipment_updated_at t = shipment_updated_at s" "couriers t = couriers s" "rtos t = rtos s"
  using assms by (auto simp: reports_def run_by_def)

lemma run_by_fresh_results:
  "run_by (fresh (s\<lparr>recon_results := rows\<rparr>)) i = run_by s i"
  by (simp add: run_by_def fresh_def)

lemma record_result_reports:
  "record_result i r s = Inr s' \<Longrightarrow> (rs_check r, rs_status r) \<in> T \<Longrightarrow> \<not> rs_resolved r \<Longrightarrow> reports i T s s'"
  unfolding record_result_def reports_def
  by (rule exI [where x = "[r\<lparr>rs_id := next_id s, rs_run := i\<rparr>]"], rule exI [where x = "Suc (next_id s)"])
    (auto simp: fresh_def split: if_splits)

lemma each_record_reports:
  assumes "each_record body xs s = Inr s'"
    and "\<And>x t t'. body x t = Inr t' \<Longrightarrow> reports i T t t'"
  shows "reports i T s s'"
  using assms
proof (induction xs arbitrary: s)
  case (Cons x xs)
  then obtain t where "body x s = Inr t" "each_record body xs t = Inr s'" by (auto simp: bindF_Inr_iff)
  with Cons show ?case by (meson reports_trans)
qed simp

lemma finding_fields [simp]:
  "rs_check (finding c p e st) = c" "rs_resolved (finding c p e st) = False" "rs_status (finding c p e st) = st"
  "rs_internal (finding c p e st) = None" "rs_external (finding c p e st) = None"
  by (simp_all add: finding_def)

lemma on_shipment_fields [simp]:
  "rs_check (on_shipment c e st sh) = c" "rs_resolved (on_shipment c e st sh) = False" "rs_status (on_shipment c e st sh) = st"
  "rs_internal (on_shipment c e st sh) = Some (shp_id sh)" "rs_external (on_shipment c e st sh) = shp_shiprocket sh"
  by (simp_all add: on_shipment_def)

lemma compared_fields [simp]:
  "rs_check (compared c p e x y d) = c" "rs_resolved (compared c p e x y d) = False"
  by (simp_all add: compared_def)

text \<open>What a check that got through concludes.\<close>

definition compared_statuses :: "recon_status set" where
  "compared_statuses = {RECONCILED, MISMATCH, MISSING}"

lemma compared_statuses [simp]:
  "RECONCILED \<in> compared_statuses" "MISMATCH \<in> compared_statuses" "MISSING \<in> compared_statuses"
  "CHECK_FAILED \<notin> compared_statuses" "agrees same \<in> compared_statuses" "rs_status (compared c p e x y d) \<in> compared_statuses"
  by (simp_all add: compared_statuses_def agrees_def compared_def)

lemmas recording = record_result_reports bindF_Inr_iff

lemma database_checks_report:
  "check_oms_orders_missing_shopify_id i s = Inr s' \<Longrightarrow> reports i ({''oms_order_missing_shopify_id''} \<times> compared_statuses) s s'"
  "check_shipment_missing_shiprocket_id i s = Inr s' \<Longrightarrow> reports i ({''shipment_missing_shiprocket_id''} \<times> compared_statuses) s s'"
  "check_shiprocket_shipment_missing_in_oms i s = Inr s' \<Longrightarrow> reports i ({''shiprocket_shipment_missing_in_oms''} \<times> compared_statuses) s s'"
  unfolding check_oms_orders_missing_shopify_id_def check_shipment_missing_shiprocket_id_def
    check_shiprocket_shipment_missing_in_oms_def
  by (erule each_record_reports; auto simp: recording split: if_splits)+

lemma each_item_reports:
  assumes "each_item P entity body s = Inr s'"
    and "\<And>ext n t t'. body ext n t = Inr t' \<Longrightarrow> reports i T t t'"
  shows "reports i T s s'"
proof -
  from assms(1) obtain raws where "each_record (\<lambda>raw s. bindF (so_normalize P entity raw) (\<lambda>n.
       case si_external n of None \<Rightarrow> Inr s | Some ext \<Rightarrow> if ext = [] then Inr s else body ext n s)) raws s = Inr s'"
    by (auto simp: each_item_def bindF_Inr_iff)
  then show ?thesis
    by (rule each_record_reports) (auto simp: bindF_Inr_iff assms(2) split: option.splits if_splits)
qed

lemma shopify_checks_report:
  "check_shopify_orders_missing_in_oms i P s = Inr s' \<Longrightarrow> reports i ({''shopify_order_missing_in_oms''} \<times> compared_statuses) s s'"
  "check_shopify_product_diff i P s = Inr s' \<Longrightarrow> reports i ({''shopify_product_diff''} \<times> compared_statuses) s s'"
  "check_shopify_customer_diff i P s = Inr s' \<Longrightarrow> reports i ({''shopify_customer_diff''} \<times> compared_statuses) s s'"
  unfolding check_shopify_orders_missing_in_oms_def check_shopify_product_diff_def check_shopify_customer_diff_def
  by (erule each_item_reports; auto simp: recording split: option.splits)+

definition tracking_checks :: "string set" where
  "tracking_checks = {''awb_mismatch'', ''courier_mismatch'', ''tracking_status_mismatch'', ''rto_mismatch''}"

lemma tracking_steps_report:
  "record_awb i sh answer s = Inr s' \<Longrightarrow> reports i (tracking_checks \<times> compared_statuses) s s'"
  "record_courier i sh ev s = Inr s' \<Longrightarrow> reports i (tracking_checks \<times> compared_statuses) s s'"
  "record_status i sh st s = Inr s' \<Longrightarrow> reports i (tracking_checks \<times> compared_statuses) s s'"
  "record_rto i sh st s = Inr s' \<Longrightarrow> reports i (tracking_checks \<times> compared_statuses) s s'"
proof -
  have step: "record_result i r s = Inr s' \<Longrightarrow> rs_check r \<in> tracking_checks \<Longrightarrow> rs_status r \<in> compared_statuses \<Longrightarrow>
      \<not> rs_resolved r \<Longrightarrow> reports i (tracking_checks \<times> compared_statuses) s s'" for r
    by (rule record_result_reports) simp_all
  note names = tracking_checks_def
  show "record_awb i sh answer s = Inr s' \<Longrightarrow> reports i (tracking_checks \<times> compared_statuses) s s'"
    by (auto simp: record_awb_def Let_def split: if_splits elim!: step) (simp_all add: names)
  show "record_courier i sh ev s = Inr s' \<Longrightarrow> reports i (tracking_checks \<times> compared_statuses) s s'"
    by (auto simp: record_courier_def Let_def split: if_splits elim!: step) (simp_all add: names)
  show "record_status i sh st s = Inr s' \<Longrightarrow> reports i (tracking_checks \<times> compared_statuses) s s'"
    by (auto simp: record_status_def Let_def elim!: step) (simp_all add: names)
  show "record_rto i sh st s = Inr s' \<Longrightarrow> reports i (tracking_checks \<times> compared_statuses) s s'"
    by (auto simp: record_rto_def Let_def split: option.splits list.splits elim!: step) (simp_all add: names)
qed

lemma tracking_of_Inr:
  assumes "check_tracking_of i P sh s = Inr s'"
  obtains answer s1 where "sk_tracking P (the (shp_awb sh)) = Inr answer" and "record_awb i sh answer s = Inr s1"
      and "ta_events answer = []" and "s' = s1"
  | answer s1 s2 where "sk_tracking P (the (shp_awb sh)) = Inr answer" and "record_awb i sh answer s = Inr s1"
      and "ta_events answer \<noteq> []" and "record_courier i sh (last (ta_events answer)) s1 = Inr s2"
      and "te_mapped (last (ta_events answer)) = None" and "s' = s2"
  | answer s1 s2 s3 st where "sk_tracking P (the (shp_awb sh)) = Inr answer" and "record_awb i sh answer s = Inr s1"
      and "ta_events answer \<noteq> []" and "record_courier i sh (last (ta_events answer)) s1 = Inr s2"
      and "te_mapped (last (ta_events answer)) = Some st" and "record_status i sh st s2 = Inr s3" and "record_rto i sh st s3 = Inr s'"
proof -
  from assms obtain answer s1 where answer: "sk_tracking P (the (shp_awb sh)) = Inr answer" "record_awb i sh answer s = Inr s1"
    by (auto simp: check_tracking_of_def bindF_Inr_iff)
  show ?thesis
  proof (cases "ta_events answer = []")
    case True
    with answer assms show ?thesis by (intro that(1)) (auto simp: check_tracking_of_def)
  next
    case False
    with answer assms obtain s2 where courier: "record_courier i sh (last (ta_events answer)) s1 = Inr s2"
      by (auto simp: check_tracking_of_def bindF_Inr_iff Let_def)
    show ?thesis
    proof (cases "te_mapped (last (ta_events answer))")
      case None
      with False courier answer assms show ?thesis by (intro that(2)) (auto simp: check_tracking_of_def Let_def)
    next
      case (Some st)
      with False courier answer assms show ?thesis by (auto simp: check_tracking_of_def Let_def bindF_Inr_iff intro: that(3))
    qed
  qed
qed

lemma tracking_of_reports: "check_tracking_of i P sh s = Inr s' \<Longrightarrow> reports i (tracking_checks \<times> compared_statuses) s s'"
  by (erule tracking_of_Inr) (auto dest!: tracking_steps_report intro: reports_trans)

lemma ndr_of_reports: "check_ndr_of i n s = Inr s' \<Longrightarrow> reports i ({''ndr_mismatch''} \<times> compared_statuses) s s'"
  unfolding check_ndr_of_def by (auto intro: record_result_reports split: option.splits if_splits)

lemma shiprocket_checks_report:
  "check_shiprocket_tracking_family i P s = Inr s' \<Longrightarrow> reports i (tracking_checks \<times> compared_statuses) s s'"
  "check_ndr_mismatch i P s = Inr s' \<Longrightarrow> reports i ({''ndr_mismatch''} \<times> compared_statuses) s s'"
proof -
  show "check_shiprocket_tracking_family i P s = Inr s' \<Longrightarrow> reports i (tracking_checks \<times> compared_statuses) s s'"
    unfolding check_shiprocket_tracking_family_def by (erule each_record_reports) (rule tracking_of_reports)
  assume "check_ndr_mismatch i P s = Inr s'"
  then obtain raws where
    "each_record (\<lambda>raw s. bindF (sk_normalize_ndr P raw) (\<lambda>n. check_ndr_of i n s)) raws s = Inr s'"
    by (auto simp: check_ndr_mismatch_def bindF_Inr_iff)
  then show "reports i ({''ndr_mismatch''} \<times> compared_statuses) s s'"
    by (rule each_record_reports) (auto simp: bindF_Inr_iff intro: ndr_of_reports)
qed


section \<open>The run\<close>

lemma safe_check_reports:
  assumes "safe_check i c s = (s', r)" and "\<And>s'. check_body c s = Inr s' \<Longrightarrow> reports i T s s'" and "(check_name c, CHECK_FAILED) \<in> T"
  shows "reports i T s s'" and "run_by s i \<noteq> None \<Longrightarrow> \<exists>outcome. r = Inr outcome"
proof -
  have error: "record_result i ((finding (check_name c) p e CHECK_FAILED)\<lparr>rs_message := m\<rparr>) s = Inr s1 \<Longrightarrow> reports i T s s1"
    for p e m s1 by (erule record_result_reports) (simp_all add: assms(3))
  show "reports i T s s'"
    using assms(1,2) error by (auto simp: safe_check_def split: sum.splits if_splits)
  assume "run_by s i \<noteq> None"
  then show "\<exists>outcome. r = Inr outcome"
    using assms(1) by (auto simp: safe_check_def record_result_def already_recorded_def split: sum.splits if_splits)
qed

lemma run_each_append:
  "run_each i (cs @ ds) sk er s = (case run_each i cs sk er s of
     (s1, Inl e) \<Rightarrow> (s1, Inl e) | (s1, Inr (sk1, er1)) \<Rightarrow> run_each i ds sk1 er1 s1)"
  by (induction cs arbitrary: sk er s) (auto split: prod.splits sum.splits outcome.splits)

lemma run_each_reports:
  assumes "run_each i cs sk er s = (s', r)"
    and "\<forall>c\<in>set cs. (check_name c, CHECK_FAILED) \<in> T \<and> (\<forall>t t'. check_body c t = Inr t' \<longrightarrow> reports i T t t')"
  shows "reports i T s s' \<and> (run_by s i \<noteq> None \<longrightarrow> (\<exists>xs ys. r = Inr (sk @ xs, er @ ys)))"
  using assms
proof (induction cs arbitrary: sk er s)
  case (Cons c cs)
  obtain s1 r1 where step: "safe_check i c s = (s1, r1)" by fastforce
  have body: "\<And>s'. check_body c s = Inr s' \<Longrightarrow> reports i T s s'" and name: "(check_name c, CHECK_FAILED) \<in> T"
    using Cons.prems(2) by auto
  note first = safe_check_reports [OF step body name]
  have rest: "\<And>sk er. run_each i cs sk er s1 = (s', r) \<Longrightarrow>
      reports i T s1 s' \<and> (run_by s1 i \<noteq> None \<longrightarrow> (\<exists>xs ys. r = Inr (sk @ xs, er @ ys)))"
    using Cons.IH Cons.prems(2) by simp
  show ?case
  proof (cases r1)
    case (Inl e)
    then show ?thesis using step first Cons.prems(1) by auto
  next
    case (Inr outcome)
    obtain sk1 er1 where onward: "run_each i cs (sk @ sk1) (er @ er1) s1 = (s', r)"
      using Cons.prems(1) step Inr by (cases outcome) (auto intro: that [of "[]" "[]"] that [of "[check_name c]" "[]"] that [of "[]" "[check_name c]"])
    show ?thesis
      using rest [OF onward] first reports_keeps(1) [OF first(1), of i] reports_trans [OF first(1)] by auto
  qed
qed auto

definition every_check :: "string set" where
  "every_check = {''oms_order_missing_shopify_id'', ''shipment_missing_shiprocket_id'', ''shiprocket_shipment_missing_in_oms'',
     ''shopify_order_missing_in_oms'', ''shopify_product_diff'', ''shopify_customer_diff'', ''ndr_mismatch'',
     ''shiprocket_tracking_family'', ''shiprocket_ndr_mismatch''}"

lemma the_checks_report:
  "\<forall>c\<in>set (database_checks i @ (case shopify of None \<Rightarrow> [] | Some P \<Rightarrow> shopify_checks i P)).
     (check_name c, CHECK_FAILED) \<in> every_check \<times> UNIV \<and>
     (\<forall>t t'. check_body c t = Inr t' \<longrightarrow> reports i (every_check \<times> UNIV) t t')"
  by (auto simp: database_checks_def shopify_checks_def every_check_def split: option.splits
      dest!: database_checks_report shopify_checks_report elim!: reports_mono)

lemma all_checks_report:
  "\<forall>c\<in>set (the_checks i shopify shiprocket).
     (check_name c, CHECK_FAILED) \<in> UNIV \<and> (\<forall>t t'. check_body c t = Inr t' \<longrightarrow> reports i UNIV t t')"
  by (auto simp: the_checks_def database_checks_def shopify_checks_def shiprocket_checks_def split: option.splits
      dest!: database_checks_report shopify_checks_report shiprocket_checks_report elim!: reports_mono)

lemma every_check_other: "c \<in> every_check \<Longrightarrow> c \<notin> tracking_checks"
  unfolding every_check_def tracking_checks_def by (elim insertE) simp_all

lemma run_each_checks:
  assumes "run_each i (the_checks i shopify shiprocket) sk er s = (s', r)"
  shows "reports i UNIV s s'" and "run_by s i \<noteq> None \<Longrightarrow> \<exists>xs ys. r = Inr (sk @ xs, er @ ys)"
  using run_each_reports [OF assms all_checks_report] by auto

text \<open>The rows of the run with status error are those of the checks that failed.\<close>

lemma results_of_reports:
  assumes "reports i T s t"
  shows "\<exists>rows. results_of i t = results_of i s @ rows \<and> recon_results t = recon_results s @ rows
    \<and> list_all (\<lambda>r. rs_run r = i \<and> \<not> rs_resolved r \<and> (rs_check r, rs_status r) \<in> T) rows"
proof -
  from assms obtain rows where "recon_results t = recon_results s @ rows"
      "\<forall>r\<in>set rows. rs_run r = i \<and> \<not> rs_resolved r \<and> (rs_check r, rs_status r) \<in> T"
    by (auto simp: reports_def)
  then show ?thesis by (intro exI [where x = rows]) (auto simp: results_of_def list_all_iff)
qed

lemma reports_no_error:
  assumes "reports i (T \<times> compared_statuses) s t"
  shows "count_status CHECK_FAILED (results_of i t) = count_status CHECK_FAILED (results_of i s)"
proof -
  obtain rows where "results_of i t = results_of i s @ rows"
      "list_all (\<lambda>r. rs_run r = i \<and> \<not> rs_resolved r \<and> (rs_check r, rs_status r) \<in> T \<times> compared_statuses) rows"
    using results_of_reports [OF assms] by blast
  moreover from this(2) have "filter (\<lambda>r. rs_status r = CHECK_FAILED) rows = []"
    by (auto simp: list_all_iff filter_empty_conv)
  ultimately show ?thesis by (simp add: count_status_def)
qed

lemma safe_check_errors:
  assumes "safe_check i c s = (s', Inr outcome)" and "\<And>s'. check_body c s = Inr s' \<Longrightarrow> reports i (UNIV \<times> compared_statuses) s s'"
  shows "count_status CHECK_FAILED (results_of i s') =
    count_status CHECK_FAILED (results_of i s) + (if outcome = CHECK_ERRORED then 1 else 0)"
proof -
  have error: "record_result i ((finding n p e CHECK_FAILED)\<lparr>rs_message := m\<rparr>) s = Inr s1 \<Longrightarrow>
      count_status CHECK_FAILED (results_of i s1) = count_status CHECK_FAILED (results_of i s) + 1" for n p e m s1
    by (auto simp: record_result_def results_of_def count_status_def fresh_def split: if_splits)
  show ?thesis
    using assms error reports_no_error by (auto simp: safe_check_def split: sum.splits if_splits)
qed

lemma run_each_errors:
  assumes "run_each i cs sk er s = (s', Inr (sk', er'))"
    and "\<forall>c\<in>set cs. \<forall>t t'. check_body c t = Inr t' \<longrightarrow> reports i (UNIV \<times> compared_statuses) t t'"
  shows "count_status CHECK_FAILED (results_of i s') =
    count_status CHECK_FAILED (results_of i s) + int (length er') - int (length er)"
  using assms
proof (induction cs arbitrary: sk er s)
  case (Cons c cs)
  obtain s1 r1 where step: "safe_check i c s = (s1, r1)" by fastforce
  then obtain outcome where r1: "r1 = Inr outcome" using Cons.prems(1) by (cases r1) auto
  have "count_status CHECK_FAILED (results_of i s1) =
      count_status CHECK_FAILED (results_of i s) + (if outcome = CHECK_ERRORED then 1 else 0)"
    using step r1 Cons.prems(2) by (intro safe_check_errors) auto
  moreover have "\<And>sk er. run_each i cs sk er s1 = (s', Inr (sk', er')) \<Longrightarrow> count_status CHECK_FAILED (results_of i s') =
      count_status CHECK_FAILED (results_of i s1) + int (length er') - int (length er)"
    using Cons.IH Cons.prems(2) by simp
  ultimately show ?case using Cons.prems(1) step r1 by (cases outcome) fastforce+
qed simp

lemma no_check_reports_error:
  "\<forall>c\<in>set (the_checks i shopify shiprocket). \<forall>t t'. check_body c t = Inr t' \<longrightarrow> reports i (UNIV \<times> compared_statuses) t t'"
  by (auto simp: the_checks_def database_checks_def shopify_checks_def shiprocket_checks_def split: option.splits
      dest!: database_checks_report shopify_checks_report shiprocket_checks_report elim!: reports_mono)

lemma statuses_add_up:
  "count_status RECONCILED rows + count_status MISMATCH rows + count_status MISSING rows + count_status CHECK_FAILED rows = int (length rows)"
proof (induction rows)
  case (Cons r rows)
  then show ?case by (cases "rs_status r") (simp_all add: count_status_def)
qed (simp add: count_status_def)

lemma run_by_update:
  "run_by (run_update i f s) j = (if j = i then map_option f (run_by s i) else run_by s j)" if "\<And>r. rn_id (f r) = rn_id r"
  using that by (auto simp: run_by_def run_update_def row_by_set_where)

section \<open>Reporting only\<close>

text \<open>How a run ends: its own row is written and one audit entry appended.\<close>

definition closes :: "uuid \<Rightarrow> 'a recon_db_scheme \<Rightarrow> 'a recon_db_scheme \<Rightarrow> bool" where
  "closes i s s' \<longleftrightarrow> (\<exists>f a p. (\<forall>r. rn_id (f r) = rn_id r) \<and>
     s' = audit_record None a ''reconciliation_run'' i [] p [] (run_update i f s))"

lemma complete_run_closes: "complete_run i skipped errored s = Inr s' \<Longrightarrow> closes i s s'"
  unfolding complete_run_def bindR_Inr_iff Let_def closes_def
  by (elim exE conjE) (intro exI conjI; (rule sym, erule Inr_inject)?; simp)

lemma fail_run_closes: "fail_run i message s = Inr s' \<Longrightarrow> closes i s s'"
  unfolding fail_run_def bindR_Inr_iff closes_def
  by (elim exE conjE) (intro exI conjI; (rule sym, erule Inr_inject)?; simp)

text \<open>The results of a run, its own row, audit entries and ids.\<close>

definition only_reports :: "uuid \<Rightarrow> 'a recon_db_scheme \<Rightarrow> 'a recon_db_scheme \<Rightarrow> bool" where
  "only_reports i s s' \<longleftrightarrow>
     s'\<lparr>next_id := next_id s, audit_log := audit_log s, recon_runs := recon_runs s, recon_results := recon_results s\<rparr> = s \<and>
     filter (\<lambda>r. rn_id r \<noteq> i) (recon_runs s') = filter (\<lambda>r. rn_id r \<noteq> i) (recon_runs s) \<and>
     (\<exists>rows. recon_results s' = recon_results s @ rows \<and> list_all (\<lambda>r. rs_run r = i \<and> \<not> rs_resolved r) rows) \<and>
     (\<exists>entries. audit_log s' = audit_log s @ entries \<and> length entries \<le> 1)"

lemma only_reports_reports: "reports i T s t \<Longrightarrow> only_reports i s t"
  by (auto simp: reports_def only_reports_def list_all_iff)

lemma filter_not_set_where: "filter (\<lambda>r. \<not> P r) (set_where P f rows) = filter (\<lambda>r. \<not> P r) rows" if "\<And>r. P r \<Longrightarrow> P (f r)"
  using that by (induction rows) (auto simp: set_where_def)

lemma only_reports_close:
  assumes "reports i T s t" and "closes i t s'"
  shows "only_reports i s s'"
proof -
  obtain f a p where f: "\<And>r. rn_id (f r) = rn_id r" and s': "s' = audit_record None a ''reconciliation_run'' i [] p [] (run_update i f t)"
    using assms(2) by (auto simp: closes_def)
  show ?thesis
    using only_reports_reports [OF assms(1)] reports_keeps(3,5) [OF assms(1)] filter_not_set_where [of "\<lambda>r. rn_id r = i" f] f
    by (auto simp: s' only_reports_def run_update_def audit_record_def fresh_def)
qed

lemma execute_only_reports: "only_reports i s (fst (execute_reconciliation_run shopify shiprocket i s))"
proof -
  obtain s1 r where each: "run_each i (the_checks i shopify shiprocket) (skipped_upfront shopify shiprocket) [] s = (s1, r)"
    by fastforce
  note ran = run_each_checks(1) [OF each]
  show ?thesis
    using only_reports_reports [OF ran]
    by (auto simp: execute_reconciliation_run_def run_checks_def each split: sum.splits prod.splits
        intro!: only_reports_close [OF ran] dest!: complete_run_closes fail_run_closes)
qed

text \<open>
  C31: reconciliation reports and repairs nothing. Whatever the providers answer, and however the run ends, all it leaves
  behind are unresolved results of its own appended to those there were, at most one audit entry, and its own row of the
  runs; every other table is as before.
\<close>

theorem reconciliation_repairs_nothing:
  "let s' = fst (execute_reconciliation_run shopify shiprocket i s) in
     s'\<lparr>next_id := next_id s, audit_log := audit_log s, recon_runs := recon_runs s, recon_results := recon_results s\<rparr> = s
     \<and> filter (\<lambda>r. rn_id r \<noteq> i) (recon_runs s') = filter (\<lambda>r. rn_id r \<noteq> i) (recon_runs s)
     \<and> (\<exists>rows. recon_results s' = recon_results s @ rows \<and> list_all (\<lambda>r. rs_run r = i \<and> \<not> rs_resolved r) rows)
     \<and> (\<exists>entries. audit_log s' = audit_log s @ entries \<and> length entries \<le> 1)"
  using execute_only_reports [of i s shopify shiprocket] by (simp add: Let_def only_reports_def)

text \<open>The run row after completion.\<close>

lemma run_each_Inr:
  assumes "run_by s i \<noteq> None"
  obtains s1 xs ys where "run_each i (the_checks i shopify shiprocket) (skipped_upfront shopify shiprocket) [] s
    = (s1, Inr (skipped_upfront shopify shiprocket @ xs, ys))" and "run_by s1 i = run_by s i" and "clock s1 = clock s"
proof -
  obtain s1 r where each: "run_each i (the_checks i shopify shiprocket) (skipped_upfront shopify shiprocket) [] s = (s1, r)"
    by fastforce
  from run_each_checks [OF each] assms show thesis
    using that [of s1] each reports_keeps(1) [of i UNIV s s1 i] reports_keeps(4) [of i UNIV s s1] by auto
qed

lemma results_of_close [simp]: "results_of i (audit_record u a t e p n m (run_update j f s)) = results_of i s"
  by (simp add: results_of_def audit_record_def fresh_def run_update_def)

lemma run_by_audit [simp]: "run_by (audit_record u a t e p n m s) i = run_by s i"
  by (simp add: run_by_def audit_record_def fresh_def)

text \<open>
  C32: a run that was started is never left running, whatever the providers answer. It completes, its total is the number
  of its results, and it counts as reconciled, mismatched, missing and failed exactly its results of that status, which
  are all of them. The failed ones, where it had no results before, are as many as the checks that raised; the names of
  those and of the checks that were skipped are on the run.
\<close>

theorem reconciliation_completes:
  assumes "run_by s i \<noteq> None"
  shows "\<exists>s' skipped errored run. execute_reconciliation_run shopify shiprocket i s = (s', Inr (Some (skipped, errored)))
    \<and> run_by s' i = Some run \<and> rn_status run = RUN_COMPLETED \<and> rn_completed run = Some (clock s)
    \<and> rn_total run = int (length (results_of i s'))
    \<and> rn_reconciled run = count_status RECONCILED (results_of i s') \<and> rn_mismatch run = count_status MISMATCH (results_of i s')
    \<and> rn_missing run = count_status MISSING (results_of i s') \<and> rn_errors run = count_status CHECK_FAILED (results_of i s')
    \<and> rn_total run = rn_reconciled run + rn_mismatch run + rn_missing run + rn_errors run
    \<and> rn_errors run = count_status CHECK_FAILED (results_of i s) + int (length errored)
    \<and> rn_metadata run = Some [(''skipped_checks'', JList (map JStr skipped)), (''errored_checks'', JList (map JStr errored))]"
proof -
  obtain s1 xs ys where each: "run_each i (the_checks i shopify shiprocket) (skipped_upfront shopify shiprocket) [] s
      = (s1, Inr (skipped_upfront shopify shiprocket @ xs, ys))" and row: "run_by s1 i = run_by s i" and now: "clock s1 = clock s"
    using assms by (rule run_each_Inr)
  from assms obtain r0 where "run_by s i = Some r0" by blast
  with row statuses_add_up [of "results_of i s1"] run_each_errors [OF each no_check_reports_error] now show ?thesis
    by (simp add: execute_reconciliation_run_def run_checks_def each complete_run_def get_run_def Let_def run_by_update)
qed

section \<open>The tracking check\<close>

lemma each_record_fails:
  assumes "x \<in> set xs" and "\<And>t. \<exists>e. body x t = Inl e"
  shows "\<exists>e. each_record body xs s = Inl e"
  using assms(1)
proof (induction xs arbitrary: s)
  case (Cons y ys)
  show ?case
  proof (cases "body y s")
    case (Inr t)
    with Cons assms(2) [of s] show ?thesis by (auto simp: Inr)
  qed simp
qed simp

lemma each_record_step:
  assumes "each_record body xs s = Inr s'" and "x \<in> set xs" and "\<And>x t t'. body x t = Inr t' \<Longrightarrow> reports i T t t'"
  obtains t t' where "body x t = Inr t'" and "reports i T s t" and "reports i T t' s'"
  using assms(1,2)
proof (induction xs arbitrary: s thesis)
  case (Cons y ys)
  then obtain u where u: "body y s = Inr u" "each_record body ys u = Inr s'" by (auto simp: bindF_Inr_iff)
  show ?case
  proof (cases "x = y")
    case True
    with u show ?thesis using Cons.prems(1) each_record_reports [OF u(2) assms(3)] by auto
  next
    case False
    then have "x \<in> set ys" using Cons.prems(3) by simp
    then obtain t t' where "body x t = Inr t'" "reports i T u t" "reports i T t' s'" using Cons.IH u(2) by blast
    then show ?thesis using Cons.prems(1) assms(3) [OF u(1)] reports_trans by blast
  qed
qed simp

abbreviation tracking_check :: "uuid \<Rightarrow> 'q shiprocket_source \<Rightarrow> 'a recon_db_scheme check" where
  "tracking_check i P \<equiv> Check ''shiprocket_tracking_family'' ''shiprocket'' ''shipment'' (check_shiprocket_tracking_family i P)"

lemma run_each_tracking:
  assumes "run_by s i \<noteq> None"
  obtains s1 s2 s3 s' outcome sk er where "reports i (every_check \<times> UNIV) s s1"
    and "safe_check i (tracking_check i P) s1 = (s2, Inr outcome)" and "reports i (every_check \<times> UNIV) s2 s3"
    and "execute_reconciliation_run shopify (Some P) i s = (s', Inr (Some (sk, er)))" and "results_of i s' = results_of i s3"
    and "outcome \<noteq> CHECK_OK \<longrightarrow> ''shiprocket_tracking_family'' \<in> set (sk @ er)"
proof -
  let ?first = "database_checks i @ (case shopify of None \<Rightarrow> [] | Some P \<Rightarrow> shopify_checks i P)"
  let ?ndr = "Check ''shiprocket_ndr_mismatch'' ''shiprocket'' ''ndr'' (check_ndr_mismatch i P)"
  obtain s1 r1 where first: "run_each i ?first (skipped_upfront shopify (Some P)) [] s = (s1, r1)" by fastforce
  then obtain sk1 er1 where r1: "r1 = Inr (sk1, er1)" and s1: "reports i (every_check \<times> UNIV) s s1"
    using run_each_reports [OF first the_checks_report] assms by auto
  have present1: "run_by s1 i \<noteq> None" using reports_keeps(1) [OF s1] assms by simp
  obtain s2 r2 where second: "safe_check i (tracking_check i P) s1 = (s2, r2)" by fastforce
  from safe_check_reports [OF this, where T = UNIV] obtain outcome where r2: "r2 = Inr outcome" and s2: "reports i UNIV s1 s2"
    using present1 shiprocket_checks_report(1) reports_mono by (metis UNIV_I check.sel(4) top_greatest)
  define lists where "lists = (case outcome of CHECK_OK \<Rightarrow> (sk1, er1) | CHECK_SKIPPED \<Rightarrow> (sk1 @ [''shiprocket_tracking_family''], er1)
    | CHECK_ERRORED \<Rightarrow> (sk1, er1 @ [''shiprocket_tracking_family'']))"
  obtain s3 r3 where third: "run_each i [?ndr] (fst lists) (snd lists) s2 = (s3, r3)" by fastforce
  have "\<forall>c\<in>set [?ndr]. (check_name c, CHECK_FAILED) \<in> every_check \<times> UNIV \<and>
      (\<forall>t t'. check_body c t = Inr t' \<longrightarrow> reports i (every_check \<times> UNIV) t t')"
    by (auto simp: every_check_def dest!: shiprocket_checks_report(2) elim!: reports_mono)
  from run_each_reports [OF third this] obtain xs ys where r3: "r3 = Inr (fst lists @ xs, snd lists @ ys)"
      and s3: "reports i (every_check \<times> UNIV) s2 s3"
    using reports_keeps(1) [OF s2] present1 by auto
  have whole: "run_each i (the_checks i shopify (Some P)) (skipped_upfront shopify (Some P)) [] s = (s3, r3)"
    using first second third unfolding the_checks_def shiprocket_checks_def append_assoc [symmetric]
    by (subst run_each_append) (cases outcome; simp add: r1 r2 lists_def)
  have "run_by s3 i \<noteq> None" using reports_keeps(1) [OF s3] reports_keeps(1) [OF s2] present1 by simp
  then obtain s' where "complete_run i (fst lists @ xs) (snd lists @ ys) s3 = Inr s'" and "results_of i s' = results_of i s3"
    by (auto simp: complete_run_def get_run_def Let_def)
  moreover from this whole r3 have "execute_reconciliation_run shopify (Some P) i s = (s', Inr (Some (fst lists @ xs, snd lists @ ys)))"
    by (simp add: execute_reconciliation_run_def run_checks_def)
  moreover have "outcome \<noteq> CHECK_OK \<longrightarrow> ''shiprocket_tracking_family'' \<in> set ((fst lists @ xs) @ snd lists @ ys)"
    by (cases outcome) (simp_all add: lists_def)
  ultimately show thesis using that s1 second r2 s3 by blast
qed

lemma tracking_sample_reports: "reports i T s t \<Longrightarrow> tracking_sample t = tracking_sample s"
  by (simp add: tracking_sample_def reports_keeps)

text \<open>A result of the run with the given check, status and row.\<close>

definition reported :: "uuid \<Rightarrow> string \<Rightarrow> recon_status \<Rightarrow> uuid \<Rightarrow> 'a recon_db_scheme \<Rightarrow> bool" where
  "reported i check status x s \<longleftrightarrow> list_ex (\<lambda>r. rs_check r = check \<and> rs_status r = status \<and> rs_internal r = Some x) (results_of i s)"

lemma reported_reports: "reported i c st x s \<Longrightarrow> reports i T s t \<Longrightarrow> reported i c st x t"
  using results_of_reports [of i T s t] by (auto simp: reported_def)

lemma record_result_reported:
  "record_result i r s = Inr s' \<Longrightarrow> rs_internal r = Some x \<Longrightarrow> reported i (rs_check r) (rs_status r) x s'"
  by (auto simp: record_result_def reported_def results_of_def fresh_def list_ex_iff split: if_splits)

lemma tracking_of_finds:
  assumes "check_tracking_of i P sh s = Inr s'" and "sk_tracking P (the (shp_awb sh)) = Inr answer"
    and "ta_events answer \<noteq> []" and "te_mapped (last (ta_events answer)) = Some st"
  shows "reported i ''tracking_status_mismatch'' (agrees (st = shp_status sh)) (shp_id sh) s'"
    and "rto_status_of st \<noteq> None \<Longrightarrow> filter (\<lambda>r. rt_shipment r = shp_id sh) (rtos s) = [] \<Longrightarrow>
      reported i ''rto_mismatch'' MISSING (shp_id sh) s'"
proof -
  from assms obtain s1 s2 s3 where steps: "record_awb i sh answer s = Inr s1"
      "record_courier i sh (last (ta_events answer)) s1 = Inr s2" "record_status i sh st s2 = Inr s3" "record_rto i sh st s3 = Inr s'"
    by (auto elim!: tracking_of_Inr)
  note kept = tracking_steps_report(1) [OF steps(1)] tracking_steps_report(2) [OF steps(2)] tracking_steps_report(3) [OF steps(3)]
  have "reported i ''tracking_status_mismatch'' (agrees (st = shp_status sh)) (shp_id sh) s3"
    using record_result_reported [OF steps(3) [unfolded record_status_def Let_def]] by simp
  then show "reported i ''tracking_status_mismatch'' (agrees (st = shp_status sh)) (shp_id sh) s'"
    using tracking_steps_report(4) [OF steps(4)] by (rule reported_reports)
  assume "rto_status_of st \<noteq> None" and "filter (\<lambda>r. rt_shipment r = shp_id sh) (rtos s) = []"
  moreover have "rtos s3 = rtos s" using kept by (simp add: reports_keeps)
  ultimately show "reported i ''rto_mismatch'' MISSING (shp_id sh) s'"
    using steps(4) by (auto simp: record_rto_def dest!: record_result_reported [where x = "shp_id sh"] split: option.splits)
qed

text \<open>
  C33: a run whose tracking check got through has found every stale shipment of its sample: for each one whose AWB
  Shiprocket tracks with a last event of known status there is a result that says whether the status on file is that one,
  and where the event says it is on its way back but the OMS has no RTO of it, one that says the RTO is missing.
\<close>

theorem stale_shipment_is_reported:
  assumes "execute_reconciliation_run shopify (Some P) i s = (s', Inr (Some (skipped, errored)))" and "run_by s i \<noteq> None"
    and "''shiprocket_tracking_family'' \<notin> set (skipped @ errored)"
    and "sh \<in> set (tracking_sample s)" and "sk_tracking P (the (shp_awb sh)) = Inr answer"
    and "ta_events answer \<noteq> []" and "te_mapped (last (ta_events answer)) = Some st"
  shows "reported i ''tracking_status_mismatch'' (if st = shp_status sh then RECONCILED else MISMATCH) (shp_id sh) s'
    \<and> (rto_status_of st \<noteq> None \<and> shp_id sh \<notin> rt_shipment ` set (rtos s) \<longrightarrow> reported i ''rto_mismatch'' MISSING (shp_id sh) s')"
proof -
  obtain s1 s2 s3 sx outcome sk er where s1: "reports i (every_check \<times> UNIV) s s1"
      and track: "safe_check i (tracking_check i P) s1 = (s2, Inr outcome)" and s3: "reports i (every_check \<times> UNIV) s2 s3"
      and run: "execute_reconciliation_run shopify (Some P) i s = (sx, Inr (Some (sk, er)))" and sx: "results_of i sx = results_of i s3"
      and named: "outcome \<noteq> CHECK_OK \<longrightarrow> ''shiprocket_tracking_family'' \<in> set (sk @ er)"
    by (rule run_each_tracking [OF assms(2), where shopify = shopify and P = P]) blast
  from run assms(1) have same: "sx = s'" "sk = skipped" "er = errored" by simp_all
  note s' = sx [unfolded same]
  from named assms(3) same have "outcome = CHECK_OK" by blast
  with track have each: "each_record (check_tracking_of i P) (tracking_sample s) s1 = Inr s2"
    by (auto simp: safe_check_def check_shiprocket_tracking_family_def tracking_sample_reports [OF s1] split: sum.splits if_splits)
  obtain t t' where of_sh: "check_tracking_of i P sh t = Inr t'" and t: "reports i (tracking_checks \<times> compared_statuses) s1 t"
      and t': "reports i (tracking_checks \<times> compared_statuses) t' s2"
    by (rule each_record_step [OF each assms(4), where i = i and T = "tracking_checks \<times> compared_statuses"])
      (blast intro: tracking_of_reports)+
  have later: "reported i c st x t' \<Longrightarrow> reported i c st x s'" for c st x
    using reported_reports [OF reported_reports [OF _ t'] s3] s' by (simp add: reported_def)
  have "rtos t = rtos s" using reports_keeps [OF s1] reports_keeps [OF t] by simp
  then have "shp_id sh \<notin> rt_shipment ` set (rtos s) \<Longrightarrow> filter (\<lambda>r. rt_shipment r = shp_id sh) (rtos t) = []"
    by (force simp: filter_empty_conv)
  then show ?thesis
    using later tracking_of_finds [OF of_sh assms(5-7)] by (auto simp: agrees_def)
qed

text \<open>
  C34: but one shipment costs the whole check. Where Shiprocket fails to answer for a single one of the sample, the run
  still completes, yet nothing of what it compared on tracking is kept, for none of the other shipments either: no result
  on an AWB, a courier, a status or an RTO is there.
\<close>

theorem one_failure_loses_the_check:
  assumes "run_by s i \<noteq> None" and "results_of i s = []" and "sh \<in> set (tracking_sample s)"
    and "sk_tracking P (the (shp_awb sh)) = Inl f"
  shows "\<exists>s' skipped errored. execute_reconciliation_run shopify (Some P) i s = (s', Inr (Some (skipped, errored)))
    \<and> ''shiprocket_tracking_family'' \<in> set (skipped @ errored)
    \<and> list_all (\<lambda>r. rs_check r \<notin> {''awb_mismatch'', ''courier_mismatch'', ''tracking_status_mismatch'', ''rto_mismatch''}) (results_of i s')"
proof -
  obtain s1 s2 s3 s' outcome skipped errored where
      s1: "reports i (every_check \<times> UNIV) s s1" and track: "safe_check i (tracking_check i P) s1 = (s2, Inr outcome)"
      and s3: "reports i (every_check \<times> UNIV) s2 s3" and s': "results_of i s' = results_of i s3"
      and run: "execute_reconciliation_run shopify (Some P) i s = (s', Inr (Some (skipped, errored)))"
      and named: "outcome \<noteq> CHECK_OK \<longrightarrow> ''shiprocket_tracking_family'' \<in> set (skipped @ errored)"
    by (rule run_each_tracking [OF assms(1), where shopify = shopify and P = P]) blast
  obtain e where fails: "check_shiprocket_tracking_family i P s1 = Inl e"
    using each_record_fails [OF assms(3), of "check_tracking_of i P" s1] assms(4)
    by (auto simp: check_shiprocket_tracking_family_def tracking_sample_reports [OF s1] check_tracking_of_def)
  have "outcome \<noteq> CHECK_OK" using track fails by (auto simp: safe_check_def split: if_splits sum.splits)
  have "reports i (every_check \<times> UNIV) s1 s2"
    using safe_check_reports(1) [OF track, of "every_check \<times> UNIV"] fails by (simp add: every_check_def)
  then have "reports i (every_check \<times> UNIV) s s3" using s1 s3 reports_trans by blast
  with assms(2) obtain rows where "results_of i s3 = rows" "list_all (\<lambda>r. rs_check r \<in> every_check) rows"
    using results_of_reports [of i "every_check \<times> UNIV" s s3] by (auto simp: list_all_iff)
  then have "list_all (\<lambda>r. rs_check r \<notin> tracking_checks) (results_of i s')"
    using s' every_check_other by (auto simp: list_all_iff)
  with run named \<open>outcome \<noteq> CHECK_OK\<close> show ?thesis unfolding tracking_checks_def by blast
qed

section \<open>Witnesses\<close>

text \<open>
  Run 80, with a delivered shipment 31 that Shiprocket tracks as on its way back, and an order 7 without its Shopify id.
\<close>

definition demo_recon :: recon_db where
  "demo_recon = sync_db.extend (demo_engine\<lparr>shipments := [(demo_shipment 31 8)\<lparr>shp_awb := Some ''W31'', shp_shiprocket := Some ''S31'',
       shp_status := SHP_DELIVERED, shp_source := ''shiprocket''\<rparr>]\<rparr>)
     \<lparr>recon_runs = [\<lparr>rn_id = 80, rn_user = None, rn_status = RUN_RUNNING, rn_started = Some 900, rn_completed = None, rn_total = 0,
        rn_reconciled = 0, rn_mismatch = 0, rn_missing = 0, rn_errors = 0, rn_metadata = None\<rparr>],
      recon_results = [], product_columns_of = (\<lambda>_. \<lparr>pc_source = ''manual'', pc_external = None, pc_status = DRAFT, pc_vendor = None\<rparr>),
      customer_columns_of = (\<lambda>_. \<lparr>cc_email = None, cc_first = None, cc_last = None\<rparr>), shipment_updated_at = (\<lambda>_. 900)\<rparr>"

definition demo_shopify :: "string shopify_source" where
  "demo_shopify = \<lparr>so_fetch = (\<lambda>entity n. if entity = ''orders'' then Inr [''900'', ''901''] else Inr []),
     so_normalize = (\<lambda>entity raw. Inr \<lparr>si_external = Some raw, si_title = None, si_status = None, si_vendor = None,
       si_email = None, si_first = None, si_last = None\<rparr>)\<rparr>"

definition demo_shiprocket :: "(failure + tracking_answer) \<Rightarrow> string shiprocket_source" where
  "demo_shiprocket answer = \<lparr>sk_tracking = (\<lambda>awb. answer), sk_fetch_ndr = (\<lambda>n. Inr []),
     sk_normalize_ndr = (\<lambda>raw. Inr \<lparr>ni_awb = Some raw, ni_reason = None, ni_attempt = 1\<rparr>)\<rparr>"

definition demo_answer :: tracking_answer where
  "demo_answer = \<lparr>ta_awb = Some ''W31'', ta_events = [demo_event ''In Transit'' 300, demo_event ''RTO Delivered'' 500]\<rparr>"

lemma demo_run_80: "run_by demo_recon 80 \<noteq> None"
  by (simp add: run_by_def demo_recon_def sync_db.defs)

lemma demo_recon_shipments: "shipments demo_recon = [(demo_shipment 31 8)\<lparr>shp_awb := Some ''W31'', shp_shiprocket := Some ''S31'',
    shp_status := SHP_DELIVERED, shp_source := ''shiprocket''\<rparr>]"
  by (simp add: demo_recon_def sync_db.defs)

lemma demo_recon_sample: "tracking_sample demo_recon = shipments demo_recon"
  by (simp add: tracking_sample_def demo_recon_shipments sample_limit_def)

theorem reconciliation_completes_witness:
  "\<exists>s' skipped errored run. execute_reconciliation_run (Some demo_shopify) (Some (demo_shiprocket (Inr demo_answer))) 80 demo_recon
      = (s', Inr (Some (skipped, errored))) \<and> run_by s' 80 = Some run \<and> rn_status run = RUN_COMPLETED
    \<and> rn_errors run = count_status CHECK_FAILED (results_of 80 demo_recon) + int (length errored)"
  using reconciliation_completes [OF demo_run_80, of "Some demo_shopify" "Some (demo_shiprocket (Inr demo_answer))"] by blast

lemma demo_recon_fields:
  "audit_log demo_recon = []" "rtos demo_recon = []" "couriers demo_recon = couriers demo_ship" "recon_results demo_recon = []"
  "orders demo_recon = [(demo_order 7 ''#AW7'' PENDING)\<lparr>o_source := ''shopify'', o_external := Some ''900''\<rparr>]"
  by (simp_all add: demo_recon_def demo_engine_def demo_pay_def demo_returns_def demo_ship_def
      sync_db.defs webhook_db.defs returns_db.defs shipping_db.defs)

lemma demo_answer_status: "te_mapped (last (ta_events demo_answer)) = Some RTO_DELIVERED" "ta_events demo_answer \<noteq> []"
  using demo_mapped(2) [of 500] by (simp_all add: demo_answer_def)


lemma record_result_fresh:
  "run_by s i \<noteq> None \<Longrightarrow> \<not> already_recorded i r (recon_results s) \<Longrightarrow>
    record_result i r s = Inr (s\<lparr>next_id := Suc (next_id s), recon_results := recon_results s @ [r\<lparr>rs_id := next_id s, rs_run := i\<rparr>]\<rparr>)"
  by (simp add: record_result_def fresh_def)

lemma run_by_results [simp]: "run_by (s\<lparr>next_id := n, recon_results := rows\<rparr>) i = run_by s i"
  by (simp add: run_by_def)

lemma demo_recon_run:
  "snd (run_each 80 (the_checks 80 (None :: string shopify_source option) (Some (demo_shiprocket (Inr demo_answer)))) sk [] demo_recon) = Inr (sk, [])"
  using demo_run_80 demo_answer_status
  by (simp add: the_checks_def database_checks_def shiprocket_checks_def safe_check_def check_oms_orders_missing_shopify_id_def
    check_shipment_missing_shiprocket_id_def check_shiprocket_shipment_missing_in_oms_def created_via_shiprocket_def
    demo_recon_fields demo_recon_shipments sample_limit_def record_result_fresh already_recorded_def finding_def
    check_shiprocket_tracking_family_def demo_recon_sample check_tracking_of_def demo_shiprocket_def
    record_awb_def record_courier_def record_status_def record_rto_def Let_def on_shipment_def tracking_sample_def check_ndr_mismatch_def
    demo_order_def demo_shipment_def)

lemma demo_recon_executes:
  "\<exists>s'. execute_reconciliation_run (None :: string shopify_source option) (Some (demo_shiprocket (Inr demo_answer))) 80 demo_recon
    = (s', Inr (Some ([''shopify_order_missing_in_oms'', ''shopify_product_diff'', ''shopify_customer_diff''], [])))"
proof -
  let ?P = "Some (demo_shiprocket (Inr demo_answer))"
  let ?none = "None :: string shopify_source option"
  obtain s1 where each: "run_each 80 (the_checks 80 ?none ?P) (skipped_upfront ?none ?P) [] demo_recon = (s1, Inr (skipped_upfront ?none ?P, []))"
    using demo_recon_run [of "skipped_upfront ?none ?P"] by (metis prod.collapse)
  have "run_by s1 80 \<noteq> None" using reports_keeps(1) [OF run_each_checks(1) [OF each]] demo_run_80 by simp
  then obtain s2 where "complete_run 80 (skipped_upfront ?none ?P) [] s1 = Inr s2"
    by (auto simp: complete_run_def get_run_def Let_def)
  with each show ?thesis by (simp add: execute_reconciliation_run_def run_checks_def skipped_upfront_def)
qed

theorem stale_shipment_is_reported_witness:
  "\<exists>s'. snd (execute_reconciliation_run (None :: string shopify_source option) (Some (demo_shiprocket (Inr demo_answer))) 80 demo_recon)
      = Inr (Some ([''shopify_order_missing_in_oms'', ''shopify_product_diff'', ''shopify_customer_diff''], []))
    \<and> fst (execute_reconciliation_run (None :: string shopify_source option) (Some (demo_shiprocket (Inr demo_answer))) 80 demo_recon) = s'
    \<and> reported 80 ''tracking_status_mismatch'' MISMATCH 31 s' \<and> reported 80 ''rto_mismatch'' MISSING 31 s'"
proof -
  let ?sh = "(demo_shipment 31 8)\<lparr>shp_awb := Some ''W31'', shp_shiprocket := Some ''S31'', shp_status := SHP_DELIVERED, shp_source := ''shiprocket''\<rparr>"
  obtain s' where run: "execute_reconciliation_run (None :: string shopify_source option) (Some (demo_shiprocket (Inr demo_answer))) 80 demo_recon
    = (s', Inr (Some ([''shopify_order_missing_in_oms'', ''shopify_product_diff'', ''shopify_customer_diff''], [])))"
    using demo_recon_executes by blast
  have "?sh \<in> set (tracking_sample demo_recon)" by (simp add: demo_recon_sample demo_recon_shipments)
  from stale_shipment_is_reported [OF run demo_run_80 _ this _ demo_answer_status(2,1)]
  have "reported 80 ''tracking_status_mismatch'' MISMATCH 31 s' \<and> reported 80 ''rto_mismatch'' MISSING 31 s'"
    by (simp add: demo_shiprocket_def demo_shipment_def demo_recon_fields)
  with run show ?thesis by simp
qed

theorem one_failure_loses_the_check_witness:
  "\<exists>s' skipped errored. execute_reconciliation_run (Some demo_shopify)
        (Some (demo_shiprocket (Inl (Failure (IntegrityError ''timeout'') None)))) 80 demo_recon = (s', Inr (Some (skipped, errored)))
    \<and> ''shiprocket_tracking_family'' \<in> set (skipped @ errored)"
proof -
  let ?sh = "(demo_shipment 31 8)\<lparr>shp_awb := Some ''W31'', shp_shiprocket := Some ''S31'', shp_status := SHP_DELIVERED, shp_source := ''shiprocket''\<rparr>"
  have "?sh \<in> set (tracking_sample demo_recon)" by (simp add: demo_recon_sample demo_recon_shipments)
  moreover have "results_of 80 demo_recon = []" by (simp add: results_of_def demo_recon_fields)
  ultimately show ?thesis
    using one_failure_loses_the_check [OF demo_run_80 _ _, of ?sh "demo_shiprocket (Inl (Failure (IntegrityError ''timeout'') None))"
        "Failure (IntegrityError ''timeout'') None" "Some demo_shopify"]
    by (auto simp: demo_shiprocket_def)
qed

end
