(* ===== verification/Providers.thy ===== *)
theory Providers
  imports Sync
begin

text \<open>
  The clients of the providers: the REST client of Shiprocket (\<open>app/integrations/shiprocket/client.py\<close>), the GraphQL client
  of Shopify with its token manager (\<open>shopify/client.py\<close>, \<open>shopify/auth.py\<close>), the client of Cashfree
  (\<open>cashfree/client.py\<close>), the \<open>errors.py\<close> beside each, and the reading part of \<open>shiprocket/adapter.py\<close> and
  \<open>shopify/adapter.py\<close>.

  A server answers a request as a function of the time and of its own state, and takes some time for it; this is a parameter,
  with the way a body is read. A client keeps the clock, its token and the requests it has sent so far, which no code reads.
  A body that is not JSON raises Python's \<open>ValueError\<close>, here \<open>Not_json\<close>.
\<close>

section \<open>Errors\<close>

record api_error =
  ae_message :: string
  ae_type :: string
  ae_status :: "int option"

datatype client_error = Api api_error | Not_json | No_data

definition api_error_of :: "string \<Rightarrow> string \<Rightarrow> int option \<Rightarrow> api_error" where
  "api_error_of message ty status = \<lparr>ae_message = message, ae_type = ty, ae_status = status\<rparr>"

definition server_error_type :: "int \<Rightarrow> string" where
  "server_error_type status = (if status \<in> {500, 502, 503, 504} then ''http_'' @ show_int status else ''http_500'')"

definition shiprocket_http_error :: "int \<Rightarrow> api_error" where
  "shiprocket_http_error status =
     (if status = 401 then api_error_of ''Shiprocket rejected the credentials/token (authentication failed).'' ''authentication_error'' (Some status)
      else if status = 403 then api_error_of ''Shiprocket account lacks permission for this operation.'' ''authorization_error'' (Some status)
      else if status = 422 then api_error_of ''Shiprocket rejected the request payload (validation error).'' ''validation_error'' (Some status)
      else if status = 429 then api_error_of ''Shiprocket rate limit exceeded (429).'' ''http_429'' (Some status)
      else if 500 \<le> status \<and> status < 600
      then api_error_of (''Shiprocket API returned a server error ('' @ show_int status @ '').'') (server_error_type status) (Some status)
      else api_error_of (''Shiprocket API returned an unexpected status ('' @ show_int status @ '').'') ''permanent_error'' (Some status))"

definition shopify_http_error :: "int \<Rightarrow> api_error" where
  "shopify_http_error status =
     (if status = 401 then api_error_of ''Shopify rejected the access token (authentication failed).'' ''authentication_error'' (Some status)
      else if status = 403 then api_error_of ''Shopify access token is missing a required scope (permission failure).'' ''authorization_error'' (Some status)
      else if status = 429 then api_error_of ''Shopify rate limit exceeded (429).'' ''http_429'' (Some status)
      else if 500 \<le> status \<and> status < 600
      then api_error_of (''Shopify API returned a server error ('' @ show_int status @ '').'') (server_error_type status) (Some status)
      else api_error_of (''Shopify API returned an unexpected status ('' @ show_int status @ '').'') ''permanent_error'' (Some status))"

text \<open>The detail is the message the error body carries, if it does.\<close>

definition cashfree_http_error :: "int \<Rightarrow> string option \<Rightarrow> api_error" where
  "cashfree_http_error status detail =
     (let suffix = (case detail of None \<Rightarrow> [] | Some t \<Rightarrow> if t = [] then [] else '' ('' @ t @ '')'');
          error = (\<lambda>message ty. api_error_of message ty (Some status))
      in if status = 401 \<or> status = 403 then error (''Cashfree rejected the credentials'' @ suffix @ ''.'') ''authentication_error''
         else if status = 404 then error (''Cashfree order/payment not found'' @ suffix @ ''.'') ''not_found''
         else if status = 409 then error (''Cashfree order_id conflict'' @ suffix @ ''.'') ''conflict''
         else if status = 422 \<or> status = 400 then error (''Cashfree rejected the request payload'' @ suffix @ ''.'') ''validation_error''
         else if status = 429 then error ''Cashfree rate limit exceeded (429).'' ''http_429''
         else if 500 \<le> status \<and> status < 600
         then error (''Cashfree API returned a server error ('' @ show_int status @ '').'') (server_error_type status)
         else error (''Cashfree API returned an unexpected status ('' @ show_int status @ '')'' @ suffix @ ''.'') ''permanent_error'')"

definition token_endpoint_error :: "int \<Rightarrow> string option \<Rightarrow> api_error" where
  "token_endpoint_error status detail =
     (let suffix = (case detail of None \<Rightarrow> [] | Some t \<Rightarrow> if t = [] then [] else '' Shopify said: '' @ t);
          error = (\<lambda>message ty. api_error_of (message @ suffix) ty (Some status))
      in if status = 400 then error ''Shopify rejected the client-credentials request (malformed request, or invalid SHOPIFY_CLIENT_ID format).'' ''validation_error''
         else if status = 401 then error ''Shopify rejected SHOPIFY_CLIENT_ID/SHOPIFY_CLIENT_SECRET (invalid client credentials).'' ''authentication_error''
         else if status = 403 then error ''Shopify refused to issue a token for this app on this store (app not installed on SHOPIFY_STORE_DOMAIN, or client credentials grant not permitted for this app/store).'' ''authorization_error''
         else shopify_http_error status)"

datatype transport_failure = Timed_out | Network_failure string

definition transport_error :: "string \<Rightarrow> transport_failure \<Rightarrow> api_error" where
  "transport_error provider failure = (case failure of
     Timed_out \<Rightarrow> api_error_of (''Timed out contacting '' @ provider @ ''.'') ''timeout'' None
   | Network_failure why \<Rightarrow> api_error_of (''Network error contacting '' @ provider @ '': '' @ why) ''network_error'' None)"

record graphql_error =
  ge_code :: "string option"
  ge_message :: string

fun join_semicolon :: "string list \<Rightarrow> string" where
  "join_semicolon [] = []"
| "join_semicolon [x] = x"
| "join_semicolon (x # xs) = x @ ''; '' @ join_semicolon xs"

definition classify_graphql_errors :: "graphql_error list \<Rightarrow> api_error" where
  "classify_graphql_errors errors =
     (let codes = map ge_code errors; messages = join_semicolon (map ge_message errors)
      in if Some ''THROTTLED'' \<in> set codes then api_error_of ''Shopify GraphQL query cost throttled.'' ''http_429'' None
         else if Some ''ACCESS_DENIED'' \<in> set codes then api_error_of (''Shopify GraphQL access denied: '' @ messages) ''authorization_error'' None
         else if Some ''UNAUTHENTICATED'' \<in> set codes then api_error_of (''Shopify GraphQL authentication failed: '' @ messages) ''authentication_error'' None
         else api_error_of (''Shopify GraphQL query error: '' @ (if messages = [] then ''unknown error'' else messages)) ''validation_error'' None)"

definition retryable_error_types :: "string list" where
  "retryable_error_types = [''timeout'', ''network_error'', ''http_429'', ''http_500'', ''http_502'', ''http_503'', ''http_504'']"

section \<open>Requests\<close>

datatype 'q request = Login_request | Request (request_token: string) (request_body: 'q)

datatype 'b answer = Answered 'b | Malformed | Status int "string option" | Lost transport_failure

record ('q, 'b, 'w) server =
  sv_answer :: "'q request \<Rightarrow> instant \<Rightarrow> 'w \<Rightarrow> 'b answer \<times> 'w"
  sv_takes :: "'q request \<Rightarrow> instant \<Rightarrow> 'w \<Rightarrow> int"

record ('q, 'w) client =
  cn_now :: instant
  cn_world :: 'w
  cn_token :: "string option"
  cn_expires :: instant
  cn_sent :: "'q request list"

definition send :: "('q, 'b, 'w) server \<Rightarrow> 'q request \<Rightarrow> ('q, 'w) client \<Rightarrow> 'b answer \<times> ('q, 'w) client" where
  "send S r c = (case sv_answer S r (cn_now c) (cn_world c) of (a, w) \<Rightarrow>
     (a, c\<lparr>cn_now := cn_now c + sv_takes S r (cn_now c) (cn_world c), cn_world := w, cn_sent := cn_sent c @ [r]\<rparr>))"

definition pause :: "rat \<Rightarrow> ('q, 'w) client \<Rightarrow> ('q, 'w) client" where
  "pause seconds c = c\<lparr>cn_now := cn_now c + \<lfloor>seconds * 1000000\<rfloor>\<rparr>"

text \<open>
  One pass through the body of a client's loop: it returns, its token was refused, it failed in a way that may be tried
  again, or it raised past the loop.
\<close>

datatype 'a round = Got 'a | Refused api_error | Failed api_error | Raised client_error

text \<open>
  The loop of the clients: a refused token is dropped and the round repeated, once; any other failure is tried again
  after a pause, if its type is transient and the policy allows for one more.
\<close>

function retry_loop ::
  "retry_policy \<Rightarrow> (('q, 'w) client \<Rightarrow> 'a round \<times> ('q, 'w) client) \<Rightarrow> (('q, 'w) client \<Rightarrow> ('q, 'w) client) \<Rightarrow> nat \<Rightarrow> bool
   \<Rightarrow> ('q, 'w) client \<Rightarrow> (client_error + 'a) \<times> ('q, 'w) client" where
  "retry_loop policy once drop_token attempt reauthenticated c =
     (let again = (\<lambda>error c1.
        if max_retries policy < int attempt + 1 \<or> ae_type error \<notin> set retryable_error_types then (Inl (Api error), c1)
        else retry_loop policy once drop_token (attempt + 1) reauthenticated (pause (compute_backoff_seconds policy (int attempt + 1)) c1))
      in case once c of
           (Got x, c1) \<Rightarrow> (Inr x, c1)
         | (Raised e, c1) \<Rightarrow> (Inl e, c1)
         | (Refused error, c1) \<Rightarrow> if \<not> reauthenticated then retry_loop policy once drop_token attempt True (drop_token c1) else again error c1
         | (Failed error, c1) \<Rightarrow> again error c1)"
  by pat_completeness auto
termination
  by (relation "measure (\<lambda>(policy, once, drop_token, attempt, reauthenticated, c).
      2 * nat (max_retries policy - int attempt) + (if reauthenticated then 0 else 1))") auto

declare retry_loop.simps [simp del]

section \<open>Shiprocket\<close>

definition token_lifetime :: int where
  "token_lifetime = 239 * 3600 * 1000000"

definition shiprocket_login ::
  "('q, 'b, 'w) server \<Rightarrow> ('b \<Rightarrow> string option) \<Rightarrow> ('q, 'w) client \<Rightarrow> string round \<times> ('q, 'w) client" where
  "shiprocket_login S token_of c = (case send S Login_request c of
     (Answered b, c1) \<Rightarrow> (case token_of b of
         None \<Rightarrow> (Failed (api_error_of ''Shiprocket login response did not include a token.'' ''authentication_error'' None), c1)
       | Some t \<Rightarrow>
           if t = [] then (Failed (api_error_of ''Shiprocket login response did not include a token.'' ''authentication_error'' None), c1)
           else (Got t, c1\<lparr>cn_token := Some t, cn_expires := cn_now c1 + token_lifetime\<rparr>))
   | (Malformed, c1) \<Rightarrow> (Raised Not_json, c1)
   | (Status n _, c1) \<Rightarrow> (Failed (shiprocket_http_error n), c1)
   | (Lost f, c1) \<Rightarrow> (Failed (transport_error ''Shiprocket'' f), c1))"

definition ensure_token ::
  "('q, 'b, 'w) server \<Rightarrow> ('b \<Rightarrow> string option) \<Rightarrow> ('q, 'w) client \<Rightarrow> string round \<times> ('q, 'w) client" where
  "ensure_token S token_of c = (case cn_token c of
     None \<Rightarrow> shiprocket_login S token_of c
   | Some t \<Rightarrow> if cn_expires c \<le> cn_now c then shiprocket_login S token_of c else (Got t, c))"

definition shiprocket_round ::
  "('q, 'b, 'w) server \<Rightarrow> ('b \<Rightarrow> string option) \<Rightarrow> 'q \<Rightarrow> ('q, 'w) client \<Rightarrow> 'b round \<times> ('q, 'w) client" where
  "shiprocket_round S token_of q c = (case ensure_token S token_of c of
     (Got t, c1) \<Rightarrow> (case send S (Request t q) c1 of
         (Answered b, c2) \<Rightarrow> (Got b, c2)
       | (Malformed, c2) \<Rightarrow> (Raised Not_json, c2)
       | (Status n _, c2) \<Rightarrow> (if n = 401 then Refused (shiprocket_http_error n) else Failed (shiprocket_http_error n), c2)
       | (Lost f, c2) \<Rightarrow> (Failed (transport_error ''Shiprocket'' f), c2))
   | (Refused e, c1) \<Rightarrow> (Refused e, c1)
   | (Failed e, c1) \<Rightarrow> (Failed e, c1)
   | (Raised e, c1) \<Rightarrow> (Raised e, c1))"

definition shiprocket_request ::
  "retry_policy \<Rightarrow> ('q, 'b, 'w) server \<Rightarrow> ('b \<Rightarrow> string option) \<Rightarrow> 'q \<Rightarrow> ('q, 'w) client \<Rightarrow> (client_error + 'b) \<times> ('q, 'w) client" where
  "shiprocket_request policy S token_of q c =
     retry_loop policy (shiprocket_round S token_of q) (\<lambda>c. c\<lparr>cn_token := None\<rparr>) 0 False c"

section \<open>Cashfree\<close>

text \<open>The credentials are in the headers of every request; the token of a request is empty.\<close>

definition cashfree_round :: "('q, 'b, 'w) server \<Rightarrow> 'q \<Rightarrow> ('q, 'w) client \<Rightarrow> 'b round \<times> ('q, 'w) client" where
  "cashfree_round S q c = (case send S (Request [] q) c of
     (Answered b, c1) \<Rightarrow> (Got b, c1)
   | (Malformed, c1) \<Rightarrow> (Raised Not_json, c1)
   | (Status n detail, c1) \<Rightarrow> (Failed (cashfree_http_error n detail), c1)
   | (Lost f, c1) \<Rightarrow> (Failed (transport_error ''Cashfree'' f), c1))"

definition cashfree_request ::
  "retry_policy \<Rightarrow> ('q, 'b, 'w) server \<Rightarrow> 'q \<Rightarrow> ('q, 'w) client \<Rightarrow> (client_error + 'b) \<times> ('q, 'w) client" where
  "cashfree_request policy S q c = retry_loop policy (cashfree_round S q) id 0 False c"

section \<open>Shopify\<close>

definition token_expiry_safety_margin_seconds :: int where
  "token_expiry_safety_margin_seconds = 300"

text \<open>How the bodies of Shopify are read: a token with its lifetime in seconds, GraphQL errors, data.\<close>

record ('b, 'd) shopify_reader =
  rd_token :: "'b \<Rightarrow> (string \<times> int) option"
  rd_errors :: "'b \<Rightarrow> graphql_error list"
  rd_data :: "'b \<Rightarrow> 'd option"

definition token_round ::
  "('q, 'b, 'w) server \<Rightarrow> ('b, 'd) shopify_reader \<Rightarrow> ('q, 'w) client \<Rightarrow> (string \<times> int) round \<times> ('q, 'w) client" where
  "token_round S R c = (case send S Login_request c of
     (Answered b, c1) \<Rightarrow> (case rd_token R b of
         None \<Rightarrow> (Raised (Api (api_error_of ''Shopify token endpoint response is missing 'access_token' or a valid 'expires_in'.'' ''validation_error'' None)), c1)
       | Some t \<Rightarrow> (Got t, c1))
   | (Malformed, c1) \<Rightarrow> (Raised (Api (api_error_of ''Shopify token endpoint returned a response that isn't valid JSON.'' ''validation_error'' None)), c1)
   | (Status n detail, c1) \<Rightarrow> (Failed (token_endpoint_error n detail), c1)
   | (Lost f, c1) \<Rightarrow> (Failed (transport_error ''Shopify'' f), c1))"

definition refresh_access_token ::
  "retry_policy \<Rightarrow> ('q, 'b, 'w) server \<Rightarrow> ('b, 'd) shopify_reader \<Rightarrow> ('q, 'w) client \<Rightarrow> (client_error + string) \<times> ('q, 'w) client" where
  "refresh_access_token policy S R c = (case retry_loop policy (token_round S R) id 0 False c of
     (Inl e, c1) \<Rightarrow> (Inl e, c1)
   | (Inr (t, lifetime), c1) \<Rightarrow>
       (Inr t, c1\<lparr>cn_token := Some t, cn_expires := cn_now c1 + max (lifetime - token_expiry_safety_margin_seconds) 0 * 1000000\<rparr>))"

text \<open>With client credentials a cached token is used until it expires; a static token is used as it is.\<close>

definition resolve_access_token ::
  "retry_policy \<Rightarrow> ('q, 'b, 'w) server \<Rightarrow> ('b, 'd) shopify_reader \<Rightarrow> string option \<Rightarrow> ('q, 'w) client
   \<Rightarrow> (client_error + string) \<times> ('q, 'w) client" where
  "resolve_access_token policy S R static c = (case static of
     Some t \<Rightarrow> (Inr t, c)
   | None \<Rightarrow> (case cn_token c of
       Some t \<Rightarrow> if cn_now c < cn_expires c then (Inr t, c) else refresh_access_token policy S R c
     | None \<Rightarrow> refresh_access_token policy S R c))"

text \<open>An authentication error, of HTTP or of GraphQL, refuses the token where it can be fetched anew.\<close>

definition rejected :: "string option \<Rightarrow> api_error \<Rightarrow> 'a round" where
  "rejected static e = (if ae_type e = ''authentication_error'' \<and> static = None then Refused e else Failed e)"

definition shopify_round ::
  "retry_policy \<Rightarrow> ('q, 'b, 'w) server \<Rightarrow> ('b, 'd) shopify_reader \<Rightarrow> string option \<Rightarrow> 'q \<Rightarrow> ('q, 'w) client
   \<Rightarrow> 'd round \<times> ('q, 'w) client" where
  "shopify_round policy S R static q c = (case resolve_access_token policy S R static c of
     (Inl e, c1) \<Rightarrow> (Raised e, c1)
   | (Inr t, c1) \<Rightarrow> (case send S (Request t q) c1 of
       (Answered b, c2) \<Rightarrow>
         if rd_errors R b \<noteq> [] then (rejected static (classify_graphql_errors (rd_errors R b)), c2)
         else (case rd_data R b of None \<Rightarrow> (Raised No_data, c2) | Some d \<Rightarrow> (Got d, c2))
     | (Malformed, c2) \<Rightarrow> (Raised Not_json, c2)
     | (Status n _, c2) \<Rightarrow> (rejected static (shopify_http_error n), c2)
     | (Lost f, c2) \<Rightarrow> (rejected static (transport_error ''Shopify'' f), c2)))"

definition shopify_execute ::
  "retry_policy \<Rightarrow> ('q, 'b, 'w) server \<Rightarrow> ('b, 'd) shopify_reader \<Rightarrow> string option \<Rightarrow> 'q \<Rightarrow> ('q, 'w) client
   \<Rightarrow> (client_error + 'd) \<times> ('q, 'w) client" where
  "shopify_execute policy S R static q c =
     retry_loop policy (shopify_round policy S R static q) (\<lambda>c. c\<lparr>cn_token := None, cn_expires := 0\<rparr>) 0 False c"

section \<open>Lists of Shiprocket\<close>

text \<open>An error of the client as the adapter raises it.\<close>

definition adapter_failure :: "client_error \<Rightarrow> failure" where
  "adapter_failure e = (case e of
     Api a \<Rightarrow> Failure (IntegrationError (ae_message a)) (Some (ae_type a))
   | Not_json \<Rightarrow> Failure (DataError ''response is not JSON'') None
   | No_data \<Rightarrow> Failure (KeyError ''data'') None)"

text \<open>A body of a list endpoint: the lists under its keys and the number of pages it names.\<close>

record 'raw listing =
  li_lists :: "(string \<times> 'raw list) list"
  li_total_pages :: "int option"

definition fetch_routes :: "(string \<times> string \<times> string list) list" where
  "fetch_routes = [(''ndr'', (''/ndr/all'', [''data'', ''ndr''])), (''shipments'', (''/shipments'', [''data'', ''shipments'']))]"

fun first_list :: "(string \<times> 'raw list) list \<Rightarrow> string list \<Rightarrow> 'raw list" where
  "first_list body [] = []"
| "first_list body (k # ks) = (case map_of body k of
     Some nodes \<Rightarrow> if nodes = [] then first_list body ks else nodes
   | None \<Rightarrow> first_list body ks)"

definition read_int :: "string \<Rightarrow> int option" where
  "read_int t = (if t \<noteq> [] \<and> list_all (\<lambda>c. 48 \<le> (of_char c :: nat) \<and> (of_char c :: nat) \<le> 57) t
     then Some (foldl (\<lambda>n c. 10 * n + (of_char c - 48)) 0 t) else None)"

definition page_number_of :: "string option \<Rightarrow> int option" where
  "page_number_of cursor = (case cursor of None \<Rightarrow> Some 1 | Some t \<Rightarrow> if t = [] then Some 1 else read_int t)"

definition total_pages_of :: "'raw listing \<Rightarrow> 'raw list \<Rightarrow> int \<Rightarrow> int \<Rightarrow> int" where
  "total_pages_of body nodes page_number limit = (case li_total_pages body of
     Some n \<Rightarrow> if n \<noteq> 0 then n else if nodes = [] then 1 else if limit \<le> int (length nodes) then page_number + 1 else page_number
   | None \<Rightarrow> if nodes = [] then 1 else if limit \<le> int (length nodes) then page_number + 1 else page_number)"

text \<open>
  \<open>rest\<close> is the client's \<open>GET\<close> of a path with a page number, a page size and whether the newest are asked for first.
\<close>

type_synonym 'raw rest = "string \<Rightarrow> int \<Rightarrow> int \<Rightarrow> bool \<Rightarrow> client_error + 'raw listing"

definition fetch_list :: "'raw rest \<Rightarrow> string \<Rightarrow> string option \<Rightarrow> int \<Rightarrow> bool \<Rightarrow> failure + 'raw page" where
  "fetch_list rest entity cursor limit newest_first = (case map_of fetch_routes entity of
     None \<Rightarrow> Inl (Failure (IntegrationError ''Shiprocket adapter's generic fetch() does not support this entity_type'') (Some ''validation_error''))
   | Some (path, keys) \<Rightarrow> (case page_number_of cursor of
       None \<Rightarrow> Inl (Failure (DataError ''invalid literal for int()'') None)
     | Some page_number \<Rightarrow> (case rest path page_number limit newest_first of
         Inl e \<Rightarrow> Inl (adapter_failure e)
       | Inr body \<Rightarrow>
           let nodes = first_list (li_lists body) keys;
               has_more = (page_number < total_pages_of body nodes page_number limit \<and> nodes \<noteq> [])
           in Inr \<lparr>page_nodes = nodes, page_next = (if has_more then Some (show_int (page_number + 1)) else None), page_more = has_more\<rparr>)))"

fun is_non_increasing :: "instant list \<Rightarrow> bool" where
  "is_non_increasing (a # b # rest) \<longleftrightarrow> b \<le> a \<and> is_non_increasing (b # rest)"
| "is_non_increasing _ \<longleftrightarrow> True"

definition incremental_stop_margin :: int where
  "incremental_stop_margin = 24 * 3600 * 1000000"

text \<open>\<open>created\<close> is the time at which a record says it was created, where it does.\<close>

definition early_stop :: "('raw \<Rightarrow> instant option) \<Rightarrow> instant \<Rightarrow> 'raw list \<Rightarrow> bool" where
  "early_stop created since nodes = (let known = List.map_filter created nodes in
     nodes \<noteq> [] \<and> known \<noteq> [] \<and> is_non_increasing known \<and> list_all (\<lambda>t. t < since - incremental_stop_margin) known)"

definition fetch_list_incremental ::
  "'raw rest \<Rightarrow> (string \<Rightarrow> 'raw \<Rightarrow> instant option) \<Rightarrow> string \<Rightarrow> instant \<Rightarrow> string option \<Rightarrow> int \<Rightarrow> failure + 'raw page" where
  "fetch_list_incremental rest created entity since cursor limit = (case fetch_list rest entity cursor limit True of
     Inl f \<Rightarrow> Inl f
   | Inr page \<Rightarrow> if early_stop (created entity) since (page_nodes page)
       then Inr \<lparr>page_nodes = page_nodes page, page_next = None, page_more = False\<rparr> else Inr page)"

text \<open>
  The adapter as the synchronisation engine sees it, with the requests of a moment as a function of it, and fifty records a page.
\<close>

definition shiprocket_adapter ::
  "(instant \<Rightarrow> 'raw rest) \<Rightarrow> (string \<Rightarrow> 'raw \<Rightarrow> instant option) \<Rightarrow> (string \<Rightarrow> 'raw \<Rightarrow> failure + 'n) \<Rightarrow> ('raw \<Rightarrow> string option)
   \<Rightarrow> ('n \<Rightarrow> string option) \<Rightarrow> (instant \<Rightarrow> instant) \<Rightarrow> ('raw, 'n) adapter" where
  "shiprocket_adapter rest created normal_form raw_id external back_at = \<lparr>
     ad_fetch = (\<lambda>entity cursor t. fetch_list (rest t) entity cursor 50 False),
     ad_fetch_incremental = (\<lambda>entity since cursor t. fetch_list_incremental (rest t) created entity since cursor 50),
     ad_normalize = normal_form, ad_raw_id = raw_id, ad_external = external, ad_returns = back_at\<rparr>"

section \<open>Order details\<close>

text \<open>A 401 or 403 of the order endpoint is remembered for the life of the process: it is not called again.\<close>

definition get_order_details ::
  "(string \<Rightarrow> client_error + 'b) \<Rightarrow> string \<Rightarrow> string option \<Rightarrow> (failure + 'b) \<times> string option" where
  "get_order_details show order_id blocked = (case blocked of
     Some reason \<Rightarrow> (Inl (Failure (IntegrationError reason) (Some ''authorization_error'')), blocked)
   | None \<Rightarrow> (case show order_id of
       Inr b \<Rightarrow> (Inr b, None)
     | Inl e \<Rightarrow> (Inl (adapter_failure e), (case e of
         Api a \<Rightarrow> if ae_type a = ''authorization_error'' \<or> ae_type a = ''authentication_error''
           then Some (''GET /orders/show is not accessible to this Shiprocket API user ('' @ ae_message a @ '')'') else None
       | _ \<Rightarrow> None))))"

section \<open>Lists of Shopify\<close>

text \<open>A connection of a GraphQL answer: its nodes, whether there is a next page, and the end cursor.\<close>

record 'raw connection =
  gc_nodes :: "'raw list"
  gc_has_next :: bool
  gc_end :: "string option"

text \<open>The query of an entity type, by the field it asks for.\<close>

definition entity_queries :: "(string \<times> string) list" where
  "entity_queries = [(''customers'', ''customers''), (''products'', ''products''), (''orders'', ''orders''),
     (''abandoned_checkouts'', ''abandonedCheckouts'')]"

text \<open>
  \<open>execute\<close> is the client's, for the query of a field, with a cursor, a page size and the time since which a record was
  updated; its value is the \<open>data\<close> of the answer, an object.
\<close>

type_synonym 'raw graphql = "string \<Rightarrow> string option \<Rightarrow> int \<Rightarrow> instant option \<Rightarrow> client_error + (string \<times> 'raw connection) list"

definition fetch_connection :: "'raw graphql \<Rightarrow> string \<Rightarrow> string option \<Rightarrow> int \<Rightarrow> instant option \<Rightarrow> failure + 'raw page" where
  "fetch_connection execute entity cursor limit updated_since = (case map_of entity_queries entity of
     None \<Rightarrow> Inl (Failure (IntegrationError ''Shopify adapter does not support this entity_type.'') (Some ''validation_error''))
   | Some query \<Rightarrow> (case execute query cursor limit updated_since of
       Inl e \<Rightarrow> Inl (adapter_failure e)
     | Inr data \<Rightarrow>
         let c = (case map_of data entity of None \<Rightarrow> \<lparr>gc_nodes = [], gc_has_next = False, gc_end = None\<rparr> | Some c \<Rightarrow> c)
         in Inr \<lparr>page_nodes = gc_nodes c, page_next = (if gc_has_next c then gc_end c else None), page_more = gc_has_next c\<rparr>))"

definition shopify_adapter ::
  "(instant \<Rightarrow> 'raw graphql) \<Rightarrow> (string \<Rightarrow> 'raw \<Rightarrow> failure + 'n) \<Rightarrow> ('raw \<Rightarrow> string option) \<Rightarrow> ('n \<Rightarrow> string option)
   \<Rightarrow> (instant \<Rightarrow> instant) \<Rightarrow> ('raw, 'n) adapter" where
  "shopify_adapter execute normal_form raw_id external back_at = \<lparr>
     ad_fetch = (\<lambda>entity cursor t. fetch_connection (execute t) entity cursor 50 None),
     ad_fetch_incremental = (\<lambda>entity since cursor t. fetch_connection (execute t) entity cursor 50 (Some since)),
     ad_normalize = normal_form, ad_raw_id = raw_id, ad_external = external, ad_returns = back_at\<rparr>"

end
