(* ===== verification/Providers_Props.thy ===== *)
theory Providers_Props
  imports Providers Sync_Props
begin

text \<open>
  What a request to a provider may cost and what it may cause, and which records of a provider's list an incremental run
  reads.
\<close>

section \<open>The retry loop\<close>

text \<open>
  A quantity that a round raises by at most \<open>k\<close>, and that neither a pause nor dropping the token moves, is raised by at
  most \<open>k\<close> for every attempt the policy allows and one more for a refused token.
\<close>

definition rounds_left :: "retry_policy \<Rightarrow> nat \<Rightarrow> bool \<Rightarrow> nat" where
  "rounds_left policy attempt reauthenticated = nat (max_retries policy - int attempt) + (if reauthenticated then 1 else 2)"

lemma rounds_left_simps:
  "\<not> max_retries policy < int attempt + 1 \<Longrightarrow> rounds_left policy attempt re = Suc (rounds_left policy (Suc attempt) re)"
  "rounds_left policy attempt False = Suc (rounds_left policy attempt True)"
  "0 < rounds_left policy attempt re"
  by (auto simp: rounds_left_def)

lemma retry_loop_rounds:
  fixes n :: "('q, 'w) client \<Rightarrow> nat"
  assumes "\<And>c. n (snd (once c)) \<le> n c + k" and "\<And>c. n (drop_token c) = n c" and "\<And>d c. n (pause d c) = n c"
  shows "n (snd (retry_loop policy once drop_token attempt re c)) \<le> n c + k * rounds_left policy attempt re"
proof (induction "rounds_left policy attempt re" arbitrary: attempt re c rule: less_induct)
  case less
  obtain r c1 where step: "once c = (r, c1)" by fastforce
  have c1: "n c1 \<le> n c + k" using assms(1) [of c] step by simp
  have again: "n (snd (retry_loop policy once drop_token (Suc attempt) re (pause d c1))) \<le> n c + k * rounds_left policy attempt re"
    if "\<not> max_retries policy < int attempt + 1" for d
    using less [of "Suc attempt" re "pause d c1"] c1 assms(3) by (simp add: rounds_left_simps(1) [OF that])
  have drop: "n (snd (retry_loop policy once drop_token attempt True (drop_token c1))) \<le> n c + k * rounds_left policy attempt re" if "\<not> re"
    using less [of attempt True "drop_token c1"] c1 that assms(2) by (simp add: rounds_left_simps(2))
  have "n c1 \<le> n c + k * rounds_left policy attempt re"
    using c1 rounds_left_simps(3) [of policy attempt re] by (cases "rounds_left policy attempt re") auto
  with again drop show ?case
    by (subst retry_loop.simps) (auto simp: step Let_def split: round.splits)
qed

text \<open>The pauses that are still to come, in microseconds.\<close>

definition pauses :: "retry_policy \<Rightarrow> nat \<Rightarrow> int" where
  "pauses policy attempt = (\<Sum>k\<in>{attempt + 1..nat (max_retries policy)}. \<lfloor>compute_backoff_seconds policy (int k) * 1000000\<rfloor>)"

lemma pauses_step:
  assumes "\<not> max_retries policy < int attempt + 1"
  shows "pauses policy attempt = \<lfloor>compute_backoff_seconds policy (int attempt + 1) * 1000000\<rfloor> + pauses policy (attempt + 1)"
proof -
  have "{attempt + 1..nat (max_retries policy)} = insert (attempt + 1) {attempt + 1 + 1..nat (max_retries policy)}" using assms by auto
  then show ?thesis by (simp add: pauses_def add.commute)
qed

lemma default_backoff_nonneg: "0 \<le> compute_backoff_seconds default_retry_policy k"
  by (simp add: compute_backoff_seconds_def default_retry_policy_def)

lemma pauses_nonneg: "0 \<le> pauses default_retry_policy attempt"
  by (simp add: pauses_def default_backoff_nonneg sum_nonneg)

lemma default_pauses: "pauses default_retry_policy 0 = 1860 * 1000000"
proof -
  have "{0 + 1..nat (max_retries default_retry_policy)} = {1, 2, 3, 4, 5}" by (auto simp: default_retry_policy_def)
  then show ?thesis by (simp add: pauses_def compute_backoff_seconds_def default_retry_policy_def)
qed

lemma pause_time [simp]: "cn_now (pause d c) = cn_now c + \<lfloor>d * 1000000\<rfloor>"
  by (simp add: pause_def)

lemma retry_loop_time:
  assumes "\<And>c. cn_now (snd (once c)) \<le> cn_now c + T" and "0 \<le> T" and "\<And>c. cn_now (drop_token c) = cn_now c"
  shows "cn_now (snd (retry_loop default_retry_policy once drop_token attempt re c))
    \<le> cn_now c + T * int (rounds_left default_retry_policy attempt re) + pauses default_retry_policy attempt"
proof (induction "rounds_left default_retry_policy attempt re" arbitrary: attempt re c rule: less_induct)
  case less
  let ?P = default_retry_policy
  obtain r c1 where step: "once c = (r, c1)" by fastforce
  have c1: "cn_now c1 \<le> cn_now c + T" using assms(1) [of c] step by simp
  have again: "cn_now (snd (retry_loop ?P once drop_token (Suc attempt) re (pause (compute_backoff_seconds ?P (int attempt + 1)) c1)))
      \<le> cn_now c + T * int (rounds_left ?P attempt re) + pauses ?P attempt"
    if "\<not> max_retries ?P < int attempt + 1"
    using less [of "Suc attempt" re "pause (compute_backoff_seconds ?P (int attempt + 1)) c1"] c1 pauses_step [OF that]
    by (simp add: rounds_left_simps(1) [OF that] distrib_left)
  have drop: "cn_now (snd (retry_loop ?P once drop_token attempt True (drop_token c1)))
      \<le> cn_now c + T * int (rounds_left ?P attempt re) + pauses ?P attempt" if "\<not> re"
    using less [of attempt True "drop_token c1"] c1 that assms(3) by (simp add: rounds_left_simps(2) distrib_left)
  have "T * 1 \<le> T * int (rounds_left ?P attempt re)"
    using assms(2) rounds_left_simps(3) [of ?P attempt re] by (intro mult_left_mono) auto
  then have "cn_now c1 \<le> cn_now c + T * int (rounds_left ?P attempt re) + pauses ?P attempt" using c1 pauses_nonneg [of attempt] by linarith
  with again drop show ?case
    by (subst retry_loop.simps) (auto simp: step Let_def split: round.splits)
qed

text \<open>Where every round fails in a way that passes, the loop sits out every pause of the policy and gives up.\<close>

lemma retry_loop_outage:
  assumes "\<And>c. \<exists>e c1. once c = (Failed e, c1) \<and> ae_type e \<in> set retryable_error_types
      \<and> length (cn_sent c1) = length (cn_sent c) + 1 \<and> cn_now c \<le> cn_now c1 \<and> cn_now c1 \<le> cn_now c + T"
  shows "\<exists>e c'. retry_loop policy once drop_token attempt re c = (Inl (Api e), c') \<and> ae_type e \<in> set retryable_error_types
    \<and> length (cn_sent c') = length (cn_sent c) + Suc (nat (max_retries policy) - attempt)
    \<and> cn_now c + pauses policy attempt \<le> cn_now c'
    \<and> cn_now c' \<le> cn_now c + pauses policy attempt + T * int (Suc (nat (max_retries policy) - attempt))"
proof (induction "nat (max_retries policy) - attempt" arbitrary: attempt c rule: less_induct)
  case less
  obtain e c1 where step: "once c = (Failed e, c1)" "ae_type e \<in> set retryable_error_types"
      "length (cn_sent c1) = length (cn_sent c) + 1" "cn_now c \<le> cn_now c1" "cn_now c1 \<le> cn_now c + T"
    using assms [of c] by blast
  show ?case
  proof (cases "max_retries policy < int attempt + 1")
    case True
    then have "pauses policy attempt = 0" "nat (max_retries policy) - attempt = 0" by (simp_all add: pauses_def)
    with True step show ?thesis by (subst retry_loop.simps) simp
  next
    case False
    let ?c = "pause (compute_backoff_seconds policy (int attempt + 1)) c1"
    have left: "nat (max_retries policy) - attempt = Suc (nat (max_retries policy) - Suc attempt)" using False by linarith
    then have "nat (max_retries policy) - Suc attempt < nat (max_retries policy) - attempt" by simp
    from less [OF this, of ?c] obtain e' c' where more: "retry_loop policy once drop_token (Suc attempt) re ?c = (Inl (Api e'), c')"
        "ae_type e' \<in> set retryable_error_types" "length (cn_sent c') = length (cn_sent ?c) + Suc (nat (max_retries policy) - Suc attempt)"
        "cn_now ?c + pauses policy (Suc attempt) \<le> cn_now c'"
        "cn_now c' \<le> cn_now ?c + pauses policy (Suc attempt) + T * int (Suc (nat (max_retries policy) - Suc attempt))" by blast
    have loop: "retry_loop policy once drop_token attempt re c = (Inl (Api e'), c')"
      using False step(1,2) more(1) by (subst retry_loop.simps) simp
    have "length (cn_sent c') = length (cn_sent c) + Suc (nat (max_retries policy) - attempt)"
      using more(3) step(3) left by (simp add: pause_def)
    moreover have "cn_now c + pauses policy attempt \<le> cn_now c'"
      using more(4) step(4) pauses_step [OF False] by simp
    moreover have "cn_now c' \<le> cn_now c + pauses policy attempt + T * int (Suc (nat (max_retries policy) - attempt))"
      using more(5) step(5) pauses_step [OF False] unfolding left by (simp add: distrib_left)
    ultimately show ?thesis using loop more(2) by blast
  qed
qed

section \<open>What a request costs\<close>

definition timely :: "('q, 'b, 'w) server \<Rightarrow> int \<Rightarrow> bool" where
  "timely S T \<longleftrightarrow> (\<forall>r t w. 0 \<le> sv_takes S r t w \<and> sv_takes S r t w \<le> T)"

lemma send_time:
  "timely S T \<Longrightarrow> cn_now (snd (send S r c)) \<le> cn_now c + T" "timely S T \<Longrightarrow> cn_now c \<le> cn_now (snd (send S r c))"
  by (auto simp: send_def timely_def split: prod.splits)

lemma send_sent: "cn_sent (snd (send S r c)) = cn_sent c @ [r]"
  by (simp add: send_def split: prod.splits)

lemma send_token: "cn_token (snd (send S r c)) = cn_token c" "cn_expires (snd (send S r c)) = cn_expires c"
  by (simp_all add: send_def split: prod.splits)

definition carries :: "'q \<Rightarrow> 'q request \<Rightarrow> bool" where
  "carries q r \<longleftrightarrow> (case r of Login_request \<Rightarrow> False | Request _ q' \<Rightarrow> q' = q)"

lemma carries_simps [simp]: "\<not> carries q Login_request" "carries q (Request t q') \<longleftrightarrow> q' = q"
  by (simp_all add: carries_def)

definition times_sent :: "'q \<Rightarrow> ('q, 'w) client \<Rightarrow> nat" where
  "times_sent q c = length (filter (carries q) (cn_sent c))"

lemma shiprocket_login_sends:
  "times_sent q (snd (shiprocket_login S token_of c)) = times_sent q c"
  "timely S T \<Longrightarrow> cn_now (snd (shiprocket_login S token_of c)) \<le> cn_now c + T"
  "timely S T \<Longrightarrow> cn_now c \<le> cn_now (snd (shiprocket_login S token_of c))"
  using send_sent [of S Login_request c] send_time [where S = S and T = T and r = Login_request and c = c]
  by (auto simp: shiprocket_login_def times_sent_def split: prod.splits answer.splits option.splits)

lemma ensure_token_sends:
  "times_sent q (snd (ensure_token S token_of c)) = times_sent q c"
  "timely S T \<Longrightarrow> 0 \<le> T \<Longrightarrow> cn_now (snd (ensure_token S token_of c)) \<le> cn_now c + T"
  by (auto simp: ensure_token_def shiprocket_login_sends split: option.splits)

lemma shiprocket_round_sends:
  "times_sent q (snd (shiprocket_round S token_of q c)) \<le> times_sent q c + 1"
  "timely S T \<Longrightarrow> 0 \<le> T \<Longrightarrow> cn_now (snd (shiprocket_round S token_of q c)) \<le> cn_now c + 2 * T"
proof -
  obtain r c1 where token: "ensure_token S token_of c = (r, c1)" by fastforce
  note kept = ensure_token_sends [where S = S and token_of = token_of and c = c, unfolded token snd_conv]
  show "times_sent q (snd (shiprocket_round S token_of q c)) \<le> times_sent q c + 1"
    using kept(1) [of q] send_sent [of S "Request (case r of Got t \<Rightarrow> t | _ \<Rightarrow> []) q" c1]
    by (auto simp: shiprocket_round_def token times_sent_def split: round.splits prod.splits answer.splits)
  show "cn_now (snd (shiprocket_round S token_of q c)) \<le> cn_now c + 2 * T" if "timely S T" "0 \<le> T"
    using kept(2) [OF that] send_time(1) [OF that(1), where c = c1 and r = "Request (case r of Got t \<Rightarrow> t | _ \<Rightarrow> []) q"] that
    by (auto simp: shiprocket_round_def token split: round.splits prod.splits answer.splits)
qed

lemma shiprocket_round_exchanges: "length (cn_sent (snd (shiprocket_round S token_of q c))) \<le> length (cn_sent c) + 2"
proof -
  have login: "length (cn_sent (snd (shiprocket_login S token_of c))) = length (cn_sent c) + 1"
    using send_sent [of S Login_request c]
    by (auto simp: shiprocket_login_def split: prod.splits answer.splits option.splits)
  obtain r c1 where token: "ensure_token S token_of c = (r, c1)" by fastforce
  then have "length (cn_sent c1) \<le> length (cn_sent c) + 1"
    using login by (auto simp: ensure_token_def split: option.splits if_splits)
  then show ?thesis
    using send_sent [of S "Request (case r of Got t \<Rightarrow> t | _ \<Rightarrow> []) q" c1]
    by (auto simp: shiprocket_round_def token split: round.splits prod.splits answer.splits)
qed

lemma cashfree_round_sends:
  "times_sent q (snd (cashfree_round S q c)) \<le> times_sent q c + 1"
  "timely S T \<Longrightarrow> cn_now (snd (cashfree_round S q c)) \<le> cn_now c + T"
  using send_sent [of S "Request [] q" c] send_time(1) [where S = S and T = T and r = "Request [] q" and c = c]
  by (auto simp: cashfree_round_def times_sent_def split: prod.splits answer.splits)

lemma pause_sent [simp]: "times_sent q (pause d c) = times_sent q c" "cn_sent (pause d c) = cn_sent c" "cn_token (pause d c) = cn_token c"
  "cn_expires (pause d c) = cn_expires c"
  by (simp_all add: pause_def times_sent_def)

text \<open>
  C38: a request to Shiprocket ends, whatever the server does: it is sent seven times at most, in fourteen exchanges with
  the server at most, logins and a refused token included; and where no exchange takes longer than T it has returned or
  raised after 14 T and the 1860 seconds, 31 minutes, of the pauses.
\<close>

theorem shiprocket_request_bounded:
  assumes "timely S T" and "0 \<le> T"
  shows "let c' = snd (shiprocket_request default_retry_policy S token_of q c) in
    times_sent q c' \<le> times_sent q c + 7 \<and> length (cn_sent c') \<le> length (cn_sent c) + 14
    \<and> cn_now c' \<le> cn_now c + 14 * T + 1860 * 1000000"
proof -
  let ?drop = "\<lambda>c. c\<lparr>cn_token := None\<rparr>"
  have seven: "rounds_left default_retry_policy 0 False = 7" by (simp add: rounds_left_def default_retry_policy_def)
  have "times_sent q (snd (shiprocket_request default_retry_policy S token_of q c)) \<le> times_sent q c + 1 * rounds_left default_retry_policy 0 False"
    unfolding shiprocket_request_def
    by (rule retry_loop_rounds) (rule shiprocket_round_sends(1), simp_all add: times_sent_def)
  moreover have "length (cn_sent (snd (shiprocket_request default_retry_policy S token_of q c)))
      \<le> length (cn_sent c) + 2 * rounds_left default_retry_policy 0 False"
    unfolding shiprocket_request_def
    by (rule retry_loop_rounds [where n = "\<lambda>c. length (cn_sent c)"]) (rule shiprocket_round_exchanges, simp_all)
  moreover have "cn_now (snd (shiprocket_request default_retry_policy S token_of q c))
      \<le> cn_now c + 2 * T * int (rounds_left default_retry_policy 0 False) + pauses default_retry_policy 0"
    unfolding shiprocket_request_def
    by (rule retry_loop_time) (use assms in \<open>simp_all add: shiprocket_round_sends(2)\<close>)
  ultimately show ?thesis by (simp add: Let_def seven default_pauses)
qed

section \<open>An outage\<close>

definition transient :: "'b answer \<Rightarrow> bool" where
  "transient a \<longleftrightarrow> (case a of Status n _ \<Rightarrow> n = 429 \<or> (500 \<le> n \<and> n < 600) | Lost _ \<Rightarrow> True | _ \<Rightarrow> False)"

lemma server_error_retryable: "server_error_type n \<in> set retryable_error_types"
proof -
  have "show_int 500 = ''500''" "show_int 502 = ''502''" "show_int 503 = ''503''" "show_int 504 = ''504''"
    by (simp_all add: show_int_def show_nat.simps) code_simp+
  then show ?thesis by (auto simp: server_error_type_def retryable_error_types_def)
qed

lemma transient_retryable:
  "transient (Status n d) \<Longrightarrow> ae_type (shiprocket_http_error n) \<in> set retryable_error_types \<and> n \<noteq> 401"
  "ae_type (transport_error provider f) \<in> set retryable_error_types"
  using server_error_retryable [of n]
  by (auto simp: transient_def shiprocket_http_error_def api_error_of_def retryable_error_types_def transport_error_def
      split: transport_failure.splits)

text \<open>In an outage a round is one exchange: a login, or the request where there is a live token.\<close>

definition failed_exchange :: "int \<Rightarrow> ('q, 'w) client \<Rightarrow> 'a round \<times> ('q, 'w) client \<Rightarrow> bool" where
  "failed_exchange T c out \<longleftrightarrow> (\<exists>e c1. out = (Failed e, c1) \<and> ae_type e \<in> set retryable_error_types
     \<and> length (cn_sent c1) = length (cn_sent c) + 1 \<and> cn_now c \<le> cn_now c1 \<and> cn_now c1 \<le> cn_now c + T)"

lemma outage_round:
  assumes "\<And>r t w. transient (fst (sv_answer S r t w))" and "timely S T"
  shows "failed_exchange T c (shiprocket_round S token_of q c)"
proof -
  have sent: thesis if "\<And>a c1. send S r d = (a, c1) \<Longrightarrow> transient a \<Longrightarrow> length (cn_sent c1) = length (cn_sent d) + 1 \<Longrightarrow>
      cn_now d \<le> cn_now c1 \<Longrightarrow> cn_now c1 \<le> cn_now d + T \<Longrightarrow> thesis" for r d thesis
    using assms(1) [of r "cn_now d" "cn_world d"] send_time [OF assms(2), where c = d and r = r] that
    by (auto simp: send_def split: prod.splits)
  have login: "failed_exchange T c (shiprocket_login S token_of c)"
  proof (rule sent [of Login_request c])
    fix a c1
    assume "send S Login_request c = (a, c1)" "transient a" "length (cn_sent c1) = length (cn_sent c) + 1"
      "cn_now c \<le> cn_now c1" "cn_now c1 \<le> cn_now c + T"
    then show ?thesis using transient_retryable
      by (cases a) (auto simp: shiprocket_login_def transient_def failed_exchange_def)
  qed
  show ?thesis
  proof (cases "\<exists>t. ensure_token S token_of c = (Got t, c)")
    case True
    then obtain t where t: "ensure_token S token_of c = (Got t, c)" by blast
    show ?thesis
    proof (rule sent [of "Request t q" c])
      fix a c1
      assume "send S (Request t q) c = (a, c1)" "transient a" "length (cn_sent c1) = length (cn_sent c) + 1"
        "cn_now c \<le> cn_now c1" "cn_now c1 \<le> cn_now c + T"
      with t show ?thesis using transient_retryable
        by (cases a) (auto simp: shiprocket_round_def transient_def failed_exchange_def)
    qed
  next
    case False
    then have "ensure_token S token_of c = shiprocket_login S token_of c"
      by (auto simp: ensure_token_def split: option.splits if_splits)
    with login show ?thesis by (auto simp: shiprocket_round_def failed_exchange_def)
  qed
qed

text \<open>
  C39: an outage of Shiprocket holds a request for half an hour. Where the server answers nothing but timeouts, 429 or 5xx,
  one single request makes six exchanges, logins included, and raises the error of the last; it waits 1860 seconds between
  them, and no longer than that beside the exchanges. The eight minutes an entity's sync may take are over by then: they
  are looked at between pages only.
\<close>

theorem outage_holds_request:
  assumes "\<And>r t w. transient (fst (sv_answer S r t w))" and "timely S T"
  shows "\<exists>e c'. shiprocket_request default_retry_policy S token_of q c = (Inl (Api e), c') \<and> ae_type e \<in> set retryable_error_types
    \<and> length (cn_sent c') = length (cn_sent c) + 6
    \<and> cn_now c + 1860 * 1000000 \<le> cn_now c' \<and> cn_now c' \<le> cn_now c + 1860 * 1000000 + 6 * T
    \<and> max_entity_sync_duration < cn_now c' - cn_now c"
proof -
  have "\<exists>e c'. retry_loop default_retry_policy (shiprocket_round S token_of q) (\<lambda>c. c\<lparr>cn_token := None\<rparr>) 0 False c = (Inl (Api e), c')
      \<and> ae_type e \<in> set retryable_error_types
      \<and> length (cn_sent c') = length (cn_sent c) + Suc (nat (max_retries default_retry_policy) - 0)
      \<and> cn_now c + pauses default_retry_policy 0 \<le> cn_now c'
      \<and> cn_now c' \<le> cn_now c + pauses default_retry_policy 0 + T * int (Suc (nat (max_retries default_retry_policy) - 0))"
    by (rule retry_loop_outage) (rule outage_round [OF assms, unfolded failed_exchange_def])
  moreover have "max_retries default_retry_policy = 5" by (simp add: default_retry_policy_def)
  ultimately show ?thesis
    by (auto simp: shiprocket_request_def default_pauses max_entity_sync_duration_def mult.commute)
qed

section \<open>A lost answer\<close>

definition extends :: "('q, 'w) client \<Rightarrow> ('q, 'w) client \<Rightarrow> bool" where
  "extends c c' \<longleftrightarrow> (\<exists>rest. cn_sent c' = cn_sent c @ rest)"

lemma extends_refl [simp]: "extends c c" and extends_trans: "extends c d \<Longrightarrow> extends d e \<Longrightarrow> extends c e"
  by (auto simp: extends_def)

lemma extends_simps [simp]: "extends (pause x c) d = extends c d" "extends (c\<lparr>cn_token := t\<rparr>) d = extends c d"
  by (simp_all add: extends_def)

lemma retry_loop_extends:
  assumes "\<And>c. extends c (snd (once c))" and "\<And>c. cn_sent (drop_token c) = cn_sent c"
  shows "extends c (snd (retry_loop policy once drop_token attempt re c))"
proof (induction "rounds_left policy attempt re" arbitrary: attempt re c rule: less_induct)
  case less
  obtain r c1 where step: "once c = (r, c1)" by fastforce
  have c1: "extends c c1" using assms(1) [of c] step by simp
  have again: "extends c (snd (retry_loop policy once drop_token (Suc attempt) re (pause d c1)))"
    if "\<not> max_retries policy < int attempt + 1" for d
    using less [of "Suc attempt" re "pause d c1"] c1 by (auto simp: rounds_left_simps(1) [OF that] extends_def)
  have drop: "extends c (snd (retry_loop policy once drop_token attempt True (drop_token c1)))" if "\<not> re"
    using less [of attempt True "drop_token c1"] c1 that assms(2) by (auto simp: rounds_left_simps(2) extends_def)
  show ?case
    using c1 again drop by (subst retry_loop.simps) (auto simp: step Let_def split: round.splits)
qed

lemma send_extends: "send S r c = (a, c1) \<Longrightarrow> extends c c1"
  using send_sent [of S r c] by (auto simp: extends_def)

lemma shiprocket_round_extends: "extends c (snd (shiprocket_round S token_of q c))"
proof -
  have login: "extends c (snd (shiprocket_login S token_of c))"
    using send_sent [of S Login_request c]
    by (auto simp: shiprocket_login_def extends_def split: prod.splits answer.splits option.splits)
  obtain r c1 where token: "ensure_token S token_of c = (r, c1)" by fastforce
  then have "extends c c1"
    using login by (auto simp: ensure_token_def split: option.splits if_splits)
  then show ?thesis
    using send_extends [of S _ c1] extends_trans
    by (auto simp: shiprocket_round_def token split: round.splits prod.splits answer.splits) blast+
qed

lemma live_token_round:
  assumes "cn_token c = Some t" and "cn_now c < cn_expires c" and "send S (Request t q) c = (a, c1)"
  shows "shiprocket_round S token_of q c = (case a of Answered b \<Rightarrow> (Got b, c1) | Malformed \<Rightarrow> (Raised Not_json, c1)
    | Status n _ \<Rightarrow> (if n = 401 then Refused (shiprocket_http_error n) else Failed (shiprocket_http_error n), c1)
    | Lost f \<Rightarrow> (Failed (transport_error ''Shiprocket'' f), c1))"
  using assms by (simp add: shiprocket_round_def ensure_token_def split: answer.splits)

text \<open>
  C40: a request whose first answer is lost is sent again, whatever it asks for: with a token that outlives the answer and the pause of a minute, a
  request that the server may have carried out before the connection broke is put to it a second time. So one call of
  \<open>create_order\<close> can create two shipments there; nothing in the request tells the server that it is the same.
\<close>

theorem lost_answer_is_sent_again:
  assumes "cn_token c = Some t" and "0 \<le> sv_takes S (Request t q) (cn_now c) (cn_world c)"
    and "cn_now c + sv_takes S (Request t q) (cn_now c) (cn_world c) + 60 * 1000000 < cn_expires c"
    and "fst (sv_answer S (Request t q) (cn_now c) (cn_world c)) = Lost f"
  shows "\<exists>rest. cn_sent (snd (shiprocket_request default_retry_policy S token_of q c)) = cn_sent c @ [Request t q, Request t q] @ rest"
proof -
  let ?once = "shiprocket_round S token_of q" and ?drop = "\<lambda>c. c\<lparr>cn_token := None\<rparr>"
  obtain c1 where first: "send S (Request t q) c = (Lost f, c1)"
      and c1: "cn_sent c1 = cn_sent c @ [Request t q]" "cn_token c1 = Some t" "cn_expires c1 = cn_expires c"
        "cn_now c1 = cn_now c + sv_takes S (Request t q) (cn_now c) (cn_world c)"
    using assms(1,4) by (cases "sv_answer S (Request t q) (cn_now c) (cn_world c)") (auto simp: send_def)
  have failed: "?once c = (Failed (transport_error ''Shiprocket'' f), c1)"
    using live_token_round [OF assms(1) _ first] assms(2,3) by simp
  let ?c2 = "pause (compute_backoff_seconds default_retry_policy 1) c1"
  have loop: "retry_loop default_retry_policy ?once ?drop 0 False c = retry_loop default_retry_policy ?once ?drop 1 False ?c2"
    by (subst retry_loop.simps) (simp add: failed transient_retryable(2) default_retry_policy_def)
  have live: "cn_token ?c2 = Some t" "cn_now ?c2 < cn_expires ?c2"
    using c1 assms(3) by (simp_all add: compute_backoff_seconds_def default_retry_policy_def)
  obtain a c3 where second: "send S (Request t q) ?c2 = (a, c3)" by fastforce
  then have "cn_sent c3 = cn_sent c @ [Request t q, Request t q]" using send_sent [of S "Request t q" ?c2] c1 by simp
  moreover have later: "extends d (snd (retry_loop default_retry_policy ?once ?drop n re d))" for d n re
    by (rule retry_loop_extends) (rule shiprocket_round_extends, simp)
  have "extends c3 (snd (retry_loop default_retry_policy ?once ?drop 1 False ?c2))"
    using later [of "?drop c3"] later [of "pause (compute_backoff_seconds default_retry_policy 2) c3"]
    by (subst retry_loop.simps) (auto simp: live_token_round [OF live second] Let_def split: answer.splits)
  ultimately show ?thesis by (auto simp: shiprocket_request_def loop extends_def)
qed

section \<open>What an incremental run reads\<close>

text \<open>
  The endpoint of an entity type serves a list, page by page: a page that exists holds its records under one of the keys
  the adapter looks at, and a number of pages, where one is given, is enough for all of them.
\<close>

definition serves :: "'raw rest \<Rightarrow> string \<Rightarrow> int \<Rightarrow> 'raw list \<Rightarrow> bool" where
  "serves rest entity limit records \<longleftrightarrow> (\<forall>path keys p. map_of fetch_routes entity = Some (path, keys) \<longrightarrow> 1 \<le> p \<longrightarrow>
     (\<exists>body. rest path p limit True = Inr body
       \<and> first_list (li_lists body) keys = take (nat limit) (drop (nat ((p - 1) * limit)) records)
       \<and> (\<forall>n. li_total_pages body = Some n \<longrightarrow> n \<noteq> 0 \<longrightarrow> int (length records) \<le> n * limit)))"

abbreviation page_of_list :: "int \<Rightarrow> int \<Rightarrow> 'raw list \<Rightarrow> 'raw list" where
  "page_of_list p limit records \<equiv> take (nat limit) (drop (nat ((p - 1) * limit)) records)"

lemma fetch_list_served:
  assumes "serves rest entity limit records" and "map_of fetch_routes entity = Some r" and "page_number_of cursor = Some p"
    and "1 \<le> p" and "0 < limit"
  obtains more where "fetch_list rest entity cursor limit True = Inr \<lparr>page_nodes = page_of_list p limit records,
      page_next = (if more then Some (show_int (p + 1)) else None), page_more = more\<rparr>"
    and "p * limit < int (length records) \<Longrightarrow> more" and "page_of_list p limit records = [] \<Longrightarrow> \<not> more"
proof -
  obtain path keys where r: "r = (path, keys)" by fastforce
  with assms obtain body where body: "rest path p limit True = Inr body"
      "first_list (li_lists body) keys = page_of_list p limit records"
      "\<And>n. li_total_pages body = Some n \<Longrightarrow> n \<noteq> 0 \<Longrightarrow> int (length records) \<le> n * limit"
    unfolding serves_def by blast
  let ?nodes = "page_of_list p limit records"
  let ?more = "p < total_pages_of body ?nodes p limit \<and> ?nodes \<noteq> []"
  have "?more" if "p * limit < int (length records)"
  proof -
    have less: "(p - 1) * limit + limit < int (length records)" using that by (simp add: algebra_simps)
    moreover have "0 \<le> (p - 1) * limit" using assms(4,5) by simp
    ultimately have "nat ((p - 1) * limit) + nat limit \<le> length records"
      using assms(5) by (simp add: nat_add_distrib [symmetric] nat_le_iff)
    then have full: "length ?nodes = nat limit" by simp
    moreover have "p < n" if "li_total_pages body = Some n" "n \<noteq> 0" for n
      using body(3) [OF that] \<open>p * limit < int (length records)\<close> assms(5) by (smt (verit) mult_less_cancel_right)
    ultimately show ?thesis
      using assms(5) by (auto simp: total_pages_of_def split: option.splits)
  qed
  moreover have "fetch_list rest entity cursor limit True = Inr \<lparr>page_nodes = ?nodes,
      page_next = (if ?more then Some (show_int (p + 1)) else None), page_more = ?more\<rparr>"
    using assms(2,3) body r by (simp add: fetch_list_def Let_def)
  ultimately show thesis using that [of ?more] by blast
qed

text \<open>
  C36: the early stop skips nothing that is new. Where the list comes newest first, an incremental fetch that says there
  is no more has reached the boundary: every record behind the page it returned was created more than a day before the
  last sync.
\<close>

theorem early_stop_is_safe:
  assumes "serves rest entity limit records" and "map_of fetch_routes entity = Some r" and "page_number_of cursor = Some p"
    and "1 \<le> p" and "0 < limit"
    and "map (created entity) records = map Some stamps" and "sorted_wrt (\<ge>) stamps"
    and "fetch_list_incremental rest created entity since cursor limit = Inr page" and "\<not> page_more page"
  shows "\<forall>t\<in>set (drop (nat (p * limit)) stamps). t < since - incremental_stop_margin"
proof -
  let ?nodes = "page_of_list p limit records" and ?k = "nat ((p - 1) * limit)"
  obtain more where fetched: "fetch_list rest entity cursor limit True = Inr \<lparr>page_nodes = ?nodes,
      page_next = (if more then Some (show_int (p + 1)) else None), page_more = more\<rparr>"
      and all: "p * limit < int (length records) \<Longrightarrow> more"
    using fetch_list_served [OF assms(1-5)] by metis
  have same: "length stamps = length records" using assms(6) by (metis length_map)
  have next_page: "nat (p * limit) = ?k + nat limit" using assms(4,5) by (simp add: left_diff_distrib nat_add_distrib [symmetric])
  show ?thesis
  proof (cases "early_stop (created entity) since ?nodes")
    case False
    then have "\<not> more" using assms(8,9) fetched by (auto simp: fetch_list_incremental_def)
    then have "int (length records) \<le> p * limit" using all by fastforce
    then have "length stamps \<le> nat (p * limit)" using same by (metis nat_int nat_mono)
    then have "drop (nat (p * limit)) stamps = []" by simp
    then show ?thesis by simp
  next
    case True
    have known: "List.map_filter (created entity) ?nodes = take (nat limit) (drop ?k stamps)"
    proof -
      have "map (created entity) ?nodes = map Some (take (nat limit) (drop ?k stamps))"
        using assms(6) by (simp add: take_map [symmetric] drop_map [symmetric])
      moreover have "map f xs = map Some ys \<Longrightarrow> List.map_filter f xs = ys" for f :: "'a \<Rightarrow> int option" and xs ys
        by (induction xs arbitrary: ys) (auto simp: List.map_filter_simps Cons_eq_map_conv)
      ultimately show ?thesis by blast
    qed
    let ?here = "take (nat limit) (drop ?k stamps)"
    have old: "?here \<noteq> []" "\<forall>t\<in>set ?here. t < since - incremental_stop_margin"
      using True known by (auto simp: early_stop_def Let_def list_all_iff)
    let ?rest = "drop (nat (p * limit)) stamps"
    have "drop ?k stamps = ?here @ ?rest"
      unfolding next_page by (metis add.commute append_take_drop_id drop_drop)
    moreover have "sorted_wrt (\<ge>) (drop ?k stamps)" using assms(7) by (rule sorted_wrt_drop)
    ultimately have "sorted_wrt (\<ge>) (?here @ ?rest)" by (rule subst)
    then have "\<forall>x\<in>set ?here. \<forall>t\<in>set ?rest. t \<le> x" unfolding sorted_wrt_append by blast
    with old last_in_set [OF old(1)] show ?thesis by (meson order.strict_trans1)
  qed
qed

text \<open>The cursor of a page is read back as its number.\<close>

lemma digit_char: "k < 10 \<Longrightarrow> (of_char (char_of (48 + k :: nat) :: char) :: nat) = 48 + k"
  by simp

lemma digit_char_int: "k < 10 \<Longrightarrow> (of_char (char_of (48 + k :: nat) :: char) :: int) = 48 + int k"
  by (metis digit_char of_nat_add of_nat_numeral of_nat_of_char)

lemma read_show_nat:
  "foldl (\<lambda>n c. 10 * n + (of_char c - 48)) 0 (show_nat n) = int n
   \<and> list_all (\<lambda>c. 48 \<le> (of_char c :: nat) \<and> (of_char c :: nat) \<le> 57) (show_nat n)"
proof (induction n rule: less_induct)
  case (less n)
  show ?case
  proof (cases "n < 10")
    case True
    then show ?thesis by (simp add: show_nat_digit digit_char_int)
  next
    case False
    then have "n div 10 < n" by simp
    moreover have "10 * int (n div 10) + int (n mod 10) = int n" "n mod 10 \<le> 9" by (simp add: zdiv_int zmod_int, presburger)
    moreover note less [OF \<open>n div 10 < n\<close>]
    ultimately show ?thesis using False digit_char [of "n mod 10"] digit_char_int [of "n mod 10"]
      by (simp add: show_nat_step del: of_char_of)
  qed
qed

lemma page_number_of_show: "0 \<le> n \<Longrightarrow> page_number_of (Some (show_int n)) = Some n"
  using read_show_nat [of "nat n"] by (simp add: page_number_of_def read_int_def show_int_def)

lemma same_pages_fetched:
  assumes "serves rest entity 50 records" and "serves rest' entity 50 records'" and "map_of fetch_routes entity = Some r"
    and "take (50 * nat k) records = take (50 * nat k) records'" and "early_stop (created entity) since (page_of_list k 50 records)"
    and "1 \<le> p" and "p \<le> k" and "page_number_of cursor = Some p"
  obtains page where "fetch_list_incremental rest created entity since cursor 50 = Inr page"
    and "fetch_list_incremental rest' created entity since cursor 50 = Inr page"
    and "page_more page \<Longrightarrow> p < k \<and> page_next page = Some (show_int (p + 1))"
proof -
  have cut: "page_of_list x 50 records = page_of_list x 50 records'" if "1 \<le> x" "x \<le> k" for x
  proof -
    have "nat ((x - 1) * 50) + 50 = nat ((x - 1) * 50 + 50)" using that by (simp add: nat_add_distrib)
    also have "\<dots> \<le> nat (50 * k)" using that by (intro nat_mono) presburger
    also have "\<dots> = 50 * nat k" by (simp add: nat_mult_distrib)
    finally have "nat ((x - 1) * 50) + 50 \<le> 50 * nat k" .
    then have "page_of_list x 50 ys = drop (nat ((x - 1) * 50)) (take (nat ((x - 1) * 50) + 50) (take (50 * nat k) ys))" for ys :: "'a list"
      by (simp add: take_drop min_absorb1 add.commute)
    with assms(4) show ?thesis by presburger
  qed
  have longer: "p * 50 < int (length ys)" if "p < k" "page_of_list k 50 ys \<noteq> []" for ys :: "'a list"
  proof -
    have "nat ((k - 1) * 50) < length ys" using that(2) by (simp add: not_le [symmetric])
    then have "(k - 1) * 50 < int (length ys)" by (simp add: zless_nat_eq_int_zless nat_less_iff)
    moreover have "p * 50 \<le> (k - 1) * 50" using that(1) by simp
    ultimately show ?thesis by simp
  qed
  have here: "page_of_list k 50 records \<noteq> []" using assms(5) by (auto simp: early_stop_def)
  then have here': "page_of_list k 50 records' \<noteq> []" using cut [of k] assms(6,7) by (metis order_trans order_refl)
  obtain more where f: "fetch_list rest entity cursor 50 True = Inr \<lparr>page_nodes = page_of_list p 50 records,
      page_next = (if more then Some (show_int (p + 1)) else None), page_more = more\<rparr>" and m: "p * 50 < int (length records) \<Longrightarrow> more"
    using fetch_list_served [OF assms(1,3,8,6)] by (metis zero_less_numeral)
  obtain more' where f': "fetch_list rest' entity cursor 50 True = Inr \<lparr>page_nodes = page_of_list p 50 records',
      page_next = (if more' then Some (show_int (p + 1)) else None), page_more = more'\<rparr>" and m': "p * 50 < int (length records') \<Longrightarrow> more'"
    using fetch_list_served [OF assms(2,3,8,6)] by (metis zero_less_numeral)
  let ?stop = "early_stop (created entity) since (page_of_list p 50 records)"
  let ?page = "\<lambda>more. if ?stop then \<lparr>page_nodes = page_of_list p 50 records, page_next = None, page_more = False\<rparr>
    else \<lparr>page_nodes = page_of_list p 50 records, page_next = (if more then Some (show_int (p + 1)) else None), page_more = more\<rparr>"
  have got: "fetch_list_incremental rest created entity since cursor 50 = Inr (?page more)"
    "fetch_list_incremental rest' created entity since cursor 50 = Inr (?page more')"
    using cut [OF assms(6,7)] by (simp_all add: fetch_list_incremental_def f f')
  show thesis
  proof (cases "p = k")
    case True
    with assms(5) have ?stop by simp
    with got show thesis by (intro that [of "?page more"]) simp_all
  next
    case False
    then have "more" "more'" using m m' longer here here' assms(7) by auto
    with got False assms(7) show thesis by (intro that [of "?page True"]) (auto split: if_split_asm)
  qed
qed

lemma sync_records_same:
  assumes "ad_normalize A = ad_normalize A'" and "ad_raw_id A = ad_raw_id A'" and "ad_external A = ad_external A'"
  shows "sync_records i entity A handler raws counts s = sync_records i entity A' handler raws counts s"
proof (induction raws arbitrary: counts s)
  case (Cons raw raws)
  obtain created updated failed where counts: "counts = (created, updated, failed)" by (cases counts)
  show ?case unfolding counts sync_records.simps assms Cons.IH ..
qed (cases counts, simp)

text \<open>
  C37: what lies behind the early stop is not looked at again. Take two lists of Shiprocket that agree on the first k pages,
  the k-th of which is newest first and older than the boundary by a day. An incremental sync leaves the very same database
  for both: however the older records have changed since, their new AWBs and statuses do not arrive this way.
\<close>

theorem older_records_not_refreshed:
  assumes "\<And>t. serves (rest t) entity 50 records" and "\<And>t. serves (rest' t) entity 50 records'"
    and "map_of fetch_routes entity = Some r" and "1 \<le> k" and "take (50 * nat k) records = take (50 * nat k) records'"
    and "early_stop (created entity) since (page_of_list k 50 records)"
  shows "sync_loop i iid entity (shiprocket_adapter rest created nf rid ext back_at) handler (Some since) deadline True None s
    = sync_loop i iid entity (shiprocket_adapter rest' created nf rid ext back_at) handler (Some since) deadline True None s"
proof -
  let ?A = "shiprocket_adapter rest created nf rid ext back_at" and ?A' = "shiprocket_adapter rest' created nf rid ext back_at"
  have page: "sync_page i entity ?A handler pg u = sync_page i entity ?A' handler pg u" for pg u
    unfolding sync_page_def by (subst sync_records_same [of ?A ?A']) (simp_all add: shiprocket_adapter_def)
  have "sync_loop i iid entity ?A handler (Some since) deadline first cursor s = sync_loop i iid entity ?A' handler (Some since) deadline first cursor s"
    if "1 \<le> p" "p \<le> k" "page_number_of cursor = Some p" for p first cursor s
    using that
  proof (induction "nat (k - p)" arbitrary: p first cursor s rule: less_induct)
    case less
    obtain pg where got: "fetch_list_incremental (rest (clock s)) created entity since cursor 50 = Inr pg"
        "fetch_list_incremental (rest' (clock s)) created entity since cursor 50 = Inr pg"
        and more: "page_more pg \<Longrightarrow> p < k \<and> page_next pg = Some (show_int (p + 1))"
      using same_pages_fetched [of "rest (clock s)" entity records "rest' (clock s)" records' r k created since p cursor] assms less.prems
      by blast
    have onward: "sync_loop i iid entity ?A handler (Some since) deadline False (page_next pg) u
        = sync_loop i iid entity ?A' handler (Some since) deadline False (page_next pg) u" if "page_more pg" for u
      using more [OF that] less.prems by (intro less.hyps [of "p + 1"]) (simp_all add: page_number_of_show)
    have "fetch_page iid entity ?A (Some since) first cursor s = (s\<lparr>clock := back_at (clock s)\<rparr>, Inr pg)"
      "fetch_page iid entity ?A' (Some since) first cursor s = (s\<lparr>clock := back_at (clock s)\<rparr>, Inr pg)"
      using got by (simp_all add: fetch_page_def shiprocket_adapter_def Let_def)
    then show ?case
      using onward by (subst (1 2) sync_loop.simps) (simp add: page split: prod.split option.split)
  qed
  from this [of 1 None] assms(4) show ?thesis by (simp add: page_number_of_def)
qed

section \<open>Abandoned checkouts\<close>

text \<open>Where Shopify answers a query, it does so with an object that holds the field asked for and no other.\<close>

definition answers_query :: "(instant \<Rightarrow> 'raw graphql) \<Rightarrow> bool" where
  "answers_query execute \<longleftrightarrow> (\<forall>t query cursor limit since data. execute t query cursor limit since = Inr data \<longrightarrow> set (map fst data) \<subseteq> {query})"

text \<open>No query ends in an error.\<close>

definition never_fails :: "(instant \<Rightarrow> 'raw graphql) \<Rightarrow> bool" where
  "never_fails execute \<longleftrightarrow> (\<forall>t query cursor limit since. \<not> isl (execute t query cursor limit since))"

abbreviation empty_page :: "'raw page" where
  "empty_page \<equiv> \<lparr>page_nodes = [], page_next = None, page_more = False\<rparr>"

lemma abandoned_connection:
  assumes "answers_query execute"
  shows "fetch_connection (execute t) ''abandoned_checkouts'' cursor limit updated = Inr empty_page
    \<or> isl (fetch_connection (execute t) ''abandoned_checkouts'' cursor limit updated) \<and> \<not> never_fails execute"
proof (cases "execute t ''abandonedCheckouts'' cursor limit updated")
  case (Inl e)
  then have "\<not> never_fails execute" unfolding never_fails_def by (metis sum.disc(1))
  with Inl show ?thesis by (simp add: fetch_connection_def entity_queries_def)
next
  case (Inr data)
  then have "''abandoned_checkouts'' \<notin> set (map fst data)" using assms unfolding answers_query_def by fastforce
  then have "map_of data ''abandoned_checkouts'' = None" by (simp add: map_of_eq_None_iff)
  then show ?thesis using Inr by (simp add: fetch_connection_def entity_queries_def)
qed

lemma abandoned_page:
  assumes "answers_query execute"
  obtains s1 r where "fetch_page iid ''abandoned_checkouts'' (shopify_adapter execute nf rid ext back_at) since first cursor s = (s1, r)"
    and "r = Inr empty_page \<or> isl r \<and> \<not> never_fails execute" and "\<And>i. job_by s1 i = job_by s i"
proof -
  let ?call = "\<lambda>t c. fetch_connection (execute t) ''abandoned_checkouts'' c 50 since"
  let ?s1 = "s\<lparr>clock := back_at (clock s)\<rparr>"
  let ?s2 = "persist_sync_cursor iid ''abandoned_checkouts'' None ?s1"
  have fetched: "fetch_page iid ''abandoned_checkouts'' (shopify_adapter execute nf rid ext back_at) since first cursor s
      = (case ?call (clock s) cursor of
           Inr page \<Rightarrow> (?s1, Inr page)
         | Inl f \<Rightarrow>
             if first \<and> cursor \<noteq> None \<and> is_integration_error (failure_error f) \<and> failure_details f = Some ''validation_error''
             then (?s2\<lparr>clock := back_at (clock ?s2)\<rparr>, ?call (clock ?s2) None) else (?s1, Inl f))"
    unfolding fetch_page_def shopify_adapter_def Let_def adapter.simps by (cases since) (simp_all only: option.case)
  show thesis
  proof (cases "?call (clock s) cursor")
    case (Inr page)
    then show thesis using that [OF fetched [unfolded Inr sum.case]] abandoned_connection [OF assms, of "clock s" cursor 50 since] by simp
  next
    case (Inl f)
    note failed = abandoned_connection [OF assms, of "clock s" cursor 50 since, unfolded Inl]
    show thesis
    proof (cases "first \<and> cursor \<noteq> None \<and> is_integration_error (failure_error f) \<and> failure_details f = Some ''validation_error''")
      case True
      then show thesis
        using that [OF fetched [unfolded Inl sum.case if_P [OF True]]] abandoned_connection [OF assms, of "clock ?s2" None 50 since] by simp
    next
      case False
      then show thesis using that [OF fetched [unfolded Inl sum.case if_not_P [OF False]]] failed by simp
    qed
  qed
qed

lemma empty_page_nothing:
  assumes "job_by s i = Some j"
  shows "sync_page i entity A handler empty_page s = (s, None)"
proof -
  have "job_update i (\<lambda>j. j) s = s" by (simp add: job_update_def set_where_same)
  with assms show ?thesis by (simp add: sync_page_def record_progress_def get_sync_job_simps)
qed

lemma abandoned_loop:
  assumes "answers_query execute" and "job_by s i = Some j"
  obtains s2 raised where "\<And>handler. sync_loop i iid ''abandoned_checkouts'' (shopify_adapter execute nf rid ext back_at) handler since
      deadline first cursor s = Some (s2, raised)"
    and "job_by s2 i = Some j" and "never_fails execute \<Longrightarrow> raised = None"
proof -
  obtain s1 r where page: "fetch_page iid ''abandoned_checkouts'' (shopify_adapter execute nf rid ext back_at) since first cursor s = (s1, r)"
      "r = Inr empty_page \<or> isl r \<and> \<not> never_fails execute" and kept: "job_by s1 i = Some j"
    using abandoned_page [OF assms(1)] assms(2) by metis
  show thesis
  proof (cases r)
    case (Inl f)
    with page kept show thesis by (intro that [of s1 "Some f"]) (subst sync_loop.simps, auto)
  next
    case (Inr _)
    let ?s2 = "if since = None then mark_backlog_complete iid ''abandoned_checkouts'' True (persist_sync_cursor iid ''abandoned_checkouts'' None s1)
      else s1"
    from Inr page have "r = Inr empty_page" by auto
    with page kept show thesis
      by (intro that [of ?s2 None]) (subst sync_loop.simps, simp_all add: empty_page_nothing)
  qed
qed

text \<open>
  C35: abandoned checkouts never arrive from Shopify. The field of their query is \<open>abandonedCheckouts\<close>, and the page is
  looked up in the answer under the name of the entity type, \<open>abandoned_checkouts\<close>, which is not there. So their sync, full
  or incremental, receives and creates nothing, whatever Shopify holds, and the handler that would store a checkout is
  never called: it ends the same way for every handler. When the queries are answered it takes each answer for an empty
  page and completes, with no error to show for it; only a query that fails makes it fail.
\<close>

theorem abandoned_checkouts_never_arrive:
  assumes "answers_query execute" and "job_by s i = Some job" and "sj_entity job = ''abandoned_checkouts''"
    and "mark_running i s = Inr s1" and "integration_by s1 (sj_integration job) = Some n"
    and "adapters (in_code n) = Some (shopify_adapter execute nf rid ext back_at)" and "handlers ''abandoned_checkouts'' = Some handler"
  shows "\<exists>s' j'. execute_sync adapters handlers i s = Some (s', Inr i) \<and> job_by s' i = Some j'
    \<and> sj_received j' = sj_received job \<and> sj_created j' = sj_created job
    \<and> (sj_status j' = completion_status True job \<or> sj_status j' = JOB_FAILED \<and> \<not> never_fails execute)
    \<and> (\<forall>other. execute_sync adapters (handlers(''abandoned_checkouts'' \<mapsto> other)) i s = Some (s', Inr i))"
proof -
  let ?run = "\<lambda>h since resume known. run_entity_sync i (sj_integration job) ''abandoned_checkouts'' (sj_type job) since
    (shopify_adapter execute nf rid ext back_at) h resume known s1"
  obtain j1 where j1: "job_by s1 i = Some j1" "sj_received j1 = sj_received job" "sj_created j1 = sj_created job" "sj_errors j1 = sj_errors job"
    using mark_running_works(1) [OF assms(4,2)] by simp
  define since where "since = since_of s1 (sj_integration job) ''abandoned_checkouts''"
  define resume where "resume = map_of (in_cursors n) ''abandoned_checkouts''"
  define known where "known = backlog_known_complete_for n ''abandoned_checkouts'' since resume"
  obtain s2 raised where run: "\<And>h. ?run h since resume known = Some (s2, raised)" and j2: "job_by s2 i = Some j1"
      and answered: "never_fails execute \<Longrightarrow> raised = None"
    unfolding run_entity_sync_def Let_def by (rule abandoned_loop [OF assms(1) j1(1)]) blast
  have over: "execute_sync adapters hs i s = Some (case raised of
        Some f \<Rightarrow> fail_job i ''abandoned_checkouts'' (page_failure_type f) (error_message (failure_error f)) s2
      | None \<Rightarrow> (case complete_sync i True s2 of Inl e \<Rightarrow> (s2, Inl e) | Inr s3 \<Rightarrow> (s3, Inr i)))" if "hs ''abandoned_checkouts'' = Some h" for hs h
    using assms(2-6) that run [of h]
    by (simp add: execute_sync_def Let_def since_def [symmetric] resume_def [symmetric] known_def [symmetric])
  show ?thesis
  proof (cases raised)
    case None
    obtain s3 j3 where c: "complete_sync i True s2 = Inr s3" "job_by s3 i = Some j3" "completes i True s2 j1 s3 j3"
      using complete_sync_works [OF j2, of True] by blast
    then have "sj_status j3 = completion_status True job \<and> sj_received j3 = sj_received job \<and> sj_created j3 = sj_created job"
      using j1 by (simp add: completes_def completion_status_def)
    then show ?thesis using c over None assms(7) by auto
  next
    case (Some f)
    obtain s0 j0 s3 j3 where c: "fail_job i ''abandoned_checkouts'' (page_failure_type f) (error_message (failure_error f)) s2 = (s3, Inr i)"
        "job_by s3 i = Some j3" "completes i False s0 j0 s3 j3" "sj_received j0 = sj_received j1" "sj_created j0 = sj_created j1"
      by (rule fail_job_works [OF j2])
    then have "sj_status j3 = JOB_FAILED \<and> sj_received j3 = sj_received job \<and> sj_created j3 = sj_created job"
      using j1 by (simp add: completes_def completion_status_def)
    moreover have "\<not> never_fails execute" using answered Some by auto
    ultimately show ?thesis using c over Some assms(7) by auto
  qed
qed

section \<open>Witnesses\<close>

definition demo_client :: "(string, unit) client" where
  "demo_client = \<lparr>cn_now = 1000, cn_world = (), cn_token = Some ''tok'', cn_expires = 100000000000, cn_sent = []\<rparr>"

text \<open>A server that gives one answer to everything, after a second.\<close>

definition demo_server :: "string answer \<Rightarrow> (string, string, unit) server" where
  "demo_server a = \<lparr>sv_answer = (\<lambda>r t w. (a, w)), sv_takes = (\<lambda>r t w. 1000000)\<rparr>"

lemma demo_timely: "timely (demo_server a) 1000000"
  by (simp add: timely_def demo_server_def)

theorem shiprocket_request_bounded_witness:
  "times_sent ''GET /shipments'' (snd (shiprocket_request default_retry_policy (demo_server (Answered ''ok'')) Some ''GET /shipments'' demo_client))
    \<le> times_sent ''GET /shipments'' demo_client + 7"
  using shiprocket_request_bounded [OF demo_timely, of "Answered ''ok''" Some "''GET /shipments''" demo_client] by (simp add: Let_def)

theorem outage_holds_request_witness:
  "\<exists>e c'. shiprocket_request default_retry_policy (demo_server (Status 503 None)) Some ''GET /shipments'' demo_client = (Inl (Api e), c')
    \<and> length (cn_sent c') = 6 \<and> 1860 * 1000000 \<le> cn_now c' - cn_now demo_client \<and> cn_now c' - cn_now demo_client \<le> 1866 * 1000000"
  using outage_holds_request [of "demo_server (Status 503 None)" 1000000 Some "''GET /shipments''" demo_client] demo_timely [of "Status 503 None"]
  by (auto simp: demo_server_def transient_def demo_client_def)

theorem lost_answer_is_sent_again_witness:
  "\<exists>rest. cn_sent (snd (shiprocket_request default_retry_policy (demo_server (Lost Timed_out)) Some ''POST /orders/create/adhoc'' demo_client))
    = [Request ''tok'' ''POST /orders/create/adhoc'', Request ''tok'' ''POST /orders/create/adhoc''] @ rest"
  using lost_answer_is_sent_again [of demo_client "''tok''" "demo_server (Lost Timed_out)" "''POST /orders/create/adhoc''" Timed_out Some]
  by (simp add: demo_client_def demo_server_def)

text \<open>An endpoint that serves a list of creation times.\<close>

definition demo_rest :: "int list \<Rightarrow> int rest" where
  "demo_rest records = (\<lambda>path p limit newest. Inr \<lparr>li_lists = [(''data'', page_of_list p limit records)], li_total_pages = None\<rparr>)"

lemma demo_serves: "serves (demo_rest records) entity limit records"
  by (auto simp: serves_def demo_rest_def fetch_routes_def split: if_splits)

lemma demo_route: "map_of fetch_routes ''ndr'' = Some (''/ndr/all'', [''data'', ''ndr''])"
  by (simp add: fetch_routes_def)

definition demo_since :: instant where
  "demo_since = 11 + incremental_stop_margin"

theorem early_stop_is_safe_witness:
  "\<exists>page. fetch_list_incremental (demo_rest [10, 9, 8]) (\<lambda>_. Some) ''ndr'' demo_since None 2 = Inr page \<and> page_nodes page = [10, 9]
    \<and> \<not> page_more page \<and> (\<forall>t\<in>{8}. t < demo_since - incremental_stop_margin)"
proof -
  let ?page = "\<lparr>page_nodes = [10, 9 :: int], page_next = None, page_more = False\<rparr>"
  have fetched: "fetch_list_incremental (demo_rest [10, 9, 8]) (\<lambda>_. Some) ''ndr'' demo_since None 2 = Inr ?page"
    by (simp add: fetch_list_incremental_def fetch_list_def demo_route demo_rest_def page_number_of_def total_pages_of_def Let_def
        early_stop_def List.map_filter_simps demo_since_def)
  have "\<forall>t\<in>set (drop (nat (1 * 2)) [10, 9, 8]). t < demo_since - incremental_stop_margin"
    by (rule early_stop_is_safe [OF demo_serves demo_route, of None 1 2 "\<lambda>_. Some" "[10, 9, 8]" "[10, 9, 8]" demo_since ?page])
      (simp_all add: page_number_of_def fetched)
  with fetched show ?thesis by simp
qed

abbreviation demo_listing :: "int list \<Rightarrow> (int, int) adapter" where
  "demo_listing records \<equiv> shiprocket_adapter (\<lambda>_. demo_rest records) (\<lambda>_. Some) (\<lambda>_ raw. Inr raw) (\<lambda>_. None) (\<lambda>_. None) (\<lambda>t. t + 1)"

theorem older_records_not_refreshed_witness:
  "sync_loop 70 60 ''ndr'' (demo_listing (replicate 50 10 @ [7])) (\<lambda>n s. (s, Inr True)) (Some demo_since) 5000 True None demo_engine
    = sync_loop 70 60 ''ndr'' (demo_listing (replicate 50 10 @ [8])) (\<lambda>n s. (s, Inr True)) (Some demo_since) 5000 True None demo_engine"
proof -
  have non_increasing: "is_non_increasing (replicate m x)" for m and x :: int
  proof (induction m)
    case (Suc m)
    then show ?case by (cases m) simp_all
  qed simp
  have map_filter_Some: "List.map_filter Some xs = xs" for xs :: "int list"
    by (induction xs) (simp_all add: List.map_filter_simps)
  have "early_stop Some demo_since (page_of_list 1 50 (replicate 50 10 @ [7]))"
    using non_increasing [of 50 10] by (simp add: early_stop_def Let_def map_filter_Some demo_since_def list_all_iff)
  then show ?thesis
    by (intro older_records_not_refreshed [where k = 1 and records = "replicate 50 10 @ [7]" and records' = "replicate 50 10 @ [8]", OF _ _ demo_route])
      (simp_all add: demo_serves)
qed

definition demo_checkouts :: sync_db where
  "demo_checkouts = demo_engine\<lparr>sync_jobs := [(demo_job 70 JOB_QUEUED)\<lparr>sj_entity := ''abandoned_checkouts''\<rparr>]\<rparr>"

definition demo_graphql :: "instant \<Rightarrow> string graphql" where
  "demo_graphql t = (\<lambda>query cursor limit since. Inr [(query, \<lparr>gc_nodes = [''checkout 1''], gc_has_next = False, gc_end = None\<rparr>)])"

theorem abandoned_checkouts_never_arrive_witness:
  "\<exists>s' j'. execute_sync (\<lambda>_. Some (shopify_adapter demo_graphql (\<lambda>_ raw. Inr raw) Some Some (\<lambda>t. t + 1)))
      [''abandoned_checkouts'' \<mapsto> (\<lambda>n s. (s, Inr True))] 70 demo_checkouts = Some (s', Inr 70)
    \<and> job_by s' 70 = Some j' \<and> sj_status j' = JOB_COMPLETED \<and> sj_received j' = 0"
proof -
  let ?job = "(demo_job 70 JOB_QUEUED)\<lparr>sj_entity := ''abandoned_checkouts''\<rparr>"
  have job: "job_by demo_checkouts 70 = Some ?job" by (simp add: job_by_def demo_checkouts_def demo_job_def)
  have answers: "answers_query demo_graphql" "never_fails demo_graphql" by (simp_all add: answers_query_def never_fails_def demo_graphql_def)
  obtain s1 where running: "mark_running 70 demo_checkouts = Inr s1"
    using job by (auto simp: mark_running_def get_sync_job_simps active_jobs_def demo_checkouts_def demo_job_def)
  then obtain n where "integration_by s1 60 = Some n"
    using job by (auto simp: mark_running_def get_sync_job_simps bindR_Inr_iff integration_by_def integration_update_def job_update_def
        demo_checkouts_def demo_engine_def webhook_db.defs demo_job_def set_where_def)
  then have "integration_by s1 (sj_integration ?job) = Some n" by (simp add: demo_job_def)
  from abandoned_checkouts_never_arrive [OF answers(1) job _ running this, where
      adapters = "\<lambda>_. Some (shopify_adapter demo_graphql (\<lambda>_ raw. Inr raw) Some Some (\<lambda>t. t + 1))" and
      nf = "\<lambda>_ raw. Inr raw" and rid = Some and ext = Some and back_at = "\<lambda>t. t + 1" and
      handlers = "[''abandoned_checkouts'' \<mapsto> (\<lambda>n s. (s, Inr True))]" and handler = "\<lambda>n s. (s, Inr True)"]
  obtain s' j' where "execute_sync (\<lambda>_. Some (shopify_adapter demo_graphql (\<lambda>_ raw. Inr raw) Some Some (\<lambda>t. t + 1)))
        [''abandoned_checkouts'' \<mapsto> (\<lambda>n s. (s, Inr True))] 70 demo_checkouts = Some (s', Inr 70)"
      "job_by s' 70 = Some j'" "sj_status j' = completion_status True ?job" "sj_received j' = sj_received ?job"
    using answers(2) by (auto simp del: fun_upd_apply simp: fun_upd_same)
  then show ?thesis by (intro exI [where x = s'] exI [where x = j']) (simp add: completion_status_def demo_job_def)
qed

end
