(* ===== verification/Spec2Isabelle.thy ===== *)
theory Spec2Isabelle
  imports Stock_Props Marketplace_Props Orders_Props Shipping_Props Returns_Props Telecalling_Props Payments_Props Sync_Props Access_Props Reconciliation_Props Providers_Props
begin

text \<open>
  A model of the order management system under \<open>src/apps/api/app\<close> (paths below are relative to it) and the theorems that
  make it correct, or that show where it is not.

  \<^bold>\<open>The program.\<close> Orders arrive from Shopify by webhooks and scheduled syncs or are entered by hand. A telecaller confirms
  them by phone, a shipment is made with Shiprocket, and the courier's tracking events move its status; the events that
  show it on its way take stock, its return to origin gives it back. Customers may return goods and be refunded, and may pay
  online through Cashfree. Sales on marketplaces are kept in ledgers by hand, which move the same stock. A sync engine runs
  the crawls of the providers as jobs, a reconciliation compares the tables with the providers, and every request passes
  the guards of the accounts and roles. Services read and write rows through repositories in one database session per
  request; some commit several times.

  \<^bold>\<open>How a service becomes a theory.\<close> Each component has a record of the tables it owns, which extends the record of the
  components below it: \<open>base_db\<close>, \<open>stock_db\<close>, \<open>market_db\<close>, \<open>order_db\<close>, \<open>courier_db\<close>, \<open>shipping_db\<close>, \<open>returns_db\<close>, and on
  \<open>returns_db\<close> the branches \<open>tele_db\<close> and \<open>webhook_db\<close> with \<open>pay_db\<close>, \<open>sync_db\<close> and \<open>recon_db\<close>; the accounts extend
  \<open>shipping_db\<close>. An operation is written for every extension of the tables it uses and has the name of the method it
  models. It is a \<open>result\<close> (\<open>Inl\<close> an exception, nothing committed), a \<open>committed\<close> (a database and perhaps the exception
  raised after the last commit) or an \<open>attempt\<close> (a database and an exception or a value). Guards come in the order of the
  code, and every raise and early return is a branch.

  \<^bold>\<open>The theories.\<close>
  \<^item> \<open>Oms_Prelude\<close>: the exceptions of \<open>core/exceptions.py\<close> as values, sequencing, loops, text functions, row tables.
    \<open>Oms_Store\<close>: keys, clock and audit log (\<open>repositories/base.py\<close>, \<open>services/audit_service.py\<close>), and the interfaces of a
    running ledger and of a dated ledger. \<open>Ist_Calendar\<close>: \<open>core/timezone.py\<close>.
  \<^item> \<open>Stock\<close>, \<open>Stock_Props\<close>: \<open>services/inventory_service.py\<close>. The stock of a variant is explained by its movement rows; an
    order is dispatched and restocked once, and a restock gives back what was dispatched.
  \<^item> \<open>Marketplace\<close>, \<open>_Facts\<close>, \<open>_Props\<close>: \<open>services/platform_inventory_service.py\<close>. The marketplace ledgers and the stock
    move together; what an undo takes back.
  \<^item> \<open>Orders\<close>, \<open>_Facts\<close>, \<open>_Props\<close>: \<open>services/order_service.py\<close> with the pushes of \<open>shopify_fulfillment_service.py\<close> and the
    check of \<open>address_validation_service.py\<close>. The status of an order moves along its table; reverting a confirmation leaves
    nothing live at the provider; a repeated sync settles.
  \<^item> \<open>Couriers\<close>, \<open>Shipping\<close>, \<open>Shipping_Facts\<close>, \<open>Shipping_Props\<close>: \<open>courier_service.py\<close>, \<open>shipment_service.py\<close>,
    \<open>ndr_service.py\<close>, \<open>rto_service.py\<close>, \<open>shiprocket_service.py\<close>, \<open>shiprocket_webhook_service.py\<close> and
    \<open>integrations/shiprocket/sync.py\<close>. Tracking events: what they do to stock and status, and which shipment a webhook may
    touch.
  \<^item> \<open>Returns\<close>, \<open>Returns_Props\<close>: \<open>return_service.py\<close>, \<open>refund_service.py\<close>. One refund per return, and how far its amount may
    be from the exact share.
  \<^item> \<open>Telecalling\<close>, \<open>_Facts\<close>, \<open>_Props\<close>: \<open>telecalling_service.py\<close>, \<open>lead_classification.py\<close>, \<open>repositories/telecalling.py\<close>.
    The history of calls as a map from attempt numbers, one active assignment, isolation of telecallers, lead pools.
  \<^item> \<open>Webhooks\<close>: \<open>webhook_service.py\<close>. \<open>Payments\<close>, \<open>_Facts\<close>, \<open>_Props\<close>: \<open>cashfree_payment_service.py\<close>,
    \<open>cashfree_sync_service.py\<close> and \<open>api/v1/webhooks/cashfree.py\<close>. A payment is paid only when verified; what happens to
    repeated, failed and early events; the ids given to Cashfree.
  \<^item> \<open>Sync\<close>, \<open>Entity_Sync\<close>, \<open>Sync_Facts\<close>, \<open>Sync_Crawl\<close>, \<open>Sync_Props\<close>: \<open>sync_service.py\<close>, \<open>integrations/entity_sync.py\<close>, the
    tasks. A run ends and its counts add up; one job per entity is active; the reaper unblocks; a backlog completes.
  \<^item> \<open>Access\<close>, \<open>Access_Props\<close>: \<open>auth_service.py\<close>, \<open>user_service.py\<close>, \<open>rbac_service.py\<close>, \<open>dependencies/auth.py\<close>.
  \<^item> \<open>Reconciliation\<close>, \<open>Reconciliation_Props\<close>: \<open>reconciliation_service.py\<close>. It reports, repairs nothing, and completes.
  \<^item> \<open>Providers\<close>, \<open>Providers_Props\<close>: the clients of Shiprocket, Shopify and Cashfree and the reading part of the adapters.
    What a request may cost and cause, and which records a crawl reads.

  \<^bold>\<open>Interfaces.\<close> \<open>running_ledger\<close> and \<open>dated_ledger\<close> (\<open>Oms_Store\<close>) are the contracts of the stock ledger and of the two
  marketplace ledgers; \<open>order_moves\<close> (\<open>Stock\<close>) and \<open>moved_once\<close> (\<open>Shipping_Facts\<close>) those of dispatch and restock;
  \<open>status_machine\<close> that of the order status; \<open>lead_store\<close> and \<open>lead_frame\<close> those of the order leads and the checkout leads;
  \<open>upsert_contract\<close> what the engine asks of the upsert of an entity, met by orders, NDRs, shipments and refunds. Each is
  interpreted on the definitions of the model.

  \<^bold>\<open>Runs.\<close> Where a property speaks of every reachable state, the operations of a component are the steps of a relation:
  \<open>stock_step\<close>, \<open>market_step\<close>, \<open>order_step\<close>, \<open>return_step\<close>, \<open>tele_step\<close>, \<open>sync_run\<close>, \<open>access_run\<close>. \<open>tele_step\<close> has a
  step for whatever happens beside the workflow, the roles and leaders of users included: the leader column of an
  assignment is a snapshot. Events of payments run one after another with the database failing at any of their commits.

  \<^bold>\<open>What the model abstracts from.\<close>
  \<^item> A primary key is the next number (\<open>next_id\<close>), not a random one. An instant is a number of microseconds; the clock is a
    field of the database and moves where the code reads it again or waits.
  \<^item> Amounts are exact rationals, except for the refund, whose roundings to 28 digits and to cents are written out.
  \<^item> Text is ASCII. The values an f-string puts into a message are left out of it; what code compares is kept.
  \<^item> A session that is closed without commit leaves the database as it was. Rows that other transactions commit after the
    snapshot of the running one are parameters (\<open>unseen_moves\<close>, \<open>unseen_reversals\<close>, \<open>unseen_replacements\<close>, the
    \<open>meanwhile\<close> steps of a starting sync): queries do not see them, unique constraints do.
  \<^item> Providers, gateways, JSON, signatures, digests and token codecs are parameters. A provider of the sync is an \<open>adapter\<close>; in
    \<open>Providers\<close> it is a server, a function of time and state, and the client keeps the requests it has sent.
  \<^item> Raw payload columns and columns nothing reads are not kept; a join row is the pair of its keys. Paging of lists is not
    modelled where it only cuts a result.

  \<^bold>\<open>Loops.\<close> Loops over lists are recursive functions. \<open>sync_loop\<close> and \<open>run_sync\<close> are partial functions, \<open>None\<close> where they
  never return; \<open>sync_always_ends\<close> shows that a run returns for every provider whose calls take time, because the loop stops
  at the first page past its budget of eight minutes. \<open>retry_loop\<close> is total: every round uses up an attempt or the one
  repeated login, so a request of Shiprocket is sent seven times at most and pauses for 1860 seconds at most. The bulk syncs
  of Cashfree read fifty pages at most (\<open>max_pages_per_sync\<close>), as the code does. The search for an unused courier code is a
  partial function that is shown to end. The time limits of the worker processes (\<open>workers/celery_app.py\<close>) act from outside
  and are not modelled.

  \<^bold>\<open>Not modelled.\<close> Reports, dashboards, forecasts, exports and the chat assistant, which read only; the column copies of
  customers, products and abandoned checkouts, which enter as handlers with a contract; the field by field normalisation of
  payloads; address validation providers; the registry and configuration; endpoints that only pass on a service call;
  logging, rate limits and queue routing; migrations and scripts; the web frontend.
\<close>

end
